(* ===== verification/Prelude.thy ===== *)
theory Prelude
  imports Main "HOL-Library.Word"
begin

section \<open>Shared vocabulary of the development\<close>

text \<open>
  What the component theories share: Go's machine integers, the byte-string operations of
  package \<open>strings\<close> that the modelled code uses, generic lemmas on them, and the collections
  of facts the component proofs are driven by.

  A Go \<open>string\<close> is a sequence of bytes and is modelled as Isabelle's \<open>string\<close>, a list of
  8-bit characters.  A Go \<open>int\<close>, \<open>int64\<close> or \<open>time.Duration\<close> is an \<^typ>\<open>int\<close>; where an
  arithmetic result can leave the 64-bit range, the definition wraps it with \<open>wrap64\<close>.  An
  instant (\<open>time.Time\<close>) is the number of nanoseconds since a fixed origin.
\<close>

named_theorems conv_simps \<open>evaluation of the stream converters' handlers\<close>
named_theorems order_simps \<open>evaluation of the payment order handlers\<close>
named_theorems idem_simps \<open>evaluation of the idempotency store operations\<close>
named_theorems sub_simps \<open>evaluation of the subscription operations\<close>

subsection \<open>Machine integers\<close>

definition wrap64 :: "int \<Rightarrow> int" where
  "wrap64 x = (x + 2 ^ 63) mod 2 ^ 64 - 2 ^ 63"

definition in_int64 :: "int \<Rightarrow> bool" where
  "in_int64 x \<longleftrightarrow> - (2 ^ 63) \<le> x \<and> x < 2 ^ 63"

lemma wrap64_id: "in_int64 x \<Longrightarrow> wrap64 x = x"
  by (simp add: wrap64_def in_int64_def)

lemma wrap64_range: "in_int64 (wrap64 x)"
  by (simp add: wrap64_def in_int64_def)

text \<open>\<open>wrap64\<close> is reading back the low 64 bits as two's complement.\<close>

lemma wrap64_word: "wrap64 x = sint (word_of_int x :: 64 word)"
  by (simp add: wrap64_def sint_sbintrunc' signed_take_bit_eq_take_bit_shift take_bit_eq_mod)

subsection \<open>Byte strings\<close>

fun has_prefix :: "string \<Rightarrow> string \<Rightarrow> bool" where
  "has_prefix s [] = True"
| "has_prefix [] (_ # _) = False"
| "has_prefix (c # s) (p # ps) = (c = p \<and> has_prefix s ps)"

text \<open>\<open>strings.CutPrefix\<close>: the rest after the prefix, or \<open>None\<close>.\<close>

definition cut_prefix :: "string \<Rightarrow> string \<Rightarrow> string option" where
  "cut_prefix s p = (if has_prefix s p then Some (drop (length p) s) else None)"

lemma has_prefix_iff: "has_prefix s p \<longleftrightarrow> (\<exists>r. s = p @ r)"
  by (induction s p rule: has_prefix.induct) auto

lemma has_prefix_append [simp]: "has_prefix (p @ r) p"
  by (auto simp: has_prefix_iff)

lemma cut_prefix_append [simp]: "cut_prefix (p @ r) p = Some r"
  by (simp add: cut_prefix_def)

lemma cut_prefix_SomeD: "cut_prefix s p = Some r \<Longrightarrow> s = p @ r"
  by (auto simp: cut_prefix_def has_prefix_iff split: if_splits)

text \<open>
  \<open>strings.TrimSpace\<close> removes leading and trailing Unicode white space.  \<open>space_len s\<close> is the
  number of bytes of the white-space code point a string starts with (0 if it starts with none),
  \<open>space_len_rev\<close> the same for the last code point of a reversed string: the ASCII ones, and the
  UTF-8 encodings of U+0085, U+00A0, U+1680, U+2000 to U+200A, U+2028, U+2029, U+202F, U+205F and
  U+3000.
\<close>

definition ascii_space :: "char \<Rightarrow> bool" where
  "ascii_space c \<longleftrightarrow> c \<in> {CHR 0x09, CHR 0x0A, CHR 0x0B, CHR 0x0C, CHR 0x0D, CHR 0x20}"

definition space2 :: "char \<Rightarrow> char \<Rightarrow> bool" where
  "space2 a b \<longleftrightarrow> a = CHR 0xC2 \<and> (b = CHR 0x85 \<or> b = CHR 0xA0)"

definition space3 :: "char \<Rightarrow> char \<Rightarrow> char \<Rightarrow> bool" where
  "space3 a b c \<longleftrightarrow>
     a = CHR 0xE1 \<and> b = CHR 0x9A \<and> c = CHR 0x80 \<or>
     a = CHR 0xE2 \<and> b = CHR 0x80 \<and>
       (of_char c \<in> {0x80..0x8A :: nat} \<or> c = CHR 0xA8 \<or> c = CHR 0xA9 \<or> c = CHR 0xAF) \<or>
     a = CHR 0xE2 \<and> b = CHR 0x81 \<and> c = CHR 0x9F \<or>
     a = CHR 0xE3 \<and> b = CHR 0x80 \<and> c = CHR 0x80"

fun space_len :: "string \<Rightarrow> nat" where
  "space_len [] = 0"
| "space_len (a # s) =
     (if ascii_space a then 1
      else case s of
        [] \<Rightarrow> 0
      | b # s' \<Rightarrow>
          (if space2 a b then 2
           else case s' of [] \<Rightarrow> 0 | c # _ \<Rightarrow> (if space3 a b c then 3 else 0)))"

fun space_len_rev :: "string \<Rightarrow> nat" where
  "space_len_rev [] = 0"
| "space_len_rev (a # s) =
     (if ascii_space a then 1
      else case s of
        [] \<Rightarrow> 0
      | b # s' \<Rightarrow>
          (if space2 b a then 2
           else case s' of [] \<Rightarrow> 0 | c # _ \<Rightarrow> (if space3 c b a then 3 else 0)))"

function drop_while_len :: "(string \<Rightarrow> nat) \<Rightarrow> string \<Rightarrow> string" where
  "drop_while_len f [] = []"
| "drop_while_len f (c # s) =
     (if f (c # s) = 0 then c # s else drop_while_len f (drop (f (c # s)) (c # s)))"
  by pat_completeness auto
termination
  by (relation "measure (\<lambda>(f, s). length s)") auto

definition trim_space :: "string \<Rightarrow> string" where
  "trim_space s = rev (drop_while_len space_len_rev (rev (drop_while_len space_len s)))"

lemma drop_while_len_id: "f s = 0 \<Longrightarrow> drop_while_len f s = s"
  by (cases s) auto

lemma drop_while_len_stop: "f [] = 0 \<Longrightarrow> f (drop_while_len f s) = 0"
  by (induction f s rule: drop_while_len.induct) auto

lemma drop_while_len_suffix: "\<exists>p. s = p @ drop_while_len f s"
proof (induction f s rule: drop_while_len.induct)
  case (1 f)
  then show ?case by simp
next
  case (2 f c s)
  show ?case
  proof (cases "f (c # s) = 0")
    case True
    then show ?thesis by simp
  next
    case False
    with 2 obtain p where p: "drop (f (c # s)) (c # s) = p @ drop_while_len f (drop (f (c # s)) (c # s))"
      by blast
    have "c # s = take (f (c # s)) (c # s) @ drop (f (c # s)) (c # s)" by simp
    with p False show ?thesis by (metis append.assoc drop_while_len.simps(2))
  qed
qed

text \<open>
  \<open>strings.EqualFold\<close> against an ASCII word without the letters k and s (the two ASCII letters to
  which non-ASCII code points fold) compares the ASCII lower-case forms.
\<close>

definition ascii_lower :: "char \<Rightarrow> char" where
  "ascii_lower c =
     (if of_char c \<in> {65..90 :: nat} then char_of (of_char c + 32 :: nat) else c)"

definition equal_fold :: "string \<Rightarrow> string \<Rightarrow> bool" where
  "equal_fold s t \<longleftrightarrow> map ascii_lower s = map ascii_lower t"

text \<open>\<open>strings.EqualFold\<close> on any two strings of ASCII and the two code points that fold to ASCII, U+017F and U+212A.\<close>

fun fold_special :: "string \<Rightarrow> string" where
  "fold_special [] = []"
| "fold_special [c] = [c]"
| "fold_special [c, d] = (if c = CHR 0xC5 \<and> d = CHR 0xBF then ''s'' else [c, d])"
| "fold_special (c # d # b # s) =
     (if c = CHR 0xC5 \<and> d = CHR 0xBF then CHR ''s'' # fold_special (b # s)
      else if c = CHR 0xE2 \<and> d = CHR 0x84 \<and> b = CHR 0xAA then CHR ''k'' # fold_special s
      else c # fold_special (d # b # s))"

definition EqualFold :: "string \<Rightarrow> string \<Rightarrow> bool" where
  "EqualFold s t \<longleftrightarrow> equal_fold (fold_special s) (fold_special t)"

text \<open>
  UTF-8 validity as in package \<open>unicode/utf8\<close>: \<open>rune_len s\<close> is the length of the code point that
  \<open>s\<close> starts with, 0 if its first bytes are not a valid encoding (overlong forms, surrogates and
  values beyond U+10FFFF are not).
\<close>

definition cont_byte :: "char \<Rightarrow> bool" where
  "cont_byte c \<longleftrightarrow> of_char c \<in> {0x80..0xBF :: nat}"

definition second_byte :: "nat \<Rightarrow> char \<Rightarrow> bool" where
  "second_byte a b \<longleftrightarrow>
     (if a = 0xE0 then of_char b \<in> {0xA0..0xBF :: nat}
      else if a = 0xED then of_char b \<in> {0x80..0x9F :: nat}
      else if a = 0xF0 then of_char b \<in> {0x90..0xBF :: nat}
      else if a = 0xF4 then of_char b \<in> {0x80..0x8F :: nat}
      else cont_byte b)"

fun rune_len :: "string \<Rightarrow> nat" where
  "rune_len [] = 0"
| "rune_len (a # s) =
     (let n = of_char a in
      if n < 0x80 then 1
      else if n \<in> {0xC2..0xDF} then
        (case s of b # _ \<Rightarrow> (if cont_byte b then 2 else 0) | _ \<Rightarrow> 0)
      else if n \<in> {0xE0..0xEF} then
        (case s of b # c # _ \<Rightarrow> (if second_byte n b \<and> cont_byte c then 3 else 0) | _ \<Rightarrow> 0)
      else if n \<in> {0xF0..0xF4} then
        (case s of b # c # d # _ \<Rightarrow>
             (if second_byte n b \<and> cont_byte c \<and> cont_byte d then 4 else 0)
         | _ \<Rightarrow> 0)
      else 0)"

definition utf8_valid :: "string \<Rightarrow> bool" where
  "utf8_valid s \<longleftrightarrow> drop_while_len rune_len s = []"

function trim_to_utf8 :: "string \<Rightarrow> string" where
  "trim_to_utf8 s = (if s = [] \<or> utf8_valid s then s else trim_to_utf8 (butlast s))"
  by pat_completeness auto
termination
  by (relation "measure length") auto

declare trim_to_utf8.simps [simp del]

text \<open>\<open>truncateString\<close> of \<open>service/ops_metrics_collector.go\<close>: at most \<open>max\<close> bytes, cut at a code point.\<close>

definition truncateString :: "string \<Rightarrow> int \<Rightarrow> string" where
  "truncateString s n =
     (if n \<le> 0 then ''''
      else if int (length s) \<le> n then s
      else trim_to_utf8 (take (nat n) s))"

lemma trim_to_utf8_spec:
  "utf8_valid (trim_to_utf8 s) \<and> (\<exists>r. s = trim_to_utf8 s @ r)"
proof (induction s rule: trim_to_utf8.induct)
  case (1 s)
  show ?case
  proof (cases "s = [] \<or> utf8_valid s")
    case True
    then show ?thesis by (auto simp: trim_to_utf8.simps [of s] utf8_valid_def)
  next
    case False
    with 1 obtain r where "utf8_valid (trim_to_utf8 (butlast s))"
      "butlast s = trim_to_utf8 (butlast s) @ r" by blast
    with False show ?thesis
      by (metis append.assoc append_butlast_last_id trim_to_utf8.simps)
  qed
qed

lemma truncateString_bounds:
  "int (length (truncateString s n)) \<le> (if n \<le> 0 then 0 else n) \<and>
   (\<exists>r. s = truncateString s n @ r)"
proof (cases "n \<le> 0 \<or> int (length s) \<le> n")
  case True
  then show ?thesis by (auto simp: truncateString_def)
next
  case False
  obtain r where r: "take (nat n) s = trim_to_utf8 (take (nat n) s) @ r"
    using trim_to_utf8_spec by blast
  then have "s = trim_to_utf8 (take (nat n) s) @ (r @ drop (nat n) s)"
    by (metis append.assoc append_take_drop_id)
  moreover have "length (trim_to_utf8 (take (nat n) s)) \<le> length (take (nat n) s)"
    using r by (metis le_add1 length_append)
  ultimately show ?thesis using False by (auto simp: truncateString_def)
qed

subsection \<open>Decimal numerals\<close>

text \<open>
  \<open>strconv.Itoa\<close> (also \<open>strconv.FormatInt\<close> in base 10) and \<open>strconv.Atoi\<close>: an optional sign and
  at least one digit; a value outside the 64-bit range is an error.
\<close>

function itoa_nat :: "nat \<Rightarrow> string" where
  "itoa_nat n = (if n < 10 then [] else itoa_nat (n div 10)) @ [char_of (48 + n mod 10)]"
  by pat_completeness auto
termination
  by (relation "measure id") auto

declare itoa_nat.simps [simp del]

definition itoa :: "int \<Rightarrow> string" where
  "itoa n = (if n < 0 then CHR ''-'' # itoa_nat (nat (- n)) else itoa_nat (nat n))"

definition digit :: "char \<Rightarrow> bool" where
  "digit c \<longleftrightarrow> of_char c \<in> {48..57 :: nat}"

fun digits_val :: "nat \<Rightarrow> string \<Rightarrow> nat" where
  "digits_val n [] = n"
| "digits_val n (c # s) = digits_val (10 * n + (of_char c - 48)) s"

definition parse_digits :: "string \<Rightarrow> nat option" where
  "parse_digits s = (if s \<noteq> [] \<and> list_all digit s then Some (digits_val 0 s) else None)"

definition atoi :: "string \<Rightarrow> int option" where
  "atoi s =
     (let signed = s \<noteq> [] \<and> (hd s = CHR ''-'' \<or> hd s = CHR ''+'') in
      case parse_digits (if signed then tl s else s) of
        None \<Rightarrow> None
      | Some n \<Rightarrow>
          (let v = (if signed \<and> hd s = CHR ''-'' then - int n else int n) in
           if in_int64 v then Some v else None))"

lemma digits_val_append: "digits_val n (s @ [c]) = 10 * digits_val n s + (of_char c - 48)"
  by (induction n s rule: digits_val.induct) auto

lemma of_char_digit: "n < 10 \<Longrightarrow> of_char (char_of (48 + n :: nat)) = (48 + n :: nat)"
  by simp

lemma itoa_nat_digits: "itoa_nat n \<noteq> [] \<and> list_all digit (itoa_nat n) \<and> digits_val 0 (itoa_nat n) = n"
proof (induction n rule: itoa_nat.induct)
  case (1 n)
  have d: "of_char (char_of (48 + n mod 10) :: char) = 48 + n mod 10" by (rule of_char_digit) simp
  have "digit (char_of (48 + n mod 10))" using d by (simp add: digit_def)
  moreover have "digits_val 0 (itoa_nat n) = n"
  proof (cases "n < 10")
    case True
    then show ?thesis using d by (simp add: itoa_nat.simps [of n])
  next
    case False
    then show ?thesis using 1 d by (simp add: itoa_nat.simps [of n] digits_val_append)
  qed
  ultimately show ?case using 1 by (cases "n < 10") (simp_all add: itoa_nat.simps [of n])
qed

lemma digit_not_sign: "digit c \<Longrightarrow> c \<noteq> CHR ''-'' \<and> c \<noteq> CHR ''+''"
  by (auto simp: digit_def)

lemma parse_itoa_nat [simp]: "parse_digits (itoa_nat n) = Some n"
  using itoa_nat_digits [of n] by (simp add: parse_digits_def)

lemma itoa_nat_unsigned: "hd (itoa_nat n) \<noteq> CHR ''-'' \<and> hd (itoa_nat n) \<noteq> CHR ''+''"
proof -
  have "digit (hd (itoa_nat n))" using itoa_nat_digits [of n] by (cases "itoa_nat n") auto
  then show ?thesis by (rule digit_not_sign)
qed

lemma itoa_nat_nonempty [simp]: "itoa_nat n \<noteq> []"
  using itoa_nat_digits [of n] by simp

lemma atoi_itoa: "in_int64 n \<Longrightarrow> atoi (itoa n) = Some n"
  using itoa_nat_unsigned [of "nat n"] by (auto simp: atoi_def itoa_def Let_def in_int64_def)

lemma itoa_ascii: "c \<in> set (itoa n) \<Longrightarrow> digit c \<or> c = CHR ''-''"
  using itoa_nat_digits [of "nat n"] itoa_nat_digits [of "nat (- n)"]
  by (auto simp: itoa_def list_all_iff split: if_splits)

lemma itoa_nonempty [simp]: "itoa n \<noteq> []"
  using itoa_nat_digits [of "nat n"] by (simp add: itoa_def)

text \<open>Printable ASCII has no white space to trim.\<close>


lemma space_bytes:
  "ascii_space c \<Longrightarrow> of_char c \<le> (32 :: nat)"
  "space2 a b \<Longrightarrow> of_char a \<ge> (128 :: nat) \<and> of_char b \<ge> (128 :: nat)"
  "space3 a b c \<Longrightarrow> of_char a \<ge> (128 :: nat) \<and> of_char c \<ge> (128 :: nat)"
  by (auto simp: ascii_space_def space2_def space3_def)

lemma plain_no_space:
  assumes "of_char c \<in> {33..127 :: nat}"
  shows "space_len (c # s) = 0" and "space_len_rev (c # s) = 0"
proof -
  have "\<not> ascii_space c" "\<not> space2 c b" "\<not> space2 b c" "\<not> space3 c a b" "\<not> space3 a b c" for a b
    using assms space_bytes(1) [of c] space_bytes(2) [of c b] space_bytes(2) [of b c]
      space_bytes(3) [of c a b] space_bytes(3) [of a b c] by force+
  then show "space_len (c # s) = 0" "space_len_rev (c # s) = 0"
    by (auto split: list.splits)
qed

lemma trim_plain:
  assumes "list_all (\<lambda>c. of_char c \<in> {33..127 :: nat}) s"
  shows "trim_space s = s"
proof -
  have f: "drop_while_len space_len t = t" "drop_while_len space_len_rev t = t"
    if "list_all (\<lambda>c. of_char c \<in> {33..127 :: nat}) t" for t
    using that plain_no_space by (cases t; auto simp del: space_len.simps space_len_rev.simps)+
  from f(1) [OF assms] f(2) [of "rev s"] assms show ?thesis
    by (simp add: trim_space_def)
qed

lemma trim_itoa [simp]: "trim_space (itoa n) = itoa n"
proof -
  have "of_char c \<in> {33..127 :: nat}" if "digit c \<or> c = CHR ''-''" for c
    using that by (auto simp: digit_def)
  with itoa_ascii show ?thesis by (intro trim_plain) (auto simp: list_all_iff)
qed

subsection \<open>Runs of steps with output, and checkers\<close>

text \<open>
  A component that consumes input events, keeps a state and emits output events is a function
  \<open>step e s = (outputs, s')\<close>; \<open>run_steps\<close> feeds it a list of events.  A checker reads a list
  of events one by one and fails with \<open>None\<close> at the first event it does not allow.
\<close>

fun run_steps :: "('e \<Rightarrow> 's \<Rightarrow> 'o list \<times> 's) \<Rightarrow> 'e list \<Rightarrow> 's \<Rightarrow> 'o list \<times> 's" where
  "run_steps step [] s = ([], s)"
| "run_steps step (e # es) s =
     (case step e s of (os, s') \<Rightarrow>
        (case run_steps step es s' of (os', s'') \<Rightarrow> (os @ os', s'')))"

fun run_check :: "('c \<Rightarrow> 'o \<Rightarrow> 'c option) \<Rightarrow> 'c \<Rightarrow> 'o list \<Rightarrow> 'c option" where
  "run_check chk c [] = Some c"
| "run_check chk c (e # es) =
     (case chk c e of None \<Rightarrow> None | Some c' \<Rightarrow> run_check chk c' es)"

lemma run_check_append:
  "run_check chk c (xs @ ys) =
     (case run_check chk c xs of None \<Rightarrow> None | Some c' \<Rightarrow> run_check chk c' ys)"
  by (induction xs arbitrary: c) (auto split: option.splits)

lemma run_check_append_Some:
  "run_check chk c xs = Some c' \<Longrightarrow> run_check chk c' ys = Some c'' \<Longrightarrow>
   run_check chk c (xs @ ys) = Some c''"
  by (simp add: run_check_append)

lemma run_steps_append:
  "run_steps step (xs @ ys) s =
     (case run_steps step xs s of (os, s') \<Rightarrow>
        (case run_steps step ys s' of (os', s'') \<Rightarrow> (os @ os', s'')))"
  by (induction xs arbitrary: s) (auto split: prod.splits)

lemma run_steps_Cons_fst_snd:
  "fst (run_steps step (e # es) s) = fst (step e s) @ fst (run_steps step es (snd (step e s)))"
  "snd (run_steps step (e # es) s) = snd (run_steps step es (snd (step e s)))"
  by (auto split: prod.splits)

text \<open>
  The interface every converter proof goes through.  \<open>up\<close> checks the input, \<open>chk\<close> checks the
  output, and \<open>R\<close> relates the input checker's state, the converter's state and the output
  checker's state.  One obligation per input event gives acceptance of every whole run.
\<close>

locale conversion =
  fixes step :: "'e \<Rightarrow> 's \<Rightarrow> 'o list \<times> 's"
    and up :: "'u \<Rightarrow> 'e \<Rightarrow> 'u option"
    and chk :: "'c \<Rightarrow> 'o \<Rightarrow> 'c option"
    and R :: "'u \<Rightarrow> 's \<Rightarrow> 'c \<Rightarrow> bool"
  assumes step_sim: "R u s c \<Longrightarrow> up u e = Some u' \<Longrightarrow> step e s = (os, s') \<Longrightarrow>
    \<exists>c'. run_check chk c os = Some c' \<and> R u' s' c'"
begin

lemma run_sim:
  assumes "R u s c" and "run_check up u es = Some u'" and "run_steps step es s = (os, s')"
  shows "\<exists>c'. run_check chk c os = Some c' \<and> R u' s' c'"
  using assms
proof (induction es arbitrary: u s c os)
  case Nil
  then show ?case by auto
next
  case (Cons e es)
  from Cons.prems(2) obtain u1 where u1: "up u e = Some u1" "run_check up u1 es = Some u'"
    by (auto split: option.splits)
  obtain os1 s1 where s1: "step e s = (os1, s1)" by (cases "step e s")
  obtain os2 where s2: "run_steps step es s1 = (os2, s')" and os: "os = os1 @ os2"
    using Cons.prems(3) s1 by (auto split: prod.splits)
  from step_sim [OF Cons.prems(1) u1(1) s1] obtain c1
    where c1: "run_check chk c os1 = Some c1" "R u1 s1 c1" by blast
  from Cons.IH [OF c1(2) u1(2) s2] c1(1) os show ?case
    by (auto intro: run_check_append_Some)
qed

end

text \<open>The special case without an input discipline: every input event is allowed.\<close>

definition any_input :: "unit \<Rightarrow> 'e \<Rightarrow> unit option" where
  "any_input u e = Some ()"

lemma run_any_input [simp]: "run_check any_input u es = Some ()"
  by (induction es) (auto simp: any_input_def)

locale unconditional_conversion =
  fixes step :: "'e \<Rightarrow> 's \<Rightarrow> 'o list \<times> 's"
    and chk :: "'c \<Rightarrow> 'o \<Rightarrow> 'c option"
    and R :: "'s \<Rightarrow> 'c \<Rightarrow> bool"
  assumes any_step_sim: "R s c \<Longrightarrow> step e s = (os, s') \<Longrightarrow>
    \<exists>c'. run_check chk c os = Some c' \<and> R s' c'"

sublocale unconditional_conversion \<subseteq> conv: conversion step any_input chk "\<lambda>_. R"
  by unfold_locales (rule any_step_sim)

context unconditional_conversion
begin

lemma any_run_sim:
  assumes "R s c"
  shows "\<exists>c'. run_check chk c (fst (run_steps step es s)) = Some c' \<and> R (snd (run_steps step es s)) c'"
  by (rule conv.run_sim [where u = "()" and u' = "()" and es = es]) (simp_all add: assms)

end

subsection \<open>Loops with a budget\<close>

text \<open>
  A loop that reacts to one environment input per round either goes on (\<open>None\<close>) or ends with a
  result.  In \<open>loop_budget\<close> every round that goes on pays its weight from a potential: a run that
  is still going has spent no more than the potential it started with.
\<close>

fun run_loop :: "('i \<Rightarrow> 's \<Rightarrow> 's \<times> 'r option) \<Rightarrow> 'i list \<Rightarrow> 's \<Rightarrow> 's \<times> 'r option" where
  "run_loop step [] s = (s, None)"
| "run_loop step (i # is) s =
     (case step i s of
        (s', None) \<Rightarrow> run_loop step is s'
      | (s', Some r) \<Rightarrow> (s', Some r))"

locale loop_budget =
  fixes step :: "'i \<Rightarrow> 's \<Rightarrow> 's \<times> 'r option"
    and ok :: "'i \<Rightarrow> bool"
    and inv :: "'s \<Rightarrow> bool"
    and weight :: "'i \<Rightarrow> nat"
    and pot :: "'s \<Rightarrow> nat"
  assumes keep: "inv s \<Longrightarrow> ok i \<Longrightarrow> inv (fst (step i s))"
    and pay: "inv s \<Longrightarrow> ok i \<Longrightarrow> step i s = (s', None) \<Longrightarrow> pot s' + weight i \<le> pot s"
begin

lemma run_inv: "inv s \<Longrightarrow> list_all ok is \<Longrightarrow> inv (fst (run_loop step is s))"
proof (induction "is" arbitrary: s)
  case (Cons i "is")
  then have "inv (fst (step i s))" by (simp add: keep)
  with Cons show ?case by (auto split: prod.splits option.splits)
qed simp

lemma run_budget:
  "inv s \<Longrightarrow> list_all ok is \<Longrightarrow> run_loop step is s = (s', None) \<Longrightarrow>
   pot s' + sum_list (map weight is) \<le> pot s"
proof (induction "is" arbitrary: s)
  case (Cons i "is")
  obtain s1 where s1: "step i s = (s1, None)" "run_loop step is s1 = (s', None)"
    using Cons.prems(3) by (auto split: prod.splits option.splits)
  have "inv s1" using keep [OF Cons.prems(1), of i] Cons.prems(2) s1 by simp
  with Cons.IH [OF _ _ s1(2)] pay [OF Cons.prems(1) _ s1(1)] Cons.prems(2) show ?case by simp
qed simp

lemma run_ends:
  assumes "inv s" and "list_all ok is" and "pot s < sum_list (map weight is)"
  shows "\<exists>s' r. run_loop step is s = (s', Some r)"
  using run_budget [OF assms(1,2)] assms(3)
  by (cases "run_loop step is s"; cases "snd (run_loop step is s)") auto

end

end
