(* ===== verification/AnthropicStream.thy ===== *)
theory AnthropicStream
  imports Prelude
begin

section \<open>Responses API to Anthropic Messages: data and converters\<close>

text \<open>
  Models \<open>sub2api/backend/internal/pkg/apicompat/responses_to_anthropic.go\<close> over the types of
  \<open>types.go\<close>: the non-streaming conversion \<open>ResponsesToAnthropic\<close> and the stateful streaming
  converter \<open>ResponsesEventToAnthropicEvents\<close> with \<open>FinalizeResponsesAnthropicStream\<close>.

  Pointers to structs are options, slices are lists, \<open>json.RawMessage\<close> is the raw text.  The
  functions of \<open>encoding/json\<close> that the code applies to opaque tool arguments are the fields of
  a \<open>json_codec\<close> which every definition that needs them takes as a parameter: nothing is
  assumed about them, so the theorems hold whatever the codec does.
\<close>

subsection \<open>The Anthropic side (types.go)\<close>

record AnthropicUsage =
  au_InputTokens :: int
  au_OutputTokens :: int
  au_CacheCreationInputTokens :: int
  au_CacheReadInputTokens :: int

definition zeroUsage :: AnthropicUsage where
  "zeroUsage = \<lparr>au_InputTokens = 0, au_OutputTokens = 0,
     au_CacheCreationInputTokens = 0, au_CacheReadInputTokens = 0\<rparr>"

record AnthropicCacheControl =
  acc_Type :: string
  acc_TTL :: string

record AnthropicImageSource =
  ais_Type :: string
  ais_MediaType :: string
  ais_Data :: string

record AnthropicContentBlock =
  cb_Type :: string
  cb_CacheControl :: "AnthropicCacheControl option"
  cb_Text :: string
  cb_Thinking :: string
  cb_Source :: "AnthropicImageSource option"
  cb_ID :: string
  cb_Name :: string
  cb_Input :: string
  cb_ToolUseID :: string
  cb_Content :: string
  cb_IsError :: bool

definition zeroBlock :: AnthropicContentBlock where
  "zeroBlock = \<lparr>cb_Type = '''', cb_CacheControl = None, cb_Text = '''', cb_Thinking = '''',
     cb_Source = None, cb_ID = '''', cb_Name = '''', cb_Input = '''', cb_ToolUseID = '''',
     cb_Content = '''', cb_IsError = False\<rparr>"

record AnthropicResponse =
  ar_ID :: string
  ar_Type :: string
  ar_Role :: string
  ar_Content :: "AnthropicContentBlock list"
  ar_Model :: string
  ar_StopReason :: string
  ar_StopSequence :: "string option"
  ar_Usage :: AnthropicUsage

definition zeroResponse :: AnthropicResponse where
  "zeroResponse = \<lparr>ar_ID = '''', ar_Type = '''', ar_Role = '''', ar_Content = [],
     ar_Model = '''', ar_StopReason = '''', ar_StopSequence = None, ar_Usage = zeroUsage\<rparr>"

record AnthropicDelta =
  ad_Type :: string
  ad_Text :: string
  ad_PartialJSON :: string
  ad_Thinking :: string
  ad_Signature :: string
  ad_StopReason :: string
  ad_StopSequence :: "string option"

definition zeroDelta :: AnthropicDelta where
  "zeroDelta = \<lparr>ad_Type = '''', ad_Text = '''', ad_PartialJSON = '''', ad_Thinking = '''',
     ad_Signature = '''', ad_StopReason = '''', ad_StopSequence = None\<rparr>"

record AnthropicStreamEvent =
  ase_Type :: string
  ase_Message :: "AnthropicResponse option"
  ase_Index :: "int option"
  ase_ContentBlock :: "AnthropicContentBlock option"
  ase_Delta :: "AnthropicDelta option"
  ase_Usage :: "AnthropicUsage option"

definition zeroEvent :: AnthropicStreamEvent where
  "zeroEvent = \<lparr>ase_Type = '''', ase_Message = None, ase_Index = None,
     ase_ContentBlock = None, ase_Delta = None, ase_Usage = None\<rparr>"

subsection \<open>The Responses side (types.go)\<close>

record ResponsesContentPart =
  rcp_Type :: string
  rcp_Text :: string
  rcp_ImageURL :: string

record WebSearchAction =
  wsa_Type :: string
  wsa_Query :: string

record ResponsesSummary =
  rs_Type :: string
  rs_Text :: string

record ResponsesOutput =
  ro_Type :: string
  ro_ID :: string
  ro_Role :: string
  ro_Content :: "ResponsesContentPart list"
  ro_Status :: string
  ro_EncryptedContent :: string
  ro_Summary :: "ResponsesSummary list"
  ro_CallID :: string
  ro_Name :: string
  ro_Arguments :: string
  ro_Action :: "WebSearchAction option"

definition zeroOutput :: ResponsesOutput where
  "zeroOutput = \<lparr>ro_Type = '''', ro_ID = '''', ro_Role = '''', ro_Content = [], ro_Status = '''',
     ro_EncryptedContent = '''', ro_Summary = [], ro_CallID = '''', ro_Name = '''',
     ro_Arguments = '''', ro_Action = None\<rparr>"

text \<open>Token detail structs carry fields the converter never reads; only \<open>CachedTokens\<close> is kept.\<close>

record ResponsesInputTokensDetails =
  ritd_CachedTokens :: int
  ritd_AudioTokens :: int

record ResponsesUsage =
  ru_InputTokens :: int
  ru_OutputTokens :: int
  ru_TotalTokens :: int
  ru_InputTokensDetails :: "ResponsesInputTokensDetails option"

record ResponsesIncompleteDetails =
  rid_Reason :: string

record ResponsesError =
  re_Code :: string
  re_Message :: string

record ResponsesResponse =
  rr_ID :: string
  rr_Object :: string
  rr_Model :: string
  rr_Status :: string
  rr_Output :: "ResponsesOutput list"
  rr_Usage :: "ResponsesUsage option"
  rr_IncompleteDetails :: "ResponsesIncompleteDetails option"
  rr_Error :: "ResponsesError option"

record ResponsesStreamEvent =
  rse_Type :: string
  rse_Response :: "ResponsesResponse option"
  rse_Usage :: "ResponsesUsage option"
  rse_Item :: "ResponsesOutput option"
  rse_OutputIndex :: int
  rse_ContentIndex :: int
  rse_Delta :: string
  rse_Text :: string
  rse_ItemID :: string
  rse_CallID :: string
  rse_Name :: string
  rse_Arguments :: string
  rse_SummaryIndex :: int
  rse_Part :: "ResponsesContentPart option"
  rse_Code :: string
  rse_Param :: string
  rse_SequenceNumber :: int

definition zeroStreamEvent :: ResponsesStreamEvent where
  "zeroStreamEvent = \<lparr>rse_Type = '''', rse_Response = None, rse_Usage = None, rse_Item = None,
     rse_OutputIndex = 0, rse_ContentIndex = 0, rse_Delta = '''', rse_Text = '''',
     rse_ItemID = '''', rse_CallID = '''', rse_Name = '''', rse_Arguments = '''',
     rse_SummaryIndex = 0, rse_Part = None, rse_Code = '''', rse_Param = '''',
     rse_SequenceNumber = 0\<rparr>"

subsection \<open>The codec parameter\<close>

text \<open>
  \<open>jc_unmarshal_raw_map\<close> is \<open>json.Unmarshal\<close> into \<open>map[string]json.RawMessage\<close> (\<open>None\<close> on error),
  \<open>jc_marshal_raw_map\<close> is \<open>json.Marshal\<close> of such a map, \<open>jc_marshal_query\<close> is
  \<open>json.Marshal(map[string]string{"query": q})\<close> with its error ignored, as the code ignores it.
\<close>

record json_codec =
  jc_unmarshal_raw_map :: "string \<Rightarrow> (string \<rightharpoonup> string) option"
  jc_marshal_raw_map :: "(string \<rightharpoonup> string) \<Rightarrow> string option"
  jc_marshal_query :: "string \<Rightarrow> string"

subsection \<open>Shared helpers\<close>

definition fromResponsesCallID :: "string \<Rightarrow> string" where
  "fromResponsesCallID i =
     (case cut_prefix i ''fc_'' of
        Some after \<Rightarrow>
          (if has_prefix after ''toolu_'' \<or> has_prefix after ''call_'' then after else i)
      | None \<Rightarrow> i)"

definition sanitizeAnthropicToolUseInput :: "json_codec \<Rightarrow> string \<Rightarrow> string \<Rightarrow> string" where
  "sanitizeAnthropicToolUseInput jc name raw =
     (if name \<noteq> ''Read'' \<or> raw = '''' then raw
      else (case jc_unmarshal_raw_map jc raw of
              None \<Rightarrow> raw
            | Some input \<Rightarrow>
                (if input ''pages'' \<noteq> Some [CHR 0x22, CHR 0x22] then raw
                 else (case jc_marshal_raw_map jc (input(''pages'' := None)) of
                         None \<Rightarrow> raw
                       | Some sanitized \<Rightarrow> sanitized))))"

definition anthropicUsageFromResponsesUsage :: "ResponsesUsage option \<Rightarrow> AnthropicUsage" where
  "anthropicUsageFromResponsesUsage usage =
     (case usage of
        None \<Rightarrow> zeroUsage
      | Some u \<Rightarrow>
          (let cachedTokens = (case ru_InputTokensDetails u of
                                 None \<Rightarrow> 0
                               | Some d \<Rightarrow> ritd_CachedTokens d);
               inputTokens = wrap64 (ru_InputTokens u - cachedTokens)
           in zeroUsage\<lparr>au_InputTokens := (if inputTokens < 0 then 0 else inputTokens),
                        au_OutputTokens := ru_OutputTokens u,
                        au_CacheReadInputTokens := cachedTokens\<rparr>))"

definition containsAnthropicToolUseBlock :: "AnthropicContentBlock list \<Rightarrow> bool" where
  "containsAnthropicToolUseBlock blocks = list_ex (\<lambda>b. cb_Type b = ''tool_use'') blocks"

definition responsesStatusToAnthropicStopReason ::
  "string \<Rightarrow> ResponsesIncompleteDetails option \<Rightarrow> AnthropicContentBlock list \<Rightarrow> string" where
  "responsesStatusToAnthropicStopReason status details blocks =
     (if status = ''incomplete'' then
        (case details of
           Some d \<Rightarrow> (if rid_Reason d = ''max_output_tokens'' then ''max_tokens'' else ''end_turn'')
         | None \<Rightarrow> ''end_turn'')
      else if status = ''completed'' then
        (if containsAnthropicToolUseBlock blocks then ''tool_use'' else ''end_turn'')
      else ''end_turn'')"

subsection \<open>Non-streaming conversion\<close>

definition queryOf :: "ResponsesOutput \<Rightarrow> string" where
  "queryOf item = (case ro_Action item of None \<Rightarrow> '''' | Some a \<Rightarrow> wsa_Query a)"

definition summaryText :: "ResponsesOutput \<Rightarrow> string" where
  "summaryText item =
     concat (map rs_Text (filter (\<lambda>s. rs_Type s = ''summary_text'' \<and> rs_Text s \<noteq> '''') (ro_Summary item)))"

definition textBlocks :: "ResponsesOutput \<Rightarrow> AnthropicContentBlock list" where
  "textBlocks item =
     map (\<lambda>p. zeroBlock\<lparr>cb_Type := ''text'', cb_Text := rcp_Text p\<rparr>)
       (filter (\<lambda>p. rcp_Type p = ''output_text'' \<and> rcp_Text p \<noteq> '''') (ro_Content item))"

definition outputBlocks :: "json_codec \<Rightarrow> ResponsesOutput \<Rightarrow> AnthropicContentBlock list" where
  "outputBlocks jc item =
     (if ro_Type item = ''reasoning'' then
        (if summaryText item \<noteq> ''''
         then [zeroBlock\<lparr>cb_Type := ''thinking'', cb_Thinking := summaryText item\<rparr>] else [])
      else if ro_Type item = ''message'' then textBlocks item
      else if ro_Type item = ''function_call'' then
        [zeroBlock\<lparr>cb_Type := ''tool_use'', cb_ID := fromResponsesCallID (ro_CallID item),
           cb_Name := ro_Name item,
           cb_Input := sanitizeAnthropicToolUseInput jc (ro_Name item) (ro_Arguments item)\<rparr>]
      else if ro_Type item = ''web_search_call'' then
        [zeroBlock\<lparr>cb_Type := ''server_tool_use'', cb_ID := ''srvtoolu_'' @ ro_ID item,
           cb_Name := ''web_search'', cb_Input := jc_marshal_query jc (queryOf item)\<rparr>,
         zeroBlock\<lparr>cb_Type := ''web_search_tool_result'',
           cb_ToolUseID := ''srvtoolu_'' @ ro_ID item, cb_Content := ''[]''\<rparr>]
      else [])"

definition ResponsesToAnthropic ::
  "json_codec \<Rightarrow> ResponsesResponse \<Rightarrow> string \<Rightarrow> AnthropicResponse" where
  "ResponsesToAnthropic jc resp model =
     (let blocks0 = concat (map (outputBlocks jc) (rr_Output resp));
          blocks = (if blocks0 = [] then [zeroBlock\<lparr>cb_Type := ''text''\<rparr>] else blocks0)
      in zeroResponse\<lparr>ar_ID := rr_ID resp, ar_Type := ''message'', ar_Role := ''assistant'',
           ar_Model := model, ar_Content := blocks,
           ar_StopReason := responsesStatusToAnthropicStopReason (rr_Status resp)
             (rr_IncompleteDetails resp) blocks,
           ar_Usage := (case rr_Usage resp of
                          None \<Rightarrow> zeroUsage
                        | Some u \<Rightarrow> anthropicUsageFromResponsesUsage (Some u))\<rparr>)"

subsection \<open>Streaming conversion: state and handlers\<close>

record ToAnthropicState =
  MessageStartSent :: bool
  MessageStopSent :: bool
  ContentBlockIndex :: int
  ContentBlockOpen :: bool
  CurrentBlockType :: string
  CurrentToolName :: string
  CurrentToolArgs :: string
  CurrentToolHadDelta :: bool
  HasToolCall :: bool
  OutputIndexToBlockIdx :: "int \<rightharpoonup> int"
  InputTokens :: int
  OutputTokens :: int
  CacheReadInputTokens :: int
  ResponseID :: string
  Model :: string
  Created :: int

definition newToAnthropicState :: "int \<Rightarrow> ToAnthropicState" where
  "newToAnthropicState now =
     \<lparr>MessageStartSent = False, MessageStopSent = False, ContentBlockIndex = 0,
      ContentBlockOpen = False, CurrentBlockType = '''', CurrentToolName = '''',
      CurrentToolArgs = '''', CurrentToolHadDelta = False, HasToolCall = False,
      OutputIndexToBlockIdx = Map.empty, InputTokens = 0, OutputTokens = 0,
      CacheReadInputTokens = 0, ResponseID = '''', Model = '''', Created = now\<rparr>"

type_synonym 's handler = "'s \<Rightarrow> AnthropicStreamEvent list \<times> 's"

abbreviation blockStart :: "int \<Rightarrow> AnthropicContentBlock \<Rightarrow> AnthropicStreamEvent" where
  "blockStart idx cb \<equiv> zeroEvent\<lparr>ase_Type := ''content_block_start'', ase_Index := Some idx,
     ase_ContentBlock := Some cb\<rparr>"

abbreviation blockStop :: "int \<Rightarrow> AnthropicStreamEvent" where
  "blockStop idx \<equiv> zeroEvent\<lparr>ase_Type := ''content_block_stop'', ase_Index := Some idx\<rparr>"

abbreviation blockDelta :: "int \<Rightarrow> AnthropicDelta \<Rightarrow> AnthropicStreamEvent" where
  "blockDelta idx d \<equiv> zeroEvent\<lparr>ase_Type := ''content_block_delta'', ase_Index := Some idx,
     ase_Delta := Some d\<rparr>"

definition closeCurrentBlock :: "ToAnthropicState handler" where
  "closeCurrentBlock s =
     (if \<not> ContentBlockOpen s then ([], s)
      else ([blockStop (ContentBlockIndex s)],
            s\<lparr>ContentBlockOpen := False, ContentBlockIndex := ContentBlockIndex s + 1,
              CurrentToolName := '''', CurrentToolArgs := '''', CurrentToolHadDelta := False\<rparr>))"

definition resToAnthHandleCreated :: "ResponsesStreamEvent \<Rightarrow> ToAnthropicState handler" where
  "resToAnthHandleCreated evt s =
     (let s1 = (case rse_Response evt of
                  None \<Rightarrow> s
                | Some r \<Rightarrow> s\<lparr>ResponseID := rr_ID r,
                              Model := (if Model s = '''' then rr_Model r else Model s)\<rparr>)
      in if MessageStartSent s1 then ([], s1)
         else ([zeroEvent\<lparr>ase_Type := ''message_start'',
                  ase_Message := Some (zeroResponse\<lparr>ar_ID := ResponseID s1, ar_Type := ''message'',
                    ar_Role := ''assistant'', ar_Model := Model s1\<rparr>)\<rparr>],
               s1\<lparr>MessageStartSent := True\<rparr>))"

definition resToAnthHandleOutputItemAdded ::
  "ResponsesStreamEvent \<Rightarrow> ToAnthropicState handler" where
  "resToAnthHandleOutputItemAdded evt s =
     (case rse_Item evt of
        None \<Rightarrow> ([], s)
      | Some item \<Rightarrow>
          (if ro_Type item = ''function_call'' \<or> ro_Type item = ''custom_tool_call'' then
             (case closeCurrentBlock s of (events, s1) \<Rightarrow>
                (let idx = ContentBlockIndex s1 in
                 (events @ [blockStart idx (zeroBlock\<lparr>cb_Type := ''tool_use'',
                              cb_ID := fromResponsesCallID (ro_CallID item),
                              cb_Name := ro_Name item, cb_Input := ''{}''\<rparr>)],
                  s1\<lparr>OutputIndexToBlockIdx := (OutputIndexToBlockIdx s1)(rse_OutputIndex evt \<mapsto> idx),
                     ContentBlockOpen := True, CurrentBlockType := ''tool_use'',
                     CurrentToolName := ro_Name item, CurrentToolArgs := '''',
                     CurrentToolHadDelta := False, HasToolCall := True\<rparr>)))
           else if ro_Type item = ''reasoning'' then
             (case closeCurrentBlock s of (events, s1) \<Rightarrow>
                (let idx = ContentBlockIndex s1 in
                 (events @ [blockStart idx (zeroBlock\<lparr>cb_Type := ''thinking''\<rparr>)],
                  s1\<lparr>OutputIndexToBlockIdx := (OutputIndexToBlockIdx s1)(rse_OutputIndex evt \<mapsto> idx),
                     ContentBlockOpen := True, CurrentBlockType := ''thinking''\<rparr>)))
           else ([], s)))"

definition resToAnthHandleTextDelta :: "ResponsesStreamEvent \<Rightarrow> ToAnthropicState handler" where
  "resToAnthHandleTextDelta evt s =
     (if rse_Delta evt = '''' then ([], s)
      else
        (case (if \<not> ContentBlockOpen s \<or> CurrentBlockType s \<noteq> ''text'' then
                 (case closeCurrentBlock s of (events, s1) \<Rightarrow>
                    (events @ [blockStart (ContentBlockIndex s1) (zeroBlock\<lparr>cb_Type := ''text''\<rparr>)],
                     s1\<lparr>ContentBlockOpen := True, CurrentBlockType := ''text''\<rparr>))
               else ([], s)) of (events, s2) \<Rightarrow>
           (events @ [blockDelta (ContentBlockIndex s2)
                        (zeroDelta\<lparr>ad_Type := ''text_delta'', ad_Text := rse_Delta evt\<rparr>)],
            s2)))"

definition resToAnthHandleFuncArgsDelta :: "ResponsesStreamEvent \<Rightarrow> ToAnthropicState handler" where
  "resToAnthHandleFuncArgsDelta evt s =
     (if rse_Delta evt = '''' then ([], s)
      else if CurrentBlockType s = ''tool_use'' \<and> CurrentToolName s = ''Read'' then
        ([], s\<lparr>CurrentToolArgs := CurrentToolArgs s @ rse_Delta evt\<rparr>)
      else
        (let s1 = (if CurrentBlockType s = ''tool_use'' then s\<lparr>CurrentToolHadDelta := True\<rparr> else s)
         in (case OutputIndexToBlockIdx s1 (rse_OutputIndex evt) of
               None \<Rightarrow> ([], s1)
             | Some blockIdx \<Rightarrow>
                 ([blockDelta blockIdx (zeroDelta\<lparr>ad_Type := ''input_json_delta'',
                     ad_PartialJSON := rse_Delta evt\<rparr>)], s1))))"

definition resToAnthHandleBlockDone :: "ToAnthropicState handler" where
  "resToAnthHandleBlockDone s = (if \<not> ContentBlockOpen s then ([], s) else closeCurrentBlock s)"

definition resToAnthHandleFuncArgsDone ::
  "json_codec \<Rightarrow> ResponsesStreamEvent \<Rightarrow> ToAnthropicState handler" where
  "resToAnthHandleFuncArgsDone jc evt s =
     (if CurrentBlockType s \<noteq> ''tool_use'' then resToAnthHandleBlockDone s
      else
        (let raw = (if rse_Arguments evt = '''' then CurrentToolArgs s else rse_Arguments evt);
             emit = (\<lambda>json. case closeCurrentBlock s of (events, s1) \<Rightarrow>
                       (blockDelta (ContentBlockIndex s) (zeroDelta\<lparr>ad_Type := ''input_json_delta'',
                          ad_PartialJSON := json\<rparr>) # events, s1))
         in if raw = '''' \<or> CurrentToolHadDelta s then closeCurrentBlock s
            else if CurrentToolName s = ''Read'' then
              (let sanitized = sanitizeAnthropicToolUseInput jc (CurrentToolName s) raw
               in if sanitized = '''' then closeCurrentBlock s else emit sanitized)
            else emit raw))"

definition resToAnthHandleReasoningDelta :: "ResponsesStreamEvent \<Rightarrow> ToAnthropicState handler" where
  "resToAnthHandleReasoningDelta evt s =
     (if rse_Delta evt = '''' then ([], s)
      else (case OutputIndexToBlockIdx s (rse_OutputIndex evt) of
              None \<Rightarrow> ([], s)
            | Some blockIdx \<Rightarrow>
                ([blockDelta blockIdx (zeroDelta\<lparr>ad_Type := ''thinking_delta'',
                    ad_Thinking := rse_Delta evt\<rparr>)], s)))"

definition resToAnthHandleWebSearchDone ::
  "json_codec \<Rightarrow> ResponsesOutput \<Rightarrow> ToAnthropicState handler" where
  "resToAnthHandleWebSearchDone jc item s =
     (case closeCurrentBlock s of (events, s1) \<Rightarrow>
        (let toolUseID = ''srvtoolu_'' @ ro_ID item;
             idx1 = ContentBlockIndex s1;
             idx2 = idx1 + 1
         in (events @
             [blockStart idx1 (zeroBlock\<lparr>cb_Type := ''server_tool_use'', cb_ID := toolUseID,
                cb_Name := ''web_search'', cb_Input := jc_marshal_query jc (queryOf item)\<rparr>),
              blockStop idx1,
              blockStart idx2 (zeroBlock\<lparr>cb_Type := ''web_search_tool_result'',
                cb_ToolUseID := toolUseID, cb_Content := ''[]''\<rparr>),
              blockStop idx2],
             s1\<lparr>ContentBlockIndex := idx2 + 1\<rparr>)))"

definition resToAnthHandleOutputItemDone ::
  "json_codec \<Rightarrow> ResponsesStreamEvent \<Rightarrow> ToAnthropicState handler" where
  "resToAnthHandleOutputItemDone jc evt s =
     (case rse_Item evt of
        None \<Rightarrow> ([], s)
      | Some item \<Rightarrow>
          (if ro_Type item = ''web_search_call'' \<and> ro_Status item = ''completed''
           then resToAnthHandleWebSearchDone jc item s
           else if ContentBlockOpen s then closeCurrentBlock s
           else ([], s)))"

definition recordUsage :: "ResponsesUsage option \<Rightarrow> ToAnthropicState \<Rightarrow> ToAnthropicState" where
  "recordUsage usage s =
     (case usage of
        None \<Rightarrow> s
      | Some u \<Rightarrow>
          (let au = anthropicUsageFromResponsesUsage (Some u)
           in s\<lparr>InputTokens := au_InputTokens au, OutputTokens := au_OutputTokens au,
                CacheReadInputTokens := au_CacheReadInputTokens au\<rparr>))"

definition usageOfState :: "ToAnthropicState \<Rightarrow> AnthropicUsage" where
  "usageOfState s = zeroUsage\<lparr>au_InputTokens := InputTokens s, au_OutputTokens := OutputTokens s,
     au_CacheReadInputTokens := CacheReadInputTokens s\<rparr>"

abbreviation messageDelta :: "string \<Rightarrow> AnthropicUsage \<Rightarrow> AnthropicStreamEvent" where
  "messageDelta stopReason usage \<equiv> zeroEvent\<lparr>ase_Type := ''message_delta'',
     ase_Delta := Some (zeroDelta\<lparr>ad_StopReason := stopReason\<rparr>), ase_Usage := Some usage\<rparr>"

abbreviation messageStop :: AnthropicStreamEvent where
  "messageStop \<equiv> zeroEvent\<lparr>ase_Type := ''message_stop''\<rparr>"

definition completedStopReason :: "ResponsesStreamEvent \<Rightarrow> bool \<Rightarrow> string" where
  "completedStopReason evt hasToolCall =
     (case rse_Response evt of
        None \<Rightarrow> ''end_turn''
      | Some r \<Rightarrow>
          (if rr_Status r = ''incomplete'' then
             (case rr_IncompleteDetails r of
                None \<Rightarrow> ''end_turn''
              | Some d \<Rightarrow> (if rid_Reason d = ''max_output_tokens'' then ''max_tokens'' else ''end_turn''))
           else if rr_Status r = ''completed'' then
             (if hasToolCall then ''tool_use'' else ''end_turn'')
           else ''end_turn''))"

definition resToAnthHandleCompleted :: "ResponsesStreamEvent \<Rightarrow> ToAnthropicState handler" where
  "resToAnthHandleCompleted evt s =
     (if MessageStopSent s then ([], s)
      else
        (case closeCurrentBlock s of (events, s1) \<Rightarrow>
           (let s2 = recordUsage (rse_Usage evt) s1;
                s3 = (case rse_Response evt of
                        None \<Rightarrow> s2
                      | Some r \<Rightarrow> recordUsage (rr_Usage r) s2)
            in (events @ [messageDelta (completedStopReason evt (HasToolCall s3)) (usageOfState s3),
                          messageStop],
                s3\<lparr>MessageStopSent := True\<rparr>))))"

definition ResponsesEventToAnthropicEvents ::
  "json_codec \<Rightarrow> ResponsesStreamEvent \<Rightarrow> ToAnthropicState handler" where
  "ResponsesEventToAnthropicEvents jc evt s =
     (let t = rse_Type evt in
      if t = ''response.created'' then resToAnthHandleCreated evt s
      else if t = ''response.output_item.added'' then resToAnthHandleOutputItemAdded evt s
      else if t = ''response.output_text.delta'' then resToAnthHandleTextDelta evt s
      else if t = ''response.output_text.done'' then resToAnthHandleBlockDone s
      else if t = ''response.function_call_arguments.delta''
            \<or> t = ''response.custom_tool_call_input.delta'' then resToAnthHandleFuncArgsDelta evt s
      else if t = ''response.function_call_arguments.done'' then resToAnthHandleFuncArgsDone jc evt s
      else if t = ''response.output_item.done'' then resToAnthHandleOutputItemDone jc evt s
      else if t = ''response.reasoning_summary_text.delta''
            \<or> t = ''response.reasoning_text.delta'' then resToAnthHandleReasoningDelta evt s
      else if t = ''response.reasoning_summary_text.done'' then resToAnthHandleBlockDone s
      else if t = ''response.completed'' \<or> t = ''response.done'' \<or> t = ''response.incomplete''
            \<or> t = ''response.failed'' then resToAnthHandleCompleted evt s
      else ([], s))"

definition FinalizeResponsesAnthropicStream :: "ToAnthropicState handler" where
  "FinalizeResponsesAnthropicStream s =
     (if \<not> MessageStartSent s \<or> MessageStopSent s then ([], s)
      else
        (case closeCurrentBlock s of (events, s1) \<Rightarrow>
           (events @ [messageDelta (if HasToolCall s1 then ''tool_use'' else ''end_turn'')
                        (usageOfState s1),
                      messageStop],
            s1\<lparr>MessageStopSent := True\<rparr>)))"

text \<open>
  The loop of \<open>openai_gateway_messages.go\<close> around the converter: events are converted in arrival
  order; the first terminal event ends the loop and runs the finalizer.  When the upstream ends
  before a terminal event the stream is an error (\<open>completed = False\<close>) and nothing is finalized.
\<close>

definition isOpenAICompatResponsesTerminalEvent :: "string \<Rightarrow> bool" where
  "isOpenAICompatResponsesTerminalEvent eventType =
     (let t = trim_space eventType in
      t = ''response.completed'' \<or> t = ''response.done'' \<or> t = ''response.incomplete''
      \<or> t = ''response.failed'')"

fun driveStream ::
  "json_codec \<Rightarrow> ResponsesStreamEvent list \<Rightarrow> ToAnthropicState
   \<Rightarrow> AnthropicStreamEvent list \<times> bool \<times> ToAnthropicState" where
  "driveStream jc [] s = ([], False, s)"
| "driveStream jc (evt # es) s =
     (case ResponsesEventToAnthropicEvents jc evt s of (events, s1) \<Rightarrow>
        (if isOpenAICompatResponsesTerminalEvent (rse_Type evt)
         then (case FinalizeResponsesAnthropicStream s1 of (fin, s2) \<Rightarrow> (events @ fin, True, s2))
         else (case driveStream jc es s1 of (rest, completed, s2) \<Rightarrow>
                 (events @ rest, completed, s2))))"

end
