(* ===== verification/StreamProtocol.thy ===== *)
theory StreamProtocol
  imports AnthropicStream
begin

section \<open>The event protocol of the streaming converter\<close>

text \<open>
  What the converter of \<open>AnthropicStream\<close> promises to the client: the order of the Anthropic
  events it emits.  \<open>life_chk\<close> is what holds for every upstream stream, \<open>anth_chk\<close> is the whole
  message grammar, reached by every upstream stream that \<open>resp_chk\<close> allows.
\<close>

subsection \<open>Life cycle: content blocks and message envelope\<close>

record life =
  lf_open :: bool
  lf_next :: int
  lf_started :: bool
  lf_stopped :: bool

definition life_chk :: "life \<Rightarrow> AnthropicStreamEvent \<Rightarrow> life option" where
  "life_chk l e =
     (if ase_Type e = ''message_start'' then
        (if lf_started l then None else Some (l\<lparr>lf_started := True\<rparr>))
      else if ase_Type e = ''content_block_start'' then
        (if \<not> lf_open l \<and> ase_Index e = Some (lf_next l) \<and> ase_ContentBlock e \<noteq> None
         then Some (l\<lparr>lf_open := True\<rparr>) else None)
      else if ase_Type e = ''content_block_stop'' then
        (if lf_open l \<and> ase_Index e = Some (lf_next l)
         then Some (l\<lparr>lf_open := False, lf_next := lf_next l + 1\<rparr>) else None)
      else if ase_Type e = ''content_block_delta'' then
        (if ase_Index e \<noteq> None \<and> ase_Delta e \<noteq> None then Some l else None)
      else if ase_Type e = ''message_delta'' then
        (if lf_open l \<or> lf_stopped l \<or> ase_Usage e = None then None else Some l)
      else if ase_Type e = ''message_stop'' then
        (if lf_open l \<or> lf_stopped l then None else Some (l\<lparr>lf_stopped := True\<rparr>))
      else None)"

definition life_of :: "ToAnthropicState \<Rightarrow> life" where
  "life_of s = \<lparr>lf_open = ContentBlockOpen s, lf_next = ContentBlockIndex s,
     lf_started = MessageStartSent s, lf_stopped = MessageStopSent s\<rparr>"

definition lf0 :: life where
  "lf0 = \<lparr>lf_open = False, lf_next = 0, lf_started = False, lf_stopped = False\<rparr>"

lemmas handler_defs =
  resToAnthHandleCreated_def resToAnthHandleOutputItemAdded_def resToAnthHandleTextDelta_def
  resToAnthHandleBlockDone_def resToAnthHandleFuncArgsDelta_def resToAnthHandleFuncArgsDone_def
  resToAnthHandleReasoningDelta_def resToAnthHandleOutputItemDone_def
  resToAnthHandleWebSearchDone_def resToAnthHandleCompleted_def

lemmas zero_defs = zeroEvent_def zeroDelta_def

lemma recordUsage_frame [simp]:
  "ContentBlockOpen (recordUsage u s) = ContentBlockOpen s"
  "ContentBlockIndex (recordUsage u s) = ContentBlockIndex s"
  "MessageStartSent (recordUsage u s) = MessageStartSent s"
  "MessageStopSent (recordUsage u s) = MessageStopSent s"
  "HasToolCall (recordUsage u s) = HasToolCall s"
  "CurrentBlockType (recordUsage u s) = CurrentBlockType s"
  "OutputIndexToBlockIdx (recordUsage u s) = OutputIndexToBlockIdx s"
  "ResponseID (recordUsage u s) = ResponseID s"
  "Model (recordUsage u s) = Model s"
  by (auto simp: recordUsage_def Let_def split: option.splits)

text \<open>Each handler's output takes the life cycle of the old state to that of the new one.\<close>

definition life_ok :: "ToAnthropicState \<Rightarrow> AnthropicStreamEvent list \<times> ToAnthropicState \<Rightarrow> bool" where
  "life_ok s r \<longleftrightarrow> run_check life_chk (life_of s) (fst r) = Some (life_of (snd r))"

lemma life_ok_close: "life_ok s (closeCurrentBlock s)"
  by (simp add: life_ok_def closeCurrentBlock_def life_of_def life_chk_def zero_defs)

lemma life_ok_created: "life_ok s (resToAnthHandleCreated evt s)"
  by (simp add: life_ok_def resToAnthHandleCreated_def life_of_def life_chk_def zero_defs Let_def
      split: option.splits)

lemma life_ok_added: "life_ok s (resToAnthHandleOutputItemAdded evt s)"
  by (cases "rse_Item evt"; cases "ContentBlockOpen s")
    (simp_all add: life_ok_def resToAnthHandleOutputItemAdded_def closeCurrentBlock_def life_of_def
      life_chk_def zero_defs Let_def)

lemma life_ok_text: "life_ok s (resToAnthHandleTextDelta evt s)"
  by (cases "ContentBlockOpen s"; cases "CurrentBlockType s = ''text''")
    (simp_all add: life_ok_def resToAnthHandleTextDelta_def closeCurrentBlock_def life_of_def
      life_chk_def zero_defs Let_def)

lemma life_ok_args: "life_ok s (resToAnthHandleFuncArgsDelta evt s)"
  by (simp add: life_ok_def resToAnthHandleFuncArgsDelta_def life_of_def life_chk_def zero_defs
      Let_def split: option.splits)

lemma life_ok_blockdone: "life_ok s (resToAnthHandleBlockDone s)"
  by (simp add: life_ok_def resToAnthHandleBlockDone_def closeCurrentBlock_def life_of_def
      life_chk_def zero_defs)

lemma life_ok_argsdone: "life_ok s (resToAnthHandleFuncArgsDone jc evt s)"
  by (cases "ContentBlockOpen s")
    (simp_all add: life_ok_def resToAnthHandleFuncArgsDone_def resToAnthHandleBlockDone_def
      closeCurrentBlock_def life_of_def life_chk_def zero_defs Let_def)

lemma life_ok_reasoning: "life_ok s (resToAnthHandleReasoningDelta evt s)"
  by (simp add: life_ok_def resToAnthHandleReasoningDelta_def life_of_def life_chk_def zero_defs
      split: option.splits)

lemma life_ok_websearch: "life_ok s (resToAnthHandleWebSearchDone jc item s)"
  by (cases "ContentBlockOpen s")
    (simp_all add: life_ok_def resToAnthHandleWebSearchDone_def closeCurrentBlock_def life_of_def
      life_chk_def zero_defs Let_def)

lemma life_ok_itemdone: "life_ok s (resToAnthHandleOutputItemDone jc evt s)"
  using life_ok_websearch life_ok_close
  by (simp add: resToAnthHandleOutputItemDone_def life_ok_def split: option.splits)

lemma life_ok_completed: "life_ok s (resToAnthHandleCompleted evt s)"
  by (cases "ContentBlockOpen s"; cases "rse_Response evt")
    (simp_all add: life_ok_def resToAnthHandleCompleted_def closeCurrentBlock_def life_of_def
      life_chk_def zero_defs Let_def)

lemma life_ok_finalize: "life_ok s (FinalizeResponsesAnthropicStream s)"
  by (cases "ContentBlockOpen s")
    (simp_all add: life_ok_def FinalizeResponsesAnthropicStream_def closeCurrentBlock_def
      life_of_def life_chk_def zero_defs Let_def)

lemma life_ok_nil: "life_ok s ([], s)"
  by (simp add: life_ok_def)

lemmas life_ok_rules = life_ok_nil life_ok_created life_ok_added life_ok_text life_ok_args
  life_ok_blockdone life_ok_argsdone life_ok_reasoning life_ok_itemdone life_ok_completed

lemma life_ok_event: "life_ok s (ResponsesEventToAnthropicEvents jc evt s)"
  unfolding ResponsesEventToAnthropicEvents_def Let_def by (simp add: life_ok_rules)

interpretation life: unconditional_conversion
  "ResponsesEventToAnthropicEvents jc" life_chk "\<lambda>s l. l = life_of s"
  by unfold_locales (use life_ok_event in \<open>auto simp: life_ok_def, metis fst_conv snd_conv\<close>)

lemma life_run:
  "run_check life_chk (life_of s) (fst (run_steps (ResponsesEventToAnthropicEvents jc) es s))
   = Some (life_of (snd (run_steps (ResponsesEventToAnthropicEvents jc) es s)))"
  using life.any_run_sim [of "life_of s" s jc es] by auto

subsection \<open>What the life cycle says about a whole output\<close>

definition ofType :: "string \<Rightarrow> AnthropicStreamEvent list \<Rightarrow> AnthropicStreamEvent list" where
  "ofType t out = filter (\<lambda>e. ase_Type e = t) out"

lemma ofType_simps [simp]:
  "ofType t [] = []"
  "ofType t (e # out) = (if ase_Type e = t then e # ofType t out else ofType t out)"
  "ofType t (out @ out') = ofType t out @ ofType t out'"
  by (simp_all add: ofType_def)

lemma life_next_mono: "run_check life_chk l out = Some l' \<Longrightarrow> lf_next l \<le> lf_next l'"
proof (induction out arbitrary: l)
  case (Cons e out)
  then obtain l1 where l1: "life_chk l e = Some l1" "run_check life_chk l1 out = Some l'"
    by (auto split: option.splits)
  have "lf_next l \<le> lf_next l1"
    using l1(1) by (auto simp: life_chk_def split: if_splits)
  with Cons.IH [OF l1(2)] show ?case by simp
qed simp

text \<open>The starts and stops of content blocks in an output, and those of the block \<open>i\<close>.\<close>

definition blockMarks :: "AnthropicStreamEvent list \<Rightarrow> AnthropicStreamEvent list" where
  "blockMarks out = filter (\<lambda>e. ase_Type e = ''content_block_start'' \<or> ase_Type e = ''content_block_stop'') out"

definition startStop :: "int \<Rightarrow> (string \<times> int option) list" where
  "startStop i = [(''content_block_start'', Some i), (''content_block_stop'', Some i)]"

definition openMark :: "bool \<Rightarrow> int \<Rightarrow> (string \<times> int option) list" where
  "openMark opened i = (if opened then [(''content_block_start'', Some i)] else [])"

lemma blockMarks_simps [simp]:
  "blockMarks [] = []"
  "blockMarks (e # out) = (if ase_Type e = ''content_block_start'' \<or> ase_Type e = ''content_block_stop''
     then e # blockMarks out else blockMarks out)"
  by (simp_all add: blockMarks_def)

lemma life_blocks:
  "run_check life_chk l out = Some l' \<Longrightarrow>
   openMark (lf_open l) (lf_next l) @ map (\<lambda>e. (ase_Type e, ase_Index e)) (blockMarks out)
   = concat (map startStop [lf_next l .. lf_next l' - 1]) @ openMark (lf_open l') (lf_next l')"
proof (induction out arbitrary: l)
  case (Cons e out)
  then obtain l1 where l1: "life_chk l e = Some l1" "run_check life_chk l1 out = Some l'"
    by (auto split: option.splits)
  note IH = Cons.IH [OF l1(2)]
  consider (start) "ase_Type e = ''content_block_start''" | (stop) "ase_Type e = ''content_block_stop''"
    | (other) "ase_Type e \<noteq> ''content_block_start''" "ase_Type e \<noteq> ''content_block_stop''"
    by blast
  then show ?case
  proof cases
    case start
    with l1(1) have "lf_next l1 = lf_next l" "\<not> lf_open l" "lf_open l1" "ase_Index e = Some (lf_next l)"
      by (auto simp: life_chk_def split: if_splits)
    with start IH show ?thesis by (simp add: openMark_def)
  next
    case stop
    with l1(1) have l: "lf_next l1 = lf_next l + 1" "lf_open l" "\<not> lf_open l1" "ase_Index e = Some (lf_next l)"
      by (auto simp: life_chk_def split: if_splits)
    have "lf_next l + 1 \<le> lf_next l'" using life_next_mono [OF l1(2)] l by simp
    then have "[lf_next l .. lf_next l' - 1] = lf_next l # [lf_next l + 1 .. lf_next l' - 1]"
      by (simp add: upto_rec1)
    with stop IH l show ?thesis by (simp add: openMark_def startStop_def)
  next
    case other
    with l1(1) have "lf_next l1 = lf_next l" "lf_open l1 = lf_open l"
      by (auto simp: life_chk_def split: if_splits)
    with other IH show ?thesis by simp
  qed
qed simp

lemma life_envelope_step:
  assumes "life_chk l e = Some l1"
  shows "of_bool (ase_Type e = ''message_start'') + of_bool (lf_started l) = (of_bool (lf_started l1) :: nat)"
    and "of_bool (ase_Type e = ''message_stop'') + of_bool (lf_stopped l) = (of_bool (lf_stopped l1) :: nat)"
  using assms by (auto simp: life_chk_def split: if_splits)

lemma life_envelope:
  "run_check life_chk l out = Some l' \<Longrightarrow>
   length (ofType ''message_start'' out) + of_bool (lf_started l) = of_bool (lf_started l') \<and>
   length (ofType ''message_stop'' out) + of_bool (lf_stopped l) = of_bool (lf_stopped l')"
proof (induction out arbitrary: l)
  case (Cons e out)
  then obtain l1 where l1: "life_chk l e = Some l1" "run_check life_chk l1 out = Some l'"
    by (auto split: option.splits)
  have len: "length (ofType t (e # out)) = of_bool (ase_Type e = t) + length (ofType t out)" for t
    by simp
  show ?case
    using Cons.IH [OF l1(2)] life_envelope_step [OF l1(1)] unfolding len by linarith
qed simp

subsection \<open>The driving loop\<close>

lemma drive_life:
  "driveStream jc es s = (out, completed, s') \<Longrightarrow>
   run_check life_chk (life_of s) out = Some (life_of s')"
proof (induction es arbitrary: s out completed s')
  case (Cons evt es)
  obtain ev s1 where s1: "ResponsesEventToAnthropicEvents jc evt s = (ev, s1)"
    by (cases "ResponsesEventToAnthropicEvents jc evt s")
  have 1: "run_check life_chk (life_of s) ev = Some (life_of s1)"
    using life_ok_event [of s jc evt] s1 by (simp add: life_ok_def)
  obtain fin s2 where s2: "FinalizeResponsesAnthropicStream s1 = (fin, s2)"
    by (cases "FinalizeResponsesAnthropicStream s1")
  have 2: "run_check life_chk (life_of s1) fin = Some (life_of s2)"
    using life_ok_finalize [of s1] s2 by (simp add: life_ok_def)
  show ?case
  proof (cases "isOpenAICompatResponsesTerminalEvent (rse_Type evt)")
    case True
    with Cons.prems s1 s2 1 2 show ?thesis by (auto intro: run_check_append_Some)
  next
    case False
    obtain rest c s3 where s3: "driveStream jc es s1 = (rest, c, s3)"
      by (cases "driveStream jc es s1") auto
    with False Cons.prems s1 1 Cons.IH [OF s3] show ?thesis
      by (auto intro: run_check_append_Some)
  qed
qed (simp add: life_of_def)

lemma trim_space_terminal:
  "trim_space ''response.completed'' = ''response.completed''"
  "trim_space ''response.done'' = ''response.done''"
  "trim_space ''response.incomplete'' = ''response.incomplete''"
  "trim_space ''response.failed'' = ''response.failed''"
  by (simp_all add: trim_space_def ascii_space_def space2_def space3_def)

lemma MessageStopSent_close [simp]:
  "MessageStopSent (snd (closeCurrentBlock s)) = MessageStopSent s"
  "MessageStartSent (snd (closeCurrentBlock s)) = MessageStartSent s"
  "ContentBlockOpen (snd (closeCurrentBlock s)) = False"
  by (simp_all add: closeCurrentBlock_def)

lemma event_stop_only_terminal:
  assumes "ResponsesEventToAnthropicEvents jc evt s = (ev, s1)" and "\<not> MessageStopSent s"
    and "MessageStopSent s1"
  shows "isOpenAICompatResponsesTerminalEvent (rse_Type evt) \<and> \<not> ContentBlockOpen s1"
  using assms
  by (auto simp: ResponsesEventToAnthropicEvents_def Let_def handler_defs closeCurrentBlock_def
      isOpenAICompatResponsesTerminalEvent_def trim_space_terminal
      split: if_splits option.splits prod.splits)

lemma drive_completed:
  assumes "driveStream jc es s = (out, True, s')" and "\<not> MessageStopSent s"
    and "MessageStartSent s'"
  shows "MessageStopSent s' \<and> \<not> ContentBlockOpen s'"
  using assms
proof (induction es arbitrary: s out)
  case (Cons evt es)
  obtain ev s1 where s1: "ResponsesEventToAnthropicEvents jc evt s = (ev, s1)"
    by (cases "ResponsesEventToAnthropicEvents jc evt s")
  show ?case
  proof (cases "isOpenAICompatResponsesTerminalEvent (rse_Type evt)")
    case True
    obtain fin s2 where s2: "FinalizeResponsesAnthropicStream s1 = (fin, s2)"
      by (cases "FinalizeResponsesAnthropicStream s1")
    with True Cons.prems s1 have s': "s' = s2" by auto
    show ?thesis
    proof (cases "MessageStopSent s1")
      case True
      with event_stop_only_terminal [OF s1 Cons.prems(2)] s2 s' show ?thesis
        by (auto simp: FinalizeResponsesAnthropicStream_def)
    next
      case False
      with s2 s' Cons.prems(3) show ?thesis
        by (auto simp: FinalizeResponsesAnthropicStream_def closeCurrentBlock_def split: if_splits)
    qed
  next
    case False
    with event_stop_only_terminal [OF s1 Cons.prems(2)] have "\<not> MessageStopSent s1" by blast
    with False Cons s1 show ?thesis by (auto split: prod.splits)
  qed
qed simp

end
