(* ===== verification/StreamGrammar.thy ===== *)
theory StreamGrammar
  imports StreamProtocol
begin

section \<open>The whole message grammar\<close>

text \<open>
  \<open>anth_chk\<close> accepts the event sequences of the Anthropic streaming protocol: one
  \<open>message_start\<close>, content blocks one after the other with indices 0, 1, 2, ..., each opened,
  filled by deltas of its own kind and closed, then \<open>message_delta\<close> and \<open>message_stop\<close>, then
  nothing.  \<open>resp_chk\<close> is the upstream discipline under which the converter's output is always
  accepted: the response is created first, argument and reasoning deltas belong to the item that
  was announced last and is not finished, nothing follows the terminal event.  The converter
  refines the one into the other (\<open>grammar.run_sim\<close>).
\<close>

datatype anth_phase = AInit | ABody "string option" int | AClosing | ADone

definition delta_fits :: "string \<Rightarrow> AnthropicDelta \<Rightarrow> bool" where
  "delta_fits t d \<longleftrightarrow>
     t = ''text'' \<and> ad_Type d = ''text_delta'' \<or>
     t = ''tool_use'' \<and> ad_Type d = ''input_json_delta'' \<or>
     t = ''thinking'' \<and> ad_Type d = ''thinking_delta''"

fun anth_chk :: "anth_phase \<Rightarrow> AnthropicStreamEvent \<Rightarrow> anth_phase option" where
  "anth_chk AInit e = (if ase_Type e = ''message_start'' then Some (ABody None 0) else None)"
| "anth_chk (ABody None n) e =
     (if ase_Type e = ''content_block_start'' \<and> ase_Index e = Some n
      then map_option (\<lambda>cb. ABody (Some (cb_Type cb)) n) (ase_ContentBlock e)
      else if ase_Type e = ''message_delta'' then Some AClosing else None)"
| "anth_chk (ABody (Some t) n) e =
     (if ase_Type e = ''content_block_stop'' \<and> ase_Index e = Some n then Some (ABody None (n + 1))
      else if ase_Type e = ''content_block_delta'' \<and> ase_Index e = Some n
      then (case ase_Delta e of
              None \<Rightarrow> None
            | Some d \<Rightarrow> (if delta_fits t d then Some (ABody (Some t) n) else None))
      else None)"
| "anth_chk AClosing e = (if ase_Type e = ''message_stop'' then Some ADone else None)"
| "anth_chk ADone e = None"

datatype up_item = NoItem | ToolItem int | ReasoningItem int

datatype up_phase = UInit | UBody up_item | UDone

definition handled_types :: "string list" where
  "handled_types =
     [''response.created'', ''response.output_item.added'', ''response.output_text.delta'',
      ''response.output_text.done'', ''response.function_call_arguments.delta'',
      ''response.custom_tool_call_input.delta'', ''response.function_call_arguments.done'',
      ''response.output_item.done'', ''response.reasoning_summary_text.delta'',
      ''response.reasoning_text.delta'', ''response.reasoning_summary_text.done'',
      ''response.completed'', ''response.done'', ''response.incomplete'', ''response.failed'']"

definition announced :: "ResponsesStreamEvent \<Rightarrow> up_item \<Rightarrow> up_item" where
  "announced e it =
     (case rse_Item e of
        None \<Rightarrow> it
      | Some item \<Rightarrow>
          (if ro_Type item = ''function_call'' \<or> ro_Type item = ''custom_tool_call''
           then ToolItem (rse_OutputIndex e)
           else if ro_Type item = ''reasoning'' then ReasoningItem (rse_OutputIndex e)
           else it))"

definition body_chk :: "up_item \<Rightarrow> ResponsesStreamEvent \<Rightarrow> up_phase option" where
  "body_chk it e =
     (let t = rse_Type e in
      if t = ''response.output_item.added'' then Some (UBody (announced e it))
      else if t = ''response.output_text.delta'' then
        Some (UBody (if rse_Delta e = '''' then it else NoItem))
      else if t = ''response.output_text.done'' \<or> t = ''response.reasoning_summary_text.done'' then
        Some (UBody NoItem)
      else if t = ''response.function_call_arguments.delta''
            \<or> t = ''response.custom_tool_call_input.delta'' then
        (if rse_Delta e = '''' \<or> it = ToolItem (rse_OutputIndex e) then Some (UBody it) else None)
      else if t = ''response.function_call_arguments.done'' then
        (case it of ToolItem _ \<Rightarrow> Some (UBody NoItem) | _ \<Rightarrow> None)
      else if t = ''response.output_item.done'' then
        Some (UBody (if rse_Item e = None then it else NoItem))
      else if t = ''response.reasoning_summary_text.delta'' \<or> t = ''response.reasoning_text.delta''
      then (if rse_Delta e = '''' \<or> it = ReasoningItem (rse_OutputIndex e) then Some (UBody it)
            else None)
      else if t = ''response.completed'' \<or> t = ''response.done'' \<or> t = ''response.incomplete''
            \<or> t = ''response.failed'' then Some UDone
      else Some (UBody it))"

fun resp_chk :: "up_phase \<Rightarrow> ResponsesStreamEvent \<Rightarrow> up_phase option" where
  "resp_chk UInit e =
     (if rse_Type e = ''response.created'' then Some (UBody NoItem)
      else if rse_Type e \<in> set handled_types then None else Some UInit)"
| "resp_chk (UBody it) e = body_chk it e"
| "resp_chk UDone e = (if rse_Type e \<in> set handled_types then None else Some UDone)"

subsection \<open>The simulation\<close>

fun item_ok :: "up_item \<Rightarrow> ToAnthropicState \<Rightarrow> bool" where
  "item_ok NoItem s = True"
| "item_ok (ToolItem i) s =
     (ContentBlockOpen s \<and> CurrentBlockType s = ''tool_use'' \<and>
      OutputIndexToBlockIdx s i = Some (ContentBlockIndex s))"
| "item_ok (ReasoningItem i) s =
     (ContentBlockOpen s \<and> CurrentBlockType s = ''thinking'' \<and>
      OutputIndexToBlockIdx s i = Some (ContentBlockIndex s))"

definition body_phase :: "ToAnthropicState \<Rightarrow> anth_phase" where
  "body_phase s =
     ABody (if ContentBlockOpen s then Some (CurrentBlockType s) else None) (ContentBlockIndex s)"

fun grammar_rel :: "up_phase \<Rightarrow> ToAnthropicState \<Rightarrow> anth_phase \<Rightarrow> bool" where
  "grammar_rel UInit s c \<longleftrightarrow> \<not> MessageStartSent s \<and> \<not> MessageStopSent s \<and>
     \<not> ContentBlockOpen s \<and> ContentBlockIndex s = 0 \<and> c = AInit"
| "grammar_rel (UBody it) s c \<longleftrightarrow> MessageStartSent s \<and> \<not> MessageStopSent s \<and>
     item_ok it s \<and> c = body_phase s"
| "grammar_rel UDone s c \<longleftrightarrow> MessageStartSent s \<and> MessageStopSent s \<and> c = ADone"

definition sim_ok ::
  "up_phase \<Rightarrow> anth_phase \<Rightarrow> AnthropicStreamEvent list \<times> ToAnthropicState \<Rightarrow> bool" where
  "sim_ok u' c r \<longleftrightarrow>
     (\<exists>c'. run_check anth_chk c (fst r) = Some c' \<and> grammar_rel u' (snd r) c')"

lemmas sim_defs = sim_ok_def body_phase_def zero_defs delta_fits_def

lemma sim_nil: "grammar_rel u s c \<Longrightarrow> sim_ok u c ([], s)"
  by (simp add: sim_ok_def)

lemma sim_created:
  "grammar_rel UInit s c \<Longrightarrow> sim_ok (UBody NoItem) c (resToAnthHandleCreated evt s)"
  "grammar_rel (UBody it) s c \<Longrightarrow> sim_ok (UBody it) c (resToAnthHandleCreated evt s)"
  by (cases "rse_Response evt"; cases it;
      simp add: sim_defs resToAnthHandleCreated_def Let_def)+

lemma sim_close:
  "grammar_rel (UBody it) s c \<Longrightarrow> sim_ok (UBody NoItem) c (closeCurrentBlock s)"
  by (simp add: sim_defs closeCurrentBlock_def)

lemma sim_added:
  "grammar_rel (UBody it) s c \<Longrightarrow>
   sim_ok (UBody (announced evt it)) c (resToAnthHandleOutputItemAdded evt s)"
  by (cases "rse_Item evt"; cases "ContentBlockOpen s")
    (simp_all add: sim_defs resToAnthHandleOutputItemAdded_def closeCurrentBlock_def Let_def
      announced_def zeroBlock_def)

lemma sim_text:
  "grammar_rel (UBody it) s c \<Longrightarrow>
   sim_ok (UBody (if rse_Delta evt = '''' then it else NoItem)) c (resToAnthHandleTextDelta evt s)"
  by (cases "ContentBlockOpen s"; cases "CurrentBlockType s = ''text''")
    (simp_all add: sim_defs resToAnthHandleTextDelta_def closeCurrentBlock_def Let_def zeroBlock_def)

lemma sim_args:
  "grammar_rel (UBody it) s c \<Longrightarrow> rse_Delta evt = '''' \<or> it = ToolItem (rse_OutputIndex evt) \<Longrightarrow>
   sim_ok (UBody it) c (resToAnthHandleFuncArgsDelta evt s)"
  by (auto simp: sim_defs resToAnthHandleFuncArgsDelta_def Let_def)

lemma sim_blockdone:
  "grammar_rel (UBody it) s c \<Longrightarrow> sim_ok (UBody NoItem) c (resToAnthHandleBlockDone s)"
  by (simp add: sim_defs resToAnthHandleBlockDone_def closeCurrentBlock_def)

lemma sim_argsdone:
  "grammar_rel (UBody (ToolItem i)) s c \<Longrightarrow>
   sim_ok (UBody NoItem) c (resToAnthHandleFuncArgsDone jc evt s)"
  by (simp add: sim_defs resToAnthHandleFuncArgsDone_def closeCurrentBlock_def Let_def)

lemma sim_reasoning:
  "grammar_rel (UBody it) s c \<Longrightarrow>
   rse_Delta evt = '''' \<or> it = ReasoningItem (rse_OutputIndex evt) \<Longrightarrow>
   sim_ok (UBody it) c (resToAnthHandleReasoningDelta evt s)"
  by (auto simp: sim_defs resToAnthHandleReasoningDelta_def)

lemma sim_websearch:
  "grammar_rel (UBody it) s c \<Longrightarrow> sim_ok (UBody NoItem) c (resToAnthHandleWebSearchDone jc item s)"
  by (simp add: sim_defs resToAnthHandleWebSearchDone_def closeCurrentBlock_def Let_def zeroBlock_def)

lemma sim_itemdone:
  "grammar_rel (UBody it) s c \<Longrightarrow>
   sim_ok (UBody (if rse_Item evt = None then it else NoItem)) c
     (resToAnthHandleOutputItemDone jc evt s)"
  using sim_websearch sim_close
  by (auto simp: resToAnthHandleOutputItemDone_def sim_ok_def split: option.splits)

lemma sim_completed:
  "grammar_rel (UBody it) s c \<Longrightarrow> sim_ok UDone c (resToAnthHandleCompleted evt s)"
  by (cases "rse_Response evt")
    (simp_all add: sim_defs resToAnthHandleCompleted_def closeCurrentBlock_def Let_def)

lemma sim_finalize:
  "grammar_rel u s c \<Longrightarrow> u \<noteq> UInit \<Longrightarrow> sim_ok UDone c (FinalizeResponsesAnthropicStream s)"
  by (cases u) (simp_all add: sim_defs FinalizeResponsesAnthropicStream_def closeCurrentBlock_def)

lemma unhandled_event:
  "rse_Type evt \<notin> set handled_types \<Longrightarrow> ResponsesEventToAnthropicEvents jc evt s = ([], s)"
  by (simp add: handled_types_def ResponsesEventToAnthropicEvents_def Let_def)

lemma sim_body:
  assumes rel: "grammar_rel (UBody it) s c" and up: "body_chk it evt = Some u'"
  shows "sim_ok u' c (ResponsesEventToAnthropicEvents jc evt s)"
proof -
  note dispatch = body_chk_def ResponsesEventToAnthropicEvents_def Let_def
  consider (created) "rse_Type evt = ''response.created''"
    | (added) "rse_Type evt = ''response.output_item.added''"
    | (textdelta) "rse_Type evt = ''response.output_text.delta''"
    | (textdone) "rse_Type evt = ''response.output_text.done''"
    | (summarydone) "rse_Type evt = ''response.reasoning_summary_text.done''"
    | (args) "rse_Type evt = ''response.function_call_arguments.delta''"
    | (custom) "rse_Type evt = ''response.custom_tool_call_input.delta''"
    | (argsdone) "rse_Type evt = ''response.function_call_arguments.done''"
    | (itemdone) "rse_Type evt = ''response.output_item.done''"
    | (summary) "rse_Type evt = ''response.reasoning_summary_text.delta''"
    | (reasoning) "rse_Type evt = ''response.reasoning_text.delta''"
    | (terminal) "rse_Type evt \<in> {''response.completed'', ''response.done'', ''response.incomplete'',
        ''response.failed''}"
    | (unhandled) "rse_Type evt \<notin> set handled_types"
    unfolding handled_types_def by auto
  then show ?thesis
  proof cases
    case created
    with up sim_created(2) [OF rel] show ?thesis by (simp add: dispatch)
  next
    case added
    with up sim_added [OF rel] show ?thesis by (auto simp: dispatch)
  next
    case textdelta
    with up sim_text [OF rel, of evt] show ?thesis by (simp add: dispatch split: if_splits)
  next
    case textdone
    with up sim_blockdone [OF rel] show ?thesis by (auto simp: dispatch)
  next
    case summarydone
    with up sim_blockdone [OF rel] show ?thesis by (auto simp: dispatch)
  next
    case args
    with up sim_args [OF rel] show ?thesis by (auto simp: dispatch split: if_splits)
  next
    case custom
    with up sim_args [OF rel] show ?thesis by (auto simp: dispatch split: if_splits)
  next
    case argsdone
    with up rel sim_argsdone [of _ s c jc evt] show ?thesis
      by (auto simp: dispatch simp del: grammar_rel.simps split: up_item.splits)
  next
    case itemdone
    with up sim_itemdone [OF rel, of evt jc] show ?thesis by (auto simp: dispatch)
  next
    case summary
    with up sim_reasoning [OF rel] show ?thesis by (auto simp: dispatch split: if_splits)
  next
    case reasoning
    with up sim_reasoning [OF rel] show ?thesis by (auto simp: dispatch split: if_splits)
  next
    case terminal
    with up sim_completed [OF rel] show ?thesis by (auto simp: dispatch)
  next
    case unhandled
    with up sim_nil [OF rel] show ?thesis
      by (simp add: unhandled_event) (simp add: handled_types_def body_chk_def Let_def)
  qed
qed

lemma sim_event:
  assumes "grammar_rel u s c" and "resp_chk u evt = Some u'"
  shows "sim_ok u' c (ResponsesEventToAnthropicEvents jc evt s)"
proof (cases u)
  case UInit
  show ?thesis
  proof (cases "rse_Type evt = ''response.created''")
    case True
    with assms UInit show ?thesis
      by (auto simp: ResponsesEventToAnthropicEvents_def Let_def simp del: grammar_rel.simps
          intro: sim_created)
  next
    case False
    with assms UInit show ?thesis
      by (auto simp: unhandled_event simp del: grammar_rel.simps intro: sim_nil split: if_splits)
  qed
next
  case (UBody it)
  with assms show ?thesis
    using sim_body [of it s c evt u' jc] by (simp del: grammar_rel.simps)
next
  case UDone
  with assms show ?thesis
    by (auto simp: unhandled_event simp del: grammar_rel.simps intro: sim_nil split: if_splits)
qed

interpretation grammar: conversion
  "ResponsesEventToAnthropicEvents jc" resp_chk anth_chk grammar_rel
proof
  fix u s c e u' os s'
  assume "grammar_rel u s c" "resp_chk u e = Some u'"
    "ResponsesEventToAnthropicEvents jc e s = (os, s')"
  then show "\<exists>c'. run_check anth_chk c os = Some c' \<and> grammar_rel u' s' c'"
    using sim_event [of u s c e u' jc] by (simp add: sim_ok_def)
qed

subsection \<open>The driving loop\<close>

lemma drive_grammar:
  assumes "driveStream jc es s = (out, completed, s')" and "grammar_rel u s c"
    and "run_check resp_chk u es = Some u'"
  shows "\<exists>c' u2. run_check anth_chk c out = Some c' \<and> grammar_rel u2 s' c' \<and>
    (completed \<longrightarrow> u2 = UInit \<or> u2 = UDone)"
  using assms
proof (induction es arbitrary: s out completed s' u c)
  case Nil
  then show ?case by auto
next
  case (Cons evt es)
  obtain ev s1 where s1: "ResponsesEventToAnthropicEvents jc evt s = (ev, s1)"
    by (cases "ResponsesEventToAnthropicEvents jc evt s")
  from Cons.prems(3) obtain u1 where u1: "resp_chk u evt = Some u1" "run_check resp_chk u1 es = Some u'"
    by (auto split: option.splits)
  from sim_event [OF Cons.prems(2) u1(1), of jc] s1 obtain c1
    where c1: "run_check anth_chk c ev = Some c1" "grammar_rel u1 s1 c1"
    by (auto simp: sim_ok_def simp del: grammar_rel.simps)
  show ?case
  proof (cases "isOpenAICompatResponsesTerminalEvent (rse_Type evt)")
    case True
    obtain fin s2 where s2: "FinalizeResponsesAnthropicStream s1 = (fin, s2)"
      by (cases "FinalizeResponsesAnthropicStream s1")
    with True Cons.prems(1) s1 have out: "out = ev @ fin" "s' = s2" by auto
    show ?thesis
    proof (cases "u1 = UInit")
      case True
      with c1(2) s2 have "fin = []" "s2 = s1" by (auto simp: FinalizeResponsesAnthropicStream_def)
      with c1 out True show ?thesis by (auto simp del: grammar_rel.simps)
    next
      case False
      from sim_finalize [OF c1(2) False] s2 obtain c2
        where "run_check anth_chk c1 fin = Some c2" "grammar_rel UDone s2 c2"
        by (auto simp: sim_ok_def simp del: grammar_rel.simps)
      with c1 out show ?thesis
        by (blast intro: run_check_append_Some)
    qed
  next
    case False
    obtain rest cm s3 where s3: "driveStream jc es s1 = (rest, cm, s3)"
      by (cases "driveStream jc es s1") auto
    with False Cons.prems(1) s1 have out: "out = ev @ rest" "completed = cm" "s' = s3" by auto
    from Cons.IH [OF s3 c1(2) u1(2)] c1(1) out show ?thesis
      by (blast intro: run_check_append_Some)
  qed
qed

lemma grammar_rel_new: "grammar_rel UInit (newToAnthropicState now\<lparr>Model := m\<rparr>) AInit"
  by (simp add: newToAnthropicState_def)

subsection \<open>Text is neither lost nor invented\<close>

definition deltaText :: "AnthropicStreamEvent \<Rightarrow> string" where
  "deltaText e = (case ase_Delta e of None \<Rightarrow> '''' | Some d \<Rightarrow> ad_Text d)"

definition upstreamText :: "ResponsesStreamEvent \<Rightarrow> string" where
  "upstreamText e = (if rse_Type e = ''response.output_text.delta'' then rse_Delta e else '''')"

lemma deltaText_close: "concat (map deltaText (fst (closeCurrentBlock s))) = ''''"
  by (simp add: closeCurrentBlock_def deltaText_def zero_defs)

lemma deltaText_websearch: "concat (map deltaText (fst (resToAnthHandleWebSearchDone jc item s))) = ''''"
  by (simp add: resToAnthHandleWebSearchDone_def closeCurrentBlock_def Let_def deltaText_def zero_defs)

lemma deltaText_itemdone: "concat (map deltaText (fst (resToAnthHandleOutputItemDone jc e s))) = ''''"
  using deltaText_websearch deltaText_close
  by (simp add: resToAnthHandleOutputItemDone_def split: option.splits)

lemma deltaText_completed: "concat (map deltaText (fst (resToAnthHandleCompleted e s))) = ''''"
  by (simp add: resToAnthHandleCompleted_def closeCurrentBlock_def Let_def deltaText_def zero_defs)

lemma deltaText_created: "concat (map deltaText (fst (resToAnthHandleCreated e s))) = ''''"
  by (simp add: resToAnthHandleCreated_def Let_def deltaText_def zero_defs)

lemma deltaText_added: "concat (map deltaText (fst (resToAnthHandleOutputItemAdded e s))) = ''''"
  by (simp add: resToAnthHandleOutputItemAdded_def closeCurrentBlock_def Let_def deltaText_def
      zero_defs split: option.splits)

lemma deltaText_args: "concat (map deltaText (fst (resToAnthHandleFuncArgsDelta e s))) = ''''"
  by (simp add: resToAnthHandleFuncArgsDelta_def Let_def deltaText_def zero_defs split: option.splits)

lemma deltaText_argsdone: "concat (map deltaText (fst (resToAnthHandleFuncArgsDone jc e s))) = ''''"
  by (simp add: resToAnthHandleFuncArgsDone_def resToAnthHandleBlockDone_def closeCurrentBlock_def
      Let_def deltaText_def zero_defs)

lemma deltaText_blockdone: "concat (map deltaText (fst (resToAnthHandleBlockDone s))) = ''''"
  by (simp add: resToAnthHandleBlockDone_def closeCurrentBlock_def deltaText_def zero_defs)

lemma deltaText_reasoning: "concat (map deltaText (fst (resToAnthHandleReasoningDelta e s))) = ''''"
  by (simp add: resToAnthHandleReasoningDelta_def deltaText_def zero_defs split: option.splits)

lemma deltaText_text: "concat (map deltaText (fst (resToAnthHandleTextDelta e s))) = rse_Delta e"
  by (simp add: resToAnthHandleTextDelta_def closeCurrentBlock_def Let_def deltaText_def zero_defs)

lemma deltaText_finalize: "concat (map deltaText (fst (FinalizeResponsesAnthropicStream s))) = ''''"
  by (simp add: FinalizeResponsesAnthropicStream_def closeCurrentBlock_def deltaText_def zero_defs)

lemmas deltaText_rules = deltaText_created deltaText_added deltaText_args deltaText_argsdone
  deltaText_blockdone deltaText_reasoning deltaText_text deltaText_itemdone deltaText_completed

lemma deltaText_event:
  "concat (map deltaText (fst (ResponsesEventToAnthropicEvents jc e s))) = upstreamText e"
  unfolding ResponsesEventToAnthropicEvents_def Let_def upstreamText_def
  by (simp add: deltaText_rules del: map_concat concat_eq_Nil_conv)

lemma terminal_no_text: "isOpenAICompatResponsesTerminalEvent (rse_Type e) \<Longrightarrow> upstreamText e = ''''"
  by (auto simp: upstreamText_def isOpenAICompatResponsesTerminalEvent_def trim_space_def
      ascii_space_def space2_def space3_def)

lemma drive_text:
  "driveStream jc es s = (out, completed, s') \<Longrightarrow>
   concat (map deltaText out) =
   concat (map upstreamText (takeWhile (\<lambda>e. \<not> isOpenAICompatResponsesTerminalEvent (rse_Type e)) es))"
proof (induction es arbitrary: s out completed s')
  case (Cons evt es)
  obtain ev s1 where s1: "ResponsesEventToAnthropicEvents jc evt s = (ev, s1)"
    by (cases "ResponsesEventToAnthropicEvents jc evt s")
  have ev: "concat (map deltaText ev) = upstreamText evt"
    using deltaText_event [of jc evt s] s1 by simp
  show ?case
  proof (cases "isOpenAICompatResponsesTerminalEvent (rse_Type evt)")
    case True
    obtain fin s2 where fin: "FinalizeResponsesAnthropicStream s1 = (fin, s2)"
      by (cases "FinalizeResponsesAnthropicStream s1")
    with deltaText_finalize [of s1] have "concat (map deltaText fin) = ''''" by simp
    with True Cons.prems s1 fin ev terminal_no_text [OF True]
    show ?thesis by (auto simp del: concat_eq_Nil_conv)
  next
    case False
    obtain rest cm s3 where s3: "driveStream jc es s1 = (rest, cm, s3)"
      by (cases "driveStream jc es s1") auto
    with False Cons.prems s1 ev Cons.IH [OF s3] show ?thesis by auto
  qed
qed simp

end
