(* ===== verification/StreamEquivalence.thy ===== *)
theory StreamEquivalence
  imports StreamGrammar
begin

section \<open>Streaming and non-streaming conversion agree\<close>

text \<open>
  A client that assembles the converted stream must end up with the message that the
  non-streaming conversion produces from the finished response.  \<open>assemble\<close> is what an Anthropic
  client does with the events; \<open>responseEvents\<close> is the event sequence the Responses API sends for
  a response, its texts cut into arbitrary chunks.
\<close>

subsection \<open>The client: assembling a stream\<close>

record assembly =
  as_msg :: AnthropicResponse
  as_json :: "int \<Rightarrow> string"

definition assembly0 :: assembly where
  "assembly0 = \<lparr>as_msg = zeroResponse, as_json = (\<lambda>_. '''')\<rparr>"

definition as_update ::
  "int \<Rightarrow> (AnthropicContentBlock \<Rightarrow> AnthropicContentBlock) \<Rightarrow> assembly \<Rightarrow> assembly" where
  "as_update i f a =
     (let bs = ar_Content (as_msg a) in
      if 0 \<le> i \<and> nat i < length bs
      then a\<lparr>as_msg := (as_msg a)\<lparr>ar_Content := bs[nat i := f (bs ! nat i)]\<rparr>\<rparr> else a)"

definition addJson :: "int \<Rightarrow> string \<Rightarrow> assembly \<Rightarrow> assembly" where
  "addJson i j a = a\<lparr>as_json := (as_json a)(i := as_json a i @ j)\<rparr>"

definition assemble_delta :: "assembly \<Rightarrow> int \<Rightarrow> AnthropicDelta \<Rightarrow> assembly" where
  "assemble_delta a i d =
     (if ad_Type d = ''text_delta'' then as_update i (\<lambda>b. b\<lparr>cb_Text := cb_Text b @ ad_Text d\<rparr>) a
      else if ad_Type d = ''thinking_delta''
      then as_update i (\<lambda>b. b\<lparr>cb_Thinking := cb_Thinking b @ ad_Thinking d\<rparr>) a
      else if ad_Type d = ''input_json_delta''
      then addJson i (ad_PartialJSON d) a
      else a)"

definition assemble_step :: "assembly \<Rightarrow> AnthropicStreamEvent \<Rightarrow> assembly" where
  "assemble_step a e =
     (if ase_Type e = ''message_start'' then
        (case ase_Message e of None \<Rightarrow> a | Some m \<Rightarrow> a\<lparr>as_msg := m\<rparr>)
      else if ase_Type e = ''content_block_start'' then
        (case ase_ContentBlock e of
           None \<Rightarrow> a
         | Some cb \<Rightarrow> a\<lparr>as_msg := (as_msg a)\<lparr>ar_Content := ar_Content (as_msg a) @ [cb]\<rparr>\<rparr>)
      else if ase_Type e = ''content_block_delta'' then
        (case (ase_Index e, ase_Delta e) of
           (Some i, Some d) \<Rightarrow> assemble_delta a i d
         | _ \<Rightarrow> a)
      else if ase_Type e = ''content_block_stop'' then
        (case ase_Index e of
           None \<Rightarrow> a
         | Some i \<Rightarrow> (if as_json a i = '''' then a
                      else as_update i (\<lambda>b. b\<lparr>cb_Input := as_json a i\<rparr>) a))
      else if ase_Type e = ''message_delta'' then
        a\<lparr>as_msg := (as_msg a)\<lparr>
            ar_StopReason := (case ase_Delta e of None \<Rightarrow> ar_StopReason (as_msg a)
                                                | Some d \<Rightarrow> ad_StopReason d),
            ar_Usage := (case ase_Usage e of None \<Rightarrow> ar_Usage (as_msg a) | Some u \<Rightarrow> u)\<rparr>\<rparr>
      else a)"

definition assemble :: "AnthropicStreamEvent list \<Rightarrow> AnthropicResponse" where
  "assemble out = as_msg (foldl assemble_step assembly0 out)"

subsection \<open>The upstream events of a finished response\<close>

definition respEvent :: "string \<Rightarrow> int \<Rightarrow> ResponsesStreamEvent" where
  "respEvent t i = zeroStreamEvent\<lparr>rse_Type := t, rse_OutputIndex := i\<rparr>"

definition deltaEvents :: "string \<Rightarrow> int \<Rightarrow> string list \<Rightarrow> ResponsesStreamEvent list" where
  "deltaEvents t i cs = map (\<lambda>c. (respEvent t i)\<lparr>rse_Delta := c\<rparr>) cs"

definition itemBody :: "(string \<Rightarrow> string list) \<Rightarrow> int \<Rightarrow> ResponsesOutput \<Rightarrow> ResponsesStreamEvent list" where
  "itemBody chunks i item =
     (if ro_Type item = ''reasoning'' then
        deltaEvents ''response.reasoning_summary_text.delta'' i (chunks (summaryText item))
        @ [respEvent ''response.reasoning_summary_text.done'' i]
      else if ro_Type item = ''message'' then
        concat (map (\<lambda>p. deltaEvents ''response.output_text.delta'' i (chunks (rcp_Text p))
                         @ [respEvent ''response.output_text.done'' i])
                  (filter (\<lambda>p. rcp_Type p = ''output_text'') (ro_Content item)))
      else if ro_Type item = ''function_call'' then
        deltaEvents ''response.function_call_arguments.delta'' i (chunks (ro_Arguments item))
        @ [(respEvent ''response.function_call_arguments.done'' i)\<lparr>rse_Arguments := ro_Arguments item\<rparr>]
      else [])"

definition itemEvents :: "(string \<Rightarrow> string list) \<Rightarrow> int \<Rightarrow> ResponsesOutput \<Rightarrow> ResponsesStreamEvent list" where
  "itemEvents chunks i item =
     [(respEvent ''response.output_item.added'' i)\<lparr>rse_Item := Some item\<rparr>]
     @ itemBody chunks i item
     @ [(respEvent ''response.output_item.done'' i)\<lparr>rse_Item := Some item\<rparr>]"

fun itemsEvents :: "(string \<Rightarrow> string list) \<Rightarrow> int \<Rightarrow> ResponsesOutput list \<Rightarrow> ResponsesStreamEvent list" where
  "itemsEvents chunks i [] = []"
| "itemsEvents chunks i (item # items) = itemEvents chunks i item @ itemsEvents chunks (i + 1) items"

definition responseEvents :: "(string \<Rightarrow> string list) \<Rightarrow> ResponsesResponse \<Rightarrow> ResponsesStreamEvent list" where
  "responseEvents chunks resp =
     [(respEvent ''response.created'' 0)\<lparr>rse_Response := Some resp\<rparr>]
     @ itemsEvents chunks 0 (rr_Output resp)
     @ [(respEvent ''response.completed'' 0)\<lparr>rse_Response := Some resp\<rparr>]"

text \<open>
  The items for which both conversions are meant to give the same blocks: a reasoning item has
  one non-empty summary part (the streaming converter mishandles several, see
  \<open>multi_part_reasoning_rejected\<close>), a function call has arguments, a web search has completed, and
  there is no custom tool call (the non-streaming converter drops it, see
  \<open>custom_tool_call_diverges\<close>).
\<close>

definition plainItem :: "json_codec \<Rightarrow> ResponsesOutput \<Rightarrow> bool" where
  "plainItem jc item \<longleftrightarrow>
     ro_Type item \<noteq> ''custom_tool_call'' \<and>
     (ro_Type item = ''reasoning'' \<longrightarrow> length (ro_Summary item) = 1 \<and> summaryText item \<noteq> '''') \<and>
     (ro_Type item = ''function_call'' \<longrightarrow> ro_Arguments item \<noteq> '''' \<and>
        sanitizeAnthropicToolUseInput jc (ro_Name item) (ro_Arguments item) \<noteq> '''') \<and>
     (ro_Type item = ''web_search_call'' \<longrightarrow> ro_Status item = ''completed'')"

subsection \<open>Converting and assembling in lock step\<close>

definition lock :: "json_codec \<Rightarrow> ToAnthropicState \<times> assembly \<Rightarrow> ResponsesStreamEvent
  \<Rightarrow> ToAnthropicState \<times> assembly" where
  "lock jc sa e =
     (case ResponsesEventToAnthropicEvents jc e (fst sa) of (os, s') \<Rightarrow>
        (s', foldl assemble_step (snd sa) os))"

lemma lock_run:
  "foldl (lock jc) (s, a) es =
   (snd (run_steps (ResponsesEventToAnthropicEvents jc) es s),
    foldl assemble_step a (fst (run_steps (ResponsesEventToAnthropicEvents jc) es s)))"
  by (induction es arbitrary: s a) (auto simp: lock_def split: prod.splits)

definition numBlocks :: "assembly \<Rightarrow> nat" where
  "numBlocks a = length (ar_Content (as_msg a))"

definition ready :: "ToAnthropicState \<Rightarrow> assembly \<Rightarrow> bool" where
  "ready s a \<longleftrightarrow> \<not> ContentBlockOpen s \<and> ContentBlockIndex s = int (numBlocks a) \<and>
     (\<forall>i \<ge> int (numBlocks a). as_json a i = '''')"

definition addBlocks :: "assembly \<Rightarrow> AnthropicContentBlock list \<Rightarrow> assembly" where
  "addBlocks a bs = a\<lparr>as_msg := (as_msg a)\<lparr>ar_Content := ar_Content (as_msg a) @ bs\<rparr>\<rparr>"

lemma addBlocks_simps [simp]:
  "addBlocks a [] = a"
  "addBlocks (addBlocks a bs) cs = addBlocks a (bs @ cs)"
  "numBlocks (addBlocks a bs) = numBlocks a + length bs"
  "as_json (addBlocks a bs) = as_json a"
  by (simp_all add: addBlocks_def numBlocks_def)

lemma addJson_simps [simp]:
  "addJson i [] a = a"
  "addJson i j (addJson i k a) = addJson i (k @ j) a"
  "as_msg (addJson i j a) = as_msg a"
  "as_json (addJson i j a) = (as_json a)(i := as_json a i @ j)"
  "numBlocks (addJson i j a) = numBlocks a"
  by (simp_all add: addJson_def numBlocks_def)

lemma as_update_last [simp]:
  "as_update (int (numBlocks a)) f (addBlocks a [b]) = addBlocks a [f b]"
  by (simp add: as_update_def addBlocks_def numBlocks_def)

lemma assemble_start:
  "assemble_step a (blockStart i cb) = addBlocks a [cb]"
  by (simp add: assemble_step_def zeroEvent_def addBlocks_def)

lemma assemble_stop:
  "assemble_step a (blockStop i) =
    (if as_json a i = '''' then a else as_update i (\<lambda>b. b\<lparr>cb_Input := as_json a i\<rparr>) a)"
  by (simp add: assemble_step_def zeroEvent_def)

lemma assemble_blockDelta:
  "assemble_step a (blockDelta i d) = assemble_delta a i d"
  by (simp add: assemble_step_def zeroEvent_def)

lemmas assemble_rules = assemble_start assemble_stop assemble_blockDelta assemble_delta_def

text \<open>The chunk loops: an open block absorbs its deltas.\<close>

lemmas type_defs = respEvent_def zeroStreamEvent_def

lemma thinking_chunks:
  assumes "OutputIndexToBlockIdx s i = Some (int (numBlocks a))"
  shows "foldl (lock jc) (s, addBlocks a [b]) (deltaEvents ''response.reasoning_summary_text.delta'' i cs)
    = (s, addBlocks a [b\<lparr>cb_Thinking := cb_Thinking b @ concat cs\<rparr>])"
  using assms
proof (induction cs arbitrary: b)
  case (Cons c cs)
  have "lock jc (s, addBlocks a [b]) ((respEvent ''response.reasoning_summary_text.delta'' i)\<lparr>rse_Delta := c\<rparr>)
    = (s, addBlocks a [b\<lparr>cb_Thinking := cb_Thinking b @ c\<rparr>])"
    using Cons.prems
    by (simp add: lock_def ResponsesEventToAnthropicEvents_def Let_def type_defs
        resToAnthHandleReasoningDelta_def assemble_rules zeroDelta_def)
  with Cons show ?case by (simp add: deltaEvents_def)
qed (simp add: deltaEvents_def)

lemma text_chunks_open:
  assumes "ContentBlockOpen s" and "CurrentBlockType s = ''text''"
    and "ContentBlockIndex s = int (numBlocks a)"
  shows "foldl (lock jc) (s, addBlocks a [b]) (deltaEvents ''response.output_text.delta'' i cs)
    = (s, addBlocks a [b\<lparr>cb_Text := cb_Text b @ concat cs\<rparr>])"
  using assms
proof (induction cs arbitrary: b)
  case (Cons c cs)
  have "lock jc (s, addBlocks a [b]) ((respEvent ''response.output_text.delta'' i)\<lparr>rse_Delta := c\<rparr>)
    = (s, addBlocks a [b\<lparr>cb_Text := cb_Text b @ c\<rparr>])"
    using Cons.prems
    by (simp add: lock_def ResponsesEventToAnthropicEvents_def Let_def type_defs
        resToAnthHandleTextDelta_def assemble_rules zeroDelta_def)
  with Cons show ?case by (simp add: deltaEvents_def)
qed (simp add: deltaEvents_def)

lemma text_chunks_closed:
  assumes "ready s a"
  shows "foldl (lock jc) (s, a) (deltaEvents ''response.output_text.delta'' i cs)
    = (if concat cs = '''' then (s, a)
       else (s\<lparr>ContentBlockOpen := True, CurrentBlockType := ''text''\<rparr>,
             addBlocks a [zeroBlock\<lparr>cb_Type := ''text'', cb_Text := concat cs\<rparr>]))"
proof (induction cs)
  case (Cons c cs)
  let ?e = "(respEvent ''response.output_text.delta'' i)\<lparr>rse_Delta := c\<rparr>"
  let ?s1 = "s\<lparr>ContentBlockOpen := True, CurrentBlockType := ''text''\<rparr>"
  show ?case
  proof (cases "c = ''''")
    case True
    then have "lock jc (s, a) ?e = (s, a)"
      by (simp add: lock_def ResponsesEventToAnthropicEvents_def Let_def type_defs resToAnthHandleTextDelta_def)
    with Cons True show ?thesis by (simp add: deltaEvents_def)
  next
    case False
    with assms have "lock jc (s, a) ?e = (?s1, addBlocks a [zeroBlock\<lparr>cb_Type := ''text'', cb_Text := c\<rparr>])"
      by (simp add: lock_def ResponsesEventToAnthropicEvents_def Let_def type_defs ready_def
          resToAnthHandleTextDelta_def closeCurrentBlock_def assemble_rules zeroDelta_def zeroBlock_def)
    moreover have "foldl (lock jc) (?s1, addBlocks a [b]) (deltaEvents ''response.output_text.delta'' i cs)
      = (?s1, addBlocks a [b\<lparr>cb_Text := cb_Text b @ concat cs\<rparr>])" for b
      using assms by (intro text_chunks_open) (simp_all add: ready_def)
    ultimately show ?thesis using False by (simp add: deltaEvents_def)
  qed
qed (simp add: deltaEvents_def)

lemma args_chunks:
  assumes "CurrentBlockType s = ''tool_use''" and "CurrentToolName s \<noteq> ''Read''"
    and "OutputIndexToBlockIdx s i = Some n"
  shows "foldl (lock jc) (s, a) (deltaEvents ''response.function_call_arguments.delta'' i cs)
    = (s\<lparr>CurrentToolHadDelta := (CurrentToolHadDelta s \<or> concat cs \<noteq> '''')\<rparr>,
       addJson n (concat cs) a)"
  using assms
proof (induction cs arbitrary: s a)
  case (Cons c cs)
  let ?s1 = "s\<lparr>CurrentToolHadDelta := (CurrentToolHadDelta s \<or> c \<noteq> '''')\<rparr>"
  let ?a1 = "addJson n c a"
  have "lock jc (s, a) ((respEvent ''response.function_call_arguments.delta'' i)\<lparr>rse_Delta := c\<rparr>)
    = (?s1, ?a1)"
    using Cons.prems
    by (simp add: lock_def ResponsesEventToAnthropicEvents_def Let_def type_defs
        resToAnthHandleFuncArgsDelta_def assemble_rules zeroDelta_def)
  moreover have "foldl (lock jc) (?s1, ?a1) (deltaEvents ''response.function_call_arguments.delta'' i cs)
    = (?s1\<lparr>CurrentToolHadDelta := (CurrentToolHadDelta ?s1 \<or> concat cs \<noteq> '''')\<rparr>,
       addJson n (concat cs) ?a1)"
    using Cons.prems by (intro Cons.IH) simp_all
  ultimately show ?case by (simp add: deltaEvents_def disj_ac)
qed (simp add: deltaEvents_def)

lemma read_chunks:
  assumes "CurrentBlockType s = ''tool_use''" and "CurrentToolName s = ''Read''"
  shows "foldl (lock jc) (s, a) (deltaEvents ''response.function_call_arguments.delta'' i cs)
    = (s\<lparr>CurrentToolArgs := CurrentToolArgs s @ concat cs\<rparr>, a)"
  using assms
proof (induction cs arbitrary: s)
  case (Cons c cs)
  let ?s1 = "s\<lparr>CurrentToolArgs := CurrentToolArgs s @ c\<rparr>"
  have "lock jc (s, a) ((respEvent ''response.function_call_arguments.delta'' i)\<lparr>rse_Delta := c\<rparr>)
    = (?s1, a)"
    using Cons.prems
    by (simp add: lock_def ResponsesEventToAnthropicEvents_def Let_def type_defs
        resToAnthHandleFuncArgsDelta_def)
  with Cons.IH [of ?s1] Cons.prems show ?case by (simp add: deltaEvents_def)
qed (simp add: deltaEvents_def)

subsection \<open>One output item\<close>

definition sameFrame :: "ToAnthropicState \<Rightarrow> ToAnthropicState \<Rightarrow> bool" where
  "sameFrame s s' \<longleftrightarrow> MessageStartSent s' = MessageStartSent s \<and> MessageStopSent s' = MessageStopSent s
     \<and> ResponseID s' = ResponseID s \<and> Model s' = Model s \<and> InputTokens s' = InputTokens s
     \<and> OutputTokens s' = OutputTokens s \<and> CacheReadInputTokens s' = CacheReadInputTokens s"

definition item_done :: "json_codec \<Rightarrow> ToAnthropicState \<times> assembly \<Rightarrow> ResponsesOutput
  \<Rightarrow> ToAnthropicState \<times> assembly \<Rightarrow> bool" where
  "item_done jc sa item sa' \<longleftrightarrow>
     ready (fst sa') (snd sa') \<and>
     as_msg (snd sa') = as_msg (addBlocks (snd sa) (outputBlocks jc item)) \<and>
     sameFrame (fst sa) (fst sa') \<and>
     HasToolCall (fst sa') = (HasToolCall (fst sa) \<or> ro_Type item = ''function_call'')"

lemmas lock_event = lock_def ResponsesEventToAnthropicEvents_def Let_def type_defs

lemma lock_itemdone_closed:
  assumes "\<not> ContentBlockOpen s" and "ro_Type item \<noteq> ''web_search_call''"
  shows "lock jc (s, a) ((respEvent ''response.output_item.done'' i)\<lparr>rse_Item := Some item\<rparr>) = (s, a)"
  using assms by (simp add: lock_event resToAnthHandleOutputItemDone_def)

definition closed :: "ToAnthropicState \<Rightarrow> ToAnthropicState" where
  "closed s = s\<lparr>ContentBlockOpen := False, ContentBlockIndex := ContentBlockIndex s + 1,
     CurrentToolName := '''', CurrentToolArgs := '''', CurrentToolHadDelta := False\<rparr>"

lemma closeCurrentBlock_open:
  "ContentBlockOpen s \<Longrightarrow> closeCurrentBlock s = ([blockStop (ContentBlockIndex s)], closed s)"
  by (simp add: closeCurrentBlock_def closed_def)

lemma lock_blockdone:
  assumes "ContentBlockOpen s" and "as_json a (ContentBlockIndex s) = ''''"
    and "t = ''response.output_text.done'' \<or> t = ''response.reasoning_summary_text.done''"
  shows "lock jc (s, a) (respEvent t i) = (closed s, a)"
  using assms
  by (auto simp: lock_event resToAnthHandleBlockDone_def closeCurrentBlock_open assemble_rules)

lemma lock_blockdone_closed:
  assumes "\<not> ContentBlockOpen s"
    and "t = ''response.output_text.done'' \<or> t = ''response.reasoning_summary_text.done''"
  shows "lock jc (s, a) (respEvent t i) = (s, a)"
  using assms by (auto simp: lock_event resToAnthHandleBlockDone_def)

lemma item_reasoning:
  assumes "ready s a" and "ro_Type item = ''reasoning''" and "summaryText item \<noteq> ''''"
    and "concat (chunks (summaryText item)) = summaryText item"
  shows "item_done jc (s, a) item (foldl (lock jc) (s, a) (itemEvents chunks i item))"
proof -
  let ?n = "int (numBlocks a)"
  let ?s1 = "s\<lparr>OutputIndexToBlockIdx := (OutputIndexToBlockIdx s)(i \<mapsto> ?n),
    ContentBlockOpen := True, CurrentBlockType := ''thinking''\<rparr>"
  have 1: "lock jc (s, a) ((respEvent ''response.output_item.added'' i)\<lparr>rse_Item := Some item\<rparr>)
    = (?s1, addBlocks a [zeroBlock\<lparr>cb_Type := ''thinking''\<rparr>])"
    using assms(1,2)
    by (simp add: lock_event resToAnthHandleOutputItemAdded_def closeCurrentBlock_def ready_def
        assemble_rules)
  have 2: "foldl (lock jc) (?s1, addBlocks a [zeroBlock\<lparr>cb_Type := ''thinking''\<rparr>])
      (deltaEvents ''response.reasoning_summary_text.delta'' i (chunks (summaryText item)))
    = (?s1, addBlocks a [zeroBlock\<lparr>cb_Type := ''thinking'', cb_Thinking := summaryText item\<rparr>])"
    using assms(4) by (simp add: thinking_chunks zeroBlock_def)
  have 3: "lock jc (?s1, addBlocks a bs) (respEvent ''response.reasoning_summary_text.done'' i)
    = (closed ?s1, addBlocks a bs)" for bs
    using assms(1) by (intro lock_blockdone) (simp_all add: ready_def)
  have "foldl (lock jc) (s, a) (itemEvents chunks i item)
    = (closed ?s1, addBlocks a [zeroBlock\<lparr>cb_Type := ''thinking'', cb_Thinking := summaryText item\<rparr>])"
    using assms(2) by (simp add: itemEvents_def itemBody_def 1 2 3 lock_itemdone_closed closed_def)
  with assms show ?thesis
    by (simp add: item_done_def ready_def outputBlocks_def sameFrame_def closed_def)
qed

lemma item_message:
  assumes "ready s a" and "ro_Type item = ''message''" and chunks: "\<And>t. concat (chunks t) = t"
  shows "item_done jc (s, a) item (foldl (lock jc) (s, a) (itemEvents chunks i item))"
proof -
  define body where "body ps = concat (map (\<lambda>p. deltaEvents ''response.output_text.delta'' i (chunks (rcp_Text p))
      @ [respEvent ''response.output_text.done'' i]) ps)" for ps :: "ResponsesContentPart list"
  have loop: "\<exists>s'. foldl (lock jc) (s, a) (body ps)
      = (s', addBlocks a (map (\<lambda>p. zeroBlock\<lparr>cb_Type := ''text'', cb_Text := rcp_Text p\<rparr>)
               (filter (\<lambda>p. rcp_Text p \<noteq> '''') ps)))
    \<and> ready s' (addBlocks a (map (\<lambda>p. zeroBlock\<lparr>cb_Type := ''text'', cb_Text := rcp_Text p\<rparr>)
               (filter (\<lambda>p. rcp_Text p \<noteq> '''') ps)))
    \<and> sameFrame s s' \<and> HasToolCall s' = HasToolCall s" if "ready s a" for s a ps
    using that
  proof (induction ps arbitrary: s a)
    case Nil
    then show ?case by (simp add: body_def sameFrame_def)
  next
    case (Cons p ps)
    show ?case
    proof (cases "rcp_Text p = ''''")
      case True
      have "foldl (lock jc) (s, a) (body (p # ps)) = foldl (lock jc) (s, a) (body ps)"
        using Cons.prems True
        by (simp add: body_def text_chunks_closed chunks lock_blockdone_closed ready_def
            del: concat_eq_Nil_conv)
      with Cons.IH [OF Cons.prems] True show ?thesis by simp
    next
      case False
      let ?s1 = "s\<lparr>ContentBlockOpen := True, CurrentBlockType := ''text''\<rparr>"
      let ?a1 = "addBlocks a [zeroBlock\<lparr>cb_Type := ''text'', cb_Text := rcp_Text p\<rparr>]"
      have "lock jc (?s1, ?a1) (respEvent ''response.output_text.done'' i) = (closed ?s1, ?a1)"
        using Cons.prems by (intro lock_blockdone) (simp_all add: ready_def)
      then have step: "foldl (lock jc) (s, a) (body (p # ps)) = foldl (lock jc) (closed ?s1, ?a1) (body ps)"
        using False by (simp add: body_def text_chunks_closed [OF Cons.prems] chunks
            del: concat_eq_Nil_conv)
      have "ready (closed ?s1) ?a1" using Cons.prems by (simp add: ready_def closed_def)
      from Cons.IH [OF this] step False show ?thesis
        by (auto simp: sameFrame_def closed_def)
    qed
  qed
  have added: "lock jc (s, a) ((respEvent ''response.output_item.added'' i)\<lparr>rse_Item := Some item\<rparr>) = (s, a)"
    using assms(2) by (simp add: lock_event resToAnthHandleOutputItemAdded_def)
  from loop [OF assms(1), of "filter (\<lambda>p. rcp_Type p = ''output_text'') (ro_Content item)"]
  obtain s' where s': "foldl (lock jc) (s, a) (body (filter (\<lambda>p. rcp_Type p = ''output_text'') (ro_Content item)))
      = (s', addBlocks a (textBlocks item))"
    "ready s' (addBlocks a (textBlocks item))" "sameFrame s s'" "HasToolCall s' = HasToolCall s"
    by (auto simp: textBlocks_def conj_commute)
  have "foldl (lock jc) (s, a) (itemEvents chunks i item) = (s', addBlocks a (textBlocks item))"
    using assms(2) s'(1,2)
    by (simp add: itemEvents_def itemBody_def added body_def lock_itemdone_closed ready_def)
  with s' assms(2) show ?thesis
    by (simp add: item_done_def outputBlocks_def)
qed

lemma item_function_call:
  assumes rd: "ready s a" and ty: "ro_Type item = ''function_call''"
    and args: "ro_Arguments item \<noteq> ''''"
    and san: "sanitizeAnthropicToolUseInput jc (ro_Name item) (ro_Arguments item) \<noteq> ''''"
    and chunks: "concat (chunks (ro_Arguments item)) = ro_Arguments item"
  shows "item_done jc (s, a) item (foldl (lock jc) (s, a) (itemEvents chunks i item))"
proof -
  let ?n = "int (numBlocks a)"
  let ?b = "zeroBlock\<lparr>cb_Type := ''tool_use'', cb_ID := fromResponsesCallID (ro_CallID item),
    cb_Name := ro_Name item, cb_Input := ''{}''\<rparr>"
  let ?in = "sanitizeAnthropicToolUseInput jc (ro_Name item) (ro_Arguments item)"
  let ?s1 = "s\<lparr>OutputIndexToBlockIdx := (OutputIndexToBlockIdx s)(i \<mapsto> ?n), ContentBlockOpen := True,
    CurrentBlockType := ''tool_use'', CurrentToolName := ro_Name item, CurrentToolArgs := '''',
    CurrentToolHadDelta := False, HasToolCall := True\<rparr>"
  let ?a1 = "addBlocks a [?b]"
  let ?fin = "(closed ?s1, addBlocks (addJson ?n ?in a) [?b\<lparr>cb_Input := ?in\<rparr>])"
  let ?argsdone = "(respEvent ''response.function_call_arguments.done'' i)\<lparr>rse_Arguments := ro_Arguments item\<rparr>"
  have json: "as_json a ?n = ''''" "ContentBlockIndex s = ?n" "\<not> ContentBlockOpen s"
    using rd by (simp_all add: ready_def)
  have 1: "lock jc (s, a) ((respEvent ''response.output_item.added'' i)\<lparr>rse_Item := Some item\<rparr>) = (?s1, ?a1)"
    using rd ty by (simp add: lock_event resToAnthHandleOutputItemAdded_def closeCurrentBlock_def
        ready_def assemble_rules)
  have addJson_add: "addJson k j (addBlocks a bs) = addBlocks (addJson k j a) bs" for k j bs
    by (simp add: addJson_def addBlocks_def)
  have nb: "as_update ?n f (addBlocks (addJson ?n j a) [b]) = addBlocks (addJson ?n j a) [f b]" for f j b
    using as_update_last [of "addJson ?n j a" f b] by simp
  have 2: "lock jc (foldl (lock jc) (?s1, ?a1)
      (deltaEvents ''response.function_call_arguments.delta'' i (chunks (ro_Arguments item)))) ?argsdone
    = ?fin"
  proof (cases "ro_Name item = ''Read''")
    case True
    then have "foldl (lock jc) (?s1, ?a1)
        (deltaEvents ''response.function_call_arguments.delta'' i (chunks (ro_Arguments item)))
      = (?s1\<lparr>CurrentToolArgs := ro_Arguments item\<rparr>, ?a1)"
      using chunks by (simp add: read_chunks)
    moreover have "lock jc (?s1\<lparr>CurrentToolArgs := ro_Arguments item\<rparr>, ?a1) ?argsdone = ?fin"
      using True args san json
      by (simp add: lock_event resToAnthHandleFuncArgsDone_def closeCurrentBlock_open assemble_rules
          zeroDelta_def addJson_add nb) (simp add: closed_def)
    ultimately show ?thesis by simp
  next
    case False
    then have "foldl (lock jc) (?s1, ?a1)
        (deltaEvents ''response.function_call_arguments.delta'' i (chunks (ro_Arguments item)))
      = (?s1\<lparr>CurrentToolHadDelta := True\<rparr>, addJson ?n (ro_Arguments item) ?a1)"
      using chunks args by (simp add: args_chunks [where n = ?n] del: concat_eq_Nil_conv)
    moreover have "lock jc (?s1\<lparr>CurrentToolHadDelta := True\<rparr>, addJson ?n (ro_Arguments item) ?a1) ?argsdone
      = ?fin"
      using False args json
      by (simp add: lock_event resToAnthHandleFuncArgsDone_def closeCurrentBlock_open assemble_rules
          addJson_add nb sanitizeAnthropicToolUseInput_def) (simp add: closed_def)
    ultimately show ?thesis by simp
  qed
  have "foldl (lock jc) (s, a) (itemEvents chunks i item) = ?fin"
    using ty by (simp add: itemEvents_def itemBody_def 1 2 lock_itemdone_closed closed_def)
  moreover have "as_msg (addBlocks (addJson k j a) bs) = as_msg (addBlocks a bs)" for k j bs
    by (simp add: addBlocks_def)
  moreover have "outputBlocks jc item = [?b\<lparr>cb_Input := ?in\<rparr>]"
    using ty by (simp add: outputBlocks_def zeroBlock_def)
  ultimately show ?thesis
    using rd ty by (simp add: item_done_def ready_def sameFrame_def closed_def)
qed

lemma item_web_search:
  assumes "ready s a" and "ro_Type item = ''web_search_call''" and "ro_Status item = ''completed''"
  shows "item_done jc (s, a) item (foldl (lock jc) (s, a) (itemEvents chunks i item))"
  using assms
  by (simp add: itemEvents_def itemBody_def lock_event resToAnthHandleOutputItemAdded_def
      resToAnthHandleOutputItemDone_def resToAnthHandleWebSearchDone_def closeCurrentBlock_def
      assemble_rules item_done_def ready_def outputBlocks_def sameFrame_def)

lemma item_other:
  assumes "ready s a"
    and "ro_Type item \<notin> {''reasoning'', ''message'', ''function_call'', ''custom_tool_call'', ''web_search_call''}"
  shows "item_done jc (s, a) item (foldl (lock jc) (s, a) (itemEvents chunks i item))"
  using assms
  by (simp add: itemEvents_def itemBody_def lock_event resToAnthHandleOutputItemAdded_def
      resToAnthHandleOutputItemDone_def item_done_def ready_def outputBlocks_def sameFrame_def)

lemma item_step:
  assumes "ready s a" and "plainItem jc item" and "\<And>t. concat (chunks t) = t"
  shows "item_done jc (s, a) item (foldl (lock jc) (s, a) (itemEvents chunks i item))"
proof -
  consider (reasoning) "ro_Type item = ''reasoning''" | (message) "ro_Type item = ''message''"
    | (call) "ro_Type item = ''function_call''" | (search) "ro_Type item = ''web_search_call''"
    | (other) "ro_Type item \<notin> {''reasoning'', ''message'', ''function_call'', ''custom_tool_call'',
        ''web_search_call''}"
    using assms(2) unfolding plainItem_def by blast
  then show ?thesis
  proof cases
    case reasoning
    with assms show ?thesis by (intro item_reasoning) (simp_all add: plainItem_def)
  next
    case message
    with assms show ?thesis by (intro item_message) simp_all
  next
    case call
    with assms show ?thesis by (intro item_function_call) (simp_all add: plainItem_def)
  next
    case search
    with assms show ?thesis by (intro item_web_search) (simp_all add: plainItem_def)
  next
    case other
    with assms show ?thesis by (intro item_other)
  qed
qed

subsection \<open>The whole response\<close>

definition hasFunctionCall :: "ResponsesOutput list \<Rightarrow> bool" where
  "hasFunctionCall items = list_ex (\<lambda>item. ro_Type item = ''function_call'') items"

lemma items_run:
  assumes "ready s a" and "list_all (plainItem jc) items" and "\<And>t. concat (chunks t) = t"
    and "foldl (lock jc) (s, a) (itemsEvents chunks i items) = (s', a')"
  shows "ready s' a' \<and> as_msg a' = as_msg (addBlocks a (concat (map (outputBlocks jc) items)))
    \<and> sameFrame s s' \<and> HasToolCall s' = (HasToolCall s \<or> hasFunctionCall items)"
  using assms(1,2,4)
proof (induction items arbitrary: s a i)
  case Nil
  then show ?case by (simp add: sameFrame_def hasFunctionCall_def)
next
  case (Cons item items)
  obtain s1 a1 where 1: "foldl (lock jc) (s, a) (itemEvents chunks i item) = (s1, a1)"
    by (cases "foldl (lock jc) (s, a) (itemEvents chunks i item)")
  have d: "ready s1 a1" "as_msg a1 = as_msg (addBlocks a (outputBlocks jc item))" "sameFrame s s1"
    "HasToolCall s1 = (HasToolCall s \<or> ro_Type item = ''function_call'')"
    using item_step [OF Cons.prems(1) _ assms(3), of jc item i] Cons.prems(2) 1
    by (simp_all add: item_done_def)
  have "foldl (lock jc) (s1, a1) (itemsEvents chunks (i + 1) items) = (s', a')"
    using Cons.prems(3) 1 by simp
  from Cons.IH [OF d(1) _ this] Cons.prems(2) d show ?case
    by (auto simp: addBlocks_def sameFrame_def hasFunctionCall_def)
qed

lemma tool_use_blocks:
  "list_all (plainItem jc) items \<Longrightarrow>
   containsAnthropicToolUseBlock (concat (map (outputBlocks jc) items)) = hasFunctionCall items"
proof (induction items)
  case (Cons item items)
  have "containsAnthropicToolUseBlock (outputBlocks jc item) = (ro_Type item = ''function_call'')"
    by (cases "ro_Type item = ''message''")
      (auto simp: containsAnthropicToolUseBlock_def outputBlocks_def zeroBlock_def
        textBlocks_def list_ex_iff [of _ "map _ _"])
  with Cons show ?case by (simp add: containsAnthropicToolUseBlock_def hasFunctionCall_def)
qed (simp add: containsAnthropicToolUseBlock_def hasFunctionCall_def)


lemma drive_prefix:
  assumes "\<forall>e \<in> set es. \<not> isOpenAICompatResponsesTerminalEvent (rse_Type e)"
    and "run_steps (ResponsesEventToAnthropicEvents jc) es s = (out, s1)"
    and "driveStream jc es' s1 = (out', completed, s2)"
  shows "driveStream jc (es @ es') s = (out @ out', completed, s2)"
  using assms
  by (induction es arbitrary: s out) (auto split: prod.splits)

definition itemTypes :: "string list" where
  "itemTypes = [''response.output_item.added'', ''response.output_item.done'',
     ''response.reasoning_summary_text.delta'', ''response.reasoning_summary_text.done'',
     ''response.output_text.delta'', ''response.output_text.done'',
     ''response.function_call_arguments.delta'', ''response.function_call_arguments.done'']"

lemma itemTypes_not_terminal:
  "t \<in> set itemTypes \<Longrightarrow> \<not> isOpenAICompatResponsesTerminalEvent t"
  by (auto simp: itemTypes_def isOpenAICompatResponsesTerminalEvent_def trim_space_def
      ascii_space_def space2_def space3_def)

lemma itemsEvents_types: "e \<in> set (itemsEvents chunks i items) \<Longrightarrow> rse_Type e \<in> set itemTypes"
  by (induction items arbitrary: i)
    (auto simp: itemEvents_def itemBody_def deltaEvents_def type_defs itemTypes_def split: if_splits)

lemma created_not_terminal: "\<not> isOpenAICompatResponsesTerminalEvent ''response.created''"
  by (simp add: isOpenAICompatResponsesTerminalEvent_def trim_space_def
      ascii_space_def space2_def space3_def)

lemma usage_recorded:
  "InputTokens s = 0 \<Longrightarrow> OutputTokens s = 0 \<Longrightarrow> CacheReadInputTokens s = 0 \<Longrightarrow>
   usageOfState (recordUsage u s) = anthropicUsageFromResponsesUsage u"
  by (cases u) (simp_all add: usageOfState_def recordUsage_def anthropicUsageFromResponsesUsage_def
      zeroUsage_def Let_def)

lemma stop_reason_agrees:
  "rse_Response evt = Some r \<Longrightarrow> containsAnthropicToolUseBlock blocks = tool \<Longrightarrow>
   completedStopReason evt tool
   = responsesStatusToAnthropicStopReason (rr_Status r) (rr_IncompleteDetails r) blocks"
  by (auto simp: completedStopReason_def responsesStatusToAnthropicStopReason_def split: option.splits)

lemma drive_terminal:
  assumes "\<not> MessageStopSent s" and "\<not> ContentBlockOpen s"
  shows "driveStream jc [(respEvent ''response.completed'' 0)\<lparr>rse_Response := Some r\<rparr>] s
    = ([messageDelta (completedStopReason ((respEvent ''response.completed'' 0)\<lparr>rse_Response := Some r\<rparr>)
          (HasToolCall s)) (usageOfState (recordUsage (rr_Usage r) s)), messageStop],
       True, (recordUsage (rr_Usage r) s)\<lparr>MessageStopSent := True\<rparr>)"
  using assms
  by (simp add: ResponsesEventToAnthropicEvents_def Let_def type_defs resToAnthHandleCompleted_def
      closeCurrentBlock_def FinalizeResponsesAnthropicStream_def recordUsage_def [of None]
      isOpenAICompatResponsesTerminalEvent_def trim_space_terminal)

lemma assemble_end:
  "foldl assemble_step a [messageDelta reason usage, messageStop]
   = a\<lparr>as_msg := (as_msg a)\<lparr>ar_StopReason := reason, ar_Usage := usage\<rparr>\<rparr>"
  by (simp add: assemble_step_def zeroEvent_def zeroDelta_def)

lemma stream_equals_message:
  fixes jc resp model now
  assumes plain: "list_all (plainItem jc) (rr_Output resp)"
    and chunks: "\<And>t. concat (chunks t) = t"
    and model: "model \<noteq> ''''"
    and blocks: "concat (map (outputBlocks jc) (rr_Output resp)) \<noteq> []"
  shows "\<exists>out s'. driveStream jc (responseEvents chunks resp) (newToAnthropicState now\<lparr>Model := model\<rparr>)
      = (out, True, s') \<and> assemble out = ResponsesToAnthropic jc resp model"
proof -
  let ?s0 = "newToAnthropicState now\<lparr>Model := model\<rparr>"
  let ?created = "(respEvent ''response.created'' 0)\<lparr>rse_Response := Some resp\<rparr>"
  let ?s1 = "?s0\<lparr>ResponseID := rr_ID resp, MessageStartSent := True\<rparr>"
  let ?msg = "zeroResponse\<lparr>ar_ID := rr_ID resp, ar_Type := ''message'',
                    ar_Role := ''assistant'', ar_Model := model\<rparr>"
  let ?a1 = "assembly0\<lparr>as_msg := ?msg\<rparr>"
  let ?bs = "concat (map (outputBlocks jc) (rr_Output resp))"
  let ?items = "itemsEvents chunks 0 (rr_Output resp)"
  have created: "ResponsesEventToAnthropicEvents jc ?created ?s0
      = ([zeroEvent\<lparr>ase_Type := ''message_start'', ase_Message := Some ?msg\<rparr>], ?s1)"
    using model by (simp add: ResponsesEventToAnthropicEvents_def Let_def type_defs
        resToAnthHandleCreated_def newToAnthropicState_def)
  obtain out s2 where run: "run_steps (ResponsesEventToAnthropicEvents jc) ?items ?s1 = (out, s2)"
    by (cases "run_steps (ResponsesEventToAnthropicEvents jc) ?items ?s1")
  define a2 where "a2 = foldl assemble_step ?a1 out"
  have "foldl (lock jc) (?s1, ?a1) ?items = (s2, a2)"
    using run by (simp add: lock_run a2_def)
  moreover have "ready ?s1 ?a1"
    by (simp add: ready_def numBlocks_def newToAnthropicState_def assembly0_def zeroResponse_def)
  ultimately have it: "ready s2 a2" "as_msg a2 = as_msg (addBlocks ?a1 ?bs)" "sameFrame ?s1 s2"
    "HasToolCall s2 = hasFunctionCall (rr_Output resp)"
    using items_run [OF _ plain chunks, where s = ?s1 and a = ?a1 and s' = s2 and a' = a2 and i = 0]
    by (simp_all add: newToAnthropicState_def)
  have frame: "\<not> MessageStopSent s2" "\<not> ContentBlockOpen s2" "InputTokens s2 = 0"
    "OutputTokens s2 = 0" "CacheReadInputTokens s2 = 0"
    using it(1,3) by (simp_all add: ready_def sameFrame_def newToAnthropicState_def)
  let ?compl = "(respEvent ''response.completed'' 0)\<lparr>rse_Response := Some resp\<rparr>"
  let ?fin = "[messageDelta (completedStopReason ?compl (HasToolCall s2))
      (usageOfState (recordUsage (rr_Usage resp) s2)), messageStop]"
  let ?start = "zeroEvent\<lparr>ase_Type := ''message_start'', ase_Message := Some ?msg\<rparr>"
  have nonterm: "\<forall>e \<in> set (?created # ?items). \<not> isOpenAICompatResponsesTerminalEvent (rse_Type e)"
    using created_not_terminal itemsEvents_types itemTypes_not_terminal by (auto simp: type_defs)
  have "run_steps (ResponsesEventToAnthropicEvents jc) (?created # ?items) ?s0 = (?start # out, s2)"
    using run created by simp
  from drive_prefix [OF nonterm this drive_terminal [OF frame(1,2), of jc resp]]
  have drive: "\<exists>s'. driveStream jc (responseEvents chunks resp) ?s0 = (?start # out @ ?fin, True, s')"
    by (simp add: responseEvents_def)
  have start: "assemble_step assembly0 ?start = ?a1"
    by (simp add: assemble_step_def zeroEvent_def)
  have split_end: "foldl assemble_step assembly0 (?start # out @ ?fin) = foldl assemble_step a2 ?fin"
    by (simp only: a2_def start foldl_append foldl_Cons)
  have "assemble (?start # out @ ?fin)
      = (as_msg a2)\<lparr>ar_StopReason := completedStopReason ?compl (HasToolCall s2),
          ar_Usage := usageOfState (recordUsage (rr_Usage resp) s2)\<rparr>"
    unfolding assemble_def split_end assemble_end by simp
  also have "\<dots> = ResponsesToAnthropic jc resp model"
    using blocks it(2,4) tool_use_blocks [OF plain] usage_recorded [OF frame(3-5), of "rr_Usage resp"]
      stop_reason_agrees [of ?compl resp ?bs]
    by (simp add: ResponsesToAnthropic_def Let_def addBlocks_def zeroResponse_def type_defs
        anthropicUsageFromResponsesUsage_def del: concat_eq_Nil_conv split: option.splits)
  finally show ?thesis using drive by blast
qed

end
