(* ===== verification/MessagesStream.thy ===== *)
theory MessagesStream
  imports StreamGrammar
begin

section \<open>The streaming handler of /v1/messages over an OpenAI upstream\<close>

text \<open>
  Models \<open>handleAnthropicStreamingResponse\<close> of \<open>service/openai_gateway_messages.go\<close> and the
  server-sent-event reader of \<open>service/openai_gateway_service.go\<close>: upstream lines are grouped into
  frames, each frame's payload is parsed and converted, and the converted events are written to
  the client until it disconnects; the upstream is then drained for the usage that is billed.

  \<open>driveStream\<close> (theory \<open>AnthropicStream\<close>) is the specification: what a client that stays connected
  receives for the parsed events.
\<close>

subsection \<open>What the handler uses of JSON\<close>

record sse_codec =
  sc_event :: "string \<Rightarrow> ResponsesStreamEvent option"
  sc_type_exists :: "string \<Rightarrow> bool"
  sc_set_type :: "string \<Rightarrow> string \<Rightarrow> string option"
  sc_get :: "string \<Rightarrow> string \<Rightarrow> string"
  sc_marshal :: "AnthropicStreamEvent \<Rightarrow> string option"
  sc_marshal_error :: "string \<Rightarrow> string \<Rightarrow> string option"
  sc_json :: json_codec

text \<open>
  \<open>sc_event\<close> is \<open>json.Unmarshal\<close> into \<open>ResponsesStreamEvent\<close>, \<open>sc_type_exists\<close> is
  \<open>gjson.Get(p, "type").Exists()\<close>, \<open>sc_set_type\<close> is \<open>sjson.Set(p, "type", t)\<close>, \<open>sc_get p path\<close> is
  \<open>gjson.GetBytes(p, path).String()\<close>; \<open>sc_marshal\<close> and \<open>sc_marshal_error\<close> are the \<open>json.Marshal\<close>
  calls of \<open>ResponsesAnthropicEventToSSE\<close> and \<open>buildAnthropicStreamErrorSSE\<close>.
\<close>

definition newline :: string where
  "newline = [CHR 0x0A]"

definition ResponsesAnthropicEventToSSE :: "sse_codec \<Rightarrow> AnthropicStreamEvent \<Rightarrow> string option" where
  "ResponsesAnthropicEventToSSE sc evt =
     (case sc_marshal sc evt of
        None \<Rightarrow> None
      | Some data \<Rightarrow> Some (''event: '' @ ase_Type evt @ newline @ ''data: '' @ data @ newline @ newline))"

definition quoted :: "string \<Rightarrow> string" where
  "quoted s = [CHR 0x22] @ s @ [CHR 0x22]"

definition buildAnthropicStreamErrorSSE :: "sse_codec \<Rightarrow> string \<Rightarrow> string \<Rightarrow> string" where
  "buildAnthropicStreamErrorSSE sc errType message =
     (case sc_marshal_error sc errType message of
        None \<Rightarrow> ''event: error'' @ newline @ ''data: {'' @ quoted ''type'' @ '':'' @ quoted ''error'' @ '',''
          @ quoted ''error'' @ '':{'' @ quoted ''type'' @ '':'' @ quoted errType @ '',''
          @ quoted ''message'' @ '':'' @ quoted ''upstream error'' @ ''}}'' @ newline @ newline
      | Some payload \<Rightarrow> ''event: error'' @ newline @ ''data: '' @ payload @ newline @ newline)"

subsection \<open>Server-sent events: lines and frames\<close>

fun skip_blanks :: "string \<Rightarrow> string" where
  "skip_blanks [] = []"
| "skip_blanks (c # s) = (if c = CHR 0x20 \<or> c = CHR 0x09 then skip_blanks s else c # s)"

definition extractOpenAISSEDataLine :: "string \<Rightarrow> string option" where
  "extractOpenAISSEDataLine line =
     (if \<not> has_prefix line ''data:'' then None
      else Some (skip_blanks (drop (length ''data:'') line)))"

definition extractOpenAISSEEventLine :: "string \<Rightarrow> string option" where
  "extractOpenAISSEEventLine line =
     (if \<not> has_prefix line ''event:'' then None
      else Some (trim_space (skip_blanks (drop (length ''event:'') line))))"

record openAICompatSSEFrame =
  EventType :: string
  Data :: string

record openAICompatSSEFrameParser =
  p_eventType :: string
  p_dataLines :: "string list"

definition newParser :: openAICompatSSEFrameParser where
  "newParser = \<lparr>p_eventType = '''', p_dataLines = []\<rparr>"

fun strings_join :: "string list \<Rightarrow> string \<Rightarrow> string" where
  "strings_join [] sep = ''''"
| "strings_join [s] sep = s"
| "strings_join (s # s' # ss) sep = s @ sep @ strings_join (s' # ss) sep"

definition dispatch ::
  "openAICompatSSEFrameParser \<Rightarrow> openAICompatSSEFrame option \<times> openAICompatSSEFrameParser" where
  "dispatch p =
     (let frame = \<lparr>EventType = p_eventType p, Data = strings_join (p_dataLines p) newline\<rparr>
      in (if Data frame \<noteq> '''' then Some frame else None, newParser))"

definition AddLine :: "string \<Rightarrow> openAICompatSSEFrameParser
  \<Rightarrow> openAICompatSSEFrame option \<times> openAICompatSSEFrameParser" where
  "AddLine line p =
     (if line = '''' then dispatch p
      else if has_prefix line '':'' then (None, p)
      else (case extractOpenAISSEEventLine line of
              Some eventType \<Rightarrow> (None, p\<lparr>p_eventType := eventType\<rparr>)
            | None \<Rightarrow>
                (case extractOpenAISSEDataLine line of
                   Some data \<Rightarrow> (None, p\<lparr>p_dataLines := p_dataLines p @ [data]\<rparr>)
                 | None \<Rightarrow> (None, p))))"

definition Finish :: "openAICompatSSEFrameParser
  \<Rightarrow> openAICompatSSEFrame option \<times> openAICompatSSEFrameParser" where
  "Finish p = dispatch p"

definition isOpenAICompatDoneSentinelLine :: "string \<Rightarrow> bool" where
  "isOpenAICompatDoneSentinelLine line =
     (case extractOpenAISSEDataLine line of
        None \<Rightarrow> False
      | Some payload \<Rightarrow> trim_space payload = ''[DONE]'')"

definition openAICompatPayloadWithEventType :: "sse_codec \<Rightarrow> string \<Rightarrow> string \<Rightarrow> string" where
  "openAICompatPayloadWithEventType sc payload eventType =
     (let et = trim_space eventType in
      if et = '''' \<or> trim_space payload = '''' \<or> trim_space payload = ''[DONE]'' then payload
      else if sc_type_exists sc payload then payload
      else (case sc_set_type sc payload et of None \<Rightarrow> payload | Some patched \<Rightarrow> patched))"

subsection \<open>The handler's state\<close>

record OpenAIUsage =
  u_InputTokens :: int
  u_ImageInputTokens :: int
  u_OutputTokens :: int
  u_CacheCreationInputTokens :: int
  u_CacheReadInputTokens :: int
  u_ImageOutputTokens :: int

definition zeroOpenAIUsage :: OpenAIUsage where
  "zeroOpenAIUsage = \<lparr>u_InputTokens = 0, u_ImageInputTokens = 0, u_OutputTokens = 0,
     u_CacheCreationInputTokens = 0, u_CacheReadInputTokens = 0, u_ImageOutputTokens = 0\<rparr>"

definition copyOpenAIUsageFromResponsesUsage :: "ResponsesUsage option \<Rightarrow> OpenAIUsage" where
  "copyOpenAIUsageFromResponsesUsage usage =
     (case usage of
        None \<Rightarrow> zeroOpenAIUsage
      | Some u \<Rightarrow>
          (let result = zeroOpenAIUsage\<lparr>u_InputTokens := ru_InputTokens u,
                          u_OutputTokens := ru_OutputTokens u\<rparr>
           in (case ru_InputTokensDetails u of
                 None \<Rightarrow> result
               | Some d \<Rightarrow> result\<lparr>u_CacheReadInputTokens := ritd_CachedTokens d\<rparr>)))"

record CyberPolicyMark =
  cpm_Code :: string
  cpm_Message :: string
  cpm_Body :: string
  cpm_UpstreamStatus :: int
  cpm_UpstreamInTok :: int
  cpm_UpstreamOutTok :: int

definition detectOpenAICyberPolicy :: "sse_codec \<Rightarrow> string \<Rightarrow> (string \<times> string) option" where
  "detectOpenAICyberPolicy sc payload =
     (let first = (\<lambda>p q. if sc_get sc payload p = '''' then sc_get sc payload q else sc_get sc payload p)
      in if \<not> equal_fold (trim_space (first ''error.code'' ''response.error.code'')) ''cyber_policy''
         then None
         else Some (''cyber_policy'', trim_space (first ''error.message'' ''response.error.message'')))"

text \<open>
  What is written to the client: the text of a converted event, a keep-alive ping, or the error
  event of a policy hit.  \<open>ms_room\<close> is how many more writes the client's connection accepts: the
  write after that fails, which is how the handler learns that the client has gone.
\<close>

datatype chunk = EventChunk string | PingChunk | ErrorChunk string

record messages_stream =
  ms_state :: ToAnthropicState
  ms_usage :: OpenAIUsage
  ms_responseID :: string
  ms_clientDisconnected :: bool
  ms_clientOutputStarted :: bool
  ms_cyber :: "CyberPolicyMark option"
  ms_written :: "chunk list"
  ms_room :: nat

definition newMessagesStream :: "nat \<Rightarrow> ToAnthropicState \<Rightarrow> messages_stream" where
  "newMessagesStream room s =
     \<lparr>ms_state = s, ms_usage = zeroOpenAIUsage, ms_responseID = '''', ms_clientDisconnected = False,
      ms_clientOutputStarted = False, ms_cyber = None, ms_written = [], ms_room = room\<rparr>"

definition writeChunk :: "chunk \<Rightarrow> messages_stream \<Rightarrow> bool \<times> messages_stream" where
  "writeChunk ch m =
     (if ms_room m = 0 then (False, m)
      else (True, m\<lparr>ms_written := ms_written m @ [ch], ms_room := ms_room m - 1\<rparr>))"

fun writeEvents :: "sse_codec \<Rightarrow> AnthropicStreamEvent list \<Rightarrow> messages_stream \<Rightarrow> messages_stream" where
  "writeEvents sc [] m = m"
| "writeEvents sc (evt # evts) m =
     (case ResponsesAnthropicEventToSSE sc evt of
        None \<Rightarrow> writeEvents sc evts m
      | Some sse \<Rightarrow>
          (case writeChunk (EventChunk sse) m of
             (False, m1) \<Rightarrow> m1\<lparr>ms_clientDisconnected := True\<rparr>
           | (True, m1) \<Rightarrow> writeEvents sc evts (m1\<lparr>ms_clientOutputStarted := True\<rparr>)))"

definition emitEvents :: "sse_codec \<Rightarrow> AnthropicStreamEvent list \<Rightarrow> messages_stream \<Rightarrow> messages_stream" where
  "emitEvents sc evts m = (if ms_clientDisconnected m then m else writeEvents sc evts m)"

subsection \<open>One payload\<close>

definition recordTerminalUsage :: "ResponsesStreamEvent \<Rightarrow> messages_stream \<Rightarrow> messages_stream" where
  "recordTerminalUsage event m =
     (let m1 = (case rse_Response event of
                  None \<Rightarrow> m
                | Some r \<Rightarrow>
                    (let m0 = (if trim_space (rr_ID r) = '''' then m
                               else m\<lparr>ms_responseID := trim_space (rr_ID r)\<rparr>)
                     in (case rr_Usage r of
                           None \<Rightarrow> m0
                         | Some u \<Rightarrow> m0\<lparr>ms_usage := copyOpenAIUsageFromResponsesUsage (Some u)\<rparr>)))
      in (case rse_Usage event of
            None \<Rightarrow> m1
          | Some u \<Rightarrow> m1\<lparr>ms_usage := copyOpenAIUsageFromResponsesUsage (Some u)\<rparr>))"

definition cyberHit :: "sse_codec \<Rightarrow> string \<Rightarrow> ResponsesStreamEvent \<Rightarrow> (string \<times> string) option" where
  "cyberHit sc payload event =
     (if isOpenAICompatResponsesTerminalEvent (rse_Type event)
         \<and> trim_space (rse_Type event) = ''response.failed''
      then detectOpenAICyberPolicy sc payload else None)"

definition blockCyber :: "sse_codec \<Rightarrow> string \<Rightarrow> string \<times> string \<Rightarrow> messages_stream \<Rightarrow> messages_stream" where
  "blockCyber sc payload hit m =
     (let m1 = m\<lparr>ms_cyber := Some \<lparr>cpm_Code = fst hit, cpm_Message = snd hit,
                   cpm_Body = truncateString payload 4096, cpm_UpstreamStatus = 200,
                   cpm_UpstreamInTok = u_InputTokens (ms_usage m),
                   cpm_UpstreamOutTok = u_OutputTokens (ms_usage m)\<rparr>\<rparr>
      in if ms_clientDisconnected m1 then m1
         else (let clientMsg = (if snd hit = '''' then ''Request blocked by upstream cyber-security policy''
                                else snd hit)
               in (snd (writeChunk (ErrorChunk (buildAnthropicStreamErrorSSE sc ''invalid_request_error''
                     clientMsg)) m1))\<lparr>ms_clientDisconnected := True\<rparr>))"

definition processDataLine :: "sse_codec \<Rightarrow> string \<Rightarrow> messages_stream \<Rightarrow> bool \<times> messages_stream" where
  "processDataLine sc payload m =
     (case sc_event sc payload of
        None \<Rightarrow> (False, m)
      | Some event \<Rightarrow>
          (let isTerminal = isOpenAICompatResponsesTerminalEvent (rse_Type event);
               m1 = (if isTerminal then recordTerminalUsage event m else m)
           in (case cyberHit sc payload event of
                 Some hit \<Rightarrow> (True, blockCyber sc payload hit m1)
               | None \<Rightarrow>
                   (case ResponsesEventToAnthropicEvents (sc_json sc) event (ms_state m1) of
                      (events, s1) \<Rightarrow> (isTerminal, emitEvents sc events (m1\<lparr>ms_state := s1\<rparr>))))))"

definition framePayload :: "sse_codec \<Rightarrow> openAICompatSSEFrame \<Rightarrow> string" where
  "framePayload sc frame = openAICompatPayloadWithEventType sc (Data frame) (EventType frame)"

definition processFrame :: "sse_codec \<Rightarrow> openAICompatSSEFrame \<Rightarrow> messages_stream \<Rightarrow> bool \<times> messages_stream" where
  "processFrame sc frame m = processDataLine sc (framePayload sc frame) m"

definition finalizeStream :: "sse_codec \<Rightarrow> messages_stream \<Rightarrow> messages_stream" where
  "finalizeStream sc m =
     (case FinalizeResponsesAnthropicStream (ms_state m) of
        (events, s1) \<Rightarrow> emitEvents sc events (m\<lparr>ms_state := s1\<rparr>))"

subsection \<open>The loop\<close>

text \<open>
  The loop reads what its channels deliver: a line of the upstream body, a read error, a tick of
  the keep-alive timer after a silent interval, or the data-interval timeout; the list ends when
  the upstream closes.  The handler without timers is the case in which no tick occurs.
\<close>

datatype stream_input = UpLine string | ReadErr string | PingTick | IdleTimeout

datatype stream_outcome = StreamDone | StreamFailed string | StreamFailover string

definition missingTerminalErr :: "messages_stream \<Rightarrow> stream_outcome" where
  "missingTerminalErr m =
     (if ms_clientDisconnected m then StreamFailed ''stream usage incomplete: missing terminal event''
      else if \<not> ms_clientOutputStarted m
      then StreamFailover ''OpenAI messages stream ended before a terminal event''
      else StreamFailed ''stream usage incomplete: missing terminal event'')"

definition sendPing :: "messages_stream \<Rightarrow> messages_stream" where
  "sendPing m =
     (if ms_clientDisconnected m then m
      else (case writeChunk PingChunk m of
              (False, m1) \<Rightarrow> m1\<lparr>ms_clientDisconnected := True\<rparr>
            | (True, m1) \<Rightarrow> m1\<lparr>ms_clientOutputStarted := True\<rparr>))"

fun streamLoop :: "sse_codec \<Rightarrow> stream_input list \<Rightarrow> openAICompatSSEFrameParser \<Rightarrow> messages_stream
  \<Rightarrow> stream_outcome \<times> messages_stream" where
  "streamLoop sc [] p m =
     (case fst (Finish p) of
        None \<Rightarrow> (missingTerminalErr m, m)
      | Some frame \<Rightarrow>
          (if trim_space (Data frame) = ''[DONE]'' then (missingTerminalErr m, m)
           else (case processFrame sc frame m of
                   (True, m1) \<Rightarrow> (StreamDone, finalizeStream sc m1)
                 | (False, m1) \<Rightarrow> (missingTerminalErr m1, m1))))"
| "streamLoop sc (UpLine line # ins) p m =
     (if isOpenAICompatDoneSentinelLine line then (missingTerminalErr m, m)
      else (case AddLine line p of
              (None, p1) \<Rightarrow> streamLoop sc ins p1 m
            | (Some frame, p1) \<Rightarrow>
                (case processFrame sc frame m of
                   (True, m1) \<Rightarrow> (StreamDone, finalizeStream sc m1)
                 | (False, m1) \<Rightarrow> streamLoop sc ins p1 m1)))"
| "streamLoop sc (ReadErr err # ins) p m = (StreamFailed (''stream usage incomplete: '' @ err), m)"
| "streamLoop sc (PingTick # ins) p m = streamLoop sc ins p (sendPing m)"
| "streamLoop sc (IdleTimeout # ins) p m =
     (StreamFailed (if ms_clientDisconnected m then ''stream usage incomplete after timeout''
                    else ''stream data interval timeout''), m)"

subsection \<open>The specification: what a run means\<close>

text \<open>The frames that the loop reads before it stops, with their parsed events.\<close>

definition frameEvent :: "sse_codec \<Rightarrow> openAICompatSSEFrame \<Rightarrow> (string \<times> ResponsesStreamEvent) list" where
  "frameEvent sc frame =
     (case sc_event sc (framePayload sc frame) of
        None \<Rightarrow> []
      | Some event \<Rightarrow> [(framePayload sc frame, event)])"

fun upstreamFrames :: "sse_codec \<Rightarrow> stream_input list \<Rightarrow> openAICompatSSEFrameParser
  \<Rightarrow> (string \<times> ResponsesStreamEvent) list" where
  "upstreamFrames sc [] p =
     (case fst (Finish p) of
        None \<Rightarrow> []
      | Some frame \<Rightarrow> (if trim_space (Data frame) = ''[DONE]'' then [] else frameEvent sc frame))"
| "upstreamFrames sc (UpLine line # ins) p =
     (if isOpenAICompatDoneSentinelLine line then []
      else (case AddLine line p of
              (None, p1) \<Rightarrow> upstreamFrames sc ins p1
            | (Some frame, p1) \<Rightarrow> frameEvent sc frame @ upstreamFrames sc ins p1))"
| "upstreamFrames sc (ReadErr err # ins) p = []"
| "upstreamFrames sc (PingTick # ins) p = upstreamFrames sc ins p"
| "upstreamFrames sc (IdleTimeout # ins) p = []"

definition eventChunks :: "chunk list \<Rightarrow> string list" where
  "eventChunks cs = List.map_filter (\<lambda>c. case c of EventChunk s \<Rightarrow> Some s | _ \<Rightarrow> None) cs"

definition sses :: "sse_codec \<Rightarrow> AnthropicStreamEvent list \<Rightarrow> string list" where
  "sses sc out = List.map_filter (ResponsesAnthropicEventToSSE sc) out"

lemma eventChunks_simps [simp]:
  "eventChunks [] = []"
  "eventChunks (EventChunk s # cs) = s # eventChunks cs"
  "eventChunks (PingChunk # cs) = eventChunks cs"
  "eventChunks (ErrorChunk s # cs) = eventChunks cs"
  "eventChunks (cs @ cs') = eventChunks cs @ eventChunks cs'"
  by (simp_all add: eventChunks_def List.map_filter_def)

lemma sses_simps [simp]:
  "sses sc [] = []"
  "sses sc (e # es) = (case ResponsesAnthropicEventToSSE sc e of None \<Rightarrow> sses sc es | Some s \<Rightarrow> s # sses sc es)"
  "sses sc (out @ out') = sses sc out @ sses sc out'"
  by (simp_all add: sses_def List.map_filter_def split: option.splits)

text \<open>
  \<open>delivers m out m'\<close>: between the two states the handler has written the texts of \<open>out\<close>, all of
  them if the client is still there, a prefix of them if it has gone.
\<close>

definition delivers :: "sse_codec \<Rightarrow> messages_stream \<Rightarrow> AnthropicStreamEvent list \<Rightarrow> messages_stream \<Rightarrow> bool" where
  "delivers sc m out m' \<longleftrightarrow>
     (\<exists>w rest. ms_written m' = ms_written m @ w \<and> sses sc out = eventChunks w @ rest \<and>
        (\<not> ms_clientDisconnected m' \<longrightarrow> rest = []) \<and>
        (ms_clientDisconnected m \<longrightarrow> w = [] \<and> ms_clientDisconnected m'))"

lemma delivers_trans:
  assumes "delivers sc m out m1" and "delivers sc m1 out' m2"
  shows "delivers sc m (out @ out') m2"
proof -
  obtain w r where w: "ms_written m1 = ms_written m @ w" "sses sc out = eventChunks w @ r"
    "\<not> ms_clientDisconnected m1 \<longrightarrow> r = []"
    "ms_clientDisconnected m \<longrightarrow> w = [] \<and> ms_clientDisconnected m1"
    using assms(1) unfolding delivers_def by blast
  obtain w' r' where w': "ms_written m2 = ms_written m1 @ w'" "sses sc out' = eventChunks w' @ r'"
    "\<not> ms_clientDisconnected m2 \<longrightarrow> r' = []"
    "ms_clientDisconnected m1 \<longrightarrow> w' = [] \<and> ms_clientDisconnected m2"
    using assms(2) unfolding delivers_def by blast
  show ?thesis
  proof (cases "ms_clientDisconnected m1")
    case True
    with w w' show ?thesis
      unfolding delivers_def by (intro exI [of _ w] exI [of _ "r @ sses sc out'"]) auto
  next
    case False
    with w w' show ?thesis
      unfolding delivers_def by (intro exI [of _ "w @ w'"] exI [of _ r']) auto
  qed
qed

lemma delivers_nil: "ms_written m' = ms_written m \<Longrightarrow>
  ms_clientDisconnected m' = ms_clientDisconnected m \<Longrightarrow> delivers sc m [] m'"
  by (auto simp: delivers_def)

lemma delivers_cong:
  "delivers sc m out m' \<Longrightarrow> ms_written m0 = ms_written m \<Longrightarrow>
   ms_clientDisconnected m0 = ms_clientDisconnected m \<Longrightarrow> delivers sc m0 out m'"
  by (simp add: delivers_def)

lemma writeEvents_delivers: "\<not> ms_clientDisconnected m \<Longrightarrow> delivers sc m evts (writeEvents sc evts m)"
proof (induction evts arbitrary: m)
  case Nil
  then show ?case by (simp add: delivers_nil)
next
  case (Cons e evts)
  show ?case
  proof (cases "ResponsesAnthropicEventToSSE sc e")
    case None
    with Cons show ?thesis by (simp add: delivers_def)
  next
    case (Some sse)
    show ?thesis
    proof (cases "ms_room m = 0")
      case True
      with Some Cons.prems show ?thesis by (auto simp: writeChunk_def delivers_def)
    next
      case False
      let ?m1 = "m\<lparr>ms_written := ms_written m @ [EventChunk sse], ms_room := ms_room m - 1,
        ms_clientOutputStarted := True\<rparr>"
      have "delivers sc m [e] ?m1"
        using Some Cons.prems unfolding delivers_def
        by (intro exI [of _ "[EventChunk sse]"] exI [of _ "[]"]) simp
      moreover have "delivers sc ?m1 evts (writeEvents sc evts ?m1)"
        using Cons by simp
      ultimately have "delivers sc m ([e] @ evts) (writeEvents sc evts ?m1)" by (rule delivers_trans)
      with False Some show ?thesis by (simp add: writeChunk_def)
    qed
  qed
qed

lemma emitEvents_delivers: "delivers sc m evts (emitEvents sc evts m)"
  using writeEvents_delivers by (auto simp: emitEvents_def delivers_def)

lemma writeEvents_frame [simp]:
  "ms_state (writeEvents sc evts m) = ms_state m"
  "ms_usage (writeEvents sc evts m) = ms_usage m"
  "ms_responseID (writeEvents sc evts m) = ms_responseID m"
  "ms_cyber (writeEvents sc evts m) = ms_cyber m"
  by (induction evts arbitrary: m) (simp_all add: writeChunk_def split: option.splits)

lemma emitEvents_frame [simp]:
  "ms_state (emitEvents sc evts m) = ms_state m"
  "ms_usage (emitEvents sc evts m) = ms_usage m"
  "ms_responseID (emitEvents sc evts m) = ms_responseID m"
  "ms_cyber (emitEvents sc evts m) = ms_cyber m"
  by (simp_all add: emitEvents_def)

lemma recordTerminalUsage_frame [simp]:
  "ms_state (recordTerminalUsage e m) = ms_state m"
  "ms_written (recordTerminalUsage e m) = ms_written m"
  "ms_clientDisconnected (recordTerminalUsage e m) = ms_clientDisconnected m"
  "ms_clientOutputStarted (recordTerminalUsage e m) = ms_clientOutputStarted m"
  "ms_room (recordTerminalUsage e m) = ms_room m"
  by (simp_all add: recordTerminalUsage_def Let_def split: option.splits)

lemma sendPing_frame [simp]:
  "ms_state (sendPing m) = ms_state m"
  "ms_usage (sendPing m) = ms_usage m"
  "ms_responseID (sendPing m) = ms_responseID m"
  "ms_cyber (sendPing m) = ms_cyber m"
  by (simp_all add: sendPing_def writeChunk_def)

lemma sendPing_delivers: "delivers sc m [] (sendPing m)"
  by (auto simp: sendPing_def writeChunk_def delivers_def)

subsection \<open>The loop implements the specification\<close>

lemma processFrame_spec:
  assumes "processFrame sc frame m = (t, m1)"
    and "\<forall>(p, e) \<in> set (frameEvent sc frame). cyberHit sc p e = None"
  shows "frameEvent sc frame = [] \<and> \<not> t \<and> m1 = m \<or>
    (\<exists>p e events. frameEvent sc frame = [(p, e)] \<and>
       ResponsesEventToAnthropicEvents (sc_json sc) e (ms_state m) = (events, ms_state m1) \<and>
       t = isOpenAICompatResponsesTerminalEvent (rse_Type e) \<and> delivers sc m events m1)"
proof (cases "sc_event sc (framePayload sc frame)")
  case None
  with assms show ?thesis by (simp add: processFrame_def processDataLine_def frameEvent_def)
next
  case (Some e)
  let ?m = "if isOpenAICompatResponsesTerminalEvent (rse_Type e) then recordTerminalUsage e m else m"
  obtain events s1 where c: "ResponsesEventToAnthropicEvents (sc_json sc) e (ms_state m) = (events, s1)"
    by (cases "ResponsesEventToAnthropicEvents (sc_json sc) e (ms_state m)")
  with assms Some have "t = isOpenAICompatResponsesTerminalEvent (rse_Type e)"
    "m1 = emitEvents sc events (?m\<lparr>ms_state := s1\<rparr>)"
    by (auto simp: processFrame_def processDataLine_def frameEvent_def Let_def split: if_splits)
  moreover have "delivers sc m events (emitEvents sc events (?m\<lparr>ms_state := s1\<rparr>))"
    by (rule delivers_cong [OF emitEvents_delivers]) simp_all
  ultimately show ?thesis using Some c by (simp add: frameEvent_def)
qed

lemma finalizeStream_spec:
  assumes "FinalizeResponsesAnthropicStream (ms_state m) = (fin, s2)"
  shows "ms_state (finalizeStream sc m) = s2 \<and> delivers sc m fin (finalizeStream sc m)"
proof -
  have "delivers sc m fin (emitEvents sc fin (m\<lparr>ms_state := s2\<rparr>))"
    by (rule delivers_cong [OF emitEvents_delivers]) simp_all
  with assms show ?thesis by (simp add: finalizeStream_def)
qed

definition agrees :: "sse_codec \<Rightarrow> messages_stream \<Rightarrow> ResponsesStreamEvent list
  \<Rightarrow> stream_outcome \<times> messages_stream \<Rightarrow> bool" where
  "agrees sc m es r \<longleftrightarrow>
     (case driveStream (sc_json sc) es (ms_state m) of
        (out, completed, s') \<Rightarrow>
          ms_state (snd r) = s' \<and> (fst r = StreamDone \<longleftrightarrow> completed) \<and> delivers sc m out (snd r))"

lemma missingTerminalErr_not_done [simp]: "missingTerminalErr m \<noteq> StreamDone"
  by (simp add: missingTerminalErr_def)

lemma agrees_stop: "fst r \<noteq> StreamDone \<Longrightarrow> snd r = m \<Longrightarrow> agrees sc m [] r"
  by (simp add: agrees_def delivers_nil)

lemma agrees_frame:
  assumes "processFrame sc frame m = (t, m1)"
    and "\<forall>(p, e) \<in> set (frameEvent sc frame). cyberHit sc p e = None"
    and "\<not> t \<Longrightarrow> agrees sc m1 es r"
    and "t \<Longrightarrow> r = (StreamDone, finalizeStream sc m1)"
  shows "agrees sc m (map snd (frameEvent sc frame) @ es) r"
  using processFrame_spec [OF assms(1,2)]
proof (elim disjE exE conjE)
  assume "frameEvent sc frame = []" "\<not> t" "m1 = m"
  with assms(3) show ?thesis by simp
next
  fix p e events
  assume f: "frameEvent sc frame = [(p, e)]"
    and c: "ResponsesEventToAnthropicEvents (sc_json sc) e (ms_state m) = (events, ms_state m1)"
    and t: "t = isOpenAICompatResponsesTerminalEvent (rse_Type e)" and d: "delivers sc m events m1"
  show ?thesis
  proof (cases t)
    case True
    obtain fin s2 where "FinalizeResponsesAnthropicStream (ms_state m1) = (fin, s2)"
      by (cases "FinalizeResponsesAnthropicStream (ms_state m1)")
    with finalizeStream_spec [OF this, of sc] f c t d True assms(4) show ?thesis
      by (auto simp: agrees_def intro: delivers_trans)
  next
    case False
    with f c t d assms(3) show ?thesis
      by (auto simp: agrees_def intro: delivers_trans split: prod.splits)
  qed
qed

lemma loop_agrees:
  assumes "\<forall>(pl, e) \<in> set (upstreamFrames sc ins p). cyberHit sc pl e = None"
  shows "agrees sc m (map snd (upstreamFrames sc ins p)) (streamLoop sc ins p m)"
  using assms
proof (induction sc ins p m rule: streamLoop.induct)
  case (1 sc p m)
  show ?case
  proof (cases "fst (Finish p)")
    case None
    then show ?thesis by (simp add: agrees_stop)
  next
    case (Some frame)
    show ?thesis
    proof (cases "trim_space (Data frame) = ''[DONE]''")
      case True
      with Some show ?thesis by (simp add: agrees_stop)
    next
      case False
      obtain t m1 where pf: "processFrame sc frame m = (t, m1)" by (cases "processFrame sc frame m")
      have "agrees sc m (map snd (frameEvent sc frame) @ [])
        (if t then (StreamDone, finalizeStream sc m1) else (missingTerminalErr m1, m1))"
        using 1 Some False by (intro agrees_frame [OF pf]) (simp_all add: agrees_stop)
      with Some False pf show ?thesis by (cases t) simp_all
    qed
  qed
next
  case (2 sc line ins p m)
  show ?case
  proof (cases "isOpenAICompatDoneSentinelLine line")
    case True
    then show ?thesis by (simp add: agrees_stop)
  next
    case False
    obtain fo p1 where al: "AddLine line p = (fo, p1)" by (cases "AddLine line p")
    show ?thesis
    proof (cases fo)
      case None
      with 2 False al show ?thesis by simp
    next
      case (Some frame)
      obtain t m1 where pf: "processFrame sc frame m = (t, m1)" by (cases "processFrame sc frame m")
      have "agrees sc m (map snd (frameEvent sc frame) @ map snd (upstreamFrames sc ins p1))
        (if t then (StreamDone, finalizeStream sc m1) else streamLoop sc ins p1 m1)"
        using 2 False al Some pf by (intro agrees_frame [OF pf]) auto
      with Some False al pf show ?thesis by (cases t) simp_all
    qed
  qed
next
  case (4 sc ins p m)
  then have "agrees sc (sendPing m) (map snd (upstreamFrames sc ins p)) (streamLoop sc ins p (sendPing m))"
    by simp
  then show ?case
    using delivers_trans [OF sendPing_delivers] by (auto simp: agrees_def)
qed (simp_all add: agrees_stop)


subsection \<open>Billing and failover\<close>

definition terminalUsage :: "ResponsesStreamEvent \<Rightarrow> OpenAIUsage \<Rightarrow> OpenAIUsage" where
  "terminalUsage e before =
     (case rse_Usage e of
        Some u \<Rightarrow> copyOpenAIUsageFromResponsesUsage (Some u)
      | None \<Rightarrow>
          (case rse_Response e of
             Some r \<Rightarrow> (case rr_Usage r of
                          Some u \<Rightarrow> copyOpenAIUsageFromResponsesUsage (Some u)
                        | None \<Rightarrow> before)
           | None \<Rightarrow> before))"

fun billedUsage :: "ResponsesStreamEvent list \<Rightarrow> OpenAIUsage \<Rightarrow> OpenAIUsage" where
  "billedUsage [] u = u"
| "billedUsage (e # es) u =
     (if isOpenAICompatResponsesTerminalEvent (rse_Type e) then terminalUsage e u else billedUsage es u)"

lemma recordTerminalUsage_usage [simp]:
  "ms_usage (recordTerminalUsage e m) = terminalUsage e (ms_usage m)"
  by (simp add: recordTerminalUsage_def terminalUsage_def Let_def split: option.splits)

lemma blockCyber_frame [simp]:
  "ms_usage (blockCyber sc payload hit m) = ms_usage m"
  "ms_state (blockCyber sc payload hit m) = ms_state m"
  "ms_responseID (blockCyber sc payload hit m) = ms_responseID m"
  "ms_clientDisconnected (blockCyber sc payload hit m)"
  by (simp_all add: blockCyber_def writeChunk_def Let_def)

lemma finalizeStream_frame [simp]:
  "ms_usage (finalizeStream sc m) = ms_usage m"
  "ms_responseID (finalizeStream sc m) = ms_responseID m"
  by (simp_all add: finalizeStream_def split: prod.splits)

lemma processFrame_usage:
  assumes "processFrame sc frame m = (t, m1)"
  shows "frameEvent sc frame = [] \<and> \<not> t \<and> ms_usage m1 = ms_usage m \<or>
    (\<exists>p e. frameEvent sc frame = [(p, e)] \<and> t = isOpenAICompatResponsesTerminalEvent (rse_Type e) \<and>
       ms_usage m1 = (if t then terminalUsage e (ms_usage m) else ms_usage m))"
  using assms
  by (auto simp: processFrame_def processDataLine_def frameEvent_def Let_def cyberHit_def
      split: option.splits if_splits prod.splits)

lemma loop_usage:
  "ms_usage (snd (streamLoop sc ins p m)) = billedUsage (map snd (upstreamFrames sc ins p)) (ms_usage m)"
proof (induction sc ins p m rule: streamLoop.induct)
  case (1 sc p m)
  show ?case
  proof (cases "fst (Finish p)")
    case (Some frame)
    obtain t m1 where pf: "processFrame sc frame m = (t, m1)" by (cases "processFrame sc frame m")
    with processFrame_usage [OF pf] Some show ?thesis by (cases t) auto
  qed simp
next
  case (2 sc line ins p m)
  obtain fo p1 where al: "AddLine line p = (fo, p1)" by (cases "AddLine line p")
  show ?case
  proof (cases fo)
    case None
    with 2 al show ?thesis by simp
  next
    case (Some frame)
    obtain t m1 where pf: "processFrame sc frame m = (t, m1)" by (cases "processFrame sc frame m")
    with processFrame_usage [OF pf] Some al 2 show ?thesis by (cases t) auto
  qed
qed simp_all

text \<open>A stream is handed to another account only while the client has received nothing.\<close>

definition untouched :: "messages_stream \<Rightarrow> bool" where
  "untouched m \<longleftrightarrow> \<not> ms_clientDisconnected m \<longrightarrow> \<not> ms_clientOutputStarted m \<longrightarrow> ms_written m = []"

lemma writeEvents_untouched: "untouched m \<Longrightarrow> untouched (writeEvents sc evts m)"
  by (induction evts arbitrary: m) (auto simp: untouched_def writeChunk_def split: option.splits)

lemma untouched_state [simp]: "untouched (m\<lparr>ms_state := s\<rparr>) = untouched m"
  by (simp add: untouched_def)

lemma untouched_usage [simp]: "untouched (recordTerminalUsage e m) = untouched m"
  by (simp add: untouched_def)

lemma emitEvents_untouched: "untouched m \<Longrightarrow> untouched (emitEvents sc evts m)"
  by (simp add: emitEvents_def writeEvents_untouched)

lemma processFrame_untouched: "untouched m \<Longrightarrow> untouched (snd (processFrame sc frame m))"
  by (auto simp: processFrame_def processDataLine_def Let_def emitEvents_untouched
      split: option.splits prod.splits) (simp_all add: untouched_def)

lemma sendPing_untouched: "untouched m \<Longrightarrow> untouched (sendPing m)"
  by (auto simp: untouched_def sendPing_def writeChunk_def)

lemma loop_failover:
  "untouched m \<Longrightarrow> fst (streamLoop sc ins p m) = StreamFailover e \<Longrightarrow>
   ms_written (snd (streamLoop sc ins p m)) = []"
proof (induction sc ins p m rule: streamLoop.induct)
  case (1 sc p m)
  then show ?case
    using processFrame_untouched [of m sc "the (fst (Finish p))"]
    by (auto simp: untouched_def missingTerminalErr_def split: option.splits if_splits prod.splits bool.splits)
next
  case (2 sc line ins p m)
  then show ?case
    using processFrame_untouched [of m sc "the (fst (AddLine line p))"]
    by (auto simp: untouched_def missingTerminalErr_def split: option.splits if_splits prod.splits bool.splits)
next
  case (4 sc ins p m)
  then show ?case by (simp add: sendPing_untouched)
qed simp_all

subsection \<open>Frames survive the wire\<close>

fun parseFrames :: "string list \<Rightarrow> openAICompatSSEFrameParser \<Rightarrow> openAICompatSSEFrame list" where
  "parseFrames [] p = (case fst (Finish p) of None \<Rightarrow> [] | Some f \<Rightarrow> [f])"
| "parseFrames (line # ls) p =
     (case AddLine line p of
        (None, p1) \<Rightarrow> parseFrames ls p1
      | (Some f, p1) \<Rightarrow> f # parseFrames ls p1)"

text \<open>How a server writes an event with the given type and data lines.\<close>

definition renderFrame :: "string \<times> string list \<Rightarrow> string list" where
  "renderFrame f = (''event: '' @ fst f) # map (\<lambda>d. ''data: '' @ d) (snd f) @ ['''']"

text \<open>What a parser can recover of it: blanks at the start of a line are lost, the type is trimmed, and an event
  whose data is empty is not an event.\<close>

definition received :: "string \<times> string list \<Rightarrow> openAICompatSSEFrame" where
  "received f = \<lparr>EventType = trim_space (skip_blanks (fst f)), Data = strings_join (map skip_blanks (snd f)) newline\<rparr>"

lemma AddLine_data: "AddLine (''data: '' @ d) p = (None, p\<lparr>p_dataLines := p_dataLines p @ [skip_blanks d]\<rparr>)"
  by (simp add: AddLine_def extractOpenAISSEEventLine_def extractOpenAISSEDataLine_def)

lemma AddLine_event: "AddLine (''event: '' @ t) p = (None, p\<lparr>p_eventType := trim_space (skip_blanks t)\<rparr>)"
  by (simp add: AddLine_def extractOpenAISSEEventLine_def)

lemma parse_data_lines:
  "parseFrames (map (\<lambda>d. ''data: '' @ d) ds @ ls) p
   = parseFrames ls (p\<lparr>p_dataLines := p_dataLines p @ map skip_blanks ds\<rparr>)"
proof (induction ds arbitrary: p)
  case (Cons d ds)
  then show ?case using AddLine_data [of d p] by simp
qed simp

lemma parse_render:
  "parseFrames (renderFrame f @ ls) newParser
    = (if Data (received f) = '''' then [] else [received f]) @ parseFrames ls newParser"
proof -
  have "parseFrames (renderFrame f @ ls) newParser
    = parseFrames ('''' # ls) \<lparr>p_eventType = trim_space (skip_blanks (fst f)), p_dataLines = map skip_blanks (snd f)\<rparr>"
    using AddLine_event [of "fst f" newParser]
      parse_data_lines [of "snd f" "'''' # ls" "\<lparr>p_eventType = trim_space (skip_blanks (fst f)), p_dataLines = []\<rparr>"]
    by (simp add: renderFrame_def newParser_def)
  also have "\<dots> = (if Data (received f) = '''' then [] else [received f]) @ parseFrames ls newParser"
    by (simp add: AddLine_def dispatch_def received_def)
  finally show ?thesis .
qed

lemma parse_render_all:
  "parseFrames (concat (map renderFrame fs)) newParser = filter (\<lambda>f. Data f \<noteq> '''') (map received fs)"
proof (induction fs)
  case Nil
  then show ?case by (simp add: Finish_def dispatch_def newParser_def)
next
  case (Cons f fs)
  then show ?case using parse_render [of f "concat (map renderFrame fs)"] by simp
qed

end
