(* ===== verification/StreamProperties.thy ===== *)
theory StreamProperties
  imports StreamEquivalence MessagesStream
begin

section \<open>Properties of the stream conversion\<close>

text \<open>
  The claims about the converter and the streaming handler, each with a concrete run at which
  its hypotheses hold.
\<close>

subsection \<open>Example data\<close>

definition exCodec :: json_codec where
  "exCodec = \<lparr>jc_unmarshal_raw_map = (\<lambda>_. None), jc_marshal_raw_map = (\<lambda>_. None),
     jc_marshal_query = (\<lambda>q. quoted q)\<rparr>"

definition exUsage :: ResponsesUsage where
  "exUsage = \<lparr>ru_InputTokens = 10, ru_OutputTokens = 4, ru_TotalTokens = 14,
     ru_InputTokensDetails = Some \<lparr>ritd_CachedTokens = 3, ritd_AudioTokens = 0\<rparr>\<rparr>"

definition exResponse :: ResponsesResponse where
  "exResponse = \<lparr>rr_ID = ''r1'', rr_Object = ''response'', rr_Model = ''m'', rr_Status = ''completed'',
     rr_Output =
       [zeroOutput\<lparr>ro_Type := ''reasoning'',
          ro_Summary := [\<lparr>rs_Type = ''summary_text'', rs_Text = ''why''\<rparr>]\<rparr>,
        zeroOutput\<lparr>ro_Type := ''message'',
          ro_Content := [\<lparr>rcp_Type = ''output_text'', rcp_Text = ''hello'', rcp_ImageURL = ''''\<rparr>]\<rparr>,
        zeroOutput\<lparr>ro_Type := ''function_call'', ro_CallID := ''fc_call_1'', ro_Name := ''run'',
          ro_Arguments := ''{}''\<rparr>],
     rr_Usage = Some exUsage, rr_IncompleteDetails = None, rr_Error = None\<rparr>"

definition exEvents :: "ResponsesStreamEvent list" where
  "exEvents = responseEvents (map (\<lambda>c. [c])) exResponse"

definition exSSE :: sse_codec where
  "exSSE = \<lparr>sc_event = (\<lambda>p. if p = ''created'' then Some (zeroStreamEvent\<lparr>rse_Type := ''response.created''\<rparr>)
       else if p = ''hello'' then Some (zeroStreamEvent\<lparr>rse_Type := ''response.output_text.delta'',
              rse_Delta := ''hello''\<rparr>)
       else if p = ''completed'' then Some (zeroStreamEvent\<lparr>rse_Type := ''response.completed'',
              rse_Usage := Some exUsage\<rparr>)
       else None),
     sc_type_exists = (\<lambda>_. True), sc_set_type = (\<lambda>_ _. None), sc_get = (\<lambda>_ _. ''''),
     sc_marshal = (\<lambda>e. Some (ase_Type e)), sc_marshal_error = (\<lambda>_ _. None), sc_json = exCodec\<rparr>"

definition exLines :: "stream_input list" where
  "exLines = [UpLine ''event: response.created'', UpLine ''data: created'', UpLine '''', PingTick,
     UpLine ''data: hello'', UpLine '''', UpLine ''data:completed'', UpLine '''']"

definition twoPartReasoning :: "ResponsesStreamEvent list" where
  "twoPartReasoning =
     [respEvent ''response.created'' 0,
      (respEvent ''response.output_item.added'' 0)\<lparr>rse_Item := Some (zeroOutput\<lparr>ro_Type := ''reasoning''\<rparr>)\<rparr>,
      (respEvent ''response.reasoning_summary_text.delta'' 0)\<lparr>rse_Delta := ''one''\<rparr>,
      respEvent ''response.reasoning_summary_text.done'' 0,
      (respEvent ''response.reasoning_summary_text.delta'' 0)\<lparr>rse_Delta := ''two'', rse_SummaryIndex := 1\<rparr>,
      (respEvent ''response.reasoning_summary_text.done'' 0)\<lparr>rse_SummaryIndex := 1\<rparr>,
      (respEvent ''response.output_item.done'' 0)\<lparr>rse_Item := Some (zeroOutput\<lparr>ro_Type := ''reasoning''\<rparr>)\<rparr>,
      respEvent ''response.completed'' 0]"

definition customToolResponse :: ResponsesResponse where
  "customToolResponse = exResponse\<lparr>rr_Output := [zeroOutput\<lparr>ro_Type := ''custom_tool_call'',
     ro_CallID := ''call_2'', ro_Name := ''shell''\<rparr>]\<rparr>"

definition twoUsages :: ResponsesStreamEvent where
  "twoUsages = (respEvent ''response.completed'' 0)\<lparr>rse_Usage := Some exUsage,
     rse_Response := Some (exResponse\<lparr>rr_Usage := Some (exUsage\<lparr>ru_OutputTokens := 99\<rparr>)\<rparr>)\<rparr>"

subsection \<open>The streaming handler\<close>

text \<open>C1: The streaming handler implements the converter's specification: for every sequence of
  upstream lines, keep-alive ticks and failures without a cyber-policy hit, the converter ends in
  the state that the specification gives for the parsed events, the handler reports success exactly
  when a terminal event was seen, and the client has received the converted events in order: all of
  them if it is still connected, a prefix of them if it has gone.\<close>

theorem messages_stream_refines:
  assumes "\<forall>(payload, e) \<in> set (upstreamFrames sc ins newParser). cyberHit sc payload e = None"
    and "driveStream (sc_json sc) (map snd (upstreamFrames sc ins newParser)) s = (out, completed, s')"
    and "streamLoop sc ins newParser (newMessagesStream room s) = (outcome, m)"
  shows "ms_state m = s' \<and> (outcome = StreamDone \<longleftrightarrow> completed) \<and>
    (\<exists>rest. sses sc out = eventChunks (ms_written m) @ rest \<and>
            (\<not> ms_clientDisconnected m \<longrightarrow> rest = []))"
  using loop_agrees [OF assms(1), of "newMessagesStream room s"] assms(2,3)
  by (auto simp: agrees_def delivers_def newMessagesStream_def)

lemma exLines_frames:
  "upstreamFrames exSSE exLines newParser =
     [(''created'', zeroStreamEvent\<lparr>rse_Type := ''response.created''\<rparr>),
      (''hello'', zeroStreamEvent\<lparr>rse_Type := ''response.output_text.delta'', rse_Delta := ''hello''\<rparr>),
      (''completed'', zeroStreamEvent\<lparr>rse_Type := ''response.completed'', rse_Usage := Some exUsage\<rparr>)]"
  by code_simp

theorem messages_stream_refines_witness:
  "\<exists>m. streamLoop exSSE exLines newParser (newMessagesStream 3 (newToAnthropicState 0)) = (StreamDone, m) \<and>
     ms_clientDisconnected m \<and> length (eventChunks (ms_written m)) = 2"
proof -
  let ?s = "newToAnthropicState 0"
  obtain out c s' where d: "driveStream (sc_json exSSE) (map snd (upstreamFrames exSSE exLines newParser)) ?s
      = (out, c, s')"
    by (cases "driveStream (sc_json exSSE) (map snd (upstreamFrames exSSE exLines newParser)) ?s") auto
  obtain oc m where l: "streamLoop exSSE exLines newParser (newMessagesStream 3 ?s) = (oc, m)"
    by (cases "streamLoop exSSE exLines newParser (newMessagesStream 3 ?s)")
  have nocyber: "\<forall>(payload, e) \<in> set (upstreamFrames exSSE exLines newParser). cyberHit exSSE payload e = None"
    unfolding exLines_frames by code_simp
  have "fst (snd (driveStream (sc_json exSSE) (map snd (upstreamFrames exSSE exLines newParser)) ?s))"
    unfolding exLines_frames by code_simp
  with messages_stream_refines [OF nocyber d l] d have "oc = StreamDone" by simp
  moreover have "ms_clientDisconnected (snd (streamLoop exSSE exLines newParser (newMessagesStream 3 ?s)))
    \<and> length (eventChunks (ms_written (snd (streamLoop exSSE exLines newParser (newMessagesStream 3 ?s))))) = 2"
    by code_simp
  ultimately show ?thesis using l by auto
qed

text \<open>C15: What is billed does not depend on the client: whenever and however the client disconnects,
  and whatever the keep-alive timer does, the usage of the result is the one the first terminal
  upstream event reports, because the handler drains the upstream after the client has gone.\<close>

theorem billing_ignores_client:
  "ms_usage (snd (streamLoop sc ins newParser (newMessagesStream room s)))
   = billedUsage (map snd (upstreamFrames sc ins newParser)) zeroOpenAIUsage"
  by (simp add: loop_usage newMessagesStream_def)

text \<open>C16: A stream that ended early is handed to another upstream account only if not a single byte has
  been written to the client, so a client never receives the concatenation of two answers.\<close>

theorem failover_only_before_output:
  assumes "streamLoop sc ins newParser (newMessagesStream room s) = (StreamFailover err, m)"
  shows "ms_written m = []"
  using loop_failover [of "newMessagesStream room s" sc ins newParser err] assms
  by (simp add: untouched_def newMessagesStream_def)

theorem failover_only_before_output_witness:
  "fst (streamLoop exSSE [UpLine ''data: junk'', UpLine ''''] newParser
        (newMessagesStream 5 (newToAnthropicState 0)))
     = StreamFailover ''OpenAI messages stream ended before a terminal event'' \<and>
   ms_written (snd (streamLoop exSSE [UpLine ''data: junk'', UpLine ''''] newParser
        (newMessagesStream 5 (newToAnthropicState 0)))) = []"
proof -
  let ?r = "streamLoop exSSE [UpLine ''data: junk'', UpLine ''''] newParser
    (newMessagesStream 5 (newToAnthropicState 0))"
  have f: "fst ?r = StreamFailover ''OpenAI messages stream ended before a terminal event''"
    by code_simp
  then have "?r = (StreamFailover ''OpenAI messages stream ended before a terminal event'', snd ?r)"
    by (simp add: prod_eq_iff)
  from failover_only_before_output [OF this] f show ?thesis by simp
qed

text \<open>C33: Server-sent events survive the wire, up to blanks: for any sequence of events, each written as an event line, data
  lines and a blank line, the frame parser recovers exactly the events with non-empty data, in order,
  each with its own type (trimmed) and its own data lines joined by newlines; all that is lost is the
  blanks at the start of a data line.\<close>

theorem sse_frames_roundtrip:
  "parseFrames (concat (map renderFrame fs)) newParser =
     filter (\<lambda>f. Data f \<noteq> '''')
       (map (\<lambda>(t, ds). \<lparr>EventType = trim_space (skip_blanks t), Data = strings_join (map skip_blanks ds) newline\<rparr>) fs)"
  unfolding parse_render_all by (simp add: received_def [abs_def] case_prod_unfold)

subsection \<open>Streaming and non-streaming conversion\<close>

text \<open>C14: A client that assembles the converted stream of a finished response ends up with exactly the message that the
  non-streaming conversion gives, whatever chunks the texts are cut into: the same blocks in the same
  order, the same tool inputs, stop reason and usage.  The response must be one that the two
  converters treat alike (\<open>plainItem\<close>): no \<open>custom_tool_call\<close> item, exactly one non-empty summary
  part in a reasoning item, arguments that are not empty, before and after sanitising, in a function call,
  a completed status in a web search call; and it must convert to at least one block.  For the other
  items see \<open>custom_tool_call_diverges\<close> and \<open>multi_part_reasoning_rejected\<close>.\<close>

theorem streaming_matches_nonstreaming:
  assumes "list_all (plainItem jc) (rr_Output resp)"
    and "\<forall>t. concat (chunks t) = t"
    and "model \<noteq> ''''"
    and "concat (map (outputBlocks jc) (rr_Output resp)) \<noteq> []"
  shows "\<exists>out s'. driveStream jc (responseEvents chunks resp) (newToAnthropicState now\<lparr>Model := model\<rparr>)
      = (out, True, s') \<and> assemble out = ResponsesToAnthropic jc resp model"
  using assms by (intro stream_equals_message) simp_all

theorem streaming_matches_nonstreaming_witness:
  "\<exists>out s'. driveStream exCodec exEvents (newToAnthropicState 7\<lparr>Model := ''claude''\<rparr>) = (out, True, s') \<and>
     assemble out = ResponsesToAnthropic exCodec exResponse ''claude'' \<and>
     map cb_Type (ar_Content (assemble out)) = [''thinking'', ''text'', ''tool_use''] \<and>
     ar_StopReason (assemble out) = ''tool_use''"
proof -
  have plain: "list_all (plainItem exCodec) (rr_Output exResponse)" by code_simp
  have chunks: "\<forall>t. concat (map (\<lambda>c. [c]) t) = (t :: string)" by (simp add: concat_map_singleton)
  have blocks: "concat (map (outputBlocks exCodec) (rr_Output exResponse)) \<noteq> []" by code_simp
  have "map cb_Type (ar_Content (ResponsesToAnthropic exCodec exResponse ''claude''))
      = [''thinking'', ''text'', ''tool_use'']"
    "ar_StopReason (ResponsesToAnthropic exCodec exResponse ''claude'') = ''tool_use''"
    by code_simp+
  with streaming_matches_nonstreaming [OF plain chunks _ blocks, of "''claude''" 7]
  show ?thesis unfolding exEvents_def by auto
qed

text \<open>A reasoning item with two summary parts is not handled: the first part's done event closes the
  thinking block, so the second part's delta is sent to a block that is already closed, which the
  Anthropic event grammar forbids, although the upstream sequence is the regular one.\<close>

theorem multi_part_reasoning_rejected:
  "map ase_Type (fst (driveStream exCodec twoPartReasoning (newToAnthropicState 0)))
     = [''message_start'', ''content_block_start'', ''content_block_delta'', ''content_block_stop'',
        ''content_block_delta'', ''message_delta'', ''message_stop''] \<and>
   run_check anth_chk AInit (fst (driveStream exCodec twoPartReasoning (newToAnthropicState 0))) = None"
  by code_simp

text \<open>A custom tool call reaches a streaming client as a tool-use block with stop reason
  \<open>tool_use\<close>, but the non-streaming conversion of the same response drops it and ends the turn.\<close>

theorem custom_tool_call_diverges:
  "let streamed = assemble (fst (driveStream exCodec (responseEvents (\<lambda>t. [t]) customToolResponse)
                     (newToAnthropicState 0\<lparr>Model := ''m''\<rparr>)));
       whole = ResponsesToAnthropic exCodec customToolResponse ''m''
   in map cb_Type (ar_Content streamed) = [''tool_use''] \<and> ar_StopReason streamed = ''tool_use'' \<and>
      map cb_Type (ar_Content whole) = [''text''] \<and> ar_StopReason whole = ''end_turn''"
  by code_simp

subsection \<open>The event protocol\<close>

text \<open>C13: Whatever the upstream sends, in any order, the client sees content blocks one after the other: its block events
  are the start of block 0, the stop of block 0, the start of block 1, the stop of block 1, and so on without
  gaps, up to the block that is open, which is started and not stopped; \<open>message_start\<close> and
  \<open>message_stop\<close> occur at most once, and when a terminal event ended a started message then every
  block is stopped and \<open>message_stop\<close> was sent.\<close>

theorem blocks_nested_for_any_upstream:
  assumes "driveStream jc es (newToAnthropicState now\<lparr>Model := model\<rparr>) = (out, completed, s')"
  shows "map (\<lambda>e. (ase_Type e, ase_Index e)) (blockMarks out) =
        concat (map (\<lambda>i. [(''content_block_start'', Some i), (''content_block_stop'', Some i)]) [0 .. ContentBlockIndex s' - 1])
        @ (if ContentBlockOpen s' then [(''content_block_start'', Some (ContentBlockIndex s'))] else []) \<and>
      length (ofType ''message_start'' out) = of_bool (MessageStartSent s') \<and>
      length (ofType ''message_stop'' out) = of_bool (MessageStopSent s') \<and>
      (completed \<and> MessageStartSent s' \<longrightarrow> MessageStopSent s' \<and> \<not> ContentBlockOpen s')"
proof -
  have 0: "life_of (newToAnthropicState now\<lparr>Model := model\<rparr>) = lf0"
    by (simp add: life_of_def newToAnthropicState_def lf0_def)
  have r: "run_check life_chk lf0 out = Some (life_of s')"
    using drive_life [OF assms] unfolding 0 .
  have "\<not> MessageStopSent (newToAnthropicState now\<lparr>Model := model\<rparr>)"
    by (simp add: newToAnthropicState_def)
  then have "completed \<and> MessageStartSent s' \<longrightarrow> MessageStopSent s' \<and> \<not> ContentBlockOpen s'"
    using drive_completed [where s = "newToAnthropicState now\<lparr>Model := model\<rparr>" and s' = s'] assms
    by (cases completed) (simp_all only: simp_thms, blast)
  then show ?thesis
    using life_blocks [OF r] life_envelope [OF r]
    by (simp add: lf0_def life_of_def openMark_def startStop_def [abs_def])
qed

theorem blocks_nested_for_any_upstream_witness:
  "\<exists>out s'. driveStream exCodec exEvents (newToAnthropicState 0\<lparr>Model := ''m''\<rparr>) = (out, True, s') \<and>
     map (\<lambda>e. (ase_Type e, ase_Index e)) (blockMarks out) =
       [(''content_block_start'', Some 0), (''content_block_stop'', Some 0), (''content_block_start'', Some 1),
        (''content_block_stop'', Some 1), (''content_block_start'', Some 2), (''content_block_stop'', Some 2)]"
proof -
  let ?r = "driveStream exCodec exEvents (newToAnthropicState 0\<lparr>Model := ''m''\<rparr>)"
  obtain out c s' where d: "?r = (out, c, s')" by (cases ?r) auto
  have "fst (snd ?r)" "ContentBlockIndex (snd (snd ?r)) = 3" "\<not> ContentBlockOpen (snd (snd ?r))"
    by code_simp+
  moreover have "[0 .. 3 - 1] = [0, 1, 2 :: int]" by code_simp
  ultimately show ?thesis using blocks_nested_for_any_upstream [OF d] d by simp
qed

text \<open>For an upstream that follows the Responses protocol (the response is created first, argument
  and reasoning deltas belong to the item announced last and not finished, nothing follows the
  terminal event) the converted stream is accepted by the full Anthropic grammar, delta types
  included, and a completed stream that has started is a complete message.  Regular streams whose
  reasoning items have several summary parts do not follow it: see \<open>multi_part_reasoning_rejected\<close>.\<close>

theorem grammar_accepted:
  assumes "run_check resp_chk UInit es = Some u'"
    and "driveStream jc es (newToAnthropicState now\<lparr>Model := model\<rparr>) = (out, completed, s')"
  shows "\<exists>c. run_check anth_chk AInit out = Some c \<and>
    (completed \<and> MessageStartSent s' \<longrightarrow> c = ADone)"
proof -
  obtain c u2 where c: "run_check anth_chk AInit out = Some c" "grammar_rel u2 s' c"
    "completed \<longrightarrow> u2 = UInit \<or> u2 = UDone"
    using drive_grammar [OF assms(2) grammar_rel_new assms(1)] by blast
  then show ?thesis by auto
qed

theorem grammar_accepted_witness:
  "run_check anth_chk AInit
     (fst (driveStream exCodec exEvents (newToAnthropicState 0\<lparr>Model := ''m''\<rparr>))) = Some ADone"
proof -
  let ?r = "driveStream exCodec exEvents (newToAnthropicState 0\<lparr>Model := ''m''\<rparr>)"
  obtain out c s' where d: "?r = (out, c, s')" by (cases ?r) auto
  have "run_check resp_chk UInit exEvents \<noteq> None" by code_simp
  then obtain u where "run_check resp_chk UInit exEvents = Some u" by blast
  from grammar_accepted [OF this d] obtain c'
    where "run_check anth_chk AInit out = Some c'" "c \<and> MessageStartSent s' \<longrightarrow> c' = ADone"
    by blast
  moreover have "fst (snd ?r)" "MessageStartSent (snd (snd ?r))" by code_simp+
  ultimately show ?thesis using d by simp
qed

text \<open>C34: Text is neither lost nor invented nor reordered: the text deltas sent to the client
  concatenate to the upstream text deltas received before the terminal event, from any state.\<close>

theorem stream_text_preserved:
  "concat (map deltaText (fst (driveStream jc es s)))
   = concat (map upstreamText
       (takeWhile (\<lambda>e. \<not> isOpenAICompatResponsesTerminalEvent (rse_Type e)) es))"
proof -
  obtain out c s' where d: "driveStream jc es s = (out, c, s')" by (cases "driveStream jc es s") auto
  show ?thesis using drive_text [OF d] d by simp
qed

subsection \<open>Usage\<close>

text \<open>The Anthropic usage splits the Responses input tokens into fresh and cached ones: the fresh
  count is never negative, also when 64-bit subtraction wraps, and for token counts in range fresh
  and cached tokens add up to the input tokens.\<close>

theorem usage_split:
  "0 \<le> au_InputTokens (anthropicUsageFromResponsesUsage (Some r)) \<and>
   (ru_InputTokensDetails r = Some d \<and> 0 \<le> ritd_CachedTokens d \<and>
      ritd_CachedTokens d \<le> ru_InputTokens r \<and> in_int64 (ru_InputTokens r) \<longrightarrow>
    au_InputTokens (anthropicUsageFromResponsesUsage (Some r))
      + au_CacheReadInputTokens (anthropicUsageFromResponsesUsage (Some r)) = ru_InputTokens r)"
proof -
  have "wrap64 (ru_InputTokens r - ritd_CachedTokens d) = ru_InputTokens r - ritd_CachedTokens d"
    if "0 \<le> ritd_CachedTokens d" "ritd_CachedTokens d \<le> ru_InputTokens r" "in_int64 (ru_InputTokens r)"
    using that by (intro wrap64_id) (simp add: in_int64_def)
  then show ?thesis
    by (simp add: anthropicUsageFromResponsesUsage_def zeroUsage_def Let_def split: option.splits)
qed

theorem usage_split_witness:
  "au_InputTokens (anthropicUsageFromResponsesUsage (Some exUsage)) = 7 \<and>
   au_InputTokens (anthropicUsageFromResponsesUsage (Some exUsage))
     + au_CacheReadInputTokens (anthropicUsageFromResponsesUsage (Some exUsage)) = 10"
proof -
  have "ru_InputTokensDetails exUsage = Some \<lparr>ritd_CachedTokens = 3, ritd_AudioTokens = 0\<rparr>"
    "ru_InputTokens exUsage = 10" "in_int64 (ru_InputTokens exUsage)"
    by (simp_all add: exUsage_def in_int64_def)
  with usage_split [of exUsage "\<lparr>ritd_CachedTokens = 3, ritd_AudioTokens = 0\<rparr>"]
  have "au_InputTokens (anthropicUsageFromResponsesUsage (Some exUsage))
     + au_CacheReadInputTokens (anthropicUsageFromResponsesUsage (Some exUsage)) = 10" by simp
  moreover have "au_InputTokens (anthropicUsageFromResponsesUsage (Some exUsage)) = 7" by code_simp
  ultimately show ?thesis by simp
qed

text \<open>When a terminal event carries usage both on itself and in its response, the amount that is
  billed is the event's, the amount reported to the client is the response's: the handler and the
  converter resolve the conflict in opposite ways.\<close>

theorem usage_conflict_resolved_differently:
  "u_OutputTokens (billedUsage [twoUsages] zeroOpenAIUsage) = 4 \<and>
   OutputTokens (snd (snd (driveStream exCodec [respEvent ''response.created'' 0, twoUsages]
     (newToAnthropicState 0)))) = 99"
  by code_simp

end
