(* ===== verification/Subscription.thy ===== *)
theory Subscription
  imports Prelude Complex_Main
begin

section \<open>User subscriptions\<close>

text \<open>
  Models \<open>service/user_subscription.go\<close>, \<open>service/subscription_service.go\<close> and the parts of
  \<open>repository/user_subscription_repo.go\<close> they use: assigning, renewing, extending, revoking and
  restoring a subscription, its daily, weekly and monthly usage windows, and the limit check of the
  request path.

  An instant is a number of nanoseconds since 1970 (\<open>time.Time\<close> is not bound to 64 bits); every
  operation takes the clock reading \<open>now\<close> it works with.  Calendar arithmetic depends on the
  server's time zone and is a parameter with the laws of \<open>calendar\<close>.  Amounts are exact rationals:
  on these paths the code only compares amounts and adds zero to them, which float64 does exactly.
  The database is a table of rows; soft deletion, the partial unique index on live rows and the
  errors of \<open>Only\<close> are those of the repository.  Caches are not modelled.
\<close>

subsection \<open>Time\<close>

definition hour :: int where "hour = 3600 * 1000000000"

definition zero_time :: int where "zero_time = - 62135596800 * 1000000000"

definition IsZero :: "int \<Rightarrow> bool" where "IsZero t \<longleftrightarrow> t = zero_time"

text \<open>\<open>MaxExpiresAt\<close> is 2099-12-31 23:59:59 UTC.\<close>

definition MaxExpiresAt :: int where "MaxExpiresAt = 4102444799 * 1000000000"

definition MaxValidityDays :: int where "MaxValidityDays = 36500"

text \<open>\<open>add_days c t n\<close> is \<open>t.AddDate(0, 0, n)\<close>, \<open>start_of_day c t\<close> the midnight before \<open>t\<close>.\<close>

record calendar =
  add_days :: "int \<Rightarrow> int \<Rightarrow> int"
  start_of_day :: "int \<Rightarrow> int"

locale calendar_laws =
  fixes cal :: calendar
  assumes add_days_mono: "m < n \<Longrightarrow> add_days cal t m < add_days cal t n"
    and add_days_0: "add_days cal t 0 = t"
    and start_of_day_le: "start_of_day cal t \<le> t"
    and start_of_day_idem: "start_of_day cal (start_of_day cal t) = start_of_day cal t"
begin

lemma add_days_later: "0 < n \<Longrightarrow> t < add_days cal t n"
  using add_days_mono [of 0 n t] add_days_0 by simp

lemma add_days_inject: "add_days cal t m = add_days cal t n \<longleftrightarrow> m = n"
  using add_days_mono [of m n t] add_days_mono [of n m t] by (cases m n rule: linorder_cases) auto

lemma add_days_mono_le: "m \<le> n \<Longrightarrow> add_days cal t m \<le> add_days cal t n"
  using add_days_mono [of m n t] by (cases "m = n") auto

end

text \<open>The zone whose days all have 24 hours, UTC.\<close>

definition utc :: calendar where
  "utc = \<lparr>add_days = (\<lambda>t n. t + n * (24 * hour)), start_of_day = (\<lambda>t. t - t mod (24 * hour))\<rparr>"

interpretation utc: calendar_laws utc
  by unfold_locales (auto simp: utc_def hour_def minus_mod_eq_mult_div)

subsection \<open>Data\<close>

definition SubscriptionStatusActive :: string where "SubscriptionStatusActive = ''active''"
definition SubscriptionStatusExpired :: string where "SubscriptionStatusExpired = ''expired''"
definition SubscriptionStatusSuspended :: string where "SubscriptionStatusSuspended = ''suspended''"
definition SubscriptionStatusRevoked :: string where "SubscriptionStatusRevoked = ''revoked''"

lemmas status_defs = SubscriptionStatusActive_def SubscriptionStatusExpired_def
  SubscriptionStatusSuspended_def SubscriptionStatusRevoked_def

datatype sub_error =
    GroupNotFound
  | GroupNotSubscriptionType
  | SubscriptionNotFound
  | SubscriptionExpired
  | SubscriptionSuspended
  | SubscriptionAlreadyExists
  | SubscriptionAssignConflict string
  | SubscriptionNotRevoked
  | SubscriptionRestoreConflict
  | InvalidInput
  | DailyLimitExceeded
  | WeeklyLimitExceeded
  | MonthlyLimitExceeded
  | AdjustWouldExpire
  | CannotShortenExpired

type_synonym 'a result = "sub_error + 'a"

record Group =
  g_ID :: int
  g_Name :: string
  g_SubscriptionType :: string
  g_DailyLimitUSD :: "rat option"
  g_WeeklyLimitUSD :: "rat option"
  g_MonthlyLimitUSD :: "rat option"

definition IsSubscriptionType :: "Group \<Rightarrow> bool" where
  "IsSubscriptionType g \<longleftrightarrow> g_SubscriptionType g = ''subscription''"

definition HasDailyLimit :: "Group \<Rightarrow> bool" where
  "HasDailyLimit g = (case g_DailyLimitUSD g of None \<Rightarrow> False | Some l \<Rightarrow> l > 0)"

definition HasWeeklyLimit :: "Group \<Rightarrow> bool" where
  "HasWeeklyLimit g = (case g_WeeklyLimitUSD g of None \<Rightarrow> False | Some l \<Rightarrow> l > 0)"

definition HasMonthlyLimit :: "Group \<Rightarrow> bool" where
  "HasMonthlyLimit g = (case g_MonthlyLimitUSD g of None \<Rightarrow> False | Some l \<Rightarrow> l > 0)"

record UserSubscription =
  us_ID :: int
  us_UserID :: int
  us_GroupID :: int
  us_StartsAt :: int
  us_ExpiresAt :: int
  us_Status :: string
  us_DailyWindowStart :: "int option"
  us_WeeklyWindowStart :: "int option"
  us_MonthlyWindowStart :: "int option"
  us_DailyUsageUSD :: rat
  us_WeeklyUsageUSD :: rat
  us_MonthlyUsageUSD :: rat
  us_AssignedBy :: "int option"
  us_AssignedAt :: int
  us_Notes :: string
  us_CreatedAt :: int
  us_UpdatedAt :: int
  us_DeletedAt :: "int option"

subsection \<open>The entity (user_subscription.go)\<close>

definition IsActive :: "int \<Rightarrow> UserSubscription \<Rightarrow> bool" where
  "IsActive now s \<longleftrightarrow> us_Status s = SubscriptionStatusActive \<and> now < us_ExpiresAt s"

definition IsExpired :: "int \<Rightarrow> UserSubscription \<Rightarrow> bool" where
  "IsExpired now s \<longleftrightarrow> us_ExpiresAt s < now"

text \<open>\<open>int(time.Until(e).Hours() / 24)\<close>: the float64 quotient of a non-negative duration, truncated.\<close>

definition DaysRemaining :: "int \<Rightarrow> UserSubscription \<Rightarrow> int" where
  "DaysRemaining now s = (if IsExpired now s then 0 else (us_ExpiresAt s - now) div (24 * hour))"

definition IsWindowActivated :: "UserSubscription \<Rightarrow> bool" where
  "IsWindowActivated s \<longleftrightarrow> us_DailyWindowStart s \<noteq> None \<or> us_WeeklyWindowStart s \<noteq> None
     \<or> us_MonthlyWindowStart s \<noteq> None"

definition HasOneTimeDailyQuota :: "calendar \<Rightarrow> UserSubscription \<Rightarrow> bool" where
  "HasOneTimeDailyQuota cal s =
     (if IsZero (us_StartsAt s) \<or> IsZero (us_ExpiresAt s) then False
      else us_ExpiresAt s \<le> add_days cal (us_StartsAt s) 1)"

definition NeedsDailyResetAt :: "calendar \<Rightarrow> int \<Rightarrow> UserSubscription \<Rightarrow> bool" where
  "NeedsDailyResetAt cal now s =
     (case us_DailyWindowStart s of
        None \<Rightarrow> False
      | Some w \<Rightarrow> (if HasOneTimeDailyQuota cal s then False else w + 24 * hour \<le> now))"

definition NeedsWeeklyReset :: "int \<Rightarrow> UserSubscription \<Rightarrow> bool" where
  "NeedsWeeklyReset now s =
     (case us_WeeklyWindowStart s of None \<Rightarrow> False | Some w \<Rightarrow> 7 * 24 * hour \<le> now - w)"

definition NeedsMonthlyReset :: "int \<Rightarrow> UserSubscription \<Rightarrow> bool" where
  "NeedsMonthlyReset now s =
     (case us_MonthlyWindowStart s of None \<Rightarrow> False | Some w \<Rightarrow> 30 * 24 * hour \<le> now - w)"

definition DailyResetTime :: "calendar \<Rightarrow> UserSubscription \<Rightarrow> int option" where
  "DailyResetTime cal s =
     (case us_DailyWindowStart s of
        None \<Rightarrow> None
      | Some w \<Rightarrow> Some (if HasOneTimeDailyQuota cal s then us_ExpiresAt s else w + 24 * hour))"

definition WeeklyResetTime :: "UserSubscription \<Rightarrow> int option" where
  "WeeklyResetTime s = map_option (\<lambda>w. w + 7 * 24 * hour) (us_WeeklyWindowStart s)"

definition MonthlyResetTime :: "UserSubscription \<Rightarrow> int option" where
  "MonthlyResetTime s = map_option (\<lambda>w. w + 30 * 24 * hour) (us_MonthlyWindowStart s)"

definition CheckDailyLimit :: "UserSubscription \<Rightarrow> Group \<Rightarrow> rat \<Rightarrow> bool" where
  "CheckDailyLimit s g cost =
     (\<not> HasDailyLimit g \<or> us_DailyUsageUSD s + cost \<le> the (g_DailyLimitUSD g))"

definition CheckWeeklyLimit :: "UserSubscription \<Rightarrow> Group \<Rightarrow> rat \<Rightarrow> bool" where
  "CheckWeeklyLimit s g cost =
     (\<not> HasWeeklyLimit g \<or> us_WeeklyUsageUSD s + cost \<le> the (g_WeeklyLimitUSD g))"

definition CheckMonthlyLimit :: "UserSubscription \<Rightarrow> Group \<Rightarrow> rat \<Rightarrow> bool" where
  "CheckMonthlyLimit s g cost =
     (\<not> HasMonthlyLimit g \<or> us_MonthlyUsageUSD s + cost \<le> the (g_MonthlyLimitUSD g))"

definition CheckAllLimits :: "UserSubscription \<Rightarrow> Group \<Rightarrow> rat \<Rightarrow> bool \<times> bool \<times> bool" where
  "CheckAllLimits s g cost = (CheckDailyLimit s g cost, CheckWeeklyLimit s g cost, CheckMonthlyLimit s g cost)"

subsection \<open>The table (user_subscription_repo.go)\<close>

record sub_db =
  db_subs :: "UserSubscription list"
  db_nextID :: int
  db_groups :: "int \<rightharpoonup> Group"

definition live :: "UserSubscription \<Rightarrow> bool" where
  "live r \<longleftrightarrow> us_DeletedAt r = None"

text \<open>\<open>Only\<close> of a query: an error unless exactly one row matches.\<close>

fun only :: "'a list \<Rightarrow> 'a option" where
  "only [x] = Some x"
| "only _ = None"

definition found :: "'a option \<Rightarrow> 'a result" where
  "found x = (case x of None \<Rightarrow> Inl SubscriptionNotFound | Some r \<Rightarrow> Inr r)"

text \<open>Rows that a query without the soft-delete filter returns read as revoked.\<close>

definition toService :: "bool \<Rightarrow> UserSubscription \<Rightarrow> UserSubscription" where
  "toService mapDeletedToRevoked m =
     (if mapDeletedToRevoked \<and> us_DeletedAt m \<noteq> None then m\<lparr>us_Status := SubscriptionStatusRevoked\<rparr>
      else m)"

definition repo_GetByID :: "int \<Rightarrow> sub_db \<Rightarrow> UserSubscription result" where
  "repo_GetByID i db =
     found (map_option (toService True) (only (filter (\<lambda>r. live r \<and> us_ID r = i) (db_subs db))))"

definition repo_GetByIDIncludeDeleted :: "int \<Rightarrow> sub_db \<Rightarrow> UserSubscription result" where
  "repo_GetByIDIncludeDeleted i db =
     found (map_option (toService False) (only (filter (\<lambda>r. us_ID r = i) (db_subs db))))"

definition repo_GetByUserIDAndGroupID :: "int \<Rightarrow> int \<Rightarrow> sub_db \<Rightarrow> UserSubscription result" where
  "repo_GetByUserIDAndGroupID u g db =
     found (map_option (toService True)
       (only (filter (\<lambda>r. live r \<and> us_UserID r = u \<and> us_GroupID r = g) (db_subs db))))"

definition repo_GetActiveByUserIDAndGroupID :: "int \<Rightarrow> int \<Rightarrow> int \<Rightarrow> sub_db \<Rightarrow> UserSubscription result" where
  "repo_GetActiveByUserIDAndGroupID now u g db =
     found (map_option (toService True)
       (only (filter (\<lambda>r. live r \<and> us_UserID r = u \<and> us_GroupID r = g
          \<and> us_Status r = SubscriptionStatusActive \<and> now < us_ExpiresAt r) (db_subs db))))"

definition repo_ExistsByUserIDAndGroupID :: "int \<Rightarrow> int \<Rightarrow> sub_db \<Rightarrow> bool" where
  "repo_ExistsByUserIDAndGroupID u g db =
     list_ex (\<lambda>r. live r \<and> us_UserID r = u \<and> us_GroupID r = g) (db_subs db)"

definition repo_ExistsActiveByUserIDAndGroupID :: "int \<Rightarrow> int \<Rightarrow> sub_db \<Rightarrow> bool" where
  "repo_ExistsActiveByUserIDAndGroupID u g db = repo_ExistsByUserIDAndGroupID u g db"

definition repo_Create :: "int \<Rightarrow> UserSubscription \<Rightarrow> sub_db \<Rightarrow> UserSubscription result \<times> sub_db" where
  "repo_Create now sub db =
     (if repo_ExistsByUserIDAndGroupID (us_UserID sub) (us_GroupID sub) db
      then (Inl SubscriptionAlreadyExists, db)
      else (let row = sub\<lparr>us_ID := db_nextID db,
                  us_StartsAt := (if IsZero (us_StartsAt sub) then now else us_StartsAt sub),
                  us_Status := (if us_Status sub = '''' then SubscriptionStatusActive else us_Status sub),
                  us_AssignedAt := (if IsZero (us_AssignedAt sub) then now else us_AssignedAt sub),
                  us_CreatedAt := now, us_UpdatedAt := now, us_DeletedAt := None\<rparr>
            in (Inr row, db\<lparr>db_subs := db_subs db @ [row], db_nextID := db_nextID db + 1\<rparr>)))"

text \<open>\<open>UpdateOneID\<close>: changes the row with the given id, deleted or not; not found is an error.\<close>

definition updateRow :: "int \<Rightarrow> int \<Rightarrow> (UserSubscription \<Rightarrow> UserSubscription) \<Rightarrow> sub_db \<Rightarrow> unit result \<times> sub_db" where
  "updateRow now i f db =
     (if list_ex (\<lambda>r. us_ID r = i) (db_subs db)
      then (Inr (), db\<lparr>db_subs := map (\<lambda>r. if us_ID r = i then (f r)\<lparr>us_UpdatedAt := now\<rparr> else r) (db_subs db)\<rparr>)
      else (Inl SubscriptionNotFound, db))"

definition orElse :: "'a option \<Rightarrow> 'a option \<Rightarrow> 'a option" where
  "orElse x y = (case x of None \<Rightarrow> y | Some v \<Rightarrow> Some v)"

definition repo_Update :: "int \<Rightarrow> UserSubscription \<Rightarrow> sub_db \<Rightarrow> unit result \<times> sub_db" where
  "repo_Update now sub = updateRow now (us_ID sub) (\<lambda>r.
     r\<lparr>us_UserID := us_UserID sub, us_GroupID := us_GroupID sub, us_StartsAt := us_StartsAt sub,
       us_ExpiresAt := us_ExpiresAt sub, us_Status := us_Status sub,
       us_DailyWindowStart := orElse (us_DailyWindowStart sub) (us_DailyWindowStart r),
       us_WeeklyWindowStart := orElse (us_WeeklyWindowStart sub) (us_WeeklyWindowStart r),
       us_MonthlyWindowStart := orElse (us_MonthlyWindowStart sub) (us_MonthlyWindowStart r),
       us_DailyUsageUSD := us_DailyUsageUSD sub, us_WeeklyUsageUSD := us_WeeklyUsageUSD sub,
       us_MonthlyUsageUSD := us_MonthlyUsageUSD sub,
       us_AssignedBy := orElse (us_AssignedBy sub) (us_AssignedBy r),
       us_AssignedAt := us_AssignedAt sub, us_Notes := us_Notes sub\<rparr>)"

definition repo_ExtendExpiry :: "int \<Rightarrow> int \<Rightarrow> int \<Rightarrow> sub_db \<Rightarrow> unit result \<times> sub_db" where
  "repo_ExtendExpiry now i e = updateRow now i (\<lambda>r. r\<lparr>us_ExpiresAt := e\<rparr>)"

definition repo_UpdateStatus :: "int \<Rightarrow> int \<Rightarrow> string \<Rightarrow> sub_db \<Rightarrow> unit result \<times> sub_db" where
  "repo_UpdateStatus now i st = updateRow now i (\<lambda>r. r\<lparr>us_Status := st\<rparr>)"

definition repo_UpdateNotes :: "int \<Rightarrow> int \<Rightarrow> string \<Rightarrow> sub_db \<Rightarrow> unit result \<times> sub_db" where
  "repo_UpdateNotes now i n = updateRow now i (\<lambda>r. r\<lparr>us_Notes := n\<rparr>)"

definition repo_ActivateWindows :: "int \<Rightarrow> int \<Rightarrow> int \<Rightarrow> sub_db \<Rightarrow> unit result \<times> sub_db" where
  "repo_ActivateWindows now i w = updateRow now i (\<lambda>r.
     r\<lparr>us_DailyWindowStart := Some w, us_WeeklyWindowStart := Some w, us_MonthlyWindowStart := Some w\<rparr>)"

definition repo_ResetDailyUsage :: "int \<Rightarrow> int \<Rightarrow> int \<Rightarrow> sub_db \<Rightarrow> unit result \<times> sub_db" where
  "repo_ResetDailyUsage now i w = updateRow now i (\<lambda>r.
     r\<lparr>us_DailyUsageUSD := 0, us_DailyWindowStart := Some w\<rparr>)"

definition repo_ResetWeeklyUsage :: "int \<Rightarrow> int \<Rightarrow> int \<Rightarrow> sub_db \<Rightarrow> unit result \<times> sub_db" where
  "repo_ResetWeeklyUsage now i w = updateRow now i (\<lambda>r.
     r\<lparr>us_WeeklyUsageUSD := 0, us_WeeklyWindowStart := Some w\<rparr>)"

definition repo_ResetMonthlyUsage :: "int \<Rightarrow> int \<Rightarrow> int \<Rightarrow> sub_db \<Rightarrow> unit result \<times> sub_db" where
  "repo_ResetMonthlyUsage now i w = updateRow now i (\<lambda>r.
     r\<lparr>us_MonthlyUsageUSD := 0, us_MonthlyWindowStart := Some w\<rparr>)"

definition repo_IncrementUsage :: "int \<Rightarrow> int \<Rightarrow> rat \<Rightarrow> sub_db \<Rightarrow> unit result \<times> sub_db" where
  "repo_IncrementUsage now i cost db =
     (let hit = (\<lambda>r. us_ID r = i \<and> live r \<and> db_groups db (us_GroupID r) \<noteq> None)
      in if list_ex hit (db_subs db)
         then (Inr (), db\<lparr>db_subs := map (\<lambda>r. if hit r
                 then r\<lparr>us_DailyUsageUSD := us_DailyUsageUSD r + cost,
                        us_WeeklyUsageUSD := us_WeeklyUsageUSD r + cost,
                        us_MonthlyUsageUSD := us_MonthlyUsageUSD r + cost, us_UpdatedAt := now\<rparr>
                 else r) (db_subs db)\<rparr>)
         else (Inl SubscriptionNotFound, db))"

text \<open>The soft-delete hook turns \<open>Delete\<close> into an update of the live row.\<close>

definition repo_Delete :: "int \<Rightarrow> int \<Rightarrow> sub_db \<Rightarrow> unit result \<times> sub_db" where
  "repo_Delete now i db =
     (Inr (), db\<lparr>db_subs := map (\<lambda>r. if us_ID r = i \<and> live r
        then r\<lparr>us_DeletedAt := Some now, us_UpdatedAt := now\<rparr> else r) (db_subs db)\<rparr>)"

definition repo_Restore :: "int \<Rightarrow> int \<Rightarrow> string \<Rightarrow> sub_db \<Rightarrow> UserSubscription result \<times> sub_db" where
  "repo_Restore now i st db =
     (case only (filter (\<lambda>r. us_ID r = i) (db_subs db)) of
        None \<Rightarrow> (Inl SubscriptionNotFound, db)
      | Some row \<Rightarrow>
          (if list_ex (\<lambda>r. us_ID r \<noteq> i \<and> live r \<and> us_UserID r = us_UserID row \<and> us_GroupID r = us_GroupID row)
                (db_subs db)
           then (Inl SubscriptionRestoreConflict, db)
           else (let db1 = snd (updateRow now i (\<lambda>r. r\<lparr>us_Status := st, us_DeletedAt := None\<rparr>) db)
                 in (repo_GetByID i db1, db1))))"

definition repo_BatchUpdateExpiredStatus :: "int \<Rightarrow> sub_db \<Rightarrow> int \<times> sub_db" where
  "repo_BatchUpdateExpiredStatus now db =
     (let hit = (\<lambda>r. us_Status r = SubscriptionStatusActive \<and> us_ExpiresAt r \<le> now)
      in (int (length (filter hit (db_subs db))),
          db\<lparr>db_subs := map (\<lambda>r. if hit r then r\<lparr>us_Status := SubscriptionStatusExpired, us_UpdatedAt := now\<rparr>
                             else r) (db_subs db)\<rparr>))"

subsection \<open>The service (subscription_service.go)\<close>

record AssignSubscriptionInput =
  in_UserID :: int
  in_GroupID :: int
  in_ValidityDays :: int
  in_AssignedBy :: int
  in_Notes :: string

definition normalizeAssignValidityDays :: "int \<Rightarrow> int" where
  "normalizeAssignValidityDays days =
     (let d = (if days \<le> 0 then 30 else days) in if d > MaxValidityDays then MaxValidityDays else d)"

definition capExpiry :: "int \<Rightarrow> int" where
  "capExpiry e = (if e > MaxExpiresAt then MaxExpiresAt else e)"

definition appendSubscriptionNotes :: "string \<Rightarrow> string \<Rightarrow> string" where
  "appendSubscriptionNotes existingNotes newNotes =
     (if newNotes = '''' then existingNotes
      else if existingNotes = '''' then newNotes
      else existingNotes @ [CHR 0x0A] @ newNotes)"

definition renewedSubscriptionTerm :: "calendar \<Rightarrow> UserSubscription \<Rightarrow> string \<Rightarrow> int \<Rightarrow> int \<Rightarrow> UserSubscription" where
  "renewedSubscriptionTerm cal s notes startsAt expiresAt =
     (let w = start_of_day cal startsAt
      in s\<lparr>us_StartsAt := startsAt, us_ExpiresAt := expiresAt, us_Status := SubscriptionStatusActive,
           us_DailyWindowStart := Some w, us_WeeklyWindowStart := Some w, us_MonthlyWindowStart := Some w,
           us_DailyUsageUSD := 0, us_WeeklyUsageUSD := 0, us_MonthlyUsageUSD := 0,
           us_Notes := appendSubscriptionNotes (us_Notes s) notes\<rparr>)"

text \<open>Statements in sequence: the second runs on the state of the first, an error stops.\<close>

definition andThen :: "(sub_db \<Rightarrow> unit result \<times> sub_db) \<Rightarrow> (sub_db \<Rightarrow> 'a result \<times> sub_db)
  \<Rightarrow> sub_db \<Rightarrow> 'a result \<times> sub_db" where
  "andThen f g db = (case f db of (Inl e, db1) \<Rightarrow> (Inl e, db1) | (Inr _, db1) \<Rightarrow> g db1)"

definition skip :: "sub_db \<Rightarrow> unit result \<times> sub_db" where
  "skip db = (Inr (), db)"

text \<open>\<open>withSubscriptionUpdateTx\<close>: an error rolls back.\<close>

definition inTx :: "(sub_db \<Rightarrow> 'a result \<times> sub_db) \<Rightarrow> sub_db \<Rightarrow> 'a result \<times> sub_db" where
  "inTx f db = (case f db of (Inl e, _) \<Rightarrow> (Inl e, db) | (Inr x, db1) \<Rightarrow> (Inr x, db1))"

definition updateExistingSubscriptionTerm :: "calendar \<Rightarrow> UserSubscription \<Rightarrow> string \<Rightarrow> int \<Rightarrow> int \<Rightarrow> bool
  \<Rightarrow> sub_db \<Rightarrow> unit result \<times> sub_db" where
  "updateExistingSubscriptionTerm cal s notes now newExpiresAt isExpired =
     inTx (if isExpired then repo_Update now (renewedSubscriptionTerm cal s notes now newExpiresAt)
           else andThen (repo_ExtendExpiry now (us_ID s) newExpiresAt)
                  (andThen (if us_Status s \<noteq> SubscriptionStatusActive
                            then repo_UpdateStatus now (us_ID s) SubscriptionStatusActive else skip)
                     (if notes \<noteq> ''''
                      then repo_UpdateNotes now (us_ID s) (appendSubscriptionNotes (us_Notes s) notes)
                      else skip)))"

definition newSubscription :: "calendar \<Rightarrow> int \<Rightarrow> AssignSubscriptionInput \<Rightarrow> UserSubscription" where
  "newSubscription cal now inp =
     \<lparr>us_ID = 0, us_UserID = in_UserID inp, us_GroupID = in_GroupID inp, us_StartsAt = now,
      us_ExpiresAt = capExpiry (add_days cal now (normalizeAssignValidityDays (in_ValidityDays inp))),
      us_Status = SubscriptionStatusActive,
      us_DailyWindowStart = None, us_WeeklyWindowStart = None, us_MonthlyWindowStart = None,
      us_DailyUsageUSD = 0, us_WeeklyUsageUSD = 0, us_MonthlyUsageUSD = 0,
      us_AssignedBy = (if in_AssignedBy inp > 0 then Some (in_AssignedBy inp) else None),
      us_AssignedAt = now, us_Notes = in_Notes inp, us_CreatedAt = now, us_UpdatedAt = now,
      us_DeletedAt = None\<rparr>"

definition createSubscription :: "calendar \<Rightarrow> int \<Rightarrow> AssignSubscriptionInput \<Rightarrow> sub_db
  \<Rightarrow> UserSubscription result \<times> sub_db" where
  "createSubscription cal now inp db =
     (case repo_Create now (newSubscription cal now inp) db of
        (Inl e, db1) \<Rightarrow> (Inl e, db1)
      | (Inr row, db1) \<Rightarrow> (repo_GetByID (us_ID row) db1, db1))"

definition checkGroup :: "int \<Rightarrow> sub_db \<Rightarrow> unit result" where
  "checkGroup g db =
     (case db_groups db g of
        None \<Rightarrow> Inl GroupNotFound
      | Some grp \<Rightarrow> (if IsSubscriptionType grp then Inr () else Inl GroupNotSubscriptionType))"

text \<open>
  \<open>AssignOrExtendSubscription\<close> reads the existing subscription outside the transaction in which it
  writes the new term; the two halves are separate so that runs can be interleaved.
\<close>

definition termRead :: "AssignSubscriptionInput \<Rightarrow> sub_db \<Rightarrow> UserSubscription option" where
  "termRead inp db =
     (case repo_GetByUserIDAndGroupID (in_UserID inp) (in_GroupID inp) db of
        Inl _ \<Rightarrow> None | Inr s \<Rightarrow> Some s)"

definition newTermExpiry :: "calendar \<Rightarrow> int \<Rightarrow> int \<Rightarrow> UserSubscription \<Rightarrow> int" where
  "newTermExpiry cal now days s =
     capExpiry (add_days cal (if us_ExpiresAt s \<le> now then now else us_ExpiresAt s) days)"

definition termWrite :: "calendar \<Rightarrow> int \<Rightarrow> AssignSubscriptionInput \<Rightarrow> UserSubscription option \<Rightarrow> sub_db
  \<Rightarrow> (UserSubscription \<times> bool) result \<times> sub_db" where
  "termWrite cal now inp existing db =
     (case existing of
        Some s \<Rightarrow>
          (case updateExistingSubscriptionTerm cal s (in_Notes inp) now
                  (newTermExpiry cal now (normalizeAssignValidityDays (in_ValidityDays inp)) s)
                  (us_ExpiresAt s \<le> now) db of
             (Inl e, db1) \<Rightarrow> (Inl e, db1)
           | (Inr _, db1) \<Rightarrow>
               (case repo_GetByID (us_ID s) db1 of
                  Inl e \<Rightarrow> (Inl e, db1) | Inr sub \<Rightarrow> (Inr (sub, True), db1)))
      | None \<Rightarrow>
          (case createSubscription cal now inp db of
             (Inl e, db1) \<Rightarrow> (Inl e, db1)
           | (Inr sub, db1) \<Rightarrow> (Inr (sub, False), db1)))"

definition AssignOrExtendSubscription :: "calendar \<Rightarrow> int \<Rightarrow> AssignSubscriptionInput \<Rightarrow> sub_db
  \<Rightarrow> (UserSubscription \<times> bool) result \<times> sub_db" where
  "AssignOrExtendSubscription cal now inp db =
     (case checkGroup (in_GroupID inp) db of
        Inl e \<Rightarrow> (Inl e, db)
      | Inr _ \<Rightarrow> termWrite cal now inp (termRead inp db) db)"


definition detectAssignSemanticConflict :: "calendar \<Rightarrow> UserSubscription \<Rightarrow> AssignSubscriptionInput \<Rightarrow> string option" where
  "detectAssignSemanticConflict cal existing inp =
     (if \<not> IsZero (us_StartsAt existing) \<and>
         us_ExpiresAt existing \<noteq> capExpiry (add_days cal (us_StartsAt existing)
           (normalizeAssignValidityDays (in_ValidityDays inp)))
      then Some ''validity_days_mismatch''
      else if trim_space (us_Notes existing) \<noteq> trim_space (in_Notes inp) then Some ''notes_mismatch''
      else None)"

definition assignSubscriptionWithReuse :: "calendar \<Rightarrow> int \<Rightarrow> AssignSubscriptionInput \<Rightarrow> sub_db
  \<Rightarrow> (UserSubscription \<times> bool) result \<times> sub_db" where
  "assignSubscriptionWithReuse cal now inp db =
     (case checkGroup (in_GroupID inp) db of
        Inl e \<Rightarrow> (Inl e, db)
      | Inr _ \<Rightarrow>
          (if repo_ExistsByUserIDAndGroupID (in_UserID inp) (in_GroupID inp) db then
             (case repo_GetByUserIDAndGroupID (in_UserID inp) (in_GroupID inp) db of
                Inl e \<Rightarrow> (Inl e, db)
              | Inr sub \<Rightarrow>
                  (case detectAssignSemanticConflict cal sub inp of
                     Some reason \<Rightarrow> (Inl (SubscriptionAssignConflict reason), db)
                   | None \<Rightarrow> (Inr (sub, True), db)))
           else
             (case createSubscription cal now inp db of
                (Inl e, db1) \<Rightarrow> (Inl e, db1)
              | (Inr sub, db1) \<Rightarrow> (Inr (sub, False), db1))))"

definition AssignSubscription :: "calendar \<Rightarrow> int \<Rightarrow> AssignSubscriptionInput \<Rightarrow> sub_db
  \<Rightarrow> UserSubscription result \<times> sub_db" where
  "AssignSubscription cal now inp db =
     (case assignSubscriptionWithReuse cal now inp db of
        (Inl e, db1) \<Rightarrow> (Inl e, db1) | (Inr (sub, _), db1) \<Rightarrow> (Inr sub, db1))"

record BulkAssignResult =
  ba_SuccessCount :: int
  ba_CreatedCount :: int
  ba_ReusedCount :: int
  ba_FailedCount :: int
  ba_Subscriptions :: "UserSubscription list"
  ba_Errors :: "(int \<times> sub_error) list"
  ba_Statuses :: "int \<rightharpoonup> string"

definition bulkEmpty :: BulkAssignResult where
  "bulkEmpty = \<lparr>ba_SuccessCount = 0, ba_CreatedCount = 0, ba_ReusedCount = 0, ba_FailedCount = 0,
     ba_Subscriptions = [], ba_Errors = [], ba_Statuses = Map.empty\<rparr>"

text \<open>One round of the bulk assignment; \<open>clock\<close> gives the time of each round.\<close>

definition bulkStep :: "calendar \<Rightarrow> AssignSubscriptionInput \<Rightarrow> int \<times> int
  \<Rightarrow> BulkAssignResult \<times> sub_db \<Rightarrow> BulkAssignResult \<times> sub_db" where
  "bulkStep cal inp user rdb =
     (case user of (u, now) \<Rightarrow>
        (case assignSubscriptionWithReuse cal now (inp\<lparr>in_UserID := u\<rparr>) (snd rdb) of
           (Inl e, db1) \<Rightarrow>
             ((fst rdb)\<lparr>ba_FailedCount := ba_FailedCount (fst rdb) + 1,
                ba_Errors := ba_Errors (fst rdb) @ [(u, e)],
                ba_Statuses := (ba_Statuses (fst rdb))(u \<mapsto> ''failed'')\<rparr>, db1)
         | (Inr (sub, reused), db1) \<Rightarrow>
             ((fst rdb)\<lparr>ba_SuccessCount := ba_SuccessCount (fst rdb) + 1,
                ba_Subscriptions := ba_Subscriptions (fst rdb) @ [sub],
                ba_ReusedCount := ba_ReusedCount (fst rdb) + (if reused then 1 else 0),
                ba_CreatedCount := ba_CreatedCount (fst rdb) + (if reused then 0 else 1),
                ba_Statuses := (ba_Statuses (fst rdb))(u \<mapsto> (if reused then ''reused'' else ''created''))\<rparr>, db1)))"

definition BulkAssignSubscription :: "calendar \<Rightarrow> (int \<times> int) list \<Rightarrow> AssignSubscriptionInput \<Rightarrow> sub_db
  \<Rightarrow> BulkAssignResult \<times> sub_db" where
  "BulkAssignSubscription cal users inp db = fold (bulkStep cal inp) users (bulkEmpty, db)"

definition RevokeSubscription :: "int \<Rightarrow> int \<Rightarrow> sub_db \<Rightarrow> unit result \<times> sub_db" where
  "RevokeSubscription now i db =
     (case repo_GetByID i db of
        Inl e \<Rightarrow> (Inl e, db)
      | Inr _ \<Rightarrow> repo_Delete now i db)"

definition RestoreSubscription :: "int \<Rightarrow> int \<Rightarrow> sub_db \<Rightarrow> UserSubscription result \<times> sub_db" where
  "RestoreSubscription now i db =
     (case repo_GetByIDIncludeDeleted i db of
        Inl e \<Rightarrow> (Inl e, db)
      | Inr sub \<Rightarrow>
          (if us_DeletedAt sub = None then (Inl SubscriptionNotRevoked, db)
           else if repo_ExistsActiveByUserIDAndGroupID (us_UserID sub) (us_GroupID sub) db
           then (Inl SubscriptionRestoreConflict, db)
           else repo_Restore now i
                  (if us_Status sub = SubscriptionStatusActive \<and> us_ExpiresAt sub \<le> now
                   then SubscriptionStatusExpired else us_Status sub) db))"

definition ExtendSubscription :: "calendar \<Rightarrow> int \<Rightarrow> int \<Rightarrow> int \<Rightarrow> sub_db
  \<Rightarrow> UserSubscription result \<times> sub_db" where
  "ExtendSubscription cal now i days0 db =
     (case repo_GetByID i db of
        Inl _ \<Rightarrow> (Inl SubscriptionNotFound, db)
      | Inr sub \<Rightarrow>
          (let days1 = (if days0 > MaxValidityDays then MaxValidityDays else days0);
               days = (if days1 < - MaxValidityDays then - MaxValidityDays else days1);
               isExpired = (us_ExpiresAt sub \<le> now)
           in if isExpired \<and> days < 0 then (Inl CannotShortenExpired, db)
              else (let e = capExpiry (add_days cal (if isExpired then now else us_ExpiresAt sub) days)
                    in if e \<le> now then (Inl AdjustWouldExpire, db)
                       else andThen (repo_ExtendExpiry now i e)
                              (andThen (if us_Status sub = SubscriptionStatusExpired
                                        then repo_UpdateStatus now i SubscriptionStatusActive else skip)
                                 (\<lambda>db1. (repo_GetByID i db1, db1))) db)))"

definition normalizeExpiredWindows :: "calendar \<Rightarrow> int \<Rightarrow> UserSubscription \<Rightarrow> UserSubscription" where
  "normalizeExpiredWindows cal now s0 =
     (let s1 = (if NeedsDailyResetAt cal now s0
                then s0\<lparr>us_DailyWindowStart := None, us_DailyUsageUSD := 0\<rparr> else s0);
          s2 = (if NeedsWeeklyReset now s1
                then s1\<lparr>us_WeeklyWindowStart := None, us_WeeklyUsageUSD := 0\<rparr> else s1)
      in (if NeedsMonthlyReset now s2
          then s2\<lparr>us_MonthlyWindowStart := None, us_MonthlyUsageUSD := 0\<rparr> else s2))"

definition normalizeSubscriptionStatus :: "int \<Rightarrow> UserSubscription \<Rightarrow> UserSubscription" where
  "normalizeSubscriptionStatus now s =
     (if us_Status s = SubscriptionStatusActive \<and> us_ExpiresAt s \<le> now
      then s\<lparr>us_Status := SubscriptionStatusExpired\<rparr> else s)"

definition CheckAndActivateWindow :: "calendar \<Rightarrow> int \<Rightarrow> UserSubscription \<Rightarrow> sub_db \<Rightarrow> unit result \<times> sub_db" where
  "CheckAndActivateWindow cal now s db =
     (if IsWindowActivated s then (Inr (), db)
      else repo_ActivateWindows now (us_ID s) (start_of_day cal now) db)"

definition AdminResetQuota :: "calendar \<Rightarrow> int \<Rightarrow> int \<Rightarrow> bool \<Rightarrow> bool \<Rightarrow> bool \<Rightarrow> sub_db
  \<Rightarrow> UserSubscription result \<times> sub_db" where
  "AdminResetQuota cal now i resetDaily resetWeekly resetMonthly db =
     (if \<not> resetDaily \<and> \<not> resetWeekly \<and> \<not> resetMonthly then (Inl InvalidInput, db)
      else (case repo_GetByID i db of
              Inl e \<Rightarrow> (Inl e, db)
            | Inr sub \<Rightarrow>
                (let w = start_of_day cal now
                 in andThen (if resetDaily then repo_ResetDailyUsage now (us_ID sub) w else skip)
                      (andThen (if resetWeekly then repo_ResetWeeklyUsage now (us_ID sub) w else skip)
                         (andThen (if resetMonthly then repo_ResetMonthlyUsage now (us_ID sub) w else skip)
                            (\<lambda>db1. (repo_GetByID i db1, db1)))) db)))"

text \<open>
  \<open>CheckAndResetWindows\<close> also brings the caller's copy up to date, which is returned.  One
  \<open>resetStage\<close> is one of its three blocks: write the row, then change the copy.
\<close>

definition resetStage :: "bool \<Rightarrow> (sub_db \<Rightarrow> unit result \<times> sub_db) \<Rightarrow> (UserSubscription \<Rightarrow> UserSubscription)
  \<Rightarrow> UserSubscription \<Rightarrow> sub_db \<Rightarrow> unit result \<times> UserSubscription \<times> sub_db" where
  "resetStage needed write f s db =
     (if \<not> needed then (Inr (), s, db)
      else (case write db of
              (Inl e, db1) \<Rightarrow> (Inl e, s, db1)
            | (Inr _, db1) \<Rightarrow> (Inr (), f s, db1)))"

definition CheckAndResetWindows :: "calendar \<Rightarrow> int \<Rightarrow> UserSubscription \<Rightarrow> sub_db
  \<Rightarrow> unit result \<times> UserSubscription \<times> sub_db" where
  "CheckAndResetWindows cal now s0 db0 =
     (let w = start_of_day cal now
      in case resetStage (NeedsDailyResetAt cal now s0) (repo_ResetDailyUsage now (us_ID s0) w)
                (\<lambda>s. s\<lparr>us_DailyWindowStart := Some w, us_DailyUsageUSD := 0\<rparr>) s0 db0 of
           (Inl e, s1, db1) \<Rightarrow> (Inl e, s1, db1)
         | (Inr _, s1, db1) \<Rightarrow>
             (case resetStage (NeedsWeeklyReset now s1) (repo_ResetWeeklyUsage now (us_ID s1) w)
                     (\<lambda>s. s\<lparr>us_WeeklyWindowStart := Some w, us_WeeklyUsageUSD := 0\<rparr>) s1 db1 of
                (Inl e, s2, db2) \<Rightarrow> (Inl e, s2, db2)
              | (Inr _, s2, db2) \<Rightarrow>
                  resetStage (NeedsMonthlyReset now s2) (repo_ResetMonthlyUsage now (us_ID s2) w)
                    (\<lambda>s. s\<lparr>us_MonthlyWindowStart := Some w, us_MonthlyUsageUSD := 0\<rparr>) s2 db2))"

definition CheckUsageLimits :: "UserSubscription \<Rightarrow> Group \<Rightarrow> rat \<Rightarrow> unit result" where
  "CheckUsageLimits s g cost =
     (if \<not> CheckDailyLimit s g cost then Inl DailyLimitExceeded
      else if \<not> CheckWeeklyLimit s g cost then Inl WeeklyLimitExceeded
      else if \<not> CheckMonthlyLimit s g cost then Inl MonthlyLimitExceeded
      else Inr ())"

text \<open>The result of \<open>ValidateAndCheckLimits\<close> with the corrected copy of the subscription.\<close>

definition ValidateAndCheckLimits :: "calendar \<Rightarrow> int \<Rightarrow> UserSubscription \<Rightarrow> Group
  \<Rightarrow> bool \<times> unit result \<times> UserSubscription" where
  "ValidateAndCheckLimits cal now s0 g =
     (if us_Status s0 = SubscriptionStatusExpired then (False, Inl SubscriptionExpired, s0)
      else if us_Status s0 = SubscriptionStatusSuspended then (False, Inl SubscriptionSuspended, s0)
      else if IsExpired now s0 then (False, Inl SubscriptionExpired, s0)
      else
        (let d = NeedsDailyResetAt cal now s0;
             s1 = (if d then s0\<lparr>us_DailyUsageUSD := 0\<rparr> else s0);
             w = NeedsWeeklyReset now s1;
             s2 = (if w then s1\<lparr>us_WeeklyUsageUSD := 0\<rparr> else s1);
             m = NeedsMonthlyReset now s2;
             s3 = (if m then s2\<lparr>us_MonthlyUsageUSD := 0\<rparr> else s2);
             needsMaintenance = (d \<or> w \<or> m \<or> \<not> IsWindowActivated s3)
         in (needsMaintenance, CheckUsageLimits s3 g 0, s3)))"

definition doWindowMaintenance :: "calendar \<Rightarrow> int \<Rightarrow> UserSubscription \<Rightarrow> sub_db \<Rightarrow> sub_db" where
  "doWindowMaintenance cal now s db =
     (let db1 = (if \<not> IsWindowActivated s then snd (CheckAndActivateWindow cal now s db) else db)
      in snd (snd (CheckAndResetWindows cal now s db1)))"

definition RecordUsage :: "int \<Rightarrow> int \<Rightarrow> rat \<Rightarrow> sub_db \<Rightarrow> unit result \<times> sub_db" where
  "RecordUsage now i cost = repo_IncrementUsage now i cost"

definition ValidateSubscription :: "int \<Rightarrow> UserSubscription \<Rightarrow> sub_db \<Rightarrow> unit result \<times> sub_db" where
  "ValidateSubscription now s db =
     (if us_Status s = SubscriptionStatusExpired then (Inl SubscriptionExpired, db)
      else if us_Status s = SubscriptionStatusSuspended then (Inl SubscriptionSuspended, db)
      else if IsExpired now s
      then (Inl SubscriptionExpired, snd (repo_UpdateStatus now (us_ID s) SubscriptionStatusExpired db))
      else (Inr (), db))"

record UsageWindowProgress =
  wp_LimitUSD :: rat
  wp_UsedUSD :: rat
  wp_RemainingUSD :: rat
  wp_Percentage :: rat
  wp_WindowStart :: int
  wp_ResetsAt :: int
  wp_ResetsInSeconds :: int

record SubscriptionProgress =
  sp_ID :: int
  sp_GroupName :: string
  sp_ExpiresAt :: int
  sp_ExpiresInDays :: int
  sp_Daily :: "UsageWindowProgress option"
  sp_Weekly :: "UsageWindowProgress option"
  sp_Monthly :: "UsageWindowProgress option"

definition clampProgress :: "UsageWindowProgress \<Rightarrow> UsageWindowProgress" where
  "clampProgress p0 =
     (let p1 = (if wp_RemainingUSD p0 < 0 then p0\<lparr>wp_RemainingUSD := 0\<rparr> else p0);
          p2 = (if wp_Percentage p1 > 100 then p1\<lparr>wp_Percentage := 100\<rparr> else p1)
      in (if wp_ResetsInSeconds p2 < 0 then p2\<lparr>wp_ResetsInSeconds := 0\<rparr> else p2))"

text \<open>\<open>int64(time.Until(r).Seconds())\<close> truncates towards zero.\<close>

definition secondsUntil :: "int \<Rightarrow> int \<Rightarrow> int" where
  "secondsUntil now r = (if r \<ge> now then (r - now) div 1000000000 else - ((now - r) div 1000000000))"

definition windowProgress :: "int \<Rightarrow> rat \<Rightarrow> rat \<Rightarrow> int \<Rightarrow> int \<Rightarrow> UsageWindowProgress" where
  "windowProgress now limit used start resetsAt = clampProgress
     \<lparr>wp_LimitUSD = limit, wp_UsedUSD = used, wp_RemainingUSD = limit - used,
      wp_Percentage = (used / limit) * 100, wp_WindowStart = start, wp_ResetsAt = resetsAt,
      wp_ResetsInSeconds = secondsUntil now resetsAt\<rparr>"

definition calculateProgress :: "calendar \<Rightarrow> int \<Rightarrow> UserSubscription \<Rightarrow> Group \<Rightarrow> SubscriptionProgress" where
  "calculateProgress cal now s g =
     \<lparr>sp_ID = us_ID s, sp_GroupName = g_Name g, sp_ExpiresAt = us_ExpiresAt s,
      sp_ExpiresInDays = DaysRemaining now s,
      sp_Daily = (case us_DailyWindowStart s of
          None \<Rightarrow> None
        | Some w \<Rightarrow> (if HasDailyLimit g
            then Some (windowProgress now (the (g_DailyLimitUSD g)) (us_DailyUsageUSD s) w
                   (case DailyResetTime cal s of None \<Rightarrow> w + 24 * hour | Some t \<Rightarrow> t))
            else None)),
      sp_Weekly = (case us_WeeklyWindowStart s of
          None \<Rightarrow> None
        | Some w \<Rightarrow> (if HasWeeklyLimit g
            then Some (windowProgress now (the (g_WeeklyLimitUSD g)) (us_WeeklyUsageUSD s) w (w + 7 * 24 * hour))
            else None)),
      sp_Monthly = (case us_MonthlyWindowStart s of
          None \<Rightarrow> None
        | Some w \<Rightarrow> (if HasMonthlyLimit g
            then Some (windowProgress now (the (g_MonthlyLimitUSD g)) (us_MonthlyUsageUSD s) w (w + 30 * 24 * hour))
            else None))\<rparr>"

end
