(* ===== verification/SubscriptionProperties.thy ===== *)
theory SubscriptionProperties
  imports Subscription
begin

section \<open>Properties of subscriptions\<close>

text \<open>
  \<open>wf_db\<close> is the table's invariant: row ids are unique and at most one live row belongs to a user
  and group.  Every operation preserves it; under it the lookups of the service find the row they
  mean, which the functional theorems rest on.
\<close>

subsection \<open>The table invariant\<close>

definition us_key :: "UserSubscription \<Rightarrow> int \<times> int" where
  "us_key r = (us_UserID r, us_GroupID r)"

definition wf_rows :: "UserSubscription list \<Rightarrow> int \<Rightarrow> bool" where
  "wf_rows rs n \<longleftrightarrow> distinct (map us_ID rs) \<and> list_all (\<lambda>r. us_ID r < n) rs \<and>
     distinct (map us_key (filter live rs))"

definition wf_db :: "sub_db \<Rightarrow> bool" where
  "wf_db db \<longleftrightarrow> wf_rows (db_subs db) (db_nextID db)"

lemma filter_unique:
  "distinct (map f xs) \<Longrightarrow> r \<in> set xs \<Longrightarrow> P r \<Longrightarrow> (\<And>x. x \<in> set xs \<Longrightarrow> P x \<Longrightarrow> f x = f r) \<Longrightarrow>
   filter P xs = [r]"
proof (induction xs)
  case (Cons x xs)
  show ?case
  proof (cases "x = r")
    case True
    have "\<not> P y" if "y \<in> set xs" for y
    proof
      assume "P y"
      with Cons.prems(4) [of y] that have "f y = f r" by simp
      with Cons.prems(1) True imageI [OF that, of f] show False by simp
    qed
    with True Cons.prems(3) show ?thesis by (simp add: filter_empty_conv)
  next
    case False
    with Cons.prems have r: "r \<in> set xs" by simp
    have "\<not> P x"
    proof
      assume "P x"
      with Cons.prems(4) [of x] have "f x = f r" by simp
      with Cons.prems(1) imageI [OF r, of f] show False by simp
    qed
    moreover have "filter P xs = [r]"
    proof (rule Cons.IH)
      show "distinct (map f xs)" using Cons.prems(1) by simp
      show "f y = f r" if "y \<in> set xs" "P y" for y using Cons.prems(4) that by simp
    qed (use r Cons.prems(3) in simp_all)
    ultimately show ?thesis by simp
  qed
qed simp

text \<open>Changing rows in place keeps the invariant when ids and keys stay and no row comes alive.\<close>

definition tame :: "(UserSubscription \<Rightarrow> UserSubscription) \<Rightarrow> bool" where
  "tame h \<longleftrightarrow> (\<forall>r. us_ID (h r) = us_ID r \<and> us_key (h r) = us_key r \<and> (live (h r) \<longrightarrow> live r))"

lemma tame_keys: "tame h \<Longrightarrow> us_key (h r) = us_key r"
  and tame_ids: "tame h \<Longrightarrow> us_ID (h r) = us_ID r"
  and tame_live: "tame h \<Longrightarrow> live (h r) \<Longrightarrow> live r"
  by (simp_all add: tame_def)

lemma wf_map:
  assumes "wf_rows rs n" and "tame h"
  shows "wf_rows (map h rs) n"
proof -
  have "filter (\<lambda>r. live (h r)) rs = filter (\<lambda>r. live (h r)) (filter live rs)"
    using tame_live [OF assms(2)] by (induction rs) auto
  then have "map us_key (filter live (map h rs)) = map us_key (filter (\<lambda>r. live (h r)) (filter live rs))"
    by (simp add: filter_map o_def tame_keys [OF assms(2)])
  moreover have "distinct (map us_key (filter (\<lambda>r. live (h r)) (filter live rs)))"
    using assms(1) unfolding wf_rows_def by (metis distinct_map_filter)
  moreover have "map us_ID (map h rs) = map us_ID rs" by (simp add: o_def tame_ids [OF assms(2)])
  moreover have "list_all (\<lambda>r. us_ID r < n) (map h rs)"
    using assms by (simp add: wf_rows_def list_all_iff tame_ids)
  ultimately show ?thesis using assms(1) unfolding wf_rows_def by (simp only:)
qed

lemma tame_if: "tame h \<Longrightarrow> tame (\<lambda>r. if P r then h r else r)"
  by (simp add: tame_def)

lemma wf_updateRow:
  "wf_db db \<Longrightarrow> tame f \<Longrightarrow> wf_db (snd (updateRow now i f db))"
proof -
  assume "wf_db db" "tame f"
  moreover from this(2) have "tame (\<lambda>r. if us_ID r = i then (f r)\<lparr>us_UpdatedAt := now\<rparr> else r)"
    by (simp add: tame_def us_key_def live_def)
  ultimately show ?thesis by (simp add: wf_db_def updateRow_def wf_map)
qed

lemmas repo_updates = repo_ExtendExpiry_def repo_UpdateStatus_def repo_UpdateNotes_def
  repo_ActivateWindows_def repo_ResetDailyUsage_def repo_ResetWeeklyUsage_def repo_ResetMonthlyUsage_def

lemmas row_defs = us_key_def live_def

lemma wf_repo_updates [sub_simps]:
  assumes "wf_db db"
  shows "wf_db (snd (repo_ExtendExpiry now i e db))" "wf_db (snd (repo_UpdateStatus now i st db))"
    "wf_db (snd (repo_UpdateNotes now i nt db))" "wf_db (snd (repo_ActivateWindows now i w db))"
    "wf_db (snd (repo_ResetDailyUsage now i w db))" "wf_db (snd (repo_ResetWeeklyUsage now i w db))"
    "wf_db (snd (repo_ResetMonthlyUsage now i w db))" "wf_db (snd (skip db))"
  using assms by (auto simp: repo_updates skip_def tame_def row_defs intro!: wf_updateRow)

lemma wf_andThen:
  assumes "wf_db (snd (f db))" and "\<And>d. wf_db d \<Longrightarrow> wf_db (snd (g d))"
  shows "wf_db (snd (andThen f g db))"
proof -
  obtain a d where fd: "f db = (a, d)" by (cases "f db")
  with assms have "wf_db d" "wf_db (snd (g d))" by simp_all
  with fd show ?thesis by (cases a) (simp_all add: andThen_def)
qed

lemma wf_inTx: "wf_db db \<Longrightarrow> wf_db (snd (f db)) \<Longrightarrow> wf_db (snd (inTx f db))"
  unfolding inTx_def by (cases "f db"; cases "fst (f db)") auto

lemma wf_repo_Delete: "wf_db db \<Longrightarrow> wf_db (snd (repo_Delete now i db))"
  by (simp add: repo_Delete_def wf_db_def wf_map tame_def row_defs)

lemma wf_repo_IncrementUsage: "wf_db db \<Longrightarrow> wf_db (snd (repo_IncrementUsage now i c db))"
  by (simp add: repo_IncrementUsage_def Let_def wf_db_def wf_map tame_def row_defs)

lemma wf_repo_BatchUpdate: "wf_db db \<Longrightarrow> wf_db (snd (repo_BatchUpdateExpiredStatus now db))"
  by (simp add: repo_BatchUpdateExpiredStatus_def Let_def wf_db_def wf_map tame_def row_defs)

lemma wf_repo_Create: "wf_db db \<Longrightarrow> wf_db (snd (repo_Create now s db))"
  by (auto simp: repo_Create_def Let_def wf_db_def wf_rows_def repo_ExistsByUserIDAndGroupID_def
      list_ex_iff list_all_iff us_key_def live_def image_iff)

lemma only_SomeD: "only xs = Some x \<Longrightarrow> xs = [x]"
  by (cases xs rule: only.cases) auto

lemma filter_singleton:
  "filter P xs = [x] \<Longrightarrow> \<exists>as bs. xs = as @ x # bs \<and> P x \<and> (\<forall>y \<in> set as \<union> set bs. \<not> P y)"
proof (induction xs)
  case (Cons y ys)
  show ?case
  proof (cases "P y")
    case True
    with Cons.prems have "y = x" "filter P ys = []" by simp_all
    with True show ?thesis by (intro exI [of _ "[]"] exI [of _ ys]) (simp add: filter_empty_conv)
  next
    case False
    with Cons obtain as bs where "ys = as @ x # bs" "P x" "\<forall>y \<in> set as \<union> set bs. \<not> P y" by auto
    with False show ?thesis by (intro exI [of _ "y # as"] exI [of _ bs]) auto
  qed
qed simp

lemma wf_repo_Restore:
  assumes "wf_db db"
  shows "wf_db (snd (repo_Restore now i st db))"
proof (cases "only (filter (\<lambda>r. us_ID r = i) (db_subs db))")
  case None
  with assms show ?thesis by (simp add: repo_Restore_def)
next
  case (Some row)
  let ?clash = "list_ex (\<lambda>r. us_ID r \<noteq> i \<and> live r \<and> us_UserID r = us_UserID row
      \<and> us_GroupID r = us_GroupID row) (db_subs db)"
  show ?thesis
  proof (cases ?clash)
    case True
    with Some assms show ?thesis by (simp add: repo_Restore_def)
  next
    case False
    let ?f = "\<lambda>r. (r\<lparr>us_Status := st, us_DeletedAt := None\<rparr>)\<lparr>us_UpdatedAt := now\<rparr>"
    let ?h = "\<lambda>r. if us_ID r = i then ?f r else r"
    obtain as bs where rs: "db_subs db = as @ row # bs" "us_ID row = i"
      "\<forall>r \<in> set as \<union> set bs. us_ID r \<noteq> i"
      using filter_singleton [OF only_SomeD [OF Some]] by blast
    have "map ?h as = as" "map ?h bs = bs" using rs(3) by (auto intro: map_idI)
    then have h: "map ?h (db_subs db) = as @ ?f row # bs" using rs by simp
    have "us_key row \<notin> us_key ` set (filter live (as @ bs))"
      using False rs by (auto simp: list_ex_iff us_key_def)
    then have "wf_rows (as @ ?f row # bs) (db_nextID db)"
      using assms rs(1) by (cases "live row") (auto simp: wf_db_def wf_rows_def us_key_def live_def)
    moreover have "list_ex (\<lambda>r. us_ID r = i) (db_subs db)" using rs by simp
    ultimately show ?thesis
      using h Some False by (simp add: repo_Restore_def Let_def updateRow_def wf_db_def)
  qed
qed

subsection \<open>The service preserves the invariant\<close>

lemma wf_cond [intro]: "wf_db (snd (f db)) \<Longrightarrow> wf_db (snd (g db)) \<Longrightarrow> wf_db (snd ((if b then f else g) db))"
  by simp

lemma wf_repo_Update:
  assumes "wf_db db" and "\<And>r. r \<in> set (db_subs db) \<Longrightarrow> us_ID r = us_ID s \<Longrightarrow> us_key r = us_key s"
  shows "wf_db (snd (repo_Update now s db))"
proof -
  let ?h = "\<lambda>r. if us_ID r = us_ID s \<and> us_key r = us_key s
    then r\<lparr>us_UserID := us_UserID s, us_GroupID := us_GroupID s, us_StartsAt := us_StartsAt s,
       us_ExpiresAt := us_ExpiresAt s, us_Status := us_Status s,
       us_DailyWindowStart := orElse (us_DailyWindowStart s) (us_DailyWindowStart r),
       us_WeeklyWindowStart := orElse (us_WeeklyWindowStart s) (us_WeeklyWindowStart r),
       us_MonthlyWindowStart := orElse (us_MonthlyWindowStart s) (us_MonthlyWindowStart r),
       us_DailyUsageUSD := us_DailyUsageUSD s, us_WeeklyUsageUSD := us_WeeklyUsageUSD s,
       us_MonthlyUsageUSD := us_MonthlyUsageUSD s,
       us_AssignedBy := orElse (us_AssignedBy s) (us_AssignedBy r),
       us_AssignedAt := us_AssignedAt s, us_Notes := us_Notes s, us_UpdatedAt := now\<rparr>
    else r"
  have "tame ?h" by (simp add: tame_def us_key_def live_def)
  then have "wf_rows (map ?h (db_subs db)) (db_nextID db)"
    using assms(1) by (intro wf_map) (simp_all add: wf_db_def)
  moreover have "map ?h (db_subs db) = db_subs (snd (repo_Update now s db))
      \<or> snd (repo_Update now s db) = db"
    using assms(2) by (auto simp: repo_Update_def updateRow_def)
  moreover have "db_nextID (snd (repo_Update now s db)) = db_nextID db"
    by (simp add: repo_Update_def updateRow_def)
  ultimately show ?thesis using assms(1) by (auto simp: wf_db_def)
qed

lemma wf_createSubscription: "wf_db db \<Longrightarrow> wf_db (snd (createSubscription cal now inp db))"
  using wf_repo_Create [of db now "newSubscription cal now inp"]
  by (cases "repo_Create now (newSubscription cal now inp) db"; cases "fst (repo_Create now (newSubscription cal now inp) db)")
    (simp_all add: createSubscription_def)

text \<open>A term is written for a row that was read earlier: the row's id still has the same key.\<close>

definition stale_copy :: "UserSubscription \<Rightarrow> sub_db \<Rightarrow> bool" where
  "stale_copy s db \<longleftrightarrow> (\<forall>r \<in> set (db_subs db). us_ID r = us_ID s \<longrightarrow> us_key r = us_key s)"

lemma wf_updateTerm:
  assumes "wf_db db" and "stale_copy s db"
  shows "wf_db (snd (updateExistingSubscriptionTerm cal s notes now e isExpired db))"
proof -
  have "us_key (renewedSubscriptionTerm cal s notes now e) = us_key s"
    "us_ID (renewedSubscriptionTerm cal s notes now e) = us_ID s"
    by (simp_all add: renewedSubscriptionTerm_def us_key_def Let_def)
  then have "wf_db (snd (repo_Update now (renewedSubscriptionTerm cal s notes now e) db))"
    using assms by (intro wf_repo_Update) (auto simp: stale_copy_def)
  moreover have "wf_db (snd (andThen (repo_ExtendExpiry now (us_ID s) e)
      (andThen (if us_Status s \<noteq> SubscriptionStatusActive
                then repo_UpdateStatus now (us_ID s) SubscriptionStatusActive else skip)
         (if notes \<noteq> ''''
          then repo_UpdateNotes now (us_ID s) (appendSubscriptionNotes (us_Notes s) notes)
          else skip)) db))"
    using assms(1) by (intro wf_andThen wf_cond wf_repo_updates)
  ultimately show ?thesis
    unfolding updateExistingSubscriptionTerm_def by (intro wf_inTx assms(1)) (simp split: if_splits)
qed

lemma wf_termWrite:
  assumes "wf_db db" and "\<And>s. existing = Some s \<Longrightarrow> stale_copy s db"
  shows "wf_db (snd (termWrite cal now inp existing db))"
proof (cases existing)
  case None
  obtain a d where cr: "createSubscription cal now inp db = (a, d)" by (cases "createSubscription cal now inp db")
  with wf_createSubscription [OF assms(1), of cal now inp] None show ?thesis
    by (cases a) (simp_all add: termWrite_def)
next
  case (Some s)
  let ?u = "updateExistingSubscriptionTerm cal s (in_Notes inp) now
    (newTermExpiry cal now (normalizeAssignValidityDays (in_ValidityDays inp)) s) (us_ExpiresAt s \<le> now) db"
  obtain a d where u: "?u = (a, d)" by (cases ?u)
  with wf_updateTerm [OF assms(1) assms(2) [OF Some], of cal "in_Notes inp" now] have "wf_db d"
    by (metis snd_conv)
  with u Some show ?thesis by (cases a) (simp_all add: termWrite_def split: sum.splits)
qed

lemma only_member: "only (filter P xs) = Some x \<Longrightarrow> x \<in> set xs \<and> P x"
  using only_SomeD [of "filter P xs" x] by (metis (mono_tags, lifting) filter_eq_Cons_iff in_set_conv_decomp)

lemma live_toService [simp]: "live r \<Longrightarrow> toService b r = r"
  by (simp add: toService_def live_def)

lemma found_Inr [simp]: "found x = Inr r \<longleftrightarrow> x = Some r"
  by (simp add: found_def split: option.splits)

lemma GetByUser_member:
  assumes "repo_GetByUserIDAndGroupID u g db = Inr s"
  shows "s \<in> set (db_subs db) \<and> live s \<and> us_UserID s = u \<and> us_GroupID s = g"
proof -
  from assms obtain r where "only (filter (\<lambda>r. live r \<and> us_UserID r = u \<and> us_GroupID r = g) (db_subs db)) = Some r"
    "toService True r = s"
    by (auto simp: repo_GetByUserIDAndGroupID_def)
  with only_member [OF this(1)] show ?thesis by auto
qed

lemma GetByID_member:
  assumes "repo_GetByID i db = Inr s"
  shows "s \<in> set (db_subs db) \<and> live s \<and> us_ID s = i"
proof -
  from assms obtain r where "only (filter (\<lambda>r. live r \<and> us_ID r = i) (db_subs db)) = Some r"
    "toService True r = s"
    by (auto simp: repo_GetByID_def)
  with only_member [OF this(1)] show ?thesis by auto
qed

lemma wf_same_id:
  "wf_db db \<Longrightarrow> r \<in> set (db_subs db) \<Longrightarrow> r' \<in> set (db_subs db) \<Longrightarrow> us_ID r = us_ID r' \<Longrightarrow> r = r'"
  unfolding wf_db_def wf_rows_def by (metis distinct_map inj_onD)

lemma member_stale: "wf_db db \<Longrightarrow> s \<in> set (db_subs db) \<Longrightarrow> stale_copy s db"
  using wf_same_id unfolding stale_copy_def by metis

lemma wf_AssignOrExtend:
  assumes "wf_db db"
  shows "wf_db (snd (AssignOrExtendSubscription cal now inp db))"
proof -
  have "wf_db (snd (termWrite cal now inp (termRead inp db) db))"
  proof (rule wf_termWrite [OF assms])
    fix s assume "termRead inp db = Some s"
    then show "stale_copy s db"
      using GetByUser_member member_stale [OF assms] by (auto simp: termRead_def split: sum.splits)
  qed
  with assms show ?thesis by (simp add: AssignOrExtendSubscription_def split: sum.splits)
qed

lemma wf_assignReuse: "wf_db db \<Longrightarrow> wf_db (snd (assignSubscriptionWithReuse cal now inp db))"
  using wf_createSubscription [of db cal now inp]
  by (auto simp: assignSubscriptionWithReuse_def split: sum.splits option.splits prod.splits)

lemma wf_bulk: "wf_db (snd rdb) \<Longrightarrow> wf_db (snd (fold (bulkStep cal inp) users rdb))"
proof (induction users arbitrary: rdb)
  case (Cons user users)
  have "wf_db (snd (bulkStep cal inp user rdb))"
    using wf_assignReuse [OF Cons.prems, of cal "snd user" "inp\<lparr>in_UserID := fst user\<rparr>"]
    by (auto simp: bulkStep_def split: sum.splits prod.splits)
  with Cons.IH show ?case by simp
qed simp

lemma wf_Restore: "wf_db db \<Longrightarrow> wf_db (snd (RestoreSubscription now i db))"
  using wf_repo_Restore by (simp add: RestoreSubscription_def split: sum.splits)

lemma wf_Revoke: "wf_db db \<Longrightarrow> wf_db (snd (RevokeSubscription now i db))"
  using wf_repo_Delete by (simp add: RevokeSubscription_def split: sum.splits)

lemma wf_Extend:
  assumes "wf_db db"
  shows "wf_db (snd (ExtendSubscription cal now i days db))"
proof -
  have "wf_db (snd (andThen (repo_ExtendExpiry now i e)
      (andThen (if st = SubscriptionStatusExpired then repo_UpdateStatus now i SubscriptionStatusActive
                else skip) (\<lambda>db1. (repo_GetByID i db1, db1))) db))" for e st
    using assms by (intro wf_andThen wf_cond wf_repo_updates) simp_all
  with assms show ?thesis by (simp add: ExtendSubscription_def Let_def split: sum.splits)
qed

lemma wf_AdminReset:
  assumes "wf_db db"
  shows "wf_db (snd (AdminResetQuota cal now i d w m db))"
proof -
  have "wf_db (snd (andThen (if d then repo_ResetDailyUsage now j t else skip)
      (andThen (if w then repo_ResetWeeklyUsage now j t else skip)
         (andThen (if m then repo_ResetMonthlyUsage now j t else skip)
            (\<lambda>db1. (repo_GetByID i db1, db1)))) db))" for j t
    using assms by (intro wf_andThen wf_cond wf_repo_updates) simp_all
  then show ?thesis
    using assms by (cases "repo_GetByID i db"; cases "\<not> d \<and> \<not> w \<and> \<not> m")
      (simp_all only: AdminResetQuota_def Let_def sum.case if_True if_False snd_conv simp_thms)
qed

lemma wf_stage:
  assumes "resetStage b f g s db = (r, s', d)" and "wf_db db" and "wf_db (snd (f db))"
  shows "wf_db d"
proof -
  obtain a d' where "f db = (a, d')" by (cases "f db")
  with assms show ?thesis by (cases a) (auto simp: resetStage_def split: if_splits)
qed

lemma wf_ResetWindows:
  assumes "wf_db db"
  shows "wf_db (snd (snd (CheckAndResetWindows cal now s db)))"
proof -
  let ?w = "start_of_day cal now"
  obtain r1 s1 d1 where 1: "resetStage (NeedsDailyResetAt cal now s) (repo_ResetDailyUsage now (us_ID s) ?w)
      (\<lambda>s. s\<lparr>us_DailyWindowStart := Some ?w, us_DailyUsageUSD := 0\<rparr>) s db = (r1, s1, d1)"
    by (metis surj_pair)
  have d1: "wf_db d1" by (rule wf_stage [OF 1 assms wf_repo_updates(5) [OF assms]])
  obtain r2 s2 d2 where 2: "resetStage (NeedsWeeklyReset now s1) (repo_ResetWeeklyUsage now (us_ID s1) ?w)
      (\<lambda>s. s\<lparr>us_WeeklyWindowStart := Some ?w, us_WeeklyUsageUSD := 0\<rparr>) s1 d1 = (r2, s2, d2)"
    by (metis surj_pair)
  have d2: "wf_db d2" by (rule wf_stage [OF 2 d1 wf_repo_updates(6) [OF d1]])
  obtain r3 s3 d3 where 3: "resetStage (NeedsMonthlyReset now s2) (repo_ResetMonthlyUsage now (us_ID s2) ?w)
      (\<lambda>s. s\<lparr>us_MonthlyWindowStart := Some ?w, us_MonthlyUsageUSD := 0\<rparr>) s2 d2 = (r3, s3, d3)"
    by (metis surj_pair)
  have "wf_db d3" by (rule wf_stage [OF 3 d2 wf_repo_updates(7) [OF d2]])
  with d1 d2 1 2 3 show ?thesis
    by (cases r1; cases r2) (simp_all add: CheckAndResetWindows_def Let_def)
qed

lemma wf_maintenance: "wf_db db \<Longrightarrow> wf_db (doWindowMaintenance cal now s db)"
  by (simp add: doWindowMaintenance_def Let_def wf_ResetWindows CheckAndActivateWindow_def wf_repo_updates)

subsection \<open>Reachable tables\<close>

text \<open>Operations as steps; the two halves of a renewal are separate steps, so they interleave.\<close>

inductive sub_step :: "calendar \<Rightarrow> sub_db \<Rightarrow> sub_db \<Rightarrow> bool" for cal where
  assign: "sub_step cal db (snd (AssignSubscription cal now inp db))"
| bulk: "sub_step cal db (snd (BulkAssignSubscription cal users inp db))"
| assign_or_extend: "sub_step cal db (snd (AssignOrExtendSubscription cal now inp db))"
| term_write: "(\<forall>s. existing = Some s \<longrightarrow> stale_copy s db) \<Longrightarrow>
    sub_step cal db (snd (termWrite cal now inp existing db))"
| revoke: "sub_step cal db (snd (RevokeSubscription now i db))"
| restore: "sub_step cal db (snd (RestoreSubscription now i db))"
| extend: "sub_step cal db (snd (ExtendSubscription cal now i days db))"
| admin_reset: "sub_step cal db (snd (AdminResetQuota cal now i d w m db))"
| maintenance: "sub_step cal db (doWindowMaintenance cal now s db)"
| record_usage: "sub_step cal db (snd (RecordUsage now i cost db))"
| validate: "sub_step cal db (snd (ValidateSubscription now s db))"
| expire_batch: "sub_step cal db (snd (repo_BatchUpdateExpiredStatus now db))"

lemma wf_step: "sub_step cal db db' \<Longrightarrow> wf_db db \<Longrightarrow> wf_db db'"
proof (induction rule: sub_step.induct)
  case (assign db now inp)
  then show ?case using wf_assignReuse [of db cal now inp]
    by (auto simp: AssignSubscription_def split: prod.splits sum.splits)
next
  case (validate db now s)
  then show ?case by (simp add: ValidateSubscription_def wf_repo_updates)
qed (simp_all add: wf_bulk wf_AssignOrExtend wf_termWrite wf_Revoke wf_Restore wf_Extend wf_AdminReset
    wf_maintenance RecordUsage_def wf_repo_IncrementUsage wf_repo_BatchUpdate BulkAssignSubscription_def)

lemma wf_steps: "(sub_step cal)\<^sup>*\<^sup>* db db' \<Longrightarrow> wf_db db \<Longrightarrow> wf_db db'"
  by (induction rule: rtranclp_induct) (auto intro: wf_step)

subsection \<open>Lookups and updates of a known row\<close>

definition putRow :: "UserSubscription \<Rightarrow> sub_db \<Rightarrow> sub_db" where
  "putRow r' db = db\<lparr>db_subs := map (\<lambda>x. if us_ID x = us_ID r' then r' else x) (db_subs db)\<rparr>"

definition holds_row :: "sub_db \<Rightarrow> UserSubscription \<Rightarrow> bool" where
  "holds_row db r \<longleftrightarrow> wf_db db \<and> r \<in> set (db_subs db)"

lemma lookup_ID:
  assumes "holds_row db r" and "live r"
  shows "repo_GetByID (us_ID r) db = Inr r"
proof -
  have "filter (\<lambda>x. live x \<and> us_ID x = us_ID r) (db_subs db) = [r]"
    using assms by (intro filter_unique [where f = us_ID]) (auto simp: holds_row_def wf_db_def wf_rows_def)
  with assms(2) show ?thesis by (simp add: repo_GetByID_def)
qed

lemma lookup_deleted_ID:
  assumes "holds_row db r"
  shows "only (filter (\<lambda>x. us_ID x = us_ID r) (db_subs db)) = Some r"
    and "repo_GetByIDIncludeDeleted (us_ID r) db = Inr r"
proof -
  have "filter (\<lambda>x. us_ID x = us_ID r) (db_subs db) = [r]"
    using assms by (intro filter_unique [where f = us_ID]) (auto simp: holds_row_def wf_db_def wf_rows_def)
  then show "only (filter (\<lambda>x. us_ID x = us_ID r) (db_subs db)) = Some r"
    and "repo_GetByIDIncludeDeleted (us_ID r) db = Inr r"
    by (simp_all add: repo_GetByIDIncludeDeleted_def toService_def)
qed

lemma lookup_user:
  assumes "holds_row db r" and "live r"
  shows "repo_GetByUserIDAndGroupID (us_UserID r) (us_GroupID r) db = Inr r"
proof -
  let ?P = "\<lambda>x. us_UserID x = us_UserID r \<and> us_GroupID x = us_GroupID r"
  have "filter (\<lambda>x. live x \<and> ?P x) (db_subs db) = filter ?P (filter live (db_subs db))"
    by (induction "db_subs db") auto
  also have "\<dots> = [r]"
    using assms by (intro filter_unique [where f = us_key])
      (auto simp: holds_row_def wf_db_def wf_rows_def us_key_def)
  finally have "filter (\<lambda>x. live x \<and> ?P x) (db_subs db) = [r]" .
  with assms(2) show ?thesis by (simp add: repo_GetByUserIDAndGroupID_def)
qed

lemma lookup_none:
  "\<not> repo_ExistsByUserIDAndGroupID u g db \<Longrightarrow> repo_GetByUserIDAndGroupID u g db = Inl SubscriptionNotFound"
  by (simp add: repo_ExistsByUserIDAndGroupID_def repo_GetByUserIDAndGroupID_def list_ex_iff found_def
      filter_False)

lemma updateRow_at:
  assumes "holds_row db r" and "us_ID r = i" and "us_ID (f r) = i"
  shows "updateRow now i f db = (Inr (), putRow ((f r)\<lparr>us_UpdatedAt := now\<rparr>) db)"
proof -
  have "map (\<lambda>x. if us_ID x = i then (f x)\<lparr>us_UpdatedAt := now\<rparr> else x) (db_subs db)
      = map (\<lambda>x. if us_ID x = i then (f r)\<lparr>us_UpdatedAt := now\<rparr> else x) (db_subs db)"
    using assms wf_same_id [of db r] by (auto simp: holds_row_def)
  moreover have "list_ex (\<lambda>x. us_ID x = i) (db_subs db)"
    using assms by (auto simp: holds_row_def list_ex_iff)
  ultimately show ?thesis using assms by (simp add: updateRow_def putRow_def)
qed

lemma holds_putRow:
  assumes "holds_row db r" and "us_ID r' = us_ID r" and "us_key r' = us_key r" and "live r' \<longrightarrow> live r"
  shows "holds_row (putRow r' db) r'"
proof -
  let ?h = "\<lambda>x. if x = r then r' else x"
  have "(us_ID x = us_ID r') = (x = r)" if "x \<in> set (db_subs db)" for x
    using wf_same_id [of db x r] assms(1,2) that by (auto simp: holds_row_def)
  then have map: "db_subs (putRow r' db) = map ?h (db_subs db)"
    by (simp add: putRow_def)
  have "tame ?h" using assms by (simp add: tame_def)
  then have "wf_rows (map ?h (db_subs db)) (db_nextID db)"
    using assms(1) by (intro wf_map) (simp_all add: holds_row_def wf_db_def)
  moreover have "r' \<in> set (map ?h (db_subs db))"
    using assms(1) by (auto simp: holds_row_def image_iff)
  moreover have "db_nextID (putRow r' db) = db_nextID db" by (simp add: putRow_def)
  ultimately show ?thesis by (simp only: holds_row_def wf_db_def map simp_thms)
qed

lemma putRow_putRow [simp]: "us_ID r2 = us_ID r1 \<Longrightarrow> putRow r2 (putRow r1 db) = putRow r2 db"
  by (simp add: putRow_def)

lemma putRow_frame [simp]: "db_groups (putRow r db) = db_groups db" "db_nextID (putRow r db) = db_nextID db"
  by (simp_all add: putRow_def)

lemma andThen_ok [simp]: "f db = (Inr (), d) \<Longrightarrow> andThen f g db = g d"
  by (simp add: andThen_def)

lemma update_chain:
  assumes "holds_row db r" and "us_ID (f r) = us_ID r" and "us_key (f r) = us_key r"
    and "us_DeletedAt (f r) = us_DeletedAt r"
  shows "updateRow now (us_ID r) f db = (Inr (), putRow ((f r)\<lparr>us_UpdatedAt := now\<rparr>) db)"
    and "holds_row (putRow ((f r)\<lparr>us_UpdatedAt := now\<rparr>) db) ((f r)\<lparr>us_UpdatedAt := now\<rparr>)"
  using assms updateRow_at [OF assms(1), of "us_ID r" f now]
    holds_putRow [OF assms(1), of "(f r)\<lparr>us_UpdatedAt := now\<rparr>"]
  by (simp_all add: us_key_def live_def)

subsection \<open>Renewal\<close>

lemma orElse_simps [simp]: "orElse x x = x" "orElse (Some v) y = Some v"
  by (simp_all add: orElse_def split: option.splits)

lemma capExpiry_min: "capExpiry e = min MaxExpiresAt e"
  by (simp add: capExpiry_def min_def)

text \<open>The row after a renewal.\<close>

definition renewedRow :: "calendar \<Rightarrow> int \<Rightarrow> AssignSubscriptionInput \<Rightarrow> UserSubscription \<Rightarrow> UserSubscription" where
  "renewedRow cal now inp r =
     (let e = newTermExpiry cal now (normalizeAssignValidityDays (in_ValidityDays inp)) r
      in (if us_ExpiresAt r \<le> now then renewedSubscriptionTerm cal r (in_Notes inp) now e
          else r\<lparr>us_ExpiresAt := e, us_Status := SubscriptionStatusActive,
                 us_Notes := appendSubscriptionNotes (us_Notes r) (in_Notes inp)\<rparr>)\<lparr>us_UpdatedAt := now\<rparr>)"

lemma updateTerm_at:
  assumes "holds_row db r"
  shows "updateExistingSubscriptionTerm cal r (in_Notes inp) now
      (newTermExpiry cal now (normalizeAssignValidityDays (in_ValidityDays inp)) r) (us_ExpiresAt r \<le> now) db
    = (Inr (), putRow (renewedRow cal now inp r) db)"
proof (cases "us_ExpiresAt r \<le> now")
  case True
  let ?e = "newTermExpiry cal now (normalizeAssignValidityDays (in_ValidityDays inp)) r"
  let ?n = "renewedSubscriptionTerm cal r (in_Notes inp) now ?e"
  have "repo_Update now ?n db = (Inr (), putRow (?n\<lparr>us_UpdatedAt := now\<rparr>) db)"
    using updateRow_at [OF assms, of "us_ID r"] unfolding repo_Update_def
    by (simp add: renewedSubscriptionTerm_def Let_def)
  with True show ?thesis
    by (simp add: updateExistingSubscriptionTerm_def inTx_def renewedRow_def)
next
  case False
  let ?e = "newTermExpiry cal now (normalizeAssignValidityDays (in_ValidityDays inp)) r"
  let ?r1 = "r\<lparr>us_ExpiresAt := ?e, us_UpdatedAt := now\<rparr>"
  have 1: "repo_ExtendExpiry now (us_ID r) ?e db = (Inr (), putRow ?r1 db)" "holds_row (putRow ?r1 db) ?r1"
    using update_chain [OF assms, of "\<lambda>r. r\<lparr>us_ExpiresAt := ?e\<rparr>" now]
    by (simp_all add: repo_ExtendExpiry_def us_key_def)
  let ?r2 = "r\<lparr>us_ExpiresAt := ?e, us_Status := SubscriptionStatusActive, us_UpdatedAt := now\<rparr>"
  have same: "?r2 = ?r1" if "us_Status r = SubscriptionStatusActive"
    using that by (cases r) simp
  have 2: "(if us_Status r \<noteq> SubscriptionStatusActive
      then repo_UpdateStatus now (us_ID r) SubscriptionStatusActive else skip) (putRow ?r1 db)
      = (Inr (), putRow ?r2 db) \<and> holds_row (putRow ?r2 db) ?r2"
  proof (cases "us_Status r = SubscriptionStatusActive")
    case True
    with 1(2) show ?thesis unfolding same [OF True] by (simp add: skip_def)
  next
    case False
    then show ?thesis
      using update_chain [OF 1(2), of "\<lambda>r. r\<lparr>us_Status := SubscriptionStatusActive\<rparr>" now]
      by (simp add: repo_UpdateStatus_def us_key_def)
  qed
  let ?nt = "appendSubscriptionNotes (us_Notes r) (in_Notes inp)"
  let ?r3 = "r\<lparr>us_ExpiresAt := ?e, us_Status := SubscriptionStatusActive, us_Notes := ?nt, us_UpdatedAt := now\<rparr>"
  have same: "?r3 = ?r2" if "in_Notes inp = ''''"
    using that by (cases r) (simp add: appendSubscriptionNotes_def)
  have 3: "(if in_Notes inp \<noteq> '''' then repo_UpdateNotes now (us_ID r) ?nt else skip) (putRow ?r2 db)
      = (Inr (), putRow ?r3 db)"
  proof (cases "in_Notes inp = ''''")
    case True
    then show ?thesis unfolding same [OF True] by (simp add: skip_def)
  next
    case False
    then show ?thesis
      using update_chain [of _ _ "\<lambda>r. r\<lparr>us_Notes := ?nt\<rparr>" now, OF conjunct2 [OF 2]]
      by (simp add: repo_UpdateNotes_def us_key_def)
  qed
  have rr: "renewedRow cal now inp r = ?r3" using False by (simp add: renewedRow_def Let_def)
  have a1: "andThen (repo_ExtendExpiry now (us_ID r) ?e) g db = g (putRow ?r1 db)" for g
    using 1(1) by (simp add: andThen_def)
  have a2: "andThen (if us_Status r \<noteq> SubscriptionStatusActive
      then repo_UpdateStatus now (us_ID r) SubscriptionStatusActive else skip) g (putRow ?r1 db)
      = g (putRow ?r2 db)" for g
    using conjunct1 [OF 2] by (simp only: andThen_def) simp
  show ?thesis
    by (simp only: updateExistingSubscriptionTerm_def inTx_def False if_False a1 a2 3 prod.case sum.case rr)
qed

subsection \<open>Example data\<close>

definition exGroup :: Group where
  "exGroup = \<lparr>g_ID = 5, g_Name = ''pro'', g_SubscriptionType = ''subscription'',
     g_DailyLimitUSD = Some 10, g_WeeklyLimitUSD = None, g_MonthlyLimitUSD = Some 100\<rparr>"

definition exSub :: UserSubscription where
  "exSub = \<lparr>us_ID = 1, us_UserID = 9, us_GroupID = 5, us_StartsAt = 0, us_ExpiresAt = 30 * (24 * hour),
     us_Status = ''active'', us_DailyWindowStart = Some 0, us_WeeklyWindowStart = Some 0,
     us_MonthlyWindowStart = Some 0, us_DailyUsageUSD = 12, us_WeeklyUsageUSD = 12,
     us_MonthlyUsageUSD = 12, us_AssignedBy = None, us_AssignedAt = 0, us_Notes = ''order'',
     us_CreatedAt = 0, us_UpdatedAt = 0, us_DeletedAt = None\<rparr>"

definition exDB :: sub_db where
  "exDB = \<lparr>db_subs = [exSub], db_nextID = 2, db_groups = [5 \<mapsto> exGroup]\<rparr>"

definition exInput :: AssignSubscriptionInput where
  "exInput = \<lparr>in_UserID = 9, in_GroupID = 5, in_ValidityDays = 30, in_AssignedBy = 0, in_Notes = ''code''\<rparr>"

definition longDay :: calendar where
  "longDay = utc\<lparr>start_of_day := (\<lambda>t. if 0 \<le> t \<and> t < 25 * hour then 0 else t - t mod (24 * hour))\<rparr>"

definition emptyDB :: sub_db where
  "emptyDB = exDB\<lparr>db_subs := [], db_nextID := 1\<rparr>"

lemma exDB_wf: "wf_db exDB" "exSub \<in> set (db_subs exDB)" "live exSub"
  by (simp_all add: exDB_def wf_db_def wf_rows_def exSub_def live_def)

lemma exGroup_ok: "checkGroup 5 exDB = Inr ()" "checkGroup 5 emptyDB = Inr ()"
  by (simp_all add: checkGroup_def exDB_def emptyDB_def exGroup_def IsSubscriptionType_def)

subsection \<open>Properties\<close>

text \<open>C2: However the operations of the service are sequenced, the two halves of renewals interleaved
  included, a user never has two live subscriptions for one group and row ids stay unique.\<close>

theorem one_live_subscription:
  assumes "(sub_step cal)\<^sup>*\<^sup>* db0 db" and "db_subs db0 = []"
    and "r \<in> set (db_subs db)" and "r' \<in> set (db_subs db)"
    and "us_ID r = us_ID r' \<or> live r \<and> live r' \<and> us_UserID r = us_UserID r' \<and> us_GroupID r = us_GroupID r'"
  shows "r = r'"
proof -
  have "wf_db db0" using assms(2) by (simp add: wf_db_def wf_rows_def)
  then have wf: "wf_db db" using wf_steps [OF assms(1)] by blast
  show ?thesis
  proof (cases "us_ID r = us_ID r'")
    case True
    then show ?thesis using wf_same_id [OF wf] assms(3,4) by blast
  next
    case False
    have "holds_row db r" "holds_row db r'" using wf assms(3,4) by (simp_all add: holds_row_def)
    moreover from False assms(5) have "live r" "live r'" "us_UserID r' = us_UserID r"
      "us_GroupID r' = us_GroupID r" by auto
    ultimately have "(Inr r :: UserSubscription result) = Inr r'"
      using lookup_user [of db r] lookup_user [of db r'] by (metis (no_types))
    then show ?thesis by (rule sum.inject(2) [THEN iffD1])
  qed
qed

lemma exStep: "(sub_step utc)\<^sup>*\<^sup>* emptyDB (snd (AssignSubscription utc 7 exInput emptyDB))"
  by (intro r_into_rtranclp sub_step.assign)

theorem one_live_subscription_witness:
  "hd (db_subs (snd (AssignSubscription utc 7 exInput emptyDB))) =
   last (db_subs (snd (AssignSubscription utc 7 exInput emptyDB))) \<and>
   map us_ID (db_subs (snd (AssignSubscription utc 7 exInput emptyDB))) = [1]"
proof -
  let ?rs = "db_subs (snd (AssignSubscription utc 7 exInput emptyDB))"
  have ids: "map us_ID ?rs = [1]" by code_simp
  then have ne: "?rs \<noteq> []" and all: "\<forall>x \<in> set ?rs. us_ID x = 1" by force+
  from ne have "hd ?rs \<in> set ?rs" "last ?rs \<in> set ?rs" by simp_all
  with one_live_subscription [OF exStep _ this] all ids show ?thesis by (simp add: emptyDB_def)
qed

text \<open>C39: Renewing an existing subscription grants the paid days: the term is extended by the
  requested number of days (30 if none is given, at most 100 years) from its end, or from now if it
  has ended, is never shortened, lies in the future and is capped at the end of 2099; the
  subscription is active again, a running term keeps its usage and an ended one starts with none;
  no other row changes.\<close>

theorem renewal_grants_days:
  assumes "calendar_laws cal" and "wf_db db" and "r \<in> set (db_subs db)" and "live r"
    and "checkGroup (us_GroupID r) db = Inr ()"
    and "in_UserID inp = us_UserID r" and "in_GroupID inp = us_GroupID r"
    and "us_ExpiresAt r \<le> MaxExpiresAt" and "now < MaxExpiresAt"
  shows "\<exists>r'. AssignOrExtendSubscription cal now inp db = (Inr (r', True), putRow r' db) \<and>
    us_ID r' = us_ID r \<and> us_Status r' = SubscriptionStatusActive \<and>
    us_ExpiresAt r' = min MaxExpiresAt (add_days cal (max now (us_ExpiresAt r))
      (normalizeAssignValidityDays (in_ValidityDays inp))) \<and>
    us_ExpiresAt r \<le> us_ExpiresAt r' \<and> now < us_ExpiresAt r' \<and>
    (if us_ExpiresAt r \<le> now
     then us_StartsAt r' = now \<and> us_DailyUsageUSD r' = 0 \<and> us_WeeklyUsageUSD r' = 0 \<and> us_MonthlyUsageUSD r' = 0
     else us_StartsAt r' = us_StartsAt r \<and> us_DailyUsageUSD r' = us_DailyUsageUSD r \<and>
          us_WeeklyUsageUSD r' = us_WeeklyUsageUSD r \<and> us_MonthlyUsageUSD r' = us_MonthlyUsageUSD r)"
proof -
  let ?r' = "renewedRow cal now inp r"
  let ?n = "normalizeAssignValidityDays (in_ValidityDays inp)"
  have holds: "holds_row db r" using assms by (simp add: holds_row_def)
  have frame: "us_ID ?r' = us_ID r" "us_key ?r' = us_key r" "us_DeletedAt ?r' = us_DeletedAt r"
    by (simp_all add: renewedRow_def Let_def renewedSubscriptionTerm_def us_key_def)
  have "holds_row (putRow ?r' db) ?r'"
    using frame by (intro holds_putRow [OF holds]) (simp_all add: live_def)
  with frame assms(4) have "repo_GetByID (us_ID r) (putRow ?r' db) = Inr ?r'"
    using lookup_ID [of "putRow ?r' db" ?r'] by (simp add: live_def)
  moreover have "termRead inp db = Some r"
    using lookup_user [OF holds assms(4)] assms(6,7) by (simp add: termRead_def)
  ultimately have "AssignOrExtendSubscription cal now inp db = (Inr (?r', True), putRow ?r' db)"
    using assms(5,7) by (simp add: AssignOrExtendSubscription_def termWrite_def updateTerm_at [OF holds])
  moreover have pos: "0 < ?n" by (simp add: normalizeAssignValidityDays_def MaxValidityDays_def Let_def)
  moreover have e: "us_ExpiresAt ?r' = min MaxExpiresAt (add_days cal (max now (us_ExpiresAt r)) ?n)"
    by (auto simp: renewedRow_def Let_def renewedSubscriptionTerm_def newTermExpiry_def capExpiry_min max_def)
  moreover have "max now (us_ExpiresAt r) < add_days cal (max now (us_ExpiresAt r)) ?n"
    by (rule calendar_laws.add_days_later [OF assms(1) pos])
  with e assms(8,9) have "us_ExpiresAt r \<le> us_ExpiresAt ?r'" "now < us_ExpiresAt ?r'" by auto
  ultimately show ?thesis
    using frame by (intro exI [of _ ?r']) (simp add: renewedRow_def Let_def renewedSubscriptionTerm_def)
qed

theorem renewal_grants_days_witness:
  "\<exists>r'. AssignOrExtendSubscription utc 7 exInput exDB = (Inr (r', True), putRow r' exDB) \<and>
     us_ExpiresAt r' = 60 * (24 * hour) \<and> us_DailyUsageUSD r' = 12"
proof -
  have "normalizeAssignValidityDays (in_ValidityDays exInput) = 30" by code_simp
  then show ?thesis
    using renewal_grants_days [OF utc.calendar_laws_axioms exDB_wf, of exInput 7] exGroup_ok(1)
    by (auto simp: exSub_def exInput_def utc_def MaxExpiresAt_def hour_def)
qed

text \<open>Two renewals of one subscription that overlap lose one of the two terms: both read the same
  end of the term before either writes, so the second write repeats the first and the user gets 30
  days for two 30-day codes, although each call reports success.\<close>

theorem overlapping_renewals_lose_days:
  "let seen = termRead exInput exDB;
       (res1, db1) = termWrite utc 7 exInput seen exDB;
       (res2, db2) = termWrite utc 8 exInput seen db1;
       (_, serial1) = AssignOrExtendSubscription utc 7 exInput exDB;
       (_, serial2) = AssignOrExtendSubscription utc 8 exInput serial1
   in \<not> isl res1 \<and> \<not> isl res2 \<and>
      map us_ExpiresAt (db_subs db2) = [60 * (24 * hour)] \<and>
      map us_ExpiresAt (db_subs serial2) = [90 * (24 * hour)]"
  by code_simp

lemma create_assigns:
  assumes "wf_db db" and "checkGroup (in_GroupID inp) db = Inr ()"
    and "\<not> repo_ExistsByUserIDAndGroupID (in_UserID inp) (in_GroupID inp) db" and "now \<noteq> zero_time"
  shows "\<exists>r db1. assignSubscriptionWithReuse cal now inp db = (Inr (r, False), db1) \<and> holds_row db1 r \<and>
    live r \<and> us_UserID r = in_UserID inp \<and> us_GroupID r = in_GroupID inp \<and> us_StartsAt r = now \<and>
    us_Notes r = in_Notes inp \<and> db_groups db1 = db_groups db \<and>
    us_ExpiresAt r = capExpiry (add_days cal now (normalizeAssignValidityDays (in_ValidityDays inp)))"
proof -
  let ?row = "(newSubscription cal now inp)\<lparr>us_ID := db_nextID db\<rparr>"
  let ?db1 = "db\<lparr>db_subs := db_subs db @ [?row], db_nextID := db_nextID db + 1\<rparr>"
  have row: "live ?row" "us_UserID ?row = in_UserID inp" "us_GroupID ?row = in_GroupID inp"
    "us_StartsAt ?row = now" "us_Notes ?row = in_Notes inp"
    "us_ExpiresAt ?row = capExpiry (add_days cal now (normalizeAssignValidityDays (in_ValidityDays inp)))"
    by (simp_all add: newSubscription_def live_def)
  have create: "repo_Create now (newSubscription cal now inp) db = (Inr ?row, ?db1)"
    using assms(3,4) by (simp add: repo_Create_def newSubscription_def IsZero_def status_defs Let_def)
  then have "wf_db ?db1" using wf_repo_Create [OF assms(1), of now "newSubscription cal now inp"] by simp
  then have holds: "holds_row ?db1 ?row" by (simp add: holds_row_def)
  from lookup_ID [OF this row(1)] create have "createSubscription cal now inp db = (Inr ?row, ?db1)"
    by (simp add: createSubscription_def)
  with assms(2,3) have "assignSubscriptionWithReuse cal now inp db = (Inr (?row, False), ?db1)"
    by (simp add: assignSubscriptionWithReuse_def)
  with holds row show ?thesis by (intro exI [of _ ?row] exI [of _ ?db1]) simp
qed

text \<open>Assigning is idempotent: repeating a request that created a subscription, at any later time,
  returns the same subscription and changes nothing, and a request for a number of days that ends at
  another time is refused and changes nothing.\<close>

theorem assign_idempotent:
  assumes "wf_db db" and "checkGroup (in_GroupID inp) db = Inr ()"
    and "\<not> repo_ExistsByUserIDAndGroupID (in_UserID inp) (in_GroupID inp) db" and "now \<noteq> zero_time"
  shows "\<exists>r db1. assignSubscriptionWithReuse cal now inp db = (Inr (r, False), db1) \<and>
    assignSubscriptionWithReuse cal later inp db1 = (Inr (r, True), db1) \<and>
    (\<forall>days. capExpiry (add_days cal now (normalizeAssignValidityDays days)) \<noteq> us_ExpiresAt r \<longrightarrow>
       assignSubscriptionWithReuse cal later (inp\<lparr>in_ValidityDays := days\<rparr>) db1
         = (Inl (SubscriptionAssignConflict ''validity_days_mismatch''), db1))"
proof -
  obtain r db1 where r: "assignSubscriptionWithReuse cal now inp db = (Inr (r, False), db1)"
    "holds_row db1 r" "live r" "us_UserID r = in_UserID inp" "us_GroupID r = in_GroupID inp"
    "us_StartsAt r = now" "us_Notes r = in_Notes inp" "db_groups db1 = db_groups db"
    "us_ExpiresAt r = capExpiry (add_days cal now (normalizeAssignValidityDays (in_ValidityDays inp)))"
    using create_assigns [OF assms] by blast
  have ex: "repo_ExistsByUserIDAndGroupID (in_UserID inp) (in_GroupID inp) db1"
    using r(2-5) by (auto simp: repo_ExistsByUserIDAndGroupID_def list_ex_iff holds_row_def)
  have get: "repo_GetByUserIDAndGroupID (in_UserID inp) (in_GroupID inp) db1 = Inr r"
    using lookup_user [OF r(2,3)] r(4,5) by simp
  have grp: "checkGroup (in_GroupID inp) db1 = Inr ()"
    using assms(2) r(8) by (simp add: checkGroup_def)
  show ?thesis
    using r(1,6,7,9) ex get grp assms(4)
    by (intro exI [of _ r] exI [of _ db1])
      (simp add: assignSubscriptionWithReuse_def detectAssignSemanticConflict_def IsZero_def)
qed

theorem assign_idempotent_witness:
  "\<exists>r db1. assignSubscriptionWithReuse utc 7 exInput emptyDB = (Inr (r, False), db1) \<and>
     assignSubscriptionWithReuse utc 8 exInput db1 = (Inr (r, True), db1)"
proof -
  have wf: "wf_db emptyDB" by (simp add: emptyDB_def wf_db_def wf_rows_def)
  have free: "\<not> repo_ExistsByUserIDAndGroupID (in_UserID exInput) (in_GroupID exInput) emptyDB"
    by (simp add: emptyDB_def repo_ExistsByUserIDAndGroupID_def)
  have "in_GroupID exInput = 5" by (simp add: exInput_def)
  with assign_idempotent [OF wf _ free, of 7 utc 8] exGroup_ok(2) show ?thesis
    by (auto simp: zero_time_def)
qed

lemma putRow_same: "holds_row db r \<Longrightarrow> putRow r db = db"
proof -
  assume h: "holds_row db r"
  have "(if us_ID x = us_ID r then r else x) = x" if "x \<in> set (db_subs db)" for x
    using wf_same_id [of db x r] h that by (auto simp: holds_row_def)
  then have "map (\<lambda>x. if us_ID x = us_ID r then r else x) (db_subs db) = db_subs db"
    by (intro map_idI) simp
  then show ?thesis by (simp add: putRow_def)
qed

lemma stage_at:
  assumes "holds_row db q" and "us_ID q = i" and "us_ID (f q) = us_ID q" and "us_key (f q) = us_key q"
    and "us_DeletedAt (f q) = us_DeletedAt q"
  shows "resetStage b (updateRow now i f) g s db
      = (Inr (), (if b then g s else s), putRow (if b then (f q)\<lparr>us_UpdatedAt := now\<rparr> else q) db)"
    and "holds_row (putRow (if b then (f q)\<lparr>us_UpdatedAt := now\<rparr> else q) db)
      (if b then (f q)\<lparr>us_UpdatedAt := now\<rparr> else q)"
  using assms update_chain [where f = f and r = q and db = db and now = now, OF assms(1,3,4,5)] putRow_same [OF assms(1)]
  by (simp_all add: resetStage_def)

text \<open>The row after window maintenance at a time.\<close>

definition maintainedRow :: "calendar \<Rightarrow> int \<Rightarrow> UserSubscription \<Rightarrow> UserSubscription" where
  "maintainedRow cal now r0 =
     (let w = Some (start_of_day cal now);
          r1 = (if NeedsDailyResetAt cal now r0
                then r0\<lparr>us_DailyUsageUSD := 0, us_DailyWindowStart := w, us_UpdatedAt := now\<rparr> else r0);
          r2 = (if NeedsWeeklyReset now r0
                then r1\<lparr>us_WeeklyUsageUSD := 0, us_WeeklyWindowStart := w, us_UpdatedAt := now\<rparr> else r1)
      in (if NeedsMonthlyReset now r0
          then r2\<lparr>us_MonthlyUsageUSD := 0, us_MonthlyWindowStart := w, us_UpdatedAt := now\<rparr> else r2))"

lemma ResetWindows_at:
  assumes "holds_row db r"
  shows "snd (snd (CheckAndResetWindows cal now r db)) = putRow (maintainedRow cal now r) db"
proof -
  let ?w = "start_of_day cal now"
  let ?d = "NeedsDailyResetAt cal now r" and ?k = "NeedsWeeklyReset now r" and ?m = "NeedsMonthlyReset now r"
  let ?f1 = "\<lambda>r. r\<lparr>us_DailyUsageUSD := 0, us_DailyWindowStart := Some ?w\<rparr>"
  let ?f2 = "\<lambda>r. r\<lparr>us_WeeklyUsageUSD := 0, us_WeeklyWindowStart := Some ?w\<rparr>"
  let ?f3 = "\<lambda>r. r\<lparr>us_MonthlyUsageUSD := 0, us_MonthlyWindowStart := Some ?w\<rparr>"
  let ?q1 = "if ?d then (?f1 r)\<lparr>us_UpdatedAt := now\<rparr> else r"
  let ?q2 = "if ?k then (?f2 ?q1)\<lparr>us_UpdatedAt := now\<rparr> else ?q1"
  let ?q3 = "if ?m then (?f3 ?q2)\<lparr>us_UpdatedAt := now\<rparr> else ?q2"
  let ?g1 = "\<lambda>s. s\<lparr>us_DailyWindowStart := Some ?w, us_DailyUsageUSD := 0\<rparr>"
  let ?g2 = "\<lambda>s. s\<lparr>us_WeeklyWindowStart := Some ?w, us_WeeklyUsageUSD := 0\<rparr>"
  let ?s1 = "if ?d then ?g1 r else r"
  let ?s2 = "if ?k then ?g2 ?s1 else ?s1"
  have id: "us_ID ?q1 = us_ID r" "us_ID ?q2 = us_ID r" "us_ID ?q3 = us_ID r"
    "us_ID ?s1 = us_ID r" "us_ID ?s2 = us_ID r" by simp_all
  have need: "NeedsWeeklyReset now ?s1 = ?k" "NeedsMonthlyReset now ?s2 = ?m"
    by (simp_all add: NeedsWeeklyReset_def NeedsMonthlyReset_def)
  note 1 = stage_at [where f = ?f1 and b = ?d and now = now, OF assms refl]
  have h1: "holds_row (putRow ?q1 db) ?q1" using 1(2) by (simp add: us_key_def)
  note 2 = stage_at [where f = ?f2 and b = ?k and now = now, OF h1 id(1)]
  have p2: "putRow ?q2 (putRow ?q1 db) = putRow ?q2 db" using id by (intro putRow_putRow) simp
  have h2: "holds_row (putRow ?q2 db) ?q2"
    using 2(2) unfolding p2 [symmetric] by (simp add: us_key_def)
  note 3 = stage_at [where f = ?f3 and b = ?m and now = now, OF h2 id(2)]
  have p3: "putRow ?q3 (putRow ?q2 db) = putRow ?q3 db" using id by (intro putRow_putRow) simp
  have e1: "resetStage ?d (repo_ResetDailyUsage now (us_ID r) ?w) ?g1 r db = (Inr (), ?s1, putRow ?q1 db)"
    unfolding repo_ResetDailyUsage_def by (rule 1(1)) (simp_all add: us_key_def)
  have e2: "resetStage ?k (repo_ResetWeeklyUsage now (us_ID r) ?w) ?g2 ?s1 (putRow ?q1 db) = (Inr (), ?s2, putRow ?q2 db)"
    unfolding repo_ResetWeeklyUsage_def p2 [symmetric] by (rule 2(1)) (simp_all add: us_key_def)
  have e3: "snd (snd (resetStage ?m (repo_ResetMonthlyUsage now (us_ID r) ?w)
      (\<lambda>s. s\<lparr>us_MonthlyWindowStart := Some ?w, us_MonthlyUsageUSD := 0\<rparr>) ?s2 (putRow ?q2 db))) = putRow ?q3 db"
    unfolding repo_ResetMonthlyUsage_def p3 [symmetric] by (subst 3(1)) (simp_all add: us_key_def)
  have "maintainedRow cal now r = ?q3" by (simp add: maintainedRow_def Let_def)
  then show ?thesis
    by (simp only: CheckAndResetWindows_def Let_def e1 prod.case sum.case id need e2 e3)
qed

lemma maintainedRow_fresh:
  assumes "now < start_of_day cal now + 24 * hour"
  shows "\<not> NeedsDailyResetAt cal now (maintainedRow cal now r)"
    "\<not> NeedsWeeklyReset now (maintainedRow cal now r)"
    "\<not> NeedsMonthlyReset now (maintainedRow cal now r)"
proof -
  have "HasOneTimeDailyQuota cal (maintainedRow cal now r) = HasOneTimeDailyQuota cal r"
    by (simp add: maintainedRow_def Let_def HasOneTimeDailyQuota_def)
  then show "\<not> NeedsDailyResetAt cal now (maintainedRow cal now r)"
    using assms by (auto simp: NeedsDailyResetAt_def maintainedRow_def Let_def split: option.splits)
  show "\<not> NeedsWeeklyReset now (maintainedRow cal now r)"
    "\<not> NeedsMonthlyReset now (maintainedRow cal now r)"
    using assms by (auto simp: NeedsWeeklyReset_def NeedsMonthlyReset_def maintainedRow_def Let_def hour_def
        split: option.splits)
qed

text \<open>Window maintenance resets exactly the windows that have elapsed: their usage becomes zero, the
  usage of every other window is kept, nothing else of the subscription changes, and on a day of at
  most 24 hours no window needs another reset at that time.\<close>

theorem maintenance_resets_elapsed_windows:
  assumes "holds_row db r" and "IsWindowActivated r" and "now < start_of_day cal now + 24 * hour"
  shows "\<exists>r'. doWindowMaintenance cal now r db = putRow r' db \<and>
    us_DailyUsageUSD r' = (if NeedsDailyResetAt cal now r then 0 else us_DailyUsageUSD r) \<and>
    us_WeeklyUsageUSD r' = (if NeedsWeeklyReset now r then 0 else us_WeeklyUsageUSD r) \<and>
    us_MonthlyUsageUSD r' = (if NeedsMonthlyReset now r then 0 else us_MonthlyUsageUSD r) \<and>
    us_ID r' = us_ID r \<and> us_ExpiresAt r' = us_ExpiresAt r \<and> us_Status r' = us_Status r \<and>
    \<not> NeedsDailyResetAt cal now r' \<and> \<not> NeedsWeeklyReset now r' \<and> \<not> NeedsMonthlyReset now r'"
proof -
  have "doWindowMaintenance cal now r db = putRow (maintainedRow cal now r) db"
    using assms(1,2) by (simp add: doWindowMaintenance_def ResetWindows_at)
  then show ?thesis
    using maintainedRow_fresh [OF assms(3), of r]
    by (intro exI [of _ "maintainedRow cal now r"]) (simp add: maintainedRow_def Let_def)
qed

theorem maintenance_resets_elapsed_windows_witness:
  "\<exists>r'. doWindowMaintenance utc (25 * hour) exSub exDB = putRow r' exDB \<and>
     us_DailyUsageUSD r' = 0 \<and> us_WeeklyUsageUSD r' = 12"
proof -
  have "holds_row exDB exSub" using exDB_wf by (simp add: holds_row_def)
  moreover have "IsWindowActivated exSub" by (simp add: exSub_def IsWindowActivated_def)
  moreover have "25 * hour < start_of_day utc (25 * hour) + 24 * hour" by code_simp
  moreover have "NeedsDailyResetAt utc (25 * hour) exSub" "\<not> NeedsWeeklyReset (25 * hour) exSub" by code_simp+
  ultimately show ?thesis
    using maintenance_resets_elapsed_windows [of exDB exSub "25 * hour" utc]
    by (auto simp: exSub_def)
qed

text \<open>On a day of 25 hours, when clocks are set back, the daily limit is not enforced in the last
  hour: maintenance sets the window to the day's midnight, which is already 24 hours old, so the
  window counts as elapsed again and the usage just recorded is ignored by the next request.\<close>

theorem long_day_ignores_daily_limit:
  "let now = 24 * hour + 60 * 1000000000;
       db1 = doWindowMaintenance longDay now exSub exDB;
       db2 = snd (RecordUsage now 1 50 db1)
   in map us_DailyUsageUSD (db_subs db2) = [50] \<and> g_DailyLimitUSD exGroup = Some 10 \<and>
      map (\<lambda>s. fst (snd (ValidateAndCheckLimits longDay now s exGroup))) (db_subs db2) = [Inr ()]"
  by code_simp

text \<open>The clamped number of days, the new end and the row after a successful adjustment.\<close>

definition adjustDays :: "int \<Rightarrow> int" where
  "adjustDays days = max (- MaxValidityDays) (min MaxValidityDays days)"

definition adjustedEnd :: "calendar \<Rightarrow> int \<Rightarrow> int \<Rightarrow> UserSubscription \<Rightarrow> int" where
  "adjustedEnd cal now days r = min MaxExpiresAt (add_days cal (max now (us_ExpiresAt r)) (adjustDays days))"

definition adjustedRow :: "calendar \<Rightarrow> int \<Rightarrow> int \<Rightarrow> UserSubscription \<Rightarrow> UserSubscription" where
  "adjustedRow cal now days r = r\<lparr>us_ExpiresAt := adjustedEnd cal now days r,
     us_Status := (if us_Status r = SubscriptionStatusExpired then SubscriptionStatusActive else us_Status r),
     us_UpdatedAt := now\<rparr>"

lemma adjust_writes:
  assumes "holds_row db r" and "live r" and "e = adjustedEnd cal now days r"
  shows "andThen (repo_ExtendExpiry now (us_ID r) e)
      (andThen (if us_Status r = SubscriptionStatusExpired
                then repo_UpdateStatus now (us_ID r) SubscriptionStatusActive else skip)
        (\<lambda>db1. (repo_GetByID (us_ID r) db1, db1))) db =
    (Inr (adjustedRow cal now days r), putRow (adjustedRow cal now days r) db)"
proof -
  let ?r1 = "r\<lparr>us_ExpiresAt := e, us_UpdatedAt := now\<rparr>"
  let ?r2 = "adjustedRow cal now days r"
  have 1: "repo_ExtendExpiry now (us_ID r) e db = (Inr (), putRow ?r1 db)" "holds_row (putRow ?r1 db) ?r1"
    using update_chain [OF assms(1), of "\<lambda>r. r\<lparr>us_ExpiresAt := e\<rparr>" now]
    by (simp_all add: repo_ExtendExpiry_def us_key_def)
  have 2: "(if us_Status r = SubscriptionStatusExpired then repo_UpdateStatus now (us_ID r) SubscriptionStatusActive
      else skip) (putRow ?r1 db) = (Inr (), putRow ?r2 db) \<and> holds_row (putRow ?r2 db) ?r2"
  proof (cases "us_Status r = SubscriptionStatusExpired")
    case True
    then show ?thesis
      using update_chain [OF 1(2), of "\<lambda>r. r\<lparr>us_Status := SubscriptionStatusActive\<rparr>" now] assms(3)
      by (simp add: repo_UpdateStatus_def us_key_def adjustedRow_def)
  next
    case False
    then have "?r2 = ?r1" using assms(3) by (cases r) (simp add: adjustedRow_def)
    with 1(2) False show ?thesis by (simp add: skip_def)
  qed
  have "repo_GetByID (us_ID r) (putRow ?r2 db) = Inr ?r2"
    using lookup_ID [OF conjunct2 [OF 2]] assms(2) by (simp add: live_def adjustedRow_def)
  with 1(1) 2 show ?thesis by (simp only: andThen_def prod.case sum.case)
qed

lemma ExtendSubscription_at:
  assumes "holds_row db r" and "live r"
  shows "ExtendSubscription cal now (us_ID r) days db =
    (if us_ExpiresAt r \<le> now \<and> adjustDays days < 0 then (Inl CannotShortenExpired, db)
     else if adjustedEnd cal now days r \<le> now then (Inl AdjustWouldExpire, db)
     else (Inr (adjustedRow cal now days r), putRow (adjustedRow cal now days r) db))"
proof -
  have d: "(if (if days > MaxValidityDays then MaxValidityDays else days) < - MaxValidityDays
      then - MaxValidityDays else (if days > MaxValidityDays then MaxValidityDays else days)) = adjustDays days"
    by (simp add: adjustDays_def MaxValidityDays_def min_def max_def)
  have e: "capExpiry (add_days cal (if us_ExpiresAt r \<le> now then now else us_ExpiresAt r) (adjustDays days)) =
      adjustedEnd cal now days r"
    by (simp add: adjustedEnd_def capExpiry_min max_def)
  show ?thesis
    by (simp only: ExtendSubscription_def lookup_ID [OF assms] sum.case Let_def d e
        adjust_writes [OF assms refl])
qed

text \<open>Adjusting a term by days either succeeds, and then the term ends in the future, at most at the
  end of 2099, by the requested days (clamped to 100 years) after its old end or after now if it had
  ended, or it fails and changes nothing; no other row changes.\<close>

theorem extend_or_unchanged:
  assumes "wf_db db" and "ExtendSubscription cal now i days db = (res, db')"
  shows "isl res \<and> db' = db \<or>
    (\<exists>r r'. r \<in> set (db_subs db) \<and> us_ID r = i \<and> res = Inr r' \<and> db' = putRow r' db \<and> us_ID r' = i \<and>
       us_ExpiresAt r' = min MaxExpiresAt (add_days cal (max now (us_ExpiresAt r))
         (max (- MaxValidityDays) (min MaxValidityDays days))) \<and>
       now < us_ExpiresAt r' \<and> us_ExpiresAt r' \<le> MaxExpiresAt \<and>
       (us_ExpiresAt r \<le> now \<longrightarrow> 0 \<le> days) \<and>
       us_Status r' = (if us_Status r = SubscriptionStatusExpired then SubscriptionStatusActive else us_Status r))"
proof (cases "repo_GetByID i db")
  case (Inl e)
  with assms show ?thesis by (auto simp: ExtendSubscription_def)
next
  case (Inr r)
  then have r: "r \<in> set (db_subs db)" "live r" "us_ID r = i" using GetByID_member by auto
  then have h: "holds_row db r" using assms(1) by (simp add: holds_row_def)
  have sign: "adjustDays days < 0 \<longleftrightarrow> days < 0" by (auto simp: adjustDays_def MaxValidityDays_def)
  show ?thesis
  proof (cases "isl res")
    case True
    with ExtendSubscription_at [OF h r(2), of cal now days] r(3) assms(2) show ?thesis
      by (auto split: if_splits)
  next
    case False
    with ExtendSubscription_at [OF h r(2), of cal now days] r(3) assms(2) sign
    have "res = Inr (adjustedRow cal now days r)" "db' = putRow (adjustedRow cal now days r) db"
      "now < adjustedEnd cal now days r" "us_ExpiresAt r \<le> now \<longrightarrow> 0 \<le> days"
      by (auto split: if_splits)
    with r(1,3) show ?thesis
      by (intro disjI2 exI [of _ r] exI [of _ "adjustedRow cal now days r"])
        (simp add: adjustedRow_def adjustedEnd_def adjustDays_def)
  qed
qed

theorem extend_or_unchanged_witness:
  "isl (fst (ExtendSubscription utc 7 1 (- 40) exDB)) \<and> snd (ExtendSubscription utc 7 1 (- 40) exDB) = exDB"
proof -
  obtain res db' where e: "ExtendSubscription utc 7 1 (- 40) exDB = (res, db')"
    by (cases "ExtendSubscription utc 7 1 (- 40) exDB")
  have "isl (fst (ExtendSubscription utc 7 1 (- 40) exDB))" by code_simp
  with extend_or_unchanged [OF exDB_wf(1) e] e show ?thesis by auto
qed

text \<open>The row after a revocation, and after its restoration.\<close>

definition revokedRow :: "int \<Rightarrow> UserSubscription \<Rightarrow> UserSubscription" where
  "revokedRow now r = r\<lparr>us_UpdatedAt := now, us_DeletedAt := Some now\<rparr>"

definition restoredRow :: "int \<Rightarrow> UserSubscription \<Rightarrow> UserSubscription" where
  "restoredRow later r = r\<lparr>us_Status := (if us_Status r = SubscriptionStatusActive \<and> us_ExpiresAt r \<le> later
     then SubscriptionStatusExpired else us_Status r), us_UpdatedAt := later\<rparr>"

lemma RevokeSubscription_at:
  assumes "holds_row db r" and "live r"
  shows "RevokeSubscription now (us_ID r) db = (Inr (), putRow (revokedRow now r) db)"
    and "holds_row (putRow (revokedRow now r) db) (revokedRow now r)"
    and "repo_GetByID (us_ID r) (putRow (revokedRow now r) db) = Inl SubscriptionNotFound"
proof -
  have wf: "wf_db db" "r \<in> set (db_subs db)" using assms(1) by (simp_all add: holds_row_def)
  have "(if us_ID x = us_ID r \<and> live x then x\<lparr>us_DeletedAt := Some now, us_UpdatedAt := now\<rparr> else x)
      = (if us_ID x = us_ID r then revokedRow now r else x)" if "x \<in> set (db_subs db)" for x
    using wf_same_id [OF wf(1) that wf(2)] assms(2) by (auto simp: revokedRow_def)
  then have "map (\<lambda>x. if us_ID x = us_ID r \<and> live x then x\<lparr>us_DeletedAt := Some now, us_UpdatedAt := now\<rparr> else x)
      (db_subs db) = map (\<lambda>x. if us_ID x = us_ID r then revokedRow now r else x) (db_subs db)"
    by (intro map_cong) simp_all
  then have "repo_Delete now (us_ID r) db = (Inr (), putRow (revokedRow now r) db)"
    by (simp add: repo_Delete_def putRow_def revokedRow_def)
  then show "RevokeSubscription now (us_ID r) db = (Inr (), putRow (revokedRow now r) db)"
    by (simp add: RevokeSubscription_def lookup_ID [OF assms])
  show "holds_row (putRow (revokedRow now r) db) (revokedRow now r)"
    by (rule holds_putRow [OF assms(1)]) (simp_all add: us_key_def live_def revokedRow_def)
  have "filter (\<lambda>x. live x \<and> us_ID x = us_ID r) (db_subs (putRow (revokedRow now r) db)) = []"
    by (auto simp: putRow_def live_def filter_empty_conv revokedRow_def)
  then show "repo_GetByID (us_ID r) (putRow (revokedRow now r) db) = Inl SubscriptionNotFound"
    by (simp add: repo_GetByID_def found_def)
qed

lemma revoked_key_free:
  assumes "holds_row db r" and "live r"
  shows "\<not> list_ex (\<lambda>x. live x \<and> us_UserID x = us_UserID r \<and> us_GroupID x = us_GroupID r)
    (db_subs (putRow (revokedRow now r) db))"
proof -
  have False if "x \<in> set (db_subs db)" "live x" "us_key x = us_key r" "us_ID x \<noteq> us_ID r" for x
    using that lookup_user [OF assms] lookup_user [of db x] assms(1)
    by (auto simp: holds_row_def us_key_def)
  then show ?thesis by (auto simp: putRow_def list_ex_iff live_def us_key_def revokedRow_def)
qed

lemma RestoreSubscription_at:
  assumes "holds_row db r" and "live r"
  shows "RestoreSubscription later (us_ID r) (putRow (revokedRow now r) db) =
    (Inr (restoredRow later r), putRow (restoredRow later r) db)"
proof -
  let ?r1 = "revokedRow now r" and ?r2 = "restoredRow later r"
  let ?st = "if us_Status r = SubscriptionStatusActive \<and> us_ExpiresAt r \<le> later
    then SubscriptionStatusExpired else us_Status r"
  note h1 = RevokeSubscription_at(2) [OF assms, of now]
  have keys: "us_ID ?r1 = us_ID r" "us_UserID ?r1 = us_UserID r" "us_GroupID ?r1 = us_GroupID r"
    "us_Status ?r1 = us_Status r" "us_ExpiresAt ?r1 = us_ExpiresAt r" "us_DeletedAt ?r1 = Some now"
    by (simp_all add: revokedRow_def)
  note free = revoked_key_free [OF assms, of now]
  then have free': "\<not> list_ex (\<lambda>x. us_ID x \<noteq> us_ID r \<and> live x \<and> us_UserID x = us_UserID r \<and> us_GroupID x = us_GroupID r)
      (db_subs (putRow ?r1 db))"
    by (auto simp: list_ex_iff)
  have "(?r1\<lparr>us_Status := ?st, us_DeletedAt := None\<rparr>)\<lparr>us_UpdatedAt := later\<rparr> = ?r2"
    using assms(2) by (cases r) (simp add: live_def revokedRow_def restoredRow_def)
  then have up: "updateRow later (us_ID r) (\<lambda>r. r\<lparr>us_Status := ?st, us_DeletedAt := None\<rparr>) (putRow ?r1 db)
      = (Inr (), putRow ?r2 db)"
    using updateRow_at [OF h1, of "us_ID r" "\<lambda>r. r\<lparr>us_Status := ?st, us_DeletedAt := None\<rparr>" later]
    by (simp add: keys restoredRow_def)
  have "holds_row (putRow ?r2 db) ?r2"
    using assms(2) by (intro holds_putRow [OF assms(1)]) (simp_all add: us_key_def live_def restoredRow_def)
  then have get: "repo_GetByID (us_ID r) (putRow ?r2 db) = Inr ?r2"
    using lookup_ID [of "putRow ?r2 db" ?r2] assms(2) by (simp add: live_def restoredRow_def)
  have "repo_Restore later (us_ID r) ?st (putRow ?r1 db) = (Inr ?r2, putRow ?r2 db)"
    using lookup_deleted_ID(1) [OF h1] free' get up by (simp add: repo_Restore_def keys)
  then show ?thesis
    using lookup_deleted_ID(2) [OF h1] free
    by (simp add: RestoreSubscription_def repo_ExistsActiveByUserIDAndGroupID_def keys
        repo_ExistsByUserIDAndGroupID_def cong: if_cong split del: if_split)
qed

text \<open>Revoking a live subscription and restoring it later gives back the same subscription, marked
  expired if its term ended in between; in between it is not found.\<close>

theorem revoke_restore_roundtrip:
  assumes "wf_db db" and "r \<in> set (db_subs db)" and "live r"
  shows "\<exists>db1. RevokeSubscription now (us_ID r) db = (Inr (), db1) \<and>
    repo_GetByID (us_ID r) db1 = Inl SubscriptionNotFound \<and>
    (\<exists>r' db2. RestoreSubscription later (us_ID r) db1 = (Inr r', db2) \<and>
       r' = r\<lparr>us_Status := (if us_Status r = SubscriptionStatusActive \<and> us_ExpiresAt r \<le> later
                            then SubscriptionStatusExpired else us_Status r), us_UpdatedAt := later\<rparr> \<and>
       db2 = putRow r' db)"
proof -
  have h: "holds_row db r" using assms by (simp add: holds_row_def)
  show ?thesis
    by (intro exI [of _ "putRow (revokedRow now r) db"] exI [of _ "restoredRow later r"])
      (simp add: RevokeSubscription_at [OF h assms(3)] RestoreSubscription_at [OF h assms(3)],
       simp add: restoredRow_def)
qed

theorem revoke_restore_roundtrip_witness:
  "\<exists>db1 r' db2. RevokeSubscription 7 1 exDB = (Inr (), db1) \<and> RestoreSubscription 8 1 db1 = (Inr r', db2) \<and>
     us_Status r' = ''active'' \<and> us_ExpiresAt r' = us_ExpiresAt exSub"
proof -
  have "us_ID exSub = 1" "us_Status exSub = ''active''" "\<not> us_ExpiresAt exSub \<le> 8"
    by (simp_all add: exSub_def hour_def)
  with revoke_restore_roundtrip [OF exDB_wf, of 7 8] show ?thesis by auto
qed

end
