(* ===== verification/Failover.thy ===== *)
theory Failover
  imports Prelude
begin

section \<open>Account failover\<close>

text \<open>
  Models \<open>handler/failover_loop.go\<close> and the account loop of \<open>handler/gateway_handler.go\<close> around it:
  a request is forwarded to one upstream account after another until one succeeds, the switch
  budget is used up, nothing can be selected, or the client's context is cancelled.

  What the loop cannot decide itself is its input: which account the scheduler selects (or that it
  finds none), whether a concurrency slot is granted, how the forward attempt ends, and whether
  the context is cancelled while the loop sleeps.
\<close>

subsection \<open>State (failover_loop.go)\<close>

record UpstreamFailoverError =
  StatusCode :: int
  ResponseBody :: string
  ForceCacheBillingErr :: bool
  RetryableOnSameAccount :: bool

datatype FailoverAction = FailoverContinue | FailoverExhausted | FailoverCanceled

definition maxSameAccountRetries :: int where "maxSameAccountRetries = 3"
definition millisecond :: int where "millisecond = 1000000"
definition second :: int where "second = 1000 * millisecond"
definition sameAccountRetryDelay :: int where "sameAccountRetryDelay = 500 * millisecond"
definition singleAccountBackoffDelay :: int where "singleAccountBackoffDelay = 2 * second"
definition StatusServiceUnavailable :: int where "StatusServiceUnavailable = 503"
definition PlatformAntigravity :: string where "PlatformAntigravity = ''antigravity''"

record FailoverState =
  SwitchCount :: int
  MaxSwitches :: int
  FailedAccountIDs :: "int set"
  SameAccountRetryCount :: "int \<rightharpoonup> int"
  LastFailoverErr :: "UpstreamFailoverError option"
  ForceCacheBilling :: bool
  hasBoundSession :: bool

definition NewFailoverState :: "int \<Rightarrow> bool \<Rightarrow> FailoverState" where
  "NewFailoverState maxSwitches bound =
     \<lparr>SwitchCount = 0, MaxSwitches = maxSwitches, FailedAccountIDs = {},
      SameAccountRetryCount = Map.empty, LastFailoverErr = None, ForceCacheBilling = False,
      hasBoundSession = bound\<rparr>"

text \<open>A lookup in a Go map of counters: an absent key reads as zero.\<close>

definition retryCount :: "FailoverState \<Rightarrow> int \<Rightarrow> int" where
  "retryCount s a = (case SameAccountRetryCount s a of None \<Rightarrow> 0 | Some n \<Rightarrow> n)"

definition needForceCacheBilling :: "bool \<Rightarrow> UpstreamFailoverError option \<Rightarrow> bool" where
  "needForceCacheBilling bound err =
     (bound \<or> (case err of None \<Rightarrow> False | Some e \<Rightarrow> ForceCacheBillingErr e))"

text \<open>\<open>cancelled\<close>: the context is done before the timer fires.\<close>

definition sleepWithContext :: "bool \<Rightarrow> int \<Rightarrow> bool" where
  "sleepWithContext cancelled d = (d \<le> 0 \<or> \<not> cancelled)"

text \<open>
  The result of \<open>HandleFailoverError\<close>: the action, whether the gateway was told to take the
  account out of scheduling for a while (\<open>TempUnscheduleRetryableError\<close>), the delay slept, and
  the new state.
\<close>

definition HandleFailoverError :: "bool \<Rightarrow> int \<Rightarrow> string \<Rightarrow> UpstreamFailoverError \<Rightarrow> FailoverState
  \<Rightarrow> FailoverAction \<times> bool \<times> int \<times> FailoverState" where
  "HandleFailoverError cancelled accountID platform err s0 =
     (let s1 = s0\<lparr>LastFailoverErr := Some err\<rparr>;
          s2 = (if needForceCacheBilling (hasBoundSession s1) (Some err)
                then s1\<lparr>ForceCacheBilling := True\<rparr> else s1)
      in if RetryableOnSameAccount err \<and> retryCount s2 accountID < maxSameAccountRetries then
           (let s3 = s2\<lparr>SameAccountRetryCount :=
                          (SameAccountRetryCount s2)(accountID \<mapsto> retryCount s2 accountID + 1)\<rparr>
            in (if sleepWithContext cancelled sameAccountRetryDelay then FailoverContinue
                else FailoverCanceled, False, sameAccountRetryDelay, s3))
         else
           (let unsched = RetryableOnSameAccount err;
                s3 = s2\<lparr>FailedAccountIDs := insert accountID (FailedAccountIDs s2)\<rparr>
            in if SwitchCount s3 \<ge> MaxSwitches s3 then (FailoverExhausted, unsched, 0, s3)
               else
                 (let s4 = s3\<lparr>SwitchCount := SwitchCount s3 + 1\<rparr>;
                      delay = (if platform = PlatformAntigravity
                               then (SwitchCount s4 - 1) * second else 0)
                  in if platform = PlatformAntigravity \<and> \<not> sleepWithContext cancelled delay
                     then (FailoverCanceled, unsched, delay, s4)
                     else (FailoverContinue, unsched, delay, s4))))"

definition HandleSelectionExhausted :: "bool \<Rightarrow> FailoverState \<Rightarrow> FailoverAction \<times> FailoverState" where
  "HandleSelectionExhausted cancelled s =
     (if (case LastFailoverErr s of None \<Rightarrow> False | Some e \<Rightarrow> StatusCode e = StatusServiceUnavailable)
         \<and> SwitchCount s \<le> MaxSwitches s
      then (if \<not> sleepWithContext cancelled singleAccountBackoffDelay then (FailoverCanceled, s)
            else (FailoverContinue, s\<lparr>FailedAccountIDs := {}\<rparr>))
      else (FailoverExhausted, s))"

subsection \<open>The account loop (gateway_handler.go)\<close>

datatype slot_refusal = NoWaitPlan | WaitQueueFull | SlotWaitFailed

datatype forward_result =
    Forwarded
  | FailoverRaised UpstreamFailoverError bool  \<comment> \<open>the flag: output had been written\<close>
  | ForwardError

datatype round =
    NoAccount bool  \<comment> \<open>selection failed; the context is cancelled during the backoff\<close>
  | Intercepted int
  | SlotRefused int slot_refusal
  | Attempt int string forward_result bool

datatype reply =
    NoAvailableAccounts
  | FailoverGaveUp "UpstreamFailoverError option"
  | ClientGone
  | MockReply
  | SlotError slot_refusal
  | ForwardFailed
  | Success

record loop_state =
  fs :: FailoverState
  singleAccountRetry :: bool
  unscheduled :: "int list"
  attempts :: "int list"

definition newLoop :: "int \<Rightarrow> bool \<Rightarrow> bool \<Rightarrow> loop_state" where
  "newLoop maxSwitches bound singleGroup =
     \<lparr>fs = NewFailoverState maxSwitches bound, singleAccountRetry = singleGroup,
      unscheduled = [], attempts = []\<rparr>"

fun accountRound :: "round \<Rightarrow> loop_state \<Rightarrow> loop_state \<times> reply option" where
  "accountRound (NoAccount cancelled) l =
     (if FailedAccountIDs (fs l) = {} then (l, Some NoAvailableAccounts)
      else (case HandleSelectionExhausted cancelled (fs l) of
              (FailoverContinue, f) \<Rightarrow> (l\<lparr>fs := f, singleAccountRetry := True\<rparr>, None)
            | (FailoverCanceled, f) \<Rightarrow> (l\<lparr>fs := f\<rparr>, Some ClientGone)
            | (FailoverExhausted, f) \<Rightarrow> (l\<lparr>fs := f\<rparr>, Some (FailoverGaveUp (LastFailoverErr f)))))"
| "accountRound (Intercepted a) l = (l, Some MockReply)"
| "accountRound (SlotRefused a why) l = (l, Some (SlotError why))"
| "accountRound (Attempt a platform result cancelled) l =
     (let l1 = l\<lparr>attempts := attempts l @ [a]\<rparr>
      in case result of
           Forwarded \<Rightarrow> (l1, Some Success)
         | ForwardError \<Rightarrow> (l1, Some ForwardFailed)
         | FailoverRaised err written \<Rightarrow>
             (if written then (l1, Some (FailoverGaveUp (Some err)))
              else (case HandleFailoverError cancelled a platform err (fs l1) of
                      (action, unsched, _, f) \<Rightarrow>
                        (let l2 = l1\<lparr>fs := f,
                                   unscheduled := unscheduled l1 @ (if unsched then [a] else [])\<rparr>
                         in case action of
                              FailoverContinue \<Rightarrow> (l2, None)
                            | FailoverExhausted \<Rightarrow> (l2, Some (FailoverGaveUp (LastFailoverErr f)))
                            | FailoverCanceled \<Rightarrow> (l2, Some ClientGone)))))"

subsection \<open>What one handled error does\<close>

lemma retryCount_update [simp]:
  "retryCount (s\<lparr>SameAccountRetryCount := (SameAccountRetryCount s)(a \<mapsto> n)\<rparr>) b
   = (if b = a then n else retryCount s b)"
  by (simp add: retryCount_def)

lemma retryCount_frame [simp]:
  "retryCount (s\<lparr>LastFailoverErr := e\<rparr>) b = retryCount s b"
  "retryCount (s\<lparr>ForceCacheBilling := f\<rparr>) b = retryCount s b"
  "retryCount (s\<lparr>FailedAccountIDs := F\<rparr>) b = retryCount s b"
  "retryCount (s\<lparr>SwitchCount := n\<rparr>) b = retryCount s b"
  by (simp_all add: retryCount_def)

definition sane :: "FailoverState \<Rightarrow> bool" where
  "sane s \<longleftrightarrow> 0 \<le> SwitchCount s \<and> (SwitchCount s = 0 \<or> SwitchCount s \<le> MaxSwitches s) \<and>
     (\<forall>a. 0 \<le> retryCount s a \<and> retryCount s a \<le> maxSameAccountRetries)"

definition retryBudget :: "int set \<Rightarrow> FailoverState \<Rightarrow> nat" where
  "retryBudget A s = (\<Sum>a\<in>A. nat (maxSameAccountRetries - retryCount s a))"

definition switchBudget :: "FailoverState \<Rightarrow> nat" where
  "switchBudget s = nat (MaxSwitches s - SwitchCount s)"

lemma retryBudget_spend:
  assumes "finite A" and "a \<in> A" and "retryCount s a < maxSameAccountRetries"
    and "\<And>b. retryCount s' b = (if b = a then retryCount s a + 1 else retryCount s b)"
  shows "Suc (retryBudget A s') = retryBudget A s"
proof -
  have "(\<Sum>b\<in>A - {a}. nat (maxSameAccountRetries - retryCount s' b))
      = (\<Sum>b\<in>A - {a}. nat (maxSameAccountRetries - retryCount s b))"
    using assms(4) by (intro sum.cong) auto
  moreover have "Suc (nat (maxSameAccountRetries - retryCount s' a)) = nat (maxSameAccountRetries - retryCount s a)"
    using assms(3,4) by simp
  ultimately show ?thesis
    using assms(1,2) by (simp add: retryBudget_def sum.remove [OF assms(1,2)])
qed

lemma retryBudget_cong: "(\<And>b. retryCount s' b = retryCount s b) \<Longrightarrow> retryBudget A s' = retryBudget A s"
  by (simp add: retryBudget_def)

text \<open>The three ways in which an error is handled: retry in place, switch, give up.\<close>

lemma HandleFailoverError_cases:
  assumes "HandleFailoverError c a p err s = (act, unsched, d, s')"
  obtains
    (retry) "RetryableOnSameAccount err" "retryCount s a < maxSameAccountRetries"
      "retryCount s' = (retryCount s)(a := retryCount s a + 1)" "act \<noteq> FailoverExhausted"
      "SwitchCount s' = SwitchCount s" "FailedAccountIDs s' = FailedAccountIDs s" "\<not> unsched"
      "act = FailoverContinue \<longleftrightarrow> \<not> c"
  | (switch) "SwitchCount s < MaxSwitches s" "SwitchCount s' = SwitchCount s + 1"
      "FailedAccountIDs s' = insert a (FailedAccountIDs s)" "retryCount s' = retryCount s"
      "act \<noteq> FailoverExhausted" "unsched = RetryableOnSameAccount err"
      "RetryableOnSameAccount err \<longrightarrow> maxSameAccountRetries \<le> retryCount s a"
  | (giveup) "MaxSwitches s \<le> SwitchCount s" "act = FailoverExhausted" "SwitchCount s' = SwitchCount s"
      "FailedAccountIDs s' = insert a (FailedAccountIDs s)" "retryCount s' = retryCount s"
      "unsched = RetryableOnSameAccount err"
      "RetryableOnSameAccount err \<longrightarrow> maxSameAccountRetries \<le> retryCount s a"
proof -
  let ?r = "RetryableOnSameAccount err \<and> retryCount s a < maxSameAccountRetries"
  consider (r) ?r | (s) "\<not> ?r" "SwitchCount s < MaxSwitches s" | (g) "\<not> ?r" "MaxSwitches s \<le> SwitchCount s"
    by linarith
  then show ?thesis
  proof cases
    case r
    show ?thesis
      by (rule retry)
        (use assms r in \<open>auto simp: HandleFailoverError_def Let_def fun_eq_iff sleepWithContext_def
          sameAccountRetryDelay_def millisecond_def retryCount_def split: if_splits\<close>)
  next
    case s
    show ?thesis
      by (rule switch)
        (use assms s in \<open>auto simp: HandleFailoverError_def Let_def fun_eq_iff split: if_splits\<close>)
  next
    case g
    show ?thesis
      by (rule giveup)
        (use assms g in \<open>auto simp: HandleFailoverError_def Let_def fun_eq_iff split: if_splits\<close>)
  qed
qed

lemma HandleFailoverError_frame:
  assumes "HandleFailoverError c a p err s = (act, unsched, d, s')"
  shows "MaxSwitches s' = MaxSwitches s \<and> hasBoundSession s' = hasBoundSession s \<and>
    LastFailoverErr s' = Some err \<and>
    ForceCacheBilling s' = (ForceCacheBilling s \<or> hasBoundSession s \<or> ForceCacheBillingErr err)"
  using assms
  by (auto simp: HandleFailoverError_def Let_def needForceCacheBilling_def split: if_splits)

lemma HandleFailoverError_sane:
  assumes "sane s" and "HandleFailoverError c a p err s = (act, unsched, d, s')"
  shows "sane s'"
  using assms(2)
proof (cases rule: HandleFailoverError_cases)
  case retry
  with assms HandleFailoverError_frame [OF assms(2)] show ?thesis by (auto simp: sane_def)
next
  case switch
  with assms HandleFailoverError_frame [OF assms(2)] show ?thesis by (auto simp: sane_def)
next
  case giveup
  with assms HandleFailoverError_frame [OF assms(2)] show ?thesis by (auto simp: sane_def)
qed

lemma HandleFailoverError_budget:
  assumes "finite A" and "a \<in> A" and "HandleFailoverError c a p err s = (FailoverContinue, unsched, d, s')"
  shows "FailedAccountIDs s' = FailedAccountIDs s \<and> switchBudget s' = switchBudget s \<and>
      Suc (retryBudget A s') = retryBudget A s \<or>
    Suc (switchBudget s') = switchBudget s \<and> retryBudget A s' = retryBudget A s"
  using assms(3)
proof (cases rule: HandleFailoverError_cases)
  case retry
  with assms have "Suc (retryBudget A s') = retryBudget A s"
    by (intro retryBudget_spend [where a = a]) auto
  with retry HandleFailoverError_frame [OF assms(3)] show ?thesis by (simp add: switchBudget_def)
next
  case switch
  then have "retryBudget A s' = retryBudget A s" by (intro retryBudget_cong) simp
  with switch HandleFailoverError_frame [OF assms(3)] show ?thesis by (auto simp: switchBudget_def)
next
  case giveup
  then show ?thesis by simp
qed

subsection \<open>The loop as a budgeted loop\<close>

fun accountIn :: "int set \<Rightarrow> round \<Rightarrow> bool" where
  "accountIn A (Attempt a p r c) = (a \<in> A)"
| "accountIn A _ = True"

fun isAttempt :: "round \<Rightarrow> bool" where
  "isAttempt (Attempt a p r c) = True"
| "isAttempt _ = False"

definition loopOK :: "int set \<Rightarrow> loop_state \<Rightarrow> bool" where
  "loopOK A l \<longleftrightarrow> finite A \<and> sane (fs l)"

definition attemptBudget :: "int set \<Rightarrow> loop_state \<Rightarrow> nat" where
  "attemptBudget A l = switchBudget (fs l) + retryBudget A (fs l)"

definition roundBudget :: "int set \<Rightarrow> loop_state \<Rightarrow> nat" where
  "roundBudget A l = 2 * switchBudget (fs l) + retryBudget A (fs l) + of_bool (FailedAccountIDs (fs l) \<noteq> {})"

lemma HandleSelectionExhausted_cases:
  "HandleSelectionExhausted c s = (act, s') \<Longrightarrow>
   act = FailoverContinue \<and> s' = s\<lparr>FailedAccountIDs := {}\<rparr> \<or> act \<noteq> FailoverContinue \<and> s' = s"
  by (auto simp: HandleSelectionExhausted_def split: if_splits)

lemma sane_clear [simp]: "sane (s\<lparr>FailedAccountIDs := F\<rparr>) = sane s"
  by (simp add: sane_def)

lemma accountRound_sane:
  assumes "loopOK A l"
  shows "loopOK A (fst (accountRound i l))"
proof (cases i)
  case (NoAccount c)
  with assms show ?thesis
    using HandleSelectionExhausted_cases [of c "fs l"]
    by (auto simp: loopOK_def split: prod.splits FailoverAction.splits)
next
  case (Attempt a p r c)
  with assms show ?thesis
    by (auto simp: loopOK_def Let_def split: forward_result.splits prod.splits FailoverAction.splits
        dest: HandleFailoverError_sane)
qed (use assms in simp_all)

lemma accountRound_pays:
  assumes "loopOK A l" and "accountIn A i" and "accountRound i l = (l', None)"
  shows "attemptBudget A l' + of_bool (isAttempt i) \<le> attemptBudget A l \<and>
    Suc (roundBudget A l') \<le> roundBudget A l"
proof (cases i)
  case (NoAccount c)
  with assms have ne: "FailedAccountIDs (fs l) \<noteq> {}" and "fs l' = (fs l)\<lparr>FailedAccountIDs := {}\<rparr>"
    using HandleSelectionExhausted_cases [of c "fs l"]
    by (auto split: if_splits prod.splits FailoverAction.splits)
  moreover from this have "retryBudget A (fs l') = retryBudget A (fs l)"
    by (intro retryBudget_cong) simp
  ultimately show ?thesis
    using NoAccount by (simp add: attemptBudget_def roundBudget_def switchBudget_def)
next
  case (Attempt a p r c)
  with assms(3) obtain err un d where "HandleFailoverError c a p err (fs l) = (FailoverContinue, un, d, fs l')"
    by (auto simp: Let_def split: forward_result.splits if_splits prod.splits FailoverAction.splits)
  from HandleFailoverError_budget [OF _ _ this, of A] assms(1,2) Attempt
  show ?thesis by (auto simp: attemptBudget_def roundBudget_def loopOK_def)
qed (use assms(3) in simp_all)

interpretation attempt_loop: loop_budget accountRound "accountIn A" "loopOK A"
  "\<lambda>i. of_bool (isAttempt i)" "attemptBudget A" for A
  by unfold_locales (use accountRound_sane accountRound_pays in blast)+

interpretation round_loop: loop_budget accountRound "accountIn A" "loopOK A" "\<lambda>i. 1" "roundBudget A" for A
  by unfold_locales (use accountRound_sane accountRound_pays in \<open>fastforce+\<close>)


fun isNoAccount :: "round \<Rightarrow> bool" where
  "isNoAccount (NoAccount c) = True"
| "isNoAccount _ = False"

definition backoffBudget :: "loop_state \<Rightarrow> nat" where
  "backoffBudget l = switchBudget (fs l) + of_bool (FailedAccountIDs (fs l) \<noteq> {})"

lemma accountRound_backoff:
  assumes "accountRound i l = (l', None)"
  shows "backoffBudget l' + of_bool (isNoAccount i) \<le> backoffBudget l"
proof (cases i)
  case (NoAccount c)
  with assms have "FailedAccountIDs (fs l) \<noteq> {}" and "fs l' = (fs l)\<lparr>FailedAccountIDs := {}\<rparr>"
    using HandleSelectionExhausted_cases [of c "fs l"]
    by (auto split: if_splits prod.splits FailoverAction.splits)
  then show ?thesis using NoAccount by (simp add: backoffBudget_def switchBudget_def)
next
  case (Attempt a p r c)
  with assms obtain err un d where h: "HandleFailoverError c a p err (fs l) = (FailoverContinue, un, d, fs l')"
    by (auto simp: Let_def split: forward_result.splits if_splits prod.splits FailoverAction.splits)
  from HandleFailoverError_budget [OF _ _ h, of "{a}"] Attempt show ?thesis
    by (auto simp: backoffBudget_def)
qed (use assms in simp_all)

interpretation backoff_loop: loop_budget accountRound "\<lambda>_. True" "\<lambda>_. True"
  "\<lambda>i. of_bool (isNoAccount i)" backoffBudget
  by unfold_locales (use accountRound_backoff in auto)

lemma newLoop_budgets [simp]:
  "attemptBudget A (newLoop maxSwitches bound single) = nat maxSwitches + 3 * card A"
  "roundBudget A (newLoop maxSwitches bound single) = 2 * nat maxSwitches + 3 * card A"
  "backoffBudget (newLoop maxSwitches bound single) = nat maxSwitches"
  "loopOK A (newLoop maxSwitches bound single) = finite A"
  by (simp_all add: attemptBudget_def roundBudget_def backoffBudget_def newLoop_def switchBudget_def
      retryBudget_def NewFailoverState_def retryCount_def maxSameAccountRetries_def loopOK_def sane_def)

text \<open>All attempts of a run, the last one included.\<close>

lemma attempts_bounded:
  "loopOK A l \<Longrightarrow> list_all (accountIn A) is \<Longrightarrow> run_loop accountRound is l = (l', r) \<Longrightarrow>
   length (attempts l') \<le> length (attempts l) + attemptBudget A l + 1"
proof (induction "is" arbitrary: l)
  case (Cons i "is")
  obtain l1 r1 where step: "accountRound i l = (l1, r1)" by (cases "accountRound i l")
  have len: "length (attempts l1) \<le> length (attempts l) + of_bool (isAttempt i)"
  proof (cases i)
    case (NoAccount c)
    with step show ?thesis
      by (auto split: if_splits prod.splits FailoverAction.splits)
  next
    case (Attempt a p r c)
    with step show ?thesis
      by (auto simp: Let_def split: forward_result.splits if_splits prod.splits FailoverAction.splits)
  qed (use step in auto)
  have ok: "loopOK A l1" using accountRound_sane [OF Cons.prems(1), of i] step by simp
  show ?case
  proof (cases r1)
    case None
    with accountRound_pays [OF Cons.prems(1), of i l1] step Cons.prems(2)
    have "attemptBudget A l1 + of_bool (isAttempt i) \<le> attemptBudget A l" by simp
    with Cons.IH [OF ok] Cons.prems None step len show ?thesis by fastforce
  next
    case (Some x)
    with step Cons.prems(3) len show ?thesis by (cases "isAttempt i") auto
  qed
qed simp

subsection \<open>Billing and temporary removal\<close>

definition raised :: "round list \<Rightarrow> UpstreamFailoverError list" where
  "raised is = List.map_filter
     (\<lambda>i. case i of Attempt a p (FailoverRaised err w) c \<Rightarrow> Some err | _ \<Rightarrow> None) is"

lemma raised_Cons:
  "raised (i # is) = (case i of Attempt a p (FailoverRaised err w) c \<Rightarrow> err # raised is | _ \<Rightarrow> raised is)"
  by (simp add: raised_def List.map_filter_def split: round.splits forward_result.splits)

definition billingOK :: "loop_state \<Rightarrow> bool" where
  "billingOK l \<longleftrightarrow> ForceCacheBilling (fs l) = (hasBoundSession (fs l) \<and> LastFailoverErr (fs l) \<noteq> None)"

lemma HandleSelectionExhausted_frame:
  "HandleSelectionExhausted c s = (act, s') \<Longrightarrow>
   ForceCacheBilling s' = ForceCacheBilling s \<and> hasBoundSession s' = hasBoundSession s \<and>
   LastFailoverErr s' = LastFailoverErr s \<and> retryCount s' = retryCount s"
  by (auto simp: HandleSelectionExhausted_def fun_eq_iff split: if_splits)

lemma accountRound_NoAccount:
  "ForceCacheBilling (fs (fst (accountRound (NoAccount c) l))) = ForceCacheBilling (fs l) \<and>
   hasBoundSession (fs (fst (accountRound (NoAccount c) l))) = hasBoundSession (fs l) \<and>
   LastFailoverErr (fs (fst (accountRound (NoAccount c) l))) = LastFailoverErr (fs l) \<and>
   retryCount (fs (fst (accountRound (NoAccount c) l))) = retryCount (fs l) \<and>
   unscheduled (fst (accountRound (NoAccount c) l)) = unscheduled l"
proof -
  obtain act f where h: "HandleSelectionExhausted c (fs l) = (act, f)"
    by (cases "HandleSelectionExhausted c (fs l)")
  from HandleSelectionExhausted_frame [OF h] show ?thesis
    by (cases act) (simp_all add: h)
qed

lemma accountRound_billing:
  assumes "billingOK l" and "\<forall>e \<in> set (raised [i]). \<not> ForceCacheBillingErr e"
  shows "billingOK (fst (accountRound i l))"
proof (cases i)
  case (NoAccount c)
  with assms show ?thesis
    using accountRound_NoAccount [of c l] by (simp add: billingOK_def)
next
  case (Attempt a p r c)
  show ?thesis
  proof (cases r)
    case (FailoverRaised err w)
    with assms Attempt have "\<not> ForceCacheBillingErr err" by (simp add: raised_Cons)
    moreover obtain act un d f where h: "HandleFailoverError c a p err (fs l) = (act, un, d, f)"
      by (cases "HandleFailoverError c a p err (fs l)") auto
    ultimately show ?thesis
      using assms(1) Attempt FailoverRaised HandleFailoverError_frame [OF h]
      by (cases act; cases w) (auto simp: billingOK_def Let_def h)
  qed (use assms Attempt in \<open>simp_all add: billingOK_def Let_def\<close>)
qed (use assms in simp_all)

lemma run_billing:
  "billingOK l \<Longrightarrow> \<forall>e \<in> set (raised is). \<not> ForceCacheBillingErr e \<Longrightarrow>
   billingOK (fst (run_loop accountRound is l))"
proof (induction "is" arbitrary: l)
  case (Cons i "is")
  have set: "set (raised (i # is)) = set (raised [i]) \<union> set (raised is)"
    by (simp add: raised_Cons raised_def [of "[]"] List.map_filter_def split: round.splits forward_result.splits)
  with Cons have "billingOK (fst (accountRound i l))" by (intro accountRound_billing) auto
  with Cons set show ?case by (auto split: prod.splits option.splits)
qed simp

definition unschedOK :: "loop_state \<Rightarrow> bool" where
  "unschedOK l \<longleftrightarrow> (\<forall>a \<in> set (unscheduled l). maxSameAccountRetries \<le> retryCount (fs l) a)"

lemma accountRound_unsched:
  assumes "unschedOK l"
  shows "unschedOK (fst (accountRound i l))"
proof (cases i)
  case (NoAccount c)
  with assms show ?thesis
    using accountRound_NoAccount [of c l] by (simp add: unschedOK_def)
next
  case (Attempt a p r c)
  show ?thesis
  proof (cases r)
    case (FailoverRaised err w)
    show ?thesis
    proof (cases w)
      case True
      with assms Attempt FailoverRaised show ?thesis by (simp add: unschedOK_def Let_def)
    next
      case False
      obtain act un d f where h: "HandleFailoverError c a p err (fs l) = (act, un, d, f)"
        by (cases "HandleFailoverError c a p err (fs l)") auto
      have "\<forall>b \<in> set (unscheduled l @ (if un then [a] else [])). maxSameAccountRetries \<le> retryCount f b"
        using h
      proof (cases rule: HandleFailoverError_cases)
        case retry
        with assms show ?thesis by (auto simp: unschedOK_def)
      next
        case switch
        with assms show ?thesis by (auto simp: unschedOK_def)
      next
        case giveup
        with assms show ?thesis by (auto simp: unschedOK_def)
      qed
      with Attempt FailoverRaised False h show ?thesis
        by (simp add: unschedOK_def Let_def split: FailoverAction.splits)
    qed
  qed (use assms Attempt in \<open>simp_all add: unschedOK_def Let_def\<close>)
qed (use assms in simp_all)

lemma run_unsched: "unschedOK l \<Longrightarrow> unschedOK (fst (run_loop accountRound is l))"
proof (induction "is" arbitrary: l)
  case (Cons i "is")
  with accountRound_unsched [of l i] show ?case by (auto split: prod.splits option.splits)
qed simp


subsection \<open>Properties\<close>

definition exErr :: UpstreamFailoverError where
  "exErr = \<lparr>StatusCode = 503, ResponseBody = '''', ForceCacheBillingErr = False,
     RetryableOnSameAccount = True\<rparr>"

definition exRounds :: "round list" where
  "exRounds = concat (replicate 2 (replicate 4 (Attempt 7 ''gemini'' (FailoverRaised exErr False) False)
     @ [NoAccount False]))"

text \<open>C3: The account loop always ends: whatever the scheduler selects and however the attempts
  fail, once it has been driven for more rounds than twice the switch budget plus three in-place
  retries for each account, it has answered the client, although neither the backoff nor the
  in-place retry counts against the switch budget.\<close>

theorem failover_loop_terminates:
  assumes "finite A" and "list_all (accountIn A) is"
    and "2 * nat maxSwitches + 3 * card A < length is"
  shows "\<exists>l reply. run_loop accountRound is (newLoop maxSwitches bound single) = (l, Some reply)"
  using round_loop.run_ends [of A "newLoop maxSwitches bound single" "is"] assms
  by (simp add: sum_list_triv)

theorem failover_loop_terminates_witness:
  "\<exists>l reply. run_loop accountRound exRounds (newLoop 1 False False) = (l, Some reply)"
proof (rule failover_loop_terminates [of "{7}"])
  show "list_all (accountIn {7}) exRounds" by (simp add: exRounds_def numeral_eq_Suc)
  show "2 * nat 1 + 3 * card {7::int} < length exRounds" by (simp add: exRounds_def numeral_eq_Suc)
qed simp

text \<open>C40: The client's request reaches the upstreams a bounded number of times: at most the switch
  budget, plus three in-place retries for each account, plus the first attempt; and the scheduler
  is retried after a backoff at most as many times as the switch budget allows.\<close>

theorem failover_attempts_bounded:
  assumes "finite A" and "list_all (accountIn A) is"
    and "run_loop accountRound is (newLoop maxSwitches bound single) = (l, r)"
  shows "length (attempts l) \<le> nat maxSwitches + 3 * card A + 1 \<and>
    (r = None \<longrightarrow> length (filter isNoAccount is) \<le> nat maxSwitches)"
proof -
  have sum: "sum_list (map (\<lambda>i. of_bool (isNoAccount i)) xs) = length (filter isNoAccount xs)" for xs
    by (induction xs) simp_all
  have "length (filter isNoAccount is) \<le> nat maxSwitches" if "r = None"
    using backoff_loop.run_budget [OF _ _ assms(3) [unfolded that]] sum by (simp add: list_all_iff)
  moreover have "attempts (newLoop maxSwitches bound single) = []" by (simp add: newLoop_def)
  ultimately show ?thesis
    using attempts_bounded [of A "newLoop maxSwitches bound single" "is" l r] assms
    by simp
qed

theorem failover_attempts_bounded_witness:
  "length (attempts (fst (run_loop accountRound exRounds (newLoop 1 False False)))) = 5 \<and>
   length (attempts (fst (run_loop accountRound exRounds (newLoop 1 False False)))) \<le> nat 1 + 3 * card {7::int} + 1"
proof -
  obtain l r where run: "run_loop accountRound exRounds (newLoop 1 False False) = (l, r)"
    by (cases "run_loop accountRound exRounds (newLoop 1 False False)")
  have "list_all (accountIn {7}) exRounds" by (simp add: exRounds_def numeral_eq_Suc)
  from failover_attempts_bounded [OF _ this run] run
  have "length (attempts l) \<le> nat 1 + 3 * card {7::int} + 1" by simp
  moreover have "length (attempts (fst (run_loop accountRound exRounds (newLoop 1 False False)))) = 5"
    by code_simp
  ultimately show ?thesis using run by simp
qed

text \<open>In every state the loop reaches, the number of switches is within the configured budget and
  no account has been retried in place more than three times; an account is only taken out of
  scheduling after its three in-place retries were used up.\<close>

theorem failover_state_sane:
  "sane (fs (fst (run_loop accountRound is (newLoop maxSwitches bound single)))) \<and>
   (\<forall>a \<in> set (unscheduled (fst (run_loop accountRound is (newLoop maxSwitches bound single)))).
      retryCount (fs (fst (run_loop accountRound is (newLoop maxSwitches bound single)))) a
        = maxSameAccountRetries)"
proof -
  let ?l = "fst (run_loop accountRound is (newLoop maxSwitches bound single))"
  define A where "A = (\<lambda>i. case i of Attempt a p r c \<Rightarrow> a | _ \<Rightarrow> 0) ` set is"
  have "accountIn A i" if "i \<in> set is" for i
  proof -
    have "(case i of Attempt a p r c \<Rightarrow> a | _ \<Rightarrow> 0) \<in> A" using that by (simp add: A_def)
    then show ?thesis by (cases i) simp_all
  qed
  then have "list_all (accountIn A) is" by (simp add: list_all_iff)
  moreover have "finite A" by (simp add: A_def)
  ultimately have "loopOK A ?l"
    using round_loop.run_inv [of A "newLoop maxSwitches bound single" "is"] by simp
  then have "sane (fs ?l)" by (simp add: loopOK_def)
  moreover have "unschedOK ?l" by (rule run_unsched) (simp add: unschedOK_def newLoop_def)
  ultimately show ?thesis by (auto simp: sane_def unschedOK_def intro: antisym)
qed

theorem failover_state_sane_witness:
  "unscheduled (fst (run_loop accountRound exRounds (newLoop 1 False False))) = [7, 7] \<and>
   retryCount (fs (fst (run_loop accountRound exRounds (newLoop 1 False False)))) 7 = maxSameAccountRetries"
proof -
  have "unscheduled (fst (run_loop accountRound exRounds (newLoop 1 False False))) = [7, 7]" by code_simp
  with failover_state_sane [of exRounds 1 False False] show ?thesis by simp
qed

text \<open>Input tokens are billed as cache reads only for a reason: if no upstream error asked for it,
  forced cache billing is on exactly when the session was bound to an account and an attempt failed
  over.\<close>

theorem cache_billing_has_cause:
  assumes "\<forall>e \<in> set (raised is). \<not> ForceCacheBillingErr e"
  shows "ForceCacheBilling (fs (fst (run_loop accountRound is (newLoop maxSwitches bound single))))
    = (hasBoundSession (fs (fst (run_loop accountRound is (newLoop maxSwitches bound single)))) \<and>
       LastFailoverErr (fs (fst (run_loop accountRound is (newLoop maxSwitches bound single)))) \<noteq> None)"
  using run_billing [of "newLoop maxSwitches bound single" "is"] assms
  by (simp add: billingOK_def newLoop_def NewFailoverState_def)

theorem cache_billing_has_cause_witness:
  "ForceCacheBilling (fs (fst (run_loop accountRound exRounds (newLoop 1 True False)))) \<and>
   \<not> ForceCacheBilling (fs (fst (run_loop accountRound exRounds (newLoop 1 False False))))"
proof -
  have "\<forall>e \<in> set (raised exRounds). \<not> ForceCacheBillingErr e" by code_simp
  from cache_billing_has_cause [OF this, of 1 True False] cache_billing_has_cause [OF this, of 1 False False]
  show ?thesis
    by (simp only:) code_simp
qed

end
