(* ===== verification/AppErrors.thy ===== *)
theory AppErrors
  imports Prelude
begin

section \<open>Application errors\<close>

text \<open>
  Package \<open>internal/pkg/errors\<close>: the errors that services return and handlers turn into HTTP
  responses.  An \<open>error\<close> value is an \<open>ApplicationError\<close> (a status and an optional cause) or any
  other error, which may wrap a further one; \<open>asApplicationError\<close> is \<open>errors.As\<close> along that chain.
\<close>

record Status =
  sCode :: int
  sReason :: string
  sMessage :: string
  sMetadata :: "(string \<rightharpoonup> string) option"

datatype go_error =
    ApplicationError Status "go_error option"
  | OtherError string "go_error option"

definition UnknownCode :: int where "UnknownCode = 500"
definition UnknownReason :: string where "UnknownReason = ''''"
definition UnknownMessage :: string where "UnknownMessage = ''internal error''"

fun asApplicationError :: "go_error \<Rightarrow> (Status \<times> go_error option) option" where
  "asApplicationError (ApplicationError s c) = Some (s, c)"
| "asApplicationError (OtherError t None) = None"
| "asApplicationError (OtherError t (Some e)) = asApplicationError e"

definition NewError :: "int \<Rightarrow> string \<Rightarrow> string \<Rightarrow> go_error" where
  "NewError code reason message =
     ApplicationError \<lparr>sCode = code, sReason = reason, sMessage = message, sMetadata = None\<rparr> None"

definition BadRequest :: "string \<Rightarrow> string \<Rightarrow> go_error" where
  "BadRequest reason message = NewError 400 reason message"

definition Forbidden :: "string \<Rightarrow> string \<Rightarrow> go_error" where
  "Forbidden reason message = NewError 403 reason message"

definition NotFound :: "string \<Rightarrow> string \<Rightarrow> go_error" where
  "NotFound reason message = NewError 404 reason message"

definition Conflict :: "string \<Rightarrow> string \<Rightarrow> go_error" where
  "Conflict reason message = NewError 409 reason message"

definition InternalServer :: "string \<Rightarrow> string \<Rightarrow> go_error" where
  "InternalServer reason message = NewError 500 reason message"

definition ServiceUnavailable :: "string \<Rightarrow> string \<Rightarrow> go_error" where
  "ServiceUnavailable reason message = NewError 503 reason message"

text \<open>The methods of \<open>*ApplicationError\<close>; on other errors they do not exist in the source.\<close>

fun WithCause :: "go_error \<Rightarrow> go_error \<Rightarrow> go_error" where
  "WithCause (ApplicationError s c) cause = ApplicationError s (Some cause)"
| "WithCause e cause = e"

fun WithMetadata :: "go_error \<Rightarrow> (string \<rightharpoonup> string) option \<Rightarrow> go_error" where
  "WithMetadata (ApplicationError s c) md = ApplicationError (s\<lparr>sMetadata := md\<rparr>) c"
| "WithMetadata e md = e"

fun IsError :: "go_error \<Rightarrow> go_error \<Rightarrow> bool" where
  "IsError (ApplicationError s c) err =
     (case asApplicationError err of
        None \<Rightarrow> False
      | Some (s', _) \<Rightarrow> sCode s' = sCode s \<and> sReason s' = sReason s)"
| "IsError (OtherError t c) err = False"

definition FromError :: "go_error \<Rightarrow> Status" where
  "FromError err =
     (case asApplicationError err of
        Some (s, _) \<Rightarrow> s
      | None \<Rightarrow> \<lparr>sCode = UnknownCode, sReason = UnknownReason, sMessage = UnknownMessage, sMetadata = None\<rparr>)"

definition Code :: "go_error option \<Rightarrow> int" where
  "Code err = (case err of None \<Rightarrow> 200 | Some e \<Rightarrow> sCode (FromError e))"

definition Reason :: "go_error option \<Rightarrow> string" where
  "Reason err = (case err of None \<Rightarrow> UnknownReason | Some e \<Rightarrow> sReason (FromError e))"

text \<open>\<open>ToHTTP\<close>: the status code and body of the response for an error.\<close>

definition ToHTTP :: "go_error option \<Rightarrow> int \<times> Status" where
  "ToHTTP err =
     (case err of
        None \<Rightarrow> (200, \<lparr>sCode = 200, sReason = '''', sMessage = '''', sMetadata = None\<rparr>)
      | Some e \<Rightarrow> (sCode (FromError e), FromError e))"

lemmas app_error_simps [simp] =
  NewError_def BadRequest_def Forbidden_def NotFound_def Conflict_def InternalServer_def ServiceUnavailable_def

lemma FromError_App [simp]: "FromError (ApplicationError s c) = s"
  by (simp add: FromError_def)

subsection \<open>Calls that can fail\<close>

text \<open>
  A call to a database may fail: one that was \<open>Refused\<close> has no effect, one with \<open>LostReply\<close> took
  effect but the caller sees an error.
\<close>

datatype fault = NoFault | Refused go_error | LostReply go_error

definition faulty :: "fault \<Rightarrow> ('db \<Rightarrow> 'r \<times> 'db) \<Rightarrow> 'db \<Rightarrow> (go_error + 'r) \<times> 'db" where
  "faulty flt op db =
     (case flt of
        NoFault \<Rightarrow> (case op db of (r, db') \<Rightarrow> (Inr r, db'))
      | Refused err \<Rightarrow> (Inl err, db)
      | LostReply err \<Rightarrow> (Inl err, snd (op db)))"

lemma faulty_cases:
  assumes "faulty flt op db = (res, db')"
  obtains (failed) err where "res = Inl err" "db' = db \<or> db' = snd (op db)"
    | (answered) x where "res = Inr x" "op db = (x, db')"
  using assms by (cases flt) (auto simp: faulty_def split: prod.splits)

subsection \<open>Errors of several components\<close>

text \<open>\<open>service/user_service.go\<close>\<close>

definition ErrUserNotFound :: go_error where "ErrUserNotFound = NotFound ''USER_NOT_FOUND'' ''user not found''"

end
