(* ===== verification/IdempotencyStore.thy ===== *)
theory IdempotencyStore
  imports AppErrors
begin

section \<open>The idempotency store\<close>

text \<open>
  The table \<open>idempotency_records\<close> and the statements of \<open>repository/idempotency_repo.go\<close> on it,
  each one atomic SQL statement.  The repository interface of \<open>service/idempotency.go\<close> is the record
  \<open>idem_repo\<close> of operations on an abstract store; \<open>sqlRepo\<close> is the SQL implementation.

  A record is identified by its id, issued by a sequence and never reused, and by its scope and key
  hash, which a unique index covers.  Locale \<open>idempotency_store\<close> states what the coordinator may
  rely on; it is interpreted for \<open>sqlRepo\<close> at the end.
\<close>

definition IdempotencyStatusProcessing :: string where
  "IdempotencyStatusProcessing = ''processing''"
definition IdempotencyStatusSucceeded :: string where
  "IdempotencyStatusSucceeded = ''succeeded''"
definition IdempotencyStatusFailedRetryable :: string where
  "IdempotencyStatusFailedRetryable = ''failed_retryable''"

lemma status_distinct [simp]:
  "IdempotencyStatusProcessing \<noteq> IdempotencyStatusSucceeded"
  "IdempotencyStatusProcessing \<noteq> IdempotencyStatusFailedRetryable"
  "IdempotencyStatusSucceeded \<noteq> IdempotencyStatusProcessing"
  "IdempotencyStatusSucceeded \<noteq> IdempotencyStatusFailedRetryable"
  "IdempotencyStatusFailedRetryable \<noteq> IdempotencyStatusProcessing"
  "IdempotencyStatusFailedRetryable \<noteq> IdempotencyStatusSucceeded"
  by (simp_all add: IdempotencyStatusProcessing_def IdempotencyStatusSucceeded_def
      IdempotencyStatusFailedRetryable_def)

record IdempotencyRecord =
  ir_ID :: int
  ir_Scope :: string
  ir_KeyHash :: string
  ir_Fingerprint :: string
  ir_Status :: string
  ir_ResponseStatus :: "int option"
  ir_ResponseBody :: "string option"
  ir_ErrorReason :: "string option"
  ir_LockedUntil :: "int option"
  ir_ExpiresAt :: int
  ir_CreatedAt :: int
  ir_UpdatedAt :: int

text \<open>The interface; the argument after the parameters is the database's clock.\<close>

record 'db idem_repo =
  CreateProcessing :: "IdempotencyRecord \<Rightarrow> int \<Rightarrow> 'db \<Rightarrow> int option \<times> 'db"
  GetByScopeAndKeyHash :: "string \<Rightarrow> string \<Rightarrow> 'db \<Rightarrow> IdempotencyRecord option"
  TryReclaim :: "int \<Rightarrow> string \<Rightarrow> int \<Rightarrow> int \<Rightarrow> int \<Rightarrow> int \<Rightarrow> 'db \<Rightarrow> bool \<times> 'db"
  ExtendProcessingLock :: "int \<Rightarrow> string \<Rightarrow> int \<Rightarrow> int \<Rightarrow> int \<Rightarrow> 'db \<Rightarrow> bool \<times> 'db"
  MarkSucceeded :: "int \<Rightarrow> int \<Rightarrow> string \<Rightarrow> int \<Rightarrow> int \<Rightarrow> 'db \<Rightarrow> 'db"
  MarkFailedRetryable :: "int \<Rightarrow> string \<Rightarrow> int \<Rightarrow> int \<Rightarrow> int \<Rightarrow> 'db \<Rightarrow> 'db"
  DeleteExpired :: "int \<Rightarrow> int \<Rightarrow> 'db \<Rightarrow> int \<times> 'db"

subsection \<open>The SQL statements (repository/idempotency_repo.go)\<close>

record idem_db =
  idem_rows :: "IdempotencyRecord list"
  idem_seq :: int

definition updateWhere ::
  "(IdempotencyRecord \<Rightarrow> bool) \<Rightarrow> (IdempotencyRecord \<Rightarrow> IdempotencyRecord) \<Rightarrow> idem_db \<Rightarrow> idem_db" where
  "updateWhere p f db = db\<lparr>idem_rows := map (\<lambda>r. if p r then f r else r) (idem_rows db)\<rparr>"

definition affected :: "(IdempotencyRecord \<Rightarrow> bool) \<Rightarrow> idem_db \<Rightarrow> int" where
  "affected p db = int (length (filter p (idem_rows db)))"

definition sql_CreateProcessing :: "IdempotencyRecord \<Rightarrow> int \<Rightarrow> idem_db \<Rightarrow> int option \<times> idem_db" where
  "sql_CreateProcessing rec t db =
     (if list_ex (\<lambda>r. ir_Scope r = ir_Scope rec \<and> ir_KeyHash r = ir_KeyHash rec) (idem_rows db)
      then (None, db\<lparr>idem_seq := idem_seq db + 1\<rparr>)
      else (Some (idem_seq db), db\<lparr>
        idem_rows := idem_rows db @ [\<lparr>ir_ID = idem_seq db, ir_Scope = ir_Scope rec,
          ir_KeyHash = ir_KeyHash rec, ir_Fingerprint = ir_Fingerprint rec, ir_Status = ir_Status rec,
          ir_ResponseStatus = None, ir_ResponseBody = None, ir_ErrorReason = None,
          ir_LockedUntil = ir_LockedUntil rec, ir_ExpiresAt = ir_ExpiresAt rec,
          ir_CreatedAt = t, ir_UpdatedAt = t\<rparr>],
        idem_seq := idem_seq db + 1\<rparr>))"

definition sql_GetByScopeAndKeyHash :: "string \<Rightarrow> string \<Rightarrow> idem_db \<Rightarrow> IdempotencyRecord option" where
  "sql_GetByScopeAndKeyHash scope keyHash db =
     List.find (\<lambda>r. ir_Scope r = scope \<and> ir_KeyHash r = keyHash) (idem_rows db)"

definition reclaimable :: "string \<Rightarrow> int \<Rightarrow> IdempotencyRecord \<Rightarrow> bool" where
  "reclaimable fromStatus now r \<longleftrightarrow>
     ir_Status r = fromStatus \<and> (case ir_LockedUntil r of None \<Rightarrow> True | Some l \<Rightarrow> l \<le> now)"

definition reclaimRow :: "int \<Rightarrow> int \<Rightarrow> int \<Rightarrow> IdempotencyRecord \<Rightarrow> IdempotencyRecord" where
  "reclaimRow newLockedUntil newExpiresAt t r = r\<lparr>ir_Status := IdempotencyStatusProcessing,
     ir_LockedUntil := Some newLockedUntil, ir_ErrorReason := None, ir_UpdatedAt := t,
     ir_ExpiresAt := newExpiresAt\<rparr>"

definition sql_TryReclaim :: "int \<Rightarrow> string \<Rightarrow> int \<Rightarrow> int \<Rightarrow> int \<Rightarrow> int \<Rightarrow> idem_db \<Rightarrow> bool \<times> idem_db" where
  "sql_TryReclaim i fromStatus now newLockedUntil newExpiresAt t db =
     (let p = (\<lambda>r. ir_ID r = i \<and> reclaimable fromStatus now r) in
      (0 < affected p db, updateWhere p (reclaimRow newLockedUntil newExpiresAt t) db))"

definition sql_ExtendProcessingLock :: "int \<Rightarrow> string \<Rightarrow> int \<Rightarrow> int \<Rightarrow> int \<Rightarrow> idem_db \<Rightarrow> bool \<times> idem_db" where
  "sql_ExtendProcessingLock i fingerprint newLockedUntil newExpiresAt t db =
     (let p = (\<lambda>r. ir_ID r = i \<and> ir_Status r = IdempotencyStatusProcessing \<and> ir_Fingerprint r = fingerprint) in
      (0 < affected p db, updateWhere p (\<lambda>r. r\<lparr>ir_LockedUntil := Some newLockedUntil,
         ir_ExpiresAt := newExpiresAt, ir_UpdatedAt := t\<rparr>) db))"

definition succeedRow :: "int \<Rightarrow> string \<Rightarrow> int \<Rightarrow> int \<Rightarrow> IdempotencyRecord \<Rightarrow> IdempotencyRecord" where
  "succeedRow status body expiresAt t r = r\<lparr>ir_Status := IdempotencyStatusSucceeded,
     ir_ResponseStatus := Some status, ir_ResponseBody := Some body, ir_ErrorReason := None,
     ir_LockedUntil := None, ir_ExpiresAt := expiresAt, ir_UpdatedAt := t\<rparr>"

definition sql_MarkSucceeded :: "int \<Rightarrow> int \<Rightarrow> string \<Rightarrow> int \<Rightarrow> int \<Rightarrow> idem_db \<Rightarrow> idem_db" where
  "sql_MarkSucceeded i status body expiresAt t db =
     updateWhere (\<lambda>r. ir_ID r = i) (succeedRow status body expiresAt t) db"

definition failRow :: "string \<Rightarrow> int \<Rightarrow> int \<Rightarrow> int \<Rightarrow> IdempotencyRecord \<Rightarrow> IdempotencyRecord" where
  "failRow reason lockedUntil expiresAt t r = r\<lparr>ir_Status := IdempotencyStatusFailedRetryable,
     ir_ErrorReason := Some reason, ir_LockedUntil := Some lockedUntil, ir_ExpiresAt := expiresAt,
     ir_UpdatedAt := t\<rparr>"

definition sql_MarkFailedRetryable :: "int \<Rightarrow> string \<Rightarrow> int \<Rightarrow> int \<Rightarrow> int \<Rightarrow> idem_db \<Rightarrow> idem_db" where
  "sql_MarkFailedRetryable i reason lockedUntil expiresAt t db =
     updateWhere (\<lambda>r. ir_ID r = i) (failRow reason lockedUntil expiresAt t) db"

text \<open>Rows that expire at the same instant are taken in table order; the statement leaves it open.\<close>

definition sql_DeleteExpired :: "int \<Rightarrow> int \<Rightarrow> idem_db \<Rightarrow> int \<times> idem_db" where
  "sql_DeleteExpired now limit db =
     (let n = (if limit \<le> 0 then 500 else limit);
          victims = take (nat n) (map ir_ID (sort_key ir_ExpiresAt
            (filter (\<lambda>r. ir_ExpiresAt r \<le> now) (idem_rows db))));
          p = (\<lambda>r. ir_ID r \<in> set victims) in
      (affected p db, db\<lparr>idem_rows := filter (\<lambda>r. \<not> p r) (idem_rows db)\<rparr>))"

definition sqlRepo :: "idem_db idem_repo" where
  "sqlRepo = \<lparr>CreateProcessing = sql_CreateProcessing, GetByScopeAndKeyHash = sql_GetByScopeAndKeyHash,
     TryReclaim = sql_TryReclaim, ExtendProcessingLock = sql_ExtendProcessingLock,
     MarkSucceeded = sql_MarkSucceeded, MarkFailedRetryable = sql_MarkFailedRetryable,
     DeleteExpired = sql_DeleteExpired\<rparr>"

lemmas sql_ops = sql_CreateProcessing_def sql_GetByScopeAndKeyHash_def sql_TryReclaim_def
  sql_ExtendProcessingLock_def sql_MarkSucceeded_def sql_MarkFailedRetryable_def sql_DeleteExpired_def

lemma sqlRepo_ops [simp]:
  "CreateProcessing sqlRepo = sql_CreateProcessing" "GetByScopeAndKeyHash sqlRepo = sql_GetByScopeAndKeyHash"
  "TryReclaim sqlRepo = sql_TryReclaim" "ExtendProcessingLock sqlRepo = sql_ExtendProcessingLock"
  "MarkSucceeded sqlRepo = sql_MarkSucceeded" "MarkFailedRetryable sqlRepo = sql_MarkFailedRetryable"
  "DeleteExpired sqlRepo = sql_DeleteExpired"
  by (simp_all add: sqlRepo_def)

subsection \<open>What the coordinator relies on\<close>

definition same_key :: "IdempotencyRecord \<Rightarrow> IdempotencyRecord \<Rightarrow> bool" where
  "same_key r r' \<longleftrightarrow> ir_Scope r = ir_Scope r' \<and> ir_KeyHash r = ir_KeyHash r'"

locale idempotency_store =
  fixes R :: "'db idem_repo"
    and ok :: "'db \<Rightarrow> bool"
    and rowAt :: "'db \<Rightarrow> int \<rightharpoonup> IdempotencyRecord"
    and issued :: "'db \<Rightarrow> int set"
  assumes row_id: "ok db \<Longrightarrow> rowAt db i = Some r \<Longrightarrow> ir_ID r = i \<and> i \<in> issued db"
    and row_unique: "ok db \<Longrightarrow> rowAt db i = Some r \<Longrightarrow> rowAt db j = Some r' \<Longrightarrow> same_key r r' \<Longrightarrow> i = j"
    and create_new: "ok db \<Longrightarrow> CreateProcessing R rec t db = (Some i, db') \<Longrightarrow>
      ok db' \<and> i \<notin> issued db \<and> issued db' = insert i (issued db) \<and>
      (\<exists>r. rowAt db' = (rowAt db)(i \<mapsto> r) \<and> same_key r rec \<and> ir_Fingerprint r = ir_Fingerprint rec \<and>
        ir_Status r = ir_Status rec \<and> ir_LockedUntil r = ir_LockedUntil rec \<and>
        ir_ExpiresAt r = ir_ExpiresAt rec)"
    and create_taken: "ok db \<Longrightarrow> CreateProcessing R rec t db = (None, db') \<Longrightarrow>
      ok db' \<and> rowAt db' = rowAt db \<and> issued db \<subseteq> issued db'"
    and get_row: "ok db \<Longrightarrow> GetByScopeAndKeyHash R s k db = Some r \<Longrightarrow>
      rowAt db (ir_ID r) = Some r \<and> ir_Scope r = s \<and> ir_KeyHash r = k"
    and reclaim: "ok db \<Longrightarrow> TryReclaim R i from now l e t db = (taken, db') \<Longrightarrow>
      ok db' \<and> issued db' = issued db \<and>
      (taken \<longleftrightarrow> (\<exists>r. rowAt db i = Some r \<and> reclaimable from now r)) \<and>
      rowAt db' = (if taken then (rowAt db)(i := map_option (reclaimRow l e t) (rowAt db i)) else rowAt db)"
    and mark_ok: "ok db \<Longrightarrow> MarkSucceeded R i st body e t db = db' \<Longrightarrow>
      ok db' \<and> issued db' = issued db \<and>
      rowAt db' = (rowAt db)(i := map_option (succeedRow st body e t) (rowAt db i))"
    and mark_failed: "ok db \<Longrightarrow> MarkFailedRetryable R i reason l e t db = db' \<Longrightarrow>
      ok db' \<and> issued db' = issued db \<and>
      rowAt db' = (rowAt db)(i := map_option (failRow reason l e t) (rowAt db i))"
    and delete: "ok db \<Longrightarrow> DeleteExpired R now limit db = (n, db') \<Longrightarrow>
      ok db' \<and> issued db' = issued db \<and> rowAt db' \<subseteq>\<^sub>m rowAt db \<and>
      (\<forall>i r. rowAt db i = Some r \<and> rowAt db' i = None \<longrightarrow> ir_ExpiresAt r \<le> now)"

subsection \<open>The SQL table provides it\<close>

definition idem_ok :: "idem_db \<Rightarrow> bool" where
  "idem_ok db \<longleftrightarrow> distinct (map ir_ID (idem_rows db)) \<and>
     list_all (\<lambda>r. 0 < ir_ID r \<and> ir_ID r < idem_seq db) (idem_rows db) \<and>
     distinct (map (\<lambda>r. (ir_Scope r, ir_KeyHash r)) (idem_rows db)) \<and> 0 < idem_seq db"

definition sqlRow :: "idem_db \<Rightarrow> int \<rightharpoonup> IdempotencyRecord" where
  "sqlRow db = map_of (map (\<lambda>r. (ir_ID r, r)) (idem_rows db))"

definition sqlIssued :: "idem_db \<Rightarrow> int set" where
  "sqlIssued db = {0..<idem_seq db}"

lemma sqlRow_iff:
  "distinct (map ir_ID (idem_rows db)) \<Longrightarrow> sqlRow db i = Some r \<longleftrightarrow> r \<in> set (idem_rows db) \<and> ir_ID r = i"
  by (subst sqlRow_def, subst map_of_eq_Some_iff) (auto simp: comp_def)

lemma sqlRow_None: "sqlRow db i = None \<longleftrightarrow> i \<notin> ir_ID ` set (idem_rows db)"
  by (force simp: sqlRow_def map_of_eq_None_iff)

lemma sqlRow_update:
  assumes "\<And>r. ir_ID (f r) = ir_ID r"
  shows "sqlRow (updateWhere p f db) j = map_option (\<lambda>r. if p r then f r else r) (sqlRow db j)"
proof -
  have "map_of (map (\<lambda>r. (ir_ID r, r)) (map (\<lambda>r. if p r then f r else r) rs)) j =
      map_option (\<lambda>r. if p r then f r else r) (map_of (map (\<lambda>r. (ir_ID r, r)) rs) j)" for rs
    using assms by (induction rs) auto
  then show ?thesis by (simp add: sqlRow_def updateWhere_def)
qed

text \<open>Updating the row of one id, if a guard holds, leaves ids and keys alone.\<close>

lemma updateWhere_id:
  assumes "idem_ok db" and "\<And>r. ir_ID (f r) = ir_ID r \<and> ir_Scope (f r) = ir_Scope r \<and> ir_KeyHash (f r) = ir_KeyHash r"
    and "db' = updateWhere (\<lambda>r. ir_ID r = i \<and> g r) f db"
  shows "idem_ok db' \<and> sqlIssued db' = sqlIssued db \<and>
    (0 < affected (\<lambda>r. ir_ID r = i \<and> g r) db \<longleftrightarrow> (\<exists>r. sqlRow db i = Some r \<and> g r)) \<and>
    sqlRow db' = (if \<exists>r. sqlRow db i = Some r \<and> g r
       then (sqlRow db)(i := map_option f (sqlRow db i)) else sqlRow db)"
proof -
  let ?p = "\<lambda>r. ir_ID r = i \<and> g r"
  have keys: "map (\<lambda>r. (ir_Scope r, ir_KeyHash r)) (idem_rows db') =
      map (\<lambda>r. (ir_Scope r, ir_KeyHash r)) (idem_rows db)"
    and ids: "map ir_ID (idem_rows db') = map ir_ID (idem_rows db)"
    using assms(2,3) by (simp_all add: updateWhere_def)
  have seq: "idem_seq db' = idem_seq db" using assms(3) by (simp add: updateWhere_def)
  have "list_all (\<lambda>i. 0 < i \<and> i < idem_seq db) (map ir_ID (idem_rows db'))"
    unfolding ids using assms(1) by (simp add: idem_ok_def list.pred_map comp_def)
  then have "list_all (\<lambda>r. 0 < ir_ID r \<and> ir_ID r < idem_seq db) (idem_rows db')"
    by (simp add: list.pred_map comp_def)
  with assms(1) keys ids seq have ok: "idem_ok db'" by (simp add: idem_ok_def)
  have d: "distinct (map ir_ID (idem_rows db))" "distinct (map ir_ID (idem_rows db'))"
    using assms(1) ok by (simp_all add: idem_ok_def)
  have aff: "0 < affected ?p db \<longleftrightarrow> (\<exists>r. sqlRow db i = Some r \<and> g r)"
    unfolding affected_def sqlRow_iff [OF d(1)] by (auto simp: filter_empty_conv)
  have row: "sqlRow db' j = map_option (\<lambda>r. if ?p r then f r else r) (sqlRow db j)" for j
    using assms(2) by (simp add: assms(3) sqlRow_update)
  have "sqlRow db' j = (if \<exists>r. sqlRow db i = Some r \<and> g r
       then (sqlRow db)(i := map_option f (sqlRow db i)) else sqlRow db) j" for j
  proof (cases "sqlRow db j")
    case (Some a)
    then have "ir_ID a = j" using d(1) by (simp add: sqlRow_iff)
    with Some show ?thesis by (auto simp: row)
  qed (auto simp: row)
  then have "sqlRow db' = (if \<exists>r. sqlRow db i = Some r \<and> g r
       then (sqlRow db)(i := map_option f (sqlRow db i)) else sqlRow db)" by (rule ext)
  with ok aff seq show ?thesis by (simp add: sqlIssued_def)
qed

lemma sql_create:
  assumes "idem_ok db" and "sql_CreateProcessing rec t db = (res, db')"
  shows "idem_ok db' \<and> sqlIssued db \<subseteq> sqlIssued db' \<and> (case res of
      None \<Rightarrow> sqlRow db' = sqlRow db
    | Some i \<Rightarrow> i \<notin> sqlIssued db \<and> sqlIssued db' = insert i (sqlIssued db) \<and> (\<exists>r. sqlRow db' = (sqlRow db)(i \<mapsto> r) \<and>
        same_key r rec \<and> ir_Fingerprint r = ir_Fingerprint rec \<and> ir_Status r = ir_Status rec \<and>
        ir_LockedUntil r = ir_LockedUntil rec \<and> ir_ExpiresAt r = ir_ExpiresAt rec))"
proof (cases res)
  case None
  with assms show ?thesis
    by (force simp: sql_CreateProcessing_def idem_ok_def list_all_iff sqlRow_def sqlIssued_def split: if_splits)
next
  case (Some i)
  let ?new = "\<lparr>ir_ID = idem_seq db, ir_Scope = ir_Scope rec,
          ir_KeyHash = ir_KeyHash rec, ir_Fingerprint = ir_Fingerprint rec, ir_Status = ir_Status rec,
          ir_ResponseStatus = None, ir_ResponseBody = None, ir_ErrorReason = None,
          ir_LockedUntil = ir_LockedUntil rec, ir_ExpiresAt = ir_ExpiresAt rec,
          ir_CreatedAt = t, ir_UpdatedAt = t\<rparr>"
  from assms(2) Some have new: "\<forall>r \<in> set (idem_rows db). (ir_Scope r, ir_KeyHash r) \<noteq> (ir_Scope rec, ir_KeyHash rec)"
    and i: "i = idem_seq db"
    and db': "db' = db\<lparr>idem_rows := idem_rows db @ [?new], idem_seq := idem_seq db + 1\<rparr>"
    by (auto simp: sql_CreateProcessing_def list_ex_iff split: if_splits)
  have fresh: "idem_seq db \<notin> ir_ID ` set (idem_rows db)"
    using assms(1) by (auto simp: idem_ok_def list_all_iff)
  have "idem_ok db'"
    using assms(1) new fresh by (force simp: idem_ok_def db' list_all_iff)
  moreover have "sqlRow db i = None" using fresh by (simp add: sqlRow_None i)
  then have "sqlRow db' = (sqlRow db)(i \<mapsto> ?new)"
    by (auto simp: sqlRow_def db' i map_add_def fun_eq_iff split: option.splits)
  ultimately show ?thesis using assms(1) by (auto simp: Some i db' sqlIssued_def same_key_def idem_ok_def)
qed

lemma sqlRow_unique:
  assumes "idem_ok db" and "sqlRow db i = Some r" and "sqlRow db j = Some r'" and "same_key r r'"
  shows "i = j"
proof -
  have d: "distinct (map ir_ID (idem_rows db))" "inj_on (\<lambda>r. (ir_Scope r, ir_KeyHash r)) (set (idem_rows db))"
    using assms(1) by (simp_all add: idem_ok_def distinct_map)
  from assms(2,3) d(1) have "r \<in> set (idem_rows db)" "r' \<in> set (idem_rows db)" "ir_ID r = i" "ir_ID r' = j"
    by (simp_all add: sqlRow_iff)
  with assms(4) inj_onD [OF d(2), of r r'] show ?thesis by (auto simp: same_key_def)
qed

lemma sql_delete:
  assumes "idem_ok db" and "sql_DeleteExpired now limit db = (n, db')"
  shows "idem_ok db' \<and> sqlIssued db' = sqlIssued db \<and> sqlRow db' \<subseteq>\<^sub>m sqlRow db \<and>
    (\<forall>i r. sqlRow db i = Some r \<and> sqlRow db' i = None \<longrightarrow> ir_ExpiresAt r \<le> now)"
proof -
  define victims where "victims = take (nat (if limit \<le> 0 then 500 else limit)) (map ir_ID (sort_key ir_ExpiresAt
            (filter (\<lambda>r. ir_ExpiresAt r \<le> now) (idem_rows db))))"
  have db': "db' = db\<lparr>idem_rows := filter (\<lambda>r. ir_ID r \<notin> set victims) (idem_rows db)\<rparr>"
    using assms(2) by (simp add: sql_DeleteExpired_def Let_def victims_def)
  have v: "set victims \<subseteq> ir_ID ` {r \<in> set (idem_rows db). ir_ExpiresAt r \<le> now}"
    by (auto simp: victims_def dest!: in_set_takeD)
  have ok: "idem_ok db'"
    using assms(1) by (simp add: idem_ok_def db' list_all_iff distinct_map_filter)
  have d: "distinct (map ir_ID (idem_rows db))" "distinct (map ir_ID (idem_rows db'))"
    using assms(1) ok by (simp_all add: idem_ok_def)
  have "sqlRow db' i = Some r \<Longrightarrow> sqlRow db i = Some r" for i r
    using d by (auto simp: sqlRow_iff db')
  then have sub: "sqlRow db' \<subseteq>\<^sub>m sqlRow db" by (auto simp: map_le_def)
  have "ir_ExpiresAt r \<le> now" if "sqlRow db i = Some r" "sqlRow db' i = None" for i r
  proof -
    have r: "r \<in> set (idem_rows db)" "ir_ID r = i" using that(1) d by (simp_all add: sqlRow_iff)
    with that(2) have "i \<in> set victims" by (auto simp: sqlRow_None db')
    then obtain r' where "r' \<in> set (idem_rows db)" "ir_ExpiresAt r' \<le> now" "ir_ID r' = i" using v by auto
    moreover from this r d(1) have "r' = r" by (metis inj_onD distinct_map)
    ultimately show ?thesis by simp
  qed
  moreover have "sqlIssued db' = sqlIssued db" by (simp add: db' sqlIssued_def)
  ultimately show ?thesis using ok sub by blast
qed

lemma sql_get:
  assumes "idem_ok db" and "sql_GetByScopeAndKeyHash s k db = Some r"
  shows "sqlRow db (ir_ID r) = Some r \<and> ir_Scope r = s \<and> ir_KeyHash r = k"
proof -
  have "r \<in> set (idem_rows db)" "ir_Scope r = s" "ir_KeyHash r = k"
    using assms(2) by (auto simp: sql_GetByScopeAndKeyHash_def find_Some_iff)
  with assms(1) show ?thesis by (simp add: idem_ok_def sqlRow_iff)
qed

lemma reclaim_mark_keys [simp]:
  "ir_ID (reclaimRow l e t r) = ir_ID r" "ir_Scope (reclaimRow l e t r) = ir_Scope r"
  "ir_KeyHash (reclaimRow l e t r) = ir_KeyHash r" "ir_Fingerprint (reclaimRow l e t r) = ir_Fingerprint r"
  "ir_ID (succeedRow st b e t r) = ir_ID r" "ir_Scope (succeedRow st b e t r) = ir_Scope r"
  "ir_KeyHash (succeedRow st b e t r) = ir_KeyHash r" "ir_Fingerprint (succeedRow st b e t r) = ir_Fingerprint r"
  "ir_ID (failRow x l e t r) = ir_ID r" "ir_Scope (failRow x l e t r) = ir_Scope r"
  "ir_KeyHash (failRow x l e t r) = ir_KeyHash r" "ir_Fingerprint (failRow x l e t r) = ir_Fingerprint r"
  by (simp_all add: reclaimRow_def succeedRow_def failRow_def)

lemma sql_mark:
  assumes "idem_ok db" and "\<And>r. ir_ID (f r) = ir_ID r \<and> ir_Scope (f r) = ir_Scope r \<and> ir_KeyHash (f r) = ir_KeyHash r"
  shows "idem_ok (updateWhere (\<lambda>r. ir_ID r = i) f db) \<and>
    sqlIssued (updateWhere (\<lambda>r. ir_ID r = i) f db) = sqlIssued db \<and>
    sqlRow (updateWhere (\<lambda>r. ir_ID r = i) f db) = (sqlRow db)(i := map_option f (sqlRow db i))"
  using updateWhere_id [OF assms, of _ i "\<lambda>_. True"] by (auto simp: fun_eq_iff)

interpretation sql_store: idempotency_store sqlRepo idem_ok sqlRow sqlIssued
proof (unfold_locales, goal_cases)
  case (1 db i r)
  then show ?case by (auto simp: idem_ok_def sqlRow_iff sqlIssued_def list_all_iff)
next
  case (2 db i r j r')
  then show ?case by (rule sqlRow_unique)
next
  case (3 db rec t i db')
  then show ?case using sql_create by fastforce
next
  case (4 db rec t db')
  then show ?case using sql_create by fastforce
next
  case (5 db s k r)
  then show ?case by (intro sql_get) simp_all
next
  case (6 db i st now l e t taken db')
  then show ?case
    using updateWhere_id [OF 6(1), of "reclaimRow l e t" db' i "reclaimable st now"]
    by (simp add: sql_TryReclaim_def Let_def)
next
  case (7 db i st body e t db')
  then show ?case using sql_mark [OF 7(1)] by (auto simp: sql_MarkSucceeded_def)
next
  case (8 db i reason l e t db')
  then show ?case using sql_mark [OF 8(1)] by (auto simp: sql_MarkFailedRetryable_def)
next
  case (9 db now limit n db')
  then show ?case by (simp add: sql_delete)
qed

end
