(* ===== verification/Idempotency.thy ===== *)
theory Idempotency
  imports IdempotencyStore
begin

section \<open>The idempotency coordinator\<close>

text \<open>
  \<open>service/idempotency.go\<close>: a request with an idempotency key is executed by the one caller that
  creates or reclaims the key's record; later requests with the same key get the stored response,
  or an error while it is running, in its backoff, or when the payload differs.

  \<open>Execute\<close> makes up to five calls to the store and runs the caller's function in between, and other
  requests run at the same time.  It is therefore modelled as a sequence of steps: a value of type
  \<open>pc\<close> is the call that \<open>Execute\<close> makes next together with the local variables it still needs, and
  each \<open>after...\<close> function is the code from the return of a call up to the next one.

  The store's calls may fail: a call that was \<open>Refused\<close> has no effect, a call with \<open>LostReply\<close> took
  effect but the caller sees an error.  JSON encoding (\<open>encoding/json\<close>), SHA-256 and the redaction of
  \<open>util/logredact\<close> are the record \<open>idem_codec\<close>.
\<close>

definition ErrIdempotencyKeyRequired :: go_error where
  "ErrIdempotencyKeyRequired = BadRequest ''IDEMPOTENCY_KEY_REQUIRED'' ''idempotency key is required''"
definition ErrIdempotencyKeyInvalid :: go_error where
  "ErrIdempotencyKeyInvalid = BadRequest ''IDEMPOTENCY_KEY_INVALID'' ''idempotency key is invalid''"
definition ErrIdempotencyKeyConflict :: go_error where
  "ErrIdempotencyKeyConflict =
     Conflict ''IDEMPOTENCY_KEY_CONFLICT'' ''idempotency key reused with different payload''"
definition ErrIdempotencyInProgress :: go_error where
  "ErrIdempotencyInProgress =
     Conflict ''IDEMPOTENCY_IN_PROGRESS'' ''idempotent request is still processing''"
definition ErrIdempotencyRetryBackoff :: go_error where
  "ErrIdempotencyRetryBackoff =
     Conflict ''IDEMPOTENCY_RETRY_BACKOFF'' ''idempotent request is in retry backoff window''"
definition ErrIdempotencyStoreUnavail :: go_error where
  "ErrIdempotencyStoreUnavail =
     ServiceUnavailable ''IDEMPOTENCY_STORE_UNAVAILABLE'' ''idempotency store unavailable''"
definition ErrIdempotencyInvalidPayload :: go_error where
  "ErrIdempotencyInvalidPayload =
     BadRequest ''IDEMPOTENCY_PAYLOAD_INVALID'' ''failed to normalize request payload''"

lemmas idem_errors = ErrIdempotencyKeyRequired_def ErrIdempotencyKeyInvalid_def
  ErrIdempotencyKeyConflict_def ErrIdempotencyInProgress_def ErrIdempotencyRetryBackoff_def
  ErrIdempotencyStoreUnavail_def ErrIdempotencyInvalidPayload_def

record 'v idem_codec =
  ic_marshal :: "'v \<Rightarrow> go_error + string"
  ic_unmarshal :: "string \<Rightarrow> go_error + 'v"
  ic_emptyObject :: 'v
  ic_redact :: "string \<Rightarrow> string"
  ic_sha256hex :: "string \<Rightarrow> string"

record IdempotencyConfig =
  DefaultTTL :: int
  SystemOperationTTL :: int
  ProcessingTimeout :: int
  FailedRetryBackoff :: int
  MaxStoredResponseLen :: int
  ObserveOnly :: bool

definition idem_second :: int where "idem_second = 1000000000"

definition DefaultIdempotencyConfig :: IdempotencyConfig where
  "DefaultIdempotencyConfig =
     \<lparr>DefaultTTL = 24 * 3600 * idem_second, SystemOperationTTL = 3600 * idem_second,
      ProcessingTimeout = 30 * idem_second, FailedRetryBackoff = 5 * idem_second,
      MaxStoredResponseLen = 64 * 1024, ObserveOnly = True\<rparr>"

definition DefaultWriteIdempotencyTTL :: "IdempotencyConfig option \<Rightarrow> int" where
  "DefaultWriteIdempotencyTTL coordinator =
     (case coordinator of
        Some cfg \<Rightarrow> (if DefaultTTL cfg > 0 then DefaultTTL cfg else DefaultTTL DefaultIdempotencyConfig)
      | None \<Rightarrow> DefaultTTL DefaultIdempotencyConfig)"

definition DefaultSystemOperationIdempotencyTTL :: "IdempotencyConfig option \<Rightarrow> int" where
  "DefaultSystemOperationIdempotencyTTL coordinator =
     (case coordinator of
        Some cfg \<Rightarrow> (if SystemOperationTTL cfg > 0 then SystemOperationTTL cfg
                       else SystemOperationTTL DefaultIdempotencyConfig)
      | None \<Rightarrow> SystemOperationTTL DefaultIdempotencyConfig)"

record 'v IdempotencyExecuteOptions =
  opt_Scope :: string
  opt_ActorScope :: string
  opt_Method :: string
  opt_Route :: string
  opt_IdempotencyKey :: string
  opt_Payload :: 'v
  opt_TTL :: int
  opt_RequireKey :: bool

record 'v IdempotencyExecuteResult =
  ier_Data :: 'v
  ier_Replayed :: bool

subsection \<open>Keys, fingerprints and stored responses\<close>

text \<open>The rune check: a rune between 33 and 126 is a single byte, and every other byte belongs to a rune
  outside that range.\<close>

definition NormalizeIdempotencyKey :: "string \<Rightarrow> go_error + string" where
  "NormalizeIdempotencyKey raw =
     (let key = trim_space raw in
      if key = '''' then Inr ''''
      else if length key > 128 then Inl ErrIdempotencyKeyInvalid
      else if list_ex (\<lambda>c. of_char c < (33 :: nat) \<or> of_char c > (126 :: nat)) key
      then Inl ErrIdempotencyKeyInvalid
      else Inr key)"

definition HashIdempotencyKey :: "'v idem_codec \<Rightarrow> string \<Rightarrow> string" where
  "HashIdempotencyKey J key = ic_sha256hex J key"

text \<open>\<open>strings.ToUpper\<close> of an HTTP method, which is ASCII.\<close>

definition ascii_upper :: "char \<Rightarrow> char" where
  "ascii_upper c = (if of_char c \<in> {97..122 :: nat} then char_of (of_char c - 32 :: nat) else c)"

definition BuildIdempotencyFingerprint ::
  "'v idem_codec \<Rightarrow> string \<Rightarrow> string \<Rightarrow> string \<Rightarrow> 'v \<Rightarrow> go_error + string" where
  "BuildIdempotencyFingerprint J method0 route0 actorScope0 payload =
     (let method = (if method0 = '''' then ''POST'' else method0);
          route = (if route0 = '''' then ''/'' else route0);
          actorScope = (if actorScope0 = '''' then ''anonymous'' else actorScope0)
      in case ic_marshal J payload of
           Inl err \<Rightarrow> Inl (WithCause ErrIdempotencyInvalidPayload err)
         | Inr raw \<Rightarrow> Inr (ic_sha256hex J (map ascii_upper method @ [CHR 0x0A] @ route @ [CHR 0x0A] @
              actorScope @ [CHR 0x0A] @ raw)))"

definition RetryAfterSecondsFromError :: "go_error \<Rightarrow> int" where
  "RetryAfterSecondsFromError err =
     (case asApplicationError err of
        None \<Rightarrow> 0
      | Some (st, _) \<Rightarrow>
          (case sMetadata st of
             None \<Rightarrow> 0
           | Some md \<Rightarrow>
               (let v = trim_space (case md ''retry_after'' of None \<Rightarrow> '''' | Some x \<Rightarrow> x)
                in if v = '''' then 0
                   else (case atoi v of None \<Rightarrow> 0 | Some seconds \<Rightarrow> (if seconds \<le> 0 then 0 else seconds)))))"

text \<open>\<open>int(d.Seconds())\<close> truncates towards zero; below zero the result is replaced by 1 anyway.\<close>

definition conflictWithRetryAfter :: "go_error \<Rightarrow> int option \<Rightarrow> int \<Rightarrow> go_error" where
  "conflictWithRetryAfter base lockedUntil now =
     (case lockedUntil of
        None \<Rightarrow> base
      | Some l \<Rightarrow>
          (let sec = (if l \<ge> now then (l - now) div idem_second else - ((now - l) div idem_second));
               sec' = (if sec \<le> 0 then 1 else sec)
           in WithMetadata base (Some [''retry_after'' \<mapsto> itoa sec'])))"

definition truncateUTF8 :: "string \<Rightarrow> int \<Rightarrow> string" where
  "truncateUTF8 s maxBytes =
     (if maxBytes \<le> 0 \<or> int (length s) \<le> maxBytes then s else trim_to_utf8 (take (nat maxBytes) s))"

definition marshalStoredResponse :: "'v idem_codec \<Rightarrow> IdempotencyConfig \<Rightarrow> 'v \<Rightarrow> go_error + string" where
  "marshalStoredResponse J cfg data =
     (case ic_marshal J data of
        Inl err \<Rightarrow> Inl err
      | Inr raw \<Rightarrow>
          (let redacted = ic_redact J raw in
           Inr (if MaxStoredResponseLen cfg > 0 \<and> int (length redacted) > MaxStoredResponseLen cfg
                then truncateUTF8 redacted (MaxStoredResponseLen cfg) @ ''...(truncated)''
                else redacted)))"

definition decodeStoredResponse :: "'v idem_codec \<Rightarrow> string option \<Rightarrow> go_error + 'v" where
  "decodeStoredResponse J stored =
     (case stored of
        None \<Rightarrow> Inr (ic_emptyObject J)
      | Some s \<Rightarrow>
          (if trim_space s = '''' then Inr (ic_emptyObject J)
           else (case ic_unmarshal J s of
                   Inl err \<Rightarrow> Inl (OtherError ''decode stored response'' (Some err))
                 | Inr out \<Rightarrow> Inr out)))"

subsection \<open>Execute, step by step\<close>

text \<open>The local variables computed before the first store call; \<open>f_now\<close> is \<open>now\<close>.\<close>

record idem_frame =
  f_scope :: string
  f_keyHash :: string
  f_fingerprint :: string
  f_now :: int
  f_lockedUntil :: int
  f_expiresAt :: int

datatype claim_mode = NewClaim | ExpiredReclaim | Reclaim

datatype 'v pc =
    ExecutingPlain
  | Creating idem_frame
  | Getting idem_frame
  | ReclaimingExpired idem_frame IdempotencyRecord
  | GettingLatest idem_frame
  | Reclaiming idem_frame IdempotencyRecord
  | Executing idem_frame claim_mode int
  | MarkingFailed idem_frame int go_error string int
  | MarkingSucceeded idem_frame int 'v string
  | Returned "go_error + 'v IdempotencyExecuteResult"

definition storeUnavail :: "go_error option \<Rightarrow> 'v pc" where
  "storeUnavail cause = Returned (Inl (case cause of
     None \<Rightarrow> ErrIdempotencyStoreUnavail | Some e \<Rightarrow> WithCause ErrIdempotencyStoreUnavail e))"

definition beginExecute ::
  "'v idem_codec \<Rightarrow> IdempotencyConfig \<Rightarrow> bool \<Rightarrow> bool \<Rightarrow> 'v IdempotencyExecuteOptions \<Rightarrow> int \<Rightarrow> 'v pc" where
  "beginExecute J cfg hasExecutor hasRepo opts now =
     (if \<not> hasExecutor
      then Returned (Inl (InternalServer ''IDEMPOTENCY_EXECUTOR_NIL'' ''idempotency executor is nil''))
      else case NormalizeIdempotencyKey (opt_IdempotencyKey opts) of
        Inl err \<Rightarrow> Returned (Inl err)
      | Inr key \<Rightarrow>
          (if key = '''' then
             (if opt_RequireKey opts \<and> \<not> ObserveOnly cfg then Returned (Inl ErrIdempotencyKeyRequired)
              else ExecutingPlain)
           else if \<not> hasRepo then storeUnavail None
           else if opt_Scope opts = '''' then
             Returned (Inl (BadRequest ''IDEMPOTENCY_SCOPE_REQUIRED'' ''idempotency scope is required''))
           else case BuildIdempotencyFingerprint J (opt_Method opts) (opt_Route opts)
                       (opt_ActorScope opts) (opt_Payload opts) of
             Inl err \<Rightarrow> Returned (Inl err)
           | Inr fingerprint \<Rightarrow>
               (let ttl = (if opt_TTL opts \<le> 0 then DefaultTTL cfg else opt_TTL opts) in
                Creating \<lparr>f_scope = opt_Scope opts, f_keyHash = HashIdempotencyKey J key,
                  f_fingerprint = fingerprint, f_now = now,
                  f_lockedUntil = now + ProcessingTimeout cfg, f_expiresAt = now + ttl\<rparr>)))"

definition newRecord :: "idem_frame \<Rightarrow> IdempotencyRecord" where
  "newRecord f = \<lparr>ir_ID = 0, ir_Scope = f_scope f, ir_KeyHash = f_keyHash f,
     ir_Fingerprint = f_fingerprint f, ir_Status = IdempotencyStatusProcessing,
     ir_ResponseStatus = None, ir_ResponseBody = None, ir_ErrorReason = None,
     ir_LockedUntil = Some (f_lockedUntil f), ir_ExpiresAt = f_expiresAt f,
     ir_CreatedAt = 0, ir_UpdatedAt = 0\<rparr>"

text \<open>The check that a record id is known, just before the caller's function runs.\<close>

definition claimed :: "idem_frame \<Rightarrow> claim_mode \<Rightarrow> int \<Rightarrow> 'v pc" where
  "claimed f mode i = (if i = 0 then storeUnavail None else Executing f mode i)"

definition afterCreate :: "idem_frame \<Rightarrow> go_error + int option \<Rightarrow> 'v pc" where
  "afterCreate f res =
     (case res of
        Inl err \<Rightarrow> storeUnavail (Some err)
      | Inr (Some i) \<Rightarrow> claimed f NewClaim i
      | Inr None \<Rightarrow> Getting f)"

definition dispatchStatus :: "'v idem_codec \<Rightarrow> idem_frame \<Rightarrow> IdempotencyRecord \<Rightarrow> 'v pc" where
  "dispatchStatus J f existing =
     (if ir_Status existing = IdempotencyStatusSucceeded then
        (case decodeStoredResponse J (ir_ResponseBody existing) of
           Inl err \<Rightarrow> storeUnavail (Some err)
         | Inr data \<Rightarrow> Returned (Inr \<lparr>ier_Data = data, ier_Replayed = True\<rparr>))
      else if ir_Status existing = IdempotencyStatusProcessing then
        Returned (Inl (conflictWithRetryAfter ErrIdempotencyInProgress (ir_LockedUntil existing) (f_now f)))
      else if ir_Status existing = IdempotencyStatusFailedRetryable then
        (case ir_LockedUntil existing of
           None \<Rightarrow> Reclaiming f existing
         | Some l \<Rightarrow>
             (if l > f_now f
              then Returned (Inl (conflictWithRetryAfter ErrIdempotencyRetryBackoff (Some l) (f_now f)))
              else Reclaiming f existing))
      else Returned (Inl ErrIdempotencyKeyConflict))"

definition afterGet :: "'v idem_codec \<Rightarrow> idem_frame \<Rightarrow> go_error + IdempotencyRecord option \<Rightarrow> 'v pc" where
  "afterGet J f res =
     (case res of
        Inl err \<Rightarrow> storeUnavail (Some err)
      | Inr None \<Rightarrow> storeUnavail None
      | Inr (Some existing) \<Rightarrow>
          (if ir_Fingerprint existing \<noteq> f_fingerprint f then Returned (Inl ErrIdempotencyKeyConflict)
           else if \<not> ir_ExpiresAt existing > f_now f then ReclaimingExpired f existing
           else dispatchStatus J f existing))"

definition afterReclaimExpired :: "idem_frame \<Rightarrow> IdempotencyRecord \<Rightarrow> go_error + bool \<Rightarrow> 'v pc" where
  "afterReclaimExpired f existing res =
     (case res of
        Inl err \<Rightarrow> storeUnavail (Some err)
      | Inr taken \<Rightarrow> (if taken then claimed f ExpiredReclaim (ir_ID existing) else GettingLatest f))"

definition afterGetLatest :: "'v idem_codec \<Rightarrow> idem_frame \<Rightarrow> go_error + IdempotencyRecord option \<Rightarrow> 'v pc" where
  "afterGetLatest J f res =
     (case res of
        Inl err \<Rightarrow> storeUnavail (Some err)
      | Inr None \<Rightarrow> storeUnavail None
      | Inr (Some latest) \<Rightarrow>
          (if ir_Fingerprint latest \<noteq> f_fingerprint f then Returned (Inl ErrIdempotencyKeyConflict)
           else dispatchStatus J f latest))"

definition afterReclaim :: "idem_frame \<Rightarrow> IdempotencyRecord \<Rightarrow> go_error + bool \<Rightarrow> 'v pc" where
  "afterReclaim f existing res =
     (case res of
        Inl err \<Rightarrow> storeUnavail (Some err)
      | Inr taken \<Rightarrow>
          (if \<not> taken
           then Returned (Inl (conflictWithRetryAfter ErrIdempotencyInProgress (ir_LockedUntil existing) (f_now f)))
           else claimed f Reclaim (ir_ID existing)))"

text \<open>The return of the caller's function at time \<open>t\<close>.\<close>

definition afterExecute ::
  "'v idem_codec \<Rightarrow> IdempotencyConfig \<Rightarrow> idem_frame \<Rightarrow> int \<Rightarrow> int \<Rightarrow> go_error + 'v \<Rightarrow> 'v pc" where
  "afterExecute J cfg f i t res =
     (case res of
        Inl execErr \<Rightarrow>
          (let reason0 = Reason (Some execErr);
               reason = (if reason0 = '''' then ''EXECUTION_FAILED'' else reason0)
           in MarkingFailed f i execErr reason (t + FailedRetryBackoff cfg))
      | Inr data \<Rightarrow>
          (case marshalStoredResponse J cfg data of
             Inl err \<Rightarrow> storeUnavail (Some err)
           | Inr storedBody \<Rightarrow> MarkingSucceeded f i data storedBody))"

definition afterMarkSucceeded :: "'v \<Rightarrow> go_error + unit \<Rightarrow> 'v pc" where
  "afterMarkSucceeded data res =
     (case res of
        Inl err \<Rightarrow> storeUnavail (Some err)
      | Inr _ \<Rightarrow> Returned (Inr \<lparr>ier_Data = data, ier_Replayed = False\<rparr>))"

subsection \<open>Steps\<close>

text \<open>One store call at time \<open>t\<close> and the code that follows it.\<close>

fun storeStep :: "'v idem_codec \<Rightarrow> 'db idem_repo \<Rightarrow> int \<Rightarrow> fault \<Rightarrow> 'v pc \<Rightarrow> 'db \<Rightarrow> 'v pc \<times> 'db" where
  "storeStep J R t flt (Creating f) db =
     map_prod (afterCreate f) id (faulty flt (CreateProcessing R (newRecord f) t) db)"
| "storeStep J R t flt (Getting f) db =
     map_prod (afterGet J f) id
       (faulty flt (\<lambda>db. (GetByScopeAndKeyHash R (f_scope f) (f_keyHash f) db, db)) db)"
| "storeStep J R t flt (ReclaimingExpired f existing) db =
     map_prod (afterReclaimExpired f existing) id
       (faulty flt (TryReclaim R (ir_ID existing) (ir_Status existing) (f_now f) (f_lockedUntil f)
          (f_expiresAt f) t) db)"
| "storeStep J R t flt (GettingLatest f) db =
     map_prod (afterGetLatest J f) id
       (faulty flt (\<lambda>db. (GetByScopeAndKeyHash R (f_scope f) (f_keyHash f) db, db)) db)"
| "storeStep J R t flt (Reclaiming f existing) db =
     map_prod (afterReclaim f existing) id
       (faulty flt (TryReclaim R (ir_ID existing) IdempotencyStatusFailedRetryable (f_now f)
          (f_lockedUntil f) (f_expiresAt f) t) db)"
| "storeStep J R t flt (MarkingFailed f i execErr reason backoffUntil) db =
     (Returned (Inl execErr),
      snd (faulty flt (\<lambda>db. ((), MarkFailedRetryable R i reason backoffUntil (f_expiresAt f) t db)) db))"
| "storeStep J R t flt (MarkingSucceeded f i data body) db =
     map_prod (afterMarkSucceeded data) id
       (faulty flt (\<lambda>db. ((), MarkSucceeded R i 200 body (f_expiresAt f) t db)) db)"
| "storeStep J R t flt pc db = (pc, db)"

fun awaitsStore :: "'v pc \<Rightarrow> bool" where
  "awaitsStore ExecutingPlain = False"
| "awaitsStore (Executing f mode i) = False"
| "awaitsStore (Returned r) = False"
| "awaitsStore _ = True"

end
