(* ===== verification/IdempotencyConcurrency.thy ===== *)
theory IdempotencyConcurrency
  imports Idempotency
begin

section \<open>Concurrent idempotent requests\<close>

text \<open>
  Any number of requests run \<open>Execute\<close> at the same time on one store, interleaved at their store
  calls and at the return of the caller's function; the clock advances in between, the cleanup
  service of \<open>service/idempotency_cleanup_service.go\<close> deletes expired records, and a request may
  vanish with its process.  \<open>w_effects\<close> is a log of the executions of callers' functions that
  returned, the thing idempotency is about.

  All instances of the gateway are assumed to read the same clock.
\<close>

record idem_effect =
  ef_scope :: string
  ef_keyHash :: string
  ef_mode :: claim_mode
  ef_at :: int
  ef_expires :: int
  ef_ok :: bool

record ('v, 'db) idem_world =
  w_clock :: int
  w_db :: 'db
  w_clients :: "'v pc list"
  w_effects :: "idem_effect list"

text \<open>\<open>NewIdempotencyCleanupService\<close>: interval (seconds) and batch size, from the configuration.\<close>

definition NewIdempotencyCleanupService :: "(int \<times> int) option \<Rightarrow> int \<times> int" where
  "NewIdempotencyCleanupService cfg =
     (case cfg of
        None \<Rightarrow> (60, 500)
      | Some (interval, batch) \<Rightarrow> (if interval > 0 then interval else 60, if batch > 0 then batch else 500))"

definition cleanupOnce :: "'db idem_repo \<Rightarrow> int \<Rightarrow> int \<Rightarrow> 'db \<Rightarrow> 'db" where
  "cleanupOnce R now batch db = snd (DeleteExpired R now batch db)"

definition effectOf :: "idem_frame \<Rightarrow> claim_mode \<Rightarrow> int \<Rightarrow> go_error + 'v \<Rightarrow> idem_effect" where
  "effectOf f mode t res = \<lparr>ef_scope = f_scope f, ef_keyHash = f_keyHash f, ef_mode = mode, ef_at = t,
     ef_expires = f_expiresAt f, ef_ok = (case res of Inl _ \<Rightarrow> False | Inr _ \<Rightarrow> True)\<rparr>"

inductive idem_step ::
  "'v idem_codec \<Rightarrow> IdempotencyConfig \<Rightarrow> 'db idem_repo \<Rightarrow> ('v, 'db) idem_world \<Rightarrow> ('v, 'db) idem_world \<Rightarrow> bool"
  for J cfg R where
  arrive: "idem_step J cfg R w
     (w\<lparr>w_clients := w_clients w @ [beginExecute J cfg True True opts (w_clock w)]\<rparr>)"
| tick: "w_clock w \<le> t \<Longrightarrow> idem_step J cfg R w (w\<lparr>w_clock := t\<rparr>)"
| store: "a < length (w_clients w) \<Longrightarrow> awaitsStore (w_clients w ! a) \<Longrightarrow>
     storeStep J R (w_clock w) flt (w_clients w ! a) (w_db w) = (pc', db') \<Longrightarrow>
     idem_step J cfg R w (w\<lparr>w_db := db', w_clients := (w_clients w)[a := pc']\<rparr>)"
| execute: "a < length (w_clients w) \<Longrightarrow> w_clients w ! a = Executing f mode i \<Longrightarrow>
     idem_step J cfg R w (w\<lparr>w_clients := (w_clients w)[a := afterExecute J cfg f i (w_clock w) res],
       w_effects := w_effects w @ [effectOf f mode (w_clock w) res]\<rparr>)"
| vanish: "a < length (w_clients w) \<Longrightarrow>
     idem_step J cfg R w (w\<lparr>w_clients := (w_clients w)[a := Returned (Inl err)]\<rparr>)"
| cleanup: "now \<le> w_clock w \<Longrightarrow> idem_step J cfg R w (w\<lparr>w_db := cleanupOnce R now batch (w_db w)\<rparr>)"

inductive_cases idem_stepE: "idem_step J cfg R w w'"

subsection \<open>Who holds a record, who is about to claim one\<close>

fun holder :: "'v pc \<Rightarrow> (idem_frame \<times> int) option" where
  "holder (Executing f mode i) = Some (f, i)"
| "holder (MarkingFailed f i err reason backoffUntil) = Some (f, i)"
| "holder (MarkingSucceeded f i data body) = Some (f, i)"
| "holder _ = None"

fun claiming :: "'v pc \<Rightarrow> idem_frame option" where
  "claiming (Creating f) = Some f"
| "claiming (ReclaimingExpired f existing) = Some f"
| "claiming (Reclaiming f existing) = Some f"
| "claiming _ = None"

fun readRecord :: "'v pc \<Rightarrow> (idem_frame \<times> IdempotencyRecord) option" where
  "readRecord (ReclaimingExpired f existing) = Some (f, existing)"
| "readRecord (Reclaiming f existing) = Some (f, existing)"
| "readRecord _ = None"

fun frameOf :: "'v pc \<Rightarrow> idem_frame option" where
  "frameOf (Creating f) = Some f"
| "frameOf (Getting f) = Some f"
| "frameOf (ReclaimingExpired f existing) = Some f"
| "frameOf (GettingLatest f) = Some f"
| "frameOf (Reclaiming f existing) = Some f"
| "frameOf _ = None"

text \<open>
  A state is timely if no request is late: one that is about to claim a record does so before the
  lock it asks for would have run out, and one that executes, or is about to store its outcome, does
  so before its record expires.
\<close>

definition on_time :: "int \<Rightarrow> 'v pc \<Rightarrow> bool" where
  "on_time t pc \<longleftrightarrow>
     (case claiming pc of None \<Rightarrow> True | Some f \<Rightarrow> t < f_lockedUntil f) \<and>
     (case holder pc of None \<Rightarrow> True | Some (f, _) \<Rightarrow> t < f_expiresAt f)"

definition timely :: "('v, 'db) idem_world \<Rightarrow> bool" where
  "timely w \<longleftrightarrow> list_all (on_time (w_clock w)) (w_clients w)"

text \<open>
  A request that read an expired record reclaims it by id, status and lock; \<open>outdated\<close> says that it
  would take over a record that is no longer expired, because another request renewed it since.
\<close>

definition outdated :: "('db \<Rightarrow> int \<rightharpoonup> IdempotencyRecord) \<Rightarrow> 'db \<Rightarrow> 'v pc \<Rightarrow> bool" where
  "outdated rowAt db pc =
     (case pc of
        ReclaimingExpired f existing \<Rightarrow>
          (case rowAt db (ir_ID existing) of
             None \<Rightarrow> False
           | Some r \<Rightarrow> reclaimable (ir_Status existing) (f_now f) r \<and> f_now f < ir_ExpiresAt r)
      | _ \<Rightarrow> False)"

definition steady :: "('db \<Rightarrow> int \<rightharpoonup> IdempotencyRecord) \<Rightarrow> ('v, 'db) idem_world \<Rightarrow> bool" where
  "steady rowAt w \<longleftrightarrow> timely w \<and> list_all (\<lambda>pc. \<not> outdated rowAt (w_db w) pc) (w_clients w)"

text \<open>Runs in which every step is taken in a state that satisfies a condition.\<close>

definition idem_runs ::
  "'v idem_codec \<Rightarrow> IdempotencyConfig \<Rightarrow> 'db idem_repo \<Rightarrow> (('v, 'db) idem_world \<Rightarrow> bool)
   \<Rightarrow> ('v, 'db) idem_world \<Rightarrow> ('v, 'db) idem_world \<Rightarrow> bool" where
  "idem_runs J cfg R P = (\<lambda>w w'. P w \<and> idem_step J cfg R w w')\<^sup>*\<^sup>*"

subsection \<open>The invariant\<close>

definition keyed :: "idem_frame \<Rightarrow> IdempotencyRecord \<Rightarrow> bool" where
  "keyed f r \<longleftrightarrow> ir_Scope r = f_scope f \<and> ir_KeyHash r = f_keyHash f \<and> ir_Fingerprint r = f_fingerprint f"

definition held :: "(int \<rightharpoonup> IdempotencyRecord) \<Rightarrow> idem_frame \<Rightarrow> int \<Rightarrow> bool" where
  "held rows f i \<longleftrightarrow> (\<exists>r. rows i = Some r \<and> keyed f r \<and> ir_Status r = IdempotencyStatusProcessing \<and>
     ir_LockedUntil r = Some (f_lockedUntil f) \<and> ir_ExpiresAt r = f_expiresAt f)"

definition client_ok :: "(int \<rightharpoonup> IdempotencyRecord) \<Rightarrow> int set \<Rightarrow> int \<Rightarrow> 'v pc \<Rightarrow> bool" where
  "client_ok rows ids t pc \<longleftrightarrow>
     (\<forall>f. frameOf pc = Some f \<longrightarrow> f_now f \<le> t) \<and>
     (\<forall>f i. holder pc = Some (f, i) \<longrightarrow> i \<in> ids \<and> held rows f i) \<and>
     (\<forall>f ex. readRecord pc = Some (f, ex) \<longrightarrow> ir_ID ex \<in> ids \<and>
        (\<forall>r. rows (ir_ID ex) = Some r \<longrightarrow> keyed f r))"

definition compatible :: "'v pc \<Rightarrow> 'v pc \<Rightarrow> bool" where
  "compatible pc pc' \<longleftrightarrow>
     (\<forall>f i g j. holder pc = Some (f, i) \<and> holder pc' = Some (g, j) \<longrightarrow> i \<noteq> j) \<and>
     (\<forall>f ex g. pc = ReclaimingExpired f ex \<and> holder pc' = Some (g, ir_ID ex) \<and>
        ir_Status ex = IdempotencyStatusProcessing \<longrightarrow> f_now f < f_lockedUntil g)"

definition clients_ok :: "(int \<rightharpoonup> IdempotencyRecord) \<Rightarrow> int set \<Rightarrow> int \<Rightarrow> 'v pc list \<Rightarrow> bool" where
  "clients_ok rows ids t pcs \<longleftrightarrow>
     (\<forall>pc \<in> set pcs. client_ok rows ids t pc) \<and>
     (\<forall>a < length pcs. \<forall>b < length pcs. a \<noteq> b \<longrightarrow> compatible (pcs ! a) (pcs ! b))"

text \<open>How a store may change under requests that hold nothing of it.\<close>

definition evolves :: "(int \<rightharpoonup> IdempotencyRecord) \<Rightarrow> int set \<Rightarrow> (int \<rightharpoonup> IdempotencyRecord) \<Rightarrow> int set \<Rightarrow> bool" where
  "evolves rows ids rows' ids' \<longleftrightarrow> ids \<subseteq> ids' \<and>
     (\<forall>i \<in> ids. \<forall>r'. rows' i = Some r' \<longrightarrow>
        (\<exists>r. rows i = Some r \<and> same_key r r' \<and> ir_Fingerprint r' = ir_Fingerprint r))"

lemma client_ok_evolves:
  assumes "client_ok rows ids t pc" and "evolves rows ids rows' ids'"
    and "\<And>f i. holder pc = Some (f, i) \<Longrightarrow> rows' i = rows i"
  shows "client_ok rows' ids' t pc"
proof -
  have "i \<in> ids' \<and> held rows' f i" if "holder pc = Some (f, i)" for f i
    using that assms by (auto simp: client_ok_def evolves_def held_def)
  moreover have "ir_ID ex \<in> ids' \<and> (\<forall>r. rows' (ir_ID ex) = Some r \<longrightarrow> keyed f r)"
    if rd: "readRecord pc = Some (f, ex)" for f ex
  proof -
    have ex: "ir_ID ex \<in> ids" "\<And>r. rows (ir_ID ex) = Some r \<Longrightarrow> keyed f r"
      using rd assms(1) by (auto simp: client_ok_def)
    have "keyed f r'" if "rows' (ir_ID ex) = Some r'" for r'
    proof -
      from that ex(1) assms(2) obtain r where "rows (ir_ID ex) = Some r" "same_key r r'"
        "ir_Fingerprint r' = ir_Fingerprint r" unfolding evolves_def by blast
      with ex(2) [of r] show ?thesis by (auto simp: keyed_def same_key_def)
    qed
    with ex(1) assms(2) show ?thesis by (auto simp: evolves_def)
  qed
  ultimately show ?thesis using assms(1) by (auto simp: client_ok_def)
qed

text \<open>One request moves on.\<close>

lemma clients_ok_update:
  assumes "clients_ok rows ids t pcs" and "evolves rows ids rows' ids'" and "a < length pcs"
    and "client_ok rows' ids' t pc'"
    and "\<And>b f i. b < length pcs \<Longrightarrow> b \<noteq> a \<Longrightarrow> holder (pcs ! b) = Some (f, i) \<Longrightarrow> rows' i = rows i"
    and "\<And>b. b < length pcs \<Longrightarrow> b \<noteq> a \<Longrightarrow> compatible pc' (pcs ! b) \<and> compatible (pcs ! b) pc'"
  shows "clients_ok rows' ids' t (pcs[a := pc'])"
proof -
  have "client_ok rows' ids' t (pcs ! b)" if "b < length pcs" "b \<noteq> a" for b
    using client_ok_evolves [OF _ assms(2), of t "pcs ! b"] assms(1,5) that by (simp add: clients_ok_def)
  then have "\<forall>pc \<in> set (pcs[a := pc']). client_ok rows' ids' t pc"
    using assms(3,4) by (force simp: in_set_conv_nth nth_list_update)
  moreover have "compatible (pcs[a := pc'] ! b) (pcs[a := pc'] ! c)"
    if "b < length pcs" "c < length pcs" "b \<noteq> c" for b c
    using that assms(1,3,6) by (auto simp: clients_ok_def nth_list_update)
  ultimately show ?thesis by (simp add: clients_ok_def)
qed

lemma evolves_refl [simp]: "evolves rows ids rows ids"
  by (auto simp: evolves_def same_key_def)

lemma evolves_more: "ids \<subseteq> ids' \<Longrightarrow> evolves rows ids rows ids'"
  by (auto simp: evolves_def same_key_def)

lemma evolves_upd:
  assumes "\<And>r. same_key r (g r) \<and> ir_Fingerprint (g r) = ir_Fingerprint r"
  shows "evolves rows ids (rows(i := map_option g (rows i))) ids"
  using assms by (auto simp: evolves_def same_key_def)

lemma row_changes_keyed [simp]:
  "same_key r (reclaimRow l e t r)" "same_key r (succeedRow st b e t r)" "same_key r (failRow x l e t r)"
  by (simp_all add: same_key_def)

end
