(* ===== verification/IdempotencyInvariant.thy ===== *)
theory IdempotencyInvariant
  imports IdempotencyConcurrency
begin

section \<open>The invariant of concurrent idempotent requests\<close>

text \<open>
  Every step keeps the invariant: a request that executes holds its record, whose row still is the
  one it claimed, and no two requests hold the same record.  The second invariant says that while a
  successful execution has not expired, its record is there and nobody executes on it.  Both are
  proved in the locale of the store's laws, once for all stores.
\<close>

definition idem_inv :: "('db \<Rightarrow> bool) \<Rightarrow> ('db \<Rightarrow> int \<rightharpoonup> IdempotencyRecord) \<Rightarrow> ('db \<Rightarrow> int set)
  \<Rightarrow> ('v, 'db) idem_world \<Rightarrow> bool" where
  "idem_inv ok rowAt issued w \<longleftrightarrow> ok (w_db w) \<and>
     clients_ok (rowAt (w_db w)) (issued (w_db w)) (w_clock w) (w_clients w)"

lemma client_ok_Returned [simp]: "client_ok rows ids t (Returned r)" "client_ok rows ids t ExecutingPlain"
  by (simp_all add: client_ok_def)

lemma client_ok_storeUnavail [simp]: "client_ok rows ids t (storeUnavail e)"
  by (simp add: storeUnavail_def)

text \<open>A request that neither holds a record nor is about to take over an expired one.\<close>

fun idle :: "'v pc \<Rightarrow> bool" where
  "idle (Executing f mode i) = False"
| "idle (MarkingFailed f i err reason backoffUntil) = False"
| "idle (MarkingSucceeded f i data body) = False"
| "idle (ReclaimingExpired f existing) = False"
| "idle _ = True"

lemma idle_storeUnavail [simp]: "idle (storeUnavail e)"
  by (simp add: storeUnavail_def)

lemma idle_compatible: "idle pc' \<Longrightarrow> compatible pc' pc \<and> compatible pc pc'"
  by (cases pc') (auto simp: compatible_def)

lemma idle_holder: "idle pc \<Longrightarrow> holder pc = None"
  by (cases pc) auto

lemma idle_step:
  assumes "clients_ok rows ids t pcs" and "evolves rows ids rows' ids'" and "a < length pcs"
    and "client_ok rows' ids' t pc'" and "idle pc'"
    and "\<And>b f i. b < length pcs \<Longrightarrow> b \<noteq> a \<Longrightarrow> holder (pcs ! b) = Some (f, i) \<Longrightarrow> rows' i = rows i"
  shows "clients_ok rows' ids' t (pcs[a := pc'])"
  using assms(1-4,6) idle_compatible [OF assms(5)] by (intro clients_ok_update [where rows = rows and ids = ids])

lemma claim_step:
  assumes "clients_ok rows ids t pcs" and "evolves rows ids rows' ids'" and "a < length pcs"
    and "i \<in> ids'" and "held rows' f i" and "t < f_lockedUntil f"
    and "\<And>b g j. b < length pcs \<Longrightarrow> b \<noteq> a \<Longrightarrow> holder (pcs ! b) = Some (g, j) \<Longrightarrow> j \<noteq> i \<and> rows' j = rows j"
  shows "clients_ok rows' ids' t (pcs[a := claimed f m i])"
proof (cases "i = 0")
  case True
  with assms show ?thesis by (intro idle_step [OF assms(1-3)]) (simp_all add: claimed_def)
next
  case False
  have "compatible (Executing f m i) (pcs ! b) \<and> compatible (pcs ! b) (Executing f m i)"
    if b: "b < length pcs" "b \<noteq> a" for b
  proof -
    have "f_now g < f_lockedUntil f" if "pcs ! b = ReclaimingExpired g ex" for g ex
    proof -
      have "client_ok rows ids t (pcs ! b)" using assms(1) b(1) by (simp add: clients_ok_def)
      with that have "f_now g \<le> t" by (simp add: client_ok_def)
      with assms(6) show ?thesis by simp
    qed
    with assms(7) [OF b] show ?thesis by (auto simp: compatible_def)
  qed
  with False assms(4,5,7) show ?thesis
    by (intro clients_ok_update [OF assms(1-3)]) (simp_all add: claimed_def client_ok_def)
qed

lemma release_step:
  assumes "clients_ok rows ids t pcs" and "a < length pcs" and "holder (pcs ! a) = Some (f, i)"
    and "\<And>r. same_key r (g r) \<and> ir_Fingerprint (g r) = ir_Fingerprint r"
  shows "clients_ok (rows(i := map_option g (rows i))) ids t (pcs[a := Returned res])"
proof (rule idle_step [OF assms(1) evolves_upd [OF assms(4)] assms(2)])
  fix b h j assume b: "b < length pcs" "b \<noteq> a" "holder (pcs ! b) = Some (h, j)"
  have "compatible (pcs ! a) (pcs ! b)" using assms(1,2) b(1,2) by (simp add: clients_ok_def)
  with assms(3) b(3) have "j \<noteq> i" by (auto simp: compatible_def)
  then show "(rows(i := map_option g (rows i))) j = rows j" by simp
qed simp_all

lemma newRecord_sel [simp]:
  "ir_Scope (newRecord f) = f_scope f" "ir_KeyHash (newRecord f) = f_keyHash f"
  "ir_Fingerprint (newRecord f) = f_fingerprint f" "ir_Status (newRecord f) = IdempotencyStatusProcessing"
  "ir_LockedUntil (newRecord f) = Some (f_lockedUntil f)" "ir_ExpiresAt (newRecord f) = f_expiresAt f"
  by (simp_all add: newRecord_def)

lemma clients_okD:
  assumes "clients_ok rows ids t pcs" and "b < length pcs"
  shows "client_ok rows ids t (pcs ! b)"
    and "holder (pcs ! b) = Some (f, i) \<Longrightarrow> i \<in> ids \<and> held rows f i"
    and "frameOf (pcs ! b) = Some f \<Longrightarrow> f_now f \<le> t"
    and "readRecord (pcs ! b) = Some (f, ex) \<Longrightarrow> ir_ID ex \<in> ids \<and> (\<forall>r. rows (ir_ID ex) = Some r \<longrightarrow> keyed f r)"
proof -
  show c: "client_ok rows ids t (pcs ! b)" using assms by (simp add: clients_ok_def)
  show "i \<in> ids \<and> held rows f i" if "holder (pcs ! b) = Some (f, i)"
    using c that by (simp add: client_ok_def)
  show "f_now f \<le> t" if "frameOf (pcs ! b) = Some f"
    using c that by (simp add: client_ok_def)
  show "ir_ID ex \<in> ids \<and> (\<forall>r. rows (ir_ID ex) = Some r \<longrightarrow> keyed f r)" if "readRecord (pcs ! b) = Some (f, ex)"
    using c that by (simp add: client_ok_def)
qed

lemma on_timeD:
  assumes "list_all (on_time t) pcs" and "b < length pcs"
  shows "claiming (pcs ! b) = Some f \<Longrightarrow> t < f_lockedUntil f"
    and "holder (pcs ! b) = Some (f, i) \<Longrightarrow> t < f_expiresAt f"
  using assms by (auto simp: list_all_length on_time_def)

context idempotency_store
begin

lemma create_rows:
  assumes "ok db" and "CreateProcessing R (newRecord f) t db = (res, db')"
  shows "ok db' \<and> evolves (rowAt db) (issued db) (rowAt db') (issued db') \<and>
    (\<forall>j \<in> issued db. rowAt db' j = rowAt db j) \<and>
    (\<forall>i. res = Some i \<longrightarrow> i \<notin> issued db \<and> i \<in> issued db' \<and> held (rowAt db') f i)"
proof (cases res)
  case None
  with create_taken [OF assms(1)] assms(2) show ?thesis by (metis evolves_more option.distinct(1))
next
  case (Some i)
  with create_new [OF assms(1), of "newRecord f" t i db'] assms(2) obtain r where r: "ok db'" "i \<notin> issued db"
    "issued db' = insert i (issued db)" "rowAt db' = (rowAt db)(i \<mapsto> r)" "same_key r (newRecord f)"
    "ir_Fingerprint r = f_fingerprint f" "ir_Status r = IdempotencyStatusProcessing"
    "ir_LockedUntil r = Some (f_lockedUntil f)" "ir_ExpiresAt r = f_expiresAt f"
    by auto
  then have "evolves (rowAt db) (issued db) (rowAt db') (issued db')"
    by (auto simp: evolves_def same_key_def)
  moreover have "held (rowAt db') f i"
    using r by (auto simp: held_def keyed_def same_key_def)
  ultimately show ?thesis using r Some by auto
qed

lemma reclaim_rows:
  assumes "ok db" and "TryReclaim R i st (f_now f) (f_lockedUntil f) (f_expiresAt f) t db = (taken, db')"
    and "\<And>r. rowAt db i = Some r \<Longrightarrow> keyed f r"
  shows "ok db' \<and> issued db' = issued db \<and> evolves (rowAt db) (issued db) (rowAt db') (issued db') \<and>
    (\<forall>j. j \<noteq> i \<longrightarrow> rowAt db' j = rowAt db j) \<and> (\<not> taken \<longrightarrow> rowAt db' = rowAt db) \<and>
    (taken \<longrightarrow> held (rowAt db') f i \<and> (\<exists>r. rowAt db i = Some r \<and> reclaimable st (f_now f) r))"
proof -
  have r: "ok db'" "issued db' = issued db"
    "taken \<longleftrightarrow> (\<exists>r. rowAt db i = Some r \<and> reclaimable st (f_now f) r)"
    "rowAt db' = (if taken then (rowAt db)(i := map_option (reclaimRow (f_lockedUntil f) (f_expiresAt f) t) (rowAt db i))
       else rowAt db)"
    using reclaim [OF assms(1,2)] by auto
  then have "evolves (rowAt db) (issued db) (rowAt db') (issued db')"
    using evolves_upd [of "reclaimRow (f_lockedUntil f) (f_expiresAt f) t" "rowAt db" "issued db" i] by simp
  moreover have "held (rowAt db') f i" if "taken"
    using that r(3,4) assms(3) by (auto simp: held_def keyed_def reclaimRow_def)
  ultimately show ?thesis using r by auto
qed

text \<open>A record that somebody holds cannot be reclaimed.\<close>

lemma held_not_reclaimed:
  assumes inv: "clients_ok (rowAt db) (issued db) t pcs" and "b < length pcs" and "a < length pcs" and "a \<noteq> b"
    and hold: "holder (pcs ! b) = Some (g, ir_ID ex)"
    and pc: "pcs ! a = ReclaimingExpired f ex \<and> st = ir_Status ex \<or> st = IdempotencyStatusFailedRetryable"
    and row: "rowAt db (ir_ID ex) = Some r" "reclaimable st (f_now f) r"
  shows False
proof -
  have "client_ok (rowAt db) (issued db) t (pcs ! b)" using inv assms(2) by (simp add: clients_ok_def)
  with hold row have r: "ir_Status r = IdempotencyStatusProcessing" "ir_LockedUntil r = Some (f_lockedUntil g)"
    by (auto simp: client_ok_def held_def)
  with row(2) have st: "st = IdempotencyStatusProcessing" "f_lockedUntil g \<le> f_now f"
    by (auto simp: reclaimable_def)
  with pc have "pcs ! a = ReclaimingExpired f ex" "ir_Status ex = IdempotencyStatusProcessing" by auto
  moreover have "compatible (pcs ! a) (pcs ! b)" using inv assms(2-4) by (simp add: clients_ok_def)
  ultimately show False using hold st(2) by (auto simp: compatible_def)
qed

lemma read_client_ok:
  assumes "ok db" and "f_now f \<le> t" and "GetByScopeAndKeyHash R (f_scope f) (f_keyHash f) db = Some ex"
    and "ir_Fingerprint ex = f_fingerprint f" and "readRecord pc = Some (f, ex)" and "holder pc = None"
    and "frameOf pc = Some f"
  shows "client_ok (rowAt db) (issued db) t pc"
  using get_row [OF assms(1,3)] row_id [OF assms(1)] assms(2,4-7)
  by (auto simp: client_ok_def keyed_def)

lemma dispatch_ok:
  assumes "ok db" and "f_now f \<le> t" and "GetByScopeAndKeyHash R (f_scope f) (f_keyHash f) db = Some ex"
    and "ir_Fingerprint ex = f_fingerprint f"
  shows "client_ok (rowAt db) (issued db) t (dispatchStatus J f ex)" and "idle (dispatchStatus J f ex)"
  using read_client_ok [OF assms, of "Reclaiming f ex"]
  by (auto simp: dispatchStatus_def split: sum.splits option.splits)

lemma create_step:
  assumes "ok db" and inv: "clients_ok (rowAt db) (issued db) t pcs" and "a < length pcs"
    and pc: "pcs ! a = Creating f" and timely: "list_all (on_time t) pcs"
    and step: "storeStep J R t flt (Creating f) db = (pc', db')"
  shows "ok db' \<and> clients_ok (rowAt db') (issued db') t (pcs[a := pc'])"
proof -
  obtain res where res: "faulty flt (CreateProcessing R (newRecord f) t) db = (res, db')" "pc' = afterCreate f res"
    using step by (auto simp: map_prod_def split: prod.splits)
  obtain x db1 where x: "CreateProcessing R (newRecord f) t db = (x, db1)" by (cases "CreateProcessing R (newRecord f) t db")
  note rows = create_rows [OF assms(1) x]
  have lock: "t < f_lockedUntil f" using on_timeD(1) [OF timely assms(3)] pc by simp
  have same: "rowAt db1 j = rowAt db j \<and> (x = Some i \<longrightarrow> j \<noteq> i)"
    if "b < length pcs" "holder (pcs ! b) = Some (g, j)" for b g j i
    using clients_okD(2) [OF inv that] rows by auto
  from res(1) show ?thesis
  proof (cases rule: faulty_cases)
    case (failed err)
    then have "pc' = storeUnavail (Some err)" by (simp add: res(2) afterCreate_def)
    with failed(2) show ?thesis
      using rows same assms(1) x idle_step [OF inv _ assms(3), of _ _ pc'] by auto
  next
    case (answered y)
    then have y: "y = x" "db' = db1" using x by simp_all
    show ?thesis
    proof (cases x)
      case None
      then have pc': "pc' = Getting f" by (simp add: res(2) answered y afterCreate_def)
      have "client_ok (rowAt db1) (issued db1) t (Getting f)"
        using clients_okD(3) [OF inv assms(3)] pc by (simp add: client_ok_def)
      with rows same y(2) pc' show ?thesis by (auto intro!: idle_step [OF inv _ assms(3)])
    next
      case (Some i)
      then have pc': "pc' = claimed f NewClaim i" by (simp add: res(2) answered y afterCreate_def)
      have "clients_ok (rowAt db1) (issued db1) t (pcs[a := claimed f NewClaim i])"
        using rows same Some lock by (intro claim_step [OF inv _ assms(3)]) blast+
      with pc' y(2) rows show ?thesis by simp
    qed
  qed
qed

lemma get_step:
  assumes "ok db" and inv: "clients_ok (rowAt db) (issued db) t pcs" and "a < length pcs"
    and pc: "pcs ! a = Getting f \<or> pcs ! a = GettingLatest f" and timely: "list_all (on_time t) pcs"
    and pc': "\<And>ex. P ex \<Longrightarrow> ir_Fingerprint ex = f_fingerprint f \<and>
        GetByScopeAndKeyHash R (f_scope f) (f_keyHash f) db = Some ex"
      "(\<exists>r. pc' = Returned r) \<or> (\<exists>ex. P ex \<and> (pc' = dispatchStatus J f ex \<or>
         pc' = ReclaimingExpired f ex \<and> ir_ExpiresAt ex \<le> f_now f))"
  shows "clients_ok (rowAt db) (issued db) t (pcs[a := pc'])"
proof -
  have now: "f_now f \<le> t" using clients_okD(3) [OF inv assms(3)] pc by auto
  from pc'(2) consider (ret) r where "pc' = Returned r" | (disp) ex where "P ex" "pc' = dispatchStatus J f ex"
    | (exp) ex where "P ex" "pc' = ReclaimingExpired f ex" "ir_ExpiresAt ex \<le> f_now f" by blast
  then show ?thesis
  proof cases
    case ret
    then show ?thesis by (intro idle_step [OF inv _ assms(3)]) simp_all
  next
    case (disp ex)
    note ex = pc'(1) [OF disp(1)]
    from dispatch_ok [OF assms(1) now conjunct2 [OF ex] conjunct1 [OF ex]] disp(2)
    show ?thesis by (intro idle_step [OF inv _ assms(3)]) simp_all
  next
    case (exp ex)
    have free: "j \<noteq> ir_ID ex" if b: "b < length pcs" "holder (pcs ! b) = Some (g, j)" for b g j
    proof
      assume "j = ir_ID ex"
      with clients_okD(2) [OF inv b] get_row [OF assms(1)] pc'(1) [OF exp(1)]
      have "ir_ExpiresAt ex = f_expiresAt g" by (auto simp: held_def)
      with on_timeD(2) [OF timely b] exp(3) now show False by simp
    qed
    show ?thesis
    proof (intro clients_ok_update [OF inv _ assms(3)])
      show "client_ok (rowAt db) (issued db) t pc'"
        using read_client_ok [OF assms(1) now conjunct2 [OF pc'(1)] conjunct1 [OF pc'(1)], of ex pc'] exp(1,2)
        by simp
      show "compatible pc' (pcs ! b) \<and> compatible (pcs ! b) pc'" if "b < length pcs" "b \<noteq> a" for b
        using free [OF that(1)] exp(2) by (auto simp: compatible_def)
    qed simp_all
  qed
qed

lemma reclaim_step:
  assumes "ok db" and inv: "clients_ok (rowAt db) (issued db) t pcs" and "a < length pcs"
    and pc: "pcs ! a = ReclaimingExpired f ex \<and> st = ir_Status ex \<or>
      pcs ! a = Reclaiming f ex \<and> st = IdempotencyStatusFailedRetryable"
    and timely: "list_all (on_time t) pcs"
    and res: "faulty flt (TryReclaim R (ir_ID ex) st (f_now f) (f_lockedUntil f) (f_expiresAt f) t) db = (res, db')"
    and pc': "\<And>m. res = Inr True \<Longrightarrow> pc' = claimed f mode (ir_ID ex)"
      "res \<noteq> Inr True \<Longrightarrow> (\<exists>r. pc' = Returned r) \<or> pc' = GettingLatest f"
  shows "ok db' \<and> clients_ok (rowAt db') (issued db') t (pcs[a := pc'])"
proof -
  obtain taken db1 where x: "TryReclaim R (ir_ID ex) st (f_now f) (f_lockedUntil f) (f_expiresAt f) t db = (taken, db1)"
    by (cases "TryReclaim R (ir_ID ex) st (f_now f) (f_lockedUntil f) (f_expiresAt f) t db")
  have mine: "claiming (pcs ! a) = Some f" "readRecord (pcs ! a) = Some (f, ex)" "frameOf (pcs ! a) = Some f"
    using pc by auto
  note key = clients_okD(4) [OF inv assms(3) mine(2)]
  note rows = reclaim_rows [OF assms(1) x]
  have rows: "ok db1 \<and> issued db1 = issued db \<and> evolves (rowAt db) (issued db) (rowAt db1) (issued db1) \<and>
    (\<forall>j. j \<noteq> ir_ID ex \<longrightarrow> rowAt db1 j = rowAt db j) \<and> (\<not> taken \<longrightarrow> rowAt db1 = rowAt db) \<and>
    (taken \<longrightarrow> held (rowAt db1) f (ir_ID ex) \<and> (\<exists>r. rowAt db (ir_ID ex) = Some r \<and> reclaimable st (f_now f) r))"
    using key by (intro rows) auto
  have free: "rowAt db1 j = rowAt db j \<and> (taken \<longrightarrow> j \<noteq> ir_ID ex)"
    if b: "b < length pcs" "b \<noteq> a" "holder (pcs ! b) = Some (g, j)" for b g j
  proof (cases "taken")
    case True
    with rows obtain r where r: "rowAt db (ir_ID ex) = Some r" "reclaimable st (f_now f) r" by blast
    have "j \<noteq> ir_ID ex"
      using held_not_reclaimed [OF inv b(1) assms(3), of g ex f st r] b(2,3) pc r by auto
    with rows show ?thesis by simp
  qed (use rows in simp)
  from res show ?thesis
  proof (cases rule: faulty_cases)
    case (failed err)
    then have "db' = db \<or> db' = db1" "idle pc'"
      "client_ok (rowAt db') (issued db') t pc'"
      using pc'(2) x clients_okD(3) [OF inv assms(3) mine(3)] by (auto simp: client_ok_def)
    then show ?thesis using rows free assms(1) by (auto intro!: idle_step [OF inv _ assms(3)])
  next
    case (answered y)
    then have y: "y = taken" "db' = db1" using x by simp_all
    show ?thesis
    proof (cases taken)
      case True
      have "clients_ok (rowAt db1) (issued db1) t (pcs[a := claimed f mode (ir_ID ex)])"
        using rows free True key on_timeD(1) [OF timely assms(3) mine(1)]
        by (intro claim_step [OF inv _ assms(3)]) blast+
      with pc'(1) answered y True rows show ?thesis by simp
    next
      case False
      then have "idle pc'" "client_ok (rowAt db1) (issued db1) t pc'"
        using pc'(2) answered(1) y clients_okD(3) [OF inv assms(3) mine(3)] by (auto simp: client_ok_def)
      with rows free y show ?thesis by (auto intro!: idle_step [OF inv _ assms(3)])
    qed
  qed
qed

lemma mark_step:
  assumes "ok db" and inv: "clients_ok (rowAt db) (issued db) t pcs" and "a < length pcs"
    and "holder (pcs ! a) = Some (f, i)"
    and op: "\<And>db1. op db = ((), db1) \<Longrightarrow> ok db1 \<and> issued db1 = issued db \<and>
      rowAt db1 = (rowAt db)(i := map_option g (rowAt db i))"
    and g: "\<And>r. same_key r (g r) \<and> ir_Fingerprint (g r) = ir_Fingerprint r"
    and res: "faulty flt op db = (res, db')"
  shows "ok db' \<and> clients_ok (rowAt db') (issued db') t (pcs[a := Returned r])"
proof -
  have "db' = db \<or> op db = ((), db')"
    using res by (cases flt) (auto simp: faulty_def prod_eq_iff split: prod.splits)
  then show ?thesis
  proof
    assume "db' = db"
    then show ?thesis using assms(1) by (auto intro!: idle_step [OF inv _ assms(3)])
  next
    assume "op db = ((), db')"
    with op release_step [OF inv assms(3,4) g] show ?thesis by simp
  qed
qed

lemma store_keeps:
  assumes "ok db" and inv: "clients_ok (rowAt db) (issued db) t pcs" and a: "a < length pcs"
    and timely: "list_all (on_time t) pcs" and step: "storeStep J R t flt (pcs ! a) db = (pc', db')"
  shows "ok db' \<and> clients_ok (rowAt db') (issued db') t (pcs[a := pc'])"
proof (cases "pcs ! a")
  case (Creating f)
  with create_step [OF assms(1) inv a _ timely] step show ?thesis by simp
next
  case (Getting f)
  let ?P = "\<lambda>ex. ir_Fingerprint ex = f_fingerprint f \<and> GetByScopeAndKeyHash R (f_scope f) (f_keyHash f) db = Some ex"
  have db': "db' = db" using step Getting by (cases flt) (auto simp: faulty_def)
  have "(\<exists>r. pc' = Returned r) \<or> (\<exists>ex. ?P ex \<and> (pc' = dispatchStatus J f ex \<or>
         pc' = ReclaimingExpired f ex \<and> ir_ExpiresAt ex \<le> f_now f))"
    using step Getting by (cases flt) (auto simp: faulty_def afterGet_def storeUnavail_def split: option.splits if_splits)
  from get_step [OF assms(1) inv a _ timely _ this] Getting assms(1) db' show ?thesis by simp
next
  case (ReclaimingExpired f ex)
  obtain res where "faulty flt (TryReclaim R (ir_ID ex) (ir_Status ex) (f_now f) (f_lockedUntil f) (f_expiresAt f) t) db
      = (res, db')" "pc' = afterReclaimExpired f ex res"
    using step ReclaimingExpired by (auto simp: map_prod_def split: prod.splits)
  with reclaim_step [OF assms(1) inv a _ timely this(1), of pc' ExpiredReclaim] ReclaimingExpired show ?thesis
    by (auto simp: afterReclaimExpired_def storeUnavail_def split: sum.splits)
next
  case (GettingLatest f)
  let ?P = "\<lambda>ex. ir_Fingerprint ex = f_fingerprint f \<and> GetByScopeAndKeyHash R (f_scope f) (f_keyHash f) db = Some ex"
  have db': "db' = db" using step GettingLatest by (cases flt) (auto simp: faulty_def)
  have "(\<exists>r. pc' = Returned r) \<or> (\<exists>ex. ?P ex \<and> (pc' = dispatchStatus J f ex \<or>
         pc' = ReclaimingExpired f ex \<and> ir_ExpiresAt ex \<le> f_now f))"
    using step GettingLatest
    by (cases flt) (auto simp: faulty_def afterGetLatest_def storeUnavail_def split: option.splits if_splits)
  from get_step [OF assms(1) inv a _ timely _ this] GettingLatest assms(1) db' show ?thesis by simp
next
  case (Reclaiming f ex)
  obtain res where "faulty flt (TryReclaim R (ir_ID ex) IdempotencyStatusFailedRetryable (f_now f) (f_lockedUntil f)
      (f_expiresAt f) t) db = (res, db')" "pc' = afterReclaim f ex res"
    using step Reclaiming by (auto simp: map_prod_def split: prod.splits)
  with reclaim_step [OF assms(1) inv a _ timely this(1), of pc' Reclaim] Reclaiming show ?thesis
    by (auto simp: afterReclaim_def storeUnavail_def split: sum.splits)
next
  case (MarkingFailed f i err reason until)
  obtain res where res: "faulty flt (\<lambda>db. ((), MarkFailedRetryable R i reason until (f_expiresAt f) t db)) db = (res, db')"
    "pc' = Returned (Inl err)"
    using step MarkingFailed by (cases "faulty flt (\<lambda>db. ((), MarkFailedRetryable R i reason until (f_expiresAt f) t db)) db") auto
  show ?thesis
    unfolding res(2) using MarkingFailed mark_failed [OF assms(1) refl]
    by (intro mark_step [OF assms(1) inv a _ _ _ res(1), of f i "failRow reason until (f_expiresAt f) t"]) auto
next
  case (MarkingSucceeded f i data body)
  obtain res where res: "faulty flt (\<lambda>db. ((), MarkSucceeded R i 200 body (f_expiresAt f) t db)) db = (res, db')"
    "pc' = afterMarkSucceeded data res"
    using step MarkingSucceeded by (auto simp: map_prod_def split: prod.splits)
  have "\<exists>r. pc' = Returned r" by (simp add: res(2) afterMarkSucceeded_def storeUnavail_def split: sum.splits)
  then obtain r where r: "pc' = Returned r" ..
  show ?thesis
    unfolding r using MarkingSucceeded mark_ok [OF assms(1) refl]
    by (intro mark_step [OF assms(1) inv a _ _ _ res(1), of f i "succeedRow 200 body (f_expiresAt f) t"]) auto
qed (use step assms(1) inv list_update_id [of pcs a] in simp_all)

lemma clients_ok_tick: "clients_ok rows ids t pcs \<Longrightarrow> t \<le> t' \<Longrightarrow> clients_ok rows ids t' pcs"
  unfolding clients_ok_def client_ok_def by (meson order_trans)

lemma begin_idle:
  "idle (beginExecute J cfg e r opts t)" "client_ok rows ids t (beginExecute J cfg e r opts t)"
  by (auto simp: beginExecute_def client_ok_def storeUnavail_def Let_def split: sum.splits if_splits)

lemma clients_ok_arrive:
  assumes "clients_ok rows ids t pcs" and "idle pc" and "client_ok rows ids t pc"
  shows "clients_ok rows ids t (pcs @ [pc])"
proof -
  have "compatible ((pcs @ [pc]) ! a) ((pcs @ [pc]) ! b)"
    if "a < Suc (length pcs)" "b < Suc (length pcs)" "a \<noteq> b" for a b
  proof (cases "a = length pcs \<or> b = length pcs")
    case True
    with that idle_compatible [OF assms(2)] show ?thesis by (auto simp: nth_append)
  next
    case False
    with that have "a < length pcs" "b < length pcs" by simp_all
    with assms(1) that(3) show ?thesis by (simp add: nth_append clients_ok_def)
  qed
  with assms show ?thesis by (simp add: clients_ok_def)
qed

text \<open>The end of an execution leaves the holder of its record the holder, or makes it return.\<close>

lemma execute_keeps:
  assumes inv: "clients_ok rows ids t pcs" and a: "a < length pcs" and pc: "pcs ! a = Executing f m i"
  shows "clients_ok rows ids t (pcs[a := afterExecute J cfg f i t res])"
proof -
  consider (ret) r where "afterExecute J cfg f i t res = Returned r"
    | (mark) "holder (afterExecute J cfg f i t res) = Some (f, i)"
        "frameOf (afterExecute J cfg f i t res) = None" "readRecord (afterExecute J cfg f i t res) = None"
        "\<And>g ex. afterExecute J cfg f i t res \<noteq> ReclaimingExpired g ex"
  proof (cases res)
    case (Inl e)
    show ?thesis by (rule mark) (simp_all add: Inl afterExecute_def Let_def)
  next
    case (Inr v)
    show ?thesis
    proof (cases "marshalStoredResponse J cfg v")
      case (Inl e)
      show ?thesis by (rule ret [of "Inl (WithCause ErrIdempotencyStoreUnavail e)"])
          (simp add: Inr Inl afterExecute_def storeUnavail_def)
    next
      case (Inr body)
      show ?thesis by (rule mark) (simp_all add: \<open>res = Inr v\<close> Inr afterExecute_def)
    qed
  qed
  then show ?thesis
  proof cases
    case ret
    then show ?thesis by (intro idle_step [OF inv _ a]) simp_all
  next
    case mark
    have "compatible (afterExecute J cfg f i t res) (pcs ! b) \<and> compatible (pcs ! b) (afterExecute J cfg f i t res)"
      if "b < length pcs" "b \<noteq> a" for b
    proof -
      have "compatible (pcs ! a) (pcs ! b)" "compatible (pcs ! b) (pcs ! a)"
        using inv a that by (auto simp: clients_ok_def)
      with pc mark show ?thesis by (auto simp: compatible_def)
    qed
    moreover have "client_ok rows ids t (afterExecute J cfg f i t res)"
      using clients_okD(2) [OF inv a] pc mark(1-3) by (simp add: client_ok_def)
    ultimately show ?thesis by (intro clients_ok_update [OF inv _ a]) simp_all
  qed
qed

lemma clients_ok_shrink:
  assumes inv: "clients_ok rows ids t pcs" and "rows' \<subseteq>\<^sub>m rows"
    and "\<And>b f i. b < length pcs \<Longrightarrow> holder (pcs ! b) = Some (f, i) \<Longrightarrow> rows' i = rows i"
  shows "clients_ok rows' ids t pcs"
proof -
  have "rows i = Some r" if "rows' i = Some r" for i r
    using assms(2) that by (metis map_le_def domI)
  then have "evolves rows ids rows' ids" by (auto simp: evolves_def same_key_def)
  then have "client_ok rows' ids t (pcs ! b)" if "b < length pcs" for b
    using client_ok_evolves [OF clients_okD(1) [OF inv that]] assms(3) [OF that] by blast
  with inv show ?thesis by (auto simp: clients_ok_def in_set_conv_nth)
qed

lemma cleanup_keeps:
  assumes "ok db" and inv: "clients_ok (rowAt db) (issued db) t pcs" and timely: "list_all (on_time t) pcs"
    and "now \<le> t" and "db' = cleanupOnce R now batch db"
  shows "ok db' \<and> clients_ok (rowAt db') (issued db') t pcs \<and>
    (\<forall>i r. rowAt db i = Some r \<longrightarrow> t < ir_ExpiresAt r \<longrightarrow> rowAt db' i = Some r) \<and> rowAt db' \<subseteq>\<^sub>m rowAt db"
proof -
  obtain n where n: "DeleteExpired R now batch db = (n, db')"
    using assms(5) by (cases "DeleteExpired R now batch db") (simp add: cleanupOnce_def)
  note d = delete [OF assms(1) n]
  have keep: "rowAt db' i = Some r" if "rowAt db i = Some r" "t < ir_ExpiresAt r" for i r
  proof (cases "rowAt db' i")
    case None
    with d that assms(4) show ?thesis by force
  next
    case (Some r')
    with d that(1) have "rowAt db i = Some r'" by (metis map_le_def domI)
    with that(1) Some show ?thesis by simp
  qed
  have "rowAt db' i = rowAt db i" if b: "b < length pcs" "holder (pcs ! b) = Some (f, i)" for b f i
    using clients_okD(2) [OF inv b] on_timeD(2) [OF timely b] keep by (auto simp: held_def)
  with d keep clients_ok_shrink [OF inv] show ?thesis by auto
qed

lemma inv_step:
  assumes "idem_inv ok rowAt issued w" and "timely w" and "idem_step J cfg R w w'"
  shows "idem_inv ok rowAt issued w'"
  using assms(3)
proof (cases rule: idem_step.cases)
  case (arrive opts)
  with assms(1) show ?thesis by (simp add: idem_inv_def clients_ok_arrive [OF _ begin_idle])
next
  case (tick t)
  with assms(1) show ?thesis by (auto simp: idem_inv_def intro: clients_ok_tick)
next
  case (store a flt pc' db')
  with assms(1,2) store_keeps [of "w_db w" "w_clock w" "w_clients w" a J flt pc' db'] show ?thesis
    by (simp add: idem_inv_def timely_def)
next
  case (execute a f mode i res)
  with assms(1) show ?thesis by (auto simp: idem_inv_def intro: execute_keeps)
next
  case (vanish a err)
  with assms(1) show ?thesis by (auto simp: idem_inv_def intro!: idle_step [OF _ _ vanish(2)])
next
  case (cleanup now batch)
  with assms(1,2) cleanup_keeps [of "w_db w" "w_clock w" "w_clients w" now] show ?thesis
    by (simp add: idem_inv_def timely_def)
qed

lemma inv_runs:
  assumes "idem_runs J cfg R timely w0 w" and "idem_inv ok rowAt issued w0"
  shows "idem_inv ok rowAt issued w"
  using assms(1) unfolding idem_runs_def
  by (induction rule: rtranclp_induct) (use assms(2) inv_step in blast)+

lemma runs_mono:
  assumes "idem_runs J cfg R P w0 w" and "\<And>w. P w \<Longrightarrow> Q w"
  shows "idem_runs J cfg R Q w0 w"
  using assms(1) unfolding idem_runs_def by (rule rtranclp_mono [THEN predicate2D, rotated]) (use assms(2) in blast)

lemma one_holder:
  assumes "idem_inv ok rowAt issued w" and "a < length (w_clients w)" and "b < length (w_clients w)"
    and "holder (w_clients w ! a) = Some (f, i)" and "holder (w_clients w ! b) = Some (g, j)"
    and "f_scope f = f_scope g" and "f_keyHash f = f_keyHash g"
  shows "a = b"
proof (rule ccontr)
  assume "a \<noteq> b"
  have inv: "ok (w_db w)" "clients_ok (rowAt (w_db w)) (issued (w_db w)) (w_clock w) (w_clients w)"
    using assms(1) by (simp_all add: idem_inv_def)
  from clients_okD(2) [OF inv(2) assms(2,4)] clients_okD(2) [OF inv(2) assms(3,5)] obtain r r' where
    "rowAt (w_db w) i = Some r" "rowAt (w_db w) j = Some r'" "keyed f r" "keyed g r'" by (auto simp: held_def)
  with row_unique [OF inv(1)] assms(6,7) have "i = j" by (auto simp: keyed_def same_key_def)
  moreover have "compatible (w_clients w ! a) (w_clients w ! b)"
    using inv(2) assms(2,3) \<open>a \<noteq> b\<close> by (simp add: clients_ok_def)
  ultimately show False using assms(4,5) by (auto simp: compatible_def)
qed

end

subsection \<open>Successful executions\<close>

text \<open>
  The row of an execution that succeeded and has not expired: it is stored or still being stored, and
  a request that holds it is about to store its success.
\<close>

definition solid :: "IdempotencyRecord \<Rightarrow> bool" where
  "solid r \<longleftrightarrow> ir_Status r = IdempotencyStatusSucceeded \<or> ir_Status r = IdempotencyStatusProcessing"

definition closing :: "'v pc list \<Rightarrow> int \<Rightarrow> bool" where
  "closing pcs i \<longleftrightarrow> (\<forall>b < length pcs. \<forall>f. holder (pcs ! b) = Some (f, i) \<longrightarrow>
     (\<exists>data body. pcs ! b = MarkingSucceeded f i data body))"

definition settled :: "(int \<rightharpoonup> IdempotencyRecord) \<Rightarrow> 'v pc list \<Rightarrow> idem_effect \<Rightarrow> bool" where
  "settled rows pcs e \<longleftrightarrow> (\<exists>i r. rows i = Some r \<and> ir_Scope r = ef_scope e \<and> ir_KeyHash r = ef_keyHash e \<and>
     ir_ExpiresAt r = ef_expires e \<and> solid r \<and> closing pcs i)"

definition settled_all :: "('db \<Rightarrow> int \<rightharpoonup> IdempotencyRecord) \<Rightarrow> ('v, 'db) idem_world \<Rightarrow> bool" where
  "settled_all rowAt w \<longleftrightarrow> (\<forall>e \<in> set (w_effects w). ef_ok e \<longrightarrow> w_clock w < ef_expires e \<longrightarrow>
     settled (rowAt (w_db w)) (w_clients w) e)"

text \<open>Two executions for one key: the second does not come before the first's success expires.\<close>

definition apart :: "idem_effect \<Rightarrow> idem_effect \<Rightarrow> bool" where
  "apart e e' \<longleftrightarrow> (ef_ok e \<and> ef_scope e = ef_scope e' \<and> ef_keyHash e = ef_keyHash e' \<longrightarrow> ef_expires e \<le> ef_at e')"

lemma closing_update:
  assumes "closing pcs i" and "\<And>f. holder pc' = Some (f, i) \<Longrightarrow> \<exists>data body. pc' = MarkingSucceeded f i data body"
  shows "closing (pcs[a := pc']) i"
  using assms unfolding closing_def by (metis length_list_update nth_list_update_eq nth_list_update_neq)

lemma closing_append: "closing pcs i \<Longrightarrow> idle pc \<Longrightarrow> closing (pcs @ [pc]) i"
  by (auto simp: closing_def nth_append less_Suc_eq idle_holder)

lemma holder_claimed: "holder (claimed f m i) = Some (g, j) \<Longrightarrow> j = i"
  by (auto simp: claimed_def storeUnavail_def split: if_splits)

lemma holder_dispatch [simp]: "holder (dispatchStatus J f ex) = None"
  by (auto simp: dispatchStatus_def storeUnavail_def split: sum.splits option.splits)

definition kept :: "IdempotencyRecord \<Rightarrow> (int \<rightharpoonup> IdempotencyRecord) \<Rightarrow> int \<Rightarrow> bool" where
  "kept r rows i \<longleftrightarrow> (\<exists>r'. rows i = Some r' \<and> same_key r r' \<and> ir_ExpiresAt r' = ir_ExpiresAt r \<and> solid r')"

lemma settled_kept:
  assumes "rows i = Some r" and "ir_Scope r = ef_scope e" and "ir_KeyHash r = ef_keyHash e"
    and "ir_ExpiresAt r = ef_expires e" and "kept r rows' i" and "closing pcs' i"
  shows "settled rows' pcs' e"
  using assms unfolding settled_def kept_def same_key_def by metis

context idempotency_store
begin

lemma kept_same: "rowAt db i = Some r \<Longrightarrow> solid r \<Longrightarrow> rowAt db' i = rowAt db i \<Longrightarrow> kept r (rowAt db') i"
  by (simp add: kept_def same_key_def)

lemma create_settled:
  assumes "ok db" and row: "rowAt db i = Some r" "solid r" and cl: "closing pcs i"
    and step: "storeStep J R t flt (Creating f) db = (pc', db')"
  shows "kept r (rowAt db') i \<and> closing (pcs[a := pc']) i"
proof -
  obtain res where res: "faulty flt (CreateProcessing R (newRecord f) t) db = (res, db')" "pc' = afterCreate f res"
    using step by (auto simp: map_prod_def split: prod.splits)
  obtain x db1 where x: "CreateProcessing R (newRecord f) t db = (x, db1)" by (cases "CreateProcessing R (newRecord f) t db")
  note rows = create_rows [OF assms(1) x]
  have i: "i \<in> issued db" using row_id [OF assms(1) row(1)] by simp
  have "db' = db \<or> db' = db1" using res(1) x by (cases flt) (auto simp: faulty_def)
  then have "rowAt db' i = rowAt db i" using rows i by auto
  moreover have "holder pc' \<noteq> Some (g, i)" for g
    using res x rows i by (cases flt)
      (auto simp: faulty_def afterCreate_def storeUnavail_def dest: holder_claimed split: option.splits)
  ultimately show ?thesis using row cl by (auto intro: kept_same closing_update)
qed

lemma reclaim_settled:
  assumes "ok db" and row: "rowAt db i = Some r" "solid r" and cl: "closing pcs i"
    and keyed: "\<And>r. rowAt db (ir_ID ex) = Some r \<Longrightarrow> keyed f r"
    and no: "ir_ID ex = i \<Longrightarrow> \<not> reclaimable st (f_now f) r"
    and res: "faulty flt (TryReclaim R (ir_ID ex) st (f_now f) (f_lockedUntil f) (f_expiresAt f) t) db = (res, db')"
    and pc': "\<And>g j. holder pc' = Some (g, j) \<Longrightarrow> res = Inr True \<and> j = ir_ID ex"
  shows "kept r (rowAt db') i \<and> closing (pcs[a := pc']) i"
proof -
  obtain taken db1 where x: "TryReclaim R (ir_ID ex) st (f_now f) (f_lockedUntil f) (f_expiresAt f) t db = (taken, db1)"
    by (cases "TryReclaim R (ir_ID ex) st (f_now f) (f_lockedUntil f) (f_expiresAt f) t db")
  note rows = reclaim_rows [OF assms(1) x keyed]
  have free: "taken \<Longrightarrow> ir_ID ex \<noteq> i" using rows no row(1) by auto
  have "db' = db \<or> db' = db1" using res x by (cases flt) (auto simp: faulty_def)
  then have "rowAt db' i = rowAt db i" using rows free by (cases taken) auto
  moreover have "holder pc' \<noteq> Some (g, i)" for g
    using pc' [of g i] free res x by (cases flt) (auto simp: faulty_def)
  ultimately show ?thesis using row cl by (auto intro: kept_same closing_update)
qed

lemma mark_settled:
  assumes "ok db" and row: "rowAt db i = Some r" "solid r" and cl: "closing pcs i"
    and op: "\<And>db1. op db = ((), db1) \<Longrightarrow> rowAt db1 = (rowAt db)(k := map_option g (rowAt db k))"
    and same: "k = i \<Longrightarrow> same_key r (g r) \<and> ir_ExpiresAt (g r) = ir_ExpiresAt r \<and> solid (g r)"
    and res: "faulty flt op db = (res, db')"
  shows "kept r (rowAt db') i \<and> closing (pcs[a := Returned x]) i"
proof -
  have "db' = db \<or> op db = ((), db')"
    using res by (cases flt) (auto simp: faulty_def prod_eq_iff split: prod.splits)
  then have "kept r (rowAt db') i"
    using row op same by (auto simp: kept_def same_key_def)
  with cl show ?thesis by (auto intro: closing_update)
qed

lemma store_settled:
  assumes "ok db" and inv: "clients_ok (rowAt db) (issued db) t pcs" and a: "a < length pcs"
    and fresh: "\<not> outdated rowAt db (pcs ! a)" and step: "storeStep J R t flt (pcs ! a) db = (pc', db')"
    and row: "rowAt db i = Some r" "t < ir_ExpiresAt r" "solid r" and cl: "closing pcs i"
  shows "kept r (rowAt db') i \<and> closing (pcs[a := pc']) i"
proof (cases "pcs ! a")
  case (Creating f)
  with create_settled [OF assms(1) row(1,3) cl] step show ?thesis by simp
next
  case (Getting f)
  then have "db' = db" using step by (cases flt) (auto simp: faulty_def)
  moreover have "holder pc' = None" using step Getting
    by (cases flt) (auto simp: faulty_def afterGet_def storeUnavail_def split: option.splits)
  ultimately show ?thesis using row(1,3) cl by (auto intro: kept_same closing_update)
next
  case (GettingLatest f)
  then have "db' = db" using step by (cases flt) (auto simp: faulty_def)
  moreover have "holder pc' = None" using step GettingLatest
    by (cases flt) (auto simp: faulty_def afterGetLatest_def storeUnavail_def split: option.splits)
  ultimately show ?thesis using row(1,3) cl by (auto intro: kept_same closing_update)
next
  case (ReclaimingExpired f ex)
  have "f_now f \<le> t" "\<And>r. rowAt db (ir_ID ex) = Some r \<Longrightarrow> keyed f r"
    using clients_okD(3,4) [OF inv a] ReclaimingExpired by auto
  moreover have "\<not> reclaimable (ir_Status ex) (f_now f) r" if "ir_ID ex = i"
    using fresh that row(1,2) ReclaimingExpired \<open>f_now f \<le> t\<close> by (auto simp: outdated_def)
  moreover obtain res where "faulty flt (TryReclaim R (ir_ID ex) (ir_Status ex) (f_now f) (f_lockedUntil f) (f_expiresAt f) t) db
      = (res, db')" "pc' = afterReclaimExpired f ex res"
    using step ReclaimingExpired by (auto simp: map_prod_def split: prod.splits)
  moreover from this have "res = Inr True \<and> j = ir_ID ex" if "holder pc' = Some (g, j)" for g j
    using that by (auto simp: afterReclaimExpired_def storeUnavail_def dest: holder_claimed split: sum.splits if_splits)
  ultimately show ?thesis by (intro reclaim_settled [OF assms(1) row(1,3) cl]) blast+
next
  case (Reclaiming f ex)
  have "\<And>r. rowAt db (ir_ID ex) = Some r \<Longrightarrow> keyed f r"
    using clients_okD(4) [OF inv a] Reclaiming by auto
  moreover have "\<not> reclaimable IdempotencyStatusFailedRetryable (f_now f) r"
    using row(3) by (auto simp: solid_def reclaimable_def)
  moreover obtain res where "faulty flt (TryReclaim R (ir_ID ex) IdempotencyStatusFailedRetryable (f_now f) (f_lockedUntil f)
      (f_expiresAt f) t) db = (res, db')" "pc' = afterReclaim f ex res"
    using step Reclaiming by (auto simp: map_prod_def split: prod.splits)
  moreover from this have "res = Inr True \<and> j = ir_ID ex" if "holder pc' = Some (g, j)" for g j
    using that by (auto simp: afterReclaim_def storeUnavail_def dest: holder_claimed split: sum.splits if_splits)
  ultimately show ?thesis by (intro reclaim_settled [OF assms(1) row(1,3) cl]) blast+
next
  case (MarkingFailed f k err reason until)
  have "k \<noteq> i" using cl a MarkingFailed by (auto simp: closing_def)
  obtain res where res: "faulty flt (\<lambda>db. ((), MarkFailedRetryable R k reason until (f_expiresAt f) t db)) db = (res, db')"
    "pc' = Returned (Inl err)"
    using step MarkingFailed by (cases "faulty flt (\<lambda>db. ((), MarkFailedRetryable R k reason until (f_expiresAt f) t db)) db") auto
  show ?thesis
    unfolding res(2) using mark_failed [OF assms(1) refl] \<open>k \<noteq> i\<close>
    by (intro mark_settled [OF assms(1) row(1,3) cl _ _ res(1), of k "failRow reason until (f_expiresAt f) t"]) auto
next
  case (MarkingSucceeded f k data body)
  obtain res where res: "faulty flt (\<lambda>db. ((), MarkSucceeded R k 200 body (f_expiresAt f) t db)) db = (res, db')"
    "pc' = afterMarkSucceeded data res"
    using step MarkingSucceeded by (auto simp: map_prod_def split: prod.splits)
  have "\<exists>r. pc' = Returned r" by (simp add: res(2) afterMarkSucceeded_def storeUnavail_def split: sum.splits)
  then obtain x where x: "pc' = Returned x" ..
  have "held (rowAt db) f k" using clients_okD(2) [OF inv a] MarkingSucceeded by auto
  then have "ir_ExpiresAt r = f_expiresAt f" if "k = i" using that row(1) by (auto simp: held_def)
  then have "same_key r (succeedRow 200 body (f_expiresAt f) t r) \<and>
      ir_ExpiresAt (succeedRow 200 body (f_expiresAt f) t r) = ir_ExpiresAt r \<and>
      solid (succeedRow 200 body (f_expiresAt f) t r)" if "k = i"
    using that by (simp add: succeedRow_def solid_def same_key_def)
  then show ?thesis
    unfolding x using mark_ok [OF assms(1) refl]
    by (intro mark_settled [OF assms(1) row(1,3) cl _ _ res(1), of k "succeedRow 200 body (f_expiresAt f) t"]) auto
qed (use step row cl list_update_id [of pcs a] in \<open>auto intro: kept_same\<close>)

lemma executing_apart:
  assumes "ok db" and inv: "clients_ok (rowAt db) (issued db) t pcs" and a: "a < length pcs"
    and pc: "pcs ! a = Executing f m i" and "settled (rowAt db) pcs e"
  shows "\<not> (ef_scope e = f_scope f \<and> ef_keyHash e = f_keyHash f)"
    and "settled (rowAt db) (pcs[a := afterExecute J cfg f i t res]) e"
proof -
  obtain k r where k: "rowAt db k = Some r" "ir_Scope r = ef_scope e" "ir_KeyHash r = ef_keyHash e"
    "ir_ExpiresAt r = ef_expires e" "solid r" "closing pcs k"
    using assms(5) by (auto simp: settled_def)
  have ne: "k \<noteq> i" using k(6) a pc by (auto simp: closing_def)
  obtain r' where r': "rowAt db i = Some r'" "keyed f r'"
    using clients_okD(2) [OF inv a] pc by (auto simp: held_def)
  show "\<not> (ef_scope e = f_scope f \<and> ef_keyHash e = f_keyHash f)"
    using row_unique [OF assms(1) k(1) r'(1)] ne k(2,3) r'(2) by (auto simp: keyed_def same_key_def)
  have "holder (afterExecute J cfg f i t res) \<noteq> Some (g, k)" for g
    using ne by (auto simp: afterExecute_def storeUnavail_def Let_def split: sum.splits)
  then have "closing (pcs[a := afterExecute J cfg f i t res]) k"
    using k(6) by (auto intro: closing_update)
  with k show "settled (rowAt db) (pcs[a := afterExecute J cfg f i t res]) e"
    unfolding settled_def by blast
qed

lemma executing_settles:
  assumes inv: "clients_ok (rowAt db) (issued db) t pcs" and a: "a < length pcs"
    and pc: "pcs ! a = Executing f m i"
  shows "settled (rowAt db) (pcs[a := afterExecute J cfg f i t (Inr v)]) (effectOf f m t (Inr v))"
proof -
  obtain r where r: "rowAt db i = Some r" "keyed f r" "ir_Status r = IdempotencyStatusProcessing"
    "ir_ExpiresAt r = f_expiresAt f"
    using clients_okD(2) [OF inv a] pc by (auto simp: held_def)
  have "holder (pcs ! b) \<noteq> Some (g, i)" if "b < length pcs" "b \<noteq> a" for b g
  proof -
    have "compatible (pcs ! a) (pcs ! b)" using inv a that by (simp add: clients_ok_def)
    with pc show ?thesis by (auto simp: compatible_def)
  qed
  moreover have "\<exists>data body. afterExecute J cfg f i t (Inr v) = MarkingSucceeded g i data body"
    if "holder (afterExecute J cfg f i t (Inr v)) = Some (g, i)" for g
    using that by (auto simp: afterExecute_def storeUnavail_def split: sum.splits)
  ultimately have "closing (pcs[a := afterExecute J cfg f i t (Inr v)]) i"
    using a by (auto simp: closing_def nth_list_update)
  with r show ?thesis by (auto simp: settled_def effectOf_def solid_def keyed_def)
qed

lemma settled_step:
  assumes "idem_inv ok rowAt issued w" and "steady rowAt w" and "settled_all rowAt w"
    and "sorted_wrt apart (w_effects w)" and "idem_step J cfg R w w'"
  shows "settled_all rowAt w' \<and> sorted_wrt apart (w_effects w')"
  using assms(5)
proof (cases rule: idem_step.cases)
  case (arrive opts)
  have "settled (rowAt (w_db w)) (w_clients w @ [beginExecute J cfg True True opts (w_clock w)]) e"
    if "settled (rowAt (w_db w)) (w_clients w) e" for e
    using that closing_append [OF _ begin_idle(1)] unfolding settled_def by blast
  with arrive assms(3,4) show ?thesis by (auto simp: settled_all_def)
next
  case (tick t)
  with assms(3,4) show ?thesis by (auto simp: settled_all_def)
next
  case (store a flt pc' db')
  have inv: "ok (w_db w)" "clients_ok (rowAt (w_db w)) (issued (w_db w)) (w_clock w) (w_clients w)"
    "\<not> outdated rowAt (w_db w) (w_clients w ! a)"
    using assms(1,2) store(2) by (auto simp: idem_inv_def steady_def list_all_length)
  have "settled (rowAt db') ((w_clients w)[a := pc']) e"
    if e: "settled (rowAt (w_db w)) (w_clients w) e" "w_clock w < ef_expires e" for e
  proof -
    obtain i r where r: "rowAt (w_db w) i = Some r" "ir_Scope r = ef_scope e" "ir_KeyHash r = ef_keyHash e"
      "ir_ExpiresAt r = ef_expires e" "solid r" "closing (w_clients w) i"
      using e(1) by (auto simp: settled_def)
    from store_settled [OF inv(1,2) store(2) inv(3) store(4) r(1) _ r(5,6)] e(2) r(4)
    show ?thesis by (intro settled_kept [where rows = "rowAt (w_db w)" and i = i, OF r(1-4)]) simp_all
  qed
  with store assms(3,4) show ?thesis by (auto simp: settled_all_def)
next
  case (execute a f mode i res)
  have inv: "ok (w_db w)" "clients_ok (rowAt (w_db w)) (issued (w_db w)) (w_clock w) (w_clients w)"
    using assms(1) by (auto simp: idem_inv_def)
  note old = executing_apart [OF inv execute(2,3)]
  have new: "settled (rowAt (w_db w)) (w_clients w') (effectOf f mode (w_clock w) res)"
    if "ef_ok (effectOf f mode (w_clock w) res)"
    using that executing_settles [OF inv(2) execute(2,3)] execute(1)
    by (cases res) (auto simp: effectOf_def)
  have "apart e (effectOf f mode (w_clock w) res)" if "e \<in> set (w_effects w)" for e
    using that old(1) [of e] assms(3) by (force simp: apart_def effectOf_def settled_all_def)
  moreover have "settled_all rowAt w'"
    using assms(3) old(2) new execute(1) by (auto simp: settled_all_def)
  ultimately show ?thesis using assms(4) execute(1) by (simp add: sorted_wrt_append)
next
  case (vanish a err)
  have "settled (rowAt (w_db w)) ((w_clients w)[a := Returned (Inl err)]) e"
    if "settled (rowAt (w_db w)) (w_clients w) e" for e
    using that closing_update [of "w_clients w" _ "Returned (Inl err)" a] unfolding settled_def by fastforce
  with vanish assms(3,4) show ?thesis by (auto simp: settled_all_def)
next
  case (cleanup now batch)
  have inv: "ok (w_db w)" "clients_ok (rowAt (w_db w)) (issued (w_db w)) (w_clock w) (w_clients w)"
    "list_all (on_time (w_clock w)) (w_clients w)"
    using assms(1,2) by (auto simp: idem_inv_def steady_def timely_def)
  note keep = cleanup_keeps [OF inv cleanup(2) refl, of batch]
  have "settled (rowAt (cleanupOnce R now batch (w_db w))) (w_clients w) e"
    if "settled (rowAt (w_db w)) (w_clients w) e" "w_clock w < ef_expires e" for e
    using that keep unfolding settled_def by metis
  with cleanup assms(3,4) show ?thesis by (auto simp: settled_all_def)
qed

lemma settled_runs:
  assumes "idem_runs J cfg R (steady rowAt) w0 w" and "idem_inv ok rowAt issued w0" and "w_effects w0 = []"
  shows "idem_inv ok rowAt issued w \<and> settled_all rowAt w \<and> sorted_wrt apart (w_effects w)"
  using assms(1) unfolding idem_runs_def
proof (induction rule: rtranclp_induct)
  case base
  with assms(2,3) show ?case by (simp add: settled_all_def)
next
  case (step w w')
  then have "steady rowAt w" "idem_step J cfg R w w'" by simp_all
  moreover from this(1) have "timely w" by (simp add: steady_def)
  ultimately show ?case using step(3) inv_step [of w J cfg w'] settled_step [of w J cfg w'] by blast
qed

end

end
