(* ===== verification/IdempotencyHandlers.thy ===== *)
theory IdempotencyHandlers
  imports Idempotency
begin

section \<open>Idempotent request handlers\<close>

text \<open>
  One call of \<open>Execute\<close> from start to end, and the handlers around it:
  \<open>handler/idempotency_helper.go\<close> for users and \<open>handler/admin/idempotency_helper.go\<close> for
  administrators.  \<open>Execute\<close> is driven by one input per step: the clock, the fault of the store call
  and the result of the caller's function, of which a step uses what it needs.  \<open>x_runs\<close> collects the
  results of the caller's function, so its length says how often it ran.
\<close>

record ('v, 'db) exec_state =
  x_pc :: "'v pc"
  x_db :: 'db
  x_runs :: "(go_error + 'v) list"

type_synonym 'v exec_input = "int \<times> fault \<times> (go_error + 'v)"

definition resultOf :: "'v pc \<Rightarrow> (go_error + 'v IdempotencyExecuteResult) option" where
  "resultOf pc = (case pc of Returned r \<Rightarrow> Some r | _ \<Rightarrow> None)"

definition execRound ::
  "'v idem_codec \<Rightarrow> IdempotencyConfig \<Rightarrow> 'db idem_repo \<Rightarrow> 'v exec_input \<Rightarrow> ('v, 'db) exec_state
   \<Rightarrow> ('v, 'db) exec_state \<times> (go_error + 'v IdempotencyExecuteResult) option" where
  "execRound J cfg R inp s =
     (case inp of (t, flt, res) \<Rightarrow>
       (case x_pc s of
          ExecutingPlain \<Rightarrow>
            (let r = (case res of Inl err \<Rightarrow> Inl err | Inr data \<Rightarrow> Inr \<lparr>ier_Data = data, ier_Replayed = False\<rparr>)
             in (s\<lparr>x_pc := Returned r, x_runs := x_runs s @ [res]\<rparr>, Some r))
        | Executing f mode i \<Rightarrow>
            (let pc' = afterExecute J cfg f i t res
             in (s\<lparr>x_pc := pc', x_runs := x_runs s @ [res]\<rparr>, resultOf pc'))
        | pc \<Rightarrow>
            (case storeStep J R t flt pc (x_db s) of
               (pc', db') \<Rightarrow> (s\<lparr>x_pc := pc', x_db := db'\<rparr>, resultOf pc'))))"

definition Execute ::
  "'v idem_codec \<Rightarrow> IdempotencyConfig \<Rightarrow> bool \<Rightarrow> bool \<Rightarrow> 'db idem_repo \<Rightarrow> 'v IdempotencyExecuteOptions \<Rightarrow> int
   \<Rightarrow> 'v exec_input list \<Rightarrow> 'db \<Rightarrow> ('v, 'db) exec_state \<times> (go_error + 'v IdempotencyExecuteResult) option" where
  "Execute J cfg hasExecutor hasRepo R opts now ins db =
     (let pc = beginExecute J cfg hasExecutor hasRepo opts now;
          s = \<lparr>x_pc = pc, x_db = db, x_runs = []\<rparr>
      in case resultOf pc of
           Some r \<Rightarrow> (s, Some r)
         | None \<Rightarrow> run_loop (execRound J cfg R) ins s)"

subsection \<open>Handlers\<close>

record 'v http_reply =
  hr_Result :: "go_error + 'v"
  hr_RetryAfter :: "string option"
  hr_Replayed :: bool
  hr_Degraded :: bool

definition replyData :: "'v \<Rightarrow> bool \<Rightarrow> bool \<Rightarrow> 'v http_reply" where
  "replyData data replayed degraded =
     \<lparr>hr_Result = Inr data, hr_RetryAfter = None, hr_Replayed = replayed, hr_Degraded = degraded\<rparr>"

definition replyError :: "go_error \<Rightarrow> 'v http_reply" where
  "replyError err =
     \<lparr>hr_Result = Inl err,
      hr_RetryAfter = (if RetryAfterSecondsFromError err > 0 then Some (itoa (RetryAfterSecondsFromError err)) else None),
      hr_Replayed = False, hr_Degraded = False\<rparr>"

definition replyPlain :: "go_error + 'v \<Rightarrow> 'v http_reply" where
  "replyPlain res =
     (case res of
        Inl err \<Rightarrow> \<lparr>hr_Result = Inl err, hr_RetryAfter = None, hr_Replayed = False, hr_Degraded = False\<rparr>
      | Inr data \<Rightarrow> replyData data False False)"

text \<open>The options a handler builds; \<open>subject\<close> is the authenticated user, \<open>role\<close> the scope's prefix.\<close>

definition handlerOptions ::
  "string \<Rightarrow> int option \<Rightarrow> string \<Rightarrow> string \<Rightarrow> string \<Rightarrow> string \<Rightarrow> 'v \<Rightarrow> int \<Rightarrow> 'v IdempotencyExecuteOptions" where
  "handlerOptions role subject scope method route key payload ttl =
     \<lparr>opt_Scope = scope,
      opt_ActorScope = role @ '':'' @ (case subject of None \<Rightarrow> ''0'' | Some userID \<Rightarrow> itoa userID),
      opt_Method = method, opt_Route = route, opt_IdempotencyKey = key, opt_Payload = payload,
      opt_TTL = ttl, opt_RequireKey = True\<rparr>"

text \<open>
  \<open>executeUserIdempotentJSON\<close>, from the result of the coordinator (\<open>None\<close>: there is no coordinator
  and the caller's function ran once, with result \<open>plain\<close>).
\<close>

definition executeUserIdempotentJSON ::
  "(go_error + 'v IdempotencyExecuteResult) option \<Rightarrow> go_error + 'v \<Rightarrow> 'v http_reply" where
  "executeUserIdempotentJSON result plain =
     (case result of
        None \<Rightarrow> replyPlain plain
      | Some (Inl err) \<Rightarrow> replyError err
      | Some (Inr r) \<Rightarrow> replyData (ier_Data r) (ier_Replayed r) False)"

datatype idempotencyStoreUnavailableMode =
    idempotencyStoreUnavailableFailClose
  | idempotencyStoreUnavailableFailOpen

text \<open>
  \<open>executeAdminIdempotentJSONWithMode\<close>: the reply, and whether the caller's function is run (again)
  by the handler, with result \<open>fallback\<close>.
\<close>

definition executeAdminIdempotentJSONWithMode ::
  "idempotencyStoreUnavailableMode \<Rightarrow> go_error + 'v IdempotencyExecuteResult \<Rightarrow> go_error + 'v
   \<Rightarrow> 'v http_reply \<times> bool" where
  "executeAdminIdempotentJSONWithMode mode result fallback =
     (case result of
        Inl err \<Rightarrow>
          (if Code (Some err) = Code (Some ErrIdempotencyStoreUnavail) \<and> mode = idempotencyStoreUnavailableFailOpen
           then (case fallback of
                   Inl fallbackErr \<Rightarrow>
                     (\<lparr>hr_Result = Inl fallbackErr, hr_RetryAfter = None, hr_Replayed = False, hr_Degraded = False\<rparr>, True)
                 | Inr data \<Rightarrow> (replyData data False True, True))
           else (replyError err, False))
      | Inr r \<Rightarrow> (replyData (ier_Data r) (ier_Replayed r) False, False))"

text \<open>\<open>executeAdminIdempotent\<close>: without a coordinator the caller's function runs on its own.\<close>

definition executeAdminIdempotent ::
  "(go_error + 'v IdempotencyExecuteResult) option \<Rightarrow> go_error + 'v \<Rightarrow> go_error + 'v IdempotencyExecuteResult" where
  "executeAdminIdempotent coordinated plain =
     (case coordinated of
        Some r \<Rightarrow> r
      | None \<Rightarrow>
          (case plain of Inl err \<Rightarrow> Inl err | Inr data \<Rightarrow> Inr \<lparr>ier_Data = data, ier_Replayed = False\<rparr>))"

subsection \<open>Execute ends\<close>

text \<open>The number of steps a request can still take.\<close>

fun pcRank :: "'v pc \<Rightarrow> nat" where
  "pcRank (Creating f) = 6"
| "pcRank (Getting f) = 5"
| "pcRank (ReclaimingExpired f existing) = 4"
| "pcRank (GettingLatest f) = 3"
| "pcRank (Reclaiming f existing) = 2"
| "pcRank (Executing f mode i) = 1"
| "pcRank ExecutingPlain = 0"
| "pcRank (MarkingFailed f i err reason backoffUntil) = 0"
| "pcRank (MarkingSucceeded f i data body) = 0"
| "pcRank (Returned r) = 0"

lemma resultOf_None: "resultOf pc = None \<longleftrightarrow> (\<forall>r. pc \<noteq> Returned r)"
  by (cases pc) (auto simp: resultOf_def)

lemma resultOf_claimed: "resultOf (claimed f m i) = None \<Longrightarrow> pcRank (claimed f m i) = 1"
  by (auto simp: claimed_def storeUnavail_def resultOf_def split: if_splits)

lemma resultOf_dispatch: "resultOf (dispatchStatus J f ex) = None \<Longrightarrow> pcRank (dispatchStatus J f ex) = 2"
  by (auto simp: dispatchStatus_def storeUnavail_def resultOf_def split: sum.splits option.splits if_splits)

lemma storeStep_rank:
  assumes "awaitsStore pc" and "storeStep J R t flt pc db = (pc', db')" and "resultOf pc' = None"
  shows "pcRank pc' < pcRank pc"
proof (cases pc)
  case (Creating f)
  with assms(2,3) show ?thesis
    by (cases flt) (auto simp: faulty_def afterCreate_def storeUnavail_def resultOf_def[of "Returned x" for x]
        resultOf_claimed split: option.splits prod.splits)
next
  case (Getting f)
  with assms(2,3) show ?thesis
    by (cases flt) (auto simp: faulty_def afterGet_def storeUnavail_def resultOf_def[of "Returned x" for x]
        resultOf_dispatch split: option.splits prod.splits if_splits)
next
  case (ReclaimingExpired f ex)
  with assms(2,3) show ?thesis
    by (cases flt) (auto simp: faulty_def afterReclaimExpired_def storeUnavail_def resultOf_def[of "Returned x" for x]
        resultOf_claimed split: option.splits prod.splits if_splits)
next
  case (GettingLatest f)
  with assms(2,3) show ?thesis
    by (cases flt) (auto simp: faulty_def afterGetLatest_def storeUnavail_def resultOf_def[of "Returned x" for x]
        resultOf_dispatch split: option.splits prod.splits if_splits)
next
  case (Reclaiming f ex)
  with assms(2,3) show ?thesis
    by (cases flt) (auto simp: faulty_def afterReclaim_def storeUnavail_def resultOf_def[of "Returned x" for x]
        resultOf_claimed split: option.splits prod.splits if_splits)
next
  case (MarkingSucceeded f i data body)
  with assms(2,3) show ?thesis
    by (cases flt) (auto simp: faulty_def afterMarkSucceeded_def storeUnavail_def resultOf_def)
qed (use assms in \<open>auto simp: resultOf_def\<close>)

lemma execRound_rank:
  assumes "execRound J cfg R inp s = (s', None)"
  shows "pcRank (x_pc s') < pcRank (x_pc s)"
proof -
  obtain t flt res where inp: "inp = (t, flt, res)" by (cases inp) auto
  show ?thesis
  proof (cases "awaitsStore (x_pc s)")
    case True
    obtain pc' db' where st: "storeStep J R t flt (x_pc s) (x_db s) = (pc', db')"
      by (cases "storeStep J R t flt (x_pc s) (x_db s)")
    have "execRound J cfg R inp s = (s\<lparr>x_pc := pc', x_db := db'\<rparr>, resultOf pc')"
      using True st by (cases "x_pc s") (simp_all add: execRound_def inp)
    with assms storeStep_rank [OF True st] show ?thesis by auto
  next
    case False
    with assms show ?thesis
      by (cases "x_pc s")
        (auto simp: execRound_def inp Let_def resultOf_def afterExecute_def storeUnavail_def split: sum.splits)
  qed
qed

interpretation execute_loop: loop_budget "execRound J cfg R" "\<lambda>_. True" "\<lambda>_. True" "\<lambda>_. 1" "\<lambda>s. pcRank (x_pc s)"
  for J cfg R
  by unfold_locales (use execRound_rank in fastforce)+

end
