(* ===== verification/IdempotencyProperties.thy ===== *)
theory IdempotencyProperties
  imports IdempotencyInvariant IdempotencyHandlers
begin

section \<open>Properties of idempotent requests\<close>

subsection \<open>Running concurrent requests by labels\<close>

text \<open>The steps as a function, to run concrete interleavings.\<close>

datatype 'v idem_label =
    Arrive "'v IdempotencyExecuteOptions"
  | Tick int
  | Call nat fault
  | Finish nat "go_error + 'v"
  | Vanish nat go_error
  | Cleanup int int

fun applyLabel :: "'v idem_codec \<Rightarrow> IdempotencyConfig \<Rightarrow> 'db idem_repo \<Rightarrow> 'v idem_label
  \<Rightarrow> ('v, 'db) idem_world \<Rightarrow> ('v, 'db) idem_world option" where
  "applyLabel J cfg R (Arrive opts) w =
     Some (w\<lparr>w_clients := w_clients w @ [beginExecute J cfg True True opts (w_clock w)]\<rparr>)"
| "applyLabel J cfg R (Tick t) w = (if w_clock w \<le> t then Some (w\<lparr>w_clock := t\<rparr>) else None)"
| "applyLabel J cfg R (Call a flt) w =
     (if a < length (w_clients w) \<and> awaitsStore (w_clients w ! a)
      then (case storeStep J R (w_clock w) flt (w_clients w ! a) (w_db w) of
              (pc', db') \<Rightarrow> Some (w\<lparr>w_db := db', w_clients := (w_clients w)[a := pc']\<rparr>))
      else None)"
| "applyLabel J cfg R (Finish a res) w =
     (if a < length (w_clients w)
      then (case w_clients w ! a of
              Executing f mode i \<Rightarrow>
                Some (w\<lparr>w_clients := (w_clients w)[a := afterExecute J cfg f i (w_clock w) res],
                        w_effects := w_effects w @ [effectOf f mode (w_clock w) res]\<rparr>)
            | _ \<Rightarrow> None)
      else None)"
| "applyLabel J cfg R (Vanish a err) w =
     (if a < length (w_clients w) then Some (w\<lparr>w_clients := (w_clients w)[a := Returned (Inl err)]\<rparr>) else None)"
| "applyLabel J cfg R (Cleanup now batch) w =
     (if now \<le> w_clock w then Some (w\<lparr>w_db := cleanupOnce R now batch (w_db w)\<rparr>) else None)"

lemma applyLabel_step: "applyLabel J cfg R l w = Some w' \<Longrightarrow> idem_step J cfg R w w'"
  by (cases l) (auto split: if_splits prod.splits pc.splits intro: idem_step.intros)

fun runLabels :: "'v idem_codec \<Rightarrow> IdempotencyConfig \<Rightarrow> 'db idem_repo \<Rightarrow> (('v, 'db) idem_world \<Rightarrow> bool)
  \<Rightarrow> 'v idem_label list \<Rightarrow> ('v, 'db) idem_world \<Rightarrow> ('v, 'db) idem_world option" where
  "runLabels J cfg R P [] w = Some w"
| "runLabels J cfg R P (l # ls) w =
     (if P w then (case applyLabel J cfg R l w of None \<Rightarrow> None | Some w' \<Rightarrow> runLabels J cfg R P ls w') else None)"

lemma runLabels_runs: "runLabels J cfg R P ls w = Some w' \<Longrightarrow> idem_runs J cfg R P w w'"
proof (induction ls arbitrary: w)
  case (Cons l ls)
  then obtain w1 where w1: "P w" "applyLabel J cfg R l w = Some w1" "idem_runs J cfg R P w1 w'"
    by (auto split: if_splits option.splits)
  with applyLabel_step [OF w1(2)] show ?case
    unfolding idem_runs_def by (auto intro: converse_rtranclp_into_rtranclp)
qed (simp add: idem_runs_def)

subsection \<open>Example data\<close>

definition quoteChar :: char where "quoteChar = CHR 0x22"

definition exIdemCodec :: "string idem_codec" where
  "exIdemCodec = \<lparr>ic_marshal = (\<lambda>v. Inr (quoteChar # v @ [quoteChar])),
     ic_unmarshal = (\<lambda>s. if length s \<ge> 2 \<and> hd s = quoteChar \<and> last s = quoteChar
        then Inr (butlast (tl s)) else Inl (OtherError ''invalid character'' None)),
     ic_emptyObject = '''', ic_redact = (\<lambda>s. s), ic_sha256hex = (\<lambda>s. s)\<rparr>"

definition exOpts :: "string IdempotencyExecuteOptions" where
  "exOpts = handlerOptions ''admin'' (Some 1) ''admin.users.balance.update'' ''POST'' ''/balance'' ''key-1'' ''add 5'' 0"

definition emptyIdemDB :: idem_db where
  "emptyIdemDB = \<lparr>idem_rows = [], idem_seq = 1\<rparr>"

definition emptyWorld :: "(string, idem_db) idem_world" where
  "emptyWorld = \<lparr>w_clock = 0, w_db = emptyIdemDB, w_clients = [], w_effects = []\<rparr>"

definition day :: int where "day = 24 * 3600 * idem_second"

text \<open>Two requests with one key arrive together; one executes, the other is told to wait.\<close>

definition exTwoRequests :: "string idem_label list" where
  "exTwoRequests = [Arrive exOpts, Arrive exOpts, Call 0 NoFault, Call 1 NoFault, Call 1 NoFault]"

text \<open>A request executes, its record expires, and two more requests find it expired.\<close>

definition exRace :: "string idem_label list" where
  "exRace = [Arrive exOpts, Call 0 NoFault, Finish 0 (Inr ''done''), Call 0 NoFault, Tick day,
     Arrive exOpts, Arrive exOpts, Call 1 NoFault, Call 1 NoFault, Call 2 NoFault, Call 2 NoFault,
     Call 1 NoFault, Finish 1 (Inr ''done''), Call 1 NoFault, Call 2 NoFault, Finish 2 (Inr ''done'')]"

fun isExecuting :: "'v pc \<Rightarrow> bool" where
  "isExecuting (Executing f mode i) = True"
| "isExecuting _ = False"

definition executors :: "('v, 'db) idem_world \<Rightarrow> nat list" where
  "executors w = filter (\<lambda>a. isExecuting (w_clients w ! a)) [0..<length (w_clients w)]"

lemma executors_mem: "a \<in> set (executors w) \<longleftrightarrow> a < length (w_clients w) \<and> isExecuting (w_clients w ! a)"
  by (auto simp: executors_def)

lemma empty_world_ok: "idem_ok (w_db emptyWorld)" "w_clients emptyWorld = []" "w_effects emptyWorld = []"
  by (simp_all add: emptyWorld_def emptyIdemDB_def idem_ok_def)

subsection \<open>Concurrent requests\<close>

text \<open>C4: At most one request executes for a key at any time: however requests, store failures, crashes and
  cleanups interleave, two requests that run the caller's function for the same scope and key are one,
  provided claims are made before the lock they ask for would have run out and executions end
  before their record expires.\<close>

theorem at_most_one_executor:
  assumes "idem_runs J cfg sqlRepo timely w0 w" and "idem_ok (w_db w0)" and "w_clients w0 = []"
    and "a < length (w_clients w)" and "b < length (w_clients w)"
    and "w_clients w ! a = Executing f m i" and "w_clients w ! b = Executing g m' j"
    and "f_scope f = f_scope g" and "f_keyHash f = f_keyHash g"
  shows "a = b"
proof -
  have "idem_inv idem_ok sqlRow sqlIssued w0"
    using assms(2,3) by (simp add: idem_inv_def clients_ok_def)
  from sql_store.one_holder [OF sql_store.inv_runs [OF assms(1) this] assms(4,5)] assms(6-9)
  show ?thesis by simp
qed

theorem at_most_one_executor_witness:
  "(case runLabels exIdemCodec DefaultIdempotencyConfig sqlRepo timely exTwoRequests emptyWorld of
      None \<Rightarrow> False
    | Some w \<Rightarrow> hd (executors w) = last (executors w) \<and> executors w = [0] \<and> length (w_clients w) = 2)"
proof -
  let ?run = "runLabels exIdemCodec DefaultIdempotencyConfig sqlRepo timely exTwoRequests emptyWorld"
  have "map_option (\<lambda>w. (executors w, length (w_clients w))) ?run = Some ([0], 2)" by code_simp
  then obtain w where w: "?run = Some w" "executors w = [0]" "length (w_clients w) = 2" by auto
  then have "isExecuting (w_clients w ! 0)" using executors_mem [of 0 w] by simp
  then obtain f m i where "w_clients w ! 0 = Executing f m i" by (cases "w_clients w ! 0") auto
  with at_most_one_executor [OF runLabels_runs [OF w(1)] _ _ _ _ this this refl refl] w show ?thesis
    by (simp add: empty_world_ok)
qed

text \<open>C5: A success is not repeated before it expires: if no request takes over a record that another request
  renewed after it was read, then a caller's function does not run again for a scope and key between
  a successful run and the end of the time to live of its record.\<close>

theorem at_most_one_success_per_ttl:
  assumes "idem_runs J cfg sqlRepo (steady sqlRow) w0 w" and "idem_ok (w_db w0)" and "w_clients w0 = []"
    and "w_effects w0 = []" and "k < l" and "l < length (w_effects w)" and "ef_ok (w_effects w ! k)"
    and "ef_scope (w_effects w ! k) = ef_scope (w_effects w ! l)"
    and "ef_keyHash (w_effects w ! k) = ef_keyHash (w_effects w ! l)"
  shows "ef_expires (w_effects w ! k) \<le> ef_at (w_effects w ! l)"
proof -
  have "idem_inv idem_ok sqlRow sqlIssued w0"
    using assms(2,3) by (simp add: idem_inv_def clients_ok_def)
  then have "sorted_wrt apart (w_effects w)"
    using sql_store.settled_runs [OF assms(1) _ assms(4)] by blast
  then have "apart (w_effects w ! k) (w_effects w ! l)" using assms(5,6) by (rule sorted_wrt_nth_less)
  with assms(7-9) show ?thesis by (simp add: apart_def)
qed

text \<open>Two requests with one key, the second after the first's record has expired.\<close>

definition exTwoDays :: "string idem_label list" where
  "exTwoDays = [Arrive exOpts, Call 0 NoFault, Finish 0 (Inr ''done''), Call 0 NoFault, Tick day,
     Arrive exOpts, Call 1 NoFault, Call 1 NoFault, Call 1 NoFault, Finish 1 (Inr ''done''), Call 1 NoFault]"

theorem at_most_one_success_per_ttl_witness:
  "(case runLabels exIdemCodec DefaultIdempotencyConfig sqlRepo (steady sqlRow) exTwoDays emptyWorld of
      None \<Rightarrow> False
    | Some w \<Rightarrow> ef_expires (w_effects w ! 0) \<le> ef_at (w_effects w ! 1) \<and> length (w_effects w) = 2)"
proof -
  let ?run = "runLabels exIdemCodec DefaultIdempotencyConfig sqlRepo (steady sqlRow) exTwoDays emptyWorld"
  have "map_option (\<lambda>w. length (w_effects w) = 2 \<and> ef_ok (w_effects w ! 0) \<and>
      ef_scope (w_effects w ! 0) = ef_scope (w_effects w ! 1) \<and>
      ef_keyHash (w_effects w ! 0) = ef_keyHash (w_effects w ! 1)) ?run = Some True" by code_simp
  then obtain w where w: "?run = Some w" "length (w_effects w) = 2" "ef_ok (w_effects w ! 0)"
    "ef_scope (w_effects w ! 0) = ef_scope (w_effects w ! 1)"
    "ef_keyHash (w_effects w ! 0) = ef_keyHash (w_effects w ! 1)" by auto
  with at_most_one_success_per_ttl [OF runLabels_runs [OF w(1)] empty_world_ok _ _ w(3-5)] show ?thesis
    by simp
qed

text \<open>The takeover of an expired record is not safe: two requests find the record of an earlier success
  expired, the first renews it, executes and stores its success, and the second, whose conditional
  update looks at the status and the lock but not at the expiry, takes the renewed record over and
  executes as well, so the operation is done twice at the same instant although everybody was on time.\<close>

theorem expired_takeover_executes_twice:
  "map_option (\<lambda>w. map (\<lambda>e. (ef_mode e, ef_at e, ef_expires e, ef_ok e)) (w_effects w))
     (runLabels exIdemCodec DefaultIdempotencyConfig sqlRepo timely exRace emptyWorld) =
   Some [(NewClaim, 0, day, True), (ExpiredReclaim, day, 2 * day, True), (ExpiredReclaim, day, 2 * day, True)]"
  by code_simp

subsection \<open>One request\<close>

text \<open>The caller's function can still run.\<close>

fun mayRun :: "'v pc \<Rightarrow> bool" where
  "mayRun ExecutingPlain = True"
| "mayRun pc = (0 < pcRank pc)"

definition ranOnce :: "('v, 'db) exec_state \<Rightarrow> bool" where
  "ranOnce s \<longleftrightarrow> length (x_runs s) + of_bool (mayRun (x_pc s)) \<le> 1"

lemma storeStep_mayRun: "awaitsStore pc \<Longrightarrow> \<not> mayRun pc \<Longrightarrow> storeStep J R t flt pc db = (pc', db') \<Longrightarrow> \<not> mayRun pc'"
  by (cases pc; cases flt)
    (auto simp: faulty_def afterMarkSucceeded_def storeUnavail_def split: prod.splits)

lemma execRound_ranOnce: "ranOnce s \<Longrightarrow> ranOnce (fst (execRound J cfg R inp s))"
proof -
  assume inv: "ranOnce s"
  obtain t flt res where inp: "inp = (t, flt, res)" by (cases inp) auto
  show ?thesis
  proof (cases "awaitsStore (x_pc s)")
    case True
    obtain pc' db' where st: "storeStep J R t flt (x_pc s) (x_db s) = (pc', db')"
      by (cases "storeStep J R t flt (x_pc s) (x_db s)")
    have "execRound J cfg R inp s = (s\<lparr>x_pc := pc', x_db := db'\<rparr>, resultOf pc')"
      using True st by (cases "x_pc s") (simp_all add: execRound_def inp)
    with inv storeStep_mayRun [OF True _ st] show ?thesis
      by (cases "mayRun (x_pc s)") (auto simp: ranOnce_def of_bool_def split: if_splits)
  next
    case False
    then show ?thesis using inv
      by (cases "x_pc s")
        (auto simp: execRound_def inp ranOnce_def Let_def afterExecute_def storeUnavail_def split: sum.splits)
  qed
qed

interpretation once_loop: loop_budget "execRound J cfg R" "\<lambda>_. True" ranOnce "\<lambda>_. 0" "\<lambda>_. 0" for J cfg R
  by unfold_locales (use execRound_ranOnce in auto)

lemma beginExecute_rank: "pcRank (beginExecute J cfg e r opts now) \<le> 6"
  by (auto simp: beginExecute_def storeUnavail_def Let_def split: sum.splits)

text \<open>C32: A call always returns: whatever the store answers, after at most seven calls out, six to the store and one
  to the caller's function, it has a result, and it has run the caller's function at most once.\<close>

theorem execute_returns_once:
  assumes "7 \<le> length ins"
  shows "\<exists>s r. Execute J cfg hasExecutor hasRepo R opts now ins db = (s, Some r) \<and> length (x_runs s) \<le> 1"
proof (cases "resultOf (beginExecute J cfg hasExecutor hasRepo opts now)")
  case (Some r)
  then show ?thesis by (simp add: Execute_def)
next
  case None
  let ?s = "\<lparr>x_pc = beginExecute J cfg hasExecutor hasRepo opts now, x_db = db, x_runs = []\<rparr>"
  have "pcRank (x_pc ?s) < sum_list (map (\<lambda>_. 1) ins)"
    using beginExecute_rank [of J cfg hasExecutor hasRepo opts now] assms by (simp add: sum_list_triv)
  then have "\<exists>s r. run_loop (execRound J cfg R) ins ?s = (s, Some r)"
    by (intro execute_loop.run_ends) (simp_all add: list_all_length)
  then obtain s r where run: "run_loop (execRound J cfg R) ins ?s = (s, Some r)" by blast
  have "ranOnce (fst (run_loop (execRound J cfg R) ins ?s))"
    by (rule once_loop.run_inv) (simp_all add: ranOnce_def list_all_length)
  with run None show ?thesis by (simp add: Execute_def ranOnce_def)
qed

definition exStep :: "string exec_input" where
  "exStep = (0, NoFault, Inr ''done'')"

theorem execute_returns_once_witness:
  "\<exists>s r. Execute exIdemCodec DefaultIdempotencyConfig True True sqlRepo exOpts 0 (replicate 7 exStep) emptyIdemDB
     = (s, Some r) \<and> length (x_runs s) \<le> 1"
  by (rule execute_returns_once) simp

subsection \<open>What a request finds\<close>

lemma sql_get_row:
  assumes "idem_ok db" and "r \<in> set (idem_rows db)"
  shows "sql_GetByScopeAndKeyHash (ir_Scope r) (ir_KeyHash r) db = Some r"
proof -
  obtain r' where r': "sql_GetByScopeAndKeyHash (ir_Scope r) (ir_KeyHash r) db = Some r'"
    using assms(2) by (cases "sql_GetByScopeAndKeyHash (ir_Scope r) (ir_KeyHash r) db")
      (auto simp: sql_GetByScopeAndKeyHash_def find_None_iff)
  then have "r' \<in> set (idem_rows db)" "ir_Scope r' = ir_Scope r" "ir_KeyHash r' = ir_KeyHash r"
    by (auto simp: sql_GetByScopeAndKeyHash_def find_Some_iff)
  with assms have "r' = r" by (auto simp: idem_ok_def distinct_map inj_on_def)
  with r' show ?thesis by simp
qed

text \<open>What \<open>Execute\<close> computes before its first store call.\<close>

definition requestFrame :: "'v idem_codec \<Rightarrow> IdempotencyConfig \<Rightarrow> 'v IdempotencyExecuteOptions \<Rightarrow> string \<Rightarrow> string
  \<Rightarrow> int \<Rightarrow> idem_frame" where
  "requestFrame J cfg opts key fp now =
     \<lparr>f_scope = opt_Scope opts, f_keyHash = HashIdempotencyKey J key, f_fingerprint = fp, f_now = now,
      f_lockedUntil = now + ProcessingTimeout cfg,
      f_expiresAt = now + (if opt_TTL opts \<le> 0 then DefaultTTL cfg else opt_TTL opts)\<rparr>"

lemma requestFrame_sel [simp]:
  "f_scope (requestFrame J cfg opts key fp now) = opt_Scope opts"
  "f_keyHash (requestFrame J cfg opts key fp now) = HashIdempotencyKey J key"
  "f_fingerprint (requestFrame J cfg opts key fp now) = fp"
  "f_now (requestFrame J cfg opts key fp now) = now"
  "f_lockedUntil (requestFrame J cfg opts key fp now) = now + ProcessingTimeout cfg"
  "f_expiresAt (requestFrame J cfg opts key fp now) =
     now + (if opt_TTL opts \<le> 0 then DefaultTTL cfg else opt_TTL opts)"
  by (simp_all add: requestFrame_def)

definition keyedRequest :: "'v idem_codec \<Rightarrow> 'v IdempotencyExecuteOptions \<Rightarrow> string \<Rightarrow> string \<Rightarrow> bool" where
  "keyedRequest J opts key fp \<longleftrightarrow> NormalizeIdempotencyKey (opt_IdempotencyKey opts) = Inr key \<and> key \<noteq> '''' \<and>
     opt_Scope opts \<noteq> '''' \<and>
     BuildIdempotencyFingerprint J (opt_Method opts) (opt_Route opts) (opt_ActorScope opts) (opt_Payload opts) = Inr fp"

lemma begin_keyed:
  "keyedRequest J opts key fp \<Longrightarrow>
   beginExecute J cfg True True opts now = Creating (requestFrame J cfg opts key fp now)"
  by (simp add: keyedRequest_def beginExecute_def requestFrame_def Let_def)

lemma Execute_keyed:
  assumes "keyedRequest J opts key fp"
  shows "Execute J cfg True True R opts now ins db =
    run_loop (execRound J cfg R) ins \<lparr>x_pc = Creating (requestFrame J cfg opts key fp now), x_db = db, x_runs = []\<rparr>"
  using begin_keyed [OF assms, of cfg now] by (simp add: Execute_def resultOf_def)

definition existingAnswer :: "'v idem_codec \<Rightarrow> string \<Rightarrow> int \<Rightarrow> IdempotencyRecord \<Rightarrow> go_error + 'v IdempotencyExecuteResult" where
  "existingAnswer J fp now r =
     (if ir_Fingerprint r \<noteq> fp then Inl ErrIdempotencyKeyConflict
      else if ir_Status r = IdempotencyStatusSucceeded
      then (case decodeStoredResponse J (ir_ResponseBody r) of
              Inl err \<Rightarrow> Inl (WithCause ErrIdempotencyStoreUnavail err)
            | Inr data \<Rightarrow> Inr \<lparr>ier_Data = data, ier_Replayed = True\<rparr>)
      else if ir_Status r = IdempotencyStatusProcessing
      then Inl (conflictWithRetryAfter ErrIdempotencyInProgress (ir_LockedUntil r) now)
      else if ir_Status r = IdempotencyStatusFailedRetryable
      then Inl (conflictWithRetryAfter ErrIdempotencyRetryBackoff (ir_LockedUntil r) now)
      else Inl ErrIdempotencyKeyConflict)"

lemma execRound_store:
  "x_pc s = Creating f \<or> x_pc s = Getting f \<or> x_pc s = MarkingSucceeded f i d b \<Longrightarrow>
   execRound J cfg R (t, flt, u) s =
     (case storeStep J R t flt (x_pc s) (x_db s) of
        (pc', db') \<Rightarrow> (s\<lparr>x_pc := pc', x_db := db'\<rparr>, resultOf pc'))"
  by (auto simp: execRound_def)

lemma Execute_existing:
  assumes "keyedRequest J opts key fp" and "idem_ok db" and "r \<in> set (idem_rows db)"
    and "ir_Scope r = opt_Scope opts" and "ir_KeyHash r = HashIdempotencyKey J key"
    and "now < ir_ExpiresAt r"
    and "ir_Status r = IdempotencyStatusFailedRetryable \<Longrightarrow> \<exists>l. ir_LockedUntil r = Some l \<and> now < l"
  shows "\<exists>s. Execute J cfg True True sqlRepo opts now ((t1, NoFault, u1) # (t2, NoFault, u2) # ins) db =
      (s, Some (existingAnswer J fp now r)) \<and> x_runs s = [] \<and> idem_rows (x_db s) = idem_rows db"
proof -
  let ?f = "requestFrame J cfg opts key fp now" and ?db = "db\<lparr>idem_seq := idem_seq db + 1\<rparr>"
  have c: "sql_CreateProcessing (newRecord ?f) t1 db = (None, ?db)"
    using assms(3-5) by (auto simp: sql_CreateProcessing_def newRecord_def list_ex_iff)
  have "idem_ok ?db" using assms(2) by (auto simp: idem_ok_def list_all_iff)
  then have g: "sql_GetByScopeAndKeyHash (opt_Scope opts) (HashIdempotencyKey J key) ?db = Some r"
    using sql_get_row [of ?db r] assms(3-5) by simp
  have "resultOf (afterGet J ?f (Inr (Some r))) = Some (existingAnswer J fp now r)"
    using assms(6,7) by (auto simp: afterGet_def dispatchStatus_def existingAnswer_def
        storeUnavail_def resultOf_def split: sum.splits)
  moreover have "storeStep J sqlRepo t1 NoFault (Creating ?f) db = (Getting ?f, ?db)"
    using c by (simp add: faulty_def afterCreate_def)
  moreover have "storeStep J sqlRepo t2 NoFault (Getting ?f) ?db = (afterGet J ?f (Inr (Some r)), ?db)"
    using g by (simp add: faulty_def)
  ultimately show ?thesis
    by (simp add: Execute_keyed [OF assms(1)] execRound_store resultOf_def [of "Getting f" for f] del: storeStep.simps)
qed

text \<open>The example request has a key and a fingerprint.\<close>

definition exFingerprint :: string where
  "exFingerprint = (case BuildIdempotencyFingerprint exIdemCodec (opt_Method exOpts) (opt_Route exOpts)
     (opt_ActorScope exOpts) (opt_Payload exOpts) of Inl err \<Rightarrow> '''' | Inr fp \<Rightarrow> fp)"

lemma ex_keyed: "keyedRequest exIdemCodec exOpts ''key-1'' exFingerprint"
proof -
  have "case NormalizeIdempotencyKey (opt_IdempotencyKey exOpts) of Inl _ \<Rightarrow> False | Inr k \<Rightarrow> k = ''key-1''" by code_simp
  moreover have "case BuildIdempotencyFingerprint exIdemCodec (opt_Method exOpts) (opt_Route exOpts)
      (opt_ActorScope exOpts) (opt_Payload exOpts) of Inl _ \<Rightarrow> False | Inr fp \<Rightarrow> True" by code_simp
  moreover have "opt_Scope exOpts \<noteq> ''''" by (simp add: exOpts_def handlerOptions_def)
  ultimately show ?thesis by (simp add: keyedRequest_def exFingerprint_def split: sum.splits)
qed

definition exRow :: IdempotencyRecord where
  "exRow = \<lparr>ir_ID = 1, ir_Scope = ''admin.users.balance.update'', ir_KeyHash = ''key-1'',
     ir_Fingerprint = exFingerprint, ir_Status = IdempotencyStatusProcessing, ir_ResponseStatus = None,
     ir_ResponseBody = None, ir_ErrorReason = None, ir_LockedUntil = Some (30 * idem_second),
     ir_ExpiresAt = day, ir_CreatedAt = 0, ir_UpdatedAt = 0\<rparr>"

definition exDB :: idem_db where
  "exDB = \<lparr>idem_rows = [exRow], idem_seq = 2\<rparr>"

lemma ex_key: "opt_Scope exOpts = ''admin.users.balance.update''" "HashIdempotencyKey exIdemCodec ''key-1'' = ''key-1''"
  "opt_TTL exOpts = 0" "0 < day"
  by (simp_all add: exOpts_def handlerOptions_def HashIdempotencyKey_def exIdemCodec_def day_def idem_second_def)

text \<open>A live record answers for its request: a second request with the same key that finds an unexpired
  record, locked for some time still if the first attempt failed, does not run the caller's function and leaves the
  table's rows alone.  With another payload it gets a key conflict; after a success the stored
  response, marked as replayed; while the first request is processing or in its backoff, a conflict that says
  when to retry.\<close>

theorem existing_record_answers:
  assumes "keyedRequest J opts key fp" and "idem_ok db" and "r \<in> set (idem_rows db)"
    and "ir_Scope r = opt_Scope opts" and "ir_KeyHash r = HashIdempotencyKey J key"
    and "now < ir_ExpiresAt r"
    and "ir_Status r = IdempotencyStatusFailedRetryable \<Longrightarrow> \<exists>l. ir_LockedUntil r = Some l \<and> now < l"
  shows "\<exists>s a. Execute J cfg True True sqlRepo opts now ((t1, NoFault, u1) # (t2, NoFault, u2) # ins) db = (s, Some a) \<and>
      x_runs s = [] \<and> idem_rows (x_db s) = idem_rows db \<and>
      (ir_Fingerprint r \<noteq> fp \<longrightarrow> a = Inl ErrIdempotencyKeyConflict) \<and>
      (ir_Fingerprint r = fp \<and> ir_Status r = IdempotencyStatusSucceeded \<and> decodeStoredResponse J (ir_ResponseBody r) = Inr v
        \<longrightarrow> a = Inr \<lparr>ier_Data = v, ier_Replayed = True\<rparr>) \<and>
      (ir_Fingerprint r = fp \<and> ir_Status r = IdempotencyStatusProcessing
        \<longrightarrow> a = Inl (conflictWithRetryAfter ErrIdempotencyInProgress (ir_LockedUntil r) now)) \<and>
      (ir_Fingerprint r = fp \<and> ir_Status r = IdempotencyStatusFailedRetryable
        \<longrightarrow> a = Inl (conflictWithRetryAfter ErrIdempotencyRetryBackoff (ir_LockedUntil r) now))"
proof -
  from Execute_existing [where cfg = cfg and ?t1.0 = t1 and ?t2.0 = t2 and ?u1.0 = u1 and ?u2.0 = u2 and ins = ins, OF assms]
  obtain s where "Execute J cfg True True sqlRepo opts now ((t1, NoFault, u1) # (t2, NoFault, u2) # ins) db =
      (s, Some (existingAnswer J fp now r))" "x_runs s = []" "idem_rows (x_db s) = idem_rows db" by blast
  moreover have "existingAnswer J fp now r = Inl ErrIdempotencyKeyConflict" if "ir_Fingerprint r \<noteq> fp"
    using that by (simp add: existingAnswer_def)
  ultimately show ?thesis by (auto simp: existingAnswer_def)
qed

theorem existing_record_answers_witness:
  "\<exists>s a. Execute exIdemCodec DefaultIdempotencyConfig True True sqlRepo exOpts 0 [exStep, exStep] exDB = (s, Some a) \<and>
     x_runs s = [] \<and> a = Inl (conflictWithRetryAfter ErrIdempotencyInProgress (Some (30 * idem_second)) 0)"
proof -
  have "idem_ok exDB" "exRow \<in> set (idem_rows exDB)" by (simp_all add: exDB_def exRow_def idem_ok_def)
  moreover have "ir_Scope exRow = opt_Scope exOpts" "ir_KeyHash exRow = HashIdempotencyKey exIdemCodec ''key-1''"
    "0 < ir_ExpiresAt exRow" using ex_key by (simp_all add: exRow_def)
  moreover have "\<exists>l. ir_LockedUntil exRow = Some l \<and> 0 < l" by (simp add: exRow_def idem_second_def)
  ultimately show ?thesis
    using existing_record_answers [OF ex_keyed, of exDB exRow 0 DefaultIdempotencyConfig 0 "Inr ''done''" 0 "Inr ''done''" "[]"]
    by (auto simp: exStep_def) (auto simp: exRow_def)
qed

subsection \<open>The first request and its repetitions\<close>

lemma Execute_fresh:
  assumes "keyedRequest J opts key fp" and "idem_ok db"
    and "\<forall>r \<in> set (idem_rows db). ir_Scope r \<noteq> opt_Scope opts \<or> ir_KeyHash r \<noteq> HashIdempotencyKey J key"
    and "marshalStoredResponse J cfg v = Inr body"
  shows "\<exists>s. Execute J cfg True True sqlRepo opts now [(t1, NoFault, u1), (t2, flt, Inr v), (t3, NoFault, u3)] db =
      (s, Some (Inr \<lparr>ier_Data = v, ier_Replayed = False\<rparr>)) \<and> x_runs s = [Inr v] \<and> idem_ok (x_db s) \<and>
      (\<exists>r \<in> set (idem_rows (x_db s)). ir_Scope r = opt_Scope opts \<and> ir_KeyHash r = HashIdempotencyKey J key \<and>
        ir_Fingerprint r = fp \<and> ir_Status r = IdempotencyStatusSucceeded \<and> ir_ResponseBody r = Some body \<and>
        ir_ExpiresAt r = now + (if opt_TTL opts \<le> 0 then DefaultTTL cfg else opt_TTL opts))"
proof -
  let ?f = "requestFrame J cfg opts key fp now"
  obtain i db1 where c: "sql_CreateProcessing (newRecord ?f) t1 db = (Some i, db1)"
    using assms(3) by (auto simp: sql_CreateProcessing_def newRecord_def list_ex_iff)
  then have i: "i = idem_seq db" and i0: "i \<noteq> 0"
    using assms(2) by (auto simp: sql_CreateProcessing_def idem_ok_def split: if_splits)
  let ?db = "sql_MarkSucceeded i 200 body (f_expiresAt ?f) t3 db1"
  have "CreateProcessing sqlRepo (newRecord ?f) t1 db = (Some i, db1)" using c by simp
  from sql_store.create_new [OF assms(2) this] obtain r1 where ok1: "idem_ok db1"
    and r1: "sqlRow db1 = (sqlRow db)(i \<mapsto> r1)" "same_key r1 (newRecord ?f)"
      "ir_Fingerprint r1 = ir_Fingerprint (newRecord ?f)" by blast
  have row: "idem_ok ?db" "sqlRow ?db i = map_option (succeedRow 200 body (f_expiresAt ?f) t3) (sqlRow db1 i)"
    using sql_store.mark_ok [OF ok1, of i 200 body "f_expiresAt ?f" t3 ?db] by simp_all
  have r: "succeedRow 200 body (f_expiresAt ?f) t3 r1 \<in> set (idem_rows ?db)"
  proof -
    have "distinct (map ir_ID (idem_rows ?db))" using row(1) by (simp add: idem_ok_def)
    moreover have "sqlRow ?db i = Some (succeedRow 200 body (f_expiresAt ?f) t3 r1)"
      using row(2) r1(1) by simp
    ultimately show ?thesis using sqlRow_iff by blast
  qed
  have s1: "storeStep J sqlRepo t1 NoFault (Creating ?f) db = (Executing ?f NewClaim i, db1)"
    using c i0 by (simp add: faulty_def afterCreate_def claimed_def)
  have s3: "storeStep J sqlRepo t3 NoFault (MarkingSucceeded ?f i v body) db1 =
      (Returned (Inr \<lparr>ier_Data = v, ier_Replayed = False\<rparr>), ?db)"
    by (simp add: faulty_def afterMarkSucceeded_def)
  have "Execute J cfg True True sqlRepo opts now [(t1, NoFault, u1), (t2, flt, Inr v), (t3, NoFault, u3)] db =
      (\<lparr>x_pc = Returned (Inr \<lparr>ier_Data = v, ier_Replayed = False\<rparr>), x_db = ?db, x_runs = [Inr v]\<rparr>,
       Some (Inr \<lparr>ier_Data = v, ier_Replayed = False\<rparr>))"
    using s1 s3 assms(4)
    by (simp add: Execute_keyed [OF assms(1)] execRound_store execRound_def [of J cfg sqlRepo "(t2, flt, Inr v)"]
        afterExecute_def resultOf_def del: storeStep.simps)
  moreover have "\<exists>r \<in> set (idem_rows ?db). ir_Scope r = opt_Scope opts \<and> ir_KeyHash r = HashIdempotencyKey J key \<and>
        ir_Fingerprint r = fp \<and> ir_Status r = IdempotencyStatusSucceeded \<and> ir_ResponseBody r = Some body \<and>
        ir_ExpiresAt r = now + (if opt_TTL opts \<le> 0 then DefaultTTL cfg else opt_TTL opts)"
    using r1(2,3) by (intro bexI [OF _ r]) (simp add: succeedRow_def same_key_def newRecord_def)
  ultimately show ?thesis using row(1) by auto
qed

text \<open>C31: Repetitions are answered from the store: the first request with a fresh key runs the caller's function
  once and returns its result; a repetition with the same payload before the record expires returns the
  stored response, marked as replayed, and does not run the function.  The statements of both requests on the
  store succeed, and the response in its stored form (redacted JSON) is not blank, can be decoded again and fits
  \<open>MaxStoredResponseLen\<close>; \<open>oversized_response_never_replayed\<close> shows what happens to a longer one.\<close>

theorem replay_roundtrip:
  assumes "keyedRequest J opts key fp" and "idem_ok db"
    and "\<forall>r \<in> set (idem_rows db). ir_Scope r \<noteq> opt_Scope opts \<or> ir_KeyHash r \<noteq> HashIdempotencyKey J key"
    and "ic_marshal J v = Inr raw" and "ic_unmarshal J (ic_redact J raw) = Inr v'"
    and "trim_space (ic_redact J raw) \<noteq> ''''" and "int (length (ic_redact J raw)) \<le> MaxStoredResponseLen cfg"
    and "later < now + (if opt_TTL opts \<le> 0 then DefaultTTL cfg else opt_TTL opts)"
  shows "\<exists>s s'. Execute J cfg True True sqlRepo opts now [(t1, NoFault, u1), (t2, flt, Inr v), (t3, NoFault, u3)] db =
      (s, Some (Inr \<lparr>ier_Data = v, ier_Replayed = False\<rparr>)) \<and> x_runs s = [Inr v] \<and>
    Execute J cfg True True sqlRepo opts later ((t4, NoFault, u4) # (t5, NoFault, u5) # ins) (x_db s) =
      (s', Some (Inr \<lparr>ier_Data = v', ier_Replayed = True\<rparr>)) \<and> x_runs s' = []"
proof -
  have body: "marshalStoredResponse J cfg v = Inr (ic_redact J raw)"
    using assms(4,7) by (simp add: marshalStoredResponse_def Let_def)
  from Execute_fresh [OF assms(1-3) body]
  obtain s r where s: "Execute J cfg True True sqlRepo opts now [(t1, NoFault, u1), (t2, flt, Inr v), (t3, NoFault, u3)] db =
      (s, Some (Inr \<lparr>ier_Data = v, ier_Replayed = False\<rparr>))" "x_runs s = [Inr v]" "idem_ok (x_db s)"
    and r: "r \<in> set (idem_rows (x_db s))" "ir_Scope r = opt_Scope opts" "ir_KeyHash r = HashIdempotencyKey J key"
    and a: "ir_Fingerprint r = fp" "ir_Status r = IdempotencyStatusSucceeded" "ir_ResponseBody r = Some (ic_redact J raw)"
      "ir_ExpiresAt r = now + (if opt_TTL opts \<le> 0 then DefaultTTL cfg else opt_TTL opts)"
    by blast
  have "existingAnswer J fp later r = Inr \<lparr>ier_Data = v', ier_Replayed = True\<rparr>"
    using a assms(5,6) by (simp add: existingAnswer_def decodeStoredResponse_def)
  moreover have "later < ir_ExpiresAt r" using a(4) assms(8) by simp
  ultimately obtain s' where "Execute J cfg True True sqlRepo opts later ((t4, NoFault, u4) # (t5, NoFault, u5) # ins) (x_db s) =
      (s', Some (Inr \<lparr>ier_Data = v', ier_Replayed = True\<rparr>))" "x_runs s' = []"
    using Execute_existing [OF assms(1) s(3) r, of later cfg t4 u4 t5 u5 ins] a(2) by auto
  with s show ?thesis by blast
qed

theorem replay_roundtrip_witness:
  "\<exists>s s'. Execute exIdemCodec DefaultIdempotencyConfig True True sqlRepo exOpts 0 [exStep, exStep, exStep] emptyIdemDB =
      (s, Some (Inr \<lparr>ier_Data = ''done'', ier_Replayed = False\<rparr>)) \<and> x_runs s = [Inr ''done''] \<and>
    Execute exIdemCodec DefaultIdempotencyConfig True True sqlRepo exOpts 60 [exStep, exStep] (x_db s) =
      (s', Some (Inr \<lparr>ier_Data = ''done'', ier_Replayed = True\<rparr>)) \<and> x_runs s' = []"
  unfolding exStep_def
proof (rule replay_roundtrip [OF ex_keyed])
  show "ic_marshal exIdemCodec ''done'' = Inr (quoteChar # ''done'' @ [quoteChar])" by (simp add: exIdemCodec_def)
  show "trim_space (ic_redact exIdemCodec (quoteChar # ''done'' @ [quoteChar])) \<noteq> ''''" by code_simp
qed (simp_all add: exIdemCodec_def emptyIdemDB_def idem_ok_def DefaultIdempotencyConfig_def ex_key
      idem_second_def)

lemma space_len_before:
  assumes "of_char c \<in> {33..127 :: nat}"
  shows "space_len (a # s @ [c]) \<le> length (a # s)"
proof -
  have "\<not> space2 a' c" "\<not> space3 a' b' c" for a' b'
    using assms space_bytes(2) [of a' c] space_bytes(3) [of a' b' c] by force+
  then show ?thesis by (auto split: list.splits simp: Cons_eq_append_conv append_eq_Cons_conv)
qed

lemma drop_spaces_before:
  assumes "of_char c \<in> {33..127 :: nat}"
  shows "\<exists>u. drop_while_len space_len (s @ [c]) = u @ [c]"
proof (induction s rule: length_induct)
  case (1 s)
  show ?case
  proof (cases "space_len (s @ [c]) = 0")
    case True
    then show ?thesis using drop_while_len_id [of space_len "s @ [c]"] by blast
  next
    case False
    then have "s \<noteq> []" using plain_no_space(1) [OF assms, of "[]"] by (cases s) (simp_all del: space_len.simps)
    then obtain a s1 where s: "s = a # s1" by (cases s) auto
    let ?n = "space_len (s @ [c])"
    have n: "?n \<le> length s" using space_len_before [OF assms, of a s1] s by simp
    have "drop_while_len space_len (s @ [c]) = drop_while_len space_len (drop ?n s @ [c])"
      using False n drop_append [of ?n s "[c]"] by (simp add: s del: space_len.simps drop_append)
    with 1 [rule_format, of "drop ?n s"] False n s show ?thesis by (simp del: space_len.simps)
  qed
qed

lemma trim_space_plain_end:
  assumes "of_char c \<in> {33..127 :: nat}"
  shows "trim_space (s @ [c]) \<noteq> ''''"
proof -
  obtain u where "drop_while_len space_len (s @ [c]) = u @ [c]" using drop_spaces_before [OF assms] by blast
  then show ?thesis using plain_no_space(2) [OF assms, of "rev u"]
    by (simp add: trim_space_def drop_while_len_id del: space_len_rev.simps)
qed

text \<open>A response longer than the limit cannot be replayed: it is stored cut and with a mark that no JSON text ends
  with, so until the record expires every repetition of the successful request is answered
  ``idempotency store unavailable'', although the store works.\<close>

theorem oversized_response_never_replayed:
  assumes "keyedRequest J opts key fp" and "idem_ok db"
    and "\<forall>r \<in> set (idem_rows db). ir_Scope r \<noteq> opt_Scope opts \<or> ir_KeyHash r \<noteq> HashIdempotencyKey J key"
    and "ic_marshal J v = Inr raw" and "0 < MaxStoredResponseLen cfg"
    and "MaxStoredResponseLen cfg < int (length (ic_redact J raw))"
    and "\<And>s. \<exists>err. ic_unmarshal J (s @ ''...(truncated)'') = Inl err"
    and "later < now + (if opt_TTL opts \<le> 0 then DefaultTTL cfg else opt_TTL opts)"
  shows "\<exists>s s' err. Execute J cfg True True sqlRepo opts now [(t1, NoFault, u1), (t2, flt, Inr v), (t3, NoFault, u3)] db =
      (s, Some (Inr \<lparr>ier_Data = v, ier_Replayed = False\<rparr>)) \<and>
    Execute J cfg True True sqlRepo opts later ((t4, NoFault, u4) # (t5, NoFault, u5) # ins) (x_db s) =
      (s', Some (Inl (WithCause ErrIdempotencyStoreUnavail err))) \<and> x_runs s' = []"
proof -
  let ?body = "truncateUTF8 (ic_redact J raw) (MaxStoredResponseLen cfg) @ ''...(truncated)''"
  have body: "marshalStoredResponse J cfg v = Inr ?body"
    using assms(4-6) by (simp add: marshalStoredResponse_def Let_def)
  from Execute_fresh [OF assms(1-3) body]
  obtain s r where s: "Execute J cfg True True sqlRepo opts now [(t1, NoFault, u1), (t2, flt, Inr v), (t3, NoFault, u3)] db =
      (s, Some (Inr \<lparr>ier_Data = v, ier_Replayed = False\<rparr>))" "x_runs s = [Inr v]" "idem_ok (x_db s)"
    and r: "r \<in> set (idem_rows (x_db s))" "ir_Scope r = opt_Scope opts" "ir_KeyHash r = HashIdempotencyKey J key"
    and a: "ir_Fingerprint r = fp" "ir_Status r = IdempotencyStatusSucceeded" "ir_ResponseBody r = Some ?body"
      "ir_ExpiresAt r = now + (if opt_TTL opts \<le> 0 then DefaultTTL cfg else opt_TTL opts)"
    by blast
  have "trim_space ?body \<noteq> ''''"
    using trim_space_plain_end [of "CHR 0x29" "truncateUTF8 (ic_redact J raw) (MaxStoredResponseLen cfg) @ ''...(truncated''"]
    by simp
  moreover obtain e where "ic_unmarshal J ?body = Inl e" using assms(7) by blast
  ultimately obtain err where "existingAnswer J fp later r = Inl (WithCause ErrIdempotencyStoreUnavail err)"
    using a(1-3) by (simp add: existingAnswer_def decodeStoredResponse_def)
  moreover have "later < ir_ExpiresAt r" using a(4) assms(8) by simp
  ultimately obtain s' where "Execute J cfg True True sqlRepo opts later ((t4, NoFault, u4) # (t5, NoFault, u5) # ins) (x_db s) =
      (s', Some (Inl (WithCause ErrIdempotencyStoreUnavail err)))" "x_runs s' = []"
    using Execute_existing [OF assms(1) s(3) r, of later cfg t4 u4 t5 u5 ins] a(2) by auto
  with s show ?thesis by blast
qed

text \<open>A codec that rejects what ends in \<open>)\<close>, and a limit that is too small for the response.\<close>

definition exStrictCodec :: "string idem_codec" where
  "exStrictCodec = exIdemCodec\<lparr>ic_unmarshal := (\<lambda>s. if last s = CHR '')'' then Inl (OtherError ''invalid character'' None)
     else ic_unmarshal exIdemCodec s)\<rparr>"

definition exSmallConfig :: IdempotencyConfig where
  "exSmallConfig = DefaultIdempotencyConfig\<lparr>MaxStoredResponseLen := 3\<rparr>"

theorem oversized_response_never_replayed_witness:
  "\<exists>s s' err. Execute exStrictCodec exSmallConfig True True sqlRepo exOpts 0 [exStep, exStep, exStep] emptyIdemDB =
      (s, Some (Inr \<lparr>ier_Data = ''done'', ier_Replayed = False\<rparr>)) \<and>
    Execute exStrictCodec exSmallConfig True True sqlRepo exOpts 60 [exStep, exStep] (x_db s) =
      (s', Some (Inl (WithCause ErrIdempotencyStoreUnavail err))) \<and> x_runs s' = []"
  unfolding exStep_def
proof (rule oversized_response_never_replayed)
  show "keyedRequest exStrictCodec exOpts ''key-1'' exFingerprint"
  proof -
    have "ic_marshal exStrictCodec = ic_marshal exIdemCodec" "ic_sha256hex exStrictCodec = ic_sha256hex exIdemCodec"
      by (simp_all add: exStrictCodec_def)
    then have "BuildIdempotencyFingerprint exStrictCodec = BuildIdempotencyFingerprint exIdemCodec"
      unfolding BuildIdempotencyFingerprint_def by (intro ext) (simp only:)
    with ex_keyed show ?thesis by (simp add: keyedRequest_def)
  qed
  show "ic_marshal exStrictCodec ''done'' = Inr (quoteChar # ''done'' @ [quoteChar])"
    by (simp add: exStrictCodec_def exIdemCodec_def)
qed (simp_all add: exStrictCodec_def exIdemCodec_def emptyIdemDB_def idem_ok_def exSmallConfig_def
      DefaultIdempotencyConfig_def ex_key idem_second_def)

subsection \<open>Replies\<close>

text \<open>The client is told when to retry: the Retry-After header of a conflict is the whole number of seconds until
  the lock ends, and at least one.\<close>

theorem retry_after_header:
  assumes "in_int64 (l - now)"
  shows "hr_RetryAfter (replyError (conflictWithRetryAfter (ApplicationError st c) (Some l) now)) =
    Some (itoa (max 1 ((l - now) div idem_second)))"
proof -
  define n where "n = max 1 ((l - now) div idem_second)"
  have "(l - now) div idem_second \<le> max 1 (l - now)" unfolding idem_second_def by linarith
  then have "n \<le> max 1 (l - now)" by (simp add: n_def)
  moreover have le: "1 \<le> n" by (simp add: n_def)
  ultimately have n: "in_int64 n" "1 \<le> n" using assms by (auto simp: in_int64_def max_def split: if_splits)
  have "conflictWithRetryAfter (ApplicationError st c) (Some l) now =
      ApplicationError (st\<lparr>sMetadata := Some [''retry_after'' \<mapsto> itoa n]\<rparr>) c"
  proof (cases "l \<ge> now")
    case True
    then show ?thesis by (auto simp: conflictWithRetryAfter_def n_def Let_def max_def)
  next
    case False
    then have "(l - now) div idem_second \<le> 0" "- ((now - l) div idem_second) \<le> 0"
      by (simp_all add: idem_second_def)
    with False show ?thesis by (simp add: conflictWithRetryAfter_def n_def Let_def max_def)
  qed
  then show ?thesis using n atoi_itoa [of n]
    by (simp add: replyError_def RetryAfterSecondsFromError_def n_def [symmetric])
qed

theorem retry_after_header_witness:
  "hr_RetryAfter (replyError (conflictWithRetryAfter ErrIdempotencyInProgress (Some (30 * idem_second)) (idem_second div 2)))
     = Some (itoa 29)"
  using retry_after_header [of "30 * idem_second" "idem_second div 2"]
  by (simp add: ErrIdempotencyInProgress_def in_int64_def idem_second_def)

text \<open>Failing open can repeat the work: when the store refuses to record a success that has happened,
  \<open>Execute\<close> answers ``store unavailable'', and a handler in fail-open mode takes this to mean that nothing
  was done and runs the caller's function again.\<close>

theorem fail_open_executes_twice:
  "(case Execute exIdemCodec DefaultIdempotencyConfig True True sqlRepo exOpts 0
           [exStep, exStep, (0, Refused (OtherError ''timeout'' None), Inr ''done'')] emptyIdemDB of
      (s, r) \<Rightarrow> map (map_sum (\<lambda>_. ()) id) (x_runs s) = [Inr ''done''] \<and>
        (case r of None \<Rightarrow> False | Some a \<Rightarrow>
           snd (executeAdminIdempotentJSONWithMode idempotencyStoreUnavailableFailOpen a (Inr ''done''))))"
  by code_simp

end
