(* ===== verification/Interleaving.thy ===== *)
theory Interleaving
  imports Prelude
begin

section \<open>Interleaved handlers on a shared store\<close>

text \<open>
  A handler is a tree of atomic actions on a shared store: a database statement, a transaction or a
  call to an outside service, after each of which other handlers may run.  An action gets an
  environment, which holds whatever the handler does not determine: the clock, faults and the answers
  of outside services.  \<open>exec op k\<close> runs \<open>op\<close> in one step and goes on with \<open>k\<close> of its result, so that
  a handler is written in the order of the code.

  A handler that never moves again stands for a crashed process.
\<close>

datatype ('e, 'db, 'r) flow =
    Done 'r
  | Atomic "'e \<Rightarrow> 'db \<Rightarrow> ('e, 'db, 'r) flow \<times> 'db"

definition exec :: "('e \<Rightarrow> 'db \<Rightarrow> 'x \<times> 'db) \<Rightarrow> ('x \<Rightarrow> ('e, 'db, 'r) flow) \<Rightarrow> ('e, 'db, 'r) flow" where
  "exec op k = Atomic (\<lambda>e db. case op e db of (x, db') \<Rightarrow> (k x, db'))"

text \<open>One handler on its own, with one environment per action.\<close>

fun run_flow :: "'e list \<Rightarrow> ('e, 'db, 'r) flow \<Rightarrow> 'db \<Rightarrow> ('e, 'db, 'r) flow \<times> 'db" where
  "run_flow es (Done r) db = (Done r, db)"
| "run_flow [] (Atomic f) db = (Atomic f, db)"
| "run_flow (e # es) (Atomic f) db = (case f e db of (p, db') \<Rightarrow> run_flow es p db')"

fun flow_result :: "('e, 'db, 'r) flow \<Rightarrow> 'r option" where
  "flow_result (Done r) = Some r"
| "flow_result (Atomic f) = None"

lemma run_flow_exec [simp]:
  "run_flow [] (exec op k) db = (exec op k, db)"
  "run_flow (e # es) (exec op k) db = (case op e db of (x, db') \<Rightarrow> run_flow es (k x) db')"
  by (simp_all add: exec_def split: prod.splits)

text \<open>Many handlers: new ones start at any time, and any of them takes the next step.\<close>

inductive interleave ::
  "(('e, 'db, 'r) flow \<Rightarrow> bool) \<Rightarrow> ('e, 'db, 'r) flow list \<times> 'db \<Rightarrow> ('e, 'db, 'r) flow list \<times> 'db \<Rightarrow> bool"
  for handler where
  start: "handler p \<Longrightarrow> interleave handler (ps, db) (ps @ [p], db)"
| act: "a < length ps \<Longrightarrow> ps ! a = Atomic f \<Longrightarrow> f e db = (p', db') \<Longrightarrow>
     interleave handler (ps, db) (ps[a := p'], db')"

inductive_cases interleaveE: "interleave handler w w'"

text \<open>The same as a function of a schedule, to run concrete interleavings.\<close>

datatype ('e, 'p) schedule_step = Begin 'p | Act nat 'e

fun run_schedule :: "('e, ('e, 'db, 'r) flow) schedule_step list \<Rightarrow> ('e, 'db, 'r) flow list \<times> 'db
  \<Rightarrow> ('e, 'db, 'r) flow list \<times> 'db" where
  "run_schedule [] w = w"
| "run_schedule (Begin p # ss) (ps, db) = run_schedule ss (ps @ [p], db)"
| "run_schedule (Act a e # ss) (ps, db) =
     (if a < length ps
      then (case ps ! a of
              Atomic f \<Rightarrow> (case f e db of (p', db') \<Rightarrow> run_schedule ss (ps[a := p'], db'))
            | Done r \<Rightarrow> run_schedule ss (ps, db))
      else run_schedule ss (ps, db))"

fun begun :: "('e, 'p) schedule_step list \<Rightarrow> 'p list" where
  "begun [] = []"
| "begun (Begin p # ss) = p # begun ss"
| "begun (Act a e # ss) = begun ss"

lemma run_schedule_interleaves:
  "list_all handler (begun ss) \<Longrightarrow> (interleave handler)\<^sup>*\<^sup>* (ps, db) (run_schedule ss (ps, db))"
proof (induction ss arbitrary: ps db)
  case (Cons s ss)
  show ?case
  proof (cases s)
    case (Begin p)
    with Cons have "interleave handler (ps, db) (ps @ [p], db)" "(interleave handler)\<^sup>*\<^sup>* (ps @ [p], db) (run_schedule ss (ps @ [p], db))"
      by (auto intro: interleave.start)
    with Begin show ?thesis by (auto intro: converse_rtranclp_into_rtranclp)
  next
    case (Act a e)
    show ?thesis
    proof (cases "a < length ps")
      case True
      show ?thesis
      proof (cases "ps ! a")
        case (Atomic f)
        obtain p' db' where f: "f e db = (p', db')" by (cases "f e db")
        have "interleave handler (ps, db) (ps[a := p'], db')" using True Atomic f by (rule interleave.act)
        moreover have "(interleave handler)\<^sup>*\<^sup>* (ps[a := p'], db') (run_schedule ss (ps[a := p'], db'))"
          using Cons Act by simp
        ultimately show ?thesis using True Atomic f Act by (auto intro: converse_rtranclp_into_rtranclp)
      qed (use Cons Act True in auto)
    qed (use Cons Act in auto)
  qed
qed simp

subsection \<open>Guarantees\<close>

text \<open>
  \<open>keeps ok rel A p\<close>: from every state with the invariant where \<open>A\<close> holds, each action of \<open>p\<close> keeps
  the invariant and changes the store within \<open>rel\<close>, whatever the others do within \<open>rel\<close> in between;
  \<open>A\<close> is what the handler has learnt, and it must be stable under \<open>rel\<close>.
\<close>

definition stable :: "('db \<Rightarrow> 'db \<Rightarrow> bool) \<Rightarrow> ('db \<Rightarrow> bool) \<Rightarrow> bool" where
  "stable rel A \<longleftrightarrow> (\<forall>db db'. A db \<and> rel db db' \<longrightarrow> A db')"

inductive keeps :: "('db \<Rightarrow> bool) \<Rightarrow> ('db \<Rightarrow> 'db \<Rightarrow> bool) \<Rightarrow> ('db \<Rightarrow> bool) \<Rightarrow> ('e, 'db, 'r) flow \<Rightarrow> bool"
  for ok rel where
  result: "keeps ok rel A (Done r)"
| act: "(\<And>e db. ok db \<Longrightarrow> A db \<Longrightarrow> ok (snd (f e db)) \<and> rel db (snd (f e db)) \<and>
       (\<exists>B. B (snd (f e db)) \<and> stable rel B \<and> keeps ok rel B (fst (f e db)))) \<Longrightarrow>
     keeps ok rel A (Atomic f)"

inductive_cases keeps_AtomicE: "keeps ok rel A (Atomic f)"

lemma stable_True [simp, intro]: "stable rel (\<lambda>_. True)"
  by (simp add: stable_def)

lemma stable_conj [intro]: "stable rel A \<Longrightarrow> stable rel B \<Longrightarrow> stable rel (\<lambda>db. A db \<and> B db)"
  by (auto simp: stable_def)

lemma stable_const [simp, intro]: "stable rel (\<lambda>_. P)"
  by (simp add: stable_def)

text \<open>The rule for one action: it keeps the invariant, and the handler learns \<open>Q\<close>.\<close>

lemma keeps_exec:
  assumes "\<And>e db x db'. ok db \<Longrightarrow> A db \<Longrightarrow> op e db = (x, db') \<Longrightarrow> ok db' \<and> rel db db' \<and> A db' \<and> Q x db'"
    and "stable rel A" and "\<And>x. stable rel (Q x)"
    and "\<And>x. keeps ok rel (\<lambda>db. A db \<and> Q x db) (k x)"
  shows "keeps ok rel A (exec op k)"
  unfolding exec_def
proof (rule keeps.act)
  fix e db
  assume pre: "ok db" "A db"
  obtain x db' where op: "op e db = (x, db')" by (cases "op e db")
  note step = assms(1) [OF pre op]
  have "stable rel (\<lambda>db. A db \<and> Q x db)" using assms(2,3) by (rule stable_conj)
  with step assms(4) [of x] have "ok db' \<and> rel db db' \<and> (\<exists>B. B db' \<and> stable rel B \<and> keeps ok rel B (k x))"
    by (intro conjI exI [of _ "\<lambda>db. A db \<and> Q x db"]) simp_all
  then show "ok (snd (case op e db of (x, db') \<Rightarrow> (k x, db'))) \<and> rel db (snd (case op e db of (x, db') \<Rightarrow> (k x, db'))) \<and>
      (\<exists>B. B (snd (case op e db of (x, db') \<Rightarrow> (k x, db'))) \<and> stable rel B \<and>
        keeps ok rel B (fst (case op e db of (x, db') \<Rightarrow> (k x, db'))))"
    by (simp add: op)
qed

lemma keeps_weaken: "keeps ok rel A p \<Longrightarrow> (\<And>db. B db \<Longrightarrow> A db) \<Longrightarrow> keeps ok rel B p"
proof (erule keeps.cases)
  fix C f
  assume ab: "\<And>db. B db \<Longrightarrow> A db" and ac: "A = C" "p = Atomic f"
    and st: "\<And>e db. ok db \<Longrightarrow> C db \<Longrightarrow> ok (snd (f e db)) \<and> rel db (snd (f e db)) \<and>
       (\<exists>B. B (snd (f e db)) \<and> stable rel B \<and> keeps ok rel B (fst (f e db)))"
  show "keeps ok rel B p" unfolding ac(2) by (rule keeps.act) (rule st, assumption, use ab ac(1) in blast)
qed (auto intro: keeps.intros)

definition kept :: "('db \<Rightarrow> bool) \<Rightarrow> ('db \<Rightarrow> 'db \<Rightarrow> bool) \<Rightarrow> ('e, 'db, 'r) flow list \<times> 'db \<Rightarrow> bool" where
  "kept ok rel w \<longleftrightarrow> ok (snd w) \<and>
     (\<forall>p \<in> set (fst w). \<exists>A. A (snd w) \<and> stable rel A \<and> keeps ok rel A p)"

locale guarded_handlers =
  fixes handler :: "('e, 'db, 'r) flow \<Rightarrow> bool"
    and ok :: "'db \<Rightarrow> bool"
    and rel :: "'db \<Rightarrow> 'db \<Rightarrow> bool"
  assumes handler_keeps: "handler p \<Longrightarrow> keeps ok rel (\<lambda>_. True) p"
begin

lemma kept_step: "interleave handler w w' \<Longrightarrow> kept ok rel w \<Longrightarrow> kept ok rel w' \<and> (rel (snd w) (snd w') \<or> snd w' = snd w)"
proof (induction rule: interleave.cases)
  case (start p ps db)
  then show ?case using handler_keeps by (fastforce simp: kept_def)
next
  case (act a ps f e db p' db')
  then have "Atomic f \<in> set ps" using nth_mem [of a ps] by simp
  with act obtain A where A: "A db" "stable rel A" "keeps ok rel A (Atomic f)" by (auto simp: kept_def)
  have db: "ok db" using act by (simp add: kept_def)
  from A(3) have "ok db \<Longrightarrow> A db \<Longrightarrow> ok (snd (f e db)) \<and> rel db (snd (f e db)) \<and>
       (\<exists>B. B (snd (f e db)) \<and> stable rel B \<and> keeps ok rel B (fst (f e db)))"
    by (auto elim: keeps_AtomicE)
  with db A(1) act obtain B where B: "ok db'" "rel db db'" "B db'" "stable rel B" "keeps ok rel B p'" by auto
  have "\<exists>C. C db' \<and> stable rel C \<and> keeps ok rel C p" if p: "p \<in> set (ps[a := p'])" for p
  proof (cases "p = p'")
    case True
    with B show ?thesis by blast
  next
    case False
    with p have "p \<in> set ps" using set_update_subset_insert [of ps a p'] by blast
    with act obtain C where "C db" "stable rel C" "keeps ok rel C p" by (auto simp: kept_def)
    with B(2) show ?thesis by (auto simp: stable_def)
  qed
  with B(1,2) act show ?case by (simp add: kept_def)
qed

lemma kept_runs: "(interleave handler)\<^sup>*\<^sup>* w w' \<Longrightarrow> kept ok rel w \<Longrightarrow> kept ok rel w'"
  by (induction rule: rtranclp_induct) (use kept_step in blast)+

text \<open>From a good store without handlers, every reachable store is good.\<close>

lemma ok_reachable:
  assumes "(interleave handler)\<^sup>*\<^sup>* ([], db0) w" and "ok db0"
  shows "ok (snd w)"
  using kept_runs [OF assms(1)] assms(2) by (simp add: kept_def)

end

end
