(* ===== verification/PaymentAmounts.thy ===== *)
theory PaymentAmounts
  imports Complex_Main AppErrors
begin

section \<open>Payment amounts\<close>

text \<open>
  \<open>payment/currency.go\<close>, \<open>payment/fee.go\<close>, \<open>payment/amount.go\<close> and \<open>service/payment_amounts.go\<close>.
  An amount is a rational number: the code computes in \<open>shopspring/decimal\<close>, which is exact except
  for \<open>Div\<close>, which keeps 16 decimals, and converts finite \<open>float64\<close> values by their shortest decimal
  form.  A \<open>float64\<close> that may be \<open>NaN\<close> or infinite is a \<open>go_float\<close>.  Reading and printing decimals is the
  library's, a parameter: \<open>dl_parse\<close> is \<open>NewFromString\<close>, \<open>dl_fixed\<close> is \<open>StringFixed\<close>.
\<close>

datatype go_float = Finite rat | NotFinite

text \<open>\<open>Round\<close> (half away from zero), \<open>RoundUp\<close> (away from zero), \<open>Div\<close> and \<open>Truncate(0)\<close>.\<close>

definition away :: "(rat \<Rightarrow> int) \<Rightarrow> nat \<Rightarrow> rat \<Rightarrow> rat" where
  "away f d x = (if x < 0 then - of_int (f (- x * 10 ^ d)) / 10 ^ d else of_int (f (x * 10 ^ d)) / 10 ^ d)"

definition dec_round :: "nat \<Rightarrow> rat \<Rightarrow> rat" where
  "dec_round = away (\<lambda>y. \<lfloor>y + 1 / 2\<rfloor>)"

definition dec_round_up :: "nat \<Rightarrow> rat \<Rightarrow> rat" where
  "dec_round_up = away (\<lambda>y. \<lceil>y\<rceil>)"

definition dec_div :: "rat \<Rightarrow> rat \<Rightarrow> rat" where
  "dec_div x y = dec_round 16 (x / y)"

definition dec_trunc :: "rat \<Rightarrow> int" where
  "dec_trunc x = (if x < 0 then - \<lfloor>- x\<rfloor> else \<lfloor>x\<rfloor>)"

record decimal_lib =
  dl_parse :: "string \<Rightarrow> rat option"
  dl_fixed :: "nat \<Rightarrow> rat \<Rightarrow> string"

subsection \<open>Currencies\<close>

definition DefaultPaymentCurrency :: string where "DefaultPaymentCurrency = ''CNY''"

record paymentCurrencyAmountUnit =
  apiMinorUnit :: nat
  maxFractionDigits :: nat

definition zeroDecimalAmountUnit :: paymentCurrencyAmountUnit where
  "zeroDecimalAmountUnit = \<lparr>apiMinorUnit = 0, maxFractionDigits = 0\<rparr>"
definition twoDecimalAmountUnit :: paymentCurrencyAmountUnit where
  "twoDecimalAmountUnit = \<lparr>apiMinorUnit = 2, maxFractionDigits = 2\<rparr>"
definition threeDecimalAmountUnit :: paymentCurrencyAmountUnit where
  "threeDecimalAmountUnit = \<lparr>apiMinorUnit = 3, maxFractionDigits = 3\<rparr>"
definition stripeLegacyZeroAmount :: paymentCurrencyAmountUnit where
  "stripeLegacyZeroAmount = \<lparr>apiMinorUnit = 2, maxFractionDigits = 0\<rparr>"

definition paymentCurrencyAmountUnits :: "string \<rightharpoonup> paymentCurrencyAmountUnit" where
  "paymentCurrencyAmountUnits = map_of
     (map (\<lambda>c. (c, zeroDecimalAmountUnit)) [''BIF'', ''CLP'', ''DJF'', ''GNF'', ''JPY'', ''KMF'', ''KRW'',
        ''MGA'', ''PYG'', ''RWF'', ''VND'', ''VUV'', ''XAF'', ''XOF'', ''XPF''] @
      [(''ISK'', stripeLegacyZeroAmount), (''UGX'', stripeLegacyZeroAmount)] @
      map (\<lambda>c. (c, threeDecimalAmountUnit)) [''BHD'', ''IQD'', ''JOD'', ''KWD'', ''LYD'', ''OMR'', ''TND''])"

text \<open>
  \<open>strings.ToUpper\<close> as far as it gives ASCII: the ASCII letters, and U+0131 and U+017F, the two
  other code points whose upper case is an ASCII letter.  Other code points stay as they are, where
  \<open>ToUpper\<close> may change them to further non-ASCII ones, which no currency code has.
\<close>

fun to_upper :: "string \<Rightarrow> string" where
  "to_upper [] = []"
| "to_upper (c # s) =
     (if c = CHR 0xC4 \<and> s \<noteq> [] \<and> hd s = CHR 0xB1 then CHR ''I'' # to_upper (tl s)
      else if c = CHR 0xC5 \<and> s \<noteq> [] \<and> hd s = CHR 0xBF then CHR ''S'' # to_upper (tl s)
      else (if of_char c \<in> {97..122 :: nat} then char_of (of_char c - 32 :: nat) else c) # to_upper s)"

definition NormalizePaymentCurrency :: "string \<Rightarrow> go_error + string" where
  "NormalizePaymentCurrency raw =
     (let currency = to_upper (trim_space raw);
          bad = OtherError ''payment currency must be a 3-letter ISO currency code'' None
      in if currency = '''' then Inr DefaultPaymentCurrency
         else if length currency \<noteq> 3 then Inl bad
         else if list_ex (\<lambda>c. of_char c \<notin> {65..90 :: nat}) currency then Inl bad
         else Inr currency)"

definition paymentCurrencyAmountUnitFor :: "string \<Rightarrow> paymentCurrencyAmountUnit" where
  "paymentCurrencyAmountUnitFor currency =
     (case NormalizePaymentCurrency currency of
        Inl _ \<Rightarrow> twoDecimalAmountUnit
      | Inr normalized \<Rightarrow>
          (case paymentCurrencyAmountUnits normalized of
             Some amountUnit \<Rightarrow> amountUnit
           | None \<Rightarrow> twoDecimalAmountUnit))"

definition CurrencyMinorUnit :: "string \<Rightarrow> nat" where
  "CurrencyMinorUnit currency = apiMinorUnit (paymentCurrencyAmountUnitFor currency)"

definition CurrencyMaxFractionDigits :: "string \<Rightarrow> nat" where
  "CurrencyMaxFractionDigits currency = maxFractionDigits (paymentCurrencyAmountUnitFor currency)"

definition FormatAmountForCurrency :: "decimal_lib \<Rightarrow> rat \<Rightarrow> string \<Rightarrow> string" where
  "FormatAmountForCurrency D amount currency = dl_fixed D (CurrencyMaxFractionDigits currency) amount"

definition AmountToMinorUnit :: "decimal_lib \<Rightarrow> string \<Rightarrow> string \<Rightarrow> go_error + int" where
  "AmountToMinorUnit D amountStr currency =
     (case dl_parse D (trim_space amountStr) of
        None \<Rightarrow> Inl (OtherError (''invalid amount: '' @ amountStr) None)
      | Some d \<Rightarrow>
          (case NormalizePaymentCurrency currency of
             Inl err \<Rightarrow> Inl err
           | Inr normalizedCurrency \<Rightarrow>
               (let amountUnit = paymentCurrencyAmountUnitFor normalizedCurrency;
                    scaledForPrecision = d * 10 ^ maxFractionDigits amountUnit
                in if scaledForPrecision \<noteq> of_int (dec_trunc scaledForPrecision) then
                     (if maxFractionDigits amountUnit = 0
                      then Inl (OtherError (''payment amount for '' @ normalizedCurrency @ '' must be a whole number'') None)
                      else Inl (OtherError (''payment amount for '' @ normalizedCurrency @ '' must not have more than ''
                             @ itoa (int (maxFractionDigits amountUnit)) @ '' decimal places'') None))
                   else Inr (wrap64 (dec_trunc (d * 10 ^ apiMinorUnit amountUnit))))))"

definition YuanToFen :: "decimal_lib \<Rightarrow> string \<Rightarrow> go_error + int" where
  "YuanToFen D yuanStr = AmountToMinorUnit D yuanStr DefaultPaymentCurrency"

subsection \<open>Fees, credits and refunds\<close>

definition payAmountFor :: "rat \<Rightarrow> rat \<Rightarrow> nat \<Rightarrow> rat" where
  "payAmountFor amount feeRate fractionDigits =
     (if feeRate \<le> 0 then amount
      else amount + dec_round_up fractionDigits (dec_div (amount * feeRate) 100))"

definition CalculatePayAmountForCurrency :: "decimal_lib \<Rightarrow> rat \<Rightarrow> rat \<Rightarrow> string \<Rightarrow> string" where
  "CalculatePayAmountForCurrency D rechargeAmount feeRate currency =
     (let fractionDigits = CurrencyMaxFractionDigits currency
      in dl_fixed D fractionDigits (payAmountFor rechargeAmount feeRate fractionDigits))"

definition CalculatePayAmount :: "decimal_lib \<Rightarrow> rat \<Rightarrow> rat \<Rightarrow> string" where
  "CalculatePayAmount D rechargeAmount feeRate =
     CalculatePayAmountForCurrency D rechargeAmount feeRate DefaultPaymentCurrency"

definition normalizeBalanceRechargeMultiplier :: "go_float \<Rightarrow> rat" where
  "normalizeBalanceRechargeMultiplier multiplier =
     (case multiplier of NotFinite \<Rightarrow> 1 | Finite m \<Rightarrow> (if m \<le> 0 then 1 else m))"

definition calculateCreditedBalance :: "rat \<Rightarrow> go_float \<Rightarrow> rat" where
  "calculateCreditedBalance paymentAmount multiplier =
     dec_round 2 (paymentAmount * normalizeBalanceRechargeMultiplier multiplier)"

definition amountToleranceCNY :: rat where "amountToleranceCNY = 1 / 100"

definition paymentAmountToleranceForCurrency :: "string \<Rightarrow> rat" where
  "paymentAmountToleranceForCurrency currency =
     (let minorUnit = CurrencyMinorUnit currency
      in if minorUnit \<le> 2 then amountToleranceCNY else 1 / 10 ^ minorUnit / 2)"

definition isValidProviderAmount :: "go_float \<Rightarrow> bool" where
  "isValidProviderAmount amount = (case amount of NotFinite \<Rightarrow> False | Finite a \<Rightarrow> a > 0)"

definition calculateGatewayRefundAmount :: "rat \<Rightarrow> rat \<Rightarrow> rat \<Rightarrow> string \<Rightarrow> rat" where
  "calculateGatewayRefundAmount orderAmount payAmount refundAmount currency =
     (if orderAmount \<le> 0 \<or> payAmount \<le> 0 \<or> refundAmount \<le> 0 then 0
      else let fractionDigits = CurrencyMaxFractionDigits currency in
        if \<bar>refundAmount - orderAmount\<bar> \<le> paymentAmountToleranceForCurrency currency
        then dec_round fractionDigits payAmount
        else dec_round fractionDigits (dec_div (payAmount * refundAmount) orderAmount))"

subsection \<open>Rounding\<close>

lemma away_nonneg: "0 \<le> x \<Longrightarrow> away f d x = of_int (f (x * 10 ^ d)) / 10 ^ d"
  by (simp add: away_def)

lemma dec_round_mono:
  assumes "0 \<le> x" and "x \<le> y"
  shows "dec_round d x \<le> dec_round d y"
proof -
  have "x * 10 ^ d + 1 / 2 \<le> y * 10 ^ d + 1 / 2" using assms by simp
  then have "\<lfloor>x * 10 ^ d + 1 / 2\<rfloor> \<le> \<lfloor>y * 10 ^ d + 1 / 2\<rfloor>" by (rule floor_mono)
  then show ?thesis using assms by (simp add: dec_round_def away_nonneg divide_right_mono)
qed

lemma dec_round_nonneg: "0 \<le> x \<Longrightarrow> 0 \<le> dec_round d x"
  by (simp add: dec_round_def away_nonneg)

lemma dec_round_fraction: "dec_round d (of_int v / 10 ^ d) = of_int v / 10 ^ d"
proof -
  have "\<lfloor>of_int v + (1 / 2 :: rat)\<rfloor> = v" "\<lfloor>- of_int v + (1 / 2 :: rat)\<rfloor> = - v" by linarith+
  then show ?thesis by (simp add: dec_round_def away_def)
qed

lemma dec_round_near:
  assumes "0 \<le> x"
  shows "\<bar>dec_round d x - x\<bar> \<le> 1 / 2 / 10 ^ d"
proof -
  have "\<bar>of_int \<lfloor>x * 10 ^ d + 1 / 2\<rfloor> - x * 10 ^ d\<bar> \<le> 1 / 2" by linarith
  then have "\<bar>of_int \<lfloor>x * 10 ^ d + 1 / 2\<rfloor> - x * 10 ^ d\<bar> / 10 ^ d \<le> 1 / 2 / 10 ^ d"
    by (rule divide_right_mono) simp
  moreover have "\<bar>of_int \<lfloor>x * 10 ^ d + 1 / 2\<rfloor> - x * 10 ^ d\<bar> / 10 ^ d =
      \<bar>(of_int \<lfloor>x * 10 ^ d + 1 / 2\<rfloor> - x * 10 ^ d) / 10 ^ d\<bar>" by simp
  ultimately show ?thesis using assms by (simp add: dec_round_def away_nonneg diff_divide_distrib)
qed

lemma dec_round_up_near:
  assumes "0 \<le> x"
  shows "x \<le> dec_round_up d x" and "dec_round_up d x < x + 1 / 10 ^ d"
proof -
  have c: "x * 10 ^ d \<le> of_int \<lceil>x * 10 ^ d\<rceil>" "of_int \<lceil>x * 10 ^ d\<rceil> < x * 10 ^ d + 1" by linarith+
  from divide_right_mono [OF c(1), of "10 ^ d"] show "x \<le> dec_round_up d x"
    using assms by (simp add: dec_round_up_def away_nonneg)
  from divide_strict_right_mono [OF c(2), of "10 ^ d"] show "dec_round_up d x < x + 1 / 10 ^ d"
    using assms by (simp add: dec_round_up_def away_nonneg add_divide_distrib)
qed

end
