(* ===== verification/PaymentStore.thy ===== *)
theory PaymentStore
  imports Interleaving PaymentAmounts Subscription
begin

section \<open>Users, redeem codes, orders and audit logs\<close>

text \<open>
  The tables that payments work on, and the statements on them.  A table is a list of rows;
  \<open>redeem_codes.code\<close> and the pair of order and action in \<open>payment_audit_logs\<close> have unique indexes
  (\<open>ent/schema/redeem_code.go\<close>, \<open>migrations/131_affiliate_rebate_hardening.sql\<close>).  Money columns of orders are
  \<open>decimal(20,2)\<close>, so that a stored amount is rounded to two decimals.

  \<open>pd_log\<close> is no table: it records what was done to users and at payment providers, for the theorems.
\<close>

record pay_user =
  u_ID :: int
  u_Balance :: rat
  u_Concurrency :: int
  u_TotalRecharged :: rat

datatype OrderStatus =
    OrderStatusPending
  | OrderStatusPaid
  | OrderStatusRecharging
  | OrderStatusCompleted
  | OrderStatusExpired
  | OrderStatusCancelled
  | OrderStatusFailed
  | OrderStatusRefundRequested
  | OrderStatusRefunding
  | OrderStatusRefundPending
  | OrderStatusPartiallyRefunded
  | OrderStatusRefunded
  | OrderStatusRefundFailed

definition OrderTypeBalance :: string where "OrderTypeBalance = ''balance''"
definition OrderTypeSubscription :: string where "OrderTypeSubscription = ''subscription''"
definition EntityStatusActive :: string where "EntityStatusActive = ''active''"

text \<open>A value of the JSON column \<open>provider_snapshot\<close>: a string, a number that is an \<open>int\<close> when
  converted to it, or anything else.\<close>

datatype snapshot_value = SnapString string | SnapNumber int | SnapOther

record PaymentOrder =
  po_ID :: int
  po_UserID :: int
  po_Amount :: rat
  po_PayAmount :: rat
  po_RechargeCode :: string
  po_OutTradeNo :: string
  po_PaymentType :: string
  po_PaymentTradeNo :: string
  po_OrderType :: string
  po_SubscriptionGroupID :: "int option"
  po_SubscriptionDays :: "int option"
  po_ProviderInstanceID :: "string option"
  po_ProviderKey :: "string option"
  po_ProviderSnapshot :: "(string \<times> snapshot_value) list"
  po_Status :: OrderStatus
  po_RefundAmount :: rat
  po_RefundReason :: "string option"
  po_RefundAt :: "int option"
  po_ForceRefund :: bool
  po_RefundRequestedAt :: "int option"
  po_RefundRequestReason :: "string option"
  po_RefundRequestedBy :: "string option"
  po_ExpiresAt :: int
  po_PaidAt :: "int option"
  po_CompletedAt :: "int option"
  po_FailedAt :: "int option"
  po_FailedReason :: "go_error option"
  po_CreatedAt :: int
  po_UpdatedAt :: int

record RedeemCode =
  rc_ID :: int
  rc_Code :: string
  rc_Type :: string
  rc_Value :: rat
  rc_Status :: string
  rc_UsedBy :: "int option"
  rc_UsedAt :: "int option"
  rc_Notes :: string
  rc_ExpiresAt :: "int option"
  rc_GroupID :: "int option"
  rc_ValidityDays :: int

text \<open>\<open>al_RefundID\<close> and \<open>al_RollbackOK\<close> are the fields of \<open>refundPendingAuditDetail\<close> in the detail.\<close>

record PaymentAuditLog =
  al_OrderID :: int
  al_Action :: string
  al_Operator :: string
  al_RefundID :: string
  al_RollbackOK :: bool
  al_CreatedAt :: int

record PaymentProviderInstance =
  pi_ID :: int
  pi_ProviderKey :: string
  pi_SupportedTypes :: string
  pi_RefundEnabled :: bool
  pi_AllowUserRefund :: bool

datatype pay_event =
    Credited string int rat
  | SubAssigned int int int int
  | GatewayRefund int rat
  | BalanceDeducted int rat
  | BalanceReturned int rat
  | SubDaysDeducted int int
  | RebateAccrued int rat

record pay_db =
  pd_users :: "pay_user list"
  pd_codes :: "RedeemCode list"
  pd_nextCodeID :: int
  pd_orders :: "PaymentOrder list"
  pd_audit :: "PaymentAuditLog list"
  pd_instances :: "PaymentProviderInstance list"
  pd_subs :: sub_db
  pd_groupStatus :: "int \<rightharpoonup> string"
  pd_log :: "pay_event list"

subsection \<open>The environment of an action\<close>

record QueryOrderResponse =
  qo_Status :: string
  qo_TradeNo :: string
  qo_Amount :: go_float
  qo_Metadata :: "(string \<times> string) list"

record RefundResponse =
  rr_Status :: string
  rr_RefundID :: string

text \<open>A provider object: its key, the merchant identity it reports, and its optional interfaces.\<close>

record pay_provider =
  pv_Key :: string
  pv_Identity :: "(string \<times> string) list"
  pv_CanQueryRefund :: bool
  pv_CanCancel :: bool

record pay_env =
  ev_now :: int
  ev_fault :: fault
  ev_provider :: "go_error + pay_provider"
  ev_query :: "go_error + QueryOrderResponse"
  ev_refund :: "RefundResponse option \<times> go_error option"
  ev_queryRefund :: "go_error + RefundResponse option"
  ev_rebate :: "go_error + rat"
  ev_attempts :: "int option"
  ev_lock :: bool

type_synonym 'r pay_flow = "(pay_env, pay_db, 'r) flow"

text \<open>
  \<open>dbCall op k\<close> is a statement or transaction that may fail; \<open>dbTry\<close> is one with an error of its own,
  after which it has no effect.  \<open>outside\<close> reads the environment: a clock, or the answer of an outside service.
\<close>

definition dbCall :: "(pay_env \<Rightarrow> pay_db \<Rightarrow> 'x \<times> pay_db) \<Rightarrow> (go_error + 'x \<Rightarrow> 'r pay_flow) \<Rightarrow> 'r pay_flow" where
  "dbCall op k = exec (\<lambda>e. faulty (ev_fault e) (op e)) k"

definition dbTry :: "(pay_env \<Rightarrow> pay_db \<Rightarrow> go_error + 'x \<times> pay_db) \<Rightarrow> (go_error + 'x \<Rightarrow> 'r pay_flow) \<Rightarrow> 'r pay_flow" where
  "dbTry op k = dbCall
     (\<lambda>e db. case op e db of Inl err \<Rightarrow> (Inl err, db) | Inr (x, db') \<Rightarrow> (Inr x, db'))
     (\<lambda>res. k (case res of Inl err \<Rightarrow> Inl err | Inr r \<Rightarrow> r))"

definition outside :: "(pay_env \<Rightarrow> 'x) \<Rightarrow> ('x \<Rightarrow> 'r pay_flow) \<Rightarrow> 'r pay_flow" where
  "outside f k = exec (\<lambda>e db. (f e, db)) k"

subsection \<open>Orders\<close>

definition ErrNotFound :: go_error where "ErrNotFound = OtherError ''not found'' None"

definition findOrder :: "int \<Rightarrow> pay_db \<Rightarrow> PaymentOrder option" where
  "findOrder i db = List.find (\<lambda>o'. po_ID o' = i) (pd_orders db)"

text \<open>\<open>PaymentOrder.Get\<close>.\<close>

definition getOrder :: "int \<Rightarrow> (go_error + PaymentOrder \<Rightarrow> 'r pay_flow) \<Rightarrow> 'r pay_flow" where
  "getOrder i = dbTry (\<lambda>e db. case findOrder i db of None \<Rightarrow> Inl ErrNotFound | Some o' \<Rightarrow> Inr (o', db))"

text \<open>\<open>Update().Where(...)\<close>: the number of rows changed; every update sets \<open>updated_at\<close>.\<close>

definition setOrders :: "int \<Rightarrow> (PaymentOrder \<Rightarrow> bool) \<Rightarrow> (PaymentOrder \<Rightarrow> PaymentOrder) \<Rightarrow> pay_db \<Rightarrow> pay_db" where
  "setOrders now p f db = db\<lparr>pd_orders :=
     map (\<lambda>o'. if p o' then (f o')\<lparr>po_UpdatedAt := now\<rparr> else o') (pd_orders db)\<rparr>"

definition updateOrders :: "(PaymentOrder \<Rightarrow> bool) \<Rightarrow> (PaymentOrder \<Rightarrow> PaymentOrder)
  \<Rightarrow> (go_error + int \<Rightarrow> 'r pay_flow) \<Rightarrow> 'r pay_flow" where
  "updateOrders p f = dbCall
     (\<lambda>e db. (int (length (filter p (pd_orders db))), setOrders (ev_now e) p f db))"

text \<open>\<open>UpdateOneID\<close>: no such row is an error.\<close>

definition updateOneOrder :: "int \<Rightarrow> (PaymentOrder \<Rightarrow> PaymentOrder) \<Rightarrow> (go_error + unit \<Rightarrow> 'r pay_flow) \<Rightarrow> 'r pay_flow" where
  "updateOneOrder i f = dbTry
     (\<lambda>e db. case findOrder i db of
        None \<Rightarrow> Inl ErrNotFound
      | Some _ \<Rightarrow> Inr ((), setOrders (ev_now e) (\<lambda>o'. po_ID o' = i) f db))"

subsection \<open>Audit logs (payment_stats.go, payment_fulfillment.go)\<close>

definition logged :: "int \<Rightarrow> string \<Rightarrow> pay_db \<Rightarrow> bool" where
  "logged oid action db = list_ex (\<lambda>l. al_OrderID l = oid \<and> al_Action l = action) (pd_audit db)"

text \<open>A second entry with the same action violates the unique index; the error is only reported.\<close>

definition insertAudit :: "PaymentAuditLog \<Rightarrow> pay_db \<Rightarrow> go_error + unit \<times> pay_db" where
  "insertAudit l db =
     (if logged (al_OrderID l) (al_Action l) db then Inl (OtherError ''duplicate key'' None)
      else Inr ((), db\<lparr>pd_audit := pd_audit db @ [l]\<rparr>))"

definition writeAuditDetail :: "int \<Rightarrow> string \<Rightarrow> string \<Rightarrow> string \<Rightarrow> bool \<Rightarrow> 'r pay_flow \<Rightarrow> 'r pay_flow" where
  "writeAuditDetail oid action op refundID rollbackOK k = dbTry
     (\<lambda>e. insertAudit \<lparr>al_OrderID = oid, al_Action = action, al_Operator = op, al_RefundID = refundID,
        al_RollbackOK = rollbackOK, al_CreatedAt = ev_now e\<rparr>) (\<lambda>_. k)"

definition writeAuditLog :: "int \<Rightarrow> string \<Rightarrow> string \<Rightarrow> 'r pay_flow \<Rightarrow> 'r pay_flow" where
  "writeAuditLog oid action op k = writeAuditDetail oid action op '''' True k"

text \<open>An error of the query counts as no entry.\<close>

definition hasAuditLog :: "int \<Rightarrow> string \<Rightarrow> (bool \<Rightarrow> 'r pay_flow) \<Rightarrow> 'r pay_flow" where
  "hasAuditLog oid action k = dbCall (\<lambda>e db. (logged oid action db, db))
     (\<lambda>res. k (case res of Inl _ \<Rightarrow> False | Inr b \<Rightarrow> b))"

subsection \<open>Users (repository/user_repo.go)\<close>

definition findUser :: "int \<Rightarrow> pay_db \<Rightarrow> pay_user option" where
  "findUser i db = List.find (\<lambda>u. u_ID u = i) (pd_users db)"

definition setUser :: "int \<Rightarrow> (pay_user \<Rightarrow> pay_user) \<Rightarrow> pay_db \<Rightarrow> go_error + unit \<times> pay_db" where
  "setUser i f db =
     (case findUser i db of
        None \<Rightarrow> Inl ErrUserNotFound
      | Some _ \<Rightarrow> Inr ((), db\<lparr>pd_users := map (\<lambda>u. if u_ID u = i then f u else u) (pd_users db)\<rparr>))"

definition UpdateBalance :: "int \<Rightarrow> rat \<Rightarrow> pay_db \<Rightarrow> go_error + unit \<times> pay_db" where
  "UpdateBalance i amount = setUser i
     (\<lambda>u. u\<lparr>u_Balance := u_Balance u + amount,
            u_TotalRecharged := (if amount > 0 then u_TotalRecharged u + amount else u_TotalRecharged u)\<rparr>)"

text \<open>The two statements of \<open>DeductBalance\<close> subtract the amount whether or not the balance covers it.\<close>

definition DeductBalance :: "int \<Rightarrow> rat \<Rightarrow> pay_db \<Rightarrow> go_error + unit \<times> pay_db" where
  "DeductBalance i amount = setUser i (\<lambda>u. u\<lparr>u_Balance := u_Balance u - amount\<rparr>)"

definition UpdateConcurrency :: "int \<Rightarrow> int \<Rightarrow> pay_db \<Rightarrow> go_error + unit \<times> pay_db" where
  "UpdateConcurrency i amount = setUser i (\<lambda>u. u\<lparr>u_Concurrency := u_Concurrency u + amount\<rparr>)"

definition getUser :: "int \<Rightarrow> (go_error + pay_user \<Rightarrow> 'r pay_flow) \<Rightarrow> 'r pay_flow" where
  "getUser i = dbTry (\<lambda>e db. case findUser i db of None \<Rightarrow> Inl ErrUserNotFound | Some u \<Rightarrow> Inr (u, db))"

definition record_event :: "pay_event \<Rightarrow> pay_db \<Rightarrow> pay_db" where
  "record_event ev db = db\<lparr>pd_log := pd_log db @ [ev]\<rparr>"

text \<open>A transaction step on success of an earlier one.\<close>

definition thenTx :: "go_error + 'x \<times> pay_db \<Rightarrow> ('x \<Rightarrow> pay_db \<Rightarrow> go_error + 'y \<times> pay_db) \<Rightarrow> go_error + 'y \<times> pay_db" where
  "thenTx r g = (case r of Inl err \<Rightarrow> Inl err | Inr (x, db) \<Rightarrow> g x db)"

end
