(* ===== verification/RedeemCodes.thy ===== *)
theory RedeemCodes
  imports PaymentStore
begin

section \<open>Redeem codes\<close>

text \<open>
  \<open>service/redeem_code.go\<close>, \<open>service/redeem_service.go\<close> and \<open>repository/redeem_code_repo.go\<close>.  A code is
  redeemed in a transaction that marks it used, if it is still unused, and grants its value.

  The Redis cache (rate limit and lock) is part of the environment: \<open>ev_attempts\<close> is the number of failed
  attempts (\<open>None\<close> without a cache or on an error) and \<open>ev_lock\<close> whether the lock was given; the lock
  expires by itself, so nothing is assumed of it.  Renewing a subscription runs in a transaction of
  its own, between the statements of the redeeming one; the row lock that the latter holds
  meanwhile is not modelled, so the model has more interleavings than the database.
\<close>

definition StatusUnused :: string where "StatusUnused = ''unused''"
definition StatusUsed :: string where "StatusUsed = ''used''"
definition StatusExpired :: string where "StatusExpired = ''expired''"
definition StatusDisabled :: string where "StatusDisabled = ''disabled''"

definition RedeemTypeBalance :: string where "RedeemTypeBalance = ''balance''"
definition RedeemTypeConcurrency :: string where "RedeemTypeConcurrency = ''concurrency''"
definition RedeemTypeSubscription :: string where "RedeemTypeSubscription = ''subscription''"
definition RedeemTypeInvitation :: string where "RedeemTypeInvitation = ''invitation''"

lemmas redeem_consts = StatusUnused_def StatusUsed_def StatusExpired_def StatusDisabled_def
  RedeemTypeBalance_def RedeemTypeConcurrency_def RedeemTypeSubscription_def RedeemTypeInvitation_def

lemma redeem_status_distinct [simp]:
  "StatusUnused \<noteq> StatusUsed" "StatusUsed \<noteq> StatusUnused"
  "StatusExpired \<noteq> StatusUnused" "StatusExpired \<noteq> StatusUsed" "StatusDisabled \<noteq> StatusUsed"
  "RedeemTypeBalance \<noteq> RedeemTypeConcurrency" "RedeemTypeBalance \<noteq> RedeemTypeSubscription"
  "RedeemTypeConcurrency \<noteq> RedeemTypeBalance" "RedeemTypeSubscription \<noteq> RedeemTypeBalance"
  by (simp_all add: redeem_consts)

definition ErrRedeemCodeNotFound :: go_error where
  "ErrRedeemCodeNotFound = NotFound ''REDEEM_CODE_NOT_FOUND'' ''redeem code not found''"
definition ErrRedeemCodeUsed :: go_error where
  "ErrRedeemCodeUsed = Conflict ''REDEEM_CODE_USED'' ''redeem code already used''"
definition ErrRedeemCodeExpired :: go_error where
  "ErrRedeemCodeExpired = Conflict ''REDEEM_CODE_EXPIRED'' ''redeem code expired''"
definition ErrRedeemRateLimited :: go_error where
  "ErrRedeemRateLimited = NewError 429 ''REDEEM_RATE_LIMITED'' ''too many failed attempts, please try again later''"
definition ErrRedeemCodeLocked :: go_error where
  "ErrRedeemCodeLocked = Conflict ''REDEEM_CODE_LOCKED'' ''redeem code is being processed, please try again''"

definition redeemMaxErrorsPerHour :: int where "redeemMaxErrorsPerHour = 20"

definition IsUsed :: "RedeemCode \<Rightarrow> bool" where
  "IsUsed r \<longleftrightarrow> rc_Status r = StatusUsed"

definition IsExpiredAt :: "int \<Rightarrow> RedeemCode \<Rightarrow> bool" where
  "IsExpiredAt now r \<longleftrightarrow> rc_Status r = StatusExpired \<or>
     rc_Status r = StatusUnused \<and> (case rc_ExpiresAt r of None \<Rightarrow> False | Some e \<Rightarrow> e \<le> now)"

definition CanUse :: "int \<Rightarrow> RedeemCode \<Rightarrow> bool" where
  "CanUse now r \<longleftrightarrow> rc_Status r = StatusUnused \<and> \<not> IsExpiredAt now r"

subsection \<open>The repository\<close>

definition codeNamed :: "string \<Rightarrow> pay_db \<Rightarrow> RedeemCode option" where
  "codeNamed code db = List.find (\<lambda>r. rc_Code r = code) (pd_codes db)"

definition codeWithID :: "int \<Rightarrow> pay_db \<Rightarrow> RedeemCode option" where
  "codeWithID i db = List.find (\<lambda>r. rc_ID r = i) (pd_codes db)"

definition codes_Create :: "RedeemCode \<Rightarrow> pay_db \<Rightarrow> go_error + unit \<times> pay_db" where
  "codes_Create code db =
     (if codeNamed (rc_Code code) db \<noteq> None then Inl (OtherError ''duplicate key'' None)
      else Inr ((), db\<lparr>pd_codes := pd_codes db @ [code\<lparr>rc_ID := pd_nextCodeID db\<rparr>],
                       pd_nextCodeID := pd_nextCodeID db + 1\<rparr>))"

definition codes_GetByCode :: "string \<Rightarrow> pay_db \<Rightarrow> go_error + RedeemCode \<times> pay_db" where
  "codes_GetByCode code db =
     (case codeNamed code db of None \<Rightarrow> Inl ErrRedeemCodeNotFound | Some r \<Rightarrow> Inr (r, db))"

definition codes_GetByID :: "int \<Rightarrow> pay_db \<Rightarrow> go_error + RedeemCode \<times> pay_db" where
  "codes_GetByID i db =
     (case codeWithID i db of None \<Rightarrow> Inl ErrRedeemCodeNotFound | Some r \<Rightarrow> Inr (r, db))"

definition codes_Use :: "int \<Rightarrow> int \<Rightarrow> int \<Rightarrow> pay_db \<Rightarrow> go_error + unit \<times> pay_db" where
  "codes_Use now i userID db =
     (let p = (\<lambda>r. rc_ID r = i \<and> rc_Status r = StatusUnused) in
      if list_ex p (pd_codes db)
      then Inr ((), db\<lparr>pd_codes := map (\<lambda>r. if p r
             then r\<lparr>rc_Status := StatusUsed, rc_UsedBy := Some userID, rc_UsedAt := Some now\<rparr> else r) (pd_codes db)\<rparr>)
      else Inl ErrRedeemCodeUsed)"

definition codes_Delete :: "int \<Rightarrow> pay_db \<Rightarrow> go_error + unit \<times> pay_db" where
  "codes_Delete i db = Inr ((), db\<lparr>pd_codes := filter (\<lambda>r. rc_ID r \<noteq> i) (pd_codes db)\<rparr>)"

subsection \<open>The service\<close>

definition CreateCode :: "RedeemCode \<Rightarrow> (go_error + unit \<Rightarrow> 'r pay_flow) \<Rightarrow> 'r pay_flow" where
  "CreateCode code0 k =
     (let code1 = code0\<lparr>rc_Code := trim_space (rc_Code code0)\<rparr> in
      if rc_Code code1 = '''' then k (Inl (OtherError ''code is required'' None))
      else let code2 = (if rc_Type code1 = '''' then code1\<lparr>rc_Type := RedeemTypeBalance\<rparr> else code1) in
        if rc_Type code2 \<noteq> RedeemTypeInvitation \<and> rc_Value code2 = 0
        then k (Inl (OtherError ''value must not be zero'' None))
        else let code = (if rc_Status code2 = '''' then code2\<lparr>rc_Status := StatusUnused\<rparr> else code2) in
          outside ev_now (\<lambda>now.
            if IsExpiredAt now code then k (Inl ErrRedeemCodeExpired)
            else dbTry (\<lambda>e. codes_Create code) (\<lambda>res.
              k (case res of Inl err \<Rightarrow> Inl (OtherError ''create redeem code'' (Some err)) | Inr u \<Rightarrow> Inr u))))"

definition GetByCode :: "string \<Rightarrow> (go_error + RedeemCode \<Rightarrow> 'r pay_flow) \<Rightarrow> 'r pay_flow" where
  "GetByCode code k = dbTry (\<lambda>e. codes_GetByCode code) (\<lambda>res.
     k (case res of Inl err \<Rightarrow> Inl (OtherError ''get redeem code'' (Some err)) | Inr r \<Rightarrow> Inr r))"

definition unsupportedRedeemTypeError :: "string \<Rightarrow> go_error" where
  "unsupportedRedeemTypeError codeType =
     (if codeType = RedeemTypeInvitation
      then BadRequest ''REDEEM_CODE_UNSUPPORTED_TYPE'' ''invitation codes can only be used during registration''
      else BadRequest ''REDEEM_CODE_UNSUPPORTED_TYPE'' (''unsupported redeem type: '' @ codeType))"

text \<open>Subscription operations inside the payment tables.\<close>

definition subError :: "sub_error \<Rightarrow> go_error" where
  "subError err = (case err of
       AdjustWouldExpire \<Rightarrow> BadRequest ''ADJUST_WOULD_EXPIRE'' ''adjustment would result in expired subscription''
     | _ \<Rightarrow> OtherError ''subscription'' None)"

definition onSubs :: "(sub_db \<Rightarrow> 'x result \<times> sub_db) \<Rightarrow> pay_db \<Rightarrow> go_error + 'x \<times> pay_db" where
  "onSubs f db =
     (case f (pd_subs db) of
        (Inl err, _) \<Rightarrow> Inl (subError err)
      | (Inr x, s) \<Rightarrow> Inr (x, db\<lparr>pd_subs := s\<rparr>))"

text \<open>The Chinese notes, as UTF-8 bytes: ``redeemed by code \<open>c\<close>'' and ``refund by code \<open>c\<close> deducts \<open>n\<close> days''.\<close>

definition viaRedeemCode :: "string \<Rightarrow> string" where
  "viaRedeemCode c = [CHR 0xE9, CHR 0x80, CHR 0x9A, CHR 0xE8, CHR 0xBF, CHR 0x87, CHR 0xE5, CHR 0x85, CHR 0x91,
     CHR 0xE6, CHR 0x8D, CHR 0xA2, CHR 0xE7, CHR 0xA0, CHR 0x81, CHR 0x20] @ c @ [CHR 0x20]"

definition redeemNotes :: "string \<Rightarrow> string" where
  "redeemNotes c = viaRedeemCode c @ [CHR 0xE5, CHR 0x85, CHR 0x91, CHR 0xE6, CHR 0x8D, CHR 0xA2]"

definition refundNotes :: "string \<Rightarrow> int \<Rightarrow> string" where
  "refundNotes c n = viaRedeemCode c @ [CHR 0xE9, CHR 0x80, CHR 0x80, CHR 0xE6, CHR 0xAC, CHR 0xBE, CHR 0xE6,
     CHR 0x89, CHR 0xA3, CHR 0xE5, CHR 0x87, CHR 0x8F, CHR 0x20] @ itoa n @ [CHR 0x20, CHR 0xE5, CHR 0xA4, CHR 0xA9]"

definition reduceOrCancelSubscription :: "calendar \<Rightarrow> int \<Rightarrow> int \<Rightarrow> int \<Rightarrow> int \<Rightarrow> string \<Rightarrow> pay_db \<Rightarrow> go_error + unit \<times> pay_db" where
  "reduceOrCancelSubscription cal now userID groupID reduceDays code db =
     (case repo_GetByUserIDAndGroupID userID groupID (pd_subs db) of
        Inl _ \<Rightarrow> Inl (subError SubscriptionNotFound)
      | Inr sub \<Rightarrow>
          (let remaining0 = (us_ExpiresAt sub - now) div (24 * hour);
               remaining = (if us_ExpiresAt sub < now then 0 else remaining0);
               notes = us_Notes sub @ (if us_Notes sub \<noteq> '''' then ''\<newline>'' else '''') @ refundNotes code reduceDays
           in onSubs (andThen
                (if remaining \<le> reduceDays
                 then andThen (repo_UpdateStatus now (us_ID sub) SubscriptionStatusExpired)
                        (repo_ExtendExpiry now (us_ID sub) now)
                 else repo_ExtendExpiry now (us_ID sub) (add_days cal (us_ExpiresAt sub) (- reduceDays)))
                (repo_UpdateNotes now (us_ID sub) notes)) db))"

text \<open>
  The transaction: \<open>Use\<close>, then the grant.  \<open>user\<close> was read before it.
\<close>

definition redeemTx :: "calendar \<Rightarrow> int \<Rightarrow> RedeemCode \<Rightarrow> pay_user \<Rightarrow> pay_env \<Rightarrow> pay_db \<Rightarrow> go_error + unit \<times> pay_db" where
  "redeemTx cal userID rc user e db = thenTx (codes_Use (ev_now e) (rc_ID rc) userID db) (\<lambda>_ db1.
     (if rc_Type rc = RedeemTypeBalance then
        (let amount0 = rc_Value rc;
             amount = (if amount0 < 0 \<and> u_Balance user + amount0 < 0 then - u_Balance user else amount0)
         in thenTx (UpdateBalance userID amount db1) (\<lambda>_ db2.
              Inr ((), record_event (Credited (rc_Code rc) userID amount) db2)))
      else if rc_Type rc = RedeemTypeConcurrency then
        (let delta0 = dec_trunc (rc_Value rc);
             delta = (if delta0 < 0 \<and> u_Concurrency user + delta0 < 0 then - u_Concurrency user else delta0)
         in UpdateConcurrency userID delta db1)
      else if rc_ValidityDays rc < 0 then
        reduceOrCancelSubscription cal (ev_now e) userID (the (rc_GroupID rc)) (- rc_ValidityDays rc) (rc_Code rc) db1
      else Inr ((), db1)))"

definition afterRedeem :: "RedeemCode \<Rightarrow> (go_error + RedeemCode \<Rightarrow> 'r pay_flow) \<Rightarrow> go_error + unit \<Rightarrow> 'r pay_flow" where
  "afterRedeem rc k res =
     (case res of
        Inl err \<Rightarrow> k (Inl err)
      | Inr _ \<Rightarrow> dbTry (\<lambda>e. codes_GetByID (rc_ID rc)) (\<lambda>res.
          k (case res of Inl err \<Rightarrow> Inl (OtherError ''get updated redeem code'' (Some err)) | Inr r \<Rightarrow> Inr r)))"

definition redeemValidated :: "calendar \<Rightarrow> int \<Rightarrow> RedeemCode \<Rightarrow> (go_error + RedeemCode \<Rightarrow> 'r pay_flow) \<Rightarrow> 'r pay_flow" where
  "redeemValidated cal userID rc k = getUser userID (\<lambda>ru.
     (case ru of
        Inl err \<Rightarrow> k (Inl (OtherError ''get user'' (Some err)))
      | Inr user \<Rightarrow>
          (if rc_Type rc = RedeemTypeSubscription \<and> 0 \<le> rc_ValidityDays rc then
             dbTry (\<lambda>e. \<lambda>db. thenTx (codes_Use (ev_now e) (rc_ID rc) userID db) (\<lambda>_ _.
                 onSubs (AssignOrExtendSubscription cal (ev_now e)
                   \<lparr>in_UserID = userID, in_GroupID = the (rc_GroupID rc),
                    in_ValidityDays = (if rc_ValidityDays rc = 0 then 30 else rc_ValidityDays rc),
                    in_AssignedBy = 0, in_Notes = redeemNotes (rc_Code rc)\<rparr>) db))
               (\<lambda>res. (case res of
                    Inl err \<Rightarrow> k (Inl err)
                  | Inr _ \<Rightarrow> dbTry (redeemTx cal userID rc user) (afterRedeem rc k)))
           else dbTry (redeemTx cal userID rc user) (afterRedeem rc k))))"

definition Redeem :: "calendar \<Rightarrow> int \<Rightarrow> string \<Rightarrow> (go_error + RedeemCode \<Rightarrow> 'r pay_flow) \<Rightarrow> 'r pay_flow" where
  "Redeem cal userID code k = outside ev_attempts (\<lambda>attempts.
     if (case attempts of None \<Rightarrow> False | Some n \<Rightarrow> n \<ge> redeemMaxErrorsPerHour) then k (Inl ErrRedeemRateLimited)
     else outside ev_lock (\<lambda>acquired.
       if \<not> acquired then k (Inl ErrRedeemCodeLocked)
       else dbTry (\<lambda>e. codes_GetByCode code) (\<lambda>res.
         case res of
           Inl err \<Rightarrow> k (Inl (if IsError err ErrRedeemCodeNotFound then ErrRedeemCodeNotFound else OtherError ''get redeem code'' (Some err)))
         | Inr rc \<Rightarrow> outside ev_now (\<lambda>now.
             if IsExpiredAt now rc then k (Inl ErrRedeemCodeExpired)
             else if \<not> CanUse now rc then k (Inl ErrRedeemCodeUsed)
             else if rc_Type rc = RedeemTypeSubscription \<and> rc_GroupID rc = None
             then k (Inl (BadRequest ''REDEEM_CODE_INVALID'' ''invalid subscription redeem code: missing group_id''))
             else if rc_Type rc \<in> {RedeemTypeBalance, RedeemTypeConcurrency, RedeemTypeSubscription}
             then redeemValidated cal userID rc k
             else k (Inl (unsupportedRedeemTypeError (rc_Type rc)))))))"

text \<open>\<open>Delete\<close> looks at the code first, in a statement of its own.\<close>

definition DeleteCode :: "int \<Rightarrow> (go_error + unit \<Rightarrow> 'r pay_flow) \<Rightarrow> 'r pay_flow" where
  "DeleteCode i k = dbTry (\<lambda>e. codes_GetByID i) (\<lambda>res.
     case res of
       Inl err \<Rightarrow> k (Inl (OtherError ''get redeem code'' (Some err)))
     | Inr code \<Rightarrow>
         (if IsUsed code then k (Inl (Conflict ''REDEEM_CODE_DELETE_USED'' ''cannot delete used redeem code''))
          else dbTry (\<lambda>e. codes_Delete i) k))"

subsection \<open>Batch update\<close>

record RedeemCodeBatchUpdateFields =
  bu_Status :: "string option"
  bu_ExpiresAt :: "int option option"
  bu_Notes :: "string option"
  bu_GroupID :: "int option option"
  bu_Type :: "string option"
  bu_Value :: "rat option"

definition HasChanges :: "RedeemCodeBatchUpdateFields \<Rightarrow> bool" where
  "HasChanges f \<longleftrightarrow> bu_Status f \<noteq> None \<or> bu_ExpiresAt f \<noteq> None \<or> bu_Notes f \<noteq> None \<or> bu_GroupID f \<noteq> None \<or>
     bu_Type f \<noteq> None \<or> bu_Value f \<noteq> None"

definition HasCoreFieldChanges :: "RedeemCodeBatchUpdateFields \<Rightarrow> bool" where
  "HasCoreFieldChanges f \<longleftrightarrow> bu_Type f \<noteq> None \<or> bu_Value f \<noteq> None"

definition TouchesUsedSensitiveFields :: "RedeemCodeBatchUpdateFields \<Rightarrow> bool" where
  "TouchesUsedSensitiveFields f \<longleftrightarrow> bu_Status f \<noteq> None \<or> bu_ExpiresAt f \<noteq> None \<or> bu_GroupID f \<noteq> None"

text \<open>
  The transaction of \<open>batchUpdate\<close>, at the database's default isolation level: the check of the rows
  read first and the update of the rows are two statements, and others may commit in between.
\<close>

definition codes_BatchCheck :: "int list \<Rightarrow> RedeemCodeBatchUpdateFields \<Rightarrow> pay_db \<Rightarrow> go_error + unit \<times> pay_db" where
  "codes_BatchCheck ids f db =
     (let existing = filter (\<lambda>r. rc_ID r \<in> set ids) (pd_codes db) in
      if length existing \<noteq> length ids then Inl ErrRedeemCodeNotFound
      else if TouchesUsedSensitiveFields f \<and> list_ex IsUsed existing then Inl ErrRedeemCodeUsed
      else Inr ((), db))"

definition codes_BatchWrite :: "int list \<Rightarrow> RedeemCodeBatchUpdateFields \<Rightarrow> pay_db \<Rightarrow> go_error + int \<times> pay_db" where
  "codes_BatchWrite ids f db =
     (let p = (\<lambda>r. rc_ID r \<in> set ids); n = length (filter p (pd_codes db)) in
      if n \<noteq> length ids then Inl ErrRedeemCodeNotFound
      else Inr (int n, db\<lparr>pd_codes := map (\<lambda>r. if p r then
        r\<lparr>rc_Notes := (case bu_Notes f of None \<Rightarrow> rc_Notes r | Some n \<Rightarrow> n),
          rc_Status := (case bu_Status f of None \<Rightarrow> rc_Status r | Some s \<Rightarrow> s),
          rc_ExpiresAt := (case bu_ExpiresAt f of None \<Rightarrow> rc_ExpiresAt r | Some x \<Rightarrow> x),
          rc_GroupID := (case bu_GroupID f of None \<Rightarrow> rc_GroupID r | Some x \<Rightarrow> x)\<rparr> else r) (pd_codes db)\<rparr>))"

definition BatchUpdate :: "int list \<Rightarrow> RedeemCodeBatchUpdateFields \<Rightarrow> (go_error + int \<Rightarrow> 'r pay_flow) \<Rightarrow> 'r pay_flow" where
  "BatchUpdate ids0 f k =
     (if ids0 = [] then k (Inl (BadRequest ''REDEEM_CODE_BATCH_UPDATE_IDS_REQUIRED'' ''ids are required''))
      else if \<not> HasChanges f
      then k (Inl (BadRequest ''REDEEM_CODE_BATCH_UPDATE_EMPTY'' ''at least one field must be selected''))
      else if HasCoreFieldChanges f
      then k (Inl (BadRequest ''REDEEM_CODE_CORE_FIELDS_IMMUTABLE'' ''type and value cannot be batch updated''))
      else if list_ex (\<lambda>i. i \<le> 0) ids0
      then k (Inl (BadRequest ''REDEEM_CODE_BATCH_UPDATE_INVALID_ID'' ''ids must be positive''))
      else if (case bu_Status f of None \<Rightarrow> False | Some s \<Rightarrow> s \<notin> {StatusUnused, StatusDisabled})
      then k (Inl (BadRequest ''REDEEM_CODE_STATUS_INVALID'' ''status must be unused or disabled''))
      else outside ev_now (\<lambda>now.
        if (case bu_ExpiresAt f of Some (Some t) \<Rightarrow> t \<le> now | _ \<Rightarrow> False)
        then k (Inl (BadRequest ''REDEEM_CODE_EXPIRES_AT_INVALID'' ''expires_at must be in the future''))
        else if (case bu_GroupID f of Some (Some g) \<Rightarrow> g \<le> 0 | _ \<Rightarrow> False)
        then k (Inl (BadRequest ''REDEEM_CODE_GROUP_ID_INVALID'' ''group_id must be positive''))
        else let ids = remdups ids0 in
          dbTry (\<lambda>e. codes_BatchCheck ids f) (\<lambda>res.
            case res of
              Inl err \<Rightarrow> k (Inl err)
            | Inr _ \<Rightarrow> dbTry (\<lambda>e. codes_BatchWrite ids f) k)))"

end
