(* ===== verification/PaymentProviders.thy ===== *)
theory PaymentProviders
  imports RedeemCodes
begin

section \<open>Payment providers of orders\<close>

text \<open>
  \<open>service/payment_order_provider_snapshot.go\<close>, \<open>service/payment_currency.go\<close> and the lookup of an order's
  provider instance in \<open>service/payment_refund.go\<close>: a notification or a refund must belong to the merchant
  account that the order was created with.

  A function of the code that does I/O is a flow that goes on with its last argument \<open>k\<close>, called with
  the function's results.  \<open>pay_service\<close> holds what the payment service is configured with: the
  calendar, the provider keys of the registry by payment type (empty for none), and whether there is an
  affiliate service.  The texts of errors are shortened.
\<close>

record pay_service =
  sv_cal :: calendar
  sv_reg :: "string \<Rightarrow> string"
  sv_affiliate :: bool

definition psStringValue :: "string option \<Rightarrow> string" where
  "psStringValue v = (case v of None \<Rightarrow> '''' | Some s \<Rightarrow> s)"

definition psIsRefundStatus :: "OrderStatus \<Rightarrow> bool" where
  "psIsRefundStatus s \<longleftrightarrow> s \<in> {OrderStatusRefundRequested, OrderStatusRefunding, OrderStatusRefundPending,
     OrderStatusPartiallyRefunded, OrderStatusRefunded, OrderStatusRefundFailed}"

definition TypeAlipay :: string where "TypeAlipay = ''alipay''"
definition TypeWxpay :: string where "TypeWxpay = ''wxpay''"
definition TypeStripe :: string where "TypeStripe = ''stripe''"
definition TypeEasyPay :: string where "TypeEasyPay = ''easypay''"
definition TypeAirwallex :: string where "TypeAirwallex = ''airwallex''"

definition GetBasePaymentType :: "string \<Rightarrow> string" where
  "GetBasePaymentType t =
     (if t = TypeEasyPay then TypeEasyPay
      else if t = TypeAirwallex then TypeAirwallex
      else if t = TypeStripe \<or> t = ''card'' \<or> t = ''link'' then TypeStripe
      else if has_prefix t TypeAlipay then TypeAlipay
      else if has_prefix t TypeWxpay then TypeWxpay
      else t)"

subsection \<open>Provider snapshots (payment_order_provider_snapshot.go)\<close>

record paymentOrderProviderSnapshot =
  ps_SchemaVersion :: int
  ps_ProviderInstanceID :: string
  ps_ProviderKey :: string
  ps_PaymentMode :: string
  ps_MerchantAppID :: string
  ps_MerchantID :: string
  ps_Currency :: string

definition psSnapshotStringValue :: "snapshot_value option \<Rightarrow> string" where
  "psSnapshotStringValue v = (case v of Some (SnapString s) \<Rightarrow> trim_space s | _ \<Rightarrow> '''')"

definition psSnapshotIntValue :: "snapshot_value option \<Rightarrow> int" where
  "psSnapshotIntValue v =
     (case v of
        Some (SnapNumber n) \<Rightarrow> n
      | Some (SnapString s) \<Rightarrow> (case atoi (trim_space s) of None \<Rightarrow> 0 | Some n \<Rightarrow> n)
      | _ \<Rightarrow> 0)"

definition psOrderProviderSnapshot :: "PaymentOrder \<Rightarrow> paymentOrderProviderSnapshot option" where
  "psOrderProviderSnapshot o' =
     (let m = map_of (po_ProviderSnapshot o');
          snapshot = \<lparr>ps_SchemaVersion = psSnapshotIntValue (m ''schema_version''),
            ps_ProviderInstanceID = psSnapshotStringValue (m ''provider_instance_id''),
            ps_ProviderKey = psSnapshotStringValue (m ''provider_key''),
            ps_PaymentMode = psSnapshotStringValue (m ''payment_mode''),
            ps_MerchantAppID = psSnapshotStringValue (m ''merchant_app_id''),
            ps_MerchantID = psSnapshotStringValue (m ''merchant_id''),
            ps_Currency = psSnapshotStringValue (m ''currency'')\<rparr>
      in if po_ProviderSnapshot o' = [] then None
         else if ps_SchemaVersion snapshot = 0 \<and> ps_ProviderInstanceID snapshot = '''' \<and>
              ps_ProviderKey snapshot = '''' \<and> ps_PaymentMode snapshot = '''' \<and>
              ps_MerchantAppID snapshot = '''' \<and> ps_MerchantID snapshot = '''' \<and> ps_Currency snapshot = ''''
         then None else Some snapshot)"

definition PaymentOrderCurrency :: "PaymentOrder \<Rightarrow> string" where
  "PaymentOrderCurrency o' =
     (case psOrderProviderSnapshot o' of
        None \<Rightarrow> DefaultPaymentCurrency
      | Some snapshot \<Rightarrow>
          (case NormalizePaymentCurrency (ps_Currency snapshot) of
             Inl _ \<Rightarrow> DefaultPaymentCurrency
           | Inr currency \<Rightarrow> currency))"

definition mismatch :: "string \<Rightarrow> go_error option" where
  "mismatch what = Some (OtherError what None)"

text \<open>One comparison of the snapshot with the metadata; \<open>conv\<close> normalises the latter.\<close>

definition expectMeta :: "(string \<Rightarrow> string) \<Rightarrow> string \<Rightarrow> (string \<times> string) list \<Rightarrow> string \<Rightarrow> string \<Rightarrow> go_error option" where
  "expectMeta conv expected0 metadata key what =
     (let expected = trim_space expected0;
          actual = conv (trim_space (case map_of metadata key of None \<Rightarrow> '''' | Some v \<Rightarrow> v))
      in if expected = '''' then None
         else if actual = '''' then mismatch (what @ '' missing'')
         else if \<not> EqualFold expected actual then mismatch (what @ '' mismatch'')
         else None)"

definition expectState :: "(string \<times> string) list \<Rightarrow> string \<Rightarrow> string \<Rightarrow> go_error option" where
  "expectState metadata key expected =
     (let actual = trim_space (case map_of metadata key of None \<Rightarrow> '''' | Some v \<Rightarrow> v)
      in if actual \<noteq> '''' \<and> \<not> EqualFold actual expected then mismatch (key @ '' mismatch'') else None)"

fun firstError :: "go_error option list \<Rightarrow> go_error option" where
  "firstError [] = None"
| "firstError (None # es) = firstError es"
| "firstError (Some e # es) = Some e"

definition validateProviderSnapshotMetadata :: "PaymentOrder \<Rightarrow> string \<Rightarrow> (string \<times> string) list \<Rightarrow> go_error option" where
  "validateProviderSnapshotMetadata order providerKey metadata =
     (if metadata = [] then None
      else case psOrderProviderSnapshot order of
        None \<Rightarrow> None
      | Some s \<Rightarrow>
          (let key = trim_space providerKey in
           if key = TypeWxpay then firstError
             [expectMeta id (ps_MerchantAppID s) metadata ''appid'' ''wxpay appid'',
              expectMeta id (ps_MerchantID s) metadata ''mchid'' ''wxpay mchid'',
              expectMeta to_upper (ps_Currency s) metadata ''currency'' ''wxpay currency'',
              expectState metadata ''trade_state'' ''SUCCESS'']
           else if key = TypeAlipay then expectMeta id (ps_MerchantAppID s) metadata ''app_id'' ''alipay app_id''
           else if key = TypeEasyPay then expectMeta id (ps_MerchantID s) metadata ''pid'' ''easypay pid''
           else if key = TypeStripe then expectMeta to_upper (ps_Currency s) metadata ''currency'' ''stripe currency''
           else if key = TypeAirwallex then firstError
             [expectMeta id (ps_MerchantID s) metadata ''account_id'' ''airwallex account_id'',
              expectMeta to_upper (ps_Currency s) metadata ''currency'' ''airwallex currency'',
              expectState metadata ''status'' ''SUCCEEDED'']
           else None))"

definition getInstance :: "int \<Rightarrow> (go_error + PaymentProviderInstance \<Rightarrow> 'r pay_flow) \<Rightarrow> 'r pay_flow" where
  "getInstance i = dbTry (\<lambda>e db. case List.find (\<lambda>p. pi_ID p = i) (pd_instances db) of
     None \<Rightarrow> Inl ErrNotFound | Some inst \<Rightarrow> Inr (inst, db))"

definition resolveSnapshotOrderProviderInstance :: "PaymentOrder \<Rightarrow> paymentOrderProviderSnapshot
  \<Rightarrow> (go_error + PaymentProviderInstance option \<Rightarrow> 'r pay_flow) \<Rightarrow> 'r pay_flow" where
  "resolveSnapshotOrderProviderInstance order snapshot k =
     (let columnInstanceID = trim_space (psStringValue (po_ProviderInstanceID order));
          snapshotID0 = trim_space (ps_ProviderInstanceID snapshot);
          snapshotInstanceID = (if snapshotID0 = '''' then columnInstanceID else snapshotID0)
      in if snapshotInstanceID = '''' then k (Inl (OtherError ''provider snapshot is missing provider_instance_id'' None))
         else if columnInstanceID \<noteq> '''' \<and> ps_ProviderInstanceID snapshot \<noteq> '''' \<and>
              \<not> EqualFold columnInstanceID (ps_ProviderInstanceID snapshot)
         then k (Inl (OtherError ''provider snapshot instance mismatch'' None))
         else case atoi snapshotInstanceID of
           None \<Rightarrow> k (Inl (OtherError ''provider snapshot instance id is invalid'' None))
         | Some instID \<Rightarrow> getInstance instID (\<lambda>r. case r of
             Inl err \<Rightarrow> k (Inl err)
           | Inr inst \<Rightarrow>
               (if ps_ProviderKey snapshot \<noteq> '''' \<and>
                   \<not> EqualFold (trim_space (pi_ProviderKey inst)) (ps_ProviderKey snapshot)
                then k (Inl (OtherError ''provider snapshot key mismatch'' None))
                else k (Inr (Some inst)))))"

definition expectedNotificationProviderKey :: "pay_service \<Rightarrow> string \<Rightarrow> string \<Rightarrow> string \<Rightarrow> string" where
  "expectedNotificationProviderKey S orderPaymentType orderProviderKey instanceProviderKey =
     (if trim_space instanceProviderKey \<noteq> '''' then trim_space instanceProviderKey
      else if trim_space orderProviderKey \<noteq> '''' then trim_space orderProviderKey
      else if trim_space (sv_reg S orderPaymentType) \<noteq> '''' then trim_space (sv_reg S orderPaymentType)
      else trim_space orderPaymentType)"

definition expectedNotificationProviderKeyForOrder :: "pay_service \<Rightarrow> PaymentOrder \<Rightarrow> string \<Rightarrow> string" where
  "expectedNotificationProviderKeyForOrder S order instanceProviderKey =
     expectedNotificationProviderKey S (po_PaymentType order)
       (case psOrderProviderSnapshot order of
          Some snapshot \<Rightarrow> (if ps_ProviderKey snapshot \<noteq> '''' then ps_ProviderKey snapshot
                             else psStringValue (po_ProviderKey order))
        | None \<Rightarrow> psStringValue (po_ProviderKey order))
       instanceProviderKey"

subsection \<open>The provider instance of an order (payment_refund.go)\<close>

definition normalizeVisibleMethodSupportType :: "string \<Rightarrow> string" where
  "normalizeVisibleMethodSupportType t =
     (let s = trim_space t in
      if s = TypeAlipay \<or> s = ''alipay_direct'' then TypeAlipay
      else if s = TypeWxpay \<or> s = ''wxpay_direct'' then TypeWxpay
      else s)"

fun split_commas :: "string \<Rightarrow> string \<Rightarrow> string list" where
  "split_commas acc [] = [rev acc]"
| "split_commas acc (c # s) = (if c = CHR '','' then rev acc # split_commas [] s else split_commas (c # acc) s)"

definition InstanceSupportsType :: "string \<Rightarrow> string \<Rightarrow> bool" where
  "InstanceSupportsType supportedTypes target \<longleftrightarrow> supportedTypes = '''' \<or>
     list_ex (\<lambda>t. trim_space t = target \<or>
        normalizeVisibleMethodSupportType (trim_space t) = normalizeVisibleMethodSupportType target)
       (split_commas [] supportedTypes)"

definition psLegacyOrderMatchesInstance :: "string \<Rightarrow> PaymentProviderInstance \<Rightarrow> bool" where
  "psLegacyOrderMatchesInstance orderPaymentType inst \<longleftrightarrow>
     (let baseType = GetBasePaymentType (trim_space orderPaymentType);
          instanceProviderKey = trim_space (pi_ProviderKey inst)
      in if baseType = '''' then False
         else if baseType = TypeStripe then instanceProviderKey = TypeStripe
         else if instanceProviderKey = TypeStripe then False
         else if instanceProviderKey = baseType then True
         else InstanceSupportsType (pi_SupportedTypes inst) baseType)"

definition psFilterLegacyOrderProviderInstances ::
  "string \<Rightarrow> PaymentProviderInstance list \<Rightarrow> PaymentProviderInstance list" where
  "psFilterLegacyOrderProviderInstances orderPaymentType instances =
     (if trim_space orderPaymentType = '''' then instances
      else filter (psLegacyOrderMatchesInstance orderPaymentType) instances)"

definition uniqueOf :: "'a list \<Rightarrow> 'a option" where
  "uniqueOf xs = (case xs of [x] \<Rightarrow> Some x | _ \<Rightarrow> None)"

definition resolveUniqueLegacyOrderProviderInstance :: "PaymentOrder
  \<Rightarrow> (go_error + PaymentProviderInstance option \<Rightarrow> 'r pay_flow) \<Rightarrow> 'r pay_flow" where
  "resolveUniqueLegacyOrderProviderInstance o' k =
     (let paymentType = GetBasePaymentType (trim_space (po_PaymentType o'));
          providerKey = trim_space (psStringValue (po_ProviderKey o'))
      in if providerKey \<noteq> '''' then
           dbCall (\<lambda>e db. (filter (\<lambda>p. pi_ProviderKey p = providerKey) (pd_instances db), db)) (\<lambda>r. case r of
             Inl err \<Rightarrow> k (Inl err)
           | Inr instances \<Rightarrow> k (Inr (uniqueOf (psFilterLegacyOrderProviderInstances paymentType instances))))
         else if paymentType = '''' then k (Inr None)
         else dbCall (\<lambda>e db. (pd_instances db, db)) (\<lambda>r. case r of
             Inl err \<Rightarrow> k (Inl err)
           | Inr instances \<Rightarrow> k (Inr (uniqueOf (psFilterLegacyOrderProviderInstances paymentType instances)))))"

definition getOrderProviderInstance :: "PaymentOrder
  \<Rightarrow> (go_error + PaymentProviderInstance option \<Rightarrow> 'r pay_flow) \<Rightarrow> 'r pay_flow" where
  "getOrderProviderInstance o' k =
     (case psOrderProviderSnapshot o' of
        Some snapshot \<Rightarrow> resolveSnapshotOrderProviderInstance o' snapshot k
      | None \<Rightarrow>
          (let instIDStr = trim_space (psStringValue (po_ProviderInstanceID o')) in
           if instIDStr = '''' then resolveUniqueLegacyOrderProviderInstance o' k
           else case atoi instIDStr of
             None \<Rightarrow> k (Inr None)
           | Some instID \<Rightarrow> getInstance instID (\<lambda>r. k (case r of Inl err \<Rightarrow> Inl err | Inr inst \<Rightarrow> Inr (Some inst)))))"

end
