(* ===== verification/PaymentOrders.thy ===== *)
theory PaymentOrders
  imports PaymentProviders
begin

section \<open>Payment notifications and fulfilment\<close>

text \<open>
  \<open>service/payment_fulfillment.go\<close>: a notification of the provider makes an order paid and fulfils it, a
  balance order by creating and redeeming its recharge code, a subscription order by renewing the
  subscription.  The affiliate service's accrual is part of the environment; what it does to the
  inviter is outside the model, but its place in the transaction that claims the order's rebate is not.
  Notification mails and log lines are left out.  A Go \<open>error\<close> is a \<open>go_error option\<close>.
\<close>

definition paymentGrace :: int where "paymentGrace = 5 * 60 * 1000000000"
definition orderIDPrefix :: string where "orderIDPrefix = ''sub2_''"
definition NotificationStatusSuccess :: string where "NotificationStatusSuccess = ''success''"
definition ProviderStatusPending :: string where "ProviderStatusPending = ''pending''"
definition ProviderStatusPaid :: string where "ProviderStatusPaid = ''paid''"
definition ProviderStatusSuccess :: string where "ProviderStatusSuccess = ''success''"
definition ProviderStatusFailed :: string where "ProviderStatusFailed = ''failed''"
definition ProviderStatusRefunded :: string where "ProviderStatusRefunded = ''refunded''"

type_synonym 'r then_error = "go_error option \<Rightarrow> 'r pay_flow"

definition wrapError :: "string \<Rightarrow> go_error \<Rightarrow> go_error option" where
  "wrapError what err = Some (OtherError what (Some err))"

definition invalidStatus :: "string \<Rightarrow> go_error option" where
  "invalidStatus what = Some (BadRequest ''INVALID_STATUS'' what)"

definition orderNotFound :: "go_error option" where
  "orderNotFound = Some (NotFound ''NOT_FOUND'' ''order not found'')"

subsection \<open>Completion and failure\<close>

definition markCompleted :: "PaymentOrder \<Rightarrow> string \<Rightarrow> 'r then_error \<Rightarrow> 'r pay_flow" where
  "markCompleted ord auditAction k = outside ev_now (\<lambda>now.
     updateOrders (\<lambda>r. po_ID r = po_ID ord \<and> po_Status r = OrderStatusRecharging)
       (\<lambda>r. r\<lparr>po_Status := OrderStatusCompleted, po_CompletedAt := Some now\<rparr>) (\<lambda>res. case res of
         Inl err \<Rightarrow> k (wrapError ''mark completed'' err)
       | Inr _ \<Rightarrow> writeAuditLog (po_ID ord) auditAction ''system'' (k None)))"

definition markFailed :: "int \<Rightarrow> go_error \<Rightarrow> 'r pay_flow \<Rightarrow> 'r pay_flow" where
  "markFailed oid cause k = outside ev_now (\<lambda>now.
     updateOrders (\<lambda>r. po_ID r = oid \<and> po_Status r = OrderStatusRecharging)
       (\<lambda>r. r\<lparr>po_Status := OrderStatusFailed, po_FailedAt := Some now, po_FailedReason := Some cause\<rparr>) (\<lambda>res. case res of
         Inl err \<Rightarrow> k
       | Inr c \<Rightarrow> (if c > 0 then writeAuditLog oid ''FULFILLMENT_FAILED'' ''system'' k else k)))"

definition affiliateRebateBaseAmount :: "PaymentOrder \<Rightarrow> rat" where
  "affiliateRebateBaseAmount ord =
     (if po_OrderType ord \<in> {OrderTypeBalance, OrderTypeSubscription} then po_Amount ord else 0)"

text \<open>
  The transaction of \<open>applyAffiliateRebateForOrder\<close>: claim the order's rebate by inserting an audit entry, accrue,
  and rename the entry if there was nothing to accrue.
\<close>

definition rebateTx :: "int \<Rightarrow> pay_env \<Rightarrow> pay_db \<Rightarrow> go_error + unit \<times> pay_db" where
  "rebateTx oid e db =
     (if logged oid ''AFFILIATE_REBATE_APPLIED'' db \<or> logged oid ''AFFILIATE_REBATE_SKIPPED'' db then Inr ((), db)
      else case ev_rebate e of
        Inl err \<Rightarrow> Inl err
      | Inr rebateAmount \<Rightarrow>
          (let entry = (\<lambda>action. \<lparr>al_OrderID = oid, al_Action = action, al_Operator = ''system'',
                 al_RefundID = '''', al_RollbackOK = True, al_CreatedAt = ev_now e\<rparr>)
           in if rebateAmount \<le> 0 then insertAudit (entry ''AFFILIATE_REBATE_SKIPPED'') db
              else thenTx (insertAudit (entry ''AFFILIATE_REBATE_APPLIED'') db) (\<lambda>_ db1.
                     Inr ((), record_event (RebateAccrued oid rebateAmount) db1))))"

definition applyAffiliateRebateForOrder :: "pay_service \<Rightarrow> PaymentOrder \<Rightarrow> 'r then_error \<Rightarrow> 'r pay_flow" where
  "applyAffiliateRebateForOrder S ord k =
     (if affiliateRebateBaseAmount ord \<le> 0 \<or> \<not> sv_affiliate S then k None
      else dbTry (rebateTx (po_ID ord)) (\<lambda>res. case res of
          Inl err \<Rightarrow> writeAuditLog (po_ID ord) ''AFFILIATE_REBATE_FAILED'' ''system''
                     (k (wrapError ''affiliate rebate'' err))
        | Inr _ \<Rightarrow> k None))"

subsection \<open>Balance orders\<close>

datatype redeemAction = redeemActionCreate | redeemActionRedeem | redeemActionSkipCompleted

definition resolveRedeemAction :: "go_error + RedeemCode \<Rightarrow> redeemAction" where
  "resolveRedeemAction existing =
     (case existing of
        Inl _ \<Rightarrow> redeemActionCreate
      | Inr rc \<Rightarrow> (if IsUsed rc then redeemActionSkipCompleted else redeemActionRedeem))"

definition rechargeCode :: "PaymentOrder \<Rightarrow> RedeemCode" where
  "rechargeCode ord = \<lparr>rc_ID = 0, rc_Code = po_RechargeCode ord, rc_Type = RedeemTypeBalance,
     rc_Value = po_Amount ord, rc_Status = StatusUnused, rc_UsedBy = None, rc_UsedAt = None, rc_Notes = '''',
     rc_ExpiresAt = None, rc_GroupID = None, rc_ValidityDays = 0\<rparr>"

definition finishBalance :: "pay_service \<Rightarrow> PaymentOrder \<Rightarrow> 'r then_error \<Rightarrow> 'r pay_flow" where
  "finishBalance S ord k = applyAffiliateRebateForOrder S ord (\<lambda>err. case err of
       Some _ \<Rightarrow> k err
     | None \<Rightarrow> markCompleted ord ''RECHARGE_SUCCESS'' k)"

definition redeemBalance :: "pay_service \<Rightarrow> PaymentOrder \<Rightarrow> 'r then_error \<Rightarrow> 'r pay_flow" where
  "redeemBalance S ord k = Redeem (sv_cal S) (po_UserID ord) (po_RechargeCode ord) (\<lambda>res. case res of
       Inl err \<Rightarrow> k (wrapError ''redeem balance'' err)
     | Inr _ \<Rightarrow> finishBalance S ord k)"

definition doBalance :: "pay_service \<Rightarrow> PaymentOrder \<Rightarrow> 'r then_error \<Rightarrow> 'r pay_flow" where
  "doBalance S ord k = GetByCode (po_RechargeCode ord) (\<lambda>existing.
     case resolveRedeemAction existing of
       redeemActionSkipCompleted \<Rightarrow> finishBalance S ord k
     | redeemActionCreate \<Rightarrow> CreateCode (rechargeCode ord) (\<lambda>res. case res of
           Inl err \<Rightarrow> k (wrapError ''create redeem code'' err)
         | Inr _ \<Rightarrow> redeemBalance S ord k)
     | redeemActionRedeem \<Rightarrow> redeemBalance S ord k)"

text \<open>The guards that both kinds of fulfilment share, up to the lock by status.\<close>

definition fulfilGuard :: "PaymentOrder \<Rightarrow> go_error option option" where
  "fulfilGuard ord =
     (if po_Status ord = OrderStatusCompleted then Some None
      else if psIsRefundStatus (po_Status ord) then Some (invalidStatus ''refund-related order cannot fulfill'')
      else if po_Status ord \<notin> {OrderStatusPaid, OrderStatusFailed}
      then Some (invalidStatus ''order cannot fulfill in this status'')
      else None)"

definition lockRecharging :: "int \<Rightarrow> (go_error + int \<Rightarrow> 'r pay_flow) \<Rightarrow> 'r pay_flow" where
  "lockRecharging oid = updateOrders
     (\<lambda>r. po_ID r = oid \<and> po_Status r \<in> {OrderStatusPaid, OrderStatusFailed})
     (\<lambda>r. r\<lparr>po_Status := OrderStatusRecharging\<rparr>)"

definition fulfilLocked :: "('r then_error \<Rightarrow> 'r pay_flow) \<Rightarrow> int \<Rightarrow> 'r then_error \<Rightarrow> 'r pay_flow" where
  "fulfilLocked work oid k = lockRecharging oid (\<lambda>res. case res of
       Inl err \<Rightarrow> k (wrapError ''lock'' err)
     | Inr c \<Rightarrow>
         (if c = 0 then k None
          else work (\<lambda>err. case err of None \<Rightarrow> k None | Some cause \<Rightarrow> markFailed oid cause (k err))))"

definition ExecuteBalanceFulfillment :: "pay_service \<Rightarrow> int \<Rightarrow> 'r then_error \<Rightarrow> 'r pay_flow" where
  "ExecuteBalanceFulfillment S oid k = getOrder oid (\<lambda>res. case res of
       Inl _ \<Rightarrow> k orderNotFound
     | Inr ord \<Rightarrow> (case fulfilGuard ord of
           Some stop \<Rightarrow> k stop
         | None \<Rightarrow> fulfilLocked (doBalance S ord) oid k))"

subsection \<open>Subscription orders\<close>

text \<open>\<open>AssignOrExtendSubscription\<close> of the subscription service: the group check, the read of the present
  term, and the write of the new one are separate statements.\<close>

definition assignFlow :: "calendar \<Rightarrow> int \<Rightarrow> AssignSubscriptionInput \<Rightarrow> (go_error + unit \<Rightarrow> 'r pay_flow) \<Rightarrow> 'r pay_flow" where
  "assignFlow cal oid inp k = dbTry (\<lambda>e db. case checkGroup (in_GroupID inp) (pd_subs db) of
         Inl err \<Rightarrow> Inl (subError err) | Inr _ \<Rightarrow> Inr ((), db)) (\<lambda>g. case g of
       Inl err \<Rightarrow> k (Inl err)
     | Inr _ \<Rightarrow> dbCall (\<lambda>e db. (termRead inp (pd_subs db), db)) (\<lambda>res.
         let existing = (case res of Inl _ \<Rightarrow> None | Inr x \<Rightarrow> x) in
         dbTry (\<lambda>e db. thenTx (onSubs (termWrite cal (ev_now e) inp existing) db) (\<lambda>_ db1.
             Inr ((), record_event (SubAssigned oid (in_UserID inp) (in_GroupID inp) (in_ValidityDays inp)) db1))) k))"

definition finishSub :: "pay_service \<Rightarrow> PaymentOrder \<Rightarrow> 'r then_error \<Rightarrow> 'r pay_flow" where
  "finishSub S ord k = applyAffiliateRebateForOrder S ord (\<lambda>err. case err of
       Some _ \<Rightarrow> k err
     | None \<Rightarrow> markCompleted ord ''SUBSCRIPTION_SUCCESS'' k)"

definition doSub :: "pay_service \<Rightarrow> PaymentOrder \<Rightarrow> int \<Rightarrow> int \<Rightarrow> 'r then_error \<Rightarrow> 'r pay_flow" where
  "doSub S ord gid days k = dbCall (\<lambda>e db. (pd_groupStatus db gid, db)) (\<lambda>g.
     if (case g of Inr (Some st) \<Rightarrow> st \<noteq> EntityStatusActive | _ \<Rightarrow> True)
     then k (Some (OtherError ''group no longer exists or inactive'' None))
     else hasAuditLog (po_ID ord) ''SUBSCRIPTION_ASSIGNED'' (\<lambda>a1.
       (if a1 then (\<lambda>c. c True) else hasAuditLog (po_ID ord) ''SUBSCRIPTION_SUCCESS'') (\<lambda>assigned.
         if assigned then finishSub S ord k
         else assignFlow (sv_cal S) (po_ID ord)
             \<lparr>in_UserID = po_UserID ord, in_GroupID = gid, in_ValidityDays = days, in_AssignedBy = 0,
              in_Notes = ''payment order '' @ itoa (po_ID ord)\<rparr> (\<lambda>res. case res of
           Inl err \<Rightarrow> k (wrapError ''assign subscription'' err)
         | Inr _ \<Rightarrow> writeAuditLog (po_ID ord) ''SUBSCRIPTION_ASSIGNED'' ''system'' (finishSub S ord k)))))"

definition ExecuteSubscriptionFulfillment :: "pay_service \<Rightarrow> int \<Rightarrow> 'r then_error \<Rightarrow> 'r pay_flow" where
  "ExecuteSubscriptionFulfillment S oid k = getOrder oid (\<lambda>res. case res of
       Inl _ \<Rightarrow> k orderNotFound
     | Inr ord \<Rightarrow> (case fulfilGuard ord of
           Some stop \<Rightarrow> k stop
         | None \<Rightarrow> (case (po_SubscriptionGroupID ord, po_SubscriptionDays ord) of
               (Some gid, Some days) \<Rightarrow> fulfilLocked (doSub S ord gid days) oid k
             | _ \<Rightarrow> k (invalidStatus ''missing subscription info''))))"

definition executeFulfillment :: "pay_service \<Rightarrow> int \<Rightarrow> 'r then_error \<Rightarrow> 'r pay_flow" where
  "executeFulfillment S oid k = getOrder oid (\<lambda>res. case res of
       Inl err \<Rightarrow> k (wrapError ''get order'' err)
     | Inr ord \<Rightarrow> (if po_OrderType ord = OrderTypeSubscription then ExecuteSubscriptionFulfillment S oid k
                  else ExecuteBalanceFulfillment S oid k))"

definition RetryFulfillment :: "pay_service \<Rightarrow> int \<Rightarrow> 'r then_error \<Rightarrow> 'r pay_flow" where
  "RetryFulfillment S oid k = getOrder oid (\<lambda>res. case res of
       Inl _ \<Rightarrow> k orderNotFound
     | Inr ord \<Rightarrow>
         (if po_PaidAt ord = None then k (invalidStatus ''order is not paid'')
          else if psIsRefundStatus (po_Status ord) then k (invalidStatus ''refund-related order cannot retry'')
          else if po_Status ord = OrderStatusRecharging then k (Some (Conflict ''CONFLICT'' ''order is being processed''))
          else if po_Status ord = OrderStatusCompleted then k (invalidStatus ''order already completed'')
          else if po_Status ord \<notin> {OrderStatusFailed, OrderStatusPaid}
          then k (invalidStatus ''only paid and failed orders can retry'')
          else updateOrders (\<lambda>r. po_ID r = oid \<and> po_Status r \<in> {OrderStatusFailed, OrderStatusPaid})
            (\<lambda>r. r\<lparr>po_Status := OrderStatusPaid, po_FailedAt := None, po_FailedReason := None\<rparr>) (\<lambda>u. case u of
              Inl err \<Rightarrow> k (wrapError ''reset for retry'' err)
            | Inr _ \<Rightarrow> writeAuditLog oid ''RECHARGE_RETRY'' ''admin'' (executeFulfillment S oid k))))"

subsection \<open>Notifications\<close>

record PaymentNotification =
  pn_TradeNo :: string
  pn_OrderID :: string
  pn_Amount :: go_float
  pn_Status :: string
  pn_Metadata :: "(string \<times> string) list"

definition alreadyProcessed :: "pay_service \<Rightarrow> PaymentOrder \<Rightarrow> 'r then_error \<Rightarrow> 'r pay_flow" where
  "alreadyProcessed S ord k = getOrder (po_ID ord) (\<lambda>res. case res of
       Inl _ \<Rightarrow> k None
     | Inr cur \<Rightarrow> (case po_Status cur of
           OrderStatusCompleted \<Rightarrow> k None
         | OrderStatusRefunded \<Rightarrow> k None
         | OrderStatusFailed \<Rightarrow> executeFulfillment S (po_ID ord) k
         | OrderStatusPaid \<Rightarrow> k (Some (OtherError ''order is being processed'' None))
         | OrderStatusRecharging \<Rightarrow> k (Some (OtherError ''order is being processed'' None))
         | OrderStatusExpired \<Rightarrow> writeAuditLog (po_ID ord) ''PAYMENT_AFTER_EXPIRY'' ''system'' (k None)
         | _ \<Rightarrow> k None))"

definition payable :: "int \<Rightarrow> PaymentOrder \<Rightarrow> bool" where
  "payable grace r \<longleftrightarrow> po_Status r = OrderStatusPending \<or> po_Status r = OrderStatusCancelled \<or>
     po_Status r = OrderStatusExpired \<and> grace \<le> po_UpdatedAt r"

text \<open>The column \<open>pay_amount\<close> keeps two decimals.\<close>

definition toPaid :: "pay_service \<Rightarrow> PaymentOrder \<Rightarrow> string \<Rightarrow> rat \<Rightarrow> string \<Rightarrow> 'r then_error \<Rightarrow> 'r pay_flow" where
  "toPaid S ord tradeNo paid pk k = outside ev_now (\<lambda>now.
     updateOrders (\<lambda>r. po_ID r = po_ID ord \<and> payable (now - paymentGrace) r)
       (\<lambda>r. r\<lparr>po_Status := OrderStatusPaid, po_PayAmount := dec_round 2 paid, po_PaymentTradeNo := tradeNo,
              po_PaidAt := Some now, po_FailedAt := None, po_FailedReason := None\<rparr>) (\<lambda>res. case res of
         Inl err \<Rightarrow> k (wrapError ''update to PAID'' err)
       | Inr c \<Rightarrow>
           (if c = 0 then alreadyProcessed S ord k
            else (if po_Status ord \<in> {OrderStatusCancelled, OrderStatusExpired}
                  then writeAuditLog (po_ID ord) ''ORDER_RECOVERED'' pk else id)
              (writeAuditLog (po_ID ord) ''ORDER_PAID'' pk (executeFulfillment S (po_ID ord) k)))))"

text \<open>What \<open>confirmPayment\<close> checks once the provider instance is known: the audit action and error, or \<open>None\<close>.\<close>

definition confirmError :: "pay_service \<Rightarrow> PaymentOrder \<Rightarrow> string \<Rightarrow> go_float \<Rightarrow> string \<Rightarrow> (string \<times> string) list
  \<Rightarrow> (string \<times> go_error) option" where
  "confirmError S ord instanceProviderKey paid pk metadata =
     (let expected = expectedNotificationProviderKeyForOrder S ord instanceProviderKey in
      if expected \<noteq> '''' \<and> trim_space pk \<noteq> '''' \<and> \<not> EqualFold expected (trim_space pk)
      then Some (''PAYMENT_PROVIDER_MISMATCH'', OtherError ''provider mismatch'' None)
      else case validateProviderSnapshotMetadata ord pk metadata of
        Some err \<Rightarrow> Some (''PAYMENT_PROVIDER_METADATA_MISMATCH'', err)
      | None \<Rightarrow>
          (case paid of
             NotFinite \<Rightarrow> Some (''PAYMENT_INVALID_AMOUNT'', OtherError ''invalid paid amount from provider'' None)
           | Finite amount \<Rightarrow>
               (if \<not> isValidProviderAmount paid
                then Some (''PAYMENT_INVALID_AMOUNT'', OtherError ''invalid paid amount from provider'' None)
                else if \<bar>amount - po_PayAmount ord\<bar> > paymentAmountToleranceForCurrency (PaymentOrderCurrency ord)
                then Some (''PAYMENT_AMOUNT_MISMATCH'', OtherError ''amount mismatch'' None)
                else None)))"

definition confirmPayment :: "pay_service \<Rightarrow> int \<Rightarrow> string \<Rightarrow> go_float \<Rightarrow> string \<Rightarrow> (string \<times> string) list
  \<Rightarrow> 'r then_error \<Rightarrow> 'r pay_flow" where
  "confirmPayment S oid tradeNo paid pk metadata k = getOrder oid (\<lambda>res. case res of
       Inl _ \<Rightarrow> k None
     | Inr ord \<Rightarrow> getOrderProviderInstance ord (\<lambda>ri.
         let instanceProviderKey = (case ri of Inr (Some inst) \<Rightarrow> pi_ProviderKey inst | _ \<Rightarrow> '''') in
         case confirmError S ord instanceProviderKey paid pk metadata of
           Some (action, err) \<Rightarrow> writeAuditLog (po_ID ord) action pk (k (Some err))
         | None \<Rightarrow> toPaid S ord tradeNo (case paid of Finite a \<Rightarrow> a | NotFinite \<Rightarrow> 0) pk k))"

definition ErrOrderNotFound :: go_error where
  "ErrOrderNotFound = OtherError ''payment order not found'' None"

definition parseLegacyPaymentOrderID :: "string \<Rightarrow> int option" where
  "parseLegacyPaymentOrderID orderID =
     (case cut_prefix (trim_space orderID) orderIDPrefix of
        None \<Rightarrow> None
      | Some trimmed \<Rightarrow>
          (if trimmed = '''' then None
           else case atoi trimmed of
             None \<Rightarrow> None
           | Some oid \<Rightarrow> (if oid \<le> 0 then None else Some oid)))"

definition HandlePaymentNotification :: "pay_service \<Rightarrow> PaymentNotification \<Rightarrow> string \<Rightarrow> 'r then_error \<Rightarrow> 'r pay_flow" where
  "HandlePaymentNotification S n pk k =
     (if pn_Status n \<noteq> NotificationStatusSuccess then k None
      else dbCall (\<lambda>e db. (filter (\<lambda>r. po_OutTradeNo r = pn_OrderID n) (pd_orders db), db)) (\<lambda>res. case res of
          Inl err \<Rightarrow> k (wrapError ''lookup order failed'' err)
        | Inr [] \<Rightarrow> (case parseLegacyPaymentOrderID (pn_OrderID n) of
              Some oid \<Rightarrow> confirmPayment S oid (pn_TradeNo n) (pn_Amount n) pk (pn_Metadata n) k
            | None \<Rightarrow> k (wrapError (pn_OrderID n) ErrOrderNotFound))
        | Inr [ord] \<Rightarrow> confirmPayment S (po_ID ord) (pn_TradeNo n) (pn_Amount n) pk (pn_Metadata n) k
        | Inr _ \<Rightarrow> k (wrapError ''lookup order failed'' (OtherError ''not singular'' None))))"

end
