(* ===== verification/PaymentLifecycle.thy ===== *)
theory PaymentLifecycle
  imports PaymentOrders
begin

section \<open>Cancelling, expiring and reconciling orders\<close>

text \<open>
  \<open>service/payment_order_lifecycle.go\<close>.  Before an order is cancelled or expires, the provider is asked
  whether it was paid after all.  Creating a provider object and the answers of the provider are
  part of the environment.
\<close>

definition checkPaidResultAlreadyPaid :: string where "checkPaidResultAlreadyPaid = ''already_paid''"
definition checkPaidResultCancelled :: string where "checkPaidResultCancelled = ''cancelled''"
definition pendingWxpayReconcileLimit :: nat where "pendingWxpayReconcileLimit = 20"

subsection \<open>Asking the provider\<close>

definition paymentOrderAllowsRegistryFallback :: "PaymentOrder \<Rightarrow> bool" where
  "paymentOrderAllowsRegistryFallback order \<longleftrightarrow> psOrderProviderSnapshot order = None \<and>
     trim_space (psStringValue (po_ProviderInstanceID order)) = '''' \<and>
     trim_space (psStringValue (po_ProviderKey order)) = ''''"

definition paymentOrderFallbackProviderKey :: "pay_service \<Rightarrow> PaymentOrder \<Rightarrow> string" where
  "paymentOrderFallbackProviderKey S order =
     (let key = trim_space (sv_reg S (po_PaymentType order)) in
      if key \<noteq> '''' then key else trim_space (GetBasePaymentType (trim_space (po_PaymentType order))))"

text \<open>Whether the registry's provider is unambiguous is part of the environment's answer.\<close>

definition getOrderProvider :: "pay_service \<Rightarrow> PaymentOrder \<Rightarrow> (go_error + pay_provider \<Rightarrow> 'r pay_flow) \<Rightarrow> 'r pay_flow" where
  "getOrderProvider S ord k = getOrderProviderInstance ord (\<lambda>res. case res of
       Inl err \<Rightarrow> k (Inl (OtherError ''load order provider instance'' (Some err)))
     | Inr (Some inst) \<Rightarrow> outside ev_provider k
     | Inr None \<Rightarrow>
         (if \<not> paymentOrderAllowsRegistryFallback ord
          then k (Inl (OtherError ''provider instance is unresolved'' None))
          else if paymentOrderFallbackProviderKey S ord = ''''
          then k (Inl (OtherError ''provider fallback key is missing'' None))
          else outside ev_provider k))"

definition firstNonEmptyTrim :: "string list \<Rightarrow> string" where
  "firstNonEmptyTrim xs = (case filter (\<lambda>x. x \<noteq> '''') (map trim_space xs) of [] \<Rightarrow> '''' | x # _ \<Rightarrow> x)"

definition paymentOrderQueryReference :: "PaymentOrder \<Rightarrow> pay_provider \<Rightarrow> string" where
  "paymentOrderQueryReference order prov =
     (let snapshotKey = (case psOrderProviderSnapshot order of None \<Rightarrow> '''' | Some s \<Rightarrow> ps_ProviderKey s);
          providerKey = firstNonEmptyTrim [pv_Key prov, snapshotKey, psStringValue (po_ProviderKey order), po_PaymentType order]
      in if GetBasePaymentType providerKey \<in> {TypeAlipay, TypeEasyPay, TypeWxpay} then trim_space (po_OutTradeNo order)
         else if trim_space (po_PaymentTradeNo order) \<noteq> '''' then trim_space (po_PaymentTradeNo order)
         else trim_space (po_OutTradeNo order))"

definition paymentOrderShouldPersistUpstreamTradeNo :: "string \<Rightarrow> string \<Rightarrow> string \<Rightarrow> bool" where
  "paymentOrderShouldPersistUpstreamTradeNo queryRef upstreamTradeNo currentTradeNo \<longleftrightarrow>
     (let u = trim_space upstreamTradeNo in
      u \<noteq> '''' \<and> \<not> EqualFold u (trim_space currentTradeNo) \<and> \<not> EqualFold u (trim_space queryRef))"

definition requeryPaidOrderOnce :: "string \<Rightarrow> (QueryOrderResponse option \<Rightarrow> 'r pay_flow) \<Rightarrow> 'r pay_flow" where
  "requeryPaidOrderOnce queryRef k =
     (if trim_space queryRef = '''' then k None
      else outside ev_query (\<lambda>res. case res of
          Inl err \<Rightarrow> k None
        | Inr resp \<Rightarrow>
            (if qo_Status resp \<noteq> ProviderStatusPaid \<or> \<not> isValidProviderAmount (qo_Amount resp) then k None
             else k (Some resp))))"

text \<open>A paid answer with a valid amount: remember the trade number, then treat it like a notification.\<close>

definition notifyPaid :: "pay_service \<Rightarrow> PaymentOrder \<Rightarrow> pay_provider \<Rightarrow> string \<Rightarrow> QueryOrderResponse
  \<Rightarrow> (string \<Rightarrow> 'r pay_flow) \<Rightarrow> 'r pay_flow" where
  "notifyPaid S ord prov queryRef resp k =
     (let upstream = trim_space (qo_TradeNo resp);
          persist = paymentOrderShouldPersistUpstreamTradeNo queryRef upstream (po_PaymentTradeNo ord);
          tradeNo = (if persist then upstream else po_PaymentTradeNo ord);
          notify = HandlePaymentNotification S
            \<lparr>pn_TradeNo = tradeNo, pn_OrderID = po_OutTradeNo ord, pn_Amount = qo_Amount resp,
             pn_Status = ProviderStatusSuccess, pn_Metadata = qo_Metadata resp\<rparr> (pv_Key prov)
            (\<lambda>_. k checkPaidResultAlreadyPaid)
      in if persist
         then updateOrders (\<lambda>r. po_ID r = po_ID ord) (\<lambda>r. r\<lparr>po_PaymentTradeNo := upstream\<rparr>) (\<lambda>_. notify)
         else notify)"

definition checkPaidWithOptions :: "pay_service \<Rightarrow> PaymentOrder \<Rightarrow> bool \<Rightarrow> (string \<Rightarrow> 'r pay_flow) \<Rightarrow> 'r pay_flow" where
  "checkPaidWithOptions S ord cancelIfUnpaid k = getOrderProvider S ord (\<lambda>rp. case rp of
       Inl err \<Rightarrow> k ''''
     | Inr prov \<Rightarrow>
         (let queryRef = paymentOrderQueryReference ord prov in
          if queryRef = '''' then k ''''
          else outside ev_query (\<lambda>rq. case rq of
              Inl err \<Rightarrow> k ''''
            | Inr resp \<Rightarrow>
                (if qo_Status resp = ProviderStatusPaid then
                   (if \<not> isValidProviderAmount (qo_Amount resp)
                    then writeAuditLog (po_ID ord) ''PAYMENT_INVALID_AMOUNT'' (pv_Key prov)
                      (requeryPaidOrderOnce queryRef (\<lambda>retried. case retried of
                           None \<Rightarrow> k ''''
                         | Some resp' \<Rightarrow> notifyPaid S ord prov queryRef resp' k))
                    else notifyPaid S ord prov queryRef resp k)
                 else if cancelIfUnpaid \<and> pv_CanCancel prov then outside (\<lambda>_. ()) (\<lambda>_. k '''')
                 else k ''''))))"

definition checkPaid :: "pay_service \<Rightarrow> PaymentOrder \<Rightarrow> (string \<Rightarrow> 'r pay_flow) \<Rightarrow> 'r pay_flow" where
  "checkPaid S ord k = checkPaidWithOptions S ord True k"

definition reconcilePaid :: "pay_service \<Rightarrow> PaymentOrder \<Rightarrow> (string \<Rightarrow> 'r pay_flow) \<Rightarrow> 'r pay_flow" where
  "reconcilePaid S ord k = checkPaidWithOptions S ord False k"

subsection \<open>Cancelling and expiring\<close>

definition cancelRow :: "PaymentOrder \<Rightarrow> OrderStatus \<Rightarrow> string \<Rightarrow> (go_error + string \<Rightarrow> 'r pay_flow) \<Rightarrow> 'r pay_flow" where
  "cancelRow ord fs op k = updateOrders (\<lambda>r. po_ID r = po_ID ord \<and> po_Status r = OrderStatusPending)
     (\<lambda>r. r\<lparr>po_Status := fs\<rparr>) (\<lambda>res. case res of
         Inl err \<Rightarrow> k (Inl (OtherError ''update order status'' (Some err)))
       | Inr c \<Rightarrow>
           (if c > 0 then writeAuditLog (po_ID ord)
                (if fs = OrderStatusExpired then ''ORDER_EXPIRED'' else ''ORDER_CANCELLED'') op
                (k (Inr checkPaidResultCancelled))
            else k (Inr checkPaidResultCancelled)))"

definition cancelCore :: "pay_service \<Rightarrow> PaymentOrder \<Rightarrow> OrderStatus \<Rightarrow> string
  \<Rightarrow> (go_error + string \<Rightarrow> 'r pay_flow) \<Rightarrow> 'r pay_flow" where
  "cancelCore S ord fs op k =
     (if po_PaymentTradeNo ord \<noteq> '''' \<or> po_PaymentType ord \<noteq> ''''
      then checkPaid S ord (\<lambda>outcome.
             if outcome = checkPaidResultAlreadyPaid then k (Inr checkPaidResultAlreadyPaid)
             else cancelRow ord fs op k)
      else cancelRow ord fs op k)"

definition userOperator :: "int \<Rightarrow> string" where
  "userOperator userID = ''user:'' @ itoa userID"

definition CancelOrder :: "pay_service \<Rightarrow> int \<Rightarrow> int \<Rightarrow> (go_error + string \<Rightarrow> 'r pay_flow) \<Rightarrow> 'r pay_flow" where
  "CancelOrder S orderID userID k = getOrder orderID (\<lambda>res. case res of
       Inl _ \<Rightarrow> k (Inl (NotFound ''NOT_FOUND'' ''order not found''))
     | Inr ord \<Rightarrow>
         (if po_UserID ord \<noteq> userID then k (Inl (Forbidden ''FORBIDDEN'' ''no permission for this order''))
          else if po_Status ord \<noteq> OrderStatusPending
          then k (Inl (BadRequest ''INVALID_STATUS'' ''order cannot be cancelled in current status''))
          else cancelCore S ord OrderStatusCancelled (userOperator userID) k))"

definition AdminCancelOrder :: "pay_service \<Rightarrow> int \<Rightarrow> (go_error + string \<Rightarrow> 'r pay_flow) \<Rightarrow> 'r pay_flow" where
  "AdminCancelOrder S orderID k = getOrder orderID (\<lambda>res. case res of
       Inl _ \<Rightarrow> k (Inl (NotFound ''NOT_FOUND'' ''order not found''))
     | Inr ord \<Rightarrow>
         (if po_Status ord \<noteq> OrderStatusPending
          then k (Inl (BadRequest ''INVALID_STATUS'' ''order cannot be cancelled in current status''))
          else cancelCore S ord OrderStatusCancelled ''admin'' k))"

fun expireAll :: "pay_service \<Rightarrow> PaymentOrder list \<Rightarrow> int \<Rightarrow> (int \<Rightarrow> 'r pay_flow) \<Rightarrow> 'r pay_flow" where
  "expireAll S [] n k = k n"
| "expireAll S (ord # ords) n k = cancelCore S ord OrderStatusExpired ''system'' (\<lambda>res.
     let outcome = (case res of Inl _ \<Rightarrow> '''' | Inr s \<Rightarrow> s) in
     expireAll S ords (if outcome \<noteq> checkPaidResultAlreadyPaid \<and> outcome \<noteq> '''' then n + 1 else n) k)"

definition ExpireTimedOutOrders :: "pay_service \<Rightarrow> (go_error + int \<Rightarrow> 'r pay_flow) \<Rightarrow> 'r pay_flow" where
  "ExpireTimedOutOrders S k = outside ev_now (\<lambda>now.
     dbCall (\<lambda>e db. (filter (\<lambda>r. po_Status r = OrderStatusPending \<and> po_ExpiresAt r \<le> now) (pd_orders db), db))
       (\<lambda>res. case res of
            Inl err \<Rightarrow> k (Inl (OtherError ''query expired'' (Some err)))
          | Inr ords \<Rightarrow> expireAll S ords 0 (\<lambda>n. k (Inr n))))"

subsection \<open>Reconciling\<close>

definition isWxpayOrder :: "PaymentOrder \<Rightarrow> bool" where
  "isWxpayOrder r \<longleftrightarrow> po_PaymentType r = TypeWxpay \<or> has_prefix (po_PaymentType r) (TypeWxpay @ ''_'') \<or>
     (case po_ProviderKey r of None \<Rightarrow> False
      | Some pk \<Rightarrow> pk = TypeWxpay \<or> has_prefix pk (TypeWxpay @ ''_''))"

fun reconcileAll :: "pay_service \<Rightarrow> PaymentOrder list \<Rightarrow> int \<Rightarrow> (int \<Rightarrow> 'r pay_flow) \<Rightarrow> 'r pay_flow" where
  "reconcileAll S [] n k = k n"
| "reconcileAll S (ord # ords) n k = reconcilePaid S ord (\<lambda>outcome.
     reconcileAll S ords (if outcome = checkPaidResultAlreadyPaid then n + 1 else n) k)"

definition ReconcilePendingWxpayOrders :: "pay_service \<Rightarrow> (go_error + int \<Rightarrow> 'r pay_flow) \<Rightarrow> 'r pay_flow" where
  "ReconcilePendingWxpayOrders S k = outside ev_now (\<lambda>now.
     dbCall (\<lambda>e db. (take pendingWxpayReconcileLimit (sort_key po_CreatedAt
          (filter (\<lambda>r. po_Status r = OrderStatusPending \<and> po_ExpiresAt r > now \<and> isWxpayOrder r) (pd_orders db))), db))
       (\<lambda>res. case res of
            Inl err \<Rightarrow> k (Inl (OtherError ''query pending wxpay orders'' (Some err)))
          | Inr ords \<Rightarrow> reconcileAll S ords 0 (\<lambda>n. k (Inr n))))"

definition tradeNoChar :: "char \<Rightarrow> bool" where
  "tradeNoChar c \<longleftrightarrow> of_char c \<in> {97..122 :: nat} \<or> of_char c \<in> {65..90 :: nat} \<or> of_char c \<in> {48..57 :: nat} \<or>
     c = CHR ''_'' \<or> c = CHR ''-''"

definition normalizeOrderLookupOutTradeNo :: "string \<Rightarrow> go_error + string" where
  "normalizeOrderLookupOutTradeNo raw =
     (let outTradeNo = trim_space raw in
      if outTradeNo = '''' then Inl (BadRequest ''INVALID_OUT_TRADE_NO'' ''out_trade_no is required'')
      else if length outTradeNo > 64 \<or> list_ex (\<lambda>c. \<not> tradeNoChar c) outTradeNo
      then Inl (BadRequest ''INVALID_OUT_TRADE_NO'' ''out_trade_no is invalid'')
      else Inr outTradeNo)"

definition lookupOutTradeNo :: "string \<Rightarrow> (go_error + PaymentOrder \<Rightarrow> 'r pay_flow) \<Rightarrow> 'r pay_flow" where
  "lookupOutTradeNo raw k =
     (case normalizeOrderLookupOutTradeNo raw of
        Inl err \<Rightarrow> k (Inl err)
      | Inr outTradeNo \<Rightarrow> dbCall (\<lambda>e db. (filter (\<lambda>r. po_OutTradeNo r = outTradeNo) (pd_orders db), db)) (\<lambda>res.
          case res of
            Inr [ord] \<Rightarrow> k (Inr ord)
          | _ \<Rightarrow> k (Inl (NotFound ''NOT_FOUND'' ''order not found''))))"

definition VerifyOrderByOutTradeNo :: "pay_service \<Rightarrow> string \<Rightarrow> int
  \<Rightarrow> (go_error + PaymentOrder \<Rightarrow> 'r pay_flow) \<Rightarrow> 'r pay_flow" where
  "VerifyOrderByOutTradeNo S raw userID k = lookupOutTradeNo raw (\<lambda>res. case res of
       Inl err \<Rightarrow> k (Inl err)
     | Inr ord \<Rightarrow>
         (if po_UserID ord \<noteq> userID then k (Inl (Forbidden ''FORBIDDEN'' ''no permission for this order''))
          else if po_Status ord \<in> {OrderStatusPending, OrderStatusExpired}
          then reconcilePaid S ord (\<lambda>result.
                 if result = checkPaidResultAlreadyPaid
                 then getOrder (po_ID ord) (\<lambda>r. k (case r of
                        Inl err \<Rightarrow> Inl (OtherError ''reload order'' (Some err)) | Inr o' \<Rightarrow> Inr o'))
                 else k (Inr ord))
          else k (Inr ord)))"

definition VerifyOrderPublic :: "string \<Rightarrow> (go_error + PaymentOrder \<Rightarrow> 'r pay_flow) \<Rightarrow> 'r pay_flow" where
  "VerifyOrderPublic raw k = lookupOutTradeNo raw k"

subsection \<open>The limit on cancellations\<close>

record cancel_limit =
  CancelRateLimitEnabled :: bool
  CancelRateLimitMax :: int
  CancelRateLimitWindow :: int
  CancelRateLimitUnit :: string
  CancelRateLimitMode :: string

definition minute :: int where "minute = 60 * 1000000000"

definition cancelRateLimitWindowStart :: "calendar \<Rightarrow> cancel_limit \<Rightarrow> int \<Rightarrow> int" where
  "cancelRateLimitWindowStart cal cfg now =
     (let w = (if CancelRateLimitWindow cfg \<le> 0 then 1 else CancelRateLimitWindow cfg);
          unit = (if CancelRateLimitUnit cfg = '''' then ''day'' else CancelRateLimitUnit cfg)
      in if CancelRateLimitMode cfg = ''fixed'' then
           (if unit = ''minute'' then now - now mod minute - (w - 1) * minute
            else if unit = ''day'' then add_days cal (start_of_day cal now) (- (w - 1))
            else now - now mod hour - (w - 1) * hour)
         else if unit = ''minute'' then now - w * minute
         else if unit = ''day'' then add_days cal now (- w)
         else now - w * hour)"

definition checkCancelRateLimit :: "calendar \<Rightarrow> int \<Rightarrow> cancel_limit \<Rightarrow> 'r then_error \<Rightarrow> 'r pay_flow" where
  "checkCancelRateLimit cal userID cfg k =
     (if \<not> CancelRateLimitEnabled cfg \<or> CancelRateLimitMax cfg \<le> 0 then k None
      else outside ev_now (\<lambda>now.
        let windowStart = cancelRateLimitWindowStart cal cfg now in
        dbCall (\<lambda>e db. (int (length (filter (\<lambda>l. al_Action l = ''ORDER_CANCELLED'' \<and>
              al_Operator l = userOperator userID \<and> windowStart \<le> al_CreatedAt l) (pd_audit db))), db))
          (\<lambda>res. case res of
              Inl err \<Rightarrow> k None
            | Inr count \<Rightarrow>
                (if count \<ge> CancelRateLimitMax cfg
                 then k (Some (WithMetadata (NewError 429 ''CANCEL_RATE_LIMITED'' ''cancel rate limited'')
                        (Some [''max'' \<mapsto> itoa (CancelRateLimitMax cfg), ''window'' \<mapsto> itoa (CancelRateLimitWindow cfg),
                               ''unit'' \<mapsto> CancelRateLimitUnit cfg])))
                 else k None))))"

end
