(* ===== verification/PaymentRefund.thy ===== *)
theory PaymentRefund
  imports PaymentLifecycle
begin

section \<open>Refunds\<close>

text \<open>
  \<open>service/payment_refund.go\<close>.  An administrator prepares a plan and executes it: the order is locked by its
  status, the credited balance or days are taken back, and the provider is asked to refund.  A
  refund that stays pending at the provider is finalised later.  The event \<open>GatewayRefund\<close> is a refund request
  that reached the provider.
\<close>

datatype DeductionType = DeductionTypeBalance | DeductionTypeSubscription | DeductionTypeNone

record RefundPlan =
  rp_OrderID :: int
  rp_Order :: PaymentOrder
  rp_RefundAmount :: rat
  rp_GatewayAmount :: rat
  rp_Reason :: string
  rp_Force :: bool
  rp_DeductBalance :: bool
  rp_DeductionType :: DeductionType
  rp_BalanceToDeduct :: rat
  rp_SubDaysToDeduct :: int
  rp_SubscriptionID :: int

record RefundResult =
  rf_Success :: bool
  rf_Warning :: string
  rf_RequireForce :: bool
  rf_BalanceDeducted :: rat
  rf_SubDaysDeducted :: int

type_synonym 'r then_refund = "go_error + RefundResult \<Rightarrow> 'r pay_flow"

definition refundWarning :: "string \<Rightarrow> RefundResult" where
  "refundWarning w = \<lparr>rf_Success = False, rf_Warning = w, rf_RequireForce = False, rf_BalanceDeducted = 0,
     rf_SubDaysDeducted = 0\<rparr>"

definition needForce :: "string \<Rightarrow> RefundResult" where
  "needForce w = (refundWarning w)\<lparr>rf_RequireForce := True\<rparr>"

definition refundable :: "OrderStatus \<Rightarrow> bool" where
  "refundable s \<longleftrightarrow> s \<in> {OrderStatusCompleted, OrderStatusRefundRequested, OrderStatusRefundPending, OrderStatusRefundFailed}"

definition getRefundOrderProviderInstance :: "PaymentOrder
  \<Rightarrow> (go_error + PaymentProviderInstance option \<Rightarrow> 'r pay_flow) \<Rightarrow> 'r pay_flow" where
  "getRefundOrderProviderInstance ord k =
     (case psOrderProviderSnapshot ord of
        Some snapshot \<Rightarrow> resolveSnapshotOrderProviderInstance ord snapshot k
      | None \<Rightarrow>
          (let instIDStr = trim_space (psStringValue (po_ProviderInstanceID ord)) in
           if instIDStr = '''' then k (Inr None)
           else case atoi instIDStr of
             None \<Rightarrow> k (Inl (OtherError ''refund provider instance id is invalid'' None))
           | Some instID \<Rightarrow> getInstance instID (\<lambda>r. k (case r of Inl err \<Rightarrow> Inl err | Inr inst \<Rightarrow> Inr (Some inst)))))"

subsection \<open>A user's request\<close>

definition validateRefundRequest :: "int \<Rightarrow> int \<Rightarrow> (go_error + PaymentOrder \<Rightarrow> 'r pay_flow) \<Rightarrow> 'r pay_flow" where
  "validateRefundRequest oid uid k = getOrder oid (\<lambda>res. case res of
       Inl _ \<Rightarrow> k (Inl (NotFound ''NOT_FOUND'' ''order not found''))
     | Inr ord \<Rightarrow>
         (if po_UserID ord \<noteq> uid then k (Inl (Forbidden ''FORBIDDEN'' ''no permission''))
          else if po_OrderType ord \<noteq> OrderTypeBalance
          then k (Inl (BadRequest ''INVALID_ORDER_TYPE'' ''only balance orders can request refund''))
          else if po_Status ord \<noteq> OrderStatusCompleted
          then k (Inl (BadRequest ''INVALID_STATUS'' ''only completed orders can request refund''))
          else getRefundOrderProviderInstance ord (\<lambda>ri. case ri of
              Inr (Some inst) \<Rightarrow>
                (if \<not> pi_AllowUserRefund inst
                 then k (Inl (Forbidden ''USER_REFUND_DISABLED'' ''user refund is not enabled for this provider''))
                 else k (Inr ord))
            | _ \<Rightarrow> k (Inl (Forbidden ''USER_REFUND_DISABLED'' ''refund is not available for this order'')))))"

definition RequestRefund :: "int \<Rightarrow> int \<Rightarrow> string \<Rightarrow> 'r then_error \<Rightarrow> 'r pay_flow" where
  "RequestRefund oid uid reason k = validateRefundRequest oid uid (\<lambda>res. case res of
       Inl err \<Rightarrow> k (Some err)
     | Inr ord \<Rightarrow> getUser (po_UserID ord) (\<lambda>ru. case ru of
           Inl err \<Rightarrow> k (wrapError ''get user'' err)
         | Inr u \<Rightarrow>
             (if u_Balance u < po_Amount ord
              then k (Some (BadRequest ''BALANCE_NOT_ENOUGH'' ''refund amount exceeds balance''))
              else outside ev_now (\<lambda>now.
                updateOrders (\<lambda>r. po_ID r = oid \<and> po_UserID r = uid \<and> po_Status r = OrderStatusCompleted \<and>
                    po_OrderType r = OrderTypeBalance)
                  (\<lambda>r. r\<lparr>po_Status := OrderStatusRefundRequested, po_RefundRequestedAt := Some now,
                     po_RefundRequestReason := Some (trim_space reason), po_RefundRequestedBy := Some (itoa uid),
                     po_RefundAmount := dec_round 2 (po_Amount ord)\<rparr>) (\<lambda>rc. case rc of
                      Inl err \<Rightarrow> k (wrapError ''update'' err)
                    | Inr c \<Rightarrow>
                        (if c = 0 then k (Some (Conflict ''CONFLICT'' ''order status changed''))
                         else writeAuditLog oid ''REFUND_REQUESTED'' (userOperator uid) (k None)))))))"

subsection \<open>The plan\<close>

definition prepDeduct :: "PaymentOrder \<Rightarrow> RefundPlan \<Rightarrow> bool \<Rightarrow> (RefundResult + RefundPlan \<Rightarrow> 'r pay_flow) \<Rightarrow> 'r pay_flow" where
  "prepDeduct ord p force k =
     (if po_OrderType ord = OrderTypeSubscription then
        (case (po_SubscriptionGroupID ord, po_SubscriptionDays ord) of
           (Some gid, Some days) \<Rightarrow>
             (let p1 = p\<lparr>rp_DeductionType := DeductionTypeSubscription, rp_SubDaysToDeduct := days\<rparr> in
              dbTry (\<lambda>e db. case repo_GetActiveByUserIDAndGroupID (ev_now e) (po_UserID ord) gid (pd_subs db) of
                   Inl err \<Rightarrow> Inl (subError err) | Inr sub \<Rightarrow> Inr (sub, db)) (\<lambda>rs. case rs of
                     Inr sub \<Rightarrow> k (Inr (p1\<lparr>rp_SubscriptionID := us_ID sub\<rparr>))
                   | Inl _ \<Rightarrow>
                       (if \<not> force then k (Inl (needForce ''cannot find active subscription for deduction, use force''))
                        else k (Inr p1))))
         | _ \<Rightarrow> k (Inr (p\<lparr>rp_DeductionType := DeductionTypeSubscription\<rparr>)))
      else getUser (po_UserID ord) (\<lambda>ru. case ru of
          Inl _ \<Rightarrow> (if \<not> force then k (Inl (needForce ''cannot fetch user balance, use force'')) else k (Inr p))
        | Inr u \<Rightarrow> k (Inr (p\<lparr>rp_DeductionType := DeductionTypeBalance,
            rp_BalanceToDeduct := min (rp_RefundAmount p) (u_Balance u)\<rparr>))))"

text \<open>The checks of \<open>PrepareRefund\<close> on the amount, and the plan before deductions.\<close>

definition refundPlan :: "PaymentOrder \<Rightarrow> go_float \<Rightarrow> string \<Rightarrow> bool \<Rightarrow> bool \<Rightarrow> go_error + RefundPlan" where
  "refundPlan ord amt0 reason force deduct =
     (case amt0 of
        NotFinite \<Rightarrow> Inl (BadRequest ''INVALID_AMOUNT'' ''invalid refund amount'')
      | Finite a \<Rightarrow>
          (let amt = (if a \<le> 0 then po_Amount ord else a);
               orderCurrency = PaymentOrderCurrency ord
           in if amt - po_Amount ord > paymentAmountToleranceForCurrency orderCurrency
              then Inl (BadRequest ''REFUND_AMOUNT_EXCEEDED'' ''refund amount exceeds recharge'')
              else let r1 = trim_space reason;
                       r2 = (if r1 = '''' then psStringValue (po_RefundRequestReason ord) else r1);
                       r3 = (if r2 = '''' then ''refund order:'' @ itoa (po_ID ord) else r2)
                   in Inr \<lparr>rp_OrderID = po_ID ord, rp_Order = ord, rp_RefundAmount = amt,
                        rp_GatewayAmount = calculateGatewayRefundAmount (po_Amount ord) (po_PayAmount ord) amt orderCurrency,
                        rp_Reason = r3, rp_Force = force, rp_DeductBalance = deduct,
                        rp_DeductionType = DeductionTypeNone, rp_BalanceToDeduct = 0, rp_SubDaysToDeduct = 0,
                        rp_SubscriptionID = 0\<rparr>))"

definition PrepareRefund :: "int \<Rightarrow> go_float \<Rightarrow> string \<Rightarrow> bool \<Rightarrow> bool
  \<Rightarrow> (go_error + RefundResult + RefundPlan \<Rightarrow> 'r pay_flow) \<Rightarrow> 'r pay_flow" where
  "PrepareRefund oid amt reason force deduct k = getOrder oid (\<lambda>res. case res of
       Inl _ \<Rightarrow> k (Inl (NotFound ''NOT_FOUND'' ''order not found''))
     | Inr ord \<Rightarrow>
         (if \<not> refundable (po_Status ord)
          then k (Inl (BadRequest ''INVALID_STATUS'' ''order status does not allow refund''))
          else getRefundOrderProviderInstance ord (\<lambda>ri. case ri of
              Inl _ \<Rightarrow> k (Inl (InternalServer ''PROVIDER_LOOKUP_FAILED'' ''failed to look up payment provider for this order''))
            | Inr None \<Rightarrow> k (Inl (Forbidden ''REFUND_DISABLED'' ''refund is not available for this order''))
            | Inr (Some inst) \<Rightarrow>
                (if \<not> pi_RefundEnabled inst
                 then k (Inl (Forbidden ''REFUND_DISABLED'' ''refund is not enabled for this provider''))
                 else case refundPlan ord amt reason force deduct of
                     Inl err \<Rightarrow> k (Inl err)
                   | Inr p \<Rightarrow> (if deduct then prepDeduct ord p force (\<lambda>r. k (Inr r)) else k (Inr (Inr p)))))))"

subsection \<open>Asking the provider to refund\<close>

definition validateRefundProviderResponse :: "RefundResponse option \<Rightarrow> go_error option" where
  "validateRefundProviderResponse resp =
     (case resp of
        None \<Rightarrow> Some (OtherError ''payment refund response missing'' None)
      | Some r \<Rightarrow>
          (let status = trim_space (rr_Status r) in
           if status \<in> {ProviderStatusSuccess, ProviderStatusRefunded, ProviderStatusPending} then None
           else if status = ProviderStatusFailed then Some (OtherError ''payment refund failed'' None)
           else Some (OtherError ''payment refund returned unknown status'' None)))"

definition getRefundProvider :: "PaymentOrder \<Rightarrow> (go_error + pay_provider \<Rightarrow> 'r pay_flow) \<Rightarrow> 'r pay_flow" where
  "getRefundProvider ord k = getRefundOrderProviderInstance ord (\<lambda>ri. case ri of
       Inl err \<Rightarrow> k (Inl err)
     | Inr None \<Rightarrow> k (Inl (OtherError ''refund provider instance is unavailable for order'' None))
     | Inr (Some inst) \<Rightarrow> outside ev_provider k)"

definition askRefund :: "RefundPlan \<Rightarrow> (RefundResponse option \<times> go_error option \<Rightarrow> 'r pay_flow) \<Rightarrow> 'r pay_flow" where
  "askRefund p = exec (\<lambda>e db. (ev_refund e, record_event (GatewayRefund (rp_OrderID p) (rp_GatewayAmount p)) db))"

definition gwRefund :: "RefundPlan \<Rightarrow> (go_error + RefundResponse \<Rightarrow> 'r pay_flow) \<Rightarrow> 'r pay_flow" where
  "gwRefund p k =
     (let ord = rp_Order p in
      if po_PaymentTradeNo ord = ''''
      then writeAuditLog (po_ID ord) ''REFUND_NO_TRADE_NO'' ''admin''
             (k (Inr \<lparr>rr_Status = ProviderStatusSuccess, rr_RefundID = ''''\<rparr>))
      else getRefundProvider ord (\<lambda>rp. case rp of
          Inl err \<Rightarrow> k (Inl (OtherError ''get refund provider'' (Some err)))
        | Inr prov \<Rightarrow> (case validateProviderSnapshotMetadata ord (pv_Key prov) (pv_Identity prov) of
              Some err \<Rightarrow> writeAuditLog (po_ID ord) ''REFUND_PROVIDER_METADATA_MISMATCH'' ''admin'' (k (Inl err))
            | None \<Rightarrow> askRefund p (\<lambda>(resp, err). case err of
                Some e \<Rightarrow> (case resp of
                    Some r \<Rightarrow> (if trim_space (rr_Status r) = ProviderStatusPending then k (Inr r) else k (Inl e))
                  | None \<Rightarrow> k (Inl e))
              | None \<Rightarrow> (case validateRefundProviderResponse resp of
                    Some e \<Rightarrow> k (Inl e)
                  | None \<Rightarrow> (case resp of Some r \<Rightarrow> k (Inr r) | None \<Rightarrow> k (Inl ErrNotFound)))))))"

subsection \<open>Taking back what was credited\<close>

definition restoreStatus :: "RefundPlan \<Rightarrow> 'r pay_flow \<Rightarrow> 'r pay_flow" where
  "restoreStatus p k = updateOneOrder (rp_OrderID p)
     (\<lambda>r. r\<lparr>po_Status := (if po_Status (rp_Order p) = OrderStatusRefundRequested
        then OrderStatusRefundRequested else OrderStatusCompleted)\<rparr>) (\<lambda>_. k)"

definition deductBalance :: "RefundPlan \<Rightarrow> (go_error + unit \<Rightarrow> 'r pay_flow) \<Rightarrow> 'r pay_flow" where
  "deductBalance p = dbTry (\<lambda>e db. thenTx (DeductBalance (po_UserID (rp_Order p)) (rp_BalanceToDeduct p) db) (\<lambda>_ db1.
     Inr ((), record_event (BalanceDeducted (rp_OrderID p) (rp_BalanceToDeduct p)) db1)))"

definition deductDays :: "calendar \<Rightarrow> RefundPlan \<Rightarrow> (go_error + unit \<Rightarrow> 'r pay_flow) \<Rightarrow> 'r pay_flow" where
  "deductDays cal p k = dbTry (\<lambda>e db. thenTx (onSubs (ExtendSubscription cal (ev_now e) (rp_SubscriptionID p)
       (- rp_SubDaysToDeduct p)) db) (\<lambda>_ db1. Inr ((), record_event (SubDaysDeducted (rp_OrderID p) (rp_SubDaysToDeduct p)) db1)))
     (\<lambda>res. case res of
          Inr u \<Rightarrow> k (Inr u)
        | Inl err \<Rightarrow>
            (if IsError err (subError AdjustWouldExpire)
             then dbTry (\<lambda>e db. onSubs (RevokeSubscription (ev_now e) (rp_SubscriptionID p)) db)
                    (\<lambda>r. k (case r of Inl e' \<Rightarrow> Inl (OtherError ''revoke subscription'' (Some e')) | Inr u \<Rightarrow> Inr u))
             else k (Inl (OtherError ''deduct subscription days'' (Some err)))))"

definition deductsBalance :: "RefundPlan \<Rightarrow> bool" where
  "deductsBalance p \<longleftrightarrow> rp_DeductionType p = DeductionTypeBalance \<and> rp_BalanceToDeduct p > 0"

definition deductsDays :: "RefundPlan \<Rightarrow> bool" where
  "deductsDays p \<longleftrightarrow> rp_DeductionType p = DeductionTypeSubscription \<and> rp_SubDaysToDeduct p > 0 \<and> rp_SubscriptionID p > 0"

text \<open>\<open>RollbackRefund\<close> goes on with whether everything was returned.\<close>

definition RollbackRefund :: "calendar \<Rightarrow> RefundPlan \<Rightarrow> (bool \<Rightarrow> 'r pay_flow) \<Rightarrow> 'r pay_flow" where
  "RollbackRefund cal p k =
     (let failed = writeAuditLog (rp_OrderID p) ''REFUND_ROLLBACK_FAILED'' ''admin'' (k False) in
      if deductsBalance p
      then dbTry (\<lambda>e db. thenTx (UpdateBalance (po_UserID (rp_Order p)) (rp_BalanceToDeduct p) db) (\<lambda>_ db1.
               Inr ((), record_event (BalanceReturned (rp_OrderID p) (rp_BalanceToDeduct p)) db1)))
             (\<lambda>res. case res of Inl _ \<Rightarrow> failed | Inr _ \<Rightarrow> k True)
      else if deductsDays p
      then dbTry (\<lambda>e db. onSubs (ExtendSubscription cal (ev_now e) (rp_SubscriptionID p) (rp_SubDaysToDeduct p)) db)
             (\<lambda>res. case res of Inl _ \<Rightarrow> failed | Inr _ \<Rightarrow> k True)
      else k True)"

subsection \<open>Outcomes\<close>

definition markRefundOk :: "RefundPlan \<Rightarrow> 'r then_refund \<Rightarrow> 'r pay_flow" where
  "markRefundOk p k = outside ev_now (\<lambda>now.
     updateOneOrder (rp_OrderID p) (\<lambda>r. r\<lparr>po_Status := (if rp_RefundAmount p < po_Amount (rp_Order p)
          then OrderStatusPartiallyRefunded else OrderStatusRefunded),
        po_RefundAmount := dec_round 2 (rp_RefundAmount p), po_RefundReason := Some (rp_Reason p),
        po_RefundAt := Some now, po_ForceRefund := rp_Force p\<rparr>) (\<lambda>res. case res of
          Inl err \<Rightarrow> k (Inl (OtherError ''mark refund'' (Some err)))
        | Inr _ \<Rightarrow> writeAuditLog (rp_OrderID p) ''REFUND_SUCCESS'' ''admin'' (k (Inr
            \<lparr>rf_Success = True, rf_Warning = '''', rf_RequireForce = False,
             rf_BalanceDeducted = rp_BalanceToDeduct p, rf_SubDaysDeducted = rp_SubDaysToDeduct p\<rparr>))))"

definition markRefundPending :: "calendar \<Rightarrow> RefundPlan \<Rightarrow> RefundResponse \<Rightarrow> 'r then_refund \<Rightarrow> 'r pay_flow" where
  "markRefundPending cal p resp k = RollbackRefund cal p (\<lambda>rollbackOK.
     updateOneOrder (rp_OrderID p) (\<lambda>r. r\<lparr>po_Status := OrderStatusRefundPending,
        po_RefundAmount := dec_round 2 (rp_RefundAmount p), po_RefundReason := Some (rp_Reason p), po_RefundAt := None,
        po_ForceRefund := rp_Force p, po_FailedAt := None, po_FailedReason := None\<rparr>) (\<lambda>res. case res of
          Inl err \<Rightarrow> k (Inl (OtherError ''mark refund pending'' (Some err)))
        | Inr _ \<Rightarrow> writeAuditDetail (rp_OrderID p) ''REFUND_PENDING'' ''admin'' (trim_space (rr_RefundID resp)) rollbackOK
            (k (Inr (refundWarning (''gateway refund is pending confirmation'' @
               (if rollbackOK then '''' else ''; refund deduction rollback failed'')))))))"

definition failOrder :: "int \<Rightarrow> go_error \<Rightarrow> 'r pay_flow \<Rightarrow> 'r pay_flow" where
  "failOrder oid gErr k = outside ev_now (\<lambda>now.
     updateOneOrder oid (\<lambda>r. r\<lparr>po_Status := OrderStatusRefundFailed, po_FailedAt := Some now, po_FailedReason := Some gErr\<rparr>)
       (\<lambda>_. writeAuditLog oid ''REFUND_FAILED'' ''admin'' k))"

definition handleGwFail :: "calendar \<Rightarrow> RefundPlan \<Rightarrow> go_error \<Rightarrow> 'r then_refund \<Rightarrow> 'r pay_flow" where
  "handleGwFail cal p gErr k = RollbackRefund cal p (\<lambda>rolledBack.
     if rolledBack
     then restoreStatus p (writeAuditLog (rp_OrderID p) ''REFUND_GATEWAY_FAILED'' ''admin''
            (k (Inr (refundWarning ''gateway failed, rolled back''))))
     else failOrder (rp_OrderID p) gErr (k (Inl (InternalServer ''REFUND_FAILED'' ''gateway refund failed''))))"

definition finishRefund :: "calendar \<Rightarrow> RefundPlan \<Rightarrow> RefundResponse \<Rightarrow> 'r then_refund \<Rightarrow> 'r pay_flow" where
  "finishRefund cal p resp k =
     (case validateRefundProviderResponse (Some resp) of
        Some err \<Rightarrow> handleGwFail cal p err k
      | None \<Rightarrow> (if trim_space (rr_Status resp) = ProviderStatusPending then markRefundPending cal p resp k
                 else markRefundOk p k))"

subsection \<open>Executing a plan\<close>

text \<open>The deductions, which a plan skips when an earlier attempt's could not be returned.\<close>

definition deductForRefund :: "calendar \<Rightarrow> RefundPlan \<Rightarrow> (go_error + RefundPlan \<Rightarrow> 'r pay_flow) \<Rightarrow> 'r pay_flow" where
  "deductForRefund cal p k =
     (if deductsBalance p then hasAuditLog (rp_OrderID p) ''REFUND_ROLLBACK_FAILED'' (\<lambda>skip.
        if skip then k (Inr (p\<lparr>rp_BalanceToDeduct := 0\<rparr>))
        else deductBalance p (\<lambda>res. case res of
            Inl err \<Rightarrow> restoreStatus p (k (Inl (OtherError ''deduction'' (Some err))))
          | Inr _ \<Rightarrow> k (Inr p)))
      else if deductsDays p then hasAuditLog (rp_OrderID p) ''REFUND_ROLLBACK_FAILED'' (\<lambda>skip.
        if skip then k (Inr (p\<lparr>rp_SubDaysToDeduct := 0\<rparr>))
        else deductDays cal p (\<lambda>res. case res of
            Inl err \<Rightarrow> restoreStatus p (k (Inl err))
          | Inr _ \<Rightarrow> k (Inr p)))
      else k (Inr p))"

definition ExecuteRefund :: "calendar \<Rightarrow> RefundPlan \<Rightarrow> 'r then_refund \<Rightarrow> 'r pay_flow" where
  "ExecuteRefund cal p k = updateOrders (\<lambda>r. po_ID r = rp_OrderID p \<and> refundable (po_Status r))
     (\<lambda>r. r\<lparr>po_Status := OrderStatusRefunding\<rparr>) (\<lambda>rc. case rc of
       Inl err \<Rightarrow> k (Inl (OtherError ''lock'' (Some err)))
     | Inr c \<Rightarrow>
         (if c = 0 then k (Inl (Conflict ''CONFLICT'' ''order status changed''))
          else deductForRefund cal p (\<lambda>rd. case rd of
              Inl err \<Rightarrow> k (Inl err)
            | Inr p1 \<Rightarrow> gwRefund p1 (\<lambda>rg. case rg of
                Inl err \<Rightarrow> handleGwFail cal p1 err k
              | Inr resp \<Rightarrow> finishRefund cal p1 resp k))))"

subsection \<open>Finalising a pending refund\<close>

definition latestRefundPendingDetail :: "int \<Rightarrow> (string \<times> bool \<Rightarrow> 'r pay_flow) \<Rightarrow> 'r pay_flow" where
  "latestRefundPendingDetail oid k = dbCall
     (\<lambda>e db. (rev (sort_key al_CreatedAt
         (filter (\<lambda>l. al_OrderID l = oid \<and> al_Action l = ''REFUND_PENDING'') (pd_audit db))), db))
     (\<lambda>res. k (case res of Inr (l # _) \<Rightarrow> (trim_space (al_RefundID l), al_RollbackOK l) | _ \<Rightarrow> ('''', True)))"

definition refundFinalizePlan :: "PaymentOrder \<Rightarrow> RefundPlan" where
  "refundFinalizePlan ord =
     (let reason0 = trim_space (psStringValue (po_RefundReason ord)) in
      \<lparr>rp_OrderID = po_ID ord, rp_Order = ord, rp_RefundAmount = po_RefundAmount ord,
       rp_GatewayAmount = calculateGatewayRefundAmount (po_Amount ord) (po_PayAmount ord) (po_RefundAmount ord)
         (PaymentOrderCurrency ord),
       rp_Reason = (if reason0 = '''' then ''refund order:'' @ itoa (po_ID ord) else reason0),
       rp_Force = po_ForceRefund ord, rp_DeductBalance = True, rp_DeductionType = DeductionTypeBalance,
       rp_BalanceToDeduct = (if po_OrderType ord = OrderTypeBalance then po_RefundAmount ord else 0),
       rp_SubDaysToDeduct = 0, rp_SubscriptionID = 0\<rparr>)"

definition applyRefundFinalDeduction :: "calendar \<Rightarrow> RefundPlan \<Rightarrow> (go_error + RefundPlan \<Rightarrow> 'r pay_flow) \<Rightarrow> 'r pay_flow" where
  "applyRefundFinalDeduction cal p k = hasAuditLog (rp_OrderID p) ''REFUND_SUCCESS'' (\<lambda>done0.
     if done0 then k (Inr (p\<lparr>rp_BalanceToDeduct := 0, rp_SubDaysToDeduct := 0\<rparr>))
     else if deductsBalance p then deductBalance p (\<lambda>res. case res of
         Inl err \<Rightarrow> k (Inl (OtherError ''deduction'' (Some err)))
       | Inr _ \<Rightarrow> k (Inr p))
     else if deductsDays p then deductDays cal p (\<lambda>res. case res of Inl err \<Rightarrow> k (Inl err) | Inr _ \<Rightarrow> k (Inr p))
     else k (Inr p))"

definition finalizeRefundFailed :: "PaymentOrder \<Rightarrow> go_error \<Rightarrow> 'r then_refund \<Rightarrow> 'r pay_flow" where
  "finalizeRefundFailed ord gErr k = failOrder (po_ID ord) gErr (k (Inr (refundWarning ''gateway refund failed'')))"

definition finalizeWith :: "calendar \<Rightarrow> PaymentOrder \<Rightarrow> RefundPlan \<Rightarrow> RefundResponse \<Rightarrow> 'r then_refund \<Rightarrow> 'r pay_flow" where
  "finalizeWith cal ord plan resp k =
     (if trim_space (rr_Status resp) = ProviderStatusPending
      then writeAuditLog (po_ID ord) ''REFUND_QUERY_PENDING'' ''admin''
             (k (Inr (refundWarning ''gateway refund is still pending confirmation'')))
      else applyRefundFinalDeduction cal plan (\<lambda>res. case res of
          Inl err \<Rightarrow> k (Inl err)
        | Inr plan1 \<Rightarrow> markRefundOk plan1 k))"

definition QueryAndFinalizeRefund :: "calendar \<Rightarrow> int \<Rightarrow> 'r then_refund \<Rightarrow> 'r pay_flow" where
  "QueryAndFinalizeRefund cal oid k = getOrder oid (\<lambda>res. case res of
       Inl _ \<Rightarrow> k (Inl (NotFound ''NOT_FOUND'' ''order not found''))
     | Inr ord \<Rightarrow>
         (if po_Status ord \<noteq> OrderStatusRefundPending
          then k (Inl (BadRequest ''INVALID_STATUS'' ''only refund pending orders can be finalized''))
          else getRefundProvider ord (\<lambda>rp. case rp of
              Inl err \<Rightarrow> k (Inl (OtherError ''get refund provider'' (Some err)))
            | Inr prov \<Rightarrow>
                (if \<not> pv_CanQueryRefund prov
                 then k (Inl (BadRequest ''REFUND_QUERY_UNSUPPORTED'' ''this payment provider does not support refund status query; please verify manually''))
                 else latestRefundPendingDetail oid (\<lambda>(refundID, rollbackOK).
                   outside ev_queryRefund (\<lambda>rq. case rq of
                       Inl err \<Rightarrow> k (Inl (OtherError ''query refund'' (Some err)))
                     | Inr resp \<Rightarrow> (case validateRefundProviderResponse resp of
                           Some err \<Rightarrow> finalizeRefundFailed ord err k
                         | None \<Rightarrow>
                             (let r = (case resp of Some r \<Rightarrow> r | None \<Rightarrow> \<lparr>rr_Status = '''', rr_RefundID = ''''\<rparr>);
                                  plan = refundFinalizePlan ord
                              in if \<not> rollbackOK
                                 then finalizeWith cal ord (plan\<lparr>rp_BalanceToDeduct := 0, rp_SubDaysToDeduct := 0\<rparr>) r k
                                 else if po_OrderType ord = OrderTypeSubscription
                                 then prepDeduct ord plan True (\<lambda>rd. case rd of
                                     Inl early \<Rightarrow> k (Inr early)
                                   | Inr plan1 \<Rightarrow> finalizeWith cal ord plan1 r k)
                                 else finalizeWith cal ord plan r k))))))))"

end
