(* ===== verification/PaymentInvariant.thy ===== *)
theory PaymentInvariant
  imports PaymentRefund
begin

section \<open>What every payment handler keeps\<close>

text \<open>
  Any number of notifications, retries, cancellations, refunds and redemptions run at the same time.
  The invariant \<open>pay_ok\<close> says that a code was credited at most once, and only if it is marked used; that
  an order that counts as fulfilled has its recharge code used; that at most one rebate was accrued for
  an order; and that the provider was asked to refund fulfilled orders only.  Between two
  actions of a handler, others may do what \<open>pay_rel\<close> allows: create codes and mark them used, and change
  orders but not what they are for.
\<close>

definition used :: "string \<Rightarrow> pay_db \<Rightarrow> bool" where
  "used c db \<longleftrightarrow> (\<exists>r \<in> set (pd_codes db). rc_Code r = c \<and> rc_Status r = StatusUsed)"

fun creditOf :: "string \<Rightarrow> pay_event \<Rightarrow> bool" where
  "creditOf c (Credited c' u a) = (c = c')"
| "creditOf c _ = False"

fun rebateOf :: "int \<Rightarrow> pay_event \<Rightarrow> bool" where
  "rebateOf i (RebateAccrued j a) = (i = j)"
| "rebateOf i _ = False"

definition credits :: "string \<Rightarrow> pay_db \<Rightarrow> nat" where
  "credits c db = length (filter (creditOf c) (pd_log db))"

definition rebates :: "int \<Rightarrow> pay_db \<Rightarrow> nat" where
  "rebates i db = length (filter (rebateOf i) (pd_log db))"

text \<open>What an order is for.\<close>

definition core :: "PaymentOrder \<Rightarrow> int \<times> int \<times> rat \<times> string \<times> string" where
  "core r = (po_ID r, po_UserID r, po_Amount r, po_RechargeCode r, po_OrderType r)"

definition fulfilled :: "OrderStatus \<Rightarrow> bool" where
  "fulfilled s \<longleftrightarrow> s = OrderStatusCompleted \<or> psIsRefundStatus s"

definition credited :: "PaymentOrder \<Rightarrow> pay_db \<Rightarrow> bool" where
  "credited r db \<longleftrightarrow> po_OrderType r = OrderTypeSubscription \<or> used (po_RechargeCode r) db"

definition codes_ok :: "pay_db \<Rightarrow> bool" where
  "codes_ok db \<longleftrightarrow> distinct (map rc_ID (pd_codes db)) \<and> distinct (map rc_Code (pd_codes db)) \<and>
     (\<forall>r \<in> set (pd_codes db). rc_ID r < pd_nextCodeID db)"

definition log_ok :: "pay_db \<Rightarrow> bool" where
  "log_ok db \<longleftrightarrow> (\<forall>c. credits c db \<le> 1 \<and> (credits c db \<noteq> 0 \<longrightarrow> used c db)) \<and>
     (\<forall>i. rebates i db \<le> 1 \<and> (rebates i db \<noteq> 0 \<longrightarrow> logged i ''AFFILIATE_REBATE_APPLIED'' db)) \<and>
     (\<forall>i a. GatewayRefund i a \<in> set (pd_log db) \<longrightarrow> (\<exists>r \<in> set (pd_orders db). po_ID r = i \<and> credited r db))"

definition orders_ok :: "pay_db \<Rightarrow> bool" where
  "orders_ok db \<longleftrightarrow> distinct (map po_ID (pd_orders db)) \<and>
     (\<forall>r \<in> set (pd_orders db). fulfilled (po_Status r) \<longrightarrow> credited r db)"

definition pay_ok :: "pay_db \<Rightarrow> bool" where
  "pay_ok db \<longleftrightarrow> codes_ok db \<and> log_ok db \<and> orders_ok db"

definition pay_rel :: "pay_db \<Rightarrow> pay_db \<Rightarrow> bool" where
  "pay_rel db db' \<longleftrightarrow> (\<forall>c. used c db \<longrightarrow> used c db') \<and>
     (\<forall>r \<in> set (pd_orders db). \<exists>r' \<in> set (pd_orders db'). core r' = core r) \<and>
     pd_nextCodeID db \<le> pd_nextCodeID db' \<and>
     (\<forall>r' \<in> set (pd_codes db'). rc_ID r' < pd_nextCodeID db \<longrightarrow>
        (\<exists>r \<in> set (pd_codes db). rc_ID r = rc_ID r' \<and> rc_Code r = rc_Code r'))"

abbreviation pay_keeps :: "(pay_db \<Rightarrow> bool) \<Rightarrow> 'r pay_flow \<Rightarrow> bool" where
  "pay_keeps \<equiv> keeps pay_ok pay_rel"

abbreviation pay_stable :: "(pay_db \<Rightarrow> bool) \<Rightarrow> bool" where
  "pay_stable \<equiv> Interleaving.stable pay_rel"

text \<open>What a handler knows of an order it has read.\<close>

definition sees :: "PaymentOrder \<Rightarrow> pay_db \<Rightarrow> bool" where
  "sees ord db \<longleftrightarrow> (\<exists>r \<in> set (pd_orders db). core r = core ord) \<and>
     (fulfilled (po_Status ord) \<longrightarrow> credited ord db)"

text \<open>The code with id \<open>i\<close> is, if it exists, \<open>c\<close>.\<close>

definition names :: "int \<Rightarrow> string \<Rightarrow> pay_db \<Rightarrow> bool" where
  "names i c db \<longleftrightarrow> i < pd_nextCodeID db \<and> (\<forall>r \<in> set (pd_codes db). rc_ID r = i \<longrightarrow> rc_Code r = c)"

lemma stable_names [intro]: "pay_stable (names i c)"
  unfolding Interleaving.stable_def names_def pay_rel_def by fastforce

lemma pay_rel_refl [simp]: "pay_rel db db"
  by (auto simp: pay_rel_def)

lemma pay_rel_trans: "pay_rel db db1 \<Longrightarrow> pay_rel db1 db2 \<Longrightarrow> pay_rel db db2"
proof -
  assume a: "pay_rel db db1" "pay_rel db1 db2"
  have "\<exists>r \<in> set (pd_codes db). rc_ID r = rc_ID r2 \<and> rc_Code r = rc_Code r2"
    if r2: "r2 \<in> set (pd_codes db2)" "rc_ID r2 < pd_nextCodeID db" for r2
  proof -
    have "rc_ID r2 < pd_nextCodeID db1" using a(1) r2(2) by (auto simp: pay_rel_def)
    then obtain r1 where r1: "r1 \<in> set (pd_codes db1)" "rc_ID r1 = rc_ID r2" "rc_Code r1 = rc_Code r2"
      using a(2) r2(1) unfolding pay_rel_def by metis
    then have "rc_ID r1 < pd_nextCodeID db" using r2(2) by simp
    with a(1) r1(1) have "\<exists>r \<in> set (pd_codes db). rc_ID r = rc_ID r1 \<and> rc_Code r = rc_Code r1"
      unfolding pay_rel_def by metis
    with r1(2,3) show ?thesis by simp
  qed
  moreover have "\<exists>r2 \<in> set (pd_orders db2). core r2 = core r" if "r \<in> set (pd_orders db)" for r
    using a that unfolding pay_rel_def by metis
  ultimately show ?thesis using a by (auto simp: pay_rel_def)
qed

lemma pay_rel_same:
  "pd_codes db' = pd_codes db \<Longrightarrow> pd_nextCodeID db' = pd_nextCodeID db \<Longrightarrow> pd_orders db' = pd_orders db \<Longrightarrow> pay_rel db db'"
  by (auto simp: pay_rel_def used_def)

lemma used_same: "pd_codes db' = pd_codes db \<Longrightarrow> used c db' = used c db"
  by (simp add: used_def)

lemma stable_used [intro]: "pay_stable (used c)"
  by (auto simp: Interleaving.stable_def pay_rel_def)

lemma stable_credited [intro]: "pay_stable (credited ord)"
  by (auto simp: Interleaving.stable_def pay_rel_def credited_def)

lemma stable_sees [intro]: "pay_stable (sees ord)"
  by (force simp: Interleaving.stable_def pay_rel_def credited_def sees_def)

lemma core_credited: "core r = core ord \<Longrightarrow> credited r db = credited ord db"
  by (auto simp: core_def credited_def)

lemma sees_row: "sees ord db \<Longrightarrow> pay_ok db \<Longrightarrow> r \<in> set (pd_orders db) \<Longrightarrow> po_ID r = po_ID ord \<Longrightarrow> core r = core ord"
proof -
  assume a: "sees ord db" "pay_ok db" "r \<in> set (pd_orders db)" "po_ID r = po_ID ord"
  then obtain r' where r': "r' \<in> set (pd_orders db)" "core r' = core ord" by (auto simp: sees_def)
  then have "po_ID r' = po_ID r" using a(4) by (simp add: core_def)
  with a r' have "r' = r" by (auto simp: pay_ok_def orders_ok_def distinct_map inj_on_def)
  with r' show ?thesis by simp
qed

subsection \<open>Rules for actions\<close>

lemma keeps_dbCall:
  assumes "\<And>e db x db'. pay_ok db \<Longrightarrow> A db \<Longrightarrow> op e db = (x, db') \<Longrightarrow> pay_ok db' \<and> pay_rel db db' \<and> Q x db'"
    and "pay_stable A" and "\<And>x. pay_stable (Q x)"
    and "\<And>x. pay_keeps (\<lambda>db. A db \<and> Q x db) (k (Inr x))" and "\<And>err. pay_keeps A (k (Inl err))"
  shows "pay_keeps A (dbCall op k)"
  unfolding dbCall_def
proof (rule keeps_exec [where Q = "\<lambda>x db. case x of Inl err \<Rightarrow> True | Inr y \<Rightarrow> Q y db"])
  fix e db x db'
  assume a: "pay_ok db" "A db" and f: "faulty (ev_fault e) (op e) db = (x, db')"
  obtain y d where op: "op e db = (y, d)" by (cases "op e db")
  have s: "pay_ok d \<and> pay_rel db d \<and> Q y d" using assms(1) [OF a op] .
  then have "A d" using a(2) assms(2) by (auto simp: Interleaving.stable_def)
  with a s op f show "pay_ok db' \<and> pay_rel db db' \<and> A db' \<and> (case x of Inl err \<Rightarrow> True | Inr y \<Rightarrow> Q y db')"
    by (cases "ev_fault e") (auto simp: faulty_def)
next
  show "pay_keeps (\<lambda>db. A db \<and> (case x of Inl err \<Rightarrow> True | Inr y \<Rightarrow> Q y db)) (k x)" for x
    using assms(4,5) by (cases x) simp_all
  show "pay_stable (\<lambda>db. case x of Inl err \<Rightarrow> True | Inr y \<Rightarrow> Q y db)" for x
    using assms(3) by (cases x) simp_all
qed (rule assms(2))

lemma keeps_dbTry:
  assumes "\<And>e db x db'. pay_ok db \<Longrightarrow> A db \<Longrightarrow> op e db = Inr (x, db') \<Longrightarrow> pay_ok db' \<and> pay_rel db db' \<and> Q x db'"
    and "pay_stable A" and "\<And>x. pay_stable (Q x)"
    and "\<And>x. pay_keeps (\<lambda>db. A db \<and> Q x db) (k (Inr x))" and "\<And>err. pay_keeps A (k (Inl err))"
  shows "pay_keeps A (dbTry op k)"
  unfolding dbTry_def
proof (rule keeps_dbCall [where Q = "\<lambda>x db. case x of Inl err \<Rightarrow> True | Inr y \<Rightarrow> Q y db"])
  fix e db x db'
  assume "pay_ok db" "A db" and f: "(case op e db of Inl err \<Rightarrow> (Inl err, db) | Inr (x, d) \<Rightarrow> (Inr x, d)) = (x, db')"
  with assms(1) [of db e] show "pay_ok db' \<and> pay_rel db db' \<and> (case x of Inl err \<Rightarrow> True | Inr y \<Rightarrow> Q y db')"
    by (auto split: sum.splits prod.splits)
next
  show "pay_keeps (\<lambda>db. A db \<and> (case x of Inl err \<Rightarrow> True | Inr y \<Rightarrow> Q y db)) (k (case Inr x of Inl err \<Rightarrow> Inl err | Inr r \<Rightarrow> r))" for x
    using assms(4,5) by (cases x) simp_all
  show "pay_stable (\<lambda>db. case x of Inl err \<Rightarrow> True | Inr y \<Rightarrow> Q y db)" for x
    using assms(3) by (cases x) simp_all
qed (use assms(2,5) in simp_all)

lemma keeps_outside:
  assumes "pay_stable A" and "\<And>x. pay_keeps A (k x)"
  shows "pay_keeps A (outside f k)"
  unfolding outside_def
  by (rule keeps_exec [where Q = "\<lambda>_ _. True"]) (use assms in auto)

text \<open>An action that learns nothing.\<close>

lemma keeps_dbTry_blind:
  assumes "\<And>e db x db'. pay_ok db \<Longrightarrow> A db \<Longrightarrow> op e db = Inr (x, db') \<Longrightarrow> pay_ok db' \<and> pay_rel db db'"
    and "pay_stable A" and "\<And>r. pay_keeps A (k r)"
  shows "pay_keeps A (dbTry op k)"
  by (rule keeps_dbTry [where Q = "\<lambda>_ _. True"]) (use assms in auto)

lemma keeps_dbCall_blind:
  assumes "\<And>e db x db'. pay_ok db \<Longrightarrow> A db \<Longrightarrow> op e db = (x, db') \<Longrightarrow> pay_ok db' \<and> pay_rel db db'"
    and "pay_stable A" and "\<And>r. pay_keeps A (k r)"
  shows "pay_keeps A (dbCall op k)"
  by (rule keeps_dbCall [where Q = "\<lambda>_ _. True"]) (use assms in auto)

subsection \<open>Statements\<close>

definition quiet :: "pay_event \<Rightarrow> bool" where
  "quiet ev = (case ev of Credited c u a \<Rightarrow> False | RebateAccrued i a \<Rightarrow> False | GatewayRefund i a \<Rightarrow> False | _ \<Rightarrow> True)"

lemma quiet_simps [simp]:
  "\<not> quiet (Credited c u a)" "\<not> quiet (RebateAccrued i a)" "\<not> quiet (GatewayRefund i a)"
  "quiet (SubAssigned i u g d)" "quiet (BalanceDeducted i a)" "quiet (BalanceReturned i a)" "quiet (SubDaysDeducted i n)"
  by (simp_all add: quiet_def)

lemma quiet_not: "quiet ev \<Longrightarrow> \<not> creditOf c ev \<and> \<not> rebateOf i ev \<and> ev \<noteq> GatewayRefund j a"
  by (cases ev) (simp_all add: quiet_def)

lemma pay_ok_frame:
  assumes "pay_ok db" and "pd_codes db' = pd_codes db" and "pd_nextCodeID db' = pd_nextCodeID db"
    and "pd_orders db' = pd_orders db" and "set (pd_audit db) \<subseteq> set (pd_audit db')"
    and "pd_log db' = pd_log db \<or> (\<exists>ev. quiet ev \<and> pd_log db' = pd_log db @ [ev])"
  shows "pay_ok db'" and "pay_rel db db'"
proof -
  have l: "credits c db' = credits c db" "rebates i db' = rebates i db"
    "GatewayRefund i a \<in> set (pd_log db') \<longleftrightarrow> GatewayRefund i a \<in> set (pd_log db)" for c i a
    using assms(6) quiet_not by (auto simp: credits_def rebates_def)
  have "logged i act db \<Longrightarrow> logged i act db'" for i act using assms(5) by (auto simp: logged_def list_ex_iff)
  then show "pay_ok db'" using assms(1-4) l
    by (simp add: pay_ok_def codes_ok_def orders_ok_def log_ok_def used_def credited_def)
  show "pay_rel db db'" using assms(2-4) by (rule pay_rel_same)
qed

lemma setUser_frame:
  "setUser i f db = Inr (x, db') \<Longrightarrow> pd_codes db' = pd_codes db \<and> pd_nextCodeID db' = pd_nextCodeID db \<and>
     pd_orders db' = pd_orders db \<and> pd_audit db' = pd_audit db \<and> pd_log db' = pd_log db"
  by (auto simp: setUser_def split: option.splits)

lemma onSubs_frame:
  "onSubs f db = Inr (x, db') \<Longrightarrow> pd_codes db' = pd_codes db \<and> pd_nextCodeID db' = pd_nextCodeID db \<and>
     pd_orders db' = pd_orders db \<and> pd_audit db' = pd_audit db \<and> pd_log db' = pd_log db"
  by (auto simp: onSubs_def split: sum.splits prod.splits)

lemma thenTx_Inr: "thenTx r g = Inr y \<longleftrightarrow> (\<exists>x db. r = Inr (x, db) \<and> g x db = Inr y)"
  by (cases r) (auto simp: thenTx_def)

text \<open>An update of orders keeps what they are for, and fulfils only what is credited.\<close>

lemma setOrders_ok:
  assumes "pay_ok db" and "\<And>r. core (f r) = core r"
    and "\<And>r. r \<in> set (pd_orders db) \<Longrightarrow> p r \<Longrightarrow> fulfilled (po_Status (f r)) \<Longrightarrow> credited r db"
  shows "pay_ok (setOrders now p f db) \<and> pay_rel db (setOrders now p f db)"
proof -
  let ?g = "\<lambda>r. if p r then (f r)\<lparr>po_UpdatedAt := now\<rparr> else r"
  have core: "core (?g r) = core r" for r using assms(2) [of r] by (simp add: core_def)
  have id: "po_ID (?g r) = po_ID r" for r using core [of r] by (simp add: core_def)
  have ords: "pd_orders (setOrders now p f db) = map ?g (pd_orders db)" by (simp add: setOrders_def)
  have cr: "credited (?g r) (setOrders now p f db) = credited r db" for r
    using core_credited [OF core, of r "setOrders now p f db"] by (simp add: credited_def used_def setOrders_def)
  have ids: "map po_ID (map ?g (pd_orders db)) = map po_ID (pd_orders db)"
    unfolding map_map by (rule map_cong) (simp_all only: comp_def id)
  have "distinct (map po_ID (pd_orders (setOrders now p f db)))"
    using assms(1) unfolding ords ids by (simp add: pay_ok_def orders_ok_def)
  moreover have "\<forall>r \<in> set (pd_orders (setOrders now p f db)). fulfilled (po_Status r) \<longrightarrow> credited r (setOrders now p f db)"
  proof -
    have "credited (?g r) (setOrders now p f db)" if "r \<in> set (pd_orders db)" "fulfilled (po_Status (?g r))" for r
      using assms(1) assms(3) [of r] that unfolding cr by (cases "p r") (auto simp: pay_ok_def orders_ok_def)
    then show ?thesis by (simp only: ords set_map ball_simps) blast
  qed
  moreover have "\<exists>r \<in> set (pd_orders (setOrders now p f db)). po_ID r = i \<and> credited r (setOrders now p f db)"
    if gr: "GatewayRefund i a \<in> set (pd_log db)" for i a
  proof -
    obtain r where r: "r \<in> set (pd_orders db)" "po_ID r = i" "credited r db"
      using assms(1) gr by (auto simp: pay_ok_def log_ok_def)
    have "?g r \<in> set (pd_orders (setOrders now p f db))" using r(1) unfolding ords set_map by (rule imageI)
    moreover have "po_ID (?g r) = i" "credited (?g r) (setOrders now p f db)" using r(2,3) by (simp_all only: id cr)
    ultimately show ?thesis by blast
  qed
  moreover have "codes_ok (setOrders now p f db)" "credits c (setOrders now p f db) = credits c db"
    "rebates i (setOrders now p f db) = rebates i db" "used c (setOrders now p f db) = used c db"
    "logged i act (setOrders now p f db) = logged i act db" "pd_log (setOrders now p f db) = pd_log db" for c i act
    using assms(1) by (auto simp: setOrders_def pay_ok_def codes_ok_def credits_def rebates_def used_def logged_def)
  moreover have "log_ok db" using assms(1) by (simp add: pay_ok_def)
  ultimately have "pay_ok (setOrders now p f db)" by (auto simp: pay_ok_def orders_ok_def log_ok_def)
  moreover have "pay_rel db (setOrders now p f db)"
    unfolding pay_rel_def ords set_map
  proof (intro conjI allI ballI impI)
    fix r
    assume "r \<in> set (pd_orders db)"
    then show "\<exists>r' \<in> ?g ` set (pd_orders db). core r' = core r" using core [of r] by blast
  qed (auto simp: setOrders_def used_def)
  ultimately show ?thesis by simp
qed

lemma insertAudit_ok: "pay_ok db \<Longrightarrow> insertAudit l db = Inr (x, db') \<Longrightarrow> pay_ok db' \<and> pay_rel db db'"
  by (auto simp: insertAudit_def split: if_splits intro!: pay_ok_frame [of db] pay_rel_same)

text \<open>A change of codes that keeps used codes.\<close>

lemma pay_ok_codes:
  assumes "pay_ok db" and "codes_ok db'" and u: "\<And>c. used c db \<Longrightarrow> used c db'"
    and "pd_orders db' = pd_orders db" and "pd_audit db' = pd_audit db" and "pd_log db' = pd_log db"
    and n: "pd_nextCodeID db \<le> pd_nextCodeID db'"
      "\<And>r'. r' \<in> set (pd_codes db') \<Longrightarrow> rc_ID r' < pd_nextCodeID db \<Longrightarrow>
        \<exists>r \<in> set (pd_codes db). rc_ID r = rc_ID r' \<and> rc_Code r = rc_Code r'"
  shows "pay_ok db'" and "pay_rel db db'"
proof -
  have cr: "credited r db \<Longrightarrow> credited r db'" for r using u by (auto simp: credited_def)
  have l: "log_ok db" and oo: "orders_ok db" using assms(1) by (simp_all add: pay_ok_def)
  have same: "credits c db' = credits c db" "rebates i db' = rebates i db" "logged i act db' = logged i act db" for c i act
    using assms(5,6) by (simp_all add: credits_def rebates_def logged_def)
  have "log_ok db'" unfolding log_ok_def same assms(4,6)
    using l u cr unfolding log_ok_def by blast
  moreover have "orders_ok db'" using oo cr unfolding orders_ok_def assms(4) by blast
  ultimately show "pay_ok db'" using assms(2) by (simp add: pay_ok_def)
  show "pay_rel db db'" using u n unfolding pay_rel_def assms(4) by blast
qed

lemma codes_Create_ok: "pay_ok db \<Longrightarrow> codes_Create rc db = Inr (x, db') \<Longrightarrow> pay_ok db' \<and> pay_rel db db'"
proof -
  assume a: "pay_ok db" "codes_Create rc db = Inr (x, db')"
  then have db': "db' = db\<lparr>pd_codes := pd_codes db @ [rc\<lparr>rc_ID := pd_nextCodeID db\<rparr>], pd_nextCodeID := pd_nextCodeID db + 1\<rparr>"
    and new: "\<forall>r \<in> set (pd_codes db). rc_Code r \<noteq> rc_Code rc"
    by (auto simp: codes_Create_def codeNamed_def find_None_iff split: if_splits)
  have "codes_ok db'" using a(1) new db' by (force simp: pay_ok_def codes_ok_def)
  moreover have "used c db \<Longrightarrow> used c db'" for c by (auto simp: db' used_def)
  moreover have "\<exists>r \<in> set (pd_codes db). rc_ID r = rc_ID r' \<and> rc_Code r = rc_Code r'"
    if "r' \<in> set (pd_codes db')" "rc_ID r' < pd_nextCodeID db" for r'
    using that by (auto simp: db')
  ultimately show ?thesis using pay_ok_codes [OF a(1), of db'] by (simp add: db')
qed

text \<open>The transaction that redeems a code: the code becomes used and is credited now, if ever.\<close>

lemma codes_Use_used:
  assumes "pay_ok db" and "codes_Use now i u db = Inr (x, db1)"
  shows "\<exists>r \<in> set (pd_codes db). rc_ID r = i \<and> rc_Status r = StatusUnused \<and> credits (rc_Code r) db = 0 \<and>
    used (rc_Code r) db1" and "pay_ok db1" and "pay_rel db db1" and "pd_log db1 = pd_log db"
    and "\<And>c. used c db1 \<Longrightarrow> used c db \<or> (\<exists>r \<in> set (pd_codes db). rc_ID r = i \<and> rc_Code r = c)"
proof -
  let ?p = "\<lambda>r. rc_ID r = i \<and> rc_Status r = StatusUnused"
  let ?g = "\<lambda>r. if ?p r then r\<lparr>rc_Status := StatusUsed, rc_UsedBy := Some u, rc_UsedAt := Some now\<rparr> else r"
  have db1: "db1 = db\<lparr>pd_codes := map ?g (pd_codes db)\<rparr>" and ex: "\<exists>r \<in> set (pd_codes db). ?p r"
    using assms(2) by (auto simp: codes_Use_def Let_def list_ex_iff split: if_splits)
  then obtain r where r: "r \<in> set (pd_codes db)" "?p r" by blast
  have c: "codes_ok db" and l: "log_ok db" and oo: "orders_ok db" using assms(1) by (simp_all add: pay_ok_def)
  have "\<not> used (rc_Code r) db"
  proof
    assume "used (rc_Code r) db"
    then obtain r' where "r' \<in> set (pd_codes db)" "rc_Code r' = rc_Code r" "rc_Status r' = StatusUsed" by (auto simp: used_def)
    with r c show False by (auto simp: codes_ok_def distinct_map inj_on_def)
  qed
  with l have "credits (rc_Code r) db = 0" by (auto simp: log_ok_def)
  moreover have g: "?g r' \<in> set (pd_codes db1)" if "r' \<in> set (pd_codes db)" for r' using that by (auto simp: db1)
  then have "used (rc_Code r) db1" using g [OF r(1)] r(2) unfolding used_def by (intro bexI [of _ "?g r"]) simp_all
  ultimately show "\<exists>r \<in> set (pd_codes db). rc_ID r = i \<and> rc_Status r = StatusUnused \<and>
      credits (rc_Code r) db = 0 \<and> used (rc_Code r) db1"
    using r by blast
  have um: "used c db1" if uc: "used c db" for c
  proof -
    obtain r' where r': "r' \<in> set (pd_codes db)" "rc_Code r' = c" "rc_Status r' = StatusUsed"
      using uc by (auto simp: used_def)
    with g [OF r'(1)] show ?thesis by (auto simp: used_def)
  qed
  have ids: "map rc_ID (map ?g (pd_codes db)) = map rc_ID (pd_codes db)"
    and cds: "map rc_Code (map ?g (pd_codes db)) = map rc_Code (pd_codes db)"
    unfolding map_map by (rule map_cong; simp)+
  have codes: "pd_codes db1 = map ?g (pd_codes db)" by (simp add: db1)
  have "codes_ok db1" using c unfolding codes_ok_def codes ids cds by (auto simp: db1)
  moreover have "\<exists>r \<in> set (pd_codes db). rc_ID r = rc_ID r' \<and> rc_Code r = rc_Code r'" if "r' \<in> set (pd_codes db1)" for r'
  proof -
    have "r' \<in> ?g ` set (pd_codes db)" using that by (simp only: codes set_map)
    then obtain r0 where "r0 \<in> set (pd_codes db)" "r' = ?g r0" by blast
    then show ?thesis by (intro bexI [of _ r0]) simp_all
  qed
  moreover have "pd_orders db1 = pd_orders db" "pd_audit db1 = pd_audit db" "pd_nextCodeID db \<le> pd_nextCodeID db1"
    "pd_log db1 = pd_log db"
    by (simp_all add: db1)
  ultimately show "pay_ok db1" "pay_rel db db1" using pay_ok_codes [OF assms(1) _ um] by blast+
  show "pd_log db1 = pd_log db" by (simp add: db1)
  show "used c db1 \<Longrightarrow> used c db \<or> (\<exists>r \<in> set (pd_codes db). rc_ID r = i \<and> rc_Code r = c)" for c
    by (auto simp: used_def db1 split: if_splits)
qed

lemma redeemTx_ok:
  assumes "pay_ok db" and "redeemTx cal u rc user e db = Inr (x, db')"
    and "\<And>r. r \<in> set (pd_codes db) \<Longrightarrow> rc_ID r = rc_ID rc \<Longrightarrow> rc_Code r = rc_Code rc"
  shows "pay_ok db' \<and> pay_rel db db' \<and> used (rc_Code rc) db'"
proof -
  obtain y db1 where use: "codes_Use (ev_now e) (rc_ID rc) u db = Inr (y, db1)"
    using assms(2) by (auto simp: redeemTx_def thenTx_Inr)
  note u = codes_Use_used [OF assms(1) use]
  from u(1) assms(3) have z: "credits (rc_Code rc) db = 0" and us: "used (rc_Code rc) db1" by auto
  note rel = pay_rel_trans [OF u(3)]
  from assms(2) use consider
      (credit) a db2 where "UpdateBalance u a db1 = Inr ((), db2)" "db' = record_event (Credited (rc_Code rc) u a) db2"
    | (frame) "pd_codes db' = pd_codes db1" "pd_nextCodeID db' = pd_nextCodeID db1" "pd_orders db' = pd_orders db1"
        "pd_audit db' = pd_audit db1" "pd_log db' = pd_log db1"
    unfolding redeemTx_def
    by (auto simp: thenTx_Inr Let_def UpdateConcurrency_def reduceOrCancelSubscription_def
        dest!: setUser_frame onSubs_frame split: if_splits sum.splits)
  then show ?thesis
  proof cases
    case credit
    have f: "pd_codes db2 = pd_codes db1" "pd_nextCodeID db2 = pd_nextCodeID db1" "pd_orders db2 = pd_orders db1"
      "pd_audit db2 = pd_audit db1" "pd_log db2 = pd_log db1"
      using setUser_frame [OF credit(1) [unfolded UpdateBalance_def]] by simp_all
    have same: "used c db' = used c db1" "rebates i db' = rebates i db1" "logged i act db' = logged i act db1"
      "credits c db' = credits c db1 + of_bool (c = rc_Code rc)" "codes_ok db' = codes_ok db1" "credited r db' = credited r db1"
      "pd_orders db' = pd_orders db1"
      "GatewayRefund i b \<in> set (pd_log db') \<longleftrightarrow> GatewayRefund i b \<in> set (pd_log db1)" for c i act r b
      using f credit(2) by (auto simp: record_event_def used_def rebates_def credits_def logged_def codes_ok_def credited_def)
    have z1: "credits (rc_Code rc) db1 = 0" using z u(4) by (simp add: credits_def)
    have l: "log_ok db1" using u(2) by (simp add: pay_ok_def)
    have "credits c db' \<le> 1 \<and> (credits c db' \<noteq> 0 \<longrightarrow> used c db')" for c
      using l us z1 unfolding same(1,4) log_ok_def by (cases "c = rc_Code rc") simp_all
    then have "log_ok db'" using l unfolding log_ok_def same(2,3,6,7,8) by simp
    moreover have "orders_ok db'" using u(2) unfolding pay_ok_def orders_ok_def same(6,7) by blast
    ultimately have "pay_ok db'" using u(2) same(5) by (simp add: pay_ok_def)
    moreover have "pay_rel db1 db'" using f(1-3) credit(2) by (auto simp: record_event_def intro: pay_rel_same)
    ultimately show ?thesis using us same(1) rel by blast
  next
    case frame
    then have "pay_ok db'" "pay_rel db1 db'" using pay_ok_frame [OF u(2)] by simp_all
    with us rel used_same [OF frame(1)] show ?thesis by blast
  qed
qed

lemma rebateTx_ok:
  assumes "pay_ok db" and "rebateTx oid e db = Inr (x, db')"
  shows "pay_ok db' \<and> pay_rel db db'"
proof (cases "logged oid ''AFFILIATE_REBATE_APPLIED'' db \<or> logged oid ''AFFILIATE_REBATE_SKIPPED'' db")
  case False
  then obtain amt where amt: "ev_rebate e = Inr amt" using assms(2) by (auto simp: rebateTx_def split: sum.splits)
  show ?thesis
  proof (cases "amt \<le> 0")
    case True
    with False amt assms show ?thesis by (auto simp: rebateTx_def Let_def dest: insertAudit_ok)
  next
    case pos: False
    let ?l = "\<lparr>al_OrderID = oid, al_Action = ''AFFILIATE_REBATE_APPLIED'', al_Operator = ''system'',
                 al_RefundID = '''', al_RollbackOK = True, al_CreatedAt = ev_now e\<rparr>"
    obtain db1 where i: "insertAudit ?l db = Inr ((), db1)" and db': "db' = record_event (RebateAccrued oid amt) db1"
      using False amt assms(2) pos by (auto simp: rebateTx_def Let_def thenTx_Inr)
    have db1: "db1 = db\<lparr>pd_audit := pd_audit db @ [?l]\<rparr>" using i False by (simp add: insertAudit_def)
    have ok1: "pay_ok db1" and rel1: "pay_rel db db1" using insertAudit_ok [OF assms(1) i] by simp_all
    have lg: "logged oid ''AFFILIATE_REBATE_APPLIED'' db1" by (simp add: db1 logged_def)
    have z: "rebates oid db1 = 0"
      using assms(1) False by (auto simp: pay_ok_def log_ok_def db1 rebates_def)
    have same: "used c db' = used c db1" "credits c db' = credits c db1" "logged i act db' = logged i act db1"
      "rebates i db' = rebates i db1 + of_bool (i = oid)" "codes_ok db' = codes_ok db1" "credited r db' = credited r db1"
      "pd_orders db' = pd_orders db1"
      "GatewayRefund i b \<in> set (pd_log db') \<longleftrightarrow> GatewayRefund i b \<in> set (pd_log db1)" for c i act r b
      by (auto simp: db' record_event_def used_def rebates_def credits_def logged_def codes_ok_def credited_def)
    have l: "log_ok db1" using ok1 by (simp add: pay_ok_def)
    have "rebates i db' \<le> 1 \<and> (rebates i db' \<noteq> 0 \<longrightarrow> logged i ''AFFILIATE_REBATE_APPLIED'' db')" for i
      using l lg z unfolding same(3,4) log_ok_def by (cases "i = oid") simp_all
    then have "log_ok db'" using l unfolding log_ok_def same(1,2,6,7,8) by simp
    moreover have "orders_ok db'" using ok1 unfolding pay_ok_def orders_ok_def same(6,7) by blast
    ultimately have "pay_ok db'" using ok1 same(5) by (simp add: pay_ok_def)
    moreover have "pay_rel db db'" by (rule pay_rel_trans [OF rel1 pay_rel_same]) (simp_all add: db' record_event_def)
    ultimately show ?thesis by simp
  qed
qed (use assms in \<open>auto simp: rebateTx_def\<close>)

end
