(* ===== verification/PaymentHandlers.thy ===== *)
theory PaymentHandlers
  imports PaymentInvariant
begin

section \<open>Every payment handler keeps the invariant\<close>

text \<open>
  A rule per flow: it keeps \<open>pay_ok\<close>, for every continuation that does.  The rules are collected in
  \<open>pay_flow\<close>; the premise \<open>A\<close> of a rule is what the handler has learnt.  The handlers together are an
  instance of the locale \<open>guarded_handlers\<close>.
\<close>

named_theorems pay_flow \<open>rules of the form: a flow keeps the payment invariant\<close>

text \<open>Some order with the id \<open>i\<close> exists and is credited.\<close>

definition credited_order :: "int \<Rightarrow> pay_db \<Rightarrow> bool" where
  "credited_order i db \<longleftrightarrow> (\<exists>r \<in> set (pd_orders db). po_ID r = i \<and> credited r db)"

lemma stable_credited_order [intro]: "pay_stable (credited_order i)"
  unfolding Interleaving.stable_def
proof (intro allI impI)
  fix db db'
  assume a: "credited_order i db \<and> pay_rel db db'"
  then obtain r where r: "r \<in> set (pd_orders db)" "po_ID r = i" "credited r db" by (auto simp: credited_order_def)
  with a obtain r' where r': "r' \<in> set (pd_orders db')" "core r' = core r" unfolding pay_rel_def by blast
  have "credited r db'" using r(3) a by (auto simp: credited_def pay_rel_def)
  with r r' show "credited_order i db'" using core_credited [OF r'(2)] by (auto simp: credited_order_def core_def)
qed

lemma stable_imp [intro]: "(P \<Longrightarrow> pay_stable A) \<Longrightarrow> pay_stable (\<lambda>db. P \<longrightarrow> A db)"
  by (auto simp: Interleaving.stable_def)

text \<open>Ids are unique, so a credited order is the only one with its id.\<close>

lemma credited_order_row:
  "credited_order i db \<Longrightarrow> pay_ok db \<Longrightarrow> r \<in> set (pd_orders db) \<Longrightarrow> po_ID r = i \<Longrightarrow> credited r db"
proof -
  assume a: "credited_order i db" "pay_ok db" "r \<in> set (pd_orders db)" "po_ID r = i"
  then obtain r' where r': "r' \<in> set (pd_orders db)" "po_ID r' = i" "credited r' db" by (auto simp: credited_order_def)
  with a have "r' = r" by (auto simp: pay_ok_def orders_ok_def distinct_map inj_on_def)
  with r' show ?thesis by simp
qed

lemma sees_credited_order: "sees ord db \<Longrightarrow> credited ord db \<Longrightarrow> credited_order (po_ID ord) db"
proof -
  assume a: "sees ord db" "credited ord db"
  then obtain r where r: "r \<in> set (pd_orders db)" "core r = core ord" by (auto simp: sees_def)
  with a(2) core_credited [OF r(2)] show ?thesis by (auto simp: credited_order_def core_def)
qed

lemma fulfilled_row: "pay_ok db \<Longrightarrow> r \<in> set (pd_orders db) \<Longrightarrow> fulfilled (po_Status r) \<Longrightarrow> credited r db"
  by (auto simp: pay_ok_def orders_ok_def)

lemma keeps_more [pay_flow]: "pay_keeps A p \<Longrightarrow> pay_keeps (\<lambda>db. A db \<and> B db) p"
  by (erule keeps_weaken) simp

lemma keeps_Done [pay_flow]: "pay_keeps A (Done r)"
  by (rule keeps.result)

lemmas keeps_outside [pay_flow]

subsection \<open>Reads\<close>

text \<open>A statement that only reads.\<close>

lemma keeps_read:
  assumes "pay_stable A" and "\<And>r. pay_keeps A (k r)"
  shows "pay_keeps A (dbCall (\<lambda>e db. (f e db, db)) k)"
  by (rule keeps_dbCall_blind) (use assms in auto)

lemma keeps_tryRead:
  assumes "\<And>e db x db'. f e db = Inr (x, db') \<Longrightarrow> db' = db" and "pay_stable A" and "\<And>r. pay_keeps A (k r)"
  shows "pay_keeps A (dbTry f k)"
  by (rule keeps_dbTry_blind) (use assms in fastforce)+

lemma keeps_getOrder:
  assumes "pay_stable A" and "\<And>ord. po_ID ord = i \<Longrightarrow> pay_keeps (\<lambda>db. A db \<and> sees ord db) (k (Inr ord))"
    and "\<And>err. pay_keeps A (k (Inl err))"
  shows "pay_keeps A (getOrder i k)"
  unfolding getOrder_def
proof (rule keeps_dbTry [where Q = "\<lambda>ord db. po_ID ord = i \<and> sees ord db"])
  fix e db x db'
  assume a: "pay_ok db" "A db" "(case findOrder i db of None \<Rightarrow> Inl ErrNotFound | Some o' \<Rightarrow> Inr (o', db)) = Inr (x, db')"
  then have "x \<in> set (pd_orders db)" "po_ID x = i" "db' = db"
    by (auto simp: findOrder_def find_Some_iff split: option.splits)
  with a(1) show "pay_ok db' \<and> pay_rel db db' \<and> po_ID x = i \<and> sees x db'" by (auto simp: sees_def fulfilled_row)
next
  show "pay_keeps (\<lambda>db. A db \<and> po_ID x = i \<and> sees x db) (k (Inr x))" for x
  proof (cases "po_ID x = i")
    case True
    with assms(2) show ?thesis by simp
  next
    case False
    have "pay_keeps (\<lambda>_. False) (k (Inr x))"
      by (cases "k (Inr x)") (auto intro: keeps.intros)
    then show ?thesis by (rule keeps_weaken) (use False in simp)
  qed
qed (use assms(1,3) in auto)

lemma keeps_getUser [pay_flow]: "pay_stable A \<Longrightarrow> (\<And>r. pay_keeps A (k r)) \<Longrightarrow> pay_keeps A (getUser i k)"
  unfolding getUser_def by (rule keeps_tryRead) (auto split: option.splits)

lemma keeps_getInstance [pay_flow]: "pay_stable A \<Longrightarrow> (\<And>r. pay_keeps A (k r)) \<Longrightarrow> pay_keeps A (getInstance i k)"
  unfolding getInstance_def by (rule keeps_tryRead) (auto split: option.splits)

lemma keeps_hasAuditLog [pay_flow]: "pay_stable A \<Longrightarrow> (\<And>b. pay_keeps A (k b)) \<Longrightarrow> pay_keeps A (hasAuditLog i act k)"
  unfolding hasAuditLog_def by (rule keeps_read)

lemma keeps_writeAuditDetail [pay_flow]:
  "pay_stable A \<Longrightarrow> pay_keeps A k \<Longrightarrow> pay_keeps A (writeAuditDetail i act op rid ok k)"
  unfolding writeAuditDetail_def by (rule keeps_dbTry_blind) (auto dest: insertAudit_ok)

lemma keeps_writeAuditLog [pay_flow]: "pay_stable A \<Longrightarrow> pay_keeps A k \<Longrightarrow> pay_keeps A (writeAuditLog i act op k)"
  unfolding writeAuditLog_def by (rule keeps_writeAuditDetail)

subsection \<open>Updates of orders\<close>

lemma keeps_updateOrders:
  assumes "pay_stable A" and "\<And>r. core (f r) = core r"
    and "\<And>db r. pay_ok db \<Longrightarrow> A db \<Longrightarrow> r \<in> set (pd_orders db) \<Longrightarrow> p r \<Longrightarrow> fulfilled (po_Status (f r)) \<Longrightarrow> credited r db"
    and "\<And>r. pay_keeps A (k r)"
  shows "pay_keeps A (updateOrders p f k)"
  unfolding updateOrders_def
proof (rule keeps_dbCall_blind)
  fix e db x db'
  assume a: "pay_ok db" "A db" "(int (length (filter p (pd_orders db))), setOrders (ev_now e) p f db) = (x, db')"
  from setOrders_ok [OF a(1) assms(2) assms(3) [OF a(1,2)]] a(3) show "pay_ok db' \<and> pay_rel db db'" by blast
qed (rule assms)+

lemma keeps_updateOneOrder:
  assumes "pay_stable A" and "\<And>r. core (f r) = core r" and "\<And>db. A db \<Longrightarrow> credited_order i db"
    and "\<And>r. pay_keeps A (k r)"
  shows "pay_keeps A (updateOneOrder i f k)"
  unfolding updateOneOrder_def
proof (rule keeps_dbTry_blind)
  fix e db x db'
  assume a: "pay_ok db" "A db" "(case findOrder i db of None \<Rightarrow> Inl ErrNotFound
      | Some _ \<Rightarrow> Inr ((), setOrders (ev_now e) (\<lambda>o'. po_ID o' = i) f db)) = Inr (x, db')"
  then have "db' = setOrders (ev_now e) (\<lambda>o'. po_ID o' = i) f db" by (simp split: option.splits)
  moreover have "pay_ok (setOrders (ev_now e) (\<lambda>o'. po_ID o' = i) f db) \<and> pay_rel db (setOrders (ev_now e) (\<lambda>o'. po_ID o' = i) f db)"
    by (rule setOrders_ok [OF a(1) assms(2)]) (rule credited_order_row [OF assms(3) [OF a(2)] a(1)])
  ultimately show "pay_ok db' \<and> pay_rel db db'" by simp
qed (rule assms)+

text \<open>A lock by status on orders that count as fulfilled shows that the order is credited.\<close>

lemma keeps_lock:
  assumes "pay_stable A" and "\<And>r. core (f r) = core r" and "\<And>r. p r \<Longrightarrow> po_ID r = i \<and> fulfilled (po_Status r)"
    and "pay_keeps A (k (Inr 0))" and "\<And>c. pay_keeps (\<lambda>db. A db \<and> credited_order i db) (k (Inr c))"
    and "\<And>err. pay_keeps A (k (Inl err))"
  shows "pay_keeps A (updateOrders p f k)"
  unfolding updateOrders_def
proof (rule keeps_dbCall [where Q = "\<lambda>c db. c \<noteq> 0 \<longrightarrow> credited_order i db"])
  fix e db x db'
  assume a: "pay_ok db" "A db" "(int (length (filter p (pd_orders db))), setOrders (ev_now e) p f db) = (x, db')"
  have cr: "credited r db" if "r \<in> set (pd_orders db)" "p r" for r using a(1) assms(3) that fulfilled_row by blast
  from setOrders_ok [OF a(1) assms(2) cr] a(3) have ok: "pay_ok db' \<and> pay_rel db db'" by blast
  have "credited_order i db'" if "x \<noteq> 0"
  proof -
    from that a(3) have "filter p (pd_orders db) \<noteq> []" by auto
    then obtain r where "r \<in> set (pd_orders db)" "p r" by (auto simp: filter_empty_conv)
    with cr assms(3) have "credited_order i db" by (auto simp: credited_order_def)
    with ok stable_credited_order show ?thesis unfolding Interleaving.stable_def by blast
  qed
  with ok show "pay_ok db' \<and> pay_rel db db' \<and> (x \<noteq> 0 \<longrightarrow> credited_order i db')" by simp
next
  show "pay_keeps (\<lambda>db. A db \<and> (x \<noteq> 0 \<longrightarrow> credited_order i db)) (k (Inr x))" for x
    using assms(4,5) by (cases "x = 0") (simp_all add: keeps_more)
qed (use assms(1,6) in auto)

subsection \<open>Codes\<close>

lemma keeps_GetByCode:
  assumes "pay_stable A" and "\<And>rc. IsUsed rc \<Longrightarrow> pay_keeps (\<lambda>db. A db \<and> used code db) (k (Inr rc))"
    and "\<And>rc. \<not> IsUsed rc \<Longrightarrow> pay_keeps A (k (Inr rc))" and "\<And>err. pay_keeps A (k (Inl err))"
  shows "pay_keeps A (GetByCode code k)"
  unfolding GetByCode_def
proof (rule keeps_dbTry [where Q = "\<lambda>rc db. IsUsed rc \<longrightarrow> used code db"])
  fix e db x db'
  assume a: "pay_ok db" "codes_GetByCode code db = Inr (x, db')"
  then have "x \<in> set (pd_codes db)" "rc_Code x = code" "db' = db"
    by (auto simp: codes_GetByCode_def codeNamed_def find_Some_iff split: option.splits)
  with a(1) show "pay_ok db' \<and> pay_rel db db' \<and> (IsUsed x \<longrightarrow> used code db')" by (auto simp: IsUsed_def used_def)
next
  show "pay_keeps (\<lambda>db. A db \<and> (IsUsed x \<longrightarrow> used code db)) (k (case Inr x of Inl err \<Rightarrow> Inl (OtherError ''get redeem code'' (Some err)) | Inr r \<Rightarrow> Inr r))" for x
    using assms(2,3) by (cases "IsUsed x") (simp_all add: keeps_more)
qed (use assms(1,4) in auto)

lemma keeps_CreateCode [pay_flow]:
  assumes "pay_stable A" and "\<And>r. pay_keeps A (k r)"
  shows "pay_keeps A (CreateCode rc k)"
proof -
  have "pay_keeps A (dbTry (\<lambda>e. codes_Create c) (\<lambda>res. k (case res of
      Inl err \<Rightarrow> Inl (OtherError ''create redeem code'' (Some err)) | Inr u \<Rightarrow> Inr u)))" for c
    by (rule keeps_dbTry_blind) (use assms codes_Create_ok in auto)
  with assms show ?thesis unfolding CreateCode_def Let_def by (auto intro: keeps_outside)
qed

lemma keeps_pure: "(P \<Longrightarrow> pay_keeps A p) \<Longrightarrow> pay_keeps (\<lambda>db. A db \<and> P) p"
proof (cases P)
  case False
  then have "pay_keeps (\<lambda>db. A db \<and> P) p" by (cases p) (auto intro: keeps.intros)
  then show ?thesis .
qed (simp add: keeps_more)

lemma keeps_redeemTx:
  assumes "pay_stable A" and "\<And>db. A db \<Longrightarrow> names (rc_ID rc) (rc_Code rc) db"
    and "\<And>r. pay_keeps (\<lambda>db. A db \<and> used (rc_Code rc) db) (k (Inr r))" and "\<And>err. pay_keeps A (k (Inl err))"
  shows "pay_keeps A (dbTry (redeemTx cal u rc user) (afterRedeem rc k))"
proof (rule keeps_dbTry [where Q = "\<lambda>_. used (rc_Code rc)"])
  fix e db x db'
  assume a: "pay_ok db" "A db" "redeemTx cal u rc user e db = Inr (x, db')"
  show "pay_ok db' \<and> pay_rel db db' \<and> used (rc_Code rc) db'"
    by (rule redeemTx_ok [OF a(1,3)]) (use assms(2) [OF a(2)] in \<open>auto simp: names_def\<close>)
next
  have ak: "pay_keeps (\<lambda>db. A db \<and> used (rc_Code rc) db) (k r)" for r
    using assms(3,4) by (cases r) (auto intro: keeps_more)
  have "pay_stable (\<lambda>db. A db \<and> used (rc_Code rc) db)" using assms(1) by blast
  then show "pay_keeps (\<lambda>db. A db \<and> used (rc_Code rc) db) (afterRedeem rc k (Inr x))" for x
    unfolding afterRedeem_def by (auto simp: codes_GetByID_def intro!: keeps_tryRead ak split: option.splits)
  show "pay_keeps A (afterRedeem rc k (Inl err))" for err using assms(4) by (simp add: afterRedeem_def)
qed (use assms in auto)

lemma keeps_redeemValidated:
  assumes "pay_stable A" and "\<And>db. A db \<Longrightarrow> names (rc_ID rc) (rc_Code rc) db"
    and "\<And>r. pay_keeps (\<lambda>db. A db \<and> used (rc_Code rc) db) (k (Inr r))" and "\<And>err. pay_keeps A (k (Inl err))"
  shows "pay_keeps A (redeemValidated cal u rc k)"
proof -
  have tx: "pay_keeps A (dbTry (redeemTx cal u rc user) (afterRedeem rc k))" for user
    using assms by (rule keeps_redeemTx)
  have ext: "pay_keeps A (dbTry (\<lambda>e db. thenTx (codes_Use (ev_now e) (rc_ID rc) u db) (\<lambda>_ _. onSubs (g e) db))
      (\<lambda>res. case res of Inl err \<Rightarrow> k (Inl err) | Inr _ \<Rightarrow> dbTry (redeemTx cal u rc user) (afterRedeem rc k)))" for g user
  proof (rule keeps_dbTry_blind)
    fix e db x db'
    assume a: "pay_ok db" "thenTx (codes_Use (ev_now e) (rc_ID rc) u db) (\<lambda>_ _. onSubs (g e) db) = Inr (x, db')"
    then have "onSubs (g e) db = Inr (x, db')" by (auto simp: thenTx_Inr)
    from onSubs_frame [OF this] pay_ok_frame [OF a(1)] show "pay_ok db' \<and> pay_rel db db'" by simp
  qed (use assms(1,4) tx in \<open>auto split: sum.splits\<close>)
  show ?thesis unfolding redeemValidated_def
    by (rule keeps_getUser) (use assms(1,4) tx ext in \<open>auto split: sum.splits\<close>)
qed

lemma keeps_Redeem:
  assumes "pay_stable A" and "\<And>r. pay_keeps (\<lambda>db. A db \<and> used code db) (k (Inr r))" and "\<And>err. pay_keeps A (k (Inl err))"
  shows "pay_keeps A (Redeem cal u code k)"
proof -
  have found: "pay_keeps (\<lambda>db. (A db \<and> names (rc_ID rc) (rc_Code rc) db) \<and> rc_Code rc = code) (outside ev_now (\<lambda>now.
             if IsExpiredAt now rc then k (Inl ErrRedeemCodeExpired)
             else if \<not> CanUse now rc then k (Inl ErrRedeemCodeUsed)
             else if rc_Type rc = RedeemTypeSubscription \<and> rc_GroupID rc = None
             then k (Inl (BadRequest ''REDEEM_CODE_INVALID'' ''invalid subscription redeem code: missing group_id''))
             else if rc_Type rc \<in> {RedeemTypeBalance, RedeemTypeConcurrency, RedeemTypeSubscription}
             then redeemValidated cal u rc k
             else k (Inl (unsupportedRedeemTypeError (rc_Type rc)))))" for rc
  proof (rule keeps_pure, rule keeps_outside, goal_cases)
    case 1
    show ?case using assms(1) by blast
  next
    case (2 now)
    have "pay_keeps (\<lambda>db. A db \<and> names (rc_ID rc) (rc_Code rc) db) (redeemValidated cal u rc k)"
      by (rule keeps_redeemValidated)
        (use assms 2 in \<open>auto intro: keeps_more intro: keeps_weaken [OF assms(2)]\<close>)
    with assms(3) show ?case by (auto intro: keeps_more)
  qed
  have get: "pay_keeps A (dbTry (\<lambda>e. codes_GetByCode code) (\<lambda>res.
         case res of
           Inl err \<Rightarrow> k (Inl (if IsError err ErrRedeemCodeNotFound then ErrRedeemCodeNotFound else OtherError ''get redeem code'' (Some err)))
         | Inr rc \<Rightarrow> outside ev_now (\<lambda>now.
             if IsExpiredAt now rc then k (Inl ErrRedeemCodeExpired)
             else if \<not> CanUse now rc then k (Inl ErrRedeemCodeUsed)
             else if rc_Type rc = RedeemTypeSubscription \<and> rc_GroupID rc = None
             then k (Inl (BadRequest ''REDEEM_CODE_INVALID'' ''invalid subscription redeem code: missing group_id''))
             else if rc_Type rc \<in> {RedeemTypeBalance, RedeemTypeConcurrency, RedeemTypeSubscription}
             then redeemValidated cal u rc k
             else k (Inl (unsupportedRedeemTypeError (rc_Type rc))))))"
  proof (rule keeps_dbTry [where Q = "\<lambda>rc db. names (rc_ID rc) (rc_Code rc) db \<and> rc_Code rc = code"], goal_cases)
    case (1 e db x db')
    then have "x \<in> set (pd_codes db)" "rc_Code x = code" "db' = db"
      by (auto simp: codes_GetByCode_def codeNamed_def find_Some_iff split: option.splits)
    with 1(1) show ?case by (auto simp: names_def pay_ok_def codes_ok_def distinct_map inj_on_def)
  next
    case (4 rc)
    show ?case using found [of rc] by (simp add: conj_assoc)
  qed (use assms in auto)
  show ?thesis unfolding Redeem_def by (intro keeps_outside) (use assms get in \<open>auto intro: keeps_outside\<close>)
qed

subsection \<open>Providers\<close>

lemma keeps_resolveSnapshotOrderProviderInstance [pay_flow]:
  "pay_stable A \<Longrightarrow> (\<And>r. pay_keeps A (k r)) \<Longrightarrow> pay_keeps A (resolveSnapshotOrderProviderInstance ord s k)"
  unfolding resolveSnapshotOrderProviderInstance_def Let_def
  by (auto intro!: keeps_getInstance split: option.splits sum.splits)

lemma keeps_resolveUniqueLegacyOrderProviderInstance [pay_flow]:
  "pay_stable A \<Longrightarrow> (\<And>r. pay_keeps A (k r)) \<Longrightarrow> pay_keeps A (resolveUniqueLegacyOrderProviderInstance ord k)"
  unfolding resolveUniqueLegacyOrderProviderInstance_def Let_def
  by (auto intro!: keeps_read split: option.splits sum.splits)

lemma keeps_getOrderProviderInstance [pay_flow]:
  "pay_stable A \<Longrightarrow> (\<And>r. pay_keeps A (k r)) \<Longrightarrow> pay_keeps A (getOrderProviderInstance ord k)"
  unfolding getOrderProviderInstance_def Let_def
  by (auto intro!: pay_flow split: option.splits)

lemma keeps_getOrderProvider [pay_flow]:
  "pay_stable A \<Longrightarrow> (\<And>r. pay_keeps A (k r)) \<Longrightarrow> pay_keeps A (getOrderProvider S ord k)"
  unfolding getOrderProvider_def
  by (rule keeps_getOrderProviderInstance) (auto intro!: keeps_outside split: sum.splits option.splits)

lemma keeps_getRefundOrderProviderInstance [pay_flow]:
  "pay_stable A \<Longrightarrow> (\<And>r. pay_keeps A (k r)) \<Longrightarrow> pay_keeps A (getRefundOrderProviderInstance ord k)"
  unfolding getRefundOrderProviderInstance_def Let_def
  by (auto intro!: pay_flow split: option.splits)

lemma keeps_getRefundProvider [pay_flow]:
  "pay_stable A \<Longrightarrow> (\<And>r. pay_keeps A (k r)) \<Longrightarrow> pay_keeps A (getRefundProvider ord k)"
  unfolding getRefundProvider_def
  by (rule keeps_getRefundOrderProviderInstance) (auto intro!: keeps_outside split: sum.splits option.splits)

subsection \<open>Fulfilment\<close>

lemma keeps_markCompleted:
  assumes "pay_stable A" and "\<And>db. A db \<Longrightarrow> credited_order (po_ID ord) db" and "\<And>r. pay_keeps A (k r)"
  shows "pay_keeps A (markCompleted ord act k)"
  unfolding markCompleted_def
proof (intro keeps_outside keeps_updateOrders)
  show "pay_keeps A (case r of Inl err \<Rightarrow> k (wrapError ''mark completed'' err)
      | Inr _ \<Rightarrow> writeAuditLog (po_ID ord) act ''system'' (k None))" for r
    using assms(1,3) by (cases r) (auto intro: keeps_writeAuditLog)
  show "credited r db" if "pay_ok db" "A db" "r \<in> set (pd_orders db)" "po_ID r = po_ID ord \<and> po_Status r = OrderStatusRecharging" for db r
    using credited_order_row [OF assms(2)] that by blast
qed (use assms(1) in \<open>simp_all add: core_def\<close>)

lemma keeps_markFailed [pay_flow]:
  "pay_stable A \<Longrightarrow> pay_keeps A k \<Longrightarrow> pay_keeps A (markFailed oid cause k)"
  unfolding markFailed_def
  by (intro keeps_outside keeps_updateOrders) (auto simp: core_def fulfilled_def psIsRefundStatus_def intro: keeps_writeAuditLog split: sum.splits)

lemma keeps_applyAffiliateRebateForOrder [pay_flow]:
  assumes "pay_stable A" and "\<And>r. pay_keeps A (k r)"
  shows "pay_keeps A (applyAffiliateRebateForOrder S ord k)"
proof -
  have "pay_keeps A (dbTry (rebateTx (po_ID ord)) (\<lambda>res. case res of
      Inl err \<Rightarrow> writeAuditLog (po_ID ord) ''AFFILIATE_REBATE_FAILED'' ''system'' (k (wrapError ''affiliate rebate'' err))
    | Inr _ \<Rightarrow> k None))"
    by (rule keeps_dbTry_blind) (use assms rebateTx_ok in \<open>auto intro: keeps_writeAuditLog split: sum.splits\<close>)
  with assms show ?thesis by (simp add: applyAffiliateRebateForOrder_def)
qed

lemma keeps_finish:
  assumes "pay_stable A" and "\<And>db. A db \<Longrightarrow> credited_order (po_ID ord) db" and "\<And>r. pay_keeps A (k r)"
  shows "pay_keeps A (finishBalance S ord k)" and "pay_keeps A (finishSub S ord k)"
  unfolding finishBalance_def finishSub_def
  by (rule keeps_applyAffiliateRebateForOrder [OF assms(1)];
      use assms in \<open>auto intro: keeps_markCompleted split: option.splits\<close>)+

text \<open>A balance order is completed only after its code is used.\<close>

lemma keeps_redeemBalance:
  assumes "pay_stable A" and "\<And>db. A db \<Longrightarrow> sees ord db" and "\<And>r. pay_keeps A (k r)"
  shows "pay_keeps A (redeemBalance S ord k)"
  unfolding redeemBalance_def
proof (rule keeps_Redeem)
  fix r
  have "pay_keeps (\<lambda>db. A db \<and> used (po_RechargeCode ord) db) (finishBalance S ord k)"
    by (rule keeps_finish) (use assms in \<open>auto intro: keeps_more sees_credited_order simp: credited_def\<close>)
  then show "pay_keeps (\<lambda>db. A db \<and> used (po_RechargeCode ord) db)
      (case Inr r of Inl err \<Rightarrow> k (wrapError ''redeem balance'' err) | Inr _ \<Rightarrow> finishBalance S ord k)" by simp
qed (use assms(1,3) in simp_all)

lemma keeps_doBalance:
  assumes "pay_stable A" and "\<And>db. A db \<Longrightarrow> sees ord db" and "\<And>r. pay_keeps A (k r)"
  shows "pay_keeps A (doBalance S ord k)"
  unfolding doBalance_def
proof (rule keeps_GetByCode)
  fix rc
  assume "IsUsed rc"
  moreover have "pay_keeps (\<lambda>db. A db \<and> used (po_RechargeCode ord) db) (finishBalance S ord k)"
    by (rule keeps_finish) (use assms in \<open>auto intro: keeps_more sees_credited_order simp: credited_def\<close>)
  ultimately show "pay_keeps (\<lambda>db. A db \<and> used (po_RechargeCode ord) db)
      (case resolveRedeemAction (Inr rc) of
        redeemActionCreate \<Rightarrow> CreateCode (rechargeCode ord) (\<lambda>res. case res of
           Inl err \<Rightarrow> k (wrapError ''create redeem code'' err) | Inr _ \<Rightarrow> redeemBalance S ord k)
      | redeemActionRedeem \<Rightarrow> redeemBalance S ord k | redeemActionSkipCompleted \<Rightarrow> finishBalance S ord k)"
    by (simp add: resolveRedeemAction_def)
next
  show "pay_keeps A (case resolveRedeemAction (Inl err) of
        redeemActionCreate \<Rightarrow> CreateCode (rechargeCode ord) (\<lambda>res. case res of
           Inl err \<Rightarrow> k (wrapError ''create redeem code'' err) | Inr _ \<Rightarrow> redeemBalance S ord k)
      | redeemActionRedeem \<Rightarrow> redeemBalance S ord k | redeemActionSkipCompleted \<Rightarrow> finishBalance S ord k)" for err
    using assms by (auto simp: resolveRedeemAction_def intro!: keeps_CreateCode keeps_redeemBalance split: sum.splits)
next
  fix rc
  assume "\<not> IsUsed rc"
  moreover have "pay_keeps A (redeemBalance S ord k)" using assms by (rule keeps_redeemBalance)
  ultimately show "pay_keeps A (case resolveRedeemAction (Inr rc) of
        redeemActionCreate \<Rightarrow> CreateCode (rechargeCode ord) (\<lambda>res. case res of
           Inl err \<Rightarrow> k (wrapError ''create redeem code'' err) | Inr _ \<Rightarrow> redeemBalance S ord k)
      | redeemActionRedeem \<Rightarrow> redeemBalance S ord k | redeemActionSkipCompleted \<Rightarrow> finishBalance S ord k)"
    by (simp add: resolveRedeemAction_def)
qed (rule assms(1))

lemma keeps_assignFlow [pay_flow]:
  assumes "pay_stable A" and "\<And>r. pay_keeps A (k r)"
  shows "pay_keeps A (assignFlow cal oid inp k)"
proof -
  have w: "pay_keeps A (dbTry (\<lambda>e db. thenTx (onSubs (termWrite cal (ev_now e) inp x) db) (\<lambda>_ db1.
      Inr ((), record_event (SubAssigned oid (in_UserID inp) (in_GroupID inp) (in_ValidityDays inp)) db1))) k)" for x
  proof (rule keeps_dbTry_blind)
    fix e db y db'
    assume a: "pay_ok db" and w: "thenTx (onSubs (termWrite cal (ev_now e) inp x) db) (\<lambda>_ db1.
      Inr ((), record_event (SubAssigned oid (in_UserID inp) (in_GroupID inp) (in_ValidityDays inp)) db1)) = Inr (y, db')"
    from w obtain z db1 where "onSubs (termWrite cal (ev_now e) inp x) db = Inr (z, db1)"
      "db' = record_event (SubAssigned oid (in_UserID inp) (in_GroupID inp) (in_ValidityDays inp)) db1"
      by (auto simp: thenTx_Inr)
    with onSubs_frame [OF this(1)] show "pay_ok db' \<and> pay_rel db db'"
      by (intro conjI pay_ok_frame [OF a]) (auto simp: record_event_def)
  qed (rule assms)+
  have t: "pay_keeps A (dbCall (\<lambda>e db. (termRead inp (pd_subs db), db)) (\<lambda>res.
         let existing = (case res of Inl _ \<Rightarrow> None | Inr x \<Rightarrow> x) in
         dbTry (\<lambda>e db. thenTx (onSubs (termWrite cal (ev_now e) inp existing) db) (\<lambda>_ db1.
             Inr ((), record_event (SubAssigned oid (in_UserID inp) (in_GroupID inp) (in_ValidityDays inp)) db1))) k))"
    by (rule keeps_read) (use assms w in \<open>simp_all add: Let_def\<close>)
  show ?thesis unfolding assignFlow_def
    by (rule keeps_tryRead) (use assms t in \<open>auto split: sum.splits\<close>)
qed

lemma keeps_doSub:
  assumes "pay_stable A" and "\<And>db. A db \<Longrightarrow> credited_order (po_ID ord) db" and "\<And>r. pay_keeps A (k r)"
  shows "pay_keeps A (doSub S ord gid days k)"
proof -
  have f: "pay_keeps A (finishSub S ord k)" using assms by (rule keeps_finish)
  show ?thesis unfolding doSub_def
    by (rule keeps_read; (intro assms(1))?)
      (auto intro!: keeps_hasAuditLog keeps_assignFlow keeps_writeAuditLog f assms(1,3) split: sum.splits)
qed

lemma keeps_fulfilLocked:
  assumes "pay_stable A" and "pay_keeps A (work (\<lambda>err. case err of None \<Rightarrow> k None | Some cause \<Rightarrow> markFailed oid cause (k err)))"
    and "\<And>r. pay_keeps A (k r)"
  shows "pay_keeps A (fulfilLocked work oid k)"
  unfolding fulfilLocked_def lockRecharging_def
  by (rule keeps_updateOrders) (use assms in \<open>auto simp: core_def fulfilled_def psIsRefundStatus_def split: sum.splits\<close>)

lemma keeps_markFailed_result:
  "pay_stable A \<Longrightarrow> (\<And>r. pay_keeps A (k r)) \<Longrightarrow>
    pay_keeps A (case err of None \<Rightarrow> k None | Some cause \<Rightarrow> markFailed oid cause (k err))"
  by (cases err) (auto intro: keeps_markFailed)

lemma keeps_ExecuteBalanceFulfillment [pay_flow]:
  assumes "pay_stable A" and "\<And>r. pay_keeps A (k r)"
  shows "pay_keeps A (ExecuteBalanceFulfillment S oid k)"
  unfolding ExecuteBalanceFulfillment_def
proof (rule keeps_getOrder)
  fix ord :: PaymentOrder
  let ?A = "\<lambda>db. A db \<and> sees ord db"
  have st: "pay_stable ?A" using assms(1) by blast
  have k: "pay_keeps ?A (k r)" for r using assms(2) by (rule keeps_more)
  have "pay_keeps ?A (fulfilLocked (doBalance S ord) oid k)"
    by (rule keeps_fulfilLocked [OF st _ k], rule keeps_doBalance [OF st]) (auto intro: keeps_markFailed_result st k)
  then show "pay_keeps ?A (case Inr ord of Inl _ \<Rightarrow> k orderNotFound | Inr ord \<Rightarrow> (case fulfilGuard ord of
           Some stop \<Rightarrow> k stop | None \<Rightarrow> fulfilLocked (doBalance S ord) oid k))"
    using k by (simp split: option.splits)
qed (use assms in simp_all)

text \<open>A subscription order counts as credited by its type.\<close>

lemma keeps_ExecuteSubscriptionFulfillment:
  assumes "pay_stable A" and "\<And>db. A db \<Longrightarrow> credited_order oid db" and "\<And>r. pay_keeps A (k r)"
  shows "pay_keeps A (ExecuteSubscriptionFulfillment S oid k)"
  unfolding ExecuteSubscriptionFulfillment_def
proof (rule keeps_getOrder)
  fix ord :: PaymentOrder
  assume i: "po_ID ord = oid"
  let ?A = "\<lambda>db. A db \<and> sees ord db"
  have st: "pay_stable ?A" using assms(1) by blast
  have k: "pay_keeps ?A (k r)" for r using assms(3) by (rule keeps_more)
  have "pay_keeps ?A (fulfilLocked (doSub S ord gid days) oid k)" for gid days
    by (rule keeps_fulfilLocked [OF st _ k], rule keeps_doSub [OF st])
      (use i assms(2) in \<open>auto intro: keeps_markFailed_result st k\<close>)
  then show "pay_keeps ?A (case Inr ord of Inl _ \<Rightarrow> k orderNotFound | Inr ord \<Rightarrow> (case fulfilGuard ord of
           Some stop \<Rightarrow> k stop | None \<Rightarrow> (case (po_SubscriptionGroupID ord, po_SubscriptionDays ord) of
               (Some gid, Some days) \<Rightarrow> fulfilLocked (doSub S ord gid days) oid k
             | _ \<Rightarrow> k (invalidStatus ''missing subscription info''))))"
    using k by (simp split: option.splits)
qed (use assms in simp_all)

lemma keeps_executeFulfillment [pay_flow]:
  assumes "pay_stable A" and "\<And>r. pay_keeps A (k r)"
  shows "pay_keeps A (executeFulfillment S oid k)"
  unfolding executeFulfillment_def
proof (rule keeps_getOrder)
  fix ord :: PaymentOrder
  assume i: "po_ID ord = oid"
  let ?A = "\<lambda>db. A db \<and> sees ord db"
  have st: "pay_stable ?A" using assms(1) by blast
  have k: "pay_keeps ?A (k r)" for r using assms(2) by (rule keeps_more)
  have "pay_keeps ?A (ExecuteSubscriptionFulfillment S oid k)" if "po_OrderType ord = OrderTypeSubscription"
    by (rule keeps_ExecuteSubscriptionFulfillment [OF st _ k])
      (use that i in \<open>auto simp: credited_def dest: sees_credited_order\<close>)
  moreover have "pay_keeps ?A (ExecuteBalanceFulfillment S oid k)" using st k by (rule keeps_ExecuteBalanceFulfillment)
  ultimately show "pay_keeps ?A (case Inr ord of Inl err \<Rightarrow> k (wrapError ''get order'' err)
     | Inr ord \<Rightarrow> (if po_OrderType ord = OrderTypeSubscription then ExecuteSubscriptionFulfillment S oid k
                  else ExecuteBalanceFulfillment S oid k))" by simp
qed (use assms in simp_all)

lemma keeps_getOrder_blind:
  "pay_stable A \<Longrightarrow> (\<And>r. pay_keeps A (k r)) \<Longrightarrow> pay_keeps A (getOrder i k)"
  by (rule keeps_getOrder) (auto intro: keeps_more)

lemma keeps_RetryFulfillment [pay_flow]:
  "pay_stable A \<Longrightarrow> (\<And>r. pay_keeps A (k r)) \<Longrightarrow> pay_keeps A (RetryFulfillment S oid k)"
  unfolding RetryFulfillment_def
  by (rule keeps_getOrder_blind)
    (auto simp: core_def fulfilled_def psIsRefundStatus_def split: sum.splits
      intro!: keeps_updateOrders keeps_writeAuditLog keeps_executeFulfillment)

subsection \<open>Notifications\<close>

lemma keeps_alreadyProcessed [pay_flow]:
  "pay_stable A \<Longrightarrow> (\<And>r. pay_keeps A (k r)) \<Longrightarrow> pay_keeps A (alreadyProcessed S ord k)"
  unfolding alreadyProcessed_def
  by (rule keeps_getOrder_blind) (auto split: sum.splits OrderStatus.splits intro!: keeps_writeAuditLog keeps_executeFulfillment)

lemma keeps_toPaid [pay_flow]:
  assumes "pay_stable A" and "\<And>r. pay_keeps A (k r)"
  shows "pay_keeps A (toPaid S ord tradeNo paid pk k)"
  unfolding toPaid_def
  by (intro keeps_outside keeps_updateOrders)
    (use assms in \<open>auto simp: core_def fulfilled_def psIsRefundStatus_def split: sum.splits
      intro!: keeps_alreadyProcessed keeps_writeAuditLog keeps_executeFulfillment\<close>)

lemma keeps_confirmPayment [pay_flow]:
  assumes "pay_stable A" and "\<And>r. pay_keeps A (k r)"
  shows "pay_keeps A (confirmPayment S oid tradeNo paid pk metadata k)"
  unfolding confirmPayment_def Let_def
  by (rule keeps_getOrder_blind)
    (use assms in \<open>auto split: sum.splits option.splits intro!: keeps_getOrderProviderInstance keeps_writeAuditLog keeps_toPaid\<close>)

lemma keeps_HandlePaymentNotification [pay_flow]:
  assumes "pay_stable A" and "\<And>r. pay_keeps A (k r)"
  shows "pay_keeps A (HandlePaymentNotification S n pk k)"
  unfolding HandlePaymentNotification_def
  using assms by (auto intro!: keeps_read keeps_confirmPayment split: sum.splits list.splits option.splits)

subsection \<open>The order life cycle\<close>

lemma keeps_notifyPaid [pay_flow]:
  assumes "pay_stable A" and "\<And>r. pay_keeps A (k r)"
  shows "pay_keeps A (notifyPaid S ord prov ref resp k)"
  unfolding notifyPaid_def Let_def
  using assms by (auto simp: core_def fulfilled_row intro!: keeps_updateOrders keeps_HandlePaymentNotification)

lemma keeps_requeryPaidOrderOnce [pay_flow]:
  assumes "pay_stable A" and "\<And>r. pay_keeps A (k r)"
  shows "pay_keeps A (requeryPaidOrderOnce ref k)"
  unfolding requeryPaidOrderOnce_def using assms by (auto intro!: keeps_outside split: sum.splits)

lemma keeps_checkPaidWithOptions [pay_flow]:
  assumes "pay_stable A" and "\<And>r. pay_keeps A (k r)"
  shows "pay_keeps A (checkPaidWithOptions S ord b k)"
  unfolding checkPaidWithOptions_def Let_def
  by (rule keeps_getOrderProvider)
    (use assms in \<open>auto intro!: keeps_outside keeps_writeAuditLog keeps_requeryPaidOrderOnce keeps_notifyPaid
      split: sum.splits option.splits\<close>)

lemma keeps_cancelRow [pay_flow]:
  assumes "pay_stable A" and "fs \<in> {OrderStatusCancelled, OrderStatusExpired}" and "\<And>r. pay_keeps A (k r)"
  shows "pay_keeps A (cancelRow ord fs op k)"
  unfolding cancelRow_def
  by (rule keeps_updateOrders)
    (use assms in \<open>auto simp: core_def fulfilled_def psIsRefundStatus_def intro!: keeps_writeAuditLog split: sum.splits\<close>)

lemma keeps_cancelCore [pay_flow]:
  assumes "pay_stable A" and "fs \<in> {OrderStatusCancelled, OrderStatusExpired}" and "\<And>r. pay_keeps A (k r)"
  shows "pay_keeps A (cancelCore S ord fs op k)"
  unfolding cancelCore_def checkPaid_def
  using assms by (auto intro!: keeps_checkPaidWithOptions keeps_cancelRow)

lemma keeps_expireAll [pay_flow]:
  assumes "pay_stable A" and "\<And>r. pay_keeps A (k r)"
  shows "pay_keeps A (expireAll S ords n k)"
  using assms by (induction ords arbitrary: n) (auto simp: Let_def intro!: keeps_cancelCore)

lemma keeps_reconcileAll [pay_flow]:
  assumes "pay_stable A" and "\<And>r. pay_keeps A (k r)"
  shows "pay_keeps A (reconcileAll S ords n k)"
  using assms by (induction ords arbitrary: n) (auto simp: reconcilePaid_def intro!: keeps_checkPaidWithOptions)

lemma keeps_jobs [pay_flow]:
  assumes "pay_stable A" and "\<And>r. pay_keeps A (k r)"
  shows "pay_keeps A (ExpireTimedOutOrders S k)" and "pay_keeps A (ReconcilePendingWxpayOrders S k)"
  unfolding ExpireTimedOutOrders_def ReconcilePendingWxpayOrders_def
  using assms by (auto intro!: keeps_outside keeps_read keeps_expireAll keeps_reconcileAll split: sum.splits)

lemma keeps_cancels [pay_flow]:
  assumes "pay_stable A" and "\<And>r. pay_keeps A (k r)"
  shows "pay_keeps A (CancelOrder S oid u k)" and "pay_keeps A (AdminCancelOrder S oid k)"
  unfolding CancelOrder_def AdminCancelOrder_def
  using assms by (auto intro!: keeps_getOrder_blind keeps_cancelCore split: sum.splits)

lemma keeps_lookupOutTradeNo [pay_flow]:
  assumes "pay_stable A" and "\<And>r. pay_keeps A (k r)"
  shows "pay_keeps A (lookupOutTradeNo raw k)"
  unfolding lookupOutTradeNo_def using assms by (auto intro!: keeps_read split: sum.splits list.splits)

lemma keeps_VerifyOrder [pay_flow]:
  assumes "pay_stable A" and "\<And>r. pay_keeps A (k r)"
  shows "pay_keeps A (VerifyOrderByOutTradeNo S raw u k)" and "pay_keeps A (VerifyOrderPublic raw k)"
  unfolding VerifyOrderByOutTradeNo_def VerifyOrderPublic_def reconcilePaid_def
  using assms by (auto intro!: keeps_lookupOutTradeNo keeps_checkPaidWithOptions keeps_getOrder_blind split: sum.splits)

subsection \<open>Refunds\<close>

lemma keeps_RequestRefund [pay_flow]:
  assumes "pay_stable A" and "\<And>r. pay_keeps A (k r)"
  shows "pay_keeps A (RequestRefund oid uid reason k)"
proof -
  have upd: "pay_keeps A (updateOrders (\<lambda>r. po_ID r = oid \<and> po_UserID r = uid \<and> po_Status r = OrderStatusCompleted \<and>
                    po_OrderType r = OrderTypeBalance)
                  (\<lambda>r. r\<lparr>po_Status := OrderStatusRefundRequested, po_RefundRequestedAt := Some now,
                     po_RefundRequestReason := Some (trim_space reason), po_RefundRequestedBy := Some (itoa uid),
                     po_RefundAmount := dec_round 2 (po_Amount ord)\<rparr>) (\<lambda>rc. case rc of
                      Inl err \<Rightarrow> k (wrapError ''update'' err)
                    | Inr c \<Rightarrow>
                        (if c = 0 then k (Some (Conflict ''CONFLICT'' ''order status changed''))
                         else writeAuditLog oid ''REFUND_REQUESTED'' (userOperator uid) (k None))))" for ord now
    by (rule keeps_updateOrders)
      (use assms in \<open>auto simp: core_def intro!: keeps_writeAuditLog split: sum.splits
        intro: fulfilled_row [unfolded fulfilled_def]\<close>)
  show ?thesis unfolding RequestRefund_def validateRefundRequest_def
    by (rule keeps_getOrder_blind)
      (use assms upd in \<open>auto intro!: keeps_getRefundOrderProviderInstance keeps_getUser keeps_outside split: sum.splits option.splits\<close>)
qed

lemma keeps_prepDeduct [pay_flow]:
  assumes "pay_stable A" and "\<And>r. pay_keeps A (k r)"
  shows "pay_keeps A (prepDeduct ord p force k)"
  unfolding prepDeduct_def Let_def
  using assms by (auto intro!: keeps_getUser keeps_tryRead split: sum.splits option.splits)

lemma keeps_PrepareRefund [pay_flow]:
  assumes "pay_stable A" and "\<And>r. pay_keeps A (k r)"
  shows "pay_keeps A (PrepareRefund oid amt reason force deduct k)"
  unfolding PrepareRefund_def
  by (rule keeps_getOrder_blind)
    (use assms in \<open>auto intro!: keeps_getRefundOrderProviderInstance keeps_prepDeduct split: sum.splits option.splits\<close>)

text \<open>Changes of users and subscriptions, with an event that is no credit, rebate or refund request.\<close>

lemma keeps_setUser_event:
  assumes "quiet ev" and "pay_stable A" and "\<And>r. pay_keeps A (k r)"
  shows "pay_keeps A (dbTry (\<lambda>e db. thenTx (setUser i (f e) db) (\<lambda>_ db1. Inr ((), record_event ev db1))) k)"
proof (rule keeps_dbTry_blind)
  fix e db x db'
  assume a: "pay_ok db" and w: "thenTx (setUser i (f e) db) (\<lambda>_ db1. Inr ((), record_event ev db1)) = Inr (x, db')"
  from w obtain y db1 where "setUser i (f e) db = Inr (y, db1)" "db' = record_event ev db1" by (auto simp: thenTx_Inr)
  with setUser_frame [OF this(1)] assms(1) show "pay_ok db' \<and> pay_rel db db'"
    by (intro conjI pay_ok_frame [OF a]) (auto simp: record_event_def)
qed (rule assms)+

lemma keeps_onSubs_event:
  assumes "quiet ev" and "pay_stable A" and "\<And>r. pay_keeps A (k r)"
  shows "pay_keeps A (dbTry (\<lambda>e db. thenTx (onSubs (f e) db) (\<lambda>_ db1. Inr ((), record_event ev db1))) k)"
proof (rule keeps_dbTry_blind)
  fix e db x db'
  assume a: "pay_ok db" and w: "thenTx (onSubs (f e) db) (\<lambda>_ db1. Inr ((), record_event ev db1)) = Inr (x, db')"
  from w obtain y db1 where "onSubs (f e) db = Inr (y, db1)" "db' = record_event ev db1" by (auto simp: thenTx_Inr)
  with onSubs_frame [OF this(1)] assms(1) show "pay_ok db' \<and> pay_rel db db'"
    by (intro conjI pay_ok_frame [OF a]) (auto simp: record_event_def)
qed (rule assms)+

lemma keeps_onSubs:
  assumes "pay_stable A" and "\<And>r. pay_keeps A (k r)"
  shows "pay_keeps A (dbTry (\<lambda>e db. onSubs (f e) db) k)"
proof (rule keeps_dbTry_blind)
  fix e db x db'
  assume a: "pay_ok db" and "onSubs (f e) db = Inr (x, db')"
  from onSubs_frame [OF this(2)] pay_ok_frame [OF a] show "pay_ok db' \<and> pay_rel db db'" by simp
qed (rule assms)+

lemma keeps_deductBalance [pay_flow]:
  "pay_stable A \<Longrightarrow> (\<And>r. pay_keeps A (k r)) \<Longrightarrow> pay_keeps A (deductBalance p k)"
  unfolding deductBalance_def DeductBalance_def by (rule keeps_setUser_event) simp_all

lemma keeps_deductDays [pay_flow]:
  "pay_stable A \<Longrightarrow> (\<And>r. pay_keeps A (k r)) \<Longrightarrow> pay_keeps A (deductDays cal p k)"
  unfolding deductDays_def by (rule keeps_onSubs_event) (auto intro!: keeps_onSubs split: sum.splits)

lemma keeps_RollbackRefund [pay_flow]:
  assumes "pay_stable A" and "\<And>r. pay_keeps A (k r)"
  shows "pay_keeps A (RollbackRefund cal p k)"
  unfolding RollbackRefund_def Let_def UpdateBalance_def
  using assms by (auto intro!: keeps_setUser_event keeps_onSubs keeps_writeAuditLog split: sum.splits)

text \<open>What comes after the lock knows that the order is credited.\<close>

lemma keeps_askRefund:
  assumes "pay_stable A" and "\<And>db. A db \<Longrightarrow> credited_order (rp_OrderID p) db" and "\<And>r. pay_keeps A (k r)"
  shows "pay_keeps A (askRefund p k)"
  unfolding askRefund_def
proof (rule keeps_exec [where Q = "\<lambda>_ _. True"])
  fix e db x db'
  assume a: "pay_ok db" "A db" "(ev_refund e, record_event (GatewayRefund (rp_OrderID p) (rp_GatewayAmount p)) db) = (x, db')"
  then have db': "db' = record_event (GatewayRefund (rp_OrderID p) (rp_GatewayAmount p)) db" by simp
  have same: "used c db' = used c db" "credits c db' = credits c db" "logged i act db' = logged i act db"
    "rebates i db' = rebates i db" "codes_ok db' = codes_ok db" "credited r db' = credited r db"
    "pd_orders db' = pd_orders db" for c i act r
    by (auto simp: db' record_event_def used_def rebates_def credits_def logged_def codes_ok_def credited_def)
  have "\<exists>r \<in> set (pd_orders db). po_ID r = i \<and> credited r db" if "GatewayRefund i b \<in> set (pd_log db')" for i b
    using that a(1) assms(2) [OF a(2)] by (auto simp: db' record_event_def credited_order_def pay_ok_def log_ok_def)
  then have "pay_ok db'" using a(1) unfolding pay_ok_def log_ok_def orders_ok_def same by blast
  moreover have "pay_rel db db'" by (rule pay_rel_same) (simp_all add: db' record_event_def)
  ultimately show "pay_ok db' \<and> pay_rel db db' \<and> A db' \<and> True" using assms(1) a(2) unfolding Interleaving.stable_def by blast
qed (use assms(1,3) in \<open>simp_all add: keeps_more\<close>)

lemma keeps_gwRefund:
  assumes "pay_stable A" and "\<And>db. A db \<Longrightarrow> credited_order (rp_OrderID p) db" and "\<And>r. pay_keeps A (k r)"
  shows "pay_keeps A (gwRefund p k)"
  unfolding gwRefund_def Let_def
  using assms by (auto intro!: keeps_writeAuditLog keeps_getRefundProvider keeps_askRefund split: sum.splits option.splits)

lemma keeps_refundOutcomes:
  assumes "pay_stable A" and "\<And>db. A db \<Longrightarrow> credited_order (rp_OrderID p) db" and "\<And>r. pay_keeps A (k r)"
  shows "pay_keeps A (markRefundOk p k)" and "pay_keeps A (markRefundPending cal p resp k)"
  unfolding markRefundOk_def markRefundPending_def
  by (intro keeps_outside keeps_RollbackRefund keeps_updateOneOrder;
      use assms in \<open>auto simp: core_def intro!: keeps_writeAuditLog keeps_writeAuditDetail split: sum.splits\<close>)+

lemma keeps_restoreStatus:
  assumes "pay_stable A" and "\<And>db. A db \<Longrightarrow> credited_order (rp_OrderID p) db" and "pay_keeps A k"
  shows "pay_keeps A (restoreStatus p k)"
  unfolding restoreStatus_def by (rule keeps_updateOneOrder) (use assms in \<open>auto simp: core_def\<close>)

lemma keeps_failOrder:
  assumes "pay_stable A" and "\<And>db. A db \<Longrightarrow> credited_order oid db" and "pay_keeps A k"
  shows "pay_keeps A (failOrder oid err k)"
  unfolding failOrder_def
  by (intro keeps_outside keeps_updateOneOrder keeps_writeAuditLog) (use assms in \<open>auto simp: core_def\<close>)

lemma keeps_handleGwFail:
  assumes "pay_stable A" and "\<And>db. A db \<Longrightarrow> credited_order (rp_OrderID p) db" and "\<And>r. pay_keeps A (k r)"
  shows "pay_keeps A (handleGwFail cal p err k)"
  unfolding handleGwFail_def
  by (rule keeps_RollbackRefund) (use assms in \<open>auto intro!: keeps_restoreStatus keeps_writeAuditLog keeps_failOrder\<close>)

lemma keeps_finishRefund:
  assumes "pay_stable A" and "\<And>db. A db \<Longrightarrow> credited_order (rp_OrderID p) db" and "\<And>r. pay_keeps A (k r)"
  shows "pay_keeps A (finishRefund cal p resp k)"
  unfolding finishRefund_def
  using assms by (auto intro!: keeps_handleGwFail keeps_refundOutcomes split: option.splits)

lemma keeps_deductForRefund:
  assumes "pay_stable A" and "\<And>db. A db \<Longrightarrow> credited_order (rp_OrderID p) db"
    and "\<And>q. rp_OrderID q = rp_OrderID p \<Longrightarrow> pay_keeps A (k (Inr q))" and "\<And>err. pay_keeps A (k (Inl err))"
  shows "pay_keeps A (deductForRefund cal p k)"
  unfolding deductForRefund_def
  using assms by (auto intro!: keeps_hasAuditLog keeps_deductBalance keeps_deductDays keeps_restoreStatus split: sum.splits)

lemma keeps_ExecuteRefund [pay_flow]:
  assumes "pay_stable A" and "\<And>r. pay_keeps A (k r)"
  shows "pay_keeps A (ExecuteRefund cal p k)"
  unfolding ExecuteRefund_def
proof (rule keeps_lock [where i = "rp_OrderID p"])
  let ?A = "\<lambda>db. A db \<and> credited_order (rp_OrderID p) db"
  fix c :: int
  have st: "pay_stable ?A" using assms(1) by blast
  have k: "pay_keeps ?A (k r)" for r using assms(2) by (rule keeps_more)
  have gw: "pay_keeps ?A (gwRefund q (\<lambda>rg. case rg of
        Inl err \<Rightarrow> handleGwFail cal q err k | Inr resp \<Rightarrow> finishRefund cal q resp k))"
    if "rp_OrderID q = rp_OrderID p" for q
    using that st k by (auto intro!: keeps_gwRefund keeps_handleGwFail keeps_finishRefund split: sum.splits)
  show "pay_keeps ?A (case Inr c of Inl err \<Rightarrow> k (Inl (OtherError ''lock'' (Some err)))
     | Inr c \<Rightarrow>
         (if c = 0 then k (Inl (Conflict ''CONFLICT'' ''order status changed''))
          else deductForRefund cal p (\<lambda>rd. case rd of
              Inl err \<Rightarrow> k (Inl err)
            | Inr p1 \<Rightarrow> gwRefund p1 (\<lambda>rg. case rg of
                Inl err \<Rightarrow> handleGwFail cal p1 err k
              | Inr resp \<Rightarrow> finishRefund cal p1 resp k))))"
    using k by (auto intro!: keeps_deductForRefund st gw)
qed (use assms in \<open>auto simp: core_def fulfilled_def psIsRefundStatus_def refundable_def\<close>)

lemma keeps_latestRefundPendingDetail [pay_flow]:
  "pay_stable A \<Longrightarrow> (\<And>r. pay_keeps A (k r)) \<Longrightarrow> pay_keeps A (latestRefundPendingDetail oid k)"
  unfolding latestRefundPendingDetail_def by (rule keeps_read)

lemma keeps_finalizeWith:
  assumes "pay_stable A" and "\<And>db. A db \<Longrightarrow> credited_order (rp_OrderID p) db" and "\<And>r. pay_keeps A (k r)"
  shows "pay_keeps A (finalizeWith cal ord p resp k)"
  unfolding finalizeWith_def applyRefundFinalDeduction_def
  using assms by (auto intro!: keeps_writeAuditLog keeps_hasAuditLog keeps_deductBalance keeps_deductDays keeps_refundOutcomes
      split: sum.splits)

lemma prepDeduct_order:
  assumes "pay_stable A" and "\<And>q. rp_OrderID q = rp_OrderID p \<Longrightarrow> pay_keeps A (k (Inr q))" and "\<And>e. pay_keeps A (k (Inl e))"
  shows "pay_keeps A (prepDeduct ord p force k)"
  unfolding prepDeduct_def Let_def
  using assms by (auto intro!: keeps_getUser keeps_tryRead split: sum.splits option.splits)

lemma keeps_QueryAndFinalizeRefund [pay_flow]:
  assumes "pay_stable A" and "\<And>r. pay_keeps A (k r)"
  shows "pay_keeps A (QueryAndFinalizeRefund cal oid k)"
  unfolding QueryAndFinalizeRefund_def
proof (rule keeps_getOrder, goal_cases)
  case (2 ord)
  let ?A = "\<lambda>db. A db \<and> sees ord db"
  have st: "pay_stable ?A" using assms(1) by blast
  have k: "pay_keeps ?A (k r)" for r using assms(2) by (rule keeps_more)
  have cr: "credited_order (po_ID ord) db" if "po_Status ord = OrderStatusRefundPending" "A db" "sees ord db" for db
    using that sees_credited_order by (auto simp: sees_def fulfilled_def psIsRefundStatus_def)
  have oid: "rp_OrderID (refundFinalizePlan ord) = po_ID ord" by (simp add: refundFinalizePlan_def Let_def)
  show ?case unfolding Let_def finalizeRefundFailed_def
    by (auto intro!: keeps_getRefundProvider keeps_latestRefundPendingDetail keeps_outside keeps_failOrder keeps_finalizeWith
        prepDeduct_order st k cr simp: oid split: sum.splits option.splits)
qed (use assms in simp_all)

subsection \<open>All handlers together\<close>

text \<open>
  The handlers that run concurrently: notifications of providers, fulfilment retries, cancellations,
  the background jobs, order queries, redemptions and codes made by administrators, and refunds.  A refund plan is
  arbitrary, so that it may be stale.  Batch updates and deletions of codes are left out: they are the
  ones that break the invariant.
\<close>

inductive payment_handler :: "pay_service \<Rightarrow> unit pay_flow \<Rightarrow> bool" for S where
  "payment_handler S (HandlePaymentNotification S n pk (\<lambda>_. Done ()))"
| "payment_handler S (RetryFulfillment S oid (\<lambda>_. Done ()))"
| "payment_handler S (CancelOrder S oid uid (\<lambda>_. Done ()))"
| "payment_handler S (AdminCancelOrder S oid (\<lambda>_. Done ()))"
| "payment_handler S (ExpireTimedOutOrders S (\<lambda>_. Done ()))"
| "payment_handler S (ReconcilePendingWxpayOrders S (\<lambda>_. Done ()))"
| "payment_handler S (VerifyOrderByOutTradeNo S raw uid (\<lambda>_. Done ()))"
| "payment_handler S (VerifyOrderPublic raw (\<lambda>_. Done ()))"
| "payment_handler S (Redeem (sv_cal S) uid code (\<lambda>_. Done ()))"
| "payment_handler S (CreateCode rc (\<lambda>_. Done ()))"
| "payment_handler S (RequestRefund oid uid reason (\<lambda>_. Done ()))"
| "payment_handler S (PrepareRefund oid amt reason force deduct (\<lambda>r. case r of
      Inr (Inr p) \<Rightarrow> ExecuteRefund (sv_cal S) p (\<lambda>_. Done ()) | _ \<Rightarrow> Done ()))"
| "payment_handler S (ExecuteRefund (sv_cal S) p (\<lambda>_. Done ()))"
| "payment_handler S (QueryAndFinalizeRefund (sv_cal S) oid (\<lambda>_. Done ()))"

lemma payment_handler_keeps: "payment_handler S p \<Longrightarrow> pay_keeps (\<lambda>_. True) p"
proof (induction rule: payment_handler.induct)
  case (9 uid code)
  show ?case by (rule keeps_Redeem) (auto intro: keeps_Done)
next
  case (12 oid amt reason force deduct)
  show ?case by (rule keeps_PrepareRefund) (auto intro: keeps_Done keeps_ExecuteRefund split: sum.splits)
qed (rule pay_flow; (rule pay_flow)?; simp)+

interpretation payments: guarded_handlers "payment_handler S" pay_ok pay_rel for S
  by unfold_locales (rule payment_handler_keeps)

lemmas payments_ok = payments.ok_reachable

end
