(* ===== verification/PaymentRuns.thy ===== *)
theory PaymentRuns
  imports PaymentRefund
begin

section \<open>One payment handler, undisturbed\<close>

text \<open>
  \<open>completes e p db Q\<close>: run on its own from \<open>db\<close>, with \<open>e\<close> the environment of every action, the handler \<open>p\<close>
  returns, and \<open>Q\<close> holds of its result and of the store.  When no statement fails, the rules
  for the actions are equations, so that the simplifier runs a handler symbolically.
\<close>

definition completes :: "pay_env \<Rightarrow> 'r pay_flow \<Rightarrow> pay_db \<Rightarrow> ('r \<Rightarrow> pay_db \<Rightarrow> bool) \<Rightarrow> bool" where
  "completes e p db Q \<longleftrightarrow> (\<exists>n r db'. run_flow (replicate n e) p db = (Done r, db') \<and> Q r db')"

lemma completes_Done [simp]: "completes e (Done r) db Q \<longleftrightarrow> Q r db"
proof -
  have "run_flow (replicate n e) (Done r) db = (Done r, db)" for n by (cases n) simp_all
  then show ?thesis by (simp add: completes_def)
qed

lemma completes_exec: "completes e (exec op k) db Q \<longleftrightarrow> (case op e db of (x, d) \<Rightarrow> completes e (k x) d Q)"
proof
  assume "completes e (exec op k) db Q"
  then obtain n r db' where n: "run_flow (replicate n e) (exec op k) db = (Done r, db')" "Q r db'"
    by (auto simp: completes_def)
  then show "case op e db of (x, d) \<Rightarrow> completes e (k x) d Q"
    by (cases n) (auto simp: completes_def exec_def split: prod.splits)
next
  assume "case op e db of (x, d) \<Rightarrow> completes e (k x) d Q"
  then obtain x d n r db' where "op e db = (x, d)" "run_flow (replicate n e) (k x) d = (Done r, db')" "Q r db'"
    by (auto simp: completes_def split: prod.splits)
  then have "run_flow (replicate (Suc n) e) (exec op k) db = (Done r, db') \<and> Q r db'" by simp
  then show "completes e (exec op k) db Q" unfolding completes_def by blast
qed

definition calm :: "pay_env \<Rightarrow> bool" where
  "calm e \<longleftrightarrow> ev_fault e = NoFault"

lemma completes_outside [simp]: "completes e (outside f k) db Q \<longleftrightarrow> completes e (k (f e)) db Q"
  by (simp add: outside_def completes_exec)

lemma completes_dbCall [simp]:
  "calm e \<Longrightarrow> completes e (dbCall op k) db Q \<longleftrightarrow> (case op e db of (x, d) \<Rightarrow> completes e (k (Inr x)) d Q)"
  by (simp add: dbCall_def completes_exec calm_def faulty_def split: prod.splits)

lemma completes_dbTry [simp]:
  "calm e \<Longrightarrow> completes e (dbTry op k) db Q \<longleftrightarrow>
    (case op e db of Inl err \<Rightarrow> completes e (k (Inl err)) db Q | Inr (x, d) \<Rightarrow> completes e (k (Inr x)) d Q)"
  by (simp add: dbTry_def split: sum.splits prod.splits)

subsection \<open>Statements\<close>

definition audited :: "pay_env \<Rightarrow> int \<Rightarrow> string \<Rightarrow> string \<Rightarrow> string \<Rightarrow> bool \<Rightarrow> pay_db \<Rightarrow> pay_db" where
  "audited e oid action op rid ok db =
     (if logged oid action db then db
      else db\<lparr>pd_audit := pd_audit db @ [\<lparr>al_OrderID = oid, al_Action = action, al_Operator = op, al_RefundID = rid,
        al_RollbackOK = ok, al_CreatedAt = ev_now e\<rparr>]\<rparr>)"

lemma audited_simps [simp]:
  "pd_users (audited e oid a op rid ok db) = pd_users db" "pd_codes (audited e oid a op rid ok db) = pd_codes db"
  "pd_nextCodeID (audited e oid a op rid ok db) = pd_nextCodeID db" "pd_orders (audited e oid a op rid ok db) = pd_orders db"
  "pd_instances (audited e oid a op rid ok db) = pd_instances db" "pd_log (audited e oid a op rid ok db) = pd_log db"
  by (simp_all add: audited_def)

lemma logged_audited [simp]:
  "logged i b (audited e oid a op rid ok db) \<longleftrightarrow> logged i b db \<or> i = oid \<and> b = a"
  by (auto simp: audited_def logged_def)

lemma completes_writeAuditDetail [simp]:
  "calm e \<Longrightarrow> completes e (writeAuditDetail oid a op rid ok k) db Q \<longleftrightarrow> completes e k (audited e oid a op rid ok db) Q"
  by (simp add: writeAuditDetail_def insertAudit_def audited_def)

lemma completes_writeAuditLog [simp]:
  "calm e \<Longrightarrow> completes e (writeAuditLog oid a op k) db Q \<longleftrightarrow> completes e k (audited e oid a op '''' True db) Q"
  by (simp add: writeAuditLog_def)

lemma completes_getOrder [simp]:
  "calm e \<Longrightarrow> completes e (getOrder i k) db Q \<longleftrightarrow>
    (case findOrder i db of None \<Rightarrow> completes e (k (Inl ErrNotFound)) db Q | Some r \<Rightarrow> completes e (k (Inr r)) db Q)"
  by (simp add: getOrder_def split: option.splits)

lemma completes_getUser [simp]:
  "calm e \<Longrightarrow> completes e (getUser i k) db Q \<longleftrightarrow>
    (case findUser i db of None \<Rightarrow> completes e (k (Inl ErrUserNotFound)) db Q | Some r \<Rightarrow> completes e (k (Inr r)) db Q)"
  by (simp add: getUser_def split: option.splits)

lemma completes_hasAuditLog [simp]:
  "calm e \<Longrightarrow> completes e (hasAuditLog i a k) db Q \<longleftrightarrow> completes e (k (logged i a db)) db Q"
  by (simp add: hasAuditLog_def)

lemma completes_getInstance [simp]:
  "calm e \<Longrightarrow> completes e (getInstance i k) db Q \<longleftrightarrow>
    (case List.find (\<lambda>p. pi_ID p = i) (pd_instances db) of
       None \<Rightarrow> completes e (k (Inl ErrNotFound)) db Q | Some r \<Rightarrow> completes e (k (Inr r)) db Q)"
  by (simp add: getInstance_def split: option.splits)

lemma completes_updateOrders [simp]:
  "calm e \<Longrightarrow> completes e (updateOrders p f k) db Q \<longleftrightarrow>
    completes e (k (Inr (int (length (filter p (pd_orders db)))))) (setOrders (ev_now e) p f db) Q"
  by (simp add: updateOrders_def)

lemma completes_updateOneOrder [simp]:
  "calm e \<Longrightarrow> completes e (updateOneOrder i f k) db Q \<longleftrightarrow>
    (case findOrder i db of
       None \<Rightarrow> completes e (k (Inl ErrNotFound)) db Q
     | Some _ \<Rightarrow> completes e (k (Inr ())) (setOrders (ev_now e) (\<lambda>r. po_ID r = i) f db) Q)"
  by (simp add: updateOneOrder_def split: option.splits)

text \<open>Where a row is found after an update.\<close>

lemma setOrders_frame [simp]:
  "pd_users (setOrders now p f db) = pd_users db" "pd_codes (setOrders now p f db) = pd_codes db"
  "pd_nextCodeID (setOrders now p f db) = pd_nextCodeID db" "pd_instances (setOrders now p f db) = pd_instances db"
  "pd_log (setOrders now p f db) = pd_log db" "logged i a (setOrders now p f db) = logged i a db"
  by (simp_all add: setOrders_def logged_def)

lemma find_map_ID:
  "(\<And>x. i (g x) = i x) \<Longrightarrow> List.find (\<lambda>x. i x = j) (map g xs) = map_option g (List.find (\<lambda>x. i x = j) xs)"
  by (induction xs) auto

lemma findOrder_setOrders:
  assumes "\<And>r. po_ID (f r) = po_ID r"
  shows "findOrder i (setOrders now p f db) =
    map_option (\<lambda>r. if p r then (f r)\<lparr>po_UpdatedAt := now\<rparr> else r) (findOrder i db)"
  unfolding findOrder_def setOrders_def by (simp add: find_map_ID assms)

lemma findOrder_frame: "pd_orders db' = pd_orders db \<Longrightarrow> findOrder i db' = findOrder i db"
  by (simp add: findOrder_def)

lemma findUser_frame: "pd_users db' = pd_users db \<Longrightarrow> findUser i db' = findUser i db"
  by (simp add: findUser_def)

lemma findOrder_audited [simp]: "findOrder i (audited e oid a op rid ok db) = findOrder i db"
  by (simp add: findOrder_def)

lemma findUser_more [simp]:
  "findUser i (audited e oid a op rid ok db) = findUser i db" "findUser i (setOrders now p f db) = findUser i db"
  by (simp_all add: findUser_def)

lemma findOrder_more [simp]:
  "findOrder i (db\<lparr>pd_users := us\<rparr>) = findOrder i db" "findOrder i (db\<lparr>pd_log := l\<rparr>) = findOrder i db"
  by (simp_all add: findOrder_def)

lemma findOrder_Some: "findOrder i db = Some r \<Longrightarrow> r \<in> set (pd_orders db) \<and> po_ID r = i"
  by (auto simp: findOrder_def find_Some_iff)

lemma updated_rows:
  assumes "findOrder i db = Some r" and "p r"
  shows "filter p (pd_orders db) \<noteq> []"
  using findOrder_Some [OF assms(1)] assms(2) by (auto simp: filter_empty_conv)

subsection \<open>Codes\<close>

definition usedCodes :: "pay_env \<Rightarrow> int \<Rightarrow> int \<Rightarrow> RedeemCode list \<Rightarrow> RedeemCode list" where
  "usedCodes e i u = map (\<lambda>r. if rc_ID r = i \<and> rc_Status r = StatusUnused
     then r\<lparr>rc_Status := StatusUsed, rc_UsedBy := Some u, rc_UsedAt := Some (ev_now e)\<rparr> else r)"

definition addBalance :: "int \<Rightarrow> rat \<Rightarrow> pay_user list \<Rightarrow> pay_user list" where
  "addBalance i amount = map (\<lambda>u. if u_ID u = i then u\<lparr>u_Balance := u_Balance u + amount,
     u_TotalRecharged := (if amount > 0 then u_TotalRecharged u + amount else u_TotalRecharged u)\<rparr> else u)"

text \<open>A code for a balance, redeemed: the code is used, the balance has grown.\<close>

definition redeemed :: "pay_env \<Rightarrow> RedeemCode \<Rightarrow> int \<Rightarrow> pay_db \<Rightarrow> pay_db" where
  "redeemed e rc u db = record_event (Credited (rc_Code rc) u (rc_Value rc))
     (db\<lparr>pd_codes := usedCodes e (rc_ID rc) u (pd_codes db), pd_users := addBalance u (rc_Value rc) (pd_users db)\<rparr>)"

definition balanceCode :: "RedeemCode \<Rightarrow> bool" where
  "balanceCode rc \<longleftrightarrow> rc_Status rc = StatusUnused \<and> rc_ExpiresAt rc = None \<and> rc_Type rc = RedeemTypeBalance \<and> 0 \<le> rc_Value rc"

lemma completes_Redeem:
  assumes e: "calm e" "ev_lock e" "case ev_attempts e of None \<Rightarrow> True | Some n \<Rightarrow> n < redeemMaxErrorsPerHour"
    and rc: "codeNamed code db = Some rc" "balanceCode rc" and user: "findUser u db \<noteq> None"
    and k: "\<And>rc'. completes e (k (Inr rc')) (redeemed e rc u db) Q"
  shows "completes e (Redeem cal u code k) db Q"
proof -
  obtain x where x: "findUser u db = Some x" using user by blast
  have inset: "rc \<in> set (pd_codes db)" "rc_Code rc = code" using rc(1) by (auto simp: codeNamed_def find_Some_iff)
  have st: "rc_Status rc = StatusUnused" "rc_ExpiresAt rc = None" "rc_Type rc = RedeemTypeBalance" "0 \<le> rc_Value rc"
    using rc(2) by (simp_all add: balanceCode_def)
  have can: "CanUse now rc" "\<not> IsExpiredAt now rc" for now
    by (simp_all add: CanUse_def IsExpiredAt_def st redeem_consts)
  have ex: "list_ex (\<lambda>r. rc_ID r = rc_ID rc \<and> rc_Status r = StatusUnused) (pd_codes db)"
    using inset st by (auto simp: list_ex_iff)
  have tx: "redeemTx cal u rc x e db = Inr ((), redeemed e rc u db)"
    using ex st x by (simp add: redeemTx_def codes_Use_def Let_def thenTx_def UpdateBalance_def setUser_def findUser_def
        redeemed_def usedCodes_def addBalance_def)
  have "codeWithID (rc_ID rc) (redeemed e rc u db) \<noteq> None"
    using inset(1) by (auto simp: codeWithID_def redeemed_def record_event_def usedCodes_def find_map_ID find_None_iff)
  then obtain rc' where rc': "codeWithID (rc_ID rc) (redeemed e rc u db) = Some rc'" by blast
  have "\<not> (case ev_attempts e of None \<Rightarrow> False | Some n \<Rightarrow> redeemMaxErrorsPerHour \<le> n)"
    using e(3) by (auto split: option.splits)
  then show ?thesis using e(1,2) rc(1) x st tx can k [of rc'] rc'
    by (simp add: Redeem_def codes_GetByCode_def redeemValidated_def afterRedeem_def codes_GetByID_def)
qed

lemma find_append: "List.find P (xs @ ys) = (case List.find P xs of None \<Rightarrow> List.find P ys | Some x \<Rightarrow> Some x)"
  by (induction xs) simp_all

definition withCode :: "RedeemCode \<Rightarrow> pay_db \<Rightarrow> pay_db" where
  "withCode rc db = db\<lparr>pd_codes := pd_codes db @ [rc\<lparr>rc_ID := pd_nextCodeID db\<rparr>], pd_nextCodeID := pd_nextCodeID db + 1\<rparr>"

lemma completes_CreateCode:
  assumes "calm e" and "codeNamed (po_RechargeCode ord) db = None" and "po_Amount ord > 0"
    and "trim_space (po_RechargeCode ord) = po_RechargeCode ord" and "po_RechargeCode ord \<noteq> ''''"
  shows "completes e (CreateCode (rechargeCode ord) k) db Q \<longleftrightarrow> completes e (k (Inr ())) (withCode (rechargeCode ord) db) Q"
  using assms by (simp add: CreateCode_def Let_def rechargeCode_def IsExpiredAt_def codes_Create_def withCode_def
      RedeemTypeBalance_def StatusUnused_def StatusExpired_def RedeemTypeInvitation_def)

subsection \<open>Fulfilment\<close>

text \<open>After the rebate, whatever its amount, only the audit log and the record of events have changed.\<close>

lemma completes_applyAffiliateRebate:
  assumes "calm e" and "\<not> isl (ev_rebate e)"
    and "\<And>A L. completes e (k None) (db\<lparr>pd_audit := A, pd_log := L\<rparr>) Q"
  shows "completes e (applyAffiliateRebateForOrder S ord k) db Q"
proof -
  have same: "completes e (k None) db Q" using assms(3) [where A = "pd_audit db" and L = "pd_log db"] by simp
  have aud: "completes e (k None) (db\<lparr>pd_audit := A\<rparr>) Q" for A using assms(3) [where A = A and L = "pd_log db"] by simp
  obtain x where "ev_rebate e = Inr x" using assms(2) by (cases "ev_rebate e") auto
  then show ?thesis using assms(1) same aud assms(3)
    by (auto simp: applyAffiliateRebateForOrder_def rebateTx_def Let_def insertAudit_def thenTx_def record_event_def)
qed

lemma completes_finishBalance:
  assumes e: "calm e" "\<not> isl (ev_rebate e)"
    and ord: "findOrder (po_ID ord) db = Some r" "po_Status r = OrderStatusRecharging"
    and Q: "\<And>db' r'. pd_users db' = pd_users db \<Longrightarrow> findOrder (po_ID ord) db' = Some r' \<Longrightarrow>
      po_Status r' = OrderStatusCompleted \<Longrightarrow> completes e (k None) db' Q"
  shows "completes e (finishBalance S ord k) db Q"
  unfolding finishBalance_def
proof (rule completes_applyAffiliateRebate [OF e])
  fix A L
  have "findOrder (po_ID ord) (db\<lparr>pd_audit := A, pd_log := L\<rparr>) = Some r" using ord(1) by (simp add: findOrder_def)
  then show "completes e (case None of None \<Rightarrow> markCompleted ord ''RECHARGE_SUCCESS'' k | Some _ \<Rightarrow> k None)
      (db\<lparr>pd_audit := A, pd_log := L\<rparr>) Q"
    using e(1) ord findOrder_Some [OF ord(1)] by (auto simp: markCompleted_def findOrder_setOrders intro!: Q)
qed

text \<open>What a fresh balance order needs to be credited, and the environment that lets it.\<close>

definition creditable :: "PaymentOrder \<Rightarrow> pay_db \<Rightarrow> bool" where
  "creditable ord db \<longleftrightarrow> po_OrderType ord = OrderTypeBalance \<and> po_Amount ord > 0 \<and> findUser (po_UserID ord) db \<noteq> None \<and>
     codeNamed (po_RechargeCode ord) db = None \<and> trim_space (po_RechargeCode ord) = po_RechargeCode ord \<and>
     po_RechargeCode ord \<noteq> ''''"

definition smooth :: "pay_env \<Rightarrow> bool" where
  "smooth e \<longleftrightarrow> calm e \<and> ev_lock e \<and> \<not> isl (ev_rebate e) \<and>
     (case ev_attempts e of None \<Rightarrow> True | Some n \<Rightarrow> n < redeemMaxErrorsPerHour)"

lemma smooth_calm: "smooth e \<Longrightarrow> calm e"
  by (simp add: smooth_def)

lemma completes_doBalance:
  assumes e: "smooth e" and new: "creditable ord db"
    and ord: "findOrder (po_ID ord) db = Some r" "po_Status r = OrderStatusRecharging"
    and Q: "\<And>db' r'. pd_users db' = addBalance (po_UserID ord) (po_Amount ord) (pd_users db) \<Longrightarrow>
      findOrder (po_ID ord) db' = Some r' \<Longrightarrow> po_Status r' = OrderStatusCompleted \<Longrightarrow> completes e (k None) db' Q"
  shows "completes e (doBalance S ord k) db Q"
proof -
  let ?rc = "(rechargeCode ord)\<lparr>rc_ID := pd_nextCodeID db\<rparr>"
  let ?db1 = "withCode (rechargeCode ord) db"
  let ?db2 = "redeemed e ?rc (po_UserID ord) ?db1"
  have c: "calm e" using e by (rule smooth_calm)
  have named: "codeNamed (po_RechargeCode ord) ?db1 = Some ?rc"
    using new by (simp add: creditable_def codeNamed_def withCode_def find_append rechargeCode_def)
  have bal: "balanceCode ?rc" using new by (simp add: balanceCode_def rechargeCode_def creditable_def)
  have user: "findUser (po_UserID ord) ?db1 \<noteq> None" using new by (simp add: creditable_def findUser_def withCode_def)
  have ord2: "findOrder (po_ID ord) ?db2 = Some r"
    using ord(1) by (simp add: findOrder_def redeemed_def record_event_def withCode_def)
  have users: "pd_users ?db2 = addBalance (po_UserID ord) (po_Amount ord) (pd_users db)"
    by (simp add: redeemed_def record_event_def withCode_def rechargeCode_def)
  have fin: "completes e (finishBalance S ord k) ?db2 Q"
    by (rule completes_finishBalance [OF c _ ord2 ord(2)]) (use e users Q in \<open>simp_all add: smooth_def\<close>)
  have "completes e (redeemBalance S ord k) ?db1 Q"
    unfolding redeemBalance_def
    by (rule completes_Redeem [OF c _ _ named bal user]) (use e fin in \<open>simp_all add: smooth_def\<close>)
  moreover have "completes e (GetByCode (po_RechargeCode ord) k') db Q \<longleftrightarrow>
      completes e (k' (Inl (OtherError ''get redeem code'' (Some ErrRedeemCodeNotFound)))) db Q" for k'
    using new c by (simp add: GetByCode_def codes_GetByCode_def creditable_def)
  ultimately show ?thesis unfolding doBalance_def
    using new c by (simp add: resolveRedeemAction_def completes_CreateCode creditable_def)
qed

lemma completes_executeFulfillment:
  assumes e: "smooth e" and ord: "findOrder i db = Some ord" "po_Status ord = OrderStatusPaid"
    and new: "creditable ord db"
    and Q: "\<And>db' r'. pd_users db' = addBalance (po_UserID ord) (po_Amount ord) (pd_users db) \<Longrightarrow>
      findOrder i db' = Some r' \<Longrightarrow> po_Status r' = OrderStatusCompleted \<Longrightarrow> completes e (k None) db' Q"
  shows "completes e (executeFulfillment S i k) db Q"
proof -
  have c: "calm e" using e by (rule smooth_calm)
  have i: "po_ID ord = i" using findOrder_Some [OF ord(1)] by simp
  let ?db1 = "setOrders (ev_now e) (\<lambda>r. po_ID r = i \<and> po_Status r \<in> {OrderStatusPaid, OrderStatusFailed})
     (\<lambda>r. r\<lparr>po_Status := OrderStatusRecharging\<rparr>) db"
  have ord1: "\<exists>r. findOrder (po_ID ord) ?db1 = Some r \<and> po_Status r = OrderStatusRecharging"
    using ord i by (simp add: findOrder_setOrders)
  have new1: "creditable ord ?db1" using new by (simp add: creditable_def codeNamed_def)
  have n: "filter (\<lambda>r. po_ID r = i \<and> (po_Status r = OrderStatusPaid \<or> po_Status r = OrderStatusFailed)) (pd_orders db) \<noteq> []"
    by (rule updated_rows [OF ord(1)]) (use i ord in simp)
  obtain r where r: "findOrder (po_ID ord) ?db1 = Some r" "po_Status r = OrderStatusRecharging" using ord1 by blast
  have "completes e (doBalance S ord k') ?db1 Q" if "k' None = k None" for k'
    by (rule completes_doBalance [OF e new1 r]) (use Q that i in simp)
  moreover have "fulfilGuard ord = None" using ord(2) by (simp add: fulfilGuard_def psIsRefundStatus_def)
  moreover have "po_OrderType ord \<noteq> OrderTypeSubscription"
    using new by (simp add: creditable_def OrderTypeBalance_def OrderTypeSubscription_def)
  ultimately show ?thesis using c ord i n
    by (simp add: executeFulfillment_def ExecuteBalanceFulfillment_def fulfilLocked_def lockRecharging_def)
qed

subsection \<open>Notifications\<close>

lemma completes_toPaid:
  assumes e: "smooth e" and ord: "findOrder (po_ID ord) db = Some ord" "payable (ev_now e - paymentGrace) ord"
    and new: "creditable ord db"
    and Q: "\<And>db' r'. pd_users db' = addBalance (po_UserID ord) (po_Amount ord) (pd_users db) \<Longrightarrow>
      findOrder (po_ID ord) db' = Some r' \<Longrightarrow> po_Status r' = OrderStatusCompleted \<Longrightarrow> completes e (k None) db' Q"
  shows "completes e (toPaid S ord tradeNo paid pk k) db Q"
proof -
  have c: "calm e" using e by (rule smooth_calm)
  let ?p = "\<lambda>r. po_ID r = po_ID ord \<and> payable (ev_now e - paymentGrace) r"
  let ?f = "\<lambda>r. r\<lparr>po_Status := OrderStatusPaid, po_PayAmount := dec_round 2 paid, po_PaymentTradeNo := tradeNo,
              po_PaidAt := Some (ev_now e), po_FailedAt := None, po_FailedReason := None\<rparr>"
  let ?db1 = "setOrders (ev_now e) ?p ?f db"
  define ord1 where "ord1 = (?f ord)\<lparr>po_UpdatedAt := ev_now e\<rparr>"
  have found: "findOrder (po_ID ord) ?db1 = Some ord1" using ord by (simp add: findOrder_setOrders ord1_def)
  have same: "po_ID ord1 = po_ID ord" "po_UserID ord1 = po_UserID ord" "po_Amount ord1 = po_Amount ord"
    "po_Status ord1 = OrderStatusPaid" by (simp_all add: ord1_def)
  have new1: "creditable ord1 db1" if "pd_users db1 = pd_users db" "pd_codes db1 = pd_codes db" for db1
    using new that by (simp add: creditable_def ord1_def codeNamed_def findUser_def)
  have n: "filter ?p (pd_orders db) \<noteq> []" by (rule updated_rows [OF ord(1)]) (use ord in simp)
  have "completes e (executeFulfillment S (po_ID ord) k) db1 Q"
    if "findOrder (po_ID ord) db1 = Some ord1" "pd_users db1 = pd_users db" "pd_codes db1 = pd_codes db" for db1
    by (rule completes_executeFulfillment [OF e that(1) same(4) new1 [OF that(2,3)]]) (use Q that same in simp)
  with c n found show ?thesis unfolding toPaid_def by simp
qed

end
