(* ===== verification/PaymentProperties.thy ===== *)
theory PaymentProperties
  imports PaymentHandlers PaymentRuns
begin

section \<open>Properties of payments\<close>

text \<open>
  What holds of any interleaving of the payment handlers, what one undisturbed handler achieves, the bounds
  on amounts, and the races that the code allows.
\<close>

subsection \<open>A store to run on\<close>

text \<open>One user, one order that waits for its payment, one provider instance.\<close>

definition exOrder :: PaymentOrder where
  "exOrder = \<lparr>po_ID = 1, po_UserID = 5, po_Amount = 10, po_PayAmount = 10, po_RechargeCode = ''PAY-1'',
     po_OutTradeNo = ''sub2_x1'', po_PaymentType = ''alipay'', po_PaymentTradeNo = '''', po_OrderType = OrderTypeBalance,
     po_SubscriptionGroupID = None, po_SubscriptionDays = None, po_ProviderInstanceID = Some ''7'',
     po_ProviderKey = Some ''alipay'', po_ProviderSnapshot = [], po_Status = OrderStatusPending, po_RefundAmount = 0,
     po_RefundReason = None, po_RefundAt = None, po_ForceRefund = False, po_RefundRequestedAt = None,
     po_RefundRequestReason = None, po_RefundRequestedBy = None, po_ExpiresAt = 1000, po_PaidAt = None,
     po_CompletedAt = None, po_FailedAt = None, po_FailedReason = None, po_CreatedAt = 0, po_UpdatedAt = 0\<rparr>"

text \<open>The same order with the snapshot that \<open>buildPaymentOrderProviderSnapshot\<close> takes of an Alipay instance.\<close>

definition exSnapOrder :: PaymentOrder where
  "exSnapOrder = exOrder\<lparr>po_ProviderSnapshot := [(''schema_version'', SnapNumber 2), (''provider_instance_id'', SnapString ''7''),
     (''provider_key'', SnapString ''alipay''), (''merchant_app_id'', SnapString ''app1'')]\<rparr>"

definition exPayDB :: pay_db where
  "exPayDB = \<lparr>pd_users = [\<lparr>u_ID = 5, u_Balance = 3, u_Concurrency = 1, u_TotalRecharged = 0\<rparr>], pd_codes = [],
     pd_nextCodeID = 1, pd_orders = [exOrder], pd_audit = [],
     pd_instances = [\<lparr>pi_ID = 7, pi_ProviderKey = ''alipay'', pi_SupportedTypes = '''', pi_RefundEnabled = True,
       pi_AllowUserRefund = True\<rparr>],
     pd_subs = \<lparr>db_subs = [], db_nextID = 1, db_groups = (\<lambda>_. None)\<rparr>, pd_groupStatus = (\<lambda>_. None), pd_log = []\<rparr>"

definition exProvider :: pay_provider where
  "exProvider = \<lparr>pv_Key = ''alipay'', pv_Identity = [], pv_CanQueryRefund = True, pv_CanCancel = True\<rparr>"

definition exPayEnv :: pay_env where
  "exPayEnv = \<lparr>ev_now = 100, ev_fault = NoFault, ev_provider = Inr exProvider,
     ev_query = Inr \<lparr>qo_Status = ''paid'', qo_TradeNo = ''T1'', qo_Amount = Finite 10, qo_Metadata = []\<rparr>,
     ev_refund = (Some \<lparr>rr_Status = ''success'', rr_RefundID = ''R1''\<rparr>, None),
     ev_queryRefund = Inr (Some \<lparr>rr_Status = ''success'', rr_RefundID = ''R1''\<rparr>),
     ev_rebate = Inr 1, ev_attempts = Some 0, ev_lock = True\<rparr>"

definition exService :: pay_service where
  "exService = \<lparr>sv_cal = utc, sv_reg = (\<lambda>_. ''''), sv_affiliate = True\<rparr>"

definition exPaid :: PaymentNotification where
  "exPaid = \<lparr>pn_TradeNo = ''T1'', pn_OrderID = ''sub2_x1'', pn_Amount = Finite 10, pn_Status = ''success'', pn_Metadata = []\<rparr>"

definition exNotify :: "unit pay_flow" where
  "exNotify = HandlePaymentNotification exService exPaid ''alipay'' (\<lambda>_. Done ())"

text \<open>The provider notifies twice, and a refund follows.\<close>

definition exSchedule :: "(pay_env, unit pay_flow) schedule_step list" where
  "exSchedule = [Begin exNotify, Begin exNotify] @ concat (replicate 30 [Act 0 exPayEnv, Act 1 exPayEnv]) @
     [Begin (PrepareRefund 1 (Finite 4) '''' False True (\<lambda>r. case r of
      Inr (Inr p) \<Rightarrow> ExecuteRefund (sv_cal exService) p (\<lambda>_. Done ()) | _ \<Rightarrow> Done ()))] @ replicate 20 (Act 2 exPayEnv)"

definition exEnd :: pay_db where
  "exEnd = snd (run_schedule exSchedule ([], exPayDB))"

lemma begun_append [simp]: "begun (xs @ ys) = begun xs @ begun ys"
  by (induction xs rule: begun.induct) simp_all

lemma begun_replicate [simp]: "begun xs = [] \<Longrightarrow> begun (concat (replicate n xs)) = []" "begun (replicate n (Act a e)) = []"
  by (induction n) simp_all

lemma exEnd_run: "(interleave (payment_handler exService))\<^sup>*\<^sup>* ([], exPayDB) (run_schedule exSchedule ([], exPayDB))"
  by (rule run_schedule_interleaves) (simp add: exSchedule_def exNotify_def payment_handler.intros)

lemma exPayDB_ok: "pay_ok exPayDB"
  by (simp add: pay_ok_def codes_ok_def log_ok_def orders_ok_def exPayDB_def exOrder_def credits_def rebates_def
      fulfilled_def psIsRefundStatus_def)

lemma exEnd_state:
  "(pd_log exEnd, map (\<lambda>r. (po_ID r, po_Status r, po_RechargeCode r, po_OrderType r)) (pd_orders exEnd)) =
     ([Credited ''PAY-1'' 5 10, RebateAccrued 1 1, BalanceDeducted 1 4, GatewayRefund 1 4],
      [(1, OrderStatusPartiallyRefunded, ''PAY-1'', ''balance'')])"
  by code_simp

lemmas exEnd_log = exEnd_state [THEN arg_cong [where f = fst], unfolded fst_conv]
lemmas exEnd_order = exEnd_state [THEN arg_cong [where f = snd], unfolded snd_conv]

subsection \<open>Any interleaving\<close>

text \<open>C6: Exactly-once credit: whatever notifications, retries, redemptions, cancellations, expiry and reconciliation jobs and
  refunds run concurrently, crash or fail at any statement, a recharge code is credited to a balance at most once, and
  only if it is marked used.\<close>

theorem credited_at_most_once:
  assumes "(interleave (payment_handler S))\<^sup>*\<^sup>* ([], db0) (ps, db)" and "pay_ok db0"
  shows "credits c db \<le> 1 \<and> (credits c db = 1 \<longrightarrow> used c db)"
  using payments_ok [OF assms] by (auto simp: pay_ok_def log_ok_def)

theorem credited_at_most_once_witness:
  "credits ''PAY-1'' exEnd = 1 \<and> credits ''PAY-1'' exEnd \<le> 1 \<and> used ''PAY-1'' exEnd"
proof -
  have "credits ''PAY-1'' exEnd = 1" by (simp add: credits_def exEnd_log)
  with credited_at_most_once [of exService exPayDB "fst (run_schedule exSchedule ([], exPayDB))" exEnd "''PAY-1''"]
    exEnd_run exPayDB_ok show ?thesis by (simp add: exEnd_def)
qed

text \<open>C7: No order is fulfilled without payment of its credit: an order whose status is COMPLETED, or any status of a
  refund, is either a subscription order or has its recharge code used, in every reachable state.\<close>

theorem fulfilled_order_is_credited:
  assumes "(interleave (payment_handler S))\<^sup>*\<^sup>* ([], db0) (ps, db)" and "pay_ok db0"
    and "r \<in> set (pd_orders db)" and "po_Status r = OrderStatusCompleted \<or> psIsRefundStatus (po_Status r)"
  shows "po_OrderType r = OrderTypeSubscription \<or> used (po_RechargeCode r) db"
  using payments_ok [OF assms(1,2)] assms(3,4) by (auto simp: pay_ok_def orders_ok_def fulfilled_def credited_def)

theorem fulfilled_order_is_credited_witness:
  "\<exists>r \<in> set (pd_orders exEnd). po_Status r = OrderStatusPartiallyRefunded \<and> used (po_RechargeCode r) exEnd"
proof -
  obtain r where r: "pd_orders exEnd = [r]" "po_Status r = OrderStatusPartiallyRefunded" "po_OrderType r = ''balance''"
    using exEnd_order by auto
  with fulfilled_order_is_credited [of exService exPayDB "fst (run_schedule exSchedule ([], exPayDB))" exEnd r]
    exEnd_run exPayDB_ok show ?thesis by (auto simp: exEnd_def psIsRefundStatus_def OrderTypeSubscription_def)
qed

text \<open>C27: Only what was credited is refunded: when the payment provider has been asked to refund an order, whatever ran at the
  same time, that order exists and, unless it is a subscription order, its recharge code has been used, so
  its amount was credited before the money goes back.  (A subscription order has no code; what it was given
  is not part of the invariant.)\<close>

theorem refund_requests_are_credited:
  assumes "(interleave (payment_handler S))\<^sup>*\<^sup>* ([], db0) (ps, db)" and "pay_ok db0"
    and "GatewayRefund i a \<in> set (pd_log db)"
  shows "\<exists>r \<in> set (pd_orders db). po_ID r = i \<and>
    (po_OrderType r \<noteq> OrderTypeSubscription \<longrightarrow> used (po_RechargeCode r) db)"
  using payments_ok [OF assms(1,2)] assms(3) by (auto simp: pay_ok_def log_ok_def credited_def)

theorem refund_requests_are_credited_witness:
  "\<exists>r \<in> set (pd_orders exEnd). po_ID r = 1 \<and> po_OrderType r = OrderTypeBalance \<and> used (po_RechargeCode r) exEnd"
proof -
  have "\<exists>r \<in> set (pd_orders exEnd). po_ID r = 1 \<and> (po_OrderType r \<noteq> OrderTypeSubscription \<longrightarrow> used (po_RechargeCode r) exEnd)"
    by (rule refund_requests_are_credited [of exService exPayDB "fst (run_schedule exSchedule ([], exPayDB))" exEnd 1 4])
      (use exEnd_run exPayDB_ok in \<open>simp_all add: exEnd_log exEnd_def [symmetric], simp add: exEnd_def\<close>)
  moreover have "po_OrderType r = OrderTypeBalance" if "r \<in> set (pd_orders exEnd)" for r
    using exEnd_order that by (auto simp: OrderTypeBalance_def)
  ultimately show ?thesis by (auto simp: OrderTypeBalance_def OrderTypeSubscription_def)
qed

text \<open>C29: An inviter gets at most one rebate for an order, however often its fulfilment is retried: the claim in
  the audit log is unique.\<close>

theorem rebate_at_most_once:
  assumes "(interleave (payment_handler S))\<^sup>*\<^sup>* ([], db0) (ps, db)" and "pay_ok db0"
  shows "rebates i db \<le> 1 \<and> (rebates i db = 1 \<longrightarrow> logged i ''AFFILIATE_REBATE_APPLIED'' db)"
  using payments_ok [OF assms] by (auto simp: pay_ok_def log_ok_def)

theorem rebate_at_most_once_witness:
  "rebates 1 exEnd = 1 \<and> rebates 1 exEnd \<le> 1 \<and> logged 1 ''AFFILIATE_REBATE_APPLIED'' exEnd"
proof -
  have "rebates 1 exEnd = 1" by (simp add: rebates_def exEnd_log)
  with rebate_at_most_once [of exService exPayDB "fst (run_schedule exSchedule ([], exPayDB))" exEnd 1]
    exEnd_run exPayDB_ok show ?thesis by (simp add: exEnd_def)
qed


subsection \<open>One notification\<close>

text \<open>The lookup of an order's provider instance only reads.\<close>

lemma completes_resolveSnapshot:
  assumes "calm e" and "completes e (resolveSnapshotOrderProviderInstance ord s Done) db (\<lambda>ri _. P ri)"
    and "\<And>ri. P ri \<Longrightarrow> completes e (k ri) db Q"
  shows "completes e (resolveSnapshotOrderProviderInstance ord s k) db Q"
proof -
  have col: "completes e (if A then k x else if B then k y else f) db Q"
    if "completes e (if A then Done x else if B then Done y else g) db (\<lambda>ri _. P ri)"
      "completes e g db (\<lambda>ri _. P ri) \<Longrightarrow> completes e f db Q" for A B x y f g
    using that assms(3) by (simp split: if_split_asm)
  have fin: "completes e (if A then k x else k y) db Q"
    if "completes e (if A then Done x else Done y) db (\<lambda>ri _. P ri)" for A x y
    using that assms(3) by (simp split: if_split_asm)
  show ?thesis
    using assms(2) unfolding resolveSnapshotOrderProviderInstance_def Let_def
    by (rule col) (auto simp: completes_getInstance [OF assms(1)] split: option.splits split del: if_split intro: assms(3) fin)
qed

lemma completes_resolveUnique:
  assumes "calm e" and "completes e (resolveUniqueLegacyOrderProviderInstance ord Done) db (\<lambda>ri _. P ri)"
    and "\<And>ri. P ri \<Longrightarrow> completes e (k ri) db Q"
  shows "completes e (resolveUniqueLegacyOrderProviderInstance ord k) db Q"
  using assms(1,2) unfolding resolveUniqueLegacyOrderProviderInstance_def Let_def
  by (simp split: if_splits) (auto intro: assms(3))

lemma completes_getOrderProviderInstance:
  assumes "calm e" and "completes e (getOrderProviderInstance ord Done) db (\<lambda>ri _. P ri)"
    and "\<And>ri. P ri \<Longrightarrow> completes e (k ri) db Q"
  shows "completes e (getOrderProviderInstance ord k) db Q"
proof (cases "psOrderProviderSnapshot ord")
  case None
  with assms(1,2) completes_resolveUnique [OF assms(1) _ assms(3)] show ?thesis
    unfolding getOrderProviderInstance_def Let_def
    by (simp split: option.splits if_splits) (auto intro: assms(3))
next
  case (Some s)
  with assms(2) completes_resolveSnapshot [OF assms(1) _ assms(3)] show ?thesis
    unfolding getOrderProviderInstance_def by simp
qed

definition instanceKey :: "go_error + PaymentProviderInstance option \<Rightarrow> string" where
  "instanceKey ri = (case ri of Inr (Some inst) \<Rightarrow> pi_ProviderKey inst | _ \<Rightarrow> '''')"

text \<open>C12: A payment of a balance order is credited: when nothing else runs, no statement fails, the user exists and is not
  throttled, and the order's recharge code was not created yet, a success notification for a balance
  order that waits for payment (or was cancelled, or expired within the grace period) that passes the checks
  of \<open>confirmPayment\<close> (provider, merchant metadata against the order's provider snapshot, amount)
  against whatever the lookup of the order's provider instance finds, returns without error, leaves the order
  COMPLETED, and adds exactly the order's amount to the user's balance.\<close>

theorem notification_credits_order:
  assumes e: "smooth e" and n: "pn_Status n = NotificationStatusSuccess"
    and ord: "filter (\<lambda>r. po_OutTradeNo r = pn_OrderID n) (pd_orders db) = [ord]" "findOrder (po_ID ord) db = Some ord"
      "payable (ev_now e - paymentGrace) ord" "creditable ord db"
    and conf: "completes e (getOrderProviderInstance ord Done) db
      (\<lambda>ri _. confirmError S ord (instanceKey ri) (pn_Amount n) pk (pn_Metadata n) = None)"
    and u: "findUser (po_UserID ord) db = Some u"
  shows "completes e (HandlePaymentNotification S n pk Done) db (\<lambda>r db'. r = None \<and>
    (\<exists>r'. findOrder (po_ID ord) db' = Some r' \<and> po_Status r' = OrderStatusCompleted) \<and>
    (\<exists>u'. findUser (po_UserID ord) db' = Some u' \<and> u_Balance u' = u_Balance u + po_Amount ord))"
proof -
  let ?Q = "\<lambda>r db'. r = None \<and>
    (\<exists>r'. findOrder (po_ID ord) db' = Some r' \<and> po_Status r' = OrderStatusCompleted) \<and>
    (\<exists>u'. findUser (po_UserID ord) db' = Some u' \<and> u_Balance u' = u_Balance u + po_Amount ord)"
  have users: "\<exists>u'. findUser (po_UserID ord) db' = Some u' \<and> u_Balance u' = u_Balance u + po_Amount ord"
    if "pd_users db' = addBalance (po_UserID ord) (po_Amount ord) (pd_users db)" for db'
  proof -
    have "u_ID u = po_UserID ord" using u by (auto simp: findUser_def find_Some_iff)
    with u that show ?thesis by (simp add: findUser_def addBalance_def find_map_ID)
  qed
  have paid: "completes e (toPaid S ord (pn_TradeNo n) amt pk Done) db ?Q" for amt
    by (rule completes_toPaid [OF e ord(2-4)]) (use users in simp)
  have "completes e (confirmPayment S (po_ID ord) (pn_TradeNo n) (pn_Amount n) pk (pn_Metadata n) Done) db ?Q"
    unfolding confirmPayment_def using smooth_calm [OF e] ord(2)
    by (simp, intro completes_getOrderProviderInstance [OF _ conf]) (simp_all add: instanceKey_def paid)
  then show ?thesis using smooth_calm [OF e] n ord by (simp add: HandlePaymentNotification_def)
qed

lemma exSmooth: "smooth exPayEnv" "calm exPayEnv"
  by (simp_all add: smooth_def calm_def exPayEnv_def redeemMaxErrorsPerHour_def)

definition exSnapDB :: pay_db where
  "exSnapDB = exPayDB\<lparr>pd_orders := [exSnapOrder]\<rparr>"

definition exSnapPaid :: PaymentNotification where
  "exSnapPaid = exPaid\<lparr>pn_Metadata := [(''app_id'', ''app1'')]\<rparr>"

lemma exSnapDB_finds:
  "filter (\<lambda>r. po_OutTradeNo r = pn_OrderID exSnapPaid) (pd_orders exSnapDB) = [exSnapOrder]"
  "findOrder 1 exSnapDB = Some exSnapOrder" "creditable exSnapOrder exSnapDB"
  by (simp_all add: exSnapPaid_def exPaid_def exSnapDB_def exPayDB_def exSnapOrder_def exOrder_def findOrder_def creditable_def
      findUser_def codeNamed_def OrderTypeBalance_def) (code_simp)

lemma exSnap_lookup:
  assumes "P (Inr (Some \<lparr>pi_ID = 7, pi_ProviderKey = ''alipay'', pi_SupportedTypes = '''', pi_RefundEnabled = True, pi_AllowUserRefund = True\<rparr>))"
  shows "completes exPayEnv (getOrderProviderInstance exSnapOrder Done) exSnapDB (\<lambda>ri _. P ri)"
proof -
  have snap: "psOrderProviderSnapshot exSnapOrder = Some \<lparr>ps_SchemaVersion = 2, ps_ProviderInstanceID = ''7'', ps_ProviderKey = ''alipay'',
      ps_PaymentMode = '''', ps_MerchantAppID = ''app1'', ps_MerchantID = '''', ps_Currency = ''''\<rparr>" by code_simp
  have s: "trim_space ''7'' = ''7''" "atoi ''7'' = Some 7" "EqualFold ''7'' ''7''" "EqualFold (trim_space ''alipay'') ''alipay''"
    by code_simp+
  have "psStringValue (po_ProviderInstanceID exSnapOrder) = ''7''" by code_simp
  then show ?thesis
    using assms snap s exSmooth(2)
    by (simp add: getOrderProviderInstance_def resolveSnapshotOrderProviderInstance_def Let_def exSnapDB_def exPayDB_def)
qed

theorem notification_credits_order_witness:
  "completes exPayEnv (HandlePaymentNotification exService exSnapPaid ''alipay'' Done) exSnapDB (\<lambda>r db'. r = None \<and>
    (\<exists>r'. findOrder 1 db' = Some r' \<and> po_Status r' = OrderStatusCompleted) \<and>
    (\<exists>u'. findUser 5 db' = Some u' \<and> u_Balance u' = 13))"
proof -
  obtain u where u: "findUser 5 exSnapDB = Some u" "u_Balance u = 3" by (simp add: findUser_def exSnapDB_def exPayDB_def)
  have ids: "po_ID exSnapOrder = 1" "po_UserID exSnapOrder = 5" "po_Amount exSnapOrder = 10"
    by (simp_all add: exSnapOrder_def exOrder_def)
  have "confirmError exService exSnapOrder ''alipay'' (pn_Amount exSnapPaid) ''alipay'' (pn_Metadata exSnapPaid) = None" by code_simp
  then have conf: "completes exPayEnv (getOrderProviderInstance exSnapOrder Done) exSnapDB
      (\<lambda>ri _. confirmError exService exSnapOrder (instanceKey ri) (pn_Amount exSnapPaid) ''alipay'' (pn_Metadata exSnapPaid) = None)"
    by (intro exSnap_lookup) (simp add: instanceKey_def)
  have "payable (ev_now exPayEnv - paymentGrace) exSnapOrder" "pn_Status exSnapPaid = NotificationStatusSuccess" by code_simp+
  with notification_credits_order [OF exSmooth(1) _ exSnapDB_finds(1) _ _ exSnapDB_finds(3) conf] exSnapDB_finds(2) u
  show ?thesis by (simp add: ids)
qed

text \<open>The metadata of another merchant is refused.\<close>

lemma other_merchant_refused:
  "confirmError exService exSnapOrder ''alipay'' (pn_Amount exPaid) ''alipay'' [(''app_id'', ''app2'')] \<noteq> None"
  by code_simp

subsection \<open>Refunds\<close>

text \<open>Whatever stops the provider from refunding, nothing but the audit log and the event log changes.\<close>

lemma completes_gwRefund_fails:
  assumes e: "calm e" "ev_refund e = (resp, Some err)" "\<forall>r. resp = Some r \<longrightarrow> trim_space (rr_Status r) \<noteq> ProviderStatusPending"
    and p: "po_PaymentTradeNo (rp_Order p) \<noteq> ''''"
    and k: "\<And>x db'. pd_users db' = pd_users db \<Longrightarrow> pd_orders db' = pd_orders db \<Longrightarrow> completes e (k (Inl x)) db' Q"
  shows "completes e (gwRefund p k) db Q"
proof -
  have ask: "completes e (askRefund p (\<lambda>(resp, err). case err of
                Some e \<Rightarrow> (case resp of
                    Some r \<Rightarrow> (if trim_space (rr_Status r) = ProviderStatusPending then k (Inr r) else k (Inl e))
                  | None \<Rightarrow> k (Inl e))
              | None \<Rightarrow> (case validateRefundProviderResponse resp of
                    Some e \<Rightarrow> k (Inl e)
                  | None \<Rightarrow> (case resp of Some r \<Rightarrow> k (Inr r) | None \<Rightarrow> k (Inl ErrNotFound))))) db Q"
    using e k by (auto simp: askRefund_def completes_exec record_event_def split: option.splits)
  have prov: "completes e (getRefundOrderProviderInstance ord k') db Q" if "\<And>ri. completes e (k' ri) db Q" for ord k'
    unfolding getRefundOrderProviderInstance_def resolveSnapshotOrderProviderInstance_def Let_def
    using e(1) that by (simp split: option.splits)
  show ?thesis
    using e(1) p k ask unfolding gwRefund_def getRefundProvider_def Let_def
    by (auto intro!: prov split: option.splits sum.splits)
qed

text \<open>C28: A refund that fails at the gateway costs the user no balance: when \<open>ExecuteRefund\<close> runs on a refundable order
  that was paid at a gateway, takes its amount from the balance (no earlier rollback of this order failed),
  and the gateway refund then fails (the provider answers with an error that is not pending, or its
  instance cannot be found or does not match the order's snapshot), nothing else runs and no statement fails, the call
  reports no success, the balance is as before, and the order's status is REFUND_REQUESTED if that was its
  status, and COMPLETED otherwise, whatever it was before.  The return counts as a recharge, so that the
  field \<open>total_recharged\<close> has grown by the amount.\<close>

theorem failed_refund_returns_balance:
  assumes e: "calm e" "ev_refund e = (resp, Some err)"
      "\<forall>r. resp = Some r \<longrightarrow> trim_space (rr_Status r) \<noteq> ProviderStatusPending"
    and p: "rp_OrderID p = po_ID (rp_Order p)" "deductsBalance p" "po_PaymentTradeNo (rp_Order p) \<noteq> ''''"
      "\<not> logged (rp_OrderID p) ''REFUND_ROLLBACK_FAILED'' db"
    and ord: "findOrder (rp_OrderID p) db = Some r" "refundable (po_Status r)"
    and u: "findUser (po_UserID (rp_Order p)) db = Some u"
  shows "completes e (ExecuteRefund cal p Done) db (\<lambda>res db'.
    (\<exists>w. res = Inr w \<and> \<not> rf_Success w) \<and>
    (\<exists>r'. findOrder (rp_OrderID p) db' = Some r' \<and> po_Status r' =
       (if po_Status (rp_Order p) = OrderStatusRefundRequested then OrderStatusRefundRequested else OrderStatusCompleted)) \<and>
    (\<exists>u'. findUser (po_UserID (rp_Order p)) db' = Some u' \<and> u_Balance u' = u_Balance u \<and>
       u_TotalRecharged u' = u_TotalRecharged u + rp_BalanceToDeduct p))" (is "completes e _ db ?Q")
proof -
  have n: "filter (\<lambda>r. po_ID r = rp_OrderID p \<and> refundable (po_Status r)) (pd_orders db) \<noteq> []"
    by (rule updated_rows [OF ord(1)]) (use ord findOrder_Some [OF ord(1)] in simp)
  have rid: "po_ID r = rp_OrderID p" using findOrder_Some [OF ord(1)] by simp
  have uid: "u_ID u = po_UserID (rp_Order p)" using u by (auto simp: findUser_def find_Some_iff)
  have pos: "rp_BalanceToDeduct p > 0" using p(2) by (simp add: deductsBalance_def)
  have rolled: "completes e (handleGwFail cal p x Done) db' ?Q"
    if "findUser (po_UserID (rp_Order p)) db' = Some (u\<lparr>u_Balance := u_Balance u - rp_BalanceToDeduct p\<rparr>)"
      "findOrder (rp_OrderID p) db' = Some r'" "po_ID r' = rp_OrderID p" for x db' r'
    using that e p uid pos
    by (simp add: handleGwFail_def RollbackRefund_def UpdateBalance_def setUser_def thenTx_def restoreStatus_def
        record_event_def findUser_def findOrder_setOrders refundWarning_def find_map_ID Let_def)
  let ?db1 = "setOrders (ev_now e) (\<lambda>r. po_ID r = rp_OrderID p \<and> refundable (po_Status r))
    (\<lambda>r. r\<lparr>po_Status := OrderStatusRefunding\<rparr>) db"
  obtain r1 where r1: "findOrder (rp_OrderID p) ?db1 = Some r1" "po_ID r1 = rp_OrderID p"
    using ord rid by (simp add: findOrder_setOrders)
  obtain db2 where db2: "DeductBalance (po_UserID (rp_Order p)) (rp_BalanceToDeduct p) ?db1 = Inr ((), db2)"
      "pd_orders db2 = pd_orders ?db1"
      "findUser (po_UserID (rp_Order p)) db2 = Some (u\<lparr>u_Balance := u_Balance u - rp_BalanceToDeduct p\<rparr>)"
    using u uid by (simp add: DeductBalance_def setUser_def findUser_def find_map_ID)
  have gw: "completes e (gwRefund p (\<lambda>rg. case rg of
      Inl err \<Rightarrow> handleGwFail cal p err Done | Inr resp \<Rightarrow> finishRefund cal p resp Done)) (record_event ev db2) ?Q" for ev
  proof (rule completes_gwRefund_fails [OF e p(3)])
    fix x and db' :: pay_db
    assume "pd_users db' = pd_users (record_event ev db2)" "pd_orders db' = pd_orders (record_event ev db2)"
    then have "findUser (po_UserID (rp_Order p)) db' = findUser (po_UserID (rp_Order p)) db2"
      "findOrder (rp_OrderID p) db' = findOrder (rp_OrderID p) ?db1"
      using db2(2) by (simp_all add: findUser_def findOrder_def record_event_def)
    then show "completes e (case Inl x of Inl err \<Rightarrow> handleGwFail cal p err Done | Inr resp \<Rightarrow> finishRefund cal p resp Done) db' ?Q"
      using rolled [OF _ _ r1(2)] r1(1) db2(3) by simp
  qed
  have "\<not> logged (rp_OrderID p) ''REFUND_ROLLBACK_FAILED'' ?db1" using p(4) by simp
  then show ?thesis using e(1) p(2) n db2(1) gw
    by (simp add: ExecuteRefund_def deductForRefund_def deductBalance_def thenTx_def)
qed

definition exPlan :: RefundPlan where
  "exPlan = \<lparr>rp_OrderID = 1, rp_Order = exSnapOrder\<lparr>po_Status := OrderStatusCompleted, po_PaymentTradeNo := ''T1''\<rparr>,
     rp_RefundAmount = 4, rp_GatewayAmount = 4, rp_Reason = ''r'', rp_Force = False, rp_DeductBalance = True,
     rp_DeductionType = DeductionTypeBalance, rp_BalanceToDeduct = 3, rp_SubDaysToDeduct = 0, rp_SubscriptionID = 0\<rparr>"

theorem failed_refund_returns_balance_witness:
  "completes (exPayEnv\<lparr>ev_refund := (None, Some ErrNotFound)\<rparr>) (ExecuteRefund utc exPlan Done)
     (exPayDB\<lparr>pd_orders := [rp_Order exPlan]\<rparr>) (\<lambda>res db'.
    (\<exists>w. res = Inr w \<and> \<not> rf_Success w) \<and>
    (\<exists>r'. findOrder 1 db' = Some r' \<and> po_Status r' = OrderStatusCompleted) \<and>
    (\<exists>u'. findUser 5 db' = Some u' \<and> u_Balance u' = 3 \<and> u_TotalRecharged u' = 3))"
proof -
  let ?e = "exPayEnv\<lparr>ev_refund := (None, Some ErrNotFound)\<rparr>" and ?db = "exPayDB\<lparr>pd_orders := [rp_Order exPlan]\<rparr>"
  have e: "calm ?e" "ev_refund ?e = (None, Some ErrNotFound)"
    by (simp_all add: calm_def exPayEnv_def)
  have p: "rp_OrderID exPlan = 1" "po_ID (rp_Order exPlan) = 1" "po_UserID (rp_Order exPlan) = 5" "deductsBalance exPlan"
    "po_PaymentTradeNo (rp_Order exPlan) \<noteq> ''''" "rp_BalanceToDeduct exPlan = 3" "po_Status (rp_Order exPlan) = OrderStatusCompleted"
    "\<not> logged 1 ''REFUND_ROLLBACK_FAILED'' ?db"
    by (simp_all add: exPlan_def exSnapOrder_def exOrder_def deductsBalance_def logged_def exPayDB_def)
  obtain u where u: "findUser 5 ?db = Some u" "u_Balance u = 3" "u_TotalRecharged u = 0" by (simp add: findUser_def exPayDB_def)
  have ord: "findOrder 1 ?db = Some (rp_Order exPlan)" "refundable (po_Status (rp_Order exPlan))"
    using p by (simp_all add: findOrder_def refundable_def)
  have "completes ?e (ExecuteRefund utc exPlan Done) ?db (\<lambda>res db'.
    (\<exists>w. res = Inr w \<and> \<not> rf_Success w) \<and>
    (\<exists>r'. findOrder (rp_OrderID exPlan) db' = Some r' \<and> po_Status r' =
       (if po_Status (rp_Order exPlan) = OrderStatusRefundRequested then OrderStatusRefundRequested else OrderStatusCompleted)) \<and>
    (\<exists>u'. findUser (po_UserID (rp_Order exPlan)) db' = Some u' \<and> u_Balance u' = u_Balance u \<and>
       u_TotalRecharged u' = u_TotalRecharged u + rp_BalanceToDeduct exPlan))"
    by (rule failed_refund_returns_balance [OF e _ _ p(4) p(5) _ _ ord(2)]) (use p u ord in simp_all)
  then show ?thesis using p u by simp
qed

end
