(* ===== verification/PaymentBounds.thy ===== *)
theory PaymentBounds
  imports PaymentProperties
begin

section \<open>Bounds on amounts\<close>

text \<open>Refund amounts never exceed what was paid, and minor units convert back to the amount.\<close>

lemma dec_round_finer:
  assumes "dec_round 2 x = x"
  shows "dec_round 16 x = x"
proof -
  obtain v :: int where "x = of_int v / 10 ^ 2"
  proof (cases "x < 0")
    case True
    with assms show ?thesis using that [of "- \<lfloor>- x * 10 ^ 2 + 1 / 2\<rfloor>"] by (simp add: dec_round_def away_def)
  next
    case False
    with assms show ?thesis using that [of "\<lfloor>x * 10 ^ 2 + 1 / 2\<rfloor>"] by (simp add: dec_round_def away_def)
  qed
  then have x: "x = of_int (v * 10 ^ 14) / 10 ^ 16" by simp
  show ?thesis unfolding x by (rule dec_round_fraction)
qed

lemma calculateGatewayRefundAmount_bounded:
  assumes "0 \<le> p" and "dec_round 2 p = p" and "r - o' \<le> paymentAmountToleranceForCurrency cur"
  shows "0 \<le> calculateGatewayRefundAmount o' p r cur"
    and "calculateGatewayRefundAmount o' p r cur \<le> dec_round (CurrencyMaxFractionDigits cur) p"
proof -
  let ?d = "CurrencyMaxFractionDigits cur"
  have "0 \<le> calculateGatewayRefundAmount o' p r cur \<and> calculateGatewayRefundAmount o' p r cur \<le> dec_round ?d p"
  proof (cases "o' \<le> 0 \<or> p \<le> 0 \<or> r \<le> 0 \<or> \<bar>r - o'\<bar> \<le> paymentAmountToleranceForCurrency cur")
    case True
    with assms(1) dec_round_nonneg [of p ?d] show ?thesis by (auto simp: calculateGatewayRefundAmount_def Let_def)
  next
    case False
    then have pos: "0 < o'" "0 < p" "0 < r" "r \<le> o'" using assms(3) by auto
    have part: "0 \<le> p * r / o'" "p * r / o' \<le> p" using pos by (simp_all add: field_simps)
    have d: "dec_div (p * r) o' \<le> p" "0 \<le> dec_div (p * r) o'"
      using dec_round_mono [OF part, of 16] dec_round_nonneg [OF part(1), of 16] dec_round_finer [OF assms(2)]
      by (simp_all add: dec_div_def)
    have "calculateGatewayRefundAmount o' p r cur = dec_round ?d (dec_div (p * r) o')"
      using False by (simp add: calculateGatewayRefundAmount_def Let_def)
    with dec_round_mono [OF d(2,1), of ?d] dec_round_nonneg [OF d(2), of ?d] show ?thesis by simp
  qed
  then show "0 \<le> calculateGatewayRefundAmount o' p r cur" "calculateGatewayRefundAmount o' p r cur \<le> dec_round ?d p" by simp_all
qed

text \<open>C30: The provider is never asked to refund more than was paid: when an administrator's amount is accepted, the
  amount for the provider is not negative and at most the amount paid (as the column keeps it, two decimals), rounded to
  the order's currency.\<close>

theorem gateway_refund_bounded:
  assumes "refundPlan ord amt reason force deduct = Inr p"
    and "0 \<le> po_PayAmount ord" and "dec_round 2 (po_PayAmount ord) = po_PayAmount ord"
  shows "0 \<le> rp_GatewayAmount p \<and>
    rp_GatewayAmount p \<le> dec_round (CurrencyMaxFractionDigits (PaymentOrderCurrency ord)) (po_PayAmount ord)"
proof -
  from assms(1) obtain a where a: "amt = Finite a" by (auto simp: refundPlan_def split: go_float.splits)
  let ?r = "if a \<le> 0 then po_Amount ord else a"
  have r: "?r - po_Amount ord \<le> paymentAmountToleranceForCurrency (PaymentOrderCurrency ord)"
    and p: "rp_GatewayAmount p = calculateGatewayRefundAmount (po_Amount ord) (po_PayAmount ord) ?r (PaymentOrderCurrency ord)"
    using assms(1) by (auto simp: refundPlan_def a Let_def split: if_splits)
  from calculateGatewayRefundAmount_bounded [OF assms(2,3) r] show ?thesis by (simp only: p)
qed

theorem gateway_refund_bounded_witness:
  "\<exists>p. refundPlan (exOrder\<lparr>po_PayAmount := 11\<rparr>) (Finite 5) '''' False True = Inr p \<and> 0 \<le> rp_GatewayAmount p \<and> rp_GatewayAmount p \<le> 11"
proof -
  have "CurrencyMaxFractionDigits (PaymentOrderCurrency (exOrder\<lparr>po_PayAmount := 11\<rparr>)) = 2" by code_simp
  moreover have "\<exists>p. refundPlan (exOrder\<lparr>po_PayAmount := 11\<rparr>) (Finite 5) '''' False True = Inr p"
  proof -
    have "isl (refundPlan (exOrder\<lparr>po_PayAmount := 11\<rparr>) (Finite 5) '''' False True) = False" by code_simp
    then show ?thesis by (cases "refundPlan (exOrder\<lparr>po_PayAmount := 11\<rparr>) (Finite 5) '''' False True") auto
  qed
  moreover have "dec_round 2 11 = 11" by code_simp
  ultimately show ?thesis
    using gateway_refund_bounded [where ord = "exOrder\<lparr>po_PayAmount := 11\<rparr>"] by fastforce
qed

lemma currency_units: "maxFractionDigits (paymentCurrencyAmountUnitFor c) \<le> apiMinorUnit (paymentCurrencyAmountUnitFor c)"
  "apiMinorUnit (paymentCurrencyAmountUnitFor c) \<le> 16"
proof -
  have "maxFractionDigits u \<le> apiMinorUnit u \<and> apiMinorUnit u \<le> 16" if "paymentCurrencyAmountUnits x = Some u" for x u
    using that by (auto simp: paymentCurrencyAmountUnits_def zeroDecimalAmountUnit_def threeDecimalAmountUnit_def
        stripeLegacyZeroAmount_def split: if_splits)
  then show "maxFractionDigits (paymentCurrencyAmountUnitFor c) \<le> apiMinorUnit (paymentCurrencyAmountUnitFor c)"
    "apiMinorUnit (paymentCurrencyAmountUnitFor c) \<le> 16"
    by (auto simp: paymentCurrencyAmountUnitFor_def twoDecimalAmountUnit_def split: sum.splits option.splits)
qed

lemma NormalizePaymentCurrency_idem:
  assumes "NormalizePaymentCurrency raw = Inr c"
  shows "NormalizePaymentCurrency c = Inr c"
proof (cases "c = DefaultPaymentCurrency")
  case True
  have "map_sum (\<lambda>_. ()) id (NormalizePaymentCurrency ''CNY'') = Inr ''CNY''" by code_simp
  then have "NormalizePaymentCurrency ''CNY'' = Inr ''CNY''" by (cases "NormalizePaymentCurrency ''CNY''") auto
  with True show ?thesis by (simp add: DefaultPaymentCurrency_def)
next
  case False
  with assms have c: "length c = 3" "\<forall>x \<in> set c. of_char x \<in> {65..90 :: nat}"
    by (auto simp: NormalizePaymentCurrency_def Let_def list_ex_iff split: if_splits)
  then obtain x y z where xyz: "c = [x, y, z]" by (auto simp: length_Suc_conv numeral_3_eq_3)
  have letter: "\<not> ascii_space a \<and> \<not> space2 a b \<and> \<not> space2 b a \<and> \<not> space3 a b d \<and> \<not> space3 d b a \<and> a \<noteq> CHR 0xC4 \<and> a \<noteq> CHR 0xC5 \<and>
      (of_char a :: nat) \<notin> {97..122}"
    if "of_char a \<in> {65..90 :: nat}" "of_char b \<in> {65..90 :: nat}" "of_char d \<in> {65..90 :: nat}" for a b d
    using that by (auto simp: ascii_space_def space2_def space3_def)
  have "trim_space c = c" using c(2) letter [of x y z] letter [of z y x] by (simp add: xyz trim_space_def drop_while_len_id)
  moreover have "to_upper c = c" using c(2) letter [of x y z] letter [of y x z] letter [of z y x] by (simp add: xyz)
  ultimately show ?thesis using c by (auto simp: NormalizePaymentCurrency_def Let_def list_ex_iff)
qed

lemma dec_trunc_of_int [simp]: "dec_trunc (of_int v) = v"
  by (simp add: dec_trunc_def floor_minus)

text \<open>An amount in decimal notation that is accepted for a currency gives exactly its minor units, when they
  fit an \<open>int64\<close>.\<close>

lemma minor_units_exact:
  assumes "AmountToMinorUnit D s currency = Inr m" and "dl_parse D (trim_space s) = Some d"
    and "in_int64 (dec_trunc (d * 10 ^ CurrencyMinorUnit currency))"
  shows "of_int m = d * 10 ^ CurrencyMinorUnit currency"
proof -
  obtain c where c: "NormalizePaymentCurrency currency = Inr c"
    using assms(1,2) by (auto simp: AmountToMinorUnit_def split: sum.splits)
  have units: "paymentCurrencyAmountUnitFor c = paymentCurrencyAmountUnitFor currency"
    using NormalizePaymentCurrency_idem [OF c] c by (simp add: paymentCurrencyAmountUnitFor_def)
  let ?u = "paymentCurrencyAmountUnitFor currency"
  let ?f = "maxFractionDigits ?u" and ?a = "apiMinorUnit ?u"
  from assms(1,2) have whole: "d * 10 ^ ?f = of_int (dec_trunc (d * 10 ^ ?f))" and m: "m = wrap64 (dec_trunc (d * 10 ^ ?a))"
    by (auto simp: AmountToMinorUnit_def c units Let_def split: if_splits)
  define v where "v = dec_trunc (d * 10 ^ ?f) * 10 ^ (?a - ?f)"
  have "d * 10 ^ ?a = d * 10 ^ ?f * 10 ^ (?a - ?f)"
    using currency_units(1) [of currency] by (simp add: power_add [symmetric] mult.assoc)
  also have "\<dots> = of_int v" by (subst whole) (simp add: v_def)
  finally have v: "d * 10 ^ ?a = of_int v" .
  then have "m = v" using m assms(3) by (simp add: CurrencyMinorUnit_def wrap64_id)
  with v show ?thesis by (simp add: CurrencyMinorUnit_def)
qed

end
