(* ===== verification/PaymentRaces.thy ===== *)
theory PaymentRaces
  imports PaymentProperties
begin

section \<open>Races of the payment code\<close>

text \<open>Interleavings that the code allows and that go wrong.\<close>

definition exGift :: RedeemCode where
  "exGift = \<lparr>rc_ID = 1, rc_Code = ''GIFT'', rc_Type = RedeemTypeBalance, rc_Value = 10, rc_Status = StatusUnused,
     rc_UsedBy = None, rc_UsedAt = None, rc_Notes = '''', rc_ExpiresAt = None, rc_GroupID = None, rc_ValidityDays = 0\<rparr>"

definition exGiftDB :: pay_db where
  "exGiftDB = exPayDB\<lparr>pd_codes := [exGift], pd_nextCodeID := 2\<rparr>"

definition exUnuse :: RedeemCodeBatchUpdateFields where
  "exUnuse = \<lparr>bu_Status = Some StatusUnused, bu_ExpiresAt = None, bu_Notes = None, bu_GroupID = None, bu_Type = None, bu_Value = None\<rparr>"

definition exRedeem :: "bool pay_flow" where
  "exRedeem = Redeem utc 5 ''GIFT'' (\<lambda>r. Done (\<not> isl r))"

text \<open>A batch update can make a used code valid again.  It refuses to touch used codes, but it checks them before it
  writes: when an administrator sets the status of an unused code to ``unused'' and the code is redeemed between the
  check and the write, the write resets it, and it is redeemed a second time.  All three calls succeed.\<close>

theorem batch_update_revives_code:
  "let w = run_schedule ([Begin (BatchUpdate [1] exUnuse (\<lambda>r. Done (\<not> isl r))), Act 0 exPayEnv, Act 0 exPayEnv, Begin exRedeem] @
       replicate 8 (Act 1 exPayEnv) @ [Act 0 exPayEnv, Begin exRedeem] @ replicate 8 (Act 2 exPayEnv)) ([], exGiftDB)
   in map flow_result (fst w) = [Some True, Some True, Some True] \<and> credits ''GIFT'' (snd w) = 2"
  by code_simp

text \<open>An order whose refund of 4 waits at the provider.\<close>

definition exPending :: PaymentOrder where
  "exPending = exOrder\<lparr>po_Status := OrderStatusRefundPending, po_RefundAmount := 4, po_PaymentTradeNo := ''T1''\<rparr>"

definition exPendingDB :: pay_db where
  "exPendingDB = exPayDB\<lparr>pd_users := [\<lparr>u_ID = 5, u_Balance = 10, u_Concurrency = 1, u_TotalRecharged = 10\<rparr>],
     pd_orders := [exPending]\<rparr>"

definition exFinalize :: "bool pay_flow" where
  "exFinalize = QueryAndFinalizeRefund utc 1 (\<lambda>r. Done (\<not> isl r))"

text \<open>Finalising a pending refund is not guarded: two requests that both find it pending both take the refunded
  amount from the user's balance.\<close>

theorem finalizing_twice_deducts_twice:
  "let w = run_schedule ([Begin exFinalize, Begin exFinalize] @ concat (replicate 12 [Act 0 exPayEnv, Act 1 exPayEnv]))
     ([], exPendingDB)
   in map flow_result (fst w) = [Some True, Some True] \<and>
     pd_log (snd w) = [BalanceDeducted 1 4, BalanceDeducted 1 4] \<and> map u_Balance (pd_users (snd w)) = [2]"
  by code_simp

text \<open>A refund that an administrator asked for without taking back the credit takes it back all the same
  if the provider does not answer at once: finalising it deducts the refunded amount.\<close>

theorem finalizing_deducts_against_the_plan:
  "let w = run_schedule ([Begin (PrepareRefund 1 (Finite 4) '''' False False (\<lambda>r. case r of
         Inr (Inr p) \<Rightarrow> ExecuteRefund utc p (\<lambda>r. Done (\<not> isl r)) | _ \<Rightarrow> Done False))] @
       replicate 14 (Act 0 (exPayEnv\<lparr>ev_refund := (Some \<lparr>rr_Status = ''pending'', rr_RefundID = ''R1''\<rparr>, None)\<rparr>)) @
       [Begin exFinalize] @ replicate 12 (Act 1 exPayEnv))
     ([], exPendingDB\<lparr>pd_orders := [exPending\<lparr>po_Status := OrderStatusCompleted, po_RefundAmount := 0\<rparr>]\<rparr>)
   in map flow_result (fst w) = [Some True, Some True] \<and>
     pd_log (snd w) = [GatewayRefund 1 4, BalanceDeducted 1 4] \<and> map po_Status (pd_orders (snd w)) = [OrderStatusPartiallyRefunded]"
  by code_simp

end
