(* ===== verification/AccountQuota.thy ===== *)
theory AccountQuota
  imports AppErrors Subscription
begin

section \<open>Quotas of upstream accounts\<close>

text \<open>
  The total, daily and weekly quota of an account (\<open>service/account.go\<close>) and the statements that
  charge it (\<open>repository/account_repo.go\<close>, \<open>repository/usage_billing_repo.go\<close>).  The \<open>quota_*\<close> keys of the JSON
  column \<open>extra\<close> are a record; a missing key is \<open>None\<close>, numbers are exact rationals, and the time
  stamps are instants in nanoseconds (the code writes them without loss: \<open>NOW()\<close> has microseconds and
  resets fall on whole seconds).  The daily and the weekly keys have the same shape, \<open>quota_window\<close>.

  A time zone is a pair of functions: the wall clock of an instant, and the instant of a wall clock
  (\<open>time.Date\<close>, \<open>AT TIME ZONE\<close>).  The zone databases of Go and of PostgreSQL are parameters.
\<close>

subsection \<open>Zones\<close>

record Location =
  loc_wall :: "int \<Rightarrow> int"
  loc_instant :: "int \<Rightarrow> int"

record zone_db =
  zd_LoadLocation :: "string \<Rightarrow> Location option"
  zd_sql :: "string \<Rightarrow> Location option"

definition UTC :: Location where
  "UTC = \<lparr>loc_wall = (\<lambda>t. t), loc_instant = (\<lambda>w. w)\<rparr>"

definition day :: int where "day = 24 * hour"

text \<open>Midnight before a wall clock reading, and its weekday (1970-01-01 was a Thursday, 4).\<close>

definition midnight :: "int \<Rightarrow> int" where "midnight w = w - w mod day"

definition weekday :: "int \<Rightarrow> int" where "weekday w = (w div day + 4) mod 7"

definition AddDate :: "Location \<Rightarrow> int \<Rightarrow> int \<Rightarrow> int" where
  "AddDate tz t n = loc_instant tz (loc_wall tz t + n * day)"

subsection \<open>Fixed reset times\<close>

text \<open>\<open>time.Date(t.Year(), t.Month(), t.Day(), hour, 0, 0, 0, tz)\<close> for \<open>t := after.In(tz)\<close>.\<close>

definition resetOn :: "Location \<Rightarrow> int \<Rightarrow> int \<Rightarrow> int" where
  "resetOn tz h t = loc_instant tz (midnight (loc_wall tz t) + h * hour)"

definition nextFixedDailyReset :: "int \<Rightarrow> Location \<Rightarrow> int \<Rightarrow> int" where
  "nextFixedDailyReset h tz after =
     (let today = resetOn tz h after in if \<not> after < today then AddDate tz today 1 else today)"

definition lastFixedDailyReset :: "int \<Rightarrow> Location \<Rightarrow> int \<Rightarrow> int" where
  "lastFixedDailyReset h tz now =
     (let today = resetOn tz h now in if now < today then AddDate tz today (- 1) else today)"

definition nextFixedWeeklyReset :: "int \<Rightarrow> int \<Rightarrow> Location \<Rightarrow> int \<Rightarrow> int" where
  "nextFixedWeeklyReset d h tz after =
     (let todayReset = resetOn tz h after;
          currentDay = weekday (loc_wall tz todayReset);
          daysForward = (d - currentDay + 7) mod 7
      in AddDate tz todayReset (if daysForward = 0 \<and> \<not> after < todayReset then 7 else daysForward))"

definition lastFixedWeeklyReset :: "int \<Rightarrow> int \<Rightarrow> Location \<Rightarrow> int \<Rightarrow> int" where
  "lastFixedWeeklyReset d h tz now =
     (let todayReset = resetOn tz h now;
          currentDay = weekday (loc_wall tz todayReset);
          daysBack = (currentDay - d + 7) mod 7
      in AddDate tz todayReset (- (if daysBack = 0 \<and> now < todayReset then 7 else daysBack)))"

subsection \<open>The quota keys\<close>

record quota_window =
  qw_limit :: "rat option"
  qw_used :: "rat option"
  qw_start :: "int option"
  qw_reset_mode :: "string option"
  qw_reset_hour :: "int option"
  qw_reset_at :: "int option"

record quota_extra =
  qx_limit :: "rat option"
  qx_used :: "rat option"
  qx_daily :: quota_window
  qx_weekly :: quota_window
  qx_weekly_reset_day :: "int option"
  qx_timezone :: "string option"

definition coalesce :: "'a option \<Rightarrow> 'a \<Rightarrow> 'a" where
  "coalesce v d = (case v of None \<Rightarrow> d | Some x \<Rightarrow> x)"

lemma coalesce_simps [simp]: "coalesce None d = d" "coalesce (Some x) d = x"
  by (simp_all add: coalesce_def)

definition getExtraTime :: "int option \<Rightarrow> int" where
  "getExtraTime v = coalesce v zero_time"

definition fixedMode :: "quota_window \<Rightarrow> bool" where
  "fixedMode w \<longleftrightarrow> qw_reset_mode w = Some ''fixed''"

definition GetQuotaResetTimezone :: "quota_extra \<Rightarrow> string" where
  "GetQuotaResetTimezone x = (let tz = coalesce (qx_timezone x) '''' in if tz \<noteq> '''' then tz else ''UTC'')"

definition GetQuotaWeeklyResetDay :: "quota_extra \<Rightarrow> int" where
  "GetQuotaWeeklyResetDay x = coalesce (qx_weekly_reset_day x) 1"

definition quotaZone :: "zone_db \<Rightarrow> quota_extra \<Rightarrow> Location" where
  "quotaZone z x = coalesce (zd_LoadLocation z (GetQuotaResetTimezone x)) UTC"

subsection \<open>The check of the scheduler\<close>

definition isFixedDailyPeriodExpired :: "zone_db \<Rightarrow> int \<Rightarrow> quota_extra \<Rightarrow> int \<Rightarrow> bool" where
  "isFixedDailyPeriodExpired z now x periodStart =
     (if IsZero periodStart then True
      else periodStart < lastFixedDailyReset (coalesce (qw_reset_hour (qx_daily x)) 0) (quotaZone z x) now)"

definition isFixedWeeklyPeriodExpired :: "zone_db \<Rightarrow> int \<Rightarrow> quota_extra \<Rightarrow> int \<Rightarrow> bool" where
  "isFixedWeeklyPeriodExpired z now x periodStart =
     (if IsZero periodStart then True
      else periodStart < lastFixedWeeklyReset (GetQuotaWeeklyResetDay x)
             (coalesce (qw_reset_hour (qx_weekly x)) 0) (quotaZone z x) now)"

definition isPeriodExpired :: "int \<Rightarrow> int \<Rightarrow> int \<Rightarrow> bool" where
  "isPeriodExpired now periodStart dur = (if IsZero periodStart then True else dur \<le> now - periodStart)"

definition IsDailyQuotaPeriodExpired :: "zone_db \<Rightarrow> int \<Rightarrow> quota_extra \<Rightarrow> bool" where
  "IsDailyQuotaPeriodExpired z now x =
     (let start = getExtraTime (qw_start (qx_daily x))
      in if fixedMode (qx_daily x) then isFixedDailyPeriodExpired z now x start
         else isPeriodExpired now start (24 * hour))"

definition IsWeeklyQuotaPeriodExpired :: "zone_db \<Rightarrow> int \<Rightarrow> quota_extra \<Rightarrow> bool" where
  "IsWeeklyQuotaPeriodExpired z now x =
     (let start = getExtraTime (qw_start (qx_weekly x))
      in if fixedMode (qx_weekly x) then isFixedWeeklyPeriodExpired z now x start
         else isPeriodExpired now start (7 * 24 * hour))"

definition HasAnyQuotaLimit :: "quota_extra \<Rightarrow> bool" where
  "HasAnyQuotaLimit x \<longleftrightarrow> coalesce (qx_limit x) 0 > 0 \<or> coalesce (qw_limit (qx_daily x)) 0 > 0 \<or>
     coalesce (qw_limit (qx_weekly x)) 0 > 0"

definition IsQuotaExceeded :: "zone_db \<Rightarrow> int \<Rightarrow> quota_extra \<Rightarrow> bool" where
  "IsQuotaExceeded z now x =
     (if coalesce (qx_limit x) 0 > 0 \<and> coalesce (qx_used x) 0 \<ge> coalesce (qx_limit x) 0 then True
      else if coalesce (qw_limit (qx_daily x)) 0 > 0 \<and> \<not> IsDailyQuotaPeriodExpired z now x \<and>
          coalesce (qw_used (qx_daily x)) 0 \<ge> coalesce (qw_limit (qx_daily x)) 0 then True
      else coalesce (qw_limit (qx_weekly x)) 0 > 0 \<and> \<not> IsWeeklyQuotaPeriodExpired z now x \<and>
          coalesce (qw_used (qx_weekly x)) 0 \<ge> coalesce (qw_limit (qx_weekly x)) 0)"

subsection \<open>Saving an account\<close>

definition clampHour :: "int option \<Rightarrow> int" where
  "clampHour v = (let h = coalesce v 0 in if h < 0 \<or> h > 23 then 0 else h)"

definition clampDay :: "int option \<Rightarrow> int" where
  "clampDay v = (let d = coalesce v 1 in if d < 0 \<or> d > 6 then 1 else d)"

definition ComputeQuotaResetAt :: "zone_db \<Rightarrow> int \<Rightarrow> quota_extra \<Rightarrow> quota_extra" where
  "ComputeQuotaResetAt z now x =
     (let tz = quotaZone z x;
          dw = qx_daily x; ww = qx_weekly x
      in x\<lparr>qx_daily := dw\<lparr>qw_reset_at :=
             (if fixedMode dw then Some (nextFixedDailyReset (clampHour (qw_reset_hour dw)) tz now) else None)\<rparr>,
           qx_weekly := ww\<lparr>qw_reset_at :=
             (if fixedMode ww then Some (nextFixedWeeklyReset (clampDay (qx_weekly_reset_day x))
                (clampHour (qw_reset_hour ww)) tz now) else None)\<rparr>\<rparr>)"

definition normalizeWindow :: "int \<Rightarrow> quota_window \<Rightarrow> quota_window" where
  "normalizeWindow lastReset w =
     (if fixedMode w \<and> coalesce (qw_limit w) 0 > 0
      then (let start = getExtraTime (qw_start w)
            in if IsZero start \<or> start < lastReset then w\<lparr>qw_used := Some 0, qw_start := Some lastReset\<rparr> else w)
      else w)"

definition NormalizeFixedQuotaWindows :: "zone_db \<Rightarrow> int \<Rightarrow> quota_extra \<Rightarrow> quota_extra" where
  "NormalizeFixedQuotaWindows z now x =
     (let tz = quotaZone z x;
          dw = qx_daily x; ww = qx_weekly x
      in x\<lparr>qx_daily := normalizeWindow (lastFixedDailyReset (clampHour (qw_reset_hour dw)) tz now) dw,
           qx_weekly := normalizeWindow (lastFixedWeeklyReset (clampDay (qx_weekly_reset_day x))
             (clampHour (qw_reset_hour ww)) tz now) ww\<rparr>)"

definition ValidateQuotaResetConfig :: "zone_db \<Rightarrow> quota_extra \<Rightarrow> go_error option" where
  "ValidateQuotaResetConfig z x =
     (let badMode = (\<lambda>w. case qw_reset_mode w of None \<Rightarrow> False | Some m \<Rightarrow> m \<noteq> ''rolling'' \<and> m \<noteq> ''fixed'');
          badHour = (\<lambda>w. case qw_reset_hour w of None \<Rightarrow> False | Some h \<Rightarrow> h < 0 \<or> h > 23);
          bad = (\<lambda>what. Some (OtherError (''invalid '' @ what) None))
      in if (case qx_timezone x of None \<Rightarrow> False | Some tz \<Rightarrow> tz \<noteq> '''' \<and> zd_LoadLocation z tz = None)
         then bad ''quota_reset_timezone''
         else if badMode (qx_daily x) then bad ''quota_daily_reset_mode''
         else if badHour (qx_daily x) then bad ''quota_daily_reset_hour''
         else if badMode (qx_weekly x) then bad ''quota_weekly_reset_mode''
         else if (case qx_weekly_reset_day x of None \<Rightarrow> False | Some d \<Rightarrow> d < 0 \<or> d > 6)
         then bad ''quota_weekly_reset_day''
         else if badHour (qx_weekly x) then bad ''quota_weekly_reset_hour''
         else None)"

text \<open>What creating and editing an account do with its \<open>extra\<close>.\<close>

definition saveExtra :: "zone_db \<Rightarrow> int \<Rightarrow> quota_extra \<Rightarrow> go_error + quota_extra" where
  "saveExtra z now x =
     (case ValidateQuotaResetConfig z x of
        Some err \<Rightarrow> Inl err
      | None \<Rightarrow> Inr (NormalizeFixedQuotaWindows z now (ComputeQuotaResetAt z now x)))"

subsection \<open>The statements\<close>

text \<open>
  The period has expired: at its stored reset time in the fixed mode, after its length otherwise.
  1970-01-01 is 0.  A zone the database does not know is an error of the statement.
\<close>

definition windowExpired :: "int \<Rightarrow> int \<Rightarrow> quota_window \<Rightarrow> bool" where
  "windowExpired len now w =
     (if coalesce (qw_reset_mode w) ''rolling'' = ''fixed'' then coalesce (qw_reset_at w) 0 \<le> now
      else coalesce (qw_start w) 0 + len \<le> now)"

definition dailyExpiredExpr :: "int \<Rightarrow> quota_window \<Rightarrow> bool" where
  "dailyExpiredExpr = windowExpired (24 * hour)"

definition weeklyExpiredExpr :: "int \<Rightarrow> quota_window \<Rightarrow> bool" where
  "weeklyExpiredExpr = windowExpired (168 * hour)"

definition sqlZone :: "zone_db \<Rightarrow> quota_extra \<Rightarrow> go_error + Location" where
  "sqlZone z x =
     (case zd_sql z (coalesce (qx_timezone x) ''UTC'') of
        None \<Rightarrow> Inl (OtherError ''time zone not recognized'' None)
      | Some tz \<Rightarrow> Inr tz)"

definition nextDailyResetAtExpr :: "Location \<Rightarrow> int \<Rightarrow> quota_extra \<Rightarrow> int" where
  "nextDailyResetAtExpr tz now x =
     (let today = midnight (loc_wall tz now) + coalesce (qw_reset_hour (qx_daily x)) 0 * hour
      in if loc_instant tz today \<le> now then loc_instant tz (today + day) else loc_instant tz today)"

definition nextWeeklyResetAtExpr :: "Location \<Rightarrow> int \<Rightarrow> quota_extra \<Rightarrow> int" where
  "nextWeeklyResetAtExpr tz now x =
     (let today = midnight (loc_wall tz now) + coalesce (qw_reset_hour (qx_weekly x)) 0 * hour;
          daysForward = (coalesce (qx_weekly_reset_day x) 1 - weekday (loc_wall tz now) + 7) mod 7
      in if daysForward = 0 \<and> loc_instant tz today \<le> now then loc_instant tz (today + 7 * day)
         else loc_instant tz (today + daysForward * day))"

text \<open>One dimension of the update: \<open>next\<close> is the next reset, needed only when a fixed period has expired.\<close>

definition chargeWindow :: "bool \<Rightarrow> (go_error + int) \<Rightarrow> int \<Rightarrow> rat \<Rightarrow> quota_window \<Rightarrow> go_error + quota_window" where
  "chargeWindow expired nextReset now amount w =
     (if coalesce (qw_limit w) 0 > 0
      then (if expired
            then (let w' = w\<lparr>qw_used := Some amount, qw_start := Some now\<rparr>
                  in if coalesce (qw_reset_mode w) ''rolling'' = ''fixed''
                     then map_sum id (\<lambda>r. w'\<lparr>qw_reset_at := Some r\<rparr>) nextReset
                     else Inr w')
            else Inr (w\<lparr>qw_used := Some (coalesce (qw_used w) 0 + amount),
                        qw_start := Some (coalesce (qw_start w) now)\<rparr>))
      else Inr w)"

definition chargeExtra :: "zone_db \<Rightarrow> int \<Rightarrow> rat \<Rightarrow> quota_extra \<Rightarrow> go_error + quota_extra" where
  "chargeExtra z now amount x =
     (let tz = sqlZone z x
      in case chargeWindow (dailyExpiredExpr now (qx_daily x)) (map_sum id (\<lambda>l. nextDailyResetAtExpr l now x) tz)
              now amount (qx_daily x) of
           Inl err \<Rightarrow> Inl err
         | Inr dw \<Rightarrow>
        (case chargeWindow (weeklyExpiredExpr now (qx_weekly x)) (map_sum id (\<lambda>l. nextWeeklyResetAtExpr l now x) tz)
              now amount (qx_weekly x) of
           Inl err \<Rightarrow> Inl err
         | Inr ww \<Rightarrow> Inr (x\<lparr>qx_used := Some (coalesce (qx_used x) 0 + amount), qx_daily := dw, qx_weekly := ww\<rparr>)))"

definition resetExtra :: "quota_extra \<Rightarrow> quota_extra" where
  "resetExtra x =
     (let reset = (\<lambda>w. w\<lparr>qw_used := Some 0, qw_start := None, qw_reset_at := None\<rparr>)
      in x\<lparr>qx_used := Some 0, qx_daily := reset (qx_daily x), qx_weekly := reset (qx_weekly x)\<rparr>)"

text \<open>The state that the billing statement returns, and whether it makes the scheduler look again.\<close>

record AccountQuotaState =
  qs_TotalUsed :: rat
  qs_TotalLimit :: rat
  qs_DailyUsed :: rat
  qs_DailyLimit :: rat
  qs_WeeklyUsed :: rat
  qs_WeeklyLimit :: rat

definition quotaState :: "quota_extra \<Rightarrow> AccountQuotaState" where
  "quotaState x = \<lparr>qs_TotalUsed = coalesce (qx_used x) 0, qs_TotalLimit = coalesce (qx_limit x) 0,
     qs_DailyUsed = coalesce (qw_used (qx_daily x)) 0, qs_DailyLimit = coalesce (qw_limit (qx_daily x)) 0,
     qs_WeeklyUsed = coalesce (qw_used (qx_weekly x)) 0, qs_WeeklyLimit = coalesce (qw_limit (qx_weekly x)) 0\<rparr>"

definition crossed :: "rat \<Rightarrow> rat \<Rightarrow> rat \<Rightarrow> bool" where
  "crossed limit used amount \<longleftrightarrow> limit > 0 \<and> used \<ge> limit \<and> used - amount < limit"

definition crossedAny :: "AccountQuotaState \<Rightarrow> rat \<Rightarrow> bool" where
  "crossedAny st amount \<longleftrightarrow> crossed (qs_TotalLimit st) (qs_TotalUsed st) amount \<or>
     crossed (qs_DailyLimit st) (qs_DailyUsed st) amount \<or> crossed (qs_WeeklyLimit st) (qs_WeeklyUsed st) amount"

end
