(* ===== verification/UsageBilling.thy ===== *)
theory UsageBilling
  imports AccountQuota Interleaving PaymentAmounts
begin

section \<open>Charging a request\<close>

text \<open>
  \<open>service/usage_billing.go\<close>, \<open>repository/usage_billing_repo.go\<close>, the part of
  \<open>service/gateway_service.go\<close> that turns a priced request into a billing command, and the job of
  \<open>repository/dashboard_aggregation_repo.go\<close> that archives deduplication keys.

  \<open>Apply\<close> is one database transaction, an atomic action of the handler; it may be refused, or commit and
  lose its reply.  Columns of type \<open>decimal(20,8)\<close> and \<open>decimal(20,10)\<close> round what is stored.  SHA-256 and the
  format \<open>%0.10f\<close> are parameters, as is the calendar of the database's time zone.

  \<open>bd_log\<close> is no table: it records the commands that were committed and when, for the theorems.
\<close>

record billing_lib =
  bl_sha256hex :: "string \<Rightarrow> string"
  bl_fmt10 :: "rat \<Rightarrow> string"
  bl_calendar :: calendar
  bl_zones :: zone_db

subsection \<open>Commands\<close>

record UsageBillingCommand =
  uc_RequestID :: string
  uc_APIKeyID :: int
  uc_RequestFingerprint :: string
  uc_RequestPayloadHash :: string
  uc_UserID :: int
  uc_AccountID :: int
  uc_SubscriptionID :: "int option"
  uc_AccountType :: string
  uc_Model :: string
  uc_ServiceTier :: string
  uc_ReasoningEffort :: string
  uc_BillingType :: int
  uc_InputTokens :: int
  uc_OutputTokens :: int
  uc_CacheCreationTokens :: int
  uc_CacheReadTokens :: int
  uc_ImageCount :: int
  uc_MediaType :: string
  uc_BalanceCost :: rat
  uc_SubscriptionCost :: rat
  uc_APIKeyQuotaCost :: rat
  uc_APIKeyRateLimitCost :: rat
  uc_AccountQuotaCost :: rat

definition valueOrZero :: "int option \<Rightarrow> int" where
  "valueOrZero v = coalesce v 0"

fun joinBar :: "string list \<Rightarrow> string" where
  "joinBar [] = ''''"
| "joinBar [s] = s"
| "joinBar (s # ss) = s @ ''|'' @ joinBar ss"

definition buildUsageBillingFingerprint :: "billing_lib \<Rightarrow> UsageBillingCommand \<Rightarrow> string" where
  "buildUsageBillingFingerprint L c =
     (let raw = joinBar [itoa (uc_UserID c), itoa (uc_AccountID c), itoa (uc_APIKeyID c), trim_space (uc_AccountType c),
            trim_space (uc_Model c), trim_space (uc_ServiceTier c), trim_space (uc_ReasoningEffort c), itoa (uc_BillingType c),
            itoa (uc_InputTokens c), itoa (uc_OutputTokens c), itoa (uc_CacheCreationTokens c), itoa (uc_CacheReadTokens c),
            itoa (uc_ImageCount c), trim_space (uc_MediaType c), itoa (valueOrZero (uc_SubscriptionID c)),
            bl_fmt10 L (uc_BalanceCost c), bl_fmt10 L (uc_SubscriptionCost c), bl_fmt10 L (uc_APIKeyQuotaCost c),
            bl_fmt10 L (uc_APIKeyRateLimitCost c), bl_fmt10 L (uc_AccountQuotaCost c)];
          payloadHash = trim_space (uc_RequestPayloadHash c)
      in bl_sha256hex L (if payloadHash \<noteq> '''' then raw @ ''|'' @ payloadHash else raw))"

definition Normalize :: "billing_lib \<Rightarrow> UsageBillingCommand \<Rightarrow> UsageBillingCommand" where
  "Normalize L c =
     (let c' = c\<lparr>uc_RequestID := trim_space (uc_RequestID c)\<rparr>
      in if trim_space (uc_RequestFingerprint c') = ''''
         then c'\<lparr>uc_RequestFingerprint := buildUsageBillingFingerprint L c'\<rparr> else c')"

definition HashUsageRequestPayload :: "billing_lib \<Rightarrow> string \<Rightarrow> string" where
  "HashUsageRequestPayload L payload = (if payload = '''' then '''' else bl_sha256hex L payload)"

record UsageBillingApplyResult =
  ar_Applied :: bool
  ar_APIKeyQuotaExhausted :: bool
  ar_NewBalance :: "rat option"
  ar_BalanceOverdrafted :: bool
  ar_QuotaState :: "AccountQuotaState option"

definition notApplied :: UsageBillingApplyResult where
  "notApplied = \<lparr>ar_Applied = False, ar_APIKeyQuotaExhausted = False, ar_NewBalance = None,
     ar_BalanceOverdrafted = False, ar_QuotaState = None\<rparr>"

subsection \<open>Tables\<close>

record dedup_row =
  dd_RequestID :: string
  dd_APIKeyID :: int
  dd_Fingerprint :: string
  dd_CreatedAt :: int

record bill_user =
  bu_ID :: int
  bu_Balance :: rat
  bu_Deleted :: bool

record bill_key =
  bk_ID :: int
  bk_Status :: string
  bk_Quota :: rat
  bk_QuotaUsed :: rat
  bk_Usage5h :: rat
  bk_Usage1d :: rat
  bk_Usage7d :: rat
  bk_Window5hStart :: "int option"
  bk_Window1dStart :: "int option"
  bk_Window7dStart :: "int option"
  bk_Deleted :: bool

record bill_account =
  bc_ID :: int
  bc_Extra :: quota_extra
  bc_Deleted :: bool

record billing_db =
  bd_dedup :: "dedup_row list"
  bd_archive :: "dedup_row list"
  bd_users :: "bill_user list"
  bd_keys :: "bill_key list"
  bd_accounts :: "bill_account list"
  bd_subs :: sub_db
  bd_outbox :: "int list"
  bd_log :: "(int \<times> UsageBillingCommand) list"

definition StatusAPIKeyActive :: string where "StatusAPIKeyActive = ''active''"
definition StatusAPIKeyQuotaExhausted :: string where "StatusAPIKeyQuotaExhausted = ''quota_exhausted''"
definition AccountTypeAPIKey :: string where "AccountTypeAPIKey = ''apikey''"
definition AccountTypeBedrock :: string where "AccountTypeBedrock = ''bedrock''"

definition ErrUsageBillingRequestIDRequired :: go_error where
  "ErrUsageBillingRequestIDRequired = OtherError ''usage billing request_id is required'' None"
definition ErrUsageBillingRequestConflict :: go_error where
  "ErrUsageBillingRequestConflict = OtherError ''usage billing request fingerprint conflict'' None"
definition ErrAPIKeyNotFound :: go_error where
  "ErrAPIKeyNotFound = NotFound ''API_KEY_NOT_FOUND'' ''api key not found''"
definition ErrAccountNotFound :: go_error where
  "ErrAccountNotFound = NotFound ''ACCOUNT_NOT_FOUND'' ''account not found''"
definition ErrSubscriptionNotFound :: go_error where
  "ErrSubscriptionNotFound = NotFound ''SUBSCRIPTION_NOT_FOUND'' ''subscription not found''"

text \<open>A statement inside a transaction: an error, or a result and the new state.\<close>

type_synonym 'x tx = "billing_db \<Rightarrow> go_error + 'x \<times> billing_db"

definition tx_return :: "'x \<Rightarrow> 'x tx" where
  "tx_return x db = Inr (x, db)"

definition tx_bind :: "'x tx \<Rightarrow> ('x \<Rightarrow> 'y tx) \<Rightarrow> 'y tx" where
  "tx_bind m k db = (case m db of Inl err \<Rightarrow> Inl err | Inr (x, db') \<Rightarrow> k x db')"

definition tx_when :: "bool \<Rightarrow> 'x tx \<Rightarrow> 'x \<Rightarrow> 'x tx" where
  "tx_when c m x = (if c then m else tx_return x)"

text \<open>Updating one row of a table: no row is an error.\<close>

definition updateFirst :: "('r \<Rightarrow> bool) \<Rightarrow> ('r \<Rightarrow> 'r) \<Rightarrow> 'r list \<Rightarrow> 'r list" where
  "updateFirst p f rs = map (\<lambda>r. if p r then f r else r) rs"

subsection \<open>The deduplication key\<close>

definition dedupFind :: "string \<Rightarrow> int \<Rightarrow> dedup_row list \<Rightarrow> dedup_row option" where
  "dedupFind rid key rows = List.find (\<lambda>r. dd_RequestID r = rid \<and> dd_APIKeyID r = key) rows"

definition claimUsageBillingKey :: "int \<Rightarrow> UsageBillingCommand \<Rightarrow> bool tx" where
  "claimUsageBillingKey now cmd db =
     (let sameFingerprint = (\<lambda>r. trim_space (dd_Fingerprint r) = trim_space (uc_RequestFingerprint cmd))
      in case dedupFind (uc_RequestID cmd) (uc_APIKeyID cmd) (bd_dedup db) of
           Some r \<Rightarrow> if \<not> sameFingerprint r then Inl ErrUsageBillingRequestConflict else Inr (False, db)
         | None \<Rightarrow>
            (let row = \<lparr>dd_RequestID = uc_RequestID cmd, dd_APIKeyID = uc_APIKeyID cmd,
                        dd_Fingerprint = uc_RequestFingerprint cmd, dd_CreatedAt = now\<rparr>;
                 db1 = db\<lparr>bd_dedup := bd_dedup db @ [row]\<rparr>
             in case dedupFind (uc_RequestID cmd) (uc_APIKeyID cmd) (bd_archive db1) of
                  Some r \<Rightarrow> if \<not> sameFingerprint r then Inl ErrUsageBillingRequestConflict else Inr (False, db1)
                | None \<Rightarrow> Inr (True, db1)))"

subsection \<open>The effects\<close>

definition incrementUsageBillingSubscription :: "int \<Rightarrow> int \<Rightarrow> rat \<Rightarrow> unit tx" where
  "incrementUsageBillingSubscription now subscriptionID costUSD db =
     (let sdb = bd_subs db;
          hit = (\<lambda>r. us_ID r = subscriptionID \<and> live r \<and> db_groups sdb (us_GroupID r) \<noteq> None)
      in if list_ex hit (db_subs sdb)
         then Inr ((), db\<lparr>bd_subs := sdb\<lparr>db_subs := updateFirst hit (\<lambda>r.
                r\<lparr>us_DailyUsageUSD := dec_round 10 (us_DailyUsageUSD r + costUSD),
                  us_WeeklyUsageUSD := dec_round 10 (us_WeeklyUsageUSD r + costUSD),
                  us_MonthlyUsageUSD := dec_round 10 (us_MonthlyUsageUSD r + costUSD),
                  us_UpdatedAt := now\<rparr>) (db_subs sdb)\<rparr>\<rparr>)
         else Inl ErrSubscriptionNotFound)"

text \<open>The first statement requires a sufficient balance, the second deducts in any case.\<close>

definition deductUsageBillingBalance :: "int \<Rightarrow> rat \<Rightarrow> (rat \<times> bool) tx" where
  "deductUsageBillingBalance userID amount db =
     (let pay = (\<lambda>u. u\<lparr>bu_Balance := dec_round 8 (bu_Balance u - amount)\<rparr>);
          sufficient = (\<lambda>u. bu_ID u = userID \<and> \<not> bu_Deleted u \<and> bu_Balance u \<ge> amount);
          present = (\<lambda>u. bu_ID u = userID \<and> \<not> bu_Deleted u)
      in case List.find sufficient (bd_users db) of
           Some u \<Rightarrow> Inr ((bu_Balance (pay u), True), db\<lparr>bd_users := updateFirst sufficient pay (bd_users db)\<rparr>)
         | None \<Rightarrow>
            (case List.find present (bd_users db) of
               Some u \<Rightarrow> Inr ((bu_Balance (pay u), False), db\<lparr>bd_users := updateFirst present pay (bd_users db)\<rparr>)
             | None \<Rightarrow> Inl ErrUserNotFound))"

text \<open>\<open>SET\<close> reads the old row, \<open>RETURNING\<close> the stored one.\<close>

definition chargeKeyQuota :: "rat \<Rightarrow> bill_key \<Rightarrow> bill_key" where
  "chargeKeyQuota amount k =
     k\<lparr>bk_QuotaUsed := dec_round 8 (bk_QuotaUsed k + amount),
       bk_Status := (if bk_Quota k > 0 \<and> bk_Status k = StatusAPIKeyActive \<and> bk_QuotaUsed k < bk_Quota k \<and>
                        bk_QuotaUsed k + amount \<ge> bk_Quota k
                     then StatusAPIKeyQuotaExhausted else bk_Status k)\<rparr>"

definition keyExhausted :: "rat \<Rightarrow> bill_key \<Rightarrow> bool" where
  "keyExhausted amount k \<longleftrightarrow>
     bk_Quota k > 0 \<and> bk_QuotaUsed k \<ge> bk_Quota k \<and> bk_QuotaUsed k - amount < bk_Quota k"

definition incrementUsageBillingAPIKeyQuota :: "int \<Rightarrow> rat \<Rightarrow> bool tx" where
  "incrementUsageBillingAPIKeyQuota apiKeyID amount db =
     (let hit = (\<lambda>k. bk_ID k = apiKeyID \<and> \<not> bk_Deleted k)
      in case List.find hit (bd_keys db) of
           None \<Rightarrow> Inl ErrAPIKeyNotFound
         | Some k \<Rightarrow> Inr (keyExhausted amount (chargeKeyQuota amount k),
                          db\<lparr>bd_keys := updateFirst hit (chargeKeyQuota amount) (bd_keys db)\<rparr>))"

definition windowOver :: "int \<Rightarrow> int \<Rightarrow> int option \<Rightarrow> bool" where
  "windowOver now len start = (case start of None \<Rightarrow> False | Some s \<Rightarrow> s + len \<le> now)"

definition chargeKeyWindows :: "calendar \<Rightarrow> int \<Rightarrow> rat \<Rightarrow> bill_key \<Rightarrow> bill_key" where
  "chargeKeyWindows cal now cost k =
     (let usage = (\<lambda>len start used. if windowOver now len start then cost else used + cost);
          window = (\<lambda>len start fresh. if start = None \<or> windowOver now len start then Some fresh else start);
          midnight = start_of_day cal now
      in k\<lparr>bk_Usage5h := dec_round 8 (usage (5 * hour) (bk_Window5hStart k) (bk_Usage5h k)),
           bk_Usage1d := dec_round 8 (usage (24 * hour) (bk_Window1dStart k) (bk_Usage1d k)),
           bk_Usage7d := dec_round 8 (usage (7 * 24 * hour) (bk_Window7dStart k) (bk_Usage7d k)),
           bk_Window5hStart := window (5 * hour) (bk_Window5hStart k) now,
           bk_Window1dStart := window (24 * hour) (bk_Window1dStart k) midnight,
           bk_Window7dStart := window (7 * 24 * hour) (bk_Window7dStart k) midnight\<rparr>)"

definition incrementUsageBillingAPIKeyRateLimit :: "calendar \<Rightarrow> int \<Rightarrow> int \<Rightarrow> rat \<Rightarrow> unit tx" where
  "incrementUsageBillingAPIKeyRateLimit cal now apiKeyID cost db =
     (let hit = (\<lambda>k. bk_ID k = apiKeyID \<and> \<not> bk_Deleted k)
      in if list_ex hit (bd_keys db)
         then Inr ((), db\<lparr>bd_keys := updateFirst hit (chargeKeyWindows cal now cost) (bd_keys db)\<rparr>)
         else Inl ErrAPIKeyNotFound)"

definition incrementUsageBillingAccountQuota :: "zone_db \<Rightarrow> int \<Rightarrow> int \<Rightarrow> rat \<Rightarrow> AccountQuotaState tx" where
  "incrementUsageBillingAccountQuota z now accountID amount db =
     (let hit = (\<lambda>a. bc_ID a = accountID \<and> \<not> bc_Deleted a)
      in case List.find hit (bd_accounts db) of
           None \<Rightarrow> Inl ErrAccountNotFound
         | Some a \<Rightarrow>
            (case chargeExtra z now amount (bc_Extra a) of
               Inl err \<Rightarrow> Inl err
             | Inr x \<Rightarrow>
                (let st = quotaState x;
                     db1 = db\<lparr>bd_accounts := updateFirst hit (\<lambda>a. a\<lparr>bc_Extra := x\<rparr>) (bd_accounts db)\<rparr>
                 in Inr (st, if crossedAny st amount then db1\<lparr>bd_outbox := bd_outbox db1 @ [accountID]\<rparr> else db1))))"

text \<open>
  The operations of \<open>repository/account_repo.go\<close> on the same keys, each an action of its own; they do not miss a
  row, and only the total quota tells the scheduler.
\<close>

definition IncrementQuotaUsed :: "zone_db \<Rightarrow> int \<Rightarrow> int \<Rightarrow> rat \<Rightarrow> unit tx" where
  "IncrementQuotaUsed z now accountID amount db =
     (let hit = (\<lambda>a. bc_ID a = accountID \<and> \<not> bc_Deleted a)
      in case List.find hit (bd_accounts db) of
           None \<Rightarrow> Inr ((), db)
         | Some a \<Rightarrow>
            (case chargeExtra z now amount (bc_Extra a) of
               Inl err \<Rightarrow> Inl err
             | Inr x \<Rightarrow>
                (let db1 = db\<lparr>bd_accounts := updateFirst hit (\<lambda>a. a\<lparr>bc_Extra := x\<rparr>) (bd_accounts db)\<rparr>
                 in Inr ((), if crossed (coalesce (qx_limit x) 0) (coalesce (qx_used x) 0) amount
                             then db1\<lparr>bd_outbox := bd_outbox db1 @ [accountID]\<rparr> else db1))))"

definition ResetQuotaUsed :: "int \<Rightarrow> unit tx" where
  "ResetQuotaUsed accountID db =
     Inr ((), db\<lparr>bd_accounts := updateFirst (\<lambda>a. bc_ID a = accountID \<and> \<not> bc_Deleted a)
        (\<lambda>a. a\<lparr>bc_Extra := resetExtra (bc_Extra a)\<rparr>) (bd_accounts db),
      bd_outbox := bd_outbox db @ [accountID]\<rparr>)"

definition applyUsageBillingEffects :: "billing_lib \<Rightarrow> int \<Rightarrow> UsageBillingCommand \<Rightarrow> UsageBillingApplyResult \<Rightarrow>
    UsageBillingApplyResult tx" where
  "applyUsageBillingEffects L now cmd result0 =
     tx_bind (case uc_SubscriptionID cmd of
                Some i \<Rightarrow> tx_when (uc_SubscriptionCost cmd > 0)
                  (incrementUsageBillingSubscription now i (uc_SubscriptionCost cmd)) ()
              | None \<Rightarrow> tx_return ())
       (\<lambda>_. tx_bind (tx_when (uc_BalanceCost cmd > 0)
              (tx_bind (deductUsageBillingBalance (uc_UserID cmd) (uc_BalanceCost cmd))
                 (\<lambda>(newBalance, sufficient). tx_return (result0\<lparr>ar_NewBalance := Some newBalance,
                    ar_BalanceOverdrafted := \<not> sufficient\<rparr>))) result0)
       (\<lambda>result1. tx_bind (tx_when (uc_APIKeyQuotaCost cmd > 0)
              (tx_bind (incrementUsageBillingAPIKeyQuota (uc_APIKeyID cmd) (uc_APIKeyQuotaCost cmd))
                 (\<lambda>exhausted. tx_return (result1\<lparr>ar_APIKeyQuotaExhausted := exhausted\<rparr>))) result1)
       (\<lambda>result2. tx_bind (tx_when (uc_APIKeyRateLimitCost cmd > 0)
              (incrementUsageBillingAPIKeyRateLimit (bl_calendar L) now (uc_APIKeyID cmd) (uc_APIKeyRateLimitCost cmd)) ())
       (\<lambda>_. tx_when (uc_AccountQuotaCost cmd > 0 \<and>
                (EqualFold (uc_AccountType cmd) AccountTypeAPIKey \<or> EqualFold (uc_AccountType cmd) AccountTypeBedrock))
              (tx_bind (incrementUsageBillingAccountQuota (bl_zones L) now (uc_AccountID cmd) (uc_AccountQuotaCost cmd))
                 (\<lambda>st. tx_return (result2\<lparr>ar_QuotaState := Some st\<rparr>))) result2))))"

text \<open>The transaction: rolled back unless the key was claimed and every effect succeeded.\<close>

definition billingTx :: "billing_lib \<Rightarrow> int \<Rightarrow> UsageBillingCommand \<Rightarrow> billing_db \<Rightarrow>
    (go_error + UsageBillingApplyResult) \<times> billing_db" where
  "billingTx L now cmd db =
     (case claimUsageBillingKey now cmd db of
        Inl err \<Rightarrow> (Inl err, db)
      | Inr (False, _) \<Rightarrow> (Inr notApplied, db)
      | Inr (True, db1) \<Rightarrow>
         (case applyUsageBillingEffects L now cmd (notApplied\<lparr>ar_Applied := True\<rparr>) db1 of
            Inl err \<Rightarrow> (Inl err, db)
          | Inr (result, db2) \<Rightarrow> (Inr result, db2\<lparr>bd_log := bd_log db2 @ [(now, cmd)]\<rparr>)))"

record bill_env =
  be_now :: int
  be_fault :: fault
  be_victims :: "dedup_row \<Rightarrow> bool"

type_synonym 'r bill_flow = "(bill_env, billing_db, 'r) flow"

definition Apply :: "billing_lib \<Rightarrow> UsageBillingCommand option \<Rightarrow> (go_error + UsageBillingApplyResult \<Rightarrow> 'r bill_flow) \<Rightarrow> 'r bill_flow" where
  "Apply L cmd0 k =
     (case cmd0 of
        None \<Rightarrow> k (Inr notApplied)
      | Some c \<Rightarrow>
         (let cmd = Normalize L c
          in if uc_RequestID cmd = '''' then k (Inl ErrUsageBillingRequestIDRequired)
             else exec (\<lambda>e. faulty (be_fault e) (billingTx L (be_now e) cmd))
                (\<lambda>res. k (case res of Inl err \<Rightarrow> Inl err | Inr r \<Rightarrow> r))))"

subsection \<open>Archiving keys\<close>

definition usageBillingDedupCleanupBatchSize :: nat where "usageBillingDedupCleanupBatchSize = 10000"

text \<open>One statement: some of the old keys, a batch at most; which ones is up to the database.\<close>

definition cleanupVictims :: "(dedup_row \<Rightarrow> bool) \<Rightarrow> int \<Rightarrow> billing_db \<Rightarrow> dedup_row list" where
  "cleanupVictims choice cutoff db =
     (let old = filter (\<lambda>r. dd_CreatedAt r < cutoff) (bd_dedup db);
          n = usageBillingDedupCleanupBatchSize
      in if length old \<le> n then old else take n (filter choice old @ filter (\<lambda>r. \<not> choice r) old))"

definition cleanupStatement :: "(dedup_row \<Rightarrow> bool) \<Rightarrow> int \<Rightarrow> billing_db \<Rightarrow> nat \<times> billing_db" where
  "cleanupStatement choice cutoff db =
     (let victims = cleanupVictims choice cutoff db
      in (length victims,
          db\<lparr>bd_archive := bd_archive db @
                filter (\<lambda>r. dedupFind (dd_RequestID r) (dd_APIKeyID r) (bd_archive db) = None) victims,
             bd_dedup := filter (\<lambda>r. r \<notin> set victims) (bd_dedup db)\<rparr>))"

text \<open>The loop, cut off after \<open>n\<close> statements.\<close>

fun CleanupUsageBillingDedup :: "nat \<Rightarrow> int \<Rightarrow> (go_error + unit \<Rightarrow> 'r bill_flow) \<Rightarrow> 'r bill_flow \<Rightarrow> 'r bill_flow" where
  "CleanupUsageBillingDedup 0 cutoff k timeout = timeout"
| "CleanupUsageBillingDedup (Suc n) cutoff k timeout =
     exec (\<lambda>e. faulty (be_fault e) (cleanupStatement (be_victims e) cutoff))
       (\<lambda>res. case res of
          Inl err \<Rightarrow> k (Inl err)
        | Inr affected \<Rightarrow> if affected < usageBillingDedupCleanupBatchSize then k (Inr ())
            else CleanupUsageBillingDedup n cutoff k timeout)"

end
