(* ===== verification/UsageBillingInvariant.thy ===== *)
theory UsageBillingInvariant
  imports UsageBilling "HOL-Library.Multiset"
begin

section \<open>The invariant of charging\<close>

text \<open>
  The invariant over all interleavings: every committed command holds its key in one of the two tables of
  keys, and the other tables are what running the committed commands one after the other gives.
\<close>

subsection \<open>The effects do not look at the keys\<close>

named_theorems tx_frame \<open>statements that neither read nor write the keys and the log\<close>

definition rekey :: "dedup_row list \<Rightarrow> dedup_row list \<Rightarrow> (int \<times> UsageBillingCommand) list \<Rightarrow> billing_db \<Rightarrow> billing_db" where
  "rekey d a l db = db\<lparr>bd_dedup := d, bd_archive := a, bd_log := l\<rparr>"

definition framed :: "'x tx \<Rightarrow> bool" where
  "framed m \<longleftrightarrow> (\<forall>d a l db. m (rekey d a l db) = map_sum id (map_prod id (rekey d a l)) (m db)) \<and>
     (\<forall>db x db'. m db = Inr (x, db') \<longrightarrow> bd_dedup db' = bd_dedup db \<and> bd_archive db' = bd_archive db \<and> bd_log db' = bd_log db)"

lemma rekey_sel [simp]:
  "bd_dedup (rekey d a l db) = d" "bd_archive (rekey d a l db) = a" "bd_log (rekey d a l db) = l"
  "bd_users (rekey d a l db) = bd_users db" "bd_keys (rekey d a l db) = bd_keys db"
  "bd_accounts (rekey d a l db) = bd_accounts db" "bd_subs (rekey d a l db) = bd_subs db"
  "bd_outbox (rekey d a l db) = bd_outbox db" "rekey d a l (rekey d' a' l' db) = rekey d a l db"
  by (simp_all add: rekey_def)

lemma rekey_id: "rekey (bd_dedup db) (bd_archive db) (bd_log db) db = db"
  by (simp add: rekey_def)

lemma framed_return [tx_frame]: "framed (tx_return x)"
  by (simp add: framed_def tx_return_def)

lemma framed_bind [tx_frame]: "framed m \<Longrightarrow> (\<And>x. framed (k x)) \<Longrightarrow> framed (tx_bind m k)"
  by (fastforce simp: framed_def tx_bind_def split: sum.splits)

lemma framed_when [tx_frame]: "framed m \<Longrightarrow> framed (tx_when c m x)"
  by (simp add: tx_when_def framed_return)

lemma framed_incrementUsageBillingSubscription [tx_frame]: "framed (incrementUsageBillingSubscription now i c)"
  by (auto simp: framed_def incrementUsageBillingSubscription_def Let_def rekey_def)

lemma framed_deductUsageBillingBalance [tx_frame]: "framed (deductUsageBillingBalance u c)"
  by (auto simp: framed_def deductUsageBillingBalance_def Let_def rekey_def split: option.splits)

lemma framed_incrementUsageBillingAPIKeyQuota [tx_frame]: "framed (incrementUsageBillingAPIKeyQuota i c)"
  by (auto simp: framed_def incrementUsageBillingAPIKeyQuota_def Let_def rekey_def split: option.splits)

lemma framed_incrementUsageBillingAPIKeyRateLimit [tx_frame]: "framed (incrementUsageBillingAPIKeyRateLimit cal now i c)"
  by (auto simp: framed_def incrementUsageBillingAPIKeyRateLimit_def Let_def rekey_def)

lemma framed_incrementUsageBillingAccountQuota [tx_frame]: "framed (incrementUsageBillingAccountQuota z now i c)"
  by (auto simp: framed_def incrementUsageBillingAccountQuota_def Let_def rekey_def split: option.splits sum.splits)

lemma framed_effects: "framed (applyUsageBillingEffects L now cmd r)"
  unfolding applyUsageBillingEffects_def
  by (intro tx_frame) (auto intro: tx_frame split: option.splits prod.splits)

subsection \<open>The invariant\<close>

definition cmd_key :: "UsageBillingCommand \<Rightarrow> string \<times> int" where
  "cmd_key c = (uc_RequestID c, uc_APIKeyID c)"

definition row_key :: "dedup_row \<Rightarrow> string \<times> int" where
  "row_key r = (dd_RequestID r, dd_APIKeyID r)"

definition all_rows :: "billing_db \<Rightarrow> dedup_row list" where
  "all_rows db = bd_dedup db @ bd_archive db"

fun replay :: "billing_lib \<Rightarrow> (int \<times> UsageBillingCommand) list \<Rightarrow> billing_db \<Rightarrow> billing_db option" where
  "replay L [] db = Some db"
| "replay L ((now, c) # l) db =
     (case applyUsageBillingEffects L now c (notApplied\<lparr>ar_Applied := True\<rparr>) db of
        Inl err \<Rightarrow> None
      | Inr (_, db') \<Rightarrow> replay L l db')"

definition tables :: "billing_db \<Rightarrow> billing_db" where
  "tables db = rekey [] [] [] db"

definition billed_ok :: "billing_lib \<Rightarrow> billing_db \<Rightarrow> billing_db \<Rightarrow> bool" where
  "billed_ok L db0 db \<longleftrightarrow> distinct (map row_key (all_rows db)) \<and> distinct (map (cmd_key \<circ> snd) (bd_log db)) \<and>
     (\<forall>p \<in> set (bd_log db). \<exists>r \<in> set (all_rows db). row_key r = cmd_key (snd p) \<and>
        dd_Fingerprint r = uc_RequestFingerprint (snd p)) \<and>
     map_option tables (replay L (bd_log db) db0) = Some (tables db)"

lemma tables_rekey [simp]: "tables (rekey d a l db) = tables db"
  by (simp add: tables_def)

lemma tables_eqD: "tables db = tables db' \<Longrightarrow> db = rekey (bd_dedup db) (bd_archive db) (bd_log db) db'"
  by (cases db; cases db') (simp add: tables_def rekey_def)

lemma effects_tables:
  assumes "applyUsageBillingEffects L now c r db = Inr (x, db1)" and "tables db = tables db'"
  shows "\<exists>db1'. applyUsageBillingEffects L now c r db' = Inr (x, db1') \<and> tables db1' = tables db1"
  using framed_effects [of L now c r] tables_eqD [OF assms(2)] tables_eqD [OF assms(2) [symmetric]] assms(1)
  unfolding framed_def by (metis map_prod_simp map_sum.simps(2) id_apply tables_rekey)

lemma replay_snoc:
  "replay L (l @ [(now, c)]) db = (case replay L l db of None \<Rightarrow> None | Some db1 \<Rightarrow>
     (case applyUsageBillingEffects L now c (notApplied\<lparr>ar_Applied := True\<rparr>) db1 of Inl err \<Rightarrow> None | Inr (_, db2) \<Rightarrow> Some db2))"
  by (induction l arbitrary: db) (auto split: sum.splits option.splits)

lemma dedupFind_None: "dedupFind i k rows = None \<longleftrightarrow> (\<forall>r \<in> set rows. row_key r \<noteq> (i, k))"
  by (auto simp: dedupFind_def find_None_iff row_key_def)

lemma dedupFind_Some: "dedupFind i k rows = Some r \<Longrightarrow> r \<in> set rows \<and> row_key r = (i, k)"
  by (auto simp: dedupFind_def find_Some_iff row_key_def)

lemma claim_True:
  assumes "claimUsageBillingKey now c db = Inr (True, db1)"
  shows "\<forall>r \<in> set (all_rows db). row_key r \<noteq> cmd_key c"
    "db1 = db\<lparr>bd_dedup := bd_dedup db @ [\<lparr>dd_RequestID = uc_RequestID c, dd_APIKeyID = uc_APIKeyID c,
      dd_Fingerprint = uc_RequestFingerprint c, dd_CreatedAt = now\<rparr>]\<rparr>"
  using assms by (auto simp: claimUsageBillingKey_def Let_def all_rows_def cmd_key_def dedupFind_None split: option.splits if_splits)

text \<open>The transaction either changes nothing, or commits a command whose key was free.\<close>

lemma billingTx_cases:
  obtains (unchanged) "snd (billingTx L now c db) = db" "\<And>x. fst (billingTx L now c db) = Inr x \<Longrightarrow> \<not> ar_Applied x"
  | (applied) x db2 where "fst (billingTx L now c db) = Inr x"
      "applyUsageBillingEffects L now c (notApplied\<lparr>ar_Applied := True\<rparr>) db = Inr (x, db2)"
      "\<forall>r \<in> set (all_rows db). row_key r \<noteq> cmd_key c"
      "snd (billingTx L now c db) = rekey (bd_dedup db @ [\<lparr>dd_RequestID = uc_RequestID c, dd_APIKeyID = uc_APIKeyID c,
        dd_Fingerprint = uc_RequestFingerprint c, dd_CreatedAt = now\<rparr>]) (bd_archive db) (bd_log db @ [(now, c)]) db2"
proof (cases "claimUsageBillingKey now c db")
  case (Inl err)
  then show ?thesis by (intro unchanged) (simp_all add: billingTx_def)
next
  case (Inr p)
  then obtain b db1 where p: "claimUsageBillingKey now c db = Inr (b, db1)" by (cases p) auto
  show ?thesis
  proof (cases b)
    case False
    with p show ?thesis by (intro unchanged) (auto simp: billingTx_def notApplied_def)
  next
    case True
    with p have p': "claimUsageBillingKey now c db = Inr (True, db1)" by simp
    note fresh = claim_True [OF p']
    let ?row = "\<lparr>dd_RequestID = uc_RequestID c, dd_APIKeyID = uc_APIKeyID c,
        dd_Fingerprint = uc_RequestFingerprint c, dd_CreatedAt = now\<rparr>"
    have db1: "db1 = rekey (bd_dedup db @ [?row]) (bd_archive db) (bd_log db) db" by (simp add: fresh(2) rekey_def)
    show ?thesis
    proof (cases "applyUsageBillingEffects L now c (notApplied\<lparr>ar_Applied := True\<rparr>) db")
      case (Inl err)
      then have "applyUsageBillingEffects L now c (notApplied\<lparr>ar_Applied := True\<rparr>) db1 = Inl err"
        using framed_effects [of L now c "notApplied\<lparr>ar_Applied := True\<rparr>"] by (simp add: framed_def db1)
      with p True show ?thesis by (intro unchanged) (simp_all add: billingTx_def)
    next
      case (Inr q)
      then obtain x db2 where q: "applyUsageBillingEffects L now c (notApplied\<lparr>ar_Applied := True\<rparr>) db = Inr (x, db2)" by (cases q) auto
      then have "applyUsageBillingEffects L now c (notApplied\<lparr>ar_Applied := True\<rparr>) db1 =
          Inr (x, rekey (bd_dedup db @ [?row]) (bd_archive db) (bd_log db) db2)"
        using framed_effects [of L now c "notApplied\<lparr>ar_Applied := True\<rparr>"] by (simp add: framed_def db1)
      with p True q fresh(1) show ?thesis
        by (intro applied [of x db2]) (simp_all add: billingTx_def rekey_def)
    qed
  qed
qed

lemma billingTx_ok: "billed_ok L db0 db \<Longrightarrow> billed_ok L db0 (snd (billingTx L now c db))"
proof (cases rule: billingTx_cases [of L now c db])
  case (applied x db2)
  assume ok: "billed_ok L db0 db"
  let ?db' = "snd (billingTx L now c db)"
  let ?row = "\<lparr>dd_RequestID = uc_RequestID c, dd_APIKeyID = uc_APIKeyID c,
        dd_Fingerprint = uc_RequestFingerprint c, dd_CreatedAt = now\<rparr>"
  have rows: "set (all_rows ?db') = insert ?row (set (all_rows db))" by (auto simp: all_rows_def applied(4))
  have key: "row_key ?row = cmd_key c" by (simp add: row_key_def cmd_key_def)
  have log: "bd_log ?db' = bd_log db @ [(now, c)]" by (simp add: applied(4))
  have fresh: "cmd_key c \<notin> (cmd_key \<circ> snd) ` set (bd_log db)" using ok applied(3) by (fastforce simp: billed_ok_def)
  from ok obtain dbr where r: "replay L (bd_log db) db0 = Some dbr" "tables dbr = tables db"
    by (auto simp: billed_ok_def)
  from effects_tables [OF applied(2) r(2) [symmetric]] obtain dbr'
    where "applyUsageBillingEffects L now c (notApplied\<lparr>ar_Applied := True\<rparr>) dbr = Inr (x, dbr')" "tables dbr' = tables db2" by blast
  then have "map_option tables (replay L (bd_log ?db') db0) = Some (tables ?db')"
    unfolding log by (simp add: replay_snoc r applied(4))
  moreover have "distinct (map row_key (all_rows ?db'))"
    using ok applied(3) key by (auto simp: billed_ok_def all_rows_def applied(4))
  ultimately show "billed_ok L db0 ?db'"
    using ok fresh key by (auto simp: billed_ok_def rows log)
qed simp

subsection \<open>Archiving keys\<close>

lemma cleanupVictims_sub: "set (cleanupVictims ch cutoff db) \<subseteq> set (bd_dedup db)"
  by (auto simp: cleanupVictims_def Let_def dest!: in_set_takeD)

lemma cleanupVictims_distinct: "distinct (bd_dedup db) \<Longrightarrow> distinct (cleanupVictims ch cutoff db)"
proof -
  let ?old = "filter (\<lambda>r. dd_CreatedAt r < cutoff) (bd_dedup db)"
  assume "distinct (bd_dedup db)"
  then have "distinct ?old" "distinct (filter ch ?old @ filter (\<lambda>r. \<not> ch r) ?old)" by auto
  from this(1) distinct_take [OF this(2)] show ?thesis unfolding cleanupVictims_def Let_def by presburger
qed

text \<open>Keys of the two tables are disjoint, so a statement moves its rows.\<close>

lemma cleanupStatement_moves:
  assumes d: "distinct (map row_key (all_rows db))"
  shows "snd (cleanupStatement ch cutoff db) =
    rekey (filter (\<lambda>r. r \<notin> set (cleanupVictims ch cutoff db)) (bd_dedup db)) (bd_archive db @ cleanupVictims ch cutoff db) (bd_log db) db"
proof -
  have "dedupFind (dd_RequestID r) (dd_APIKeyID r) (bd_archive db) = None" if "r \<in> set (cleanupVictims ch cutoff db)" for r
    using that cleanupVictims_sub d
    by (fastforce simp: dedupFind_None all_rows_def row_key_def)
  then have "filter (\<lambda>r. dedupFind (dd_RequestID r) (dd_APIKeyID r) (bd_archive db) = None) (cleanupVictims ch cutoff db) =
      cleanupVictims ch cutoff db"
    by (simp add: filter_id_conv)
  then show ?thesis by (simp add: cleanupStatement_def rekey_def Let_def)
qed

lemma cleanup_ok:
  assumes ok: "billed_ok L db0 db"
  shows "billed_ok L db0 (snd (cleanupStatement ch cutoff db))"
proof -
  have d: "distinct (map row_key (all_rows db))" using ok by (simp add: billed_ok_def)
  let ?V = "cleanupVictims ch cutoff db"
  let ?db' = "snd (cleanupStatement ch cutoff db)"
  note moves = cleanupStatement_moves [OF d, of ch cutoff]
  have rows: "set (all_rows ?db') = set (all_rows db)"
    using cleanupVictims_sub [of ch cutoff db] by (auto simp: moves all_rows_def)
  have "distinct (all_rows db)" using d by (simp add: distinct_map)
  then have "distinct (all_rows ?db')"
    using cleanupVictims_distinct [of db ch cutoff] cleanupVictims_sub [of ch cutoff db] by (auto simp: moves all_rows_def)
  then have "distinct (map row_key (all_rows ?db'))" using d rows by (simp add: distinct_map)
  with ok rows show ?thesis by (simp add: billed_ok_def moves)
qed

text \<open>Enough statements archive every old key, whatever the database picks.\<close>

lemma cleanupVictims_length:
  "length (cleanupVictims ch cutoff db) = min usageBillingDedupCleanupBatchSize (length (filter (\<lambda>r. dd_CreatedAt r < cutoff) (bd_dedup db)))"
proof -
  let ?old = "filter (\<lambda>r. dd_CreatedAt r < cutoff) (bd_dedup db)"
  have "length (filter ch ?old @ filter (\<lambda>r. \<not> ch r) ?old) = length ?old"
    using sum_length_filter_compl [of ch ?old] by simp
  then show ?thesis unfolding cleanupVictims_def Let_def by (auto simp: min_def)
qed

subsection \<open>All interleavings\<close>

datatype bill_result = Billed "go_error + UsageBillingApplyResult" | Cleaned "go_error + unit" | StillCleaning

inductive billing_handler :: "billing_lib \<Rightarrow> bill_result bill_flow \<Rightarrow> bool" for L where
  bill: "billing_handler L (Apply L cmd (\<lambda>r. Done (Billed r)))"
| clean: "billing_handler L (CleanupUsageBillingDedup n cutoff (\<lambda>r. Done (Cleaned r)) (Done StillCleaning))"

lemma keeps_tx:
  assumes "\<And>e db. ok db \<Longrightarrow> ok (snd (op e db))" and "\<And>x. keeps ok (\<lambda>_ _. True) (\<lambda>_. True) (k x)"
  shows "keeps ok (\<lambda>_ _. True) (\<lambda>_. True) (exec (\<lambda>e. faulty (be_fault e) (op e)) k)"
proof (rule keeps_exec [where Q = "\<lambda>_ _. True"])
  fix e db x db'
  assume "ok db" "faulty (be_fault e) (op e) db = (x, db')"
  with assms(1) show "ok db' \<and> True \<and> True \<and> True" by (elim faulty_cases) (metis snd_conv)+
qed (use assms(2) in simp_all)

lemma keeps_clean:
  "keeps (billed_ok L db0) (\<lambda>_ _. True) (\<lambda>_. True) (CleanupUsageBillingDedup n cutoff (\<lambda>r. Done (Cleaned r)) (Done StillCleaning))"
  by (induction n) (auto simp: cleanup_ok intro!: keeps_tx keeps.result split: sum.splits)

lemma keeps_bill: "keeps (billed_ok L db0) (\<lambda>_ _. True) (\<lambda>_. True) (Apply L cmd (\<lambda>r. Done (Billed r)))"
  unfolding Apply_def Let_def by (auto simp: billingTx_ok intro!: keeps_tx keeps.result split: option.splits sum.splits)

interpretation billing: guarded_handlers "billing_handler L" "billed_ok L db0" "\<lambda>_ _. True"
  by unfold_locales (auto elim!: billing_handler.cases intro: keeps_clean keeps_bill)

subsection \<open>Archiving ends\<close>

lemma usageBillingDedupCleanupBatchSize_pos: "0 < usageBillingDedupCleanupBatchSize"
  by (simp add: usageBillingDedupCleanupBatchSize_def)

definition old_rows :: "int \<Rightarrow> billing_db \<Rightarrow> dedup_row list" where
  "old_rows cutoff db = filter (\<lambda>r. dd_CreatedAt r < cutoff) (bd_dedup db)"

lemma cleanup_old_rows:
  assumes "distinct (bd_dedup db)"
  shows "length (old_rows cutoff (snd (cleanupStatement ch cutoff db))) = length (old_rows cutoff db) - usageBillingDedupCleanupBatchSize"
proof -
  let ?V = "cleanupVictims ch cutoff db"
  let ?old = "old_rows cutoff db"
  have V: "set ?V \<subseteq> set ?old" "distinct ?V" "length ?V = min usageBillingDedupCleanupBatchSize (length ?old)"
    using cleanupVictims_distinct [OF assms] cleanupVictims_length [of ch cutoff db]
    by (auto simp: cleanupVictims_def old_rows_def Let_def dest!: in_set_takeD)
  have "old_rows cutoff (snd (cleanupStatement ch cutoff db)) = filter (\<lambda>r. r \<notin> set ?V) ?old"
    by (auto simp: old_rows_def cleanupStatement_def Let_def intro: filter_cong)
  moreover have "distinct ?old" using assms by (simp add: old_rows_def)
  then have "length (filter (\<lambda>r. r \<notin> set ?V) ?old) = card (set ?old - set ?V)"
    by (metis distinct_card distinct_filter set_diff_eq set_filter)
  moreover have "card (set ?old - set ?V) = length ?old - length ?V"
    using V \<open>distinct ?old\<close> by (simp add: card_Diff_subset distinct_card)
  ultimately show ?thesis using V(3) by simp
qed

subsection \<open>Balances\<close>

lemma dec_round_error: "\<bar>dec_round d x - x\<bar> \<le> 1 / 2 / 10 ^ d"
proof (cases "0 \<le> x")
  case True
  then show ?thesis by (rule dec_round_near)
next
  case False
  then have "dec_round d x = - dec_round d (- x)" by (simp add: dec_round_def away_def)
  then have "\<bar>dec_round d x - x\<bar> = \<bar>dec_round d (- x) - (- x)\<bar>" by linarith
  also have "\<dots> \<le> 1 / 2 / 10 ^ d" using False by (intro dec_round_near) simp
  finally show ?thesis .
qed

definition present :: "int \<Rightarrow> bill_user \<Rightarrow> bool" where
  "present i u \<longleftrightarrow> bu_ID u = i \<and> \<not> bu_Deleted u"

definition pay :: "rat \<Rightarrow> bill_user \<Rightarrow> bill_user" where
  "pay amount u = u\<lparr>bu_Balance := dec_round 8 (bu_Balance u - amount)\<rparr>"

definition charge_users :: "UsageBillingCommand \<Rightarrow> bill_user list \<Rightarrow> bill_user list" where
  "charge_users c us =
     (if uc_BalanceCost c > 0 then map (\<lambda>u. if present (uc_UserID c) u then pay (uc_BalanceCost c) u else u) us else us)"

lemma deduct_users:
  assumes "deductUsageBillingBalance i a db = Inr (p, db')" and d: "distinct (map bu_ID (bd_users db))"
  shows "bd_users db' = map (\<lambda>u. if present i u then pay a u else u) (bd_users db)"
proof (cases "List.find (\<lambda>u. bu_ID u = i \<and> \<not> bu_Deleted u \<and> bu_Balance u \<ge> a) (bd_users db)")
  case None
  with assms(1) show ?thesis
    by (auto simp: deductUsageBillingBalance_def Let_def present_def pay_def updateFirst_def split: option.splits)
next
  case (Some u)
  then have u: "u \<in> set (bd_users db)" "bu_ID u = i" "bu_Balance u \<ge> a" by (auto simp: find_Some_iff)
  have "bu_Balance v \<ge> a" if "v \<in> set (bd_users db)" "bu_ID v = i" for v
    using that u d by (auto simp: distinct_map inj_on_def)
  with Some assms(1) show ?thesis
    by (auto simp: deductUsageBillingBalance_def Let_def present_def pay_def updateFirst_def)
qed

text \<open>\<open>on_users m f\<close>: if \<open>m\<close> succeeds, it has changed the table of users by \<open>f\<close>.\<close>

definition on_users :: "'x tx \<Rightarrow> (bill_user list \<Rightarrow> bill_user list) \<Rightarrow> bool" where
  "on_users m f \<longleftrightarrow> (\<forall>db x db'. m db = Inr (x, db') \<longrightarrow> distinct (map bu_ID (bd_users db)) \<longrightarrow>
     bd_users db' = f (bd_users db) \<and> map bu_ID (f (bd_users db)) = map bu_ID (bd_users db))"

lemma on_users_return: "on_users (tx_return x) (\<lambda>us. us)"
  by (simp add: on_users_def tx_return_def)

lemma on_users_bind: "on_users m f \<Longrightarrow> (\<And>x. on_users (k x) g) \<Longrightarrow> on_users (tx_bind m k) (\<lambda>us. g (f us))"
  unfolding on_users_def tx_bind_def by (auto split: sum.splits) metis+

lemma on_users_deduct:
  "on_users (deductUsageBillingBalance i a) (map (\<lambda>u. if present i u then pay a u else u))"
  unfolding on_users_def using deduct_users by (auto simp: pay_def)

lemma on_users_other:
  "on_users (incrementUsageBillingSubscription now s cost) (\<lambda>us. us)"
  "on_users (incrementUsageBillingAPIKeyQuota k cost) (\<lambda>us. us)"
  "on_users (incrementUsageBillingAPIKeyRateLimit cal now k cost) (\<lambda>us. us)"
  "on_users (incrementUsageBillingAccountQuota z now a cost) (\<lambda>us. us)"
  by (auto simp: on_users_def incrementUsageBillingSubscription_def incrementUsageBillingAPIKeyQuota_def
      incrementUsageBillingAPIKeyRateLimit_def incrementUsageBillingAccountQuota_def Let_def
      split: option.splits sum.splits if_splits)

lemma on_users_blind: "on_users m (\<lambda>us. us) \<Longrightarrow> on_users (tx_when c m x) (\<lambda>us. us)"
  by (simp add: tx_when_def on_users_return)

lemma on_users_keep: "on_users m f \<Longrightarrow> (\<And>x. on_users (k x) (\<lambda>us. us)) \<Longrightarrow> on_users (tx_bind m k) f"
  using on_users_bind [of m f k "\<lambda>us. us"] by simp

lemma on_users_skip: "on_users m (\<lambda>us. us) \<Longrightarrow> (\<And>x. on_users (k x) f) \<Longrightarrow> on_users (tx_bind m k) f"
  using on_users_bind [of m "\<lambda>us. us" k f] by simp

lemma on_users_effects: "on_users (applyUsageBillingEffects L now c r) (charge_users c)"
proof -
  have "on_users (tx_when (uc_BalanceCost c > 0)
      (tx_bind (deductUsageBillingBalance (uc_UserID c) (uc_BalanceCost c))
        (\<lambda>(newBalance, sufficient). tx_return (r\<lparr>ar_NewBalance := Some newBalance, ar_BalanceOverdrafted := \<not> sufficient\<rparr>))) r)
      (charge_users c)" (is "on_users (tx_when ?c ?m r) _")
  proof -
    have "on_users ?m (map (\<lambda>u. if present (uc_UserID c) u then pay (uc_BalanceCost c) u else u))"
      by (rule on_users_keep [OF on_users_deduct]) (auto intro: on_users_return split: prod.split)
    then show ?thesis
      by (cases "uc_BalanceCost c > 0") (simp_all add: tx_when_def on_users_return charge_users_def [abs_def])
  qed
  note balance = this
  show ?thesis
    unfolding applyUsageBillingEffects_def
    by (rule on_users_skip [OF _ on_users_keep [OF balance]])
      (auto intro!: on_users_keep on_users_blind on_users_other on_users_return split: option.split)
qed

lemma effects_users:
  assumes "applyUsageBillingEffects L now c r db = Inr (x, db')" and "distinct (map bu_ID (bd_users db))"
  shows "bd_users db' = charge_users c (bd_users db)"
  using on_users_effects [of L now c r] assms by (auto simp: on_users_def)

fun cost_of :: "int \<Rightarrow> int \<times> UsageBillingCommand \<Rightarrow> rat list" where
  "cost_of i (t, c) = (if uc_UserID c = i \<and> uc_BalanceCost c > 0 then [uc_BalanceCost c] else [])"

definition costs_of :: "int \<Rightarrow> (int \<times> UsageBillingCommand) list \<Rightarrow> rat list" where
  "costs_of i l = concat (map (cost_of i) l)"

definition balance_of :: "int \<Rightarrow> billing_db \<Rightarrow> rat option" where
  "balance_of i db = map_option bu_Balance (List.find (present i) (bd_users db))"

definition spend :: "rat \<Rightarrow> rat \<Rightarrow> rat" where "spend b c = dec_round 8 (b - c)"

lemma charge_users_find:
  "map_option bu_Balance (List.find (present i) (charge_users c us)) =
   map_option (\<lambda>b. foldl spend b (cost_of i (t, c))) (map_option bu_Balance (List.find (present i) us))"
  by (induction us) (auto simp: charge_users_def present_def pay_def spend_def)

lemma replay_balance:
  "replay L l db = Some dbr \<Longrightarrow> distinct (map bu_ID (bd_users db)) \<Longrightarrow>
   balance_of i dbr = map_option (\<lambda>b. foldl spend b (costs_of i l)) (balance_of i db)"
proof (induction l arbitrary: db)
  case Nil
  then show ?case by (cases "balance_of i db") (simp_all add: costs_of_def)
next
  case (Cons p l)
  obtain t c where p: "p = (t, c)" by (cases p)
  with Cons.prems obtain x db1 where e: "applyUsageBillingEffects L t c (notApplied\<lparr>ar_Applied := True\<rparr>) db = Inr (x, db1)"
    and r: "replay L l db1 = Some dbr" by (auto split: sum.splits)
  note u = effects_users [OF e Cons.prems(2)]
  have "map bu_ID (bd_users db1) = map bu_ID (bd_users db)" by (auto simp: u charge_users_def pay_def)
  with Cons.IH [OF r] Cons.prems(2)
  have "balance_of i dbr = map_option (\<lambda>b. foldl spend b (costs_of i l)) (balance_of i db1)" by simp
  also have "balance_of i db1 = map_option (\<lambda>b. foldl spend b (cost_of i (t, c))) (balance_of i db)"
    unfolding balance_of_def u by (rule charge_users_find)
  finally show ?case by (simp add: p costs_of_def option.map_comp comp_def)
qed

lemma spend_error: "\<bar>foldl spend b cs - (b - sum_list cs)\<bar> \<le> of_nat (length cs) * (1 / 2 / 10 ^ 8)"
proof (induction cs rule: rev_induct)
  case (snoc c cs)
  let ?h = "1 / 2 / 10 ^ 8 :: rat"
  have "\<bar>spend (foldl spend b cs) c - (foldl spend b cs - c)\<bar> \<le> ?h" unfolding spend_def by (rule dec_round_error)
  then have "\<bar>spend (foldl spend b cs) c - (b - (sum_list cs + c))\<bar> \<le> ?h + of_nat (length cs) * ?h"
    using snoc by linarith
  then show ?case by (simp add: distrib_right)
qed simp

end
