(* ===== verification/UsageBillingProperties.thy ===== *)
theory UsageBillingProperties
  imports UsageBillingInvariant
begin

section \<open>Every request is charged once\<close>

text \<open>
  What \<open>Apply\<close> and the archiving of keys guarantee together, for any interleaving, and where the rounding
  of the database makes a difference.  The example has a user with 10 dollars and an API key with a quota.
\<close>

definition exLib :: billing_lib where
  "exLib = \<lparr>bl_sha256hex = (\<lambda>s. s), bl_fmt10 = (\<lambda>x. ''0''), bl_calendar = utc,
     bl_zones = \<lparr>zd_LoadLocation = (\<lambda>n. Some UTC), zd_sql = (\<lambda>n. Some UTC)\<rparr>\<rparr>"

definition exKey :: bill_key where
  "exKey = \<lparr>bk_ID = 5, bk_Status = StatusAPIKeyActive, bk_Quota = 3, bk_QuotaUsed = 0, bk_Usage5h = 0, bk_Usage1d = 0,
     bk_Usage7d = 0, bk_Window5hStart = None, bk_Window1dStart = None, bk_Window7dStart = None, bk_Deleted = False\<rparr>"

definition exBillDB :: billing_db where
  "exBillDB = \<lparr>bd_dedup = [], bd_archive = [], bd_users = [\<lparr>bu_ID = 1, bu_Balance = 10, bu_Deleted = False\<rparr>],
     bd_keys = [exKey], bd_accounts = [], bd_subs = \<lparr>db_subs = [], db_nextID = 1, db_groups = Map.empty\<rparr>,
     bd_outbox = [], bd_log = []\<rparr>"

definition exCmd :: "string \<Rightarrow> rat \<Rightarrow> UsageBillingCommand" where
  "exCmd rid cost = \<lparr>uc_RequestID = rid, uc_APIKeyID = 5, uc_RequestFingerprint = ''f'', uc_RequestPayloadHash = [],
     uc_UserID = 1, uc_AccountID = 9, uc_SubscriptionID = None, uc_AccountType = ''oauth'', uc_Model = ''m'', uc_ServiceTier = [],
     uc_ReasoningEffort = [], uc_BillingType = 0, uc_InputTokens = 1, uc_OutputTokens = 1, uc_CacheCreationTokens = 0,
     uc_CacheReadTokens = 0, uc_ImageCount = 0, uc_MediaType = [], uc_BalanceCost = cost, uc_SubscriptionCost = 0,
     uc_APIKeyQuotaCost = cost, uc_APIKeyRateLimitCost = 0, uc_AccountQuotaCost = 0\<rparr>"

definition exBillEnv :: "int \<Rightarrow> fault \<Rightarrow> bill_env" where
  "exBillEnv now flt = \<lparr>be_now = now, be_fault = flt, be_victims = (\<lambda>_. True)\<rparr>"

text \<open>A request whose reply is lost, archived, repeated, and a second request.\<close>

definition exBillRun :: "bill_result bill_flow list \<times> billing_db" where
  "exBillRun = run_schedule
     [Begin (Apply exLib (Some (exCmd ''a'' 2)) (\<lambda>r. Done (Billed r))),
      Begin (CleanupUsageBillingDedup 2 50 (\<lambda>r. Done (Cleaned r)) (Done StillCleaning)),
      Begin (Apply exLib (Some (exCmd ''a'' 2)) (\<lambda>r. Done (Billed r))),
      Begin (Apply exLib (Some (exCmd ''b'' 1)) (\<lambda>r. Done (Billed r))),
      Act 0 (exBillEnv 10 (LostReply ErrUserNotFound)), Act 1 (exBillEnv 60 NoFault), Act 2 (exBillEnv 70 NoFault),
      Act 3 (exBillEnv 80 NoFault)] ([], exBillDB)"

lemma exBillRun_reachable:
  "(interleave (billing_handler exLib))\<^sup>*\<^sup>* ([], exBillDB) (fst exBillRun, snd exBillRun)"
  unfolding exBillRun_def prod.collapse by (rule run_schedule_interleaves) (simp add: billing_handler.intros)

lemma exBillDB_start: "distinct (map row_key (all_rows exBillDB))" "bd_log exBillDB = []"
  "distinct (map bu_ID (bd_users exBillDB))" "balance_of 1 exBillDB = Some 10"
  by (simp_all add: exBillDB_def all_rows_def balance_of_def present_def)

lemma exApply: "Apply exLib (Some (exCmd ''a'' c)) k = exec (\<lambda>e. faulty (be_fault e) (billingTx exLib (be_now e) (exCmd ''a'' c)))
                (\<lambda>res. k (case res of Inl err \<Rightarrow> Inl err | Inr r \<Rightarrow> r))"
  "Apply exLib (Some (exCmd ''b'' c)) k = exec (\<lambda>e. faulty (be_fault e) (billingTx exLib (be_now e) (exCmd ''b'' c)))
                (\<lambda>res. k (case res of Inl err \<Rightarrow> Inl err | Inr r \<Rightarrow> r))"
proof -
  have "trim_space ''a'' = ''a''" "trim_space ''b'' = ''b''" "trim_space ''f'' = ''f''" by code_simp+
  then show "Apply exLib (Some (exCmd ''a'' c)) k = exec (\<lambda>e. faulty (be_fault e) (billingTx exLib (be_now e) (exCmd ''a'' c)))
                (\<lambda>res. k (case res of Inl err \<Rightarrow> Inl err | Inr r \<Rightarrow> r))"
  "Apply exLib (Some (exCmd ''b'' c)) k = exec (\<lambda>e. faulty (be_fault e) (billingTx exLib (be_now e) (exCmd ''b'' c)))
                (\<lambda>res. k (case res of Inl err \<Rightarrow> Inl err | Inr r \<Rightarrow> r))"
    by (simp_all add: Apply_def Normalize_def exCmd_def Let_def)
qed


lemma ex_strings: "trim_space ''f'' = ''f''" "EqualFold ''oauth'' ''apikey'' = False" "EqualFold ''oauth'' ''bedrock'' = False"
  by code_simp+

lemma ex_rounds: "dec_round 8 (8::rat) = 8" "dec_round 8 (7::rat) = 7" "dec_round 8 (2::rat) = 2" "dec_round 8 (3::rat) = 3"
  by code_simp+

lemmas ex_billing = exBillDB_def exKey_def exCmd_def exLib_def exBillEnv_def billingTx_def claimUsageBillingKey_def dedupFind_def
  applyUsageBillingEffects_def tx_bind_def tx_when_def tx_return_def deductUsageBillingBalance_def
  incrementUsageBillingAPIKeyQuota_def chargeKeyQuota_def keyExhausted_def updateFirst_def
  StatusAPIKeyActive_def StatusAPIKeyQuotaExhausted_def AccountTypeAPIKey_def AccountTypeBedrock_def
  cleanupStatement_def cleanupVictims_def usageBillingDedupCleanupBatchSize_def ex_strings ex_rounds notApplied_def

lemma exBillRun_log: "bd_log (snd exBillRun) = [(10, exCmd ''a'' 2), (80, exCmd ''b'' 1)]"
  unfolding exBillRun_def exApply
  apply (simp add: numeral_2_eq_2 numeral_3_eq_3 exec_def faulty_def ex_billing Let_def)
  done
lemma exBillRun_result: "map (cmd_key \<circ> snd) (bd_log (snd exBillRun)) = [(''a'', 5), (''b'', 5)]"
  "costs_of 1 (bd_log (snd exBillRun)) = [2, 1]"
  by (simp_all add: exBillRun_log costs_of_def cmd_key_def exCmd_def)

text \<open>
  C8: Whatever commands are applied and repeated, by any number of concurrent requests, with transactions
  refused or committed without a reply, crashes, and keys moved to the archive in between: no request id of
  an API key is charged twice, and the balances, usage counters, quotas and scheduler events are exactly
  those that charging the committed commands one after the other gives.
\<close>

theorem charged_at_most_once:
  assumes "(interleave (billing_handler L))\<^sup>*\<^sup>* ([], db0) (ps, db)"
    and "distinct (map row_key (all_rows db0))" and "bd_log db0 = []"
  shows "distinct (map (cmd_key \<circ> snd) (bd_log db)) \<and>
    (\<exists>dbr. replay L (bd_log db) db0 = Some dbr \<and> bd_users db = bd_users dbr \<and> bd_keys db = bd_keys dbr \<and>
       bd_accounts db = bd_accounts dbr \<and> bd_subs db = bd_subs dbr \<and> bd_outbox db = bd_outbox dbr)"
proof -
  have "billed_ok L db0 db0" using assms(2,3) by (simp add: billed_ok_def)
  with billing.ok_reachable [OF assms(1)] have "billed_ok L db0 db" by simp
  then obtain dbr where r: "replay L (bd_log db) db0 = Some dbr" "tables dbr = tables db"
    and d: "distinct (map (cmd_key \<circ> snd) (bd_log db))" by (auto simp: billed_ok_def)
  from r(2) have "bd_users db = bd_users dbr" "bd_keys db = bd_keys dbr" "bd_accounts db = bd_accounts dbr"
    "bd_subs db = bd_subs dbr" "bd_outbox db = bd_outbox dbr"
    by (metis rekey_sel(4-8) tables_def)+
  with r(1) d show ?thesis by blast
qed

lemma charged_at_most_once_witness:
  "length (bd_log (snd exBillRun)) = 2 \<and>
   (\<exists>dbr. replay exLib (bd_log (snd exBillRun)) exBillDB = Some dbr \<and> bd_users (snd exBillRun) = bd_users dbr)"
proof -
  have "length (map (cmd_key \<circ> snd) (bd_log (snd exBillRun))) = 2" by (simp only: exBillRun_result) simp
  with charged_at_most_once [OF exBillRun_reachable exBillDB_start(1,2)] show ?thesis by auto
qed

text \<open>
  C10: A user's balance is the initial balance less the balance costs of the user's committed commands,
  taken off in the order of the commits and rounded to eight decimals each time, so that it is off by at
  most half a unit of the eighth decimal per charged request.
\<close>

theorem balance_is_spent:
  assumes "(interleave (billing_handler L))\<^sup>*\<^sup>* ([], db0) (ps, db)"
    and "distinct (map row_key (all_rows db0))" and "bd_log db0 = []" and "distinct (map bu_ID (bd_users db0))"
    and "balance_of i db0 = Some b"
  shows "\<exists>b'. balance_of i db = Some b' \<and> b' = foldl spend b (costs_of i (bd_log db)) \<and>
    \<bar>b' - (b - sum_list (costs_of i (bd_log db)))\<bar> \<le> of_nat (length (costs_of i (bd_log db))) / 200000000"
proof -
  have "billed_ok L db0 db0" using assms(2,3) by (simp add: billed_ok_def)
  with billing.ok_reachable [OF assms(1)] have "billed_ok L db0 db" by simp
  then obtain dbr where r: "replay L (bd_log db) db0 = Some dbr" "tables dbr = tables db" by (auto simp: billed_ok_def)
  from r(2) have "bd_users db = bd_users dbr" by (metis rekey_sel(4) tables_def)
  then have "balance_of i db = balance_of i dbr" by (simp add: balance_of_def)
  with replay_balance [OF r(1) assms(4), of i] assms(5) spend_error [of b "costs_of i (bd_log db)"]
  show ?thesis by simp
qed

lemma balance_is_spent_witness: "\<exists>b'. balance_of 1 (snd exBillRun) = Some b' \<and> \<bar>b' - 7\<bar> \<le> 1 / 100000000"
  using balance_is_spent [OF exBillRun_reachable exBillDB_start]
  by (simp add: exBillRun_result)

text \<open>
  C38: Archiving ends and loses nothing.  The job, undisturbed, returns after at most one statement more
  than there are full batches of old keys; then no old key is left in the table, and the keys of
  both tables together are the same as before.
\<close>

theorem cleanup_archives_old_keys:
  assumes "distinct (map row_key (all_rows db))" and "\<forall>e \<in> set es. be_fault e = NoFault"
    and "length (old_rows cutoff db) < length es * usageBillingDedupCleanupBatchSize"
  shows "\<exists>db'. run_flow es (CleanupUsageBillingDedup (length es) cutoff (\<lambda>r. Done (Cleaned r)) (Done StillCleaning)) db =
      (Done (Cleaned (Inr ())), db') \<and> old_rows cutoff db' = [] \<and> mset (all_rows db') = mset (all_rows db)"
  using assms
proof (induction es arbitrary: db)
  case (Cons e es)
  let ?n = usageBillingDedupCleanupBatchSize
  let ?V = "cleanupVictims (be_victims e) cutoff db"
  let ?db = "snd (cleanupStatement (be_victims e) cutoff db)"
  have d: "distinct (all_rows db)" "distinct (bd_dedup db)" using Cons.prems(1) by (auto simp: distinct_map all_rows_def)
  obtain db1 where st: "cleanupStatement (be_victims e) cutoff db = (length ?V, db1)"
    by (simp add: cleanupStatement_def Let_def)
  have len: "length ?V = min ?n (length (old_rows cutoff db))" by (simp add: cleanupVictims_length old_rows_def)
  have old: "length (old_rows cutoff ?db) = length (old_rows cutoff db) - ?n" by (rule cleanup_old_rows [OF d(2)])
  have rows: "mset (all_rows ?db) = mset (all_rows db)"
  proof -
    have "set (all_rows ?db) = set (all_rows db)" "distinct (all_rows ?db)"
      using cleanupVictims_sub [of "be_victims e" cutoff db] cleanupVictims_distinct [OF d(2)] d(1)
      by (auto simp: cleanupStatement_moves [OF Cons.prems(1)] all_rows_def)
    with d(1) show ?thesis by (metis set_eq_iff_mset_eq_distinct)
  qed
  then have "mset (map row_key (all_rows ?db)) = mset (map row_key (all_rows db))" by (simp only: mset_map)
  from mset_eq_imp_distinct_iff [OF this] Cons.prems(1) have keys: "distinct (map row_key (all_rows ?db))" by simp
  show ?case
  proof (cases "length (old_rows cutoff db) < ?n")
    case True
    with len st Cons.prems(2) old rows show ?thesis by (simp add: faulty_def)
  next
    case False
    then have "\<not> length ?V < ?n" using len by simp
    moreover have "length (old_rows cutoff ?db) < length es * ?n" using Cons.prems(3) False old by simp
    from Cons.IH [OF keys _ this] Cons.prems(2) rows st
    have "\<exists>db'. run_flow es (CleanupUsageBillingDedup (length es) cutoff (\<lambda>r. Done (Cleaned r)) (Done StillCleaning)) db1 =
      (Done (Cleaned (Inr ())), db') \<and> old_rows cutoff db' = [] \<and> mset (all_rows db') = mset (all_rows db)" by simp
    ultimately show ?thesis using st Cons.prems(2) by (simp add: faulty_def)
  qed
qed simp

lemma cleanup_archives_old_keys_witness:
  "\<exists>db'. run_flow [exBillEnv 60 NoFault] (CleanupUsageBillingDedup 1 50 (\<lambda>r. Done (Cleaned r)) (Done StillCleaning))
     (exBillDB\<lparr>bd_dedup := [\<lparr>dd_RequestID = ''a'', dd_APIKeyID = 5, dd_Fingerprint = ''f'', dd_CreatedAt = 10\<rparr>]\<rparr>) =
     (Done (Cleaned (Inr ())), db') \<and> old_rows 50 db' = []"
  using cleanup_archives_old_keys [of "exBillDB\<lparr>bd_dedup := [\<lparr>dd_RequestID = ''a'', dd_APIKeyID = 5, dd_Fingerprint = ''f'', dd_CreatedAt = 10\<rparr>]\<rparr>"
      "[exBillEnv 60 NoFault]" 50]
  by (auto simp: exBillDB_def exBillEnv_def all_rows_def old_rows_def usageBillingDedupCleanupBatchSize_def)

end
