(* ===== verification/AccountQuotaProperties.thy ===== *)
theory AccountQuotaProperties
  imports AccountQuota
begin

section \<open>Account quotas: the counters are window sums\<close>

text \<open>
  In the fixed mode the database resets a counter when its stored reset time has come, and the scheduler
  ignores a counter whose period started before the last reset; both computations are made separately, in
  SQL and in Go.  The locale \<open>reset_schedule\<close> has what the counters need of the reset times, and is
  interpreted for the daily and the weekly reset of a zone with a fixed offset.
\<close>

subsection \<open>Reset times on a grid\<close>

definition gridLast :: "int \<Rightarrow> int \<Rightarrow> int \<Rightarrow> int" where
  "gridLast p q t = q + (t - q) div p * p"

lemma le_div_iff:
  fixes a p k :: int
  assumes "0 < p"
  shows "k \<le> a div p \<longleftrightarrow> k * p \<le> a"
proof
  assume "k \<le> a div p"
  then have "k * p \<le> a div p * p" using assms by (simp add: mult_right_mono)
  moreover have "a div p * p + a mod p = a" "0 \<le> a mod p" using assms by simp_all
  ultimately show "k * p \<le> a" by linarith
next
  assume "k * p \<le> a"
  then have "k * p div p \<le> a div p" using assms by (rule zdiv_mono1)
  with assms show "k \<le> a div p" by simp
qed

lemma div_less_iff: "0 < p \<Longrightarrow> a div p < k \<longleftrightarrow> a < k * (p :: int)"
  using le_div_iff [of p k a] by linarith

lemma gridLast_le: "0 < p \<Longrightarrow> gridLast p q t \<le> t"
  and gridLast_near: "0 < p \<Longrightarrow> t < gridLast p q t + p"
proof -
  assume p: "0 < p"
  have "(t - q) div p * p + (t - q) mod p = t - q" by (rule div_mult_mod_eq)
  moreover have "0 \<le> (t - q) mod p" "(t - q) mod p < p" using p by simp_all
  ultimately show "gridLast p q t \<le> t" "t < gridLast p q t + p" unfolding gridLast_def by linarith+
qed

text \<open>It is the only grid point within one period before \<open>t\<close>, and the greatest one up to \<open>t\<close>.\<close>

lemma gridLast_eqI:
  assumes p: "0 < p" and x: "x = q + k * p" and "x \<le> t" and "t < x + p"
  shows "gridLast p q t = x"
proof -
  have "k \<le> (t - q) div p" using assms by (simp add: le_div_iff)
  moreover have "(t - q) div p < k + 1"
    unfolding div_less_iff [OF p] using assms by (simp add: distrib_right)
  ultimately have "(t - q) div p = k" by linarith
  with x show ?thesis by (simp add: gridLast_def)
qed

lemma gridLast_greatest:
  assumes "0 < p" and "q + k * p \<le> t"
  shows "q + k * p \<le> gridLast p q t"
proof -
  have "k * p \<le> t - q" using assms by linarith
  then have "k \<le> (t - q) div p" using assms by (simp add: le_div_iff)
  then have "k * p \<le> (t - q) div p * p" using assms by (simp add: mult_right_mono)
  then show ?thesis by (simp add: gridLast_def)
qed

lemma gridLast_galois:
  assumes p: "0 < p"
  shows "s < gridLast p q t \<longleftrightarrow> gridLast p q s + p \<le> t"
proof
  assume "s < gridLast p q t"
  then have "(s - q) div p < (t - q) div p"
    using p by (simp add: div_less_iff gridLast_def)
  then have "((s - q) div p + 1) * p \<le> (t - q) div p * p" using p by (intro mult_right_mono) auto
  then have "gridLast p q s + p \<le> gridLast p q t" by (simp add: gridLast_def distrib_right)
  with gridLast_le [OF p] show "gridLast p q s + p \<le> t" by (meson order_trans)
next
  assume "gridLast p q s + p \<le> t"
  then have "q + ((s - q) div p + 1) * p \<le> t" by (simp add: gridLast_def distrib_right)
  from gridLast_greatest [OF p this] have "gridLast p q s + p \<le> gridLast p q t"
    by (simp add: gridLast_def distrib_right)
  with gridLast_near [OF p] show "s < gridLast p q t" by (meson less_le_trans)
qed

lemma gridLast_same:
  assumes "0 < p" and "gridLast p q u \<le> t" and "t \<le> u"
  shows "gridLast p q t = gridLast p q u"
  using gridLast_near [OF assms(1), of u q] assms
  by (intro gridLast_eqI [OF assms(1)]) (auto simp: gridLast_def)

subsection \<open>The interface of a reset schedule\<close>

locale reset_schedule =
  fixes prv :: "int \<Rightarrow> int" and nxt :: "int \<Rightarrow> int"
  assumes prv_le: "prv t \<le> t"
    and prv_near: "t - 7 * day \<le> prv t"
    and galois: "s < prv t \<longleftrightarrow> nxt s \<le> t"
    and same: "prv u \<le> t \<Longrightarrow> t \<le> u \<Longrightarrow> prv t = prv u \<and> nxt t = nxt u"
begin

lemma next_later: "t < nxt t"
  using galois [of t t] prv_le [of t] by linarith

lemma prv_mono: "t \<le> u \<Longrightarrow> prv t \<le> prv u"
  using same [of u t] prv_le [of t] by linarith

end

subsection \<open>Resets of a zone with a fixed offset\<close>

definition fixed_offset :: "Location \<Rightarrow> int \<Rightarrow> bool" where
  "fixed_offset tz off \<longleftrightarrow> (\<forall>t. loc_wall tz t = t + off) \<and> (\<forall>w. loc_instant tz w = w - off)"

lemma day_pos [simp]: "0 < day" "day \<noteq> 0" "0 < hour"
  by (simp_all add: day_def hour_def)

lemma hour_in_day: "0 \<le> h \<Longrightarrow> h \<le> 23 \<Longrightarrow> 0 \<le> h * hour \<and> h * hour < day"
  by (auto simp: day_def hour_def)

lemma midnight_div: "midnight w = w div day * day"
  by (simp add: midnight_def minus_mod_eq_div_mult)

lemma midnight_bounds: "midnight w \<le> w" "w < midnight w + day"
  using pos_mod_bound [of day w] pos_mod_sign [of day w] by (simp_all add: midnight_def)

lemma fixed_wall: "fixed_offset tz off \<Longrightarrow> loc_wall tz t = t + off"
  and fixed_instant: "fixed_offset tz off \<Longrightarrow> loc_instant tz w = w - off"
  by (simp_all add: fixed_offset_def)

lemma resetOn_fixed: "fixed_offset tz off \<Longrightarrow> resetOn tz h t = midnight (t + off) + h * hour - off"
  by (simp add: resetOn_def fixed_wall fixed_instant)

lemma AddDate_fixed: "fixed_offset tz off \<Longrightarrow> AddDate tz t n = t + n * day"
  by (simp add: AddDate_def fixed_wall fixed_instant)

lemma lastFixedDailyReset_grid:
  assumes "fixed_offset tz off" and "0 \<le> h" and "h \<le> 23"
  shows "lastFixedDailyReset h tz t = gridLast day (h * hour - off) t"
    and "nextFixedDailyReset h tz t = gridLast day (h * hour - off) t + day"
proof -
  note b = midnight_bounds [of "t + off"] hour_in_day [OF assms(2,3)]
  let ?k = "(t + off) div day"
  have g: "gridLast day (h * hour - off) t = (if t < resetOn tz h t then resetOn tz h t - day else resetOn tz h t)"
  proof (rule gridLast_eqI [OF day_pos(1), where k = "if t < resetOn tz h t then ?k - 1 else ?k"])
    show "(if t < resetOn tz h t then resetOn tz h t - day else resetOn tz h t) =
        h * hour - off + (if t < resetOn tz h t then ?k - 1 else ?k) * day"
      by (simp add: resetOn_fixed [OF assms(1)] midnight_div algebra_simps)
  qed (use b in \<open>auto simp: resetOn_fixed [OF assms(1)]\<close>)
  show "lastFixedDailyReset h tz t = gridLast day (h * hour - off) t"
    by (simp add: g lastFixedDailyReset_def AddDate_fixed [OF assms(1)] Let_def)
  show "nextFixedDailyReset h tz t = gridLast day (h * hour - off) t + day"
    by (simp add: g nextFixedDailyReset_def AddDate_fixed [OF assms(1)] Let_def)
qed

lemma weekday_reset: "0 \<le> q \<Longrightarrow> q < day \<Longrightarrow> weekday (midnight w + q) = (w div day + 4) mod 7"
  by (simp add: weekday_def midnight_div div_pos_pos_trivial)

lemma week_days:
  fixes k d :: int
  shows "(d - (k + 4) mod 7) mod 7 = (if (k + 4 - d) mod 7 = 0 then 0 else 7 - (k + 4 - d) mod 7)"
    and "((k + 4) mod 7 - d) mod 7 = (k + 4 - d) mod 7"
proof -
  have "(d - (k + 4) mod 7) mod 7 = (- (k + 4 - d)) mod 7" by (simp add: mod_diff_right_eq)
  then show "(d - (k + 4) mod 7) mod 7 = (if (k + 4 - d) mod 7 = 0 then 0 else 7 - (k + 4 - d) mod 7)"
    by (simp only: zmod_zminus1_eq_if)
qed (simp add: mod_diff_left_eq)

lemma back_days:
  assumes "0 \<le> B" and "B \<le> 7" and "B = 0 \<longrightarrow> r \<le> t" and "B = 7 \<longrightarrow> t < r" and "r - day < t" and "t < r + day"
  shows "r - B * day \<le> t \<and> t < r - B * day + 7 * day"
proof (cases "1 \<le> B \<and> B \<le> 6")
  case True
  then have "1 * day \<le> B * day" "B * day \<le> 6 * day" by (simp_all add: mult_right_mono)
  with assms(5,6) show ?thesis by (intro conjI; linarith)
next
  case False
  with assms have "B = 0 \<or> B = 7" by linarith
  with assms show ?thesis by auto
qed

lemma lastFixedWeeklyReset_grid:
  assumes fo: "fixed_offset tz off" and "0 \<le> h" and "h \<le> 23"
  shows "lastFixedWeeklyReset d h tz t = gridLast (7 * day) (h * hour - off + (d - 4) * day) t"
    and "nextFixedWeeklyReset d h tz t = gridLast (7 * day) (h * hour - off + (d - 4) * day) t + 7 * day"
proof -
  note b = midnight_bounds [of "t + off"] hour_in_day [OF assms(2,3)]
  let ?k = "(t + off) div day"
  let ?r = "resetOn tz h t"
  let ?b = "(?k + 4 - d) mod 7"
  let ?rew = "if ?b = 0 \<and> t < ?r then 7 else ?b"
  have wd: "weekday (loc_wall tz ?r) = (?k + 4) mod 7"
    using weekday_reset [of "h * hour" "t + off"] b fo by (simp add: resetOn_fixed [OF fo] fixed_offset_def)
  have r: "?r - day < t" "t < ?r + day" using b by (auto simp: resetOn_fixed [OF fo])
  have b7: "0 \<le> ?b" "?b \<le> 6" using pos_mod_bound [of 7 "?k + 4 - d"] by simp_all
  have g: "gridLast (7 * day) (h * hour - off + (d - 4) * day) t = ?r - ?rew * day"
  proof (rule gridLast_eqI)
    let ?j = "(?k + 4 - d) div 7 - (if ?b = 0 \<and> t < ?r then 1 else 0)"
    have "?k - ?rew = d - 4 + ?j * 7" by (auto simp: algebra_simps minus_mod_eq_mult_div [symmetric])
    then have "(?k - ?rew) * day = (d - 4 + ?j * 7) * day" by simp
    then show "?r - ?rew * day = h * hour - off + (d - 4) * day + ?j * (7 * day)"
      by (simp add: resetOn_fixed [OF fo] midnight_div algebra_simps)
    have "0 \<le> ?rew" "?rew \<le> 7" "?rew = 0 \<longrightarrow> ?r \<le> t" "?rew = 7 \<longrightarrow> t < ?r" using b7 by auto
    from back_days [OF this r] show "?r - ?rew * day \<le> t" "t < ?r - ?rew * day + 7 * day" by simp_all
  qed simp
  show "lastFixedWeeklyReset d h tz t = gridLast (7 * day) (h * hour - off + (d - 4) * day) t"
    by (simp add: g lastFixedWeeklyReset_def AddDate_fixed [OF fo] Let_def wd week_days)
  show "nextFixedWeeklyReset d h tz t = gridLast (7 * day) (h * hour - off + (d - 4) * day) t + 7 * day"
  proof -
    let ?f = "(d - (?k + 4) mod 7) mod 7"
    have f: "?f = (if ?b = 0 then 0 else 7 - ?b)" by (rule week_days(1))
    have F: "(if ?f = 0 \<and> \<not> t < ?r then 7 else ?f) = 7 - ?rew"
      unfolding f using b7 by (cases "?b = 0") auto
    have "nextFixedWeeklyReset d h tz t = ?r + (if ?f = 0 \<and> \<not> t < ?r then 7 else ?f) * day"
      by (simp add: nextFixedWeeklyReset_def AddDate_fixed [OF fo] Let_def wd)
    then have "nextFixedWeeklyReset d h tz t = ?r + (7 - ?rew) * day" by (simp only: F)
    moreover have "(7 - ?rew) * day = 7 * day - ?rew * day" by (rule left_diff_distrib)
    ultimately show ?thesis unfolding g by linarith
  qed
qed

text \<open>The SQL expressions compute the same instants.\<close>

lemma nextDailyResetAtExpr_eq:
  assumes fo: "fixed_offset tz off"
  shows "nextDailyResetAtExpr tz now x = nextFixedDailyReset (coalesce (qw_reset_hour (qx_daily x)) 0) tz now"
  by (auto simp: nextDailyResetAtExpr_def nextFixedDailyReset_def resetOn_fixed [OF fo] AddDate_fixed [OF fo]
      fixed_wall [OF fo] fixed_instant [OF fo] Let_def not_less)

lemma nextWeeklyResetAtExpr_eq:
  assumes fo: "fixed_offset tz off" and h: "0 \<le> coalesce (qw_reset_hour (qx_weekly x)) 0" "coalesce (qw_reset_hour (qx_weekly x)) 0 \<le> 23"
  shows "nextWeeklyResetAtExpr tz now x =
    nextFixedWeeklyReset (coalesce (qx_weekly_reset_day x) 1) (coalesce (qw_reset_hour (qx_weekly x)) 0) tz now"
proof -
  let ?h = "coalesce (qw_reset_hour (qx_weekly x)) 0"
  have "weekday (midnight (now + off) + ?h * hour) = weekday (now + off)"
    using weekday_reset [of "?h * hour" "now + off"] hour_in_day [OF h] by (simp add: weekday_def)
  then show ?thesis
    by (auto simp: nextWeeklyResetAtExpr_def nextFixedWeeklyReset_def resetOn_fixed [OF fo] AddDate_fixed [OF fo]
        fixed_wall [OF fo] fixed_instant [OF fo] Let_def not_less)
qed

lemma grid_schedule:
  assumes "0 < p" and "p \<le> 7 * day"
  shows "reset_schedule (gridLast p q) (\<lambda>t. gridLast p q t + p)"
proof
  fix s t u
  show "gridLast p q t \<le> t" using assms(1) by (rule gridLast_le)
  show "t - 7 * day \<le> gridLast p q t" using gridLast_near [OF assms(1), of t q] assms(2) by linarith
  show "(s < gridLast p q t) = (gridLast p q s + p \<le> t)" using assms(1) by (rule gridLast_galois)
  show "gridLast p q t = gridLast p q u \<and> gridLast p q t + p = gridLast p q u + p"
    if "gridLast p q u \<le> t" "t \<le> u"
    using gridLast_same [OF assms(1) that] by simp
qed

lemma daily_schedule:
  assumes "fixed_offset tz off" and "0 \<le> h" and "h \<le> 23"
  shows "reset_schedule (lastFixedDailyReset h tz) (nextFixedDailyReset h tz)"
  using grid_schedule [of day "h * hour - off"] by (simp add: lastFixedDailyReset_grid [OF assms, abs_def])

lemma weekly_schedule:
  assumes "fixed_offset tz off" and "0 \<le> h" and "h \<le> 23"
  shows "reset_schedule (lastFixedWeeklyReset d h tz) (nextFixedWeeklyReset d h tz)"
  using grid_schedule [of "7 * day"] by (simp add: lastFixedWeeklyReset_grid [OF assms, abs_def])

subsection \<open>One counter\<close>

text \<open>
  \<open>us\<close> are the charges made since the last manual reset.  A counter that is in use has a start \<open>s\<close>, its
  stored reset time is the next one after \<open>s\<close>, and from now on it holds the charges since the last reset,
  unless a reset falls after \<open>s\<close>: then there were none since.
\<close>

definition charged_since :: "int \<Rightarrow> (int \<times> rat) list \<Rightarrow> rat" where
  "charged_since t0 us = sum_list (map snd (filter (\<lambda>u. t0 \<le> fst u) us))"

lemma charged_since_simps [simp]:
  "charged_since t0 [] = 0"
  "charged_since t0 (u # us) = (if t0 \<le> fst u then snd u else 0) + charged_since t0 us"
  by (simp_all add: charged_since_def)

lemma charged_since_later: "\<forall>u \<in> set us. fst u < t0 \<Longrightarrow> charged_since t0 us = 0"
  by (induction us) auto

definition window_ok :: "(int \<Rightarrow> int) \<Rightarrow> (int \<Rightarrow> int) \<Rightarrow> int \<Rightarrow> (int \<times> rat) list \<Rightarrow> quota_window \<Rightarrow> bool" where
  "window_ok prv nxt T us w \<longleftrightarrow> fixedMode w \<and> 0 \<le> T \<and> (\<forall>u \<in> set us. fst u \<le> T) \<and>
     (0 < coalesce (qw_limit w) 0 \<longrightarrow>
        us = [] \<and> qw_start w = None \<and> qw_reset_at w = None \<and> coalesce (qw_used w) 0 = 0 \<or>
        (\<exists>s \<le> T. \<not> IsZero s \<and> qw_start w = Some s \<and> qw_reset_at w = Some (nxt s) \<and>
          (\<forall>t \<ge> T. charged_since (prv t) us = (if s < prv t then 0 else coalesce (qw_used w) 0))))"

definition window_config :: "quota_window \<Rightarrow> rat option \<times> string option \<times> int option" where
  "window_config w = (qw_limit w, qw_reset_mode w, qw_reset_hour w)"

lemma fixedMode_sql: "fixedMode w \<longleftrightarrow> coalesce (qw_reset_mode w) ''rolling'' = ''fixed''"
  by (cases "qw_reset_mode w") (simp_all add: fixedMode_def)

lemma not_zero: "0 \<le> t \<Longrightarrow> t - 7 * day \<le> s \<Longrightarrow> \<not> IsZero s"
  by (simp add: IsZero_def zero_time_def day_def hour_def)

context reset_schedule
begin

lemma started:
  assumes "fixedMode w" and "qw_start w = Some s" and "qw_reset_at w = Some (nxt s)" and "\<not> IsZero s" and "s \<le> T" and "0 \<le> T"
    and "\<forall>u \<in> set us. fst u \<le> T" and "\<And>t. T \<le> t \<Longrightarrow> charged_since (prv t) us = (if s < prv t then 0 else coalesce (qw_used w) 0)"
  shows "window_ok prv nxt T us w"
  using assms by (auto simp: window_ok_def)

lemma charge_ok:
  assumes ok: "window_ok prv nxt T us w" and t: "T \<le> t"
  shows "\<exists>w'. chargeWindow (windowExpired len t w) (Inr (nxt t)) t a w = Inr w' \<and>
    window_ok prv nxt t ((t, a) # us) w' \<and> window_config w' = window_config w"
proof (cases "0 < coalesce (qw_limit w) 0")
  case False
  with ok t show ?thesis by (fastforce simp: chargeWindow_def window_ok_def)
next
  case True
  from ok have w: "fixedMode w" "0 \<le> T" "\<forall>u \<in> set us. fst u \<le> T" by (simp_all add: window_ok_def)
  have us: "\<forall>u \<in> set ((t, a) # us). fst u \<le> t" using w(3) t by auto
  have t0: "\<not> IsZero t" using w(2) t by (intro not_zero [of t]) (auto simp: less_imp_le)
  note c = chargeWindow_def windowExpired_def window_config_def True w(1) w(1) [unfolded fixedMode_sql]
  from ok True consider (unused) "us = []" "qw_start w = None" "qw_reset_at w = None"
    | (used) s where "s \<le> T" "\<not> IsZero s" "qw_start w = Some s" "qw_reset_at w = Some (nxt s)"
        "\<And>u. T \<le> u \<Longrightarrow> charged_since (prv u) us = (if s < prv u then 0 else coalesce (qw_used w) 0)"
    by (auto simp: window_ok_def)
  then show ?thesis
  proof cases
    case unused
    let ?w = "w\<lparr>qw_used := Some a, qw_start := Some t, qw_reset_at := Some (nxt t)\<rparr>"
    have "window_ok prv nxt t ((t, a) # us) ?w"
      by (rule started [where s = t]) (use w t t0 unused in \<open>auto simp: fixedMode_def\<close>)
    with unused w t show ?thesis by (intro exI [of _ ?w]) (simp add: c)
  next
    case used
    show ?thesis
    proof (cases "s < prv t")
      case expired: True
      let ?w = "w\<lparr>qw_used := Some a, qw_start := Some t, qw_reset_at := Some (nxt t)\<rparr>"
      have "window_ok prv nxt t ((t, a) # us) ?w"
      proof (rule started [where s = t])
        fix u
        assume u: "t \<le> u"
        show "charged_since (prv u) ((t, a) # us) = (if t < prv u then 0 else coalesce (qw_used ?w) 0)"
        proof (cases "t < prv u")
          case True
          then have "charged_since (prv u) us = 0" using w(3) t by (intro charged_since_later) auto
          with True show ?thesis by simp
        next
          case False
          with u have "prv t = prv u" using same [of u t] by simp
          with False expired used(5) [of t] t show ?thesis by simp
        qed
      qed (use w t t0 us in \<open>auto simp: fixedMode_def\<close>)
      with expired used show ?thesis by (intro exI [of _ ?w]) (simp add: c galois)
    next
      case fresh: False
      let ?w = "w\<lparr>qw_used := Some (coalesce (qw_used w) 0 + a), qw_start := Some s\<rparr>"
      have "window_ok prv nxt t ((t, a) # us) ?w"
      proof (rule started [where s = s])
        fix u
        assume u: "t \<le> u"
        show "charged_since (prv u) ((t, a) # us) = (if s < prv u then 0 else coalesce (qw_used ?w) 0)"
        proof (cases "s < prv u")
          case True
          with fresh u same [of u t] have "t < prv u" by linarith
          with True used(5) [of u] u t show ?thesis by simp
        next
          case False
          with used(1) used(5) [of u] u t show ?thesis by simp
        qed
      qed (use w t us used in \<open>auto simp: fixedMode_def\<close>)
      with fresh used show ?thesis by (intro exI [of _ ?w]) (simp add: c galois)
    qed
  qed
qed

lemma fresh_save:
  assumes "fixedMode w" and "qw_start w = None" and "coalesce (qw_used w) 0 = 0" and "0 \<le> t"
  shows "window_ok prv nxt t [] (normalizeWindow (prv t) (w\<lparr>qw_reset_at := Some (nxt t)\<rparr>))"
proof -
  have "nxt (prv t) = nxt t" using same [of t "prv t"] prv_le [of t] by simp
  moreover have "\<not> IsZero (prv t)" using assms(4) prv_near by (rule not_zero)
  moreover have "IsZero zero_time" by (simp add: IsZero_def)
  ultimately show ?thesis using assms prv_le [of t]
    by (auto simp: normalizeWindow_def window_ok_def fixedMode_def getExtraTime_def Let_def)
qed

lemma save_ok:
  assumes ok: "window_ok prv nxt T us w" and t: "T \<le> t"
  shows "window_ok prv nxt t us (normalizeWindow (prv t) (w\<lparr>qw_reset_at := Some (nxt t)\<rparr>))"
proof (cases "0 < coalesce (qw_limit w) 0")
  case False
  with ok t show ?thesis by (fastforce simp: normalizeWindow_def window_ok_def fixedMode_def)
next
  case True
  from ok have w: "fixedMode w" "0 \<le> T" "\<forall>u \<in> set us. fst u \<le> T" by (simp_all add: window_ok_def)
  have us: "\<forall>u \<in> set us. fst u \<le> t" using w(3) t by auto
  note n = normalizeWindow_def getExtraTime_def Let_def True w(1) w(1) [unfolded fixedMode_def] fixedMode_def
  from ok True consider (unused) "us = []" "qw_start w = None" "coalesce (qw_used w) 0 = 0"
    | (used) s where "s \<le> T" "\<not> IsZero s" "qw_start w = Some s"
        "\<And>u. T \<le> u \<Longrightarrow> charged_since (prv u) us = (if s < prv u then 0 else coalesce (qw_used w) 0)"
    by (auto simp: window_ok_def)
  then show ?thesis
  proof cases
    case unused
    with fresh_save [of w t] w t show ?thesis by simp
  next
    case used
    have pz: "\<not> IsZero (prv t)" using w(2) t prv_near [of t] by (intro not_zero [of t]) auto
    show ?thesis
    proof (cases "s < prv t")
      case True
      have "nxt (prv t) = nxt t" using same [of t "prv t"] prv_le [of t] by simp
      moreover have "charged_since (prv u) us = 0" if "t \<le> u" for u
        using used(4) [of u] prv_mono [OF that] True t that by simp
      ultimately show ?thesis
        by (intro started [where s = "prv t"]) (use True used w us pz t prv_le [of t] in \<open>auto simp: n\<close>)
    next
      case False
      then have "nxt s = nxt t" using same [of t s] used(1) t by simp
      then show ?thesis by (intro started [where s = s]) (use False used w us t in \<open>auto simp: n\<close>)
    qed
  qed
qed

lemma reset_ok:
  "window_ok prv nxt T us w \<Longrightarrow> window_ok prv nxt T [] (w\<lparr>qw_used := Some 0, qw_start := None, qw_reset_at := None\<rparr>)"
  by (simp add: window_ok_def fixedMode_def)

text \<open>What the scheduler sees: nothing if the period has expired, else the counter.\<close>

lemma counter_is_sum:
  assumes "window_ok prv nxt T us w" and "T \<le> t" and "0 < coalesce (qw_limit w) 0"
  shows "(if IsZero (getExtraTime (qw_start w)) \<or> getExtraTime (qw_start w) < prv t then 0 else coalesce (qw_used w) 0) =
    charged_since (prv t) us"
  using assms by (auto simp: window_ok_def getExtraTime_def IsZero_def)

end

subsection \<open>An account through its life\<close>

datatype quota_event = Charge int rat | SaveAccount int | ResetQuota

fun quotaStep :: "zone_db \<Rightarrow> quota_event \<Rightarrow> quota_extra \<Rightarrow> go_error + quota_extra" where
  "quotaStep z (Charge t a) x = chargeExtra z t a x"
| "quotaStep z (SaveAccount t) x = saveExtra z t x"
| "quotaStep z ResetQuota x = Inr (resetExtra x)"

fun runQuota :: "zone_db \<Rightarrow> quota_event list \<Rightarrow> quota_extra \<Rightarrow> go_error + quota_extra" where
  "runQuota z [] x = Inr x"
| "runQuota z (ev # evs) x = (case quotaStep z ev x of Inl err \<Rightarrow> Inl err | Inr x' \<Rightarrow> runQuota z evs x')"

text \<open>The charges since the last manual reset, and the clock: events come in the order of time.\<close>

fun charges :: "(int \<times> rat) list \<Rightarrow> quota_event list \<Rightarrow> (int \<times> rat) list" where
  "charges us [] = us"
| "charges us (Charge t a # evs) = charges ((t, a) # us) evs"
| "charges us (SaveAccount t # evs) = charges us evs"
| "charges us (ResetQuota # evs) = charges [] evs"

fun clock :: "int \<Rightarrow> quota_event list \<Rightarrow> int option" where
  "clock T [] = Some T"
| "clock T (Charge t a # evs) = (if T \<le> t then clock t evs else None)"
| "clock T (SaveAccount t # evs) = (if T \<le> t then clock t evs else None)"
| "clock T (ResetQuota # evs) = clock T evs"

text \<open>A valid configuration in the fixed mode, in a zone both databases know and that has a fixed offset.\<close>

definition fixed_config :: "zone_db \<Rightarrow> Location \<Rightarrow> int \<Rightarrow> quota_extra \<Rightarrow> bool" where
  "fixed_config z tz off x \<longleftrightarrow> ValidateQuotaResetConfig z x = None \<and> fixedMode (qx_daily x) \<and> fixedMode (qx_weekly x) \<and>
     zd_LoadLocation z (GetQuotaResetTimezone x) = Some tz \<and> zd_sql z (coalesce (qx_timezone x) ''UTC'') = Some tz \<and>
     fixed_offset tz off"

definition unused_quota :: "quota_extra \<Rightarrow> bool" where
  "unused_quota x \<longleftrightarrow> coalesce (qx_used x) 0 = 0 \<and> qw_start (qx_daily x) = None \<and> coalesce (qw_used (qx_daily x)) 0 = 0 \<and>
     qw_start (qx_weekly x) = None \<and> coalesce (qw_used (qx_weekly x)) 0 = 0"

definition dailyHour :: "quota_extra \<Rightarrow> int" where "dailyHour x = coalesce (qw_reset_hour (qx_daily x)) 0"
definition weeklyHour :: "quota_extra \<Rightarrow> int" where "weeklyHour x = coalesce (qw_reset_hour (qx_weekly x)) 0"
definition weeklyDay :: "quota_extra \<Rightarrow> int" where "weeklyDay x = coalesce (qx_weekly_reset_day x) 1"

definition quota_config :: "quota_extra \<Rightarrow> _" where
  "quota_config x = (qx_limit x, window_config (qx_daily x), window_config (qx_weekly x), qx_weekly_reset_day x, qx_timezone x)"

lemma config_facts:
  assumes "quota_config x = quota_config y"
  shows "dailyHour x = dailyHour y" "weeklyHour x = weeklyHour y" "weeklyDay x = weeklyDay y"
    "qx_limit x = qx_limit y" "qw_limit (qx_daily x) = qw_limit (qx_daily y)" "qw_limit (qx_weekly x) = qw_limit (qx_weekly y)"
    "fixed_config z tz off x = fixed_config z tz off y"
  using assms by (simp_all add: quota_config_def window_config_def dailyHour_def weeklyHour_def weeklyDay_def
      fixed_config_def ValidateQuotaResetConfig_def fixedMode_def GetQuotaResetTimezone_def Let_def)

lemma valid_hours:
  assumes "fixed_config z tz off x"
  shows "0 \<le> dailyHour x" "dailyHour x \<le> 23" "0 \<le> weeklyHour x" "weeklyHour x \<le> 23"
    "clampHour (qw_reset_hour (qx_daily x)) = dailyHour x" "clampHour (qw_reset_hour (qx_weekly x)) = weeklyHour x"
    "clampDay (qx_weekly_reset_day x) = weeklyDay x"
  using assms by (auto simp: fixed_config_def ValidateQuotaResetConfig_def Let_def dailyHour_def weeklyHour_def weeklyDay_def
      clampHour_def clampDay_def coalesce_def split: option.splits if_splits)

definition quota_ok :: "Location \<Rightarrow> quota_extra \<Rightarrow> int \<Rightarrow> (int \<times> rat) list \<Rightarrow> quota_extra \<Rightarrow> bool" where
  "quota_ok tz x0 T us x \<longleftrightarrow> quota_config x = quota_config x0 \<and> coalesce (qx_used x) 0 = sum_list (map snd us) \<and>
     window_ok (lastFixedDailyReset (dailyHour x0) tz) (nextFixedDailyReset (dailyHour x0) tz) T us (qx_daily x) \<and>
     window_ok (lastFixedWeeklyReset (weeklyDay x0) (weeklyHour x0) tz)
       (nextFixedWeeklyReset (weeklyDay x0) (weeklyHour x0) tz) T us (qx_weekly x)"

lemma quotaStep_ok:
  assumes fc: "fixed_config z tz off x0" and ok: "quota_ok tz x0 T us x" and clk: "clock T [ev] = Some T'"
  shows "\<exists>x'. quotaStep z ev x = Inr x' \<and> quota_ok tz x0 T' (charges us [ev]) x'"
proof -
  from ok have cfg: "quota_config x = quota_config x0"
    and used: "coalesce (qx_used x) 0 = sum_list (map snd us)"
    and dw: "window_ok (lastFixedDailyReset (dailyHour x0) tz) (nextFixedDailyReset (dailyHour x0) tz) T us (qx_daily x)"
    and ww: "window_ok (lastFixedWeeklyReset (weeklyDay x0) (weeklyHour x0) tz)
       (nextFixedWeeklyReset (weeklyDay x0) (weeklyHour x0) tz) T us (qx_weekly x)"
    by (simp_all add: quota_ok_def)
  note facts = config_facts [OF cfg]
  from fc have fx: "fixed_config z tz off x" by (simp add: facts)
  then have fo: "fixed_offset tz off" and zone: "sqlZone z x = Inr tz" "quotaZone z x = tz"
    and valid: "ValidateQuotaResetConfig z x = None"
    by (simp_all add: fixed_config_def sqlZone_def quotaZone_def)
  note h = valid_hours [OF fx, unfolded facts]
  note ds = daily_schedule [OF fo h(1,2)] and ws = weekly_schedule [OF fo h(3,4)]
  show ?thesis
  proof (cases ev)
    case (Charge t a)
    with clk have t: "T \<le> t" "T' = t" by (auto split: if_splits)
    obtain d where d: "chargeWindow (dailyExpiredExpr t (qx_daily x)) (Inr (nextFixedDailyReset (dailyHour x0) tz t)) t a (qx_daily x) = Inr d"
      "window_ok (lastFixedDailyReset (dailyHour x0) tz) (nextFixedDailyReset (dailyHour x0) tz) t ((t, a) # us) d"
      "window_config d = window_config (qx_daily x)"
      using reset_schedule.charge_ok [OF ds dw t(1)] unfolding dailyExpiredExpr_def by blast
    obtain w where w: "chargeWindow (weeklyExpiredExpr t (qx_weekly x)) (Inr (nextFixedWeeklyReset (weeklyDay x0) (weeklyHour x0) tz t)) t a (qx_weekly x) = Inr w"
      "window_ok (lastFixedWeeklyReset (weeklyDay x0) (weeklyHour x0) tz)
         (nextFixedWeeklyReset (weeklyDay x0) (weeklyHour x0) tz) t ((t, a) # us) w"
      "window_config w = window_config (qx_weekly x)"
      using reset_schedule.charge_ok [OF ws ww t(1)] unfolding weeklyExpiredExpr_def by blast
    have "nextDailyResetAtExpr tz t x = nextFixedDailyReset (dailyHour x0) tz t"
      using facts(1) by (simp add: nextDailyResetAtExpr_eq [OF fo] dailyHour_def)
    moreover have "nextWeeklyResetAtExpr tz t x = nextFixedWeeklyReset (weeklyDay x0) (weeklyHour x0) tz t"
      using nextWeeklyResetAtExpr_eq [OF fo, of x t] facts(2,3) h(3,4) by (simp add: weeklyHour_def weeklyDay_def)
    ultimately have "chargeExtra z t a x =
        Inr (x\<lparr>qx_used := Some (coalesce (qx_used x) 0 + a), qx_daily := d, qx_weekly := w\<rparr>)"
      by (simp add: chargeExtra_def zone d w)
    with Charge t d w cfg used show ?thesis by (simp add: quota_ok_def quota_config_def)
  next
    case (SaveAccount t)
    with clk have t: "T \<le> t" "T' = t" by (auto split: if_splits)
    let ?d = "normalizeWindow (lastFixedDailyReset (dailyHour x0) tz t)
      ((qx_daily x)\<lparr>qw_reset_at := Some (nextFixedDailyReset (dailyHour x0) tz t)\<rparr>)"
    let ?w = "normalizeWindow (lastFixedWeeklyReset (weeklyDay x0) (weeklyHour x0) tz t)
      ((qx_weekly x)\<lparr>qw_reset_at := Some (nextFixedWeeklyReset (weeklyDay x0) (weeklyHour x0) tz t)\<rparr>)"
    have "saveExtra z t x = Inr (x\<lparr>qx_daily := ?d, qx_weekly := ?w\<rparr>)"
      using valid fx by (simp add: saveExtra_def NormalizeFixedQuotaWindows_def ComputeQuotaResetAt_def Let_def h facts
          quotaZone_def GetQuotaResetTimezone_def fixed_config_def)
    moreover have "window_config ?d = window_config (qx_daily x)" "window_config ?w = window_config (qx_weekly x)"
      by (simp_all add: window_config_def normalizeWindow_def Let_def)
    ultimately show ?thesis
      using SaveAccount t cfg used reset_schedule.save_ok [OF ds dw t(1)] reset_schedule.save_ok [OF ws ww t(1)]
      by (simp add: quota_ok_def quota_config_def)
  next
    case ResetQuota
    with clk cfg reset_schedule.reset_ok [OF ds dw] reset_schedule.reset_ok [OF ws ww]
    show ?thesis by (simp add: resetExtra_def quota_ok_def quota_config_def window_config_def)
  qed
qed

lemma runQuota_ok:
  assumes "fixed_config z tz off x0"
  shows "quota_ok tz x0 T us x \<Longrightarrow> clock T evs = Some T' \<Longrightarrow>
    \<exists>x'. runQuota z evs x = Inr x' \<and> quota_ok tz x0 T' (charges us evs) x'"
proof (induction evs arbitrary: T us x)
  case (Cons ev evs)
  then obtain T1 where c: "clock T [ev] = Some T1" "clock T1 evs = Some T'"
    by (cases ev) (auto split: if_splits)
  have us: "charges us (ev # evs) = charges (charges us [ev]) evs" by (cases ev) simp_all
  from quotaStep_ok [OF assms Cons.prems(1) c(1)] Cons.IH [OF _ c(2)] show ?case unfolding us by fastforce
qed simp

lemma first_save_ok:
  assumes fc: "fixed_config z tz off x" and un: "unused_quota x" and t: "0 \<le> t"
  shows "\<exists>x'. saveExtra z t x = Inr x' \<and> quota_ok tz x t [] x'"
proof -
  from fc have fo: "fixed_offset tz off" by (simp add: fixed_config_def)
  note h = valid_hours [OF fc]
  note ds = daily_schedule [OF fo h(1,2)] and ws = weekly_schedule [OF fo h(3,4)]
  let ?d = "normalizeWindow (lastFixedDailyReset (dailyHour x) tz t)
    ((qx_daily x)\<lparr>qw_reset_at := Some (nextFixedDailyReset (dailyHour x) tz t)\<rparr>)"
  let ?w = "normalizeWindow (lastFixedWeeklyReset (weeklyDay x) (weeklyHour x) tz t)
    ((qx_weekly x)\<lparr>qw_reset_at := Some (nextFixedWeeklyReset (weeklyDay x) (weeklyHour x) tz t)\<rparr>)"
  have "saveExtra z t x = Inr (x\<lparr>qx_daily := ?d, qx_weekly := ?w\<rparr>)"
    using fc by (simp add: saveExtra_def NormalizeFixedQuotaWindows_def ComputeQuotaResetAt_def Let_def h
        quotaZone_def GetQuotaResetTimezone_def fixed_config_def)
  moreover have "window_config ?d = window_config (qx_daily x)" "window_config ?w = window_config (qx_weekly x)"
    by (simp_all add: window_config_def normalizeWindow_def Let_def)
  ultimately show ?thesis
    using reset_schedule.fresh_save [OF ds, of "qx_daily x" t] reset_schedule.fresh_save [OF ws, of "qx_weekly x" t] un fc t
    by (simp add: quota_ok_def quota_config_def unused_quota_def fixed_config_def)
qed

lemma exceeded_iff:
  assumes fc: "fixed_config z tz off x0" and ok: "quota_ok tz x0 T us x" and t: "T \<le> now"
  shows "IsQuotaExceeded z now x \<longleftrightarrow>
    0 < coalesce (qx_limit x0) 0 \<and> coalesce (qx_limit x0) 0 \<le> sum_list (map snd us) \<or>
    0 < coalesce (qw_limit (qx_daily x0)) 0 \<and>
      coalesce (qw_limit (qx_daily x0)) 0 \<le> charged_since (lastFixedDailyReset (dailyHour x0) tz now) us \<or>
    0 < coalesce (qw_limit (qx_weekly x0)) 0 \<and>
      coalesce (qw_limit (qx_weekly x0)) 0 \<le> charged_since (lastFixedWeeklyReset (weeklyDay x0) (weeklyHour x0) tz now) us"
    (is "_ \<longleftrightarrow> _ \<or> ?D \<or> ?W")
proof -
  from ok have cfg: "quota_config x = quota_config x0" by (simp add: quota_ok_def)
  note facts = config_facts [OF cfg]
  from fc have fx: "fixed_config z tz off x" by (simp add: facts)
  then have fo: "fixed_offset tz off" and zone: "quotaZone z x = tz" and m: "fixedMode (qx_daily x)" "fixedMode (qx_weekly x)"
    by (simp_all add: fixed_config_def quotaZone_def)
  note h = valid_hours [OF fx, unfolded facts]
  have hd: "coalesce (qw_reset_hour (qx_daily x)) 0 = dailyHour x0" "coalesce (qw_reset_hour (qx_weekly x)) 0 = weeklyHour x0"
    "GetQuotaWeeklyResetDay x = weeklyDay x0"
    using facts(1,2,3) by (simp_all add: dailyHour_def weeklyHour_def weeklyDay_def GetQuotaWeeklyResetDay_def)
  have "0 < coalesce (qw_limit (qx_daily x0)) 0 \<Longrightarrow>
      (\<not> IsDailyQuotaPeriodExpired z now x \<and> coalesce (qw_limit (qx_daily x0)) 0 \<le> coalesce (qw_used (qx_daily x)) 0) \<longleftrightarrow> ?D"
    using reset_schedule.counter_is_sum [OF daily_schedule [OF fo h(1,2)], where us = us and T = T and w = "qx_daily x" and t = now] ok t
    by (auto simp: IsDailyQuotaPeriodExpired_def isFixedDailyPeriodExpired_def m zone hd facts quota_ok_def Let_def split: if_splits)
  moreover have "0 < coalesce (qw_limit (qx_weekly x0)) 0 \<Longrightarrow>
      (\<not> IsWeeklyQuotaPeriodExpired z now x \<and> coalesce (qw_limit (qx_weekly x0)) 0 \<le> coalesce (qw_used (qx_weekly x)) 0) \<longleftrightarrow> ?W"
    using reset_schedule.counter_is_sum [OF weekly_schedule [OF fo h(3,4), of "weeklyDay x0"], where us = us and T = T and w = "qx_weekly x" and t = now] ok t
    by (auto simp: IsWeeklyQuotaPeriodExpired_def isFixedWeeklyPeriodExpired_def m zone hd facts quota_ok_def Let_def split: if_splits)
  moreover have "coalesce (qx_used x) 0 = sum_list (map snd us)" using ok by (simp add: quota_ok_def)
  ultimately show ?thesis unfolding IsQuotaExceeded_def facts by auto
qed

interpretation utc_daily: reset_schedule "lastFixedDailyReset 0 UTC" "nextFixedDailyReset 0 UTC"
  by (rule daily_schedule [of UTC 0]) (simp_all add: fixed_offset_def UTC_def)

interpretation utc_weekly: reset_schedule "lastFixedWeeklyReset 1 0 UTC" "nextFixedWeeklyReset 1 0 UTC"
  by (rule weekly_schedule [of UTC 0]) (simp_all add: fixed_offset_def UTC_def)

subsection \<open>Properties\<close>

text \<open>
  C21: The counters of the database and the check of the scheduler, each with its own reset times, together
  implement window sums.  An account whose daily and weekly window both have fixed reset times, in a zone with a
  fixed offset from UTC, is created unused, charged, saved without changing its quota configuration and reset by
  hand, in any order, the clock not going backwards: afterwards the scheduler (\<open>IsQuotaExceeded\<close>) finds its quota
  exceeded exactly if the charges since the last manual reset reach the total limit, or those of them after
  the last daily or weekly reset reach the daily or weekly limit.  (Rolling windows and zones with daylight saving
  time are not covered.)
\<close>

theorem quota_counts_charges:
  assumes "fixed_config z tz off x" and "unused_quota x" and "0 \<le> t0" and "clock t0 evs = Some T" and "T \<le> now"
  shows "\<exists>x'. runQuota z (SaveAccount t0 # evs) x = Inr x' \<and>
    (IsQuotaExceeded z now x' \<longleftrightarrow>
      0 < coalesce (qx_limit x) 0 \<and> coalesce (qx_limit x) 0 \<le> sum_list (map snd (charges [] evs)) \<or>
      0 < coalesce (qw_limit (qx_daily x)) 0 \<and> coalesce (qw_limit (qx_daily x)) 0 \<le>
        charged_since (lastFixedDailyReset (dailyHour x) tz now) (charges [] evs) \<or>
      0 < coalesce (qw_limit (qx_weekly x)) 0 \<and> coalesce (qw_limit (qx_weekly x)) 0 \<le>
        charged_since (lastFixedWeeklyReset (weeklyDay x) (weeklyHour x) tz now) (charges [] evs))"
proof -
  from first_save_ok [OF assms(1-3)] obtain x1 where x1: "saveExtra z t0 x = Inr x1" "quota_ok tz x t0 [] x1" by blast
  from runQuota_ok [OF assms(1) x1(2) assms(4)] obtain x'
    where x': "runQuota z evs x1 = Inr x'" "quota_ok tz x T (charges [] evs) x'" by blast
  have "runQuota z (SaveAccount t0 # evs) x = Inr x'" using x1(1) x'(1) by simp
  with exceeded_iff [OF assms(1) x'(2) assms(5)] show ?thesis by blast
qed

text \<open>An account in Shanghai with resets at 8 o'clock, on Mondays for the week.\<close>

definition shanghai :: Location where
  "shanghai = \<lparr>loc_wall = (\<lambda>t. t + 8 * hour), loc_instant = (\<lambda>w. w - 8 * hour)\<rparr>"

definition exZones :: zone_db where
  "exZones = \<lparr>zd_LoadLocation = (\<lambda>n. if n = ''Asia/Shanghai'' then Some shanghai else if n = ''UTC'' then Some UTC else None),
     zd_sql = (\<lambda>n. if n = ''Asia/Shanghai'' then Some shanghai else if n = ''UTC'' then Some UTC else None)\<rparr>"

definition exQuota :: quota_extra where
  "exQuota = \<lparr>qx_limit = Some 1000, qx_used = None,
     qx_daily = \<lparr>qw_limit = Some 10, qw_used = None, qw_start = None, qw_reset_mode = Some ''fixed'', qw_reset_hour = Some 8,
       qw_reset_at = None\<rparr>,
     qx_weekly = \<lparr>qw_limit = Some 50, qw_used = None, qw_start = None, qw_reset_mode = Some ''fixed'', qw_reset_hour = Some 8,
       qw_reset_at = None\<rparr>,
     qx_weekly_reset_day = Some 1, qx_timezone = Some ''Asia/Shanghai''\<rparr>"

lemma exQuota_config: "fixed_config exZones shanghai (8 * hour) exQuota" "unused_quota exQuota"
  by (simp_all add: fixed_config_def exQuota_def exZones_def ValidateQuotaResetConfig_def fixedMode_def shanghai_def
      GetQuotaResetTimezone_def fixed_offset_def unused_quota_def)

text \<open>Charged 6 in the hour before and 6 in the hour after a reset: the daily limit of 10 is not reached.\<close>

lemma quota_counts_charges_witness:
  "\<exists>x'. runQuota exZones [SaveAccount (1000 * hour), Charge (1007 * hour) 6, Charge (1009 * hour) 6] exQuota = Inr x' \<and>
     \<not> IsQuotaExceeded exZones (1010 * hour) x'"
proof -
  have "clock (1000 * hour) [Charge (1007 * hour) 6, Charge (1009 * hour) 6] = Some (1009 * hour)"
    "1009 * hour \<le> 1010 * hour" "0 \<le> 1000 * hour"
    by (simp_all add: hour_def)
  note q = quota_counts_charges [OF exQuota_config this(3,1,2)]
  have "lastFixedDailyReset 8 shanghai (1010 * hour) = 1008 * hour"
    "lastFixedWeeklyReset 1 8 shanghai (1010 * hour) = 936 * hour"
    by code_simp+
  with q show ?thesis
    by (simp add: exQuota_def dailyHour_def weeklyHour_def weeklyDay_def hour_def)
qed

definition unstarted_empty :: "quota_extra \<Rightarrow> bool" where
  "unstarted_empty x \<longleftrightarrow> (\<forall>w \<in> {qx_daily x, qx_weekly x}. qw_start w = None \<longrightarrow> coalesce (qw_used w) 0 = 0)"

lemma window_crossed:
  assumes "chargeWindow expired nxt now a w = Inr w'" and "0 < coalesce (qw_limit w) 0"
    and "\<not> (coalesce (qw_used w) 0 \<ge> coalesce (qw_limit w) 0 \<and> qw_start w' = qw_start w \<and> \<not> expired)"
    and "coalesce (qw_used w') 0 \<ge> coalesce (qw_limit w) 0"
    and "qw_start w = None \<longrightarrow> coalesce (qw_used w) 0 = 0"
  shows "crossed (coalesce (qw_limit w') 0) (coalesce (qw_used w') 0) a"
  using assms by (cases nxt; cases "qw_start w") (auto simp: chargeWindow_def crossed_def Let_def split: if_splits)

lemma chargeWindow_config: "chargeWindow expired nxt now a w = Inr w' \<Longrightarrow> window_config w' = window_config w"
  by (cases nxt) (auto simp: chargeWindow_def window_config_def Let_def split: if_splits)

lemma period_expired_cong:
  assumes "window_config (qx_daily x) = window_config (qx_daily y)" "window_config (qx_weekly x) = window_config (qx_weekly y)"
    and "qx_timezone x = qx_timezone y" and "qx_weekly_reset_day x = qx_weekly_reset_day y"
  shows "qw_start (qx_daily x) = qw_start (qx_daily y) \<Longrightarrow> IsDailyQuotaPeriodExpired z now x = IsDailyQuotaPeriodExpired z now y"
    and "qw_start (qx_weekly x) = qw_start (qx_weekly y) \<Longrightarrow> IsWeeklyQuotaPeriodExpired z now x = IsWeeklyQuotaPeriodExpired z now y"
  using assms by (simp_all add: window_config_def IsDailyQuotaPeriodExpired_def IsWeeklyQuotaPeriodExpired_def
      isFixedDailyPeriodExpired_def isFixedWeeklyPeriodExpired_def fixedMode_def quotaZone_def GetQuotaResetTimezone_def
      GetQuotaWeeklyResetDay_def Let_def)

text \<open>
  In a zone with a fixed offset the reset times written by the database are those the server computes:
  the next weekly reset is later than now, at most seven days away, and at the configured hour of the
  configured weekday by the wall clock; the next daily reset is at most a day away, at the configured hour.
\<close>

theorem next_resets_agree:
  assumes "fixed_config z tz off x"
  shows "nextWeeklyResetAtExpr tz now x = nextFixedWeeklyReset (weeklyDay x) (weeklyHour x) tz now \<and>
    now < nextWeeklyResetAtExpr tz now x \<and> nextWeeklyResetAtExpr tz now x \<le> now + 7 * day \<and>
    weekday (loc_wall tz (nextWeeklyResetAtExpr tz now x)) = weeklyDay x \<and>
    loc_wall tz (nextWeeklyResetAtExpr tz now x) mod day = weeklyHour x * hour \<and>
    nextDailyResetAtExpr tz now x = nextFixedDailyReset (dailyHour x) tz now \<and>
    now < nextDailyResetAtExpr tz now x \<and> nextDailyResetAtExpr tz now x \<le> now + day \<and>
    loc_wall tz (nextDailyResetAtExpr tz now x) mod day = dailyHour x * hour"
proof -
  from assms have fo: "fixed_offset tz off" by (simp add: fixed_config_def)
  note h = valid_hours [OF assms]
  note b = hour_in_day [OF h(1,2)] hour_in_day [OF h(3,4)]
  have d: "0 \<le> weeklyDay x" "weeklyDay x \<le> 6"
    using assms by (auto simp: fixed_config_def ValidateQuotaResetConfig_def Let_def weeklyDay_def coalesce_def split: option.splits if_splits)
  let ?q = "weeklyHour x * hour - off + (weeklyDay x - 4) * day" and ?p = "dailyHour x * hour - off"
  have W: "nextWeeklyResetAtExpr tz now x = gridLast (7 * day) ?q now + 7 * day"
    using nextWeeklyResetAtExpr_eq [OF fo, of x now] h(3,4) lastFixedWeeklyReset_grid(2) [OF fo h(3,4)]
    by (simp add: weeklyHour_def weeklyDay_def)
  have D: "nextDailyResetAtExpr tz now x = gridLast day ?p now + day"
    using nextDailyResetAtExpr_eq [OF fo, of now x] lastFixedDailyReset_grid(2) [OF fo h(1,2)] by (simp add: dailyHour_def)
  let ?j = "(now - ?q) div (7 * day)" and ?k = "(now - ?p) div day"
  have "gridLast (7 * day) ?q now + 7 * day + off = weeklyHour x * hour + (weeklyDay x + 3 + 7 * ?j) * day"
    by (simp add: gridLast_def distrib_right left_diff_distrib)
  then have w: "loc_wall tz (nextWeeklyResetAtExpr tz now x) = weeklyHour x * hour + (weeklyDay x + 3 + 7 * ?j) * day"
    by (simp add: W fixed_wall [OF fo])
  have "gridLast day ?p now + day + off = dailyHour x * hour + (?k + 1) * day"
    by (simp add: gridLast_def distrib_right)
  then have v: "loc_wall tz (nextDailyResetAtExpr tz now x) = dailyHour x * hour + (?k + 1) * day"
    by (simp add: D fixed_wall [OF fo])
  have "(weeklyHour x * hour + (weeklyDay x + 3 + 7 * ?j) * day) div day = weeklyDay x + 3 + 7 * ?j"
    using b(2) by (simp add: div_pos_pos_trivial)
  then have "weekday (loc_wall tz (nextWeeklyResetAtExpr tz now x)) = (weeklyDay x + 7 * (?j + 1)) mod 7"
    by (simp add: w weekday_def algebra_simps)
  also have "\<dots> = weeklyDay x" using d by (simp only: mod_mult_self2) simp
  finally have wd: "weekday (loc_wall tz (nextWeeklyResetAtExpr tz now x)) = weeklyDay x" .
  have "loc_wall tz (nextWeeklyResetAtExpr tz now x) mod day = weeklyHour x * hour"
    "loc_wall tz (nextDailyResetAtExpr tz now x) mod day = dailyHour x * hour"
    unfolding w v using b by (simp_all add: mod_pos_pos_trivial)
  then show ?thesis
    using wd gridLast_le [of "7 * day" ?q now] gridLast_near [of "7 * day" now ?q]
      gridLast_le [of day ?p now] gridLast_near [of day now ?p]
      lastFixedWeeklyReset_grid(2) [OF fo h(3,4), of "weeklyDay x" now] lastFixedDailyReset_grid(2) [OF fo h(1,2), of now]
    by (intro conjI) (simp_all add: W D)
qed

lemma next_resets_agree_witness:
  "weekday (loc_wall shanghai (nextWeeklyResetAtExpr shanghai (1010 * hour) exQuota)) = weeklyDay exQuota \<and>
   nextWeeklyResetAtExpr shanghai (1010 * hour) exQuota = 1104 * hour"
  using next_resets_agree [OF exQuota_config(1), of "1010 * hour"] by simp code_simp

text \<open>Saving, charging and resetting leave no usage in a window that has not started.\<close>

lemma unstarted_empty_kept:
  "unstarted_empty x \<Longrightarrow> chargeExtra z now a x = Inr x' \<Longrightarrow> unstarted_empty x'"
  "unstarted_empty x \<Longrightarrow> saveExtra z now x = Inr x' \<Longrightarrow> unstarted_empty x'"
  "unstarted_empty (resetExtra x)"
proof -
  have c: "qw_start w' = None \<longrightarrow> coalesce (qw_used w') 0 = 0"
    if "chargeWindow e n t b w = Inr w'" "qw_start w = None \<longrightarrow> coalesce (qw_used w) 0 = 0" for e n t b w w'
    using that by (cases n) (auto simp: chargeWindow_def Let_def split: if_splits)
  show "unstarted_empty x \<Longrightarrow> chargeExtra z now a x = Inr x' \<Longrightarrow> unstarted_empty x'"
    by (auto simp: chargeExtra_def unstarted_empty_def Let_def split: sum.splits dest: c)
  show "unstarted_empty x \<Longrightarrow> saveExtra z now x = Inr x' \<Longrightarrow> unstarted_empty x'"
    by (auto simp: saveExtra_def unstarted_empty_def NormalizeFixedQuotaWindows_def ComputeQuotaResetAt_def normalizeWindow_def
        fixedMode_def Let_def split: option.splits if_splits)
  show "unstarted_empty (resetExtra x)" by (simp add: unstarted_empty_def resetExtra_def Let_def)
qed

text \<open>Whatever the reset modes, zones and clock: a charge that takes an account from within its quota to beyond it crosses a limit.\<close>

lemma exceeded_is_crossed:
  assumes c: "chargeExtra z now a x = Inr x'" and u: "unstarted_empty x"
    and before: "\<not> IsQuotaExceeded z now x" and later: "IsQuotaExceeded z now x'"
  shows "crossedAny (quotaState x') a"
proof -
  from c obtain nd nw dw ww where d: "chargeWindow (dailyExpiredExpr now (qx_daily x)) nd now a (qx_daily x) = Inr dw"
    and w: "chargeWindow (weeklyExpiredExpr now (qx_weekly x)) nw now a (qx_weekly x) = Inr ww"
    and x': "x' = x\<lparr>qx_used := Some (coalesce (qx_used x) 0 + a), qx_daily := dw, qx_weekly := ww\<rparr>"
    by (auto simp: chargeExtra_def Let_def split: sum.splits)
  note cfg = chargeWindow_config [OF d] chargeWindow_config [OF w]
  have same: "qw_start dw = qw_start (qx_daily x) \<Longrightarrow> IsDailyQuotaPeriodExpired z now x' = IsDailyQuotaPeriodExpired z now x"
    "qw_start ww = qw_start (qx_weekly x) \<Longrightarrow> IsWeeklyQuotaPeriodExpired z now x' = IsWeeklyQuotaPeriodExpired z now x"
    by (rule period_expired_cong; simp add: x' cfg)+
  have lim: "qw_limit dw = qw_limit (qx_daily x)" "qw_limit ww = qw_limit (qx_weekly x)"
    using cfg by (simp_all add: window_config_def)
  from later consider
      "0 < coalesce (qx_limit x) 0" "coalesce (qx_limit x) 0 \<le> coalesce (qx_used x) 0 + a"
    | "0 < coalesce (qw_limit (qx_daily x)) 0" "\<not> IsDailyQuotaPeriodExpired z now x'"
        "coalesce (qw_limit (qx_daily x)) 0 \<le> coalesce (qw_used dw) 0"
    | "0 < coalesce (qw_limit (qx_weekly x)) 0" "\<not> IsWeeklyQuotaPeriodExpired z now x'"
        "coalesce (qw_limit (qx_weekly x)) 0 \<le> coalesce (qw_used ww) 0"
    by (auto simp: IsQuotaExceeded_def x' lim split: if_splits)
  then show ?thesis
  proof cases
    case 1
    with before show ?thesis by (auto simp: crossedAny_def crossed_def quotaState_def x' IsQuotaExceeded_def split: if_splits)
  next
    case 2
    with before same(1) u have "crossed (coalesce (qw_limit dw) 0) (coalesce (qw_used dw) 0) a"
      by (intro window_crossed [OF d]) (auto simp: IsQuotaExceeded_def unstarted_empty_def split: if_splits)
    then show ?thesis by (simp add: crossedAny_def quotaState_def x')
  next
    case 3
    with before same(2) u have "crossed (coalesce (qw_limit ww) 0) (coalesce (qw_used ww) 0) a"
      by (intro window_crossed [OF w]) (auto simp: IsQuotaExceeded_def unstarted_empty_def split: if_splits)
    then show ?thesis by (simp add: crossedAny_def quotaState_def x')
  qed
qed

end
