(* ===== verification/UsageBillingKeys.thy ===== *)
theory UsageBillingKeys
  imports UsageBillingProperties AccountQuotaProperties SubscriptionProperties
begin

section \<open>Answers, key quotas and key windows\<close>

text \<open>
  What a request for a charge is answered and when it writes, how the quota of an API key is exhausted, and
  what the three usage windows of a key count.
\<close>

subsection \<open>Answers\<close>

lemma effects_applied:
  assumes "applyUsageBillingEffects L now c (notApplied\<lparr>ar_Applied := True\<rparr>) db = Inr (x, db')"
  shows "ar_Applied x"
  using assms by (auto simp: applyUsageBillingEffects_def tx_bind_def tx_when_def tx_return_def
      split: sum.splits option.splits if_splits prod.splits)

lemma billingTx_known:
  assumes "distinct (map row_key (all_rows db))" and "r \<in> set (all_rows db)" and "row_key r = cmd_key c"
  shows "billingTx L now c db =
    ((if trim_space (dd_Fingerprint r) = trim_space (uc_RequestFingerprint c) then Inr notApplied
      else Inl ErrUsageBillingRequestConflict), db)"
proof -
  have same: "r' = r" if "r' \<in> set (all_rows db)" "row_key r' = cmd_key c" for r'
    using that assms by (auto simp: distinct_map inj_on_def)
  have "dedupFind (uc_RequestID c) (uc_APIKeyID c) (bd_dedup db) = Some r \<or>
    dedupFind (uc_RequestID c) (uc_APIKeyID c) (bd_dedup db) = None \<and>
    dedupFind (uc_RequestID c) (uc_APIKeyID c) (bd_archive db) = Some r"
  proof (cases "dedupFind (uc_RequestID c) (uc_APIKeyID c) (bd_dedup db)")
    case None
    then have "r \<in> set (bd_archive db)" using assms(2,3) by (auto simp: dedupFind_None all_rows_def cmd_key_def)
    then obtain r' where "dedupFind (uc_RequestID c) (uc_APIKeyID c) (bd_archive db) = Some r'"
      using assms(3) dedupFind_None by (metis cmd_key_def not_Some_eq)
    with None same dedupFind_Some show ?thesis by (force simp: all_rows_def cmd_key_def)
  next
    case (Some r')
    with same dedupFind_Some show ?thesis by (force simp: all_rows_def cmd_key_def)
  qed
  then show ?thesis by (auto simp: billingTx_def claimUsageBillingKey_def Let_def)
qed

text \<open>
  C19: What the caller is told is what happened, also when the transaction is refused or its reply is lost.  A request
  without an id is refused and writes nothing.  A key that is already in the table or the archive writes
  nothing, and without a fault is answered "not applied" if the fingerprints agree and with the conflict
  error if they do not.  Whenever the database changes, the key was free, is held afterwards and the command
  is committed.  An answer says "applied" exactly if the database changed; an error means that it did
  not, unless the reply of the commit was lost.
\<close>

theorem billing_answer_is_true:
  assumes "distinct (map row_key (all_rows db))" and "Normalize L c0 = c"
    and "run_flow (if uc_RequestID c = [] then [] else [e]) (Apply L (Some c0) (\<lambda>res. Done (Billed res))) db = (Done (Billed res), db')"
  shows "(uc_RequestID c = [] \<longrightarrow> res = Inl ErrUsageBillingRequestIDRequired \<and> db' = db) \<and>
    (\<forall>r \<in> set (all_rows db). row_key r = cmd_key c \<longrightarrow> uc_RequestID c \<noteq> [] \<longrightarrow> db' = db \<and>
       (be_fault e = NoFault \<longrightarrow>
          res = (if trim_space (dd_Fingerprint r) = trim_space (uc_RequestFingerprint c) then Inr notApplied
                 else Inl ErrUsageBillingRequestConflict))) \<and>
    (db' = db \<or> cmd_key c \<notin> row_key ` set (all_rows db) \<and> cmd_key c \<in> row_key ` set (all_rows db') \<and>
       bd_log db' = bd_log db @ [(be_now e, c)]) \<and>
    (case res of Inr x \<Rightarrow> ar_Applied x \<longleftrightarrow> db' \<noteq> db | Inl err \<Rightarrow> db' = db \<or> (\<exists>lost. be_fault e = LostReply lost))"
proof (cases "uc_RequestID c = []")
  case True
  with assms show ?thesis by (auto simp: Apply_def)
next
  case False
  let ?tx = "billingTx L (be_now e) c db"
  have run: "case be_fault e of NoFault \<Rightarrow> res = fst ?tx \<and> db' = snd ?tx
    | Refused err \<Rightarrow> res = Inl err \<and> db' = db | LostReply err \<Rightarrow> res = Inl err \<and> db' = snd ?tx"
    using assms(2,3) False by (auto simp: Apply_def faulty_def split: prod.splits sum.splits fault.splits)
  show ?thesis
  proof (cases rule: billingTx_cases [of L "be_now e" c db])
    case unchanged
    with run billingTx_known [OF assms(1)] False show ?thesis
      by (auto split: sum.split fault.splits)
  next
    case (applied x db2)
    have "cmd_key c \<notin> row_key ` set (all_rows db)" using applied(3) by auto
    moreover have "cmd_key c \<in> row_key ` set (all_rows (snd ?tx))" "bd_log (snd ?tx) = bd_log db @ [(be_now e, c)]"
      using applied(4) by (auto simp: all_rows_def cmd_key_def row_key_def)
    moreover from this(2) have "snd ?tx \<noteq> db" by force
    ultimately show ?thesis using run applied(1,3) effects_applied [OF applied(2)] False
      by (auto split: fault.splits)
  qed
qed

definition exKnownDB :: billing_db where
  "exKnownDB = exBillDB\<lparr>bd_dedup := [\<lparr>dd_RequestID = ''a'', dd_APIKeyID = 5, dd_Fingerprint = ''g'', dd_CreatedAt = 10\<rparr>]\<rparr>"

lemma billing_answer_is_true_witness:
  "\<exists>db'. run_flow [exBillEnv 70 NoFault] (Apply exLib (Some (exCmd ''a'' 2)) (\<lambda>res. Done (Billed res))) exKnownDB =
     (Done (Billed (Inl ErrUsageBillingRequestConflict)), db') \<and> db' = exKnownDB"
proof -
  let ?run = "run_flow [exBillEnv 70 NoFault] (Apply exLib (Some (exCmd ''a'' 2)) (\<lambda>res. Done (Billed res))) exKnownDB"
  have str: "trim_space ''a'' = ''a''" "trim_space ''f'' = ''f''" "trim_space ''g'' = ''g''" by code_simp+
  have norm: "Normalize exLib (exCmd ''a'' 2) = exCmd ''a'' 2"
    by (simp add: Normalize_def exCmd_def Let_def str)
  let ?r = "\<lparr>dd_RequestID = ''a'', dd_APIKeyID = 5, dd_Fingerprint = ''g'', dd_CreatedAt = 10\<rparr>"
  have known: "all_rows exKnownDB = [?r]" "row_key ?r = cmd_key (exCmd ''a'' 2)" "uc_RequestID (exCmd ''a'' 2) = ''a''"
    "uc_RequestFingerprint (exCmd ''a'' 2) = ''f''" "be_fault (exBillEnv 70 NoFault) = NoFault"
    by (simp_all add: exKnownDB_def exBillDB_def all_rows_def exCmd_def row_key_def cmd_key_def exBillEnv_def)
  obtain res db' where run: "?run = (Done (Billed res), db')"
    by (cases "billingTx exLib 70 (exCmd ''a'' 2) exKnownDB") (simp add: exApply faulty_def exBillEnv_def)
  note answer = billing_answer_is_true [OF _ norm, of exKnownDB "exBillEnv 70 NoFault" res db']
  have "res = Inl ErrUsageBillingRequestConflict \<and> db' = exKnownDB" using answer run known(2,5) by (simp add: known(1,3,4) str)
  with run show ?thesis by simp
qed

subsection \<open>The scheduler\<close>


lemma find_updateFirst: "(\<And>r. p r \<Longrightarrow> p (f r)) \<Longrightarrow> List.find p (updateFirst p f rs) = map_option f (List.find p rs)"
  by (induction rs) (auto simp: updateFirst_def)











subsection \<open>The quota of a key\<close>

lemma rounded_add: "dec_round d x = x \<Longrightarrow> dec_round d y = y \<Longrightarrow> dec_round d (x + y) = x + y"
proof -
  have int: "\<exists>v. dec_round d z = of_int v / 10 ^ d" for z
    unfolding dec_round_def away_def by (metis of_int_minus)
  assume "dec_round d x = x" "dec_round d y = y"
  then obtain v w where "x = of_int v / 10 ^ d" "y = of_int w / 10 ^ d" using int [of x] int [of y] by metis
  then have "x + y = of_int (v + w) / 10 ^ d" by (simp add: add_divide_distrib)
  then show ?thesis using dec_round_fraction [of d "v + w"] by simp
qed

definition hasKey :: "int \<Rightarrow> bill_key \<Rightarrow> bool" where
  "hasKey i k \<longleftrightarrow> bk_ID k = i \<and> \<not> bk_Deleted k"

definition findKey :: "int \<Rightarrow> billing_db \<Rightarrow> bill_key option" where
  "findKey i db = List.find (hasKey i) (bd_keys db)"

lemma hasKey_fun: "hasKey i = (\<lambda>k. bk_ID k = i \<and> \<not> bk_Deleted k)"
  by (simp add: hasKey_def fun_eq_iff)

lemma incrementQuota_key:
  "incrementUsageBillingAPIKeyQuota i a db =
     (case findKey i db of None \<Rightarrow> Inl ErrAPIKeyNotFound
      | Some k \<Rightarrow> Inr (keyExhausted a (chargeKeyQuota a k), db\<lparr>bd_keys := updateFirst (hasKey i) (chargeKeyQuota a) (bd_keys db)\<rparr>))"
  by (simp add: incrementUsageBillingAPIKeyQuota_def findKey_def hasKey_fun [symmetric] Let_def)

lemma findKey_charge:
  "findKey i (db\<lparr>bd_keys := updateFirst (hasKey i) (chargeKeyQuota a) (bd_keys db)\<rparr>) = map_option (chargeKeyQuota a) (findKey i db)"
  by (simp add: findKey_def) (rule find_updateFirst, simp add: chargeKeyQuota_def hasKey_def)

text \<open>Charges in a row, and the answers whether the quota ran out.\<close>

primrec chargeQuotas :: "int \<Rightarrow> rat list \<Rightarrow> bool list tx" where
  "chargeQuotas i [] = tx_return []"
| "chargeQuotas i (a # as) = tx_bind (incrementUsageBillingAPIKeyQuota i a)
     (\<lambda>r. tx_bind (chargeQuotas i as) (\<lambda>rs. tx_return (r # rs)))"

text \<open>
  An API key runs out of its quota once.  Whatever amounts of eight decimals it is charged in a row,
  the used quota is their sum, the status becomes "quota_exhausted" when the used quota reaches the quota and not
  before, and exactly one of the charges, the one that reaches it, is reported as exhausting the key.
\<close>

theorem key_exhausts_once:
  assumes "findKey i db = Some k" and "0 < bk_Quota k" and "bk_QuotaUsed k < bk_Quota k" and "bk_Status k = StatusAPIKeyActive"
    and "dec_round 8 (bk_QuotaUsed k) = bk_QuotaUsed k" and "\<forall>a \<in> set as. 0 < a \<and> dec_round 8 a = a"
  shows "\<exists>reports db' k'. chargeQuotas i as db = Inr (reports, db') \<and> findKey i db' = Some k' \<and>
    bk_Quota k' = bk_Quota k \<and> bk_QuotaUsed k' = bk_QuotaUsed k + sum_list as \<and>
    bk_Status k' = (if bk_QuotaUsed k' < bk_Quota k' then StatusAPIKeyActive else StatusAPIKeyQuotaExhausted) \<and>
    length (filter (\<lambda>r. r) reports) = (if bk_QuotaUsed k' < bk_Quota k' then 0 else 1)"
proof -
  have "\<exists>reports db' k'. chargeQuotas i as db = Inr (reports, db') \<and> findKey i db' = Some k' \<and>
    bk_Quota k' = bk_Quota k \<and> bk_QuotaUsed k' = bk_QuotaUsed k + sum_list as \<and>
    bk_Status k' = (if bk_QuotaUsed k' < bk_Quota k' then StatusAPIKeyActive else StatusAPIKeyQuotaExhausted) \<and>
    length (filter (\<lambda>r. r) reports) = (if bk_QuotaUsed k < bk_Quota k \<and> bk_Quota k \<le> bk_QuotaUsed k' then 1 else 0)"
    if "findKey i db = Some k" "bk_Status k = (if bk_QuotaUsed k < bk_Quota k then StatusAPIKeyActive else StatusAPIKeyQuotaExhausted)"
      "dec_round 8 (bk_QuotaUsed k) = bk_QuotaUsed k" "0 < bk_Quota k" for db k
    using that assms(6)
  proof (induction as arbitrary: db k)
    case (Cons a as)
    let ?k = "chargeKeyQuota a k"
    let ?db = "db\<lparr>bd_keys := updateFirst (hasKey i) (chargeKeyQuota a) (bd_keys db)\<rparr>"
    have a: "0 < a" "dec_round 8 (bk_QuotaUsed k + a) = bk_QuotaUsed k + a"
      using Cons.prems(3,5) by (auto intro: rounded_add)
    have find: "findKey i ?db = Some ?k" by (simp add: findKey_charge Cons.prems(1))
    have k: "bk_QuotaUsed ?k = bk_QuotaUsed k + a" "bk_Quota ?k = bk_Quota k" by (simp_all add: chargeKeyQuota_def a)
    have st: "bk_Status ?k = (if bk_QuotaUsed ?k < bk_Quota ?k then StatusAPIKeyActive else StatusAPIKeyQuotaExhausted)"
      using Cons.prems(2,4) a(1) unfolding k by (auto simp: chargeKeyQuota_def StatusAPIKeyActive_def StatusAPIKeyQuotaExhausted_def)
    have grid: "dec_round 8 (bk_QuotaUsed ?k) = bk_QuotaUsed ?k" "0 < bk_Quota ?k" using a(2) Cons.prems(4) k by simp_all
    have "\<forall>a \<in> set as. 0 < a \<and> dec_round 8 a = a" using Cons.prems(5) by simp
    from Cons.IH [OF find st grid this, unfolded k] obtain rs db' k' where ih:
      "chargeQuotas i as ?db = Inr (rs, db')" "findKey i db' = Some k'"
      "bk_Quota k' = bk_Quota k" "bk_QuotaUsed k' = bk_QuotaUsed k + a + sum_list as"
      "bk_Status k' = (if bk_QuotaUsed k' < bk_Quota k' then StatusAPIKeyActive else StatusAPIKeyQuotaExhausted)"
      "length (filter (\<lambda>r. r) rs) = (if bk_QuotaUsed k + a < bk_Quota k \<and> bk_Quota k \<le> bk_QuotaUsed k' then 1 else 0)"
      by (elim exE conjE) (rule that)
    have "0 \<le> sum_list as" using Cons.prems(5) by (intro sum_list_nonneg) auto
    with ih(4) a(1) have "bk_QuotaUsed k + a \<le> bk_QuotaUsed k'" by simp
    moreover have "keyExhausted a ?k \<longleftrightarrow> bk_QuotaUsed k < bk_Quota k \<and> bk_Quota k \<le> bk_QuotaUsed k + a"
      using Cons.prems(4) by (auto simp: keyExhausted_def k)
    ultimately show ?case using ih a(1) Cons.prems(1)
      by (auto simp: incrementQuota_key tx_bind_def tx_return_def add.assoc)
  qed (simp add: tx_return_def)
  from this [OF assms(1) _ assms(5,2)] assms(3,4) obtain reports db' k' where
    "chargeQuotas i as db = Inr (reports, db')" "findKey i db' = Some k'" "bk_Quota k' = bk_Quota k"
    "bk_QuotaUsed k' = bk_QuotaUsed k + sum_list as"
    "bk_Status k' = (if bk_QuotaUsed k' < bk_Quota k' then StatusAPIKeyActive else StatusAPIKeyQuotaExhausted)"
    "length (filter (\<lambda>r. r) reports) = (if bk_Quota k \<le> bk_QuotaUsed k' then 1 else 0)" by auto
  then show ?thesis by (intro exI [of _ reports] exI [of _ db'] exI [of _ k']) auto
qed

lemma key_exhausts_once_witness:
  "\<exists>reports db'. chargeQuotas 5 [2, 1, 1] exBillDB = Inr (reports, db') \<and> length (filter (\<lambda>r. r) reports) = 1"
proof -
  have "findKey 5 exBillDB = Some exKey" by (simp add: findKey_def exBillDB_def hasKey_def exKey_def)
  moreover have "\<forall>a \<in> set [2, 1, 1 :: rat]. 0 < a \<and> dec_round 8 a = a" by code_simp
  moreover have "dec_round 8 (0::rat) = 0" by code_simp
  ultimately show ?thesis
    using key_exhausts_once [of 5 exBillDB exKey "[2, 1, 1]"] by (auto simp: exKey_def)
qed

text \<open>A key whose charge is rounded up to the quota: it is exhausted, and stays active for good.\<close>

definition almostSpent :: bill_key where
  "almostSpent = exKey\<lparr>bk_Quota := 1, bk_QuotaUsed := 99999999 / 100000000\<rparr>"

lemma charge_spent:
  assumes "bk_Quota k = 1" and "1 \<le> bk_QuotaUsed k"
  shows "bk_Status (foldl (\<lambda>k a. chargeKeyQuota \<bar>a\<bar> k) k as) = bk_Status k"
  using assms
proof (induction as arbitrary: k)
  case (Cons a as)
  have "dec_round 8 1 \<le> dec_round 8 (bk_QuotaUsed k + \<bar>a\<bar>)" using Cons.prems(2) by (intro dec_round_mono) auto
  moreover have "dec_round 8 (1::rat) = 1" by code_simp
  ultimately have "1 \<le> dec_round 8 (bk_QuotaUsed k + \<bar>a\<bar>)" by simp
  with Cons.IH [of "chargeKeyQuota \<bar>a\<bar> k"] Cons.prems show ?case by (simp add: chargeKeyQuota_def)
qed simp

text \<open>
  The status compares the sum before it is rounded: an amount of more than eight decimals that is
  rounded up to the quota exhausts the key and is reported, but leaves the status "active", and no later
  charge changes it.
\<close>

theorem rounding_skips_exhaustion:
  "let k = chargeKeyQuota (6 / 1000000000) almostSpent
   in keyExhausted (6 / 1000000000) k \<and> bk_QuotaUsed k = bk_Quota k \<and>
      (\<forall>as. bk_Status (foldl (\<lambda>k a. chargeKeyQuota \<bar>a\<bar> k) k as) = StatusAPIKeyActive)"
proof -
  let ?k = "chargeKeyQuota (6 / 1000000000) almostSpent"
  have k: "keyExhausted (6 / 1000000000) ?k" "bk_QuotaUsed ?k = 1" "bk_Quota ?k = 1" "bk_Status ?k = StatusAPIKeyActive"
    by code_simp+
  with charge_spent [of ?k] show ?thesis unfolding Let_def by simp
qed

subsection \<open>The windows of a key\<close>

text \<open>Charges of the windows at given times, by a clock that does not run backwards.\<close>

definition chargeWindows :: "calendar \<Rightarrow> (int \<times> rat) list \<Rightarrow> bill_key \<Rightarrow> bill_key" where
  "chargeWindows cal cs k = foldl (\<lambda>k (now, cost). chargeKeyWindows cal now cost k) k cs"

definition counted :: "int option \<Rightarrow> (int \<times> rat) list \<Rightarrow> rat" where
  "counted start cs = sum_list (map snd (filter (\<lambda>(t, c). case start of None \<Rightarrow> False | Some s \<Rightarrow> s \<le> t) cs))"

definition window_counts :: "int \<Rightarrow> (int \<Rightarrow> int) \<Rightarrow> (int \<times> rat) list \<Rightarrow> int option \<Rightarrow> rat \<Rightarrow> bool" where
  "window_counts len fresh cs start used \<longleftrightarrow> used = counted start cs \<and> dec_round 8 used = used \<and>
     (if cs = [] then start = None
      else \<exists>s t. start = Some s \<and> s = fresh t \<and> fst (List.last cs) < s + len \<and> s \<le> fst (List.last cs))"

lemma window_counts_charge:
  assumes "window_counts len fresh cs start used" and "sorted (map fst (cs @ [(now, c)]))" and "dec_round 8 c = c"
    and fresh: "\<And>t. fresh t \<le> t" "\<And>t. t < fresh t + len" "\<And>s t. fresh s + len \<le> t \<Longrightarrow> fresh s + len \<le> fresh t"
  shows "window_counts len fresh (cs @ [(now, c)])
    (if start = None \<or> windowOver now len start then Some (fresh now) else start)
    (dec_round 8 (if windowOver now len start then c else used + c))"
proof (cases "cs = []")
  case True
  with assms show ?thesis by (auto simp: window_counts_def counted_def windowOver_def)
next
  case False
  have lt: "fst x \<le> fst (List.last cs)" if "x \<in> set cs" for x
    using assms(2) that False by (cases cs rule: rev_cases) (auto simp: sorted_append)
  have now: "fst (List.last cs) \<le> now" using assms(2) False by (auto simp: sorted_append)
  from assms(1) False obtain s t where s: "start = Some s" "s = fresh t" "fst (List.last cs) < s + len" "s \<le> fst (List.last cs)"
    and u: "used = counted start cs" "dec_round 8 used = used" by (auto simp: window_counts_def)
  show ?thesis
  proof (cases "s + len \<le> now")
    case True
    have "s + len \<le> fresh now" using fresh(3) True s(2) by simp
    with lt s(3) have "filter (\<lambda>(t, c). fresh now \<le> t) cs = []" by (force simp: filter_empty_conv)
    with True s assms(3) fresh(1) fresh(2) [of now] show ?thesis
      by (auto simp: window_counts_def windowOver_def counted_def)
  next
    case False
    with s now u assms(3) rounded_add [OF u(2) assms(3)] show ?thesis
      by (auto simp: window_counts_def windowOver_def counted_def)
  qed
qed

lemma chargeWindows_snoc: "chargeWindows cal (cs @ [(now, c)]) k = chargeKeyWindows cal now c (chargeWindows cal cs k)"
  by (simp add: chargeWindows_def)

lemma utc_midnight: "start_of_day utc t = gridLast (24 * hour) 0 t"
  by (simp add: utc_def gridLast_def minus_mod_eq_div_mult [symmetric])

lemma utc_midnights: "start_of_day utc t \<le> t" "t < start_of_day utc t + 24 * hour" "t < start_of_day utc t + 7 * 24 * hour"
  "start_of_day utc s + 24 * hour \<le> t \<Longrightarrow> start_of_day utc s + 24 * hour \<le> start_of_day utc t"
  "start_of_day utc s + 7 * 24 * hour \<le> t \<Longrightarrow> start_of_day utc s + 7 * 24 * hour \<le> start_of_day utc t"
proof -
  have p: "0 < 24 * hour" by (simp add: hour_def)
  show "start_of_day utc t \<le> t" and t: "t < start_of_day utc t + 24 * hour"
    using gridLast_le [OF p] gridLast_near [OF p] by (simp_all add: utc_midnight)
  show "t < start_of_day utc t + 7 * 24 * hour" using t p by linarith
  have grid: "start_of_day utc s = 0 + (s div (24 * hour)) * (24 * hour)" by (simp add: utc_midnight gridLast_def)
  have step: "start_of_day utc s + n * (24 * hour) \<le> start_of_day utc t"
    if "start_of_day utc s + n * (24 * hour) \<le> t" for n
    using gridLast_greatest [OF p, of 0 "s div (24 * hour) + n" t] that
    by (simp add: grid utc_midnight [of t] distrib_right)
  from step [of 1] show "start_of_day utc s + 24 * hour \<le> t \<Longrightarrow> start_of_day utc s + 24 * hour \<le> start_of_day utc t" by simp
  from step [of 7] show "start_of_day utc s + 7 * 24 * hour \<le> t \<Longrightarrow> start_of_day utc s + 7 * 24 * hour \<le> start_of_day utc t" by simp
qed

text \<open>
  With the calendar of UTC, the three usage windows of a fresh API key count every charge of eight decimals once: each
  usage is the sum of the charges since the start of its window, no charge of the window is older than the
  window is long, and every window that has a charge has a start: the time of a charge for the five hours,
  a midnight for the day and the week.
\<close>

theorem key_windows_count:
  assumes "bk_Window5hStart k = None" and "bk_Window1dStart k = None" and "bk_Window7dStart k = None"
    and "bk_Usage5h k = 0" and "bk_Usage1d k = 0" and "bk_Usage7d k = 0"
    and "sorted (map fst cs)" and "\<forall>(t, c) \<in> set cs. dec_round 8 c = c"
  shows "let k' = chargeWindows utc cs k
    in window_counts (5 * hour) (\<lambda>t. t) cs (bk_Window5hStart k') (bk_Usage5h k') \<and>
       window_counts (24 * hour) (start_of_day utc) cs (bk_Window1dStart k') (bk_Usage1d k') \<and>
       window_counts (7 * 24 * hour) (start_of_day utc) cs (bk_Window7dStart k') (bk_Usage7d k')"
  using assms(7,8)
proof (induction cs rule: rev_induct)
  case Nil
  have "dec_round 8 (0::rat) = 0" by code_simp
  with assms(1-6) show ?case by (simp add: chargeWindows_def window_counts_def counted_def)
next
  case (snoc x cs)
  obtain now c where x: "x = (now, c)" by (cases x)
  have c: "dec_round 8 c = c" "sorted (map fst cs)" using snoc.prems by (auto simp: x sorted_append)
  have ih: "window_counts (5 * hour) (\<lambda>t. t) cs (bk_Window5hStart (chargeWindows utc cs k)) (bk_Usage5h (chargeWindows utc cs k))"
    "window_counts (24 * hour) (start_of_day utc) cs (bk_Window1dStart (chargeWindows utc cs k)) (bk_Usage1d (chargeWindows utc cs k))"
    "window_counts (7 * 24 * hour) (start_of_day utc) cs (bk_Window7dStart (chargeWindows utc cs k)) (bk_Usage7d (chargeWindows utc cs k))"
    using snoc.IH c(2) snoc.prems(2) by (auto simp: Let_def)
  have h: "0 < hour" by (simp add: hour_def)
  note step = window_counts_charge [OF _ snoc.prems(1) [unfolded x] c(1)]
  show ?case
    using step [OF ih(1)] step [OF ih(2)] step [OF ih(3)] h utc_midnights
    by (simp add: chargeWindows_snoc chargeKeyWindows_def Let_def x)
qed

lemma key_windows_count_witness:
  "let k' = chargeWindows utc [(5, 1), (4 * hour, 2), (6 * hour, 1 / 4), (30 * hour, 1 / 2)] exKey
   in bk_Usage5h k' = counted (bk_Window5hStart k') [(5, 1), (4 * hour, 2), (6 * hour, 1 / 4), (30 * hour, 1 / 2)]"
proof -
  have r: "dec_round 8 (1::rat) = 1" "dec_round 8 (2::rat) = 2" "dec_round 8 (1 / 4 :: rat) = 1 / 4"
    "dec_round 8 (1 / 2 :: rat) = 1 / 2" by code_simp+
  show ?thesis
    using key_windows_count [of exKey "[(5, 1), (4 * hour, 2), (6 * hour, 1 / 4), (30 * hour, 1 / 2)]"]
    by (simp add: exKey_def r hour_def window_counts_def Let_def)
qed

text \<open>
  On a day of 25 hours the daily window no longer counts every charge: it starts at midnight and is over after
  24 hours, so every charge of the last hour starts it afresh at the same midnight.  Here two dollars of
  three charges on one day are not counted.
\<close>

theorem long_day_forgets_charges:
  "let k' = chargeWindows longDay [(10 * hour, 1), (24 * hour, 1), (24 * hour + 1, 1)] exKey
   in bk_Usage1d k' = 1 \<and> bk_Window1dStart k' = Some 0 \<and>
      counted (bk_Window1dStart k') [(10 * hour, 1), (24 * hour, 1), (24 * hour + 1, 1)] = 3"
proof -
  have "dec_round 8 (1::rat) = 1" "dec_round 8 (2::rat) = 2" "dec_round 8 (3::rat) = 3" by code_simp+
  then show ?thesis
    by (simp add: chargeWindows_def chargeKeyWindows_def windowOver_def longDay_def utc_def hour_def exKey_def counted_def Let_def)
qed

end
