(* ===== verification/ChannelPricing.thy ===== *)
theory ChannelPricing
  imports Complex_Main AppErrors "HOL-Library.Product_Lexorder" "HOL-Library.List_Lexorder" "HOL-Library.Char_ord"
begin

section \<open>Channels: prices of models\<close>

text \<open>
  \<open>service/channel.go\<close> and the validation of \<open>service/channel_service.go\<close>: what a channel is, which model
  names and patterns its price list has, the price intervals of an entry, when a configuration is accepted
  and which models a channel supports.

  A Go map is a list of key-value pairs in the order in which it is iterated, which is arbitrary.
  Prices are exact rationals.
\<close>

text \<open>
  \<open>strings.ToLower\<close> as far as it gives ASCII: the ASCII letters, and U+0130 and U+212A, the two other code
  points whose lower case is an ASCII letter.  Other code points stay as they are.
\<close>

fun to_lower :: "string \<Rightarrow> string" where
  "to_lower [] = []"
| "to_lower (c # s) =
     (if c = CHR 0xC4 \<and> s \<noteq> [] \<and> hd s = CHR 0xB0 then CHR ''i'' # to_lower (tl s)
      else if c = CHR 0xE2 \<and> s \<noteq> [] \<and> hd s = CHR 0x84 \<and> tl s \<noteq> [] \<and> hd (tl s) = CHR 0xAA
      then CHR ''k'' # to_lower (tl (tl s))
      else ascii_lower c # to_lower s)"

subsection \<open>Data\<close>

definition BillingModeToken :: string where "BillingModeToken = ''token''"
definition BillingModePerRequest :: string where "BillingModePerRequest = ''per_request''"
definition BillingModeImage :: string where "BillingModeImage = ''image''"

definition IsValidBillingMode :: "string \<Rightarrow> bool" where
  "IsValidBillingMode m \<longleftrightarrow> m = BillingModeToken \<or> m = BillingModePerRequest \<or> m = BillingModeImage \<or> m = ''''"

definition BillingModelSourceRequested :: string where "BillingModelSourceRequested = ''requested''"
definition BillingModelSourceUpstream :: string where "BillingModelSourceUpstream = ''upstream''"
definition BillingModelSourceChannelMapped :: string where "BillingModelSourceChannelMapped = ''channel_mapped''"

definition ChannelStatusActive :: string where "ChannelStatusActive = ''active''"

record PricingInterval =
  pv_MinTokens :: int
  pv_MaxTokens :: "int option"
  pv_TierLabel :: string
  pv_InputPrice :: "rat option"
  pv_OutputPrice :: "rat option"
  pv_CacheWritePrice :: "rat option"
  pv_CacheReadPrice :: "rat option"
  pv_PerRequestPrice :: "rat option"
  pv_SortOrder :: int

record ChannelModelPricing =
  cm_Platform :: string
  cm_Models :: "string list"
  cm_BillingMode :: string
  cm_InputPrice :: "rat option"
  cm_OutputPrice :: "rat option"
  cm_CacheWritePrice :: "rat option"
  cm_CacheReadPrice :: "rat option"
  cm_ImageOutputPrice :: "rat option"
  cm_PerRequestPrice :: "rat option"
  cm_Intervals :: "PricingInterval list"

text \<open>A row of the table of channels, and the channel with its groups and prices.\<close>

record channel_row =
  ch_ID :: int
  ch_Name :: string
  ch_Description :: string
  ch_Status :: string
  ch_BillingModelSource :: string
  ch_RestrictModels :: bool
  ch_ModelMapping :: "(string \<times> (string \<times> string) list) list"

record Channel = channel_row +
  ch_GroupIDs :: "int list"
  ch_ModelPricing :: "ChannelModelPricing list"

definition IsActiveChannel :: "'a channel_row_scheme \<Rightarrow> bool" where
  "IsActiveChannel c \<longleftrightarrow> ch_Status c = ChannelStatusActive"

definition normalizeBillingModelSource :: "'a channel_row_scheme \<Rightarrow> 'a channel_row_scheme" where
  "normalizeBillingModelSource c =
     (if ch_BillingModelSource c = '''' then c\<lparr>ch_BillingModelSource := BillingModelSourceChannelMapped\<rparr> else c)"

subsection \<open>Looking up prices of an entry\<close>

definition covers :: "int \<Rightarrow> PricingInterval \<Rightarrow> bool" where
  "covers totalTokens iv \<longleftrightarrow> pv_MinTokens iv < totalTokens \<and>
     (case pv_MaxTokens iv of None \<Rightarrow> True | Some m \<Rightarrow> totalTokens \<le> m)"

definition FindMatchingInterval :: "PricingInterval list \<Rightarrow> int \<Rightarrow> PricingInterval option" where
  "FindMatchingInterval ivs totalTokens = List.find (covers totalTokens) ivs"

definition GetIntervalForContext :: "ChannelModelPricing \<Rightarrow> int \<Rightarrow> PricingInterval option" where
  "GetIntervalForContext p totalTokens = FindMatchingInterval (cm_Intervals p) totalTokens"

definition GetTierByLabel :: "ChannelModelPricing \<Rightarrow> string \<Rightarrow> PricingInterval option" where
  "GetTierByLabel p label = List.find (\<lambda>iv. to_lower (pv_TierLabel iv) = to_lower label) (cm_Intervals p)"

definition hasModel :: "string \<Rightarrow> ChannelModelPricing \<Rightarrow> bool" where
  "hasModel model p \<longleftrightarrow> list_ex (\<lambda>m. to_lower m = to_lower model) (cm_Models p)"

definition Channel_GetModelPricing :: "Channel \<Rightarrow> string \<Rightarrow> ChannelModelPricing option" where
  "Channel_GetModelPricing c model = List.find (hasModel model) (ch_ModelPricing c)"

definition GetModelPricingByPlatform :: "Channel \<Rightarrow> string \<Rightarrow> string \<Rightarrow> ChannelModelPricing option" where
  "GetModelPricingByPlatform c platform model =
     List.find (\<lambda>p. cm_Platform p = platform \<and> hasModel model p) (ch_ModelPricing c)"

subsection \<open>Validating intervals\<close>

definition formatMaxTokens :: "int option \<Rightarrow> string" where
  "formatMaxTokens m = (case m of None \<Rightarrow> [CHR 0xE2, CHR 0x88, CHR 0x9E] | Some n \<Rightarrow> itoa n)"

definition intervalErr :: "int \<Rightarrow> string \<Rightarrow> go_error" where
  "intervalErr idx msg = OtherError (''interval #'' @ itoa (idx + 1) @ '': '' @ msg) None"

definition negative :: "(string \<times> rat option) list \<Rightarrow> string option" where
  "negative prices = map_option fst (List.find (\<lambda>(n, v). case v of None \<Rightarrow> False | Some x \<Rightarrow> x < 0) prices)"

definition validateIntervalPrices :: "PricingInterval \<Rightarrow> int \<Rightarrow> go_error option" where
  "validateIntervalPrices iv idx =
     map_option (\<lambda>name. intervalErr idx (name @ '' must be >= 0''))
       (negative [(''input_price'', pv_InputPrice iv), (''output_price'', pv_OutputPrice iv),
         (''cache_write_price'', pv_CacheWritePrice iv), (''cache_read_price'', pv_CacheReadPrice iv),
         (''per_request_price'', pv_PerRequestPrice iv)])"

definition validateSingleInterval :: "PricingInterval \<Rightarrow> int \<Rightarrow> go_error option" where
  "validateSingleInterval iv idx =
     (let lo = pv_MinTokens iv
      in if lo < 0 then Some (intervalErr idx (''min_tokens ('' @ itoa lo @ '') must be >= 0''))
         else (case pv_MaxTokens iv of
           None \<Rightarrow> validateIntervalPrices iv idx
         | Some hi \<Rightarrow>
             if hi \<le> 0 then Some (intervalErr idx (''max_tokens ('' @ itoa hi @ '') must be > 0''))
             else if hi \<le> lo
             then Some (intervalErr idx (''max_tokens ('' @ itoa hi @ '') must be > min_tokens ('' @ itoa lo @ '')''))
             else validateIntervalPrices iv idx))"

fun validateEach :: "int \<Rightarrow> PricingInterval list \<Rightarrow> go_error option" where
  "validateEach i [] = None"
| "validateEach i (iv # ivs) =
     (case validateSingleInterval iv i of Some err \<Rightarrow> Some err | None \<Rightarrow> validateEach (i + 1) ivs)"

text \<open>The loop at index \<open>i\<close>, with the interval before it.\<close>

fun validateIntervalOverlap :: "int \<Rightarrow> PricingInterval option \<Rightarrow> PricingInterval list \<Rightarrow> go_error option" where
  "validateIntervalOverlap i prev [] = None"
| "validateIntervalOverlap i prev (iv # ivs) =
     (if pv_MaxTokens iv = None \<and> ivs \<noteq> []
      then Some (intervalErr i ''unbounded interval (max_tokens=null) must be the last one'')
      else case prev of
        None \<Rightarrow> validateIntervalOverlap (i + 1) (Some iv) ivs
      | Some p \<Rightarrow>
          if (case pv_MaxTokens p of None \<Rightarrow> True | Some m \<Rightarrow> pv_MinTokens iv < m)
          then Some (OtherError (''interval #'' @ itoa i @ '' and #'' @ itoa (i + 1) @ '' overlap: prev max='' @
                 formatMaxTokens (pv_MaxTokens p) @ '' > cur min='' @ itoa (pv_MinTokens iv)) None)
          else validateIntervalOverlap (i + 1) (Some iv) ivs)"

definition labelled :: "string \<Rightarrow> bool" where
  "labelled mode \<longleftrightarrow> mode = BillingModePerRequest \<or> mode = BillingModeImage"

definition validateSorted :: "PricingInterval list \<Rightarrow> string \<Rightarrow> go_error option" where
  "validateSorted ivs mode =
     (case validateEach 0 ivs of
        Some err \<Rightarrow> Some err
      | None \<Rightarrow> if labelled mode then None else validateIntervalOverlap 0 None ivs)"

text \<open>\<open>sort.Slice\<close> leaves the order of intervals with the same lower bound open; here they keep theirs.\<close>

definition ValidateIntervals :: "PricingInterval list \<Rightarrow> string \<Rightarrow> go_error option" where
  "ValidateIntervals ivs mode = (if ivs = [] then None else validateSorted (sort_key pv_MinTokens ivs) mode)"

subsection \<open>Model patterns\<close>

record modelEntry =
  me_pattern :: string
  me_prefix :: string
  me_wildcard :: bool

definition splitWildcardSuffix :: "string \<Rightarrow> string \<times> bool" where
  "splitWildcardSuffix p = (if p \<noteq> [] \<and> last p = CHR ''*'' then (butlast p, True) else (p, False))"

definition toModelEntry :: "string \<Rightarrow> modelEntry" where
  "toModelEntry p =
     (case splitWildcardSuffix (to_lower p) of
        (prefix, isWild) \<Rightarrow> \<lparr>me_pattern = p, me_prefix = prefix, me_wildcard = isWild\<rparr>)"

definition conflictsBetween :: "modelEntry \<Rightarrow> modelEntry \<Rightarrow> bool" where
  "conflictsBetween a b =
     (if \<not> me_wildcard a \<and> \<not> me_wildcard b then me_prefix a = me_prefix b
      else if me_wildcard a \<and> \<not> me_wildcard b then has_prefix (me_prefix b) (me_prefix a)
      else if \<not> me_wildcard a \<and> me_wildcard b then has_prefix (me_prefix a) (me_prefix b)
      else has_prefix (me_prefix a) (me_prefix b) \<or> has_prefix (me_prefix b) (me_prefix a))"

fun detectConflicts :: "modelEntry list \<Rightarrow> string \<Rightarrow> string \<Rightarrow> string \<Rightarrow> go_error option" where
  "detectConflicts [] platform errCode label = None"
| "detectConflicts (a # es) platform errCode label =
     (case List.find (conflictsBetween a) es of
        Some b \<Rightarrow> Some (BadRequest errCode (label @ '' '' @ [CHR 0x27] @ me_pattern a @ [CHR 0x27] @ '' and '' @ [CHR 0x27] @
          me_pattern b @ [CHR 0x27] @ '' conflict in platform '' @ [CHR 0x27] @ platform @ [CHR 0x27] @
          '': overlapping match range '' @
          ''(model names are matched case-insensitively, so an existing entry already covers all case variants)''))
      | None \<Rightarrow> detectConflicts es platform errCode label)"

text \<open>The first error of a list of checks.\<close>

fun firstError :: "('a \<Rightarrow> go_error option) \<Rightarrow> 'a list \<Rightarrow> go_error option" where
  "firstError f [] = None"
| "firstError f (x # xs) = (case f x of Some err \<Rightarrow> Some err | None \<Rightarrow> firstError f xs)"

definition platformEntries :: "ChannelModelPricing list \<Rightarrow> string \<Rightarrow> modelEntry list" where
  "platformEntries pricingList platform =
     concat (map (\<lambda>p. map toModelEntry (cm_Models p)) (filter (\<lambda>p. cm_Platform p = platform) pricingList))"

text \<open>The map by platform is iterated in the order in which the platforms first appear.\<close>

definition validateNoConflictingModels :: "ChannelModelPricing list \<Rightarrow> go_error option" where
  "validateNoConflictingModels pricingList =
     firstError (\<lambda>platform. detectConflicts (platformEntries pricingList platform) platform
         ''MODEL_PATTERN_CONFLICT'' ''model patterns'')
       (remdups (map cm_Platform pricingList))"

definition validateNoConflictingMappings :: "(string \<times> (string \<times> string) list) list \<Rightarrow> go_error option" where
  "validateNoConflictingMappings mapping =
     firstError (\<lambda>(platform, platformMapping). detectConflicts (map (\<lambda>(src, dst). toModelEntry src) platformMapping) platform
         ''MAPPING_PATTERN_CONFLICT'' ''mapping source patterns'') mapping"

subsection \<open>Validating a configuration\<close>

fun joinSpace :: "string list \<Rightarrow> string" where
  "joinSpace [] = ''''"
| "joinSpace [s] = s"
| "joinSpace (s # ss) = s @ '' '' @ joinSpace ss"

definition showModels :: "string list \<Rightarrow> string" where
  "showModels ms = ''['' @ joinSpace ms @ '']''"

definition errText :: "go_error \<Rightarrow> string" where
  "errText err = (case err of OtherError m _ \<Rightarrow> m | ApplicationError s _ \<Rightarrow> sMessage s)"

definition validatePricingIntervals :: "ChannelModelPricing list \<Rightarrow> go_error option" where
  "validatePricingIntervals = firstError (\<lambda>p.
     map_option (\<lambda>err. BadRequest ''INVALID_PRICING_INTERVALS''
         (''invalid pricing intervals for platform '' @ [CHR 0x27] @ cm_Platform p @ [CHR 0x27] @ '' models '' @
          showModels (cm_Models p) @ '': '' @ errText err))
       (ValidateIntervals (cm_Intervals p) (cm_BillingMode p)))"

definition checkBillingModeRequirements :: "ChannelModelPricing \<Rightarrow> go_error option" where
  "checkBillingModeRequirements p =
     (if labelled (cm_BillingMode p) \<and> cm_PerRequestPrice p = None \<and> cm_Intervals p = []
      then Some (BadRequest ''BILLING_MODE_MISSING_PRICE''
        ''per-request price or intervals required for per_request/image billing mode'')
      else None)"

definition checkPricesNotNegative :: "ChannelModelPricing \<Rightarrow> go_error option" where
  "checkPricesNotNegative p =
     map_option (\<lambda>name. BadRequest ''NEGATIVE_PRICE'' (name @ '' must be >= 0''))
       (negative [(''input_price'', cm_InputPrice p), (''output_price'', cm_OutputPrice p),
         (''cache_write_price'', cm_CacheWritePrice p), (''cache_read_price'', cm_CacheReadPrice p),
         (''image_output_price'', cm_ImageOutputPrice p), (''per_request_price'', cm_PerRequestPrice p)])"

definition priceless :: "PricingInterval \<Rightarrow> bool" where
  "priceless iv \<longleftrightarrow> pv_InputPrice iv = None \<and> pv_OutputPrice iv = None \<and> pv_CacheWritePrice iv = None \<and>
     pv_CacheReadPrice iv = None \<and> pv_PerRequestPrice iv = None"

definition checkIntervalsHavePrices :: "ChannelModelPricing \<Rightarrow> go_error option" where
  "checkIntervalsHavePrices p =
     map_option (\<lambda>iv. BadRequest ''INTERVAL_MISSING_PRICE''
         (''interval ['' @ itoa (pv_MinTokens iv) @ '', '' @ formatMaxTokens (pv_MaxTokens iv) @
          ''] has no price fields set for model '' @ showModels (cm_Models p)))
       (List.find priceless (cm_Intervals p))"

definition orElse :: "go_error option \<Rightarrow> go_error option \<Rightarrow> go_error option" where
  "orElse a b = (case a of Some err \<Rightarrow> Some err | None \<Rightarrow> b)"

definition validatePricingBillingMode :: "ChannelModelPricing list \<Rightarrow> go_error option" where
  "validatePricingBillingMode = firstError (\<lambda>p.
     orElse (checkBillingModeRequirements p) (orElse (checkPricesNotNegative p) (checkIntervalsHavePrices p)))"

definition validatePricingEntries :: "ChannelModelPricing list \<Rightarrow> go_error option" where
  "validatePricingEntries pricing =
     orElse (validateNoConflictingModels pricing) (orElse (validatePricingIntervals pricing) (validatePricingBillingMode pricing))"

definition validateChannelConfig :: "ChannelModelPricing list \<Rightarrow> (string \<times> (string \<times> string) list) list \<Rightarrow> go_error option" where
  "validateChannelConfig pricing mapping =
     orElse (validatePricingEntries pricing) (validateNoConflictingMappings mapping)"

end
