(* ===== verification/ChannelCache.thy ===== *)
theory ChannelCache
  imports ChannelPricing
begin

section \<open>Channels: the lookup tables\<close>

text \<open>
  The cache of \<open>service/channel_service.go\<close>, in which the gateway looks prices and mappings up by group, and
  the list of supported models of \<open>service/channel.go\<close>.  Pointers to prices are the prices: callers get clones
  and nothing changes a channel of the cache.
\<close>

record channelCache =
  cc_pricingByGroupModel :: "int \<times> string \<times> string \<rightharpoonup> ChannelModelPricing"
  cc_wildcardByGroupPlatform :: "int \<times> string \<Rightarrow> (string \<times> ChannelModelPricing) list"
  cc_mappingByGroupModel :: "int \<times> string \<times> string \<rightharpoonup> string"
  cc_wildcardMappingByGP :: "int \<times> string \<Rightarrow> (string \<times> string) list"
  cc_channelByGroupID :: "int \<rightharpoonup> Channel"
  cc_groupPlatform :: "int \<rightharpoonup> string"
  cc_byID :: "int \<rightharpoonup> Channel"
  cc_loadedAt :: int

definition newEmptyChannelCache :: channelCache where
  "newEmptyChannelCache = \<lparr>cc_pricingByGroupModel = Map.empty, cc_wildcardByGroupPlatform = (\<lambda>_. []),
     cc_mappingByGroupModel = Map.empty, cc_wildcardMappingByGP = (\<lambda>_. []), cc_channelByGroupID = Map.empty,
     cc_groupPlatform = Map.empty, cc_byID = Map.empty, cc_loadedAt = 0\<rparr>"

subsection \<open>Filling\<close>

definition isPlatformPricingMatch :: "string \<Rightarrow> string \<Rightarrow> bool" where
  "isPlatformPricingMatch groupPlatform pricingPlatform \<longleftrightarrow> groupPlatform = pricingPlatform"

definition matchingPlatforms :: "string \<Rightarrow> string list" where
  "matchingPlatforms groupPlatform = [groupPlatform]"

definition expandModel :: "int \<Rightarrow> ChannelModelPricing \<Rightarrow> channelCache \<Rightarrow> string \<Rightarrow> channelCache" where
  "expandModel gid pricing cache model =
     (let gpKey = (gid, cm_Platform pricing)
      in case splitWildcardSuffix model of
           (prefix, True) \<Rightarrow> cache\<lparr>cc_wildcardByGroupPlatform := (cc_wildcardByGroupPlatform cache)
             (gpKey := cc_wildcardByGroupPlatform cache gpKey @ [(to_lower prefix, pricing)])\<rparr>
         | (_, False) \<Rightarrow> cache\<lparr>cc_pricingByGroupModel := (cc_pricingByGroupModel cache)
             ((gid, cm_Platform pricing, to_lower model) \<mapsto> pricing)\<rparr>)"

definition expandPricing :: "int \<Rightarrow> string \<Rightarrow> channelCache \<Rightarrow> ChannelModelPricing \<Rightarrow> channelCache" where
  "expandPricing gid platform cache pricing =
     (if \<not> isPlatformPricingMatch platform (cm_Platform pricing) then cache
      else foldl (expandModel gid pricing) cache (cm_Models pricing))"

definition expandPricingToCache :: "channelCache \<Rightarrow> Channel \<Rightarrow> int \<Rightarrow> string \<Rightarrow> channelCache" where
  "expandPricingToCache cache ch gid platform = foldl (expandPricing gid platform) cache (ch_ModelPricing ch)"

definition expandPair :: "int \<Rightarrow> string \<Rightarrow> channelCache \<Rightarrow> string \<times> string \<Rightarrow> channelCache" where
  "expandPair gid mappingPlatform cache = (\<lambda>(src, dst).
     let gpKey = (gid, mappingPlatform)
     in case splitWildcardSuffix src of
          (prefix, True) \<Rightarrow> cache\<lparr>cc_wildcardMappingByGP := (cc_wildcardMappingByGP cache)
            (gpKey := cc_wildcardMappingByGP cache gpKey @ [(to_lower prefix, dst)])\<rparr>
        | (_, False) \<Rightarrow> cache\<lparr>cc_mappingByGroupModel := (cc_mappingByGroupModel cache)
            ((gid, mappingPlatform, to_lower src) \<mapsto> dst)\<rparr>)"

definition expandMappingToCache :: "channelCache \<Rightarrow> Channel \<Rightarrow> int \<Rightarrow> string \<Rightarrow> channelCache" where
  "expandMappingToCache cache ch gid platform =
     foldl (\<lambda>cache mappingPlatform. case map_of (ch_ModelMapping ch) mappingPlatform of
         None \<Rightarrow> cache
       | Some platformMapping \<Rightarrow> foldl (expandPair gid mappingPlatform) cache platformMapping)
       cache (matchingPlatforms platform)"

definition populateGroup :: "Channel \<Rightarrow> channelCache \<Rightarrow> int \<Rightarrow> channelCache" where
  "populateGroup ch cache gid =
     (let cache1 = cache\<lparr>cc_channelByGroupID := (cc_channelByGroupID cache)(gid \<mapsto> ch)\<rparr>;
          platform = (case cc_groupPlatform cache1 gid of None \<Rightarrow> '''' | Some p \<Rightarrow> p)
      in expandMappingToCache (expandPricingToCache cache1 ch gid platform) ch gid platform)"

definition populateChannel :: "channelCache \<Rightarrow> Channel \<Rightarrow> channelCache" where
  "populateChannel cache ch0 =
     (let ch = normalizeBillingModelSource ch0
      in foldl (populateGroup ch) (cache\<lparr>cc_byID := (cc_byID cache)(ch_ID ch \<mapsto> ch)\<rparr>) (ch_GroupIDs ch))"

definition populateChannelCache :: "Channel list \<Rightarrow> (int \<rightharpoonup> string) \<Rightarrow> int \<Rightarrow> channelCache" where
  "populateChannelCache channels groupPlatforms now =
     foldl populateChannel (newEmptyChannelCache\<lparr>cc_groupPlatform := groupPlatforms, cc_loadedAt := now\<rparr>) channels"

subsection \<open>Looking up\<close>

fun firstSome :: "('a \<Rightarrow> 'b option) \<Rightarrow> 'a list \<Rightarrow> 'b option" where
  "firstSome f [] = None"
| "firstSome f (x # xs) = (case f x of Some y \<Rightarrow> Some y | None \<Rightarrow> firstSome f xs)"

definition matchWildcard :: "channelCache \<Rightarrow> int \<Rightarrow> string \<Rightarrow> string \<Rightarrow> ChannelModelPricing option" where
  "matchWildcard c groupID platform modelLower =
     map_option snd (List.find (\<lambda>(prefix, _). has_prefix modelLower prefix) (cc_wildcardByGroupPlatform c (groupID, platform)))"

definition matchWildcardMapping :: "channelCache \<Rightarrow> int \<Rightarrow> string \<Rightarrow> string \<Rightarrow> string" where
  "matchWildcardMapping c groupID platform modelLower =
     (case List.find (\<lambda>(prefix, _). has_prefix modelLower prefix) (cc_wildcardMappingByGP c (groupID, platform)) of
        None \<Rightarrow> '''' | Some (_, target) \<Rightarrow> target)"

definition lookupPricingAcrossPlatforms :: "channelCache \<Rightarrow> int \<Rightarrow> string \<Rightarrow> string \<Rightarrow> ChannelModelPricing option" where
  "lookupPricingAcrossPlatforms cache groupID groupPlatform modelLower =
     (case firstSome (\<lambda>p. cc_pricingByGroupModel cache (groupID, p, modelLower)) (matchingPlatforms groupPlatform) of
        Some pricing \<Rightarrow> Some pricing
      | None \<Rightarrow> firstSome (\<lambda>p. matchWildcard cache groupID p modelLower) (matchingPlatforms groupPlatform))"

definition lookupMappingAcrossPlatforms :: "channelCache \<Rightarrow> int \<Rightarrow> string \<Rightarrow> string \<Rightarrow> string" where
  "lookupMappingAcrossPlatforms cache groupID groupPlatform modelLower =
     (case firstSome (\<lambda>p. cc_mappingByGroupModel cache (groupID, p, modelLower)) (matchingPlatforms groupPlatform) of
        Some mapped \<Rightarrow> mapped
      | None \<Rightarrow>
          (case firstSome (\<lambda>p. let mapped = matchWildcardMapping cache groupID p modelLower
                in if mapped \<noteq> '''' then Some mapped else None) (matchingPlatforms groupPlatform) of
             Some mapped \<Rightarrow> mapped
           | None \<Rightarrow> ''''))"

record channelLookup =
  cl_cache :: channelCache
  cl_channel :: Channel
  cl_platform :: string

definition lookupGroupChannel :: "channelCache \<Rightarrow> int \<Rightarrow> channelLookup option" where
  "lookupGroupChannel cache groupID =
     (case cc_channelByGroupID cache groupID of
        None \<Rightarrow> None
      | Some ch \<Rightarrow> if \<not> IsActiveChannel ch then None
          else Some \<lparr>cl_cache = cache, cl_channel = ch,
            cl_platform = (case cc_groupPlatform cache groupID of None \<Rightarrow> '''' | Some p \<Rightarrow> p)\<rparr>)"

definition GetChannelForGroup :: "channelCache \<Rightarrow> int \<Rightarrow> Channel option" where
  "GetChannelForGroup cache groupID =
     (case cc_channelByGroupID cache groupID of
        None \<Rightarrow> None
      | Some ch \<Rightarrow> if \<not> IsActiveChannel ch then None else Some ch)"

definition GetGroupPlatform :: "channelCache \<Rightarrow> int \<Rightarrow> string" where
  "GetGroupPlatform cache groupID = (case cc_groupPlatform cache groupID of None \<Rightarrow> '''' | Some p \<Rightarrow> p)"

definition GetChannelModelPricing :: "channelCache \<Rightarrow> int \<Rightarrow> string \<Rightarrow> ChannelModelPricing option" where
  "GetChannelModelPricing cache groupID model =
     (case lookupGroupChannel cache groupID of
        None \<Rightarrow> None
      | Some lk \<Rightarrow> lookupPricingAcrossPlatforms (cl_cache lk) groupID (cl_platform lk) (to_lower model))"

record ChannelMappingResult =
  mr_MappedModel :: string
  mr_ChannelID :: int
  mr_Mapped :: bool
  mr_BillingModelSource :: string

definition resolveMapping :: "channelLookup \<Rightarrow> int \<Rightarrow> string \<Rightarrow> ChannelMappingResult" where
  "resolveMapping lk groupID model =
     (let result = \<lparr>mr_MappedModel = model, mr_ChannelID = ch_ID (cl_channel lk), mr_Mapped = False,
            mr_BillingModelSource = ch_BillingModelSource (cl_channel lk)\<rparr>;
          mapped = lookupMappingAcrossPlatforms (cl_cache lk) groupID (cl_platform lk) (to_lower model)
      in if mapped \<noteq> '''' then result\<lparr>mr_MappedModel := mapped, mr_Mapped := True\<rparr> else result)"

definition unmapped :: "string \<Rightarrow> ChannelMappingResult" where
  "unmapped model = \<lparr>mr_MappedModel = model, mr_ChannelID = 0, mr_Mapped = False, mr_BillingModelSource = ''''\<rparr>"

definition ResolveChannelMapping :: "channelCache \<Rightarrow> int \<Rightarrow> string \<Rightarrow> ChannelMappingResult" where
  "ResolveChannelMapping cache groupID model =
     (case lookupGroupChannel cache groupID of None \<Rightarrow> unmapped model | Some lk \<Rightarrow> resolveMapping lk groupID model)"

definition checkRestricted :: "channelLookup \<Rightarrow> int \<Rightarrow> string \<Rightarrow> bool" where
  "checkRestricted lk groupID model =
     (if \<not> ch_RestrictModels (cl_channel lk) then False
      else lookupPricingAcrossPlatforms (cl_cache lk) groupID (cl_platform lk) (to_lower model) = None)"

definition IsModelRestricted :: "channelCache \<Rightarrow> int \<Rightarrow> string \<Rightarrow> bool" where
  "IsModelRestricted cache groupID model =
     (case lookupGroupChannel cache groupID of None \<Rightarrow> False | Some lk \<Rightarrow> checkRestricted lk groupID model)"

definition ResolveChannelMappingAndRestrict :: "channelCache \<Rightarrow> int option \<Rightarrow> string \<Rightarrow> ChannelMappingResult \<times> bool" where
  "ResolveChannelMappingAndRestrict cache groupID model =
     (case groupID of
        None \<Rightarrow> (unmapped model, False)
      | Some g \<Rightarrow> (case lookupGroupChannel cache g of None \<Rightarrow> (unmapped model, False) | Some lk \<Rightarrow> (resolveMapping lk g model, False)))"

definition arrow :: string where "arrow = [CHR 0xE2, CHR 0x86, CHR 0x92]"

definition BuildModelMappingChain :: "ChannelMappingResult \<Rightarrow> string \<Rightarrow> string \<Rightarrow> string" where
  "BuildModelMappingChain r reqModel upstreamModel =
     (if \<not> mr_Mapped r
      then (if upstreamModel \<noteq> '''' \<and> upstreamModel \<noteq> reqModel then reqModel @ arrow @ upstreamModel else '''')
      else if upstreamModel \<noteq> '''' \<and> upstreamModel \<noteq> mr_MappedModel r
      then reqModel @ arrow @ mr_MappedModel r @ arrow @ upstreamModel
      else reqModel @ arrow @ mr_MappedModel r)"

record ChannelUsageFields =
  uf_ChannelID :: int
  uf_OriginalModel :: string
  uf_ChannelMappedModel :: string
  uf_BillingModelSource :: string
  uf_ModelMappingChain :: string

definition ToUsageFields :: "ChannelMappingResult \<Rightarrow> string \<Rightarrow> string \<Rightarrow> ChannelUsageFields" where
  "ToUsageFields r reqModel upstreamModel =
     \<lparr>uf_ChannelID = mr_ChannelID r, uf_OriginalModel = reqModel,
      uf_ChannelMappedModel = (if mr_Mapped r then mr_MappedModel r else reqModel),
      uf_BillingModelSource = mr_BillingModelSource r, uf_ModelMappingChain = BuildModelMappingChain r reqModel upstreamModel\<rparr>"

subsection \<open>Supported models\<close>

record platformPricingIndex =
  px_byLower :: "string \<rightharpoonup> ChannelModelPricing"
  px_originalCase :: "string \<rightharpoonup> string"
  px_names :: "string list"

definition emptyIndex :: platformPricingIndex where
  "emptyIndex = \<lparr>px_byLower = Map.empty, px_originalCase = Map.empty, px_names = []\<rparr>"

definition indexModel :: "ChannelModelPricing \<Rightarrow> platformPricingIndex \<Rightarrow> string \<Rightarrow> platformPricingIndex" where
  "indexModel p px m =
     (let lower = to_lower m
      in if snd (splitWildcardSuffix m) then px
         else if px_byLower px lower \<noteq> None then px
         else \<lparr>px_byLower = (px_byLower px)(lower \<mapsto> p), px_originalCase = (px_originalCase px)(lower \<mapsto> m),
               px_names = px_names px @ [m]\<rparr>)"

definition indexPricing :: "(string \<rightharpoonup> platformPricingIndex) \<Rightarrow> ChannelModelPricing \<Rightarrow> (string \<rightharpoonup> platformPricingIndex)" where
  "indexPricing idx p =
     (let pidx = (case idx (cm_Platform p) of None \<Rightarrow> emptyIndex | Some x \<Rightarrow> x)
      in idx(cm_Platform p \<mapsto> foldl (indexModel p) pidx (cm_Models p)))"

definition buildPricingIndex :: "ChannelModelPricing list \<Rightarrow> (string \<rightharpoonup> platformPricingIndex)" where
  "buildPricingIndex pricings = foldl indexPricing Map.empty pricings"

record SupportedModel =
  sm_Name :: string
  sm_Platform :: string
  sm_Pricing :: "ChannelModelPricing option"

definition lookupIndex :: "platformPricingIndex option \<Rightarrow> string \<Rightarrow> string \<times> ChannelModelPricing option" where
  "lookupIndex pidx name =
     (case pidx of
        None \<Rightarrow> (name, None)
      | Some px \<Rightarrow>
          if name = '''' then (name, None)
          else (case px_byLower px (to_lower name) of
                  Some p \<Rightarrow> ((case px_originalCase px (to_lower name) of None \<Rightarrow> '''' | Some m \<Rightarrow> m), Some p)
                | None \<Rightarrow> (name, None)))"

definition modelKey :: "SupportedModel \<Rightarrow> string \<times> string" where
  "modelKey m = (sm_Platform m, to_lower (sm_Name m))"

definition addModel :: "SupportedModel list \<Rightarrow> SupportedModel \<Rightarrow> SupportedModel list" where
  "addModel result m = (if modelKey m \<in> modelKey ` set result then result else result @ [m])"

definition supported :: "string \<Rightarrow> string \<times> ChannelModelPricing option \<Rightarrow> SupportedModel" where
  "supported platform = (\<lambda>(name, pricing). \<lparr>sm_Name = name, sm_Platform = platform, sm_Pricing = pricing\<rparr>)"

text \<open>What the first pass adds for a pair of the mapping.\<close>

definition mappedModels :: "string \<Rightarrow> platformPricingIndex option \<Rightarrow> string \<times> string \<Rightarrow> SupportedModel list" where
  "mappedModels platform pidx = (\<lambda>(src, target).
     case splitWildcardSuffix src of
       (prefix, True) \<Rightarrow>
         (case pidx of
            None \<Rightarrow> []
          | Some px \<Rightarrow> map (\<lambda>candidate. supported platform (lookupIndex pidx candidate))
              (filter (\<lambda>candidate. has_prefix (to_lower candidate) (to_lower prefix)) (px_names px)))
     | (_, False) \<Rightarrow>
         (let pricingKey = (if target = '''' then src else target);
              pricingKey' = (if snd (splitWildcardSuffix pricingKey) then src else pricingKey)
          in [supported platform (fst (lookupIndex pidx src), snd (lookupIndex pidx pricingKey'))]))"

definition passA :: "Channel \<Rightarrow> SupportedModel list" where
  "passA c = (let idx = buildPricingIndex (ch_ModelPricing c)
     in concat (map (\<lambda>(platform, mapping). concat (map (mappedModels platform (idx platform)) mapping)) (ch_ModelMapping c)))"

text \<open>The second pass iterates over the map of indexes, in the given order of the platforms.\<close>

definition passB :: "string list \<Rightarrow> Channel \<Rightarrow> SupportedModel list" where
  "passB order c = (let idx = buildPricingIndex (ch_ModelPricing c)
     in concat (map (\<lambda>platform. case idx platform of
          None \<Rightarrow> []
        | Some px \<Rightarrow> map (\<lambda>name. supported platform (lookupIndex (Some px) name)) (px_names px)) order))"

definition SupportedModels :: "string list \<Rightarrow> Channel \<Rightarrow> SupportedModel list" where
  "SupportedModels order c =
     (if ch_ModelMapping c = [] \<and> ch_ModelPricing c = [] then []
      else sort_key (\<lambda>m. (sm_Platform m, sm_Name m)) (foldl addModel [] (passA c @ passB order c)))"

end
