(* ===== verification/ChannelProperties.thy ===== *)
theory ChannelProperties
  imports ChannelCache "HOL-Library.Multiset"
begin

section \<open>Channels: an accepted configuration has one reading\<close>

text \<open>
  An accepted configuration, that is one in which no two patterns overlap, is unambiguous: a model has one
  price and one target, whatever the order of the lists and maps.  The example has three names and two patterns.
\<close>

definition exInterval :: "int \<Rightarrow> int option \<Rightarrow> rat \<Rightarrow> PricingInterval" where
  "exInterval lo hi price = \<lparr>pv_MinTokens = lo, pv_MaxTokens = hi, pv_TierLabel = [], pv_InputPrice = Some price,
     pv_OutputPrice = None, pv_CacheWritePrice = None, pv_CacheReadPrice = None, pv_PerRequestPrice = None, pv_SortOrder = 0\<rparr>"

definition exPricing :: "string list \<Rightarrow> PricingInterval list \<Rightarrow> ChannelModelPricing" where
  "exPricing models ivs = \<lparr>cm_Platform = ''anthropic'', cm_Models = models, cm_BillingMode = BillingModeToken,
     cm_InputPrice = Some 3, cm_OutputPrice = None, cm_CacheWritePrice = None, cm_CacheReadPrice = None,
     cm_ImageOutputPrice = None, cm_PerRequestPrice = None, cm_Intervals = ivs\<rparr>"

definition exIntervals :: "PricingInterval list" where
  "exIntervals = [exInterval 200 None 6, exInterval 0 (Some 200) 3]"

definition exChannel :: Channel where
  "exChannel = \<lparr>ch_ID = 4, ch_Name = ''c'', ch_Description = [], ch_Status = ChannelStatusActive,
     ch_BillingModelSource = [], ch_RestrictModels = True,
     ch_ModelMapping = [(''anthropic'', [(''fast'', ''claude-haiku''), (''big-*'', ''claude-opus-4'')])], ch_GroupIDs = [7, 8],
     ch_ModelPricing = [exPricing [''claude-opus-*'', ''Claude-Haiku''] exIntervals, exPricing [''claude-sonnet''] []]\<rparr>"

lemma exChannel_accepted: "validateChannelConfig (ch_ModelPricing exChannel) (ch_ModelMapping exChannel) = None"
  "validateNoConflictingMappings (ch_ModelMapping exChannel) = None"
  by code_simp+

lemma exChannel_groups: "distinct (concat (map ch_GroupIDs [exChannel]))" "exChannel \<in> set [exChannel]" "8 \<in> set (ch_GroupIDs exChannel)"
  "IsActiveChannel exChannel"
  by (simp_all add: exChannel_def IsActiveChannel_def)

subsection \<open>Patterns\<close>

lemma ascii_lower_code: "of_char (ascii_lower c) = (if of_char c \<in> {65..90 :: nat} then of_char c + 32 else of_char c :: nat)"
  by (simp add: ascii_lower_def of_char_of)

lemma ascii_lower_star [simp]: "ascii_lower c = CHR ''*'' \<longleftrightarrow> c = CHR ''*''"
proof -
  have code: "x = CHR ''*'' \<longleftrightarrow> of_char x = (42 :: nat)" for x
    using of_char_eq_iff [of x "CHR ''*''", where 'a = nat] by simp
  show ?thesis unfolding code ascii_lower_code by auto
qed

definition dotted_I :: "char \<Rightarrow> string \<Rightarrow> bool" where
  "dotted_I c s \<longleftrightarrow> c = CHR 0xC4 \<and> s \<noteq> [] \<and> hd s = CHR 0xB0"

definition kelvin :: "char \<Rightarrow> string \<Rightarrow> bool" where
  "kelvin c s \<longleftrightarrow> c = CHR 0xE2 \<and> s \<noteq> [] \<and> hd s = CHR 0x84 \<and> tl s \<noteq> [] \<and> hd (tl s) = CHR 0xAA"

lemma to_lower_Cons: "to_lower (c # s) =
   (if dotted_I c s then CHR ''i'' # to_lower (tl s)
    else if kelvin c s then CHR ''k'' # to_lower (tl (tl s)) else ascii_lower c # to_lower s)"
  by (simp add: dotted_I_def kelvin_def)

declare to_lower.simps [simp del]

lemma to_lower_Nil [simp]: "to_lower [] = []"
  by (simp add: to_lower.simps)

lemma special_star: "dotted_I c (s @ ''*'') = dotted_I c s" "kelvin c (s @ ''*'') = kelvin c s"
proof -
  show "dotted_I c (s @ ''*'') = dotted_I c s" by (cases s) (simp_all add: dotted_I_def)
  show "kelvin c (s @ ''*'') = kelvin c s"
  proof (cases s)
    case (Cons d s')
    then show ?thesis by (cases s') (simp_all add: kelvin_def)
  qed (simp add: kelvin_def)
qed

lemma to_lower_star: "to_lower (s @ ''*'') = to_lower s @ ''*''"
proof (induction "length s" arbitrary: s rule: less_induct)
  case less
  show ?case
  proof (cases s)
    case Nil
    then show ?thesis by (simp add: to_lower_Cons dotted_I_def kelvin_def)
  next
    case (Cons c t)
    show ?thesis
    proof (cases "dotted_I c t")
      case True
      then have "t \<noteq> []" by (simp add: dotted_I_def)
      with True less [of "tl t"] Cons show ?thesis by (simp add: to_lower_Cons special_star)
    next
      case f: False
      show ?thesis
      proof (cases "kelvin c t")
        case True
        then have "t \<noteq> []" "tl t \<noteq> []" by (simp_all add: kelvin_def)
        with True f less [of "tl (tl t)"] Cons show ?thesis by (simp add: to_lower_Cons special_star)
      next
        case False
        with f less [of t] Cons show ?thesis by (simp add: to_lower_Cons special_star)
      qed
    qed
  qed
qed

lemma to_lower_empty [simp]: "to_lower s = [] \<longleftrightarrow> s = []"
  by (cases s) (auto simp: to_lower_Cons)

lemma to_lower_last: "s \<noteq> [] \<Longrightarrow> last (to_lower s) = CHR ''*'' \<Longrightarrow> last s = CHR ''*''"
proof (induction "length s" arbitrary: s rule: less_induct)
  case less
  then obtain c t where s: "s = c # t" by (cases s) auto
  show ?case
  proof (cases "dotted_I c t")
    case True
    then have t: "t \<noteq> []" by (simp add: dotted_I_def)
    with True less s have n: "tl t \<noteq> []" by (auto simp: to_lower_Cons)
    with True less.prems s have "last (to_lower (tl t)) = CHR ''*''" by (simp add: to_lower_Cons)
    with less.hyps [OF _ n] s have "last (tl t) = CHR ''*''" by simp
    with s t n show ?thesis by (simp add: last_tl)
  next
    case f: False
    show ?thesis
    proof (cases "kelvin c t")
      case True
      then have t: "t \<noteq> []" "tl t \<noteq> []" by (simp_all add: kelvin_def)
      with True f less s have n: "tl (tl t) \<noteq> []" by (auto simp: to_lower_Cons)
      with True f less.prems s t have "last (to_lower (tl (tl t))) = CHR ''*''" by (simp add: to_lower_Cons)
      with less.hyps [OF _ n] s have "last (tl (tl t)) = CHR ''*''" by simp
      with s t n show ?thesis by (simp add: last_tl)
    next
      case False
      with f less s show ?thesis by (cases "t = []") (simp_all add: to_lower_Cons)
    qed
  qed
qed

lemma splitWildcardSuffix_lower:
  "splitWildcardSuffix (to_lower s) = (case splitWildcardSuffix s of (p, w) \<Rightarrow> (to_lower p, w))"
proof (cases "s \<noteq> [] \<and> last s = CHR ''*''")
  case True
  then obtain r where s: "s = r @ ''*''" by (metis append_butlast_last_id)
  then show ?thesis unfolding s to_lower_star by (simp add: splitWildcardSuffix_def)
next
  case False
  with to_lower_last [of s] show ?thesis by (auto simp: splitWildcardSuffix_def)
qed

text \<open>What a pattern matches; two patterns that match one name are in conflict.\<close>

definition me_matches :: "modelEntry \<Rightarrow> string \<Rightarrow> bool" where
  "me_matches e l \<longleftrightarrow> (if me_wildcard e then has_prefix l (me_prefix e) else l = me_prefix e)"

lemma prefixes_comparable: "has_prefix l p \<Longrightarrow> has_prefix l q \<Longrightarrow> has_prefix p q \<or> has_prefix q p"
  unfolding has_prefix_iff by (metis append_eq_append_conv2)

lemma matches_conflict: "me_matches a l \<Longrightarrow> me_matches b l \<Longrightarrow> conflictsBetween a b"
  using prefixes_comparable by (auto simp: me_matches_def conflictsBetween_def split: if_splits)

lemma detectConflicts_None: "detectConflicts es pl c lb = None \<longleftrightarrow> sorted_wrt (\<lambda>a b. \<not> conflictsBetween a b) es"
  by (induction es) (auto simp: find_None_iff find_Some_iff split: option.splits)

lemma firstError_None: "firstError f xs = None \<longleftrightarrow> (\<forall>x \<in> set xs. f x = None)"
  by (induction xs) (auto split: option.splits)

lemma orElse_None [simp]: "orElse a b = None \<longleftrightarrow> a = None \<and> b = None"
  by (auto simp: orElse_def split: option.splits)

lemma one_match:
  "sorted_wrt (\<lambda>a b. \<not> conflictsBetween a b) es \<Longrightarrow> length (filter (\<lambda>e. me_matches e l) es) \<le> 1"
proof (induction es)
  case (Cons e es)
  show ?case
  proof (cases "me_matches e l")
    case True
    with Cons.prems matches_conflict [OF True] have "filter (\<lambda>e. me_matches e l) es = []" by (auto simp: filter_empty_conv)
    then show ?thesis by simp
  qed (use Cons in simp)
qed simp

lemma one_match_fst:
  "sorted_wrt (\<lambda>a b. \<not> conflictsBetween a b) (map fst xs) \<Longrightarrow> length (filter (\<lambda>x. me_matches (fst x) l) xs) \<le> 1"
  using one_match [of "map fst xs" l] by (simp add: filter_map comp_def)

subsection \<open>Prices\<close>

definition priced :: "string \<Rightarrow> string \<Rightarrow> ChannelModelPricing \<Rightarrow> bool" where
  "priced platform model p \<longleftrightarrow> cm_Platform p = platform \<and> (\<exists>m \<in> set (cm_Models p). me_matches (toModelEntry m) (to_lower model))"

text \<open>The patterns of a platform with their prices, in the order of the list.\<close>

definition pairs :: "string \<Rightarrow> ChannelModelPricing list \<Rightarrow> (modelEntry \<times> ChannelModelPricing) list" where
  "pairs platform ps = concat (map (\<lambda>p. map (\<lambda>m. (toModelEntry m, p)) (cm_Models p)) (filter (\<lambda>p. cm_Platform p = platform) ps))"

lemma pairs_simps [simp]:
  "pairs platform [] = []"
  "pairs platform (p # ps) = (if cm_Platform p = platform then map (\<lambda>m. (toModelEntry m, p)) (cm_Models p) else []) @ pairs platform ps"
  by (simp_all add: pairs_def)

lemma pairs_entries: "map fst (pairs platform ps) = platformEntries ps platform"
  by (induction ps) (simp_all add: platformEntries_def comp_def)

lemma accepted_pairs:
  assumes "validatePricingEntries ps = None"
  shows "length (filter (\<lambda>x. me_matches (fst x) l) (pairs platform ps)) \<le> 1"
proof -
  have "sorted_wrt (\<lambda>a b. \<not> conflictsBetween a b) (platformEntries ps platform)"
  proof (cases "platform \<in> set (map cm_Platform ps)")
    case True
    with assms show ?thesis
      by (auto simp: validatePricingEntries_def validateNoConflictingModels_def firstError_None detectConflicts_None)
  next
    case False
    then have "platformEntries ps platform = []" by (induction ps) (auto simp: platformEntries_def)
    then show ?thesis by simp
  qed
  then show ?thesis by (intro one_match_fst) (simp add: pairs_entries)
qed

text \<open>The exact names and the wildcards of one group and platform, as a table.\<close>

type_synonym 'v table = "(string \<rightharpoonup> 'v) \<times> (string \<times> 'v) list"

definition put :: "'v table \<Rightarrow> modelEntry \<times> 'v \<Rightarrow> 'v table" where
  "put = (\<lambda>(ex, wc) (e, v). if me_wildcard e then (ex, wc @ [(me_prefix e, v)]) else (ex(me_prefix e \<mapsto> v), wc))"

definition look :: "'v table \<Rightarrow> string \<Rightarrow> 'v option" where
  "look = (\<lambda>(ex, wc) l. case ex l of Some v \<Rightarrow> Some v
     | None \<Rightarrow> map_option snd (List.find (\<lambda>(prefix, _). has_prefix l prefix) wc))"

lemma find_snoc: "List.find P (xs @ [x]) = (case List.find P xs of Some y \<Rightarrow> Some y | None \<Rightarrow> if P x then Some x else None)"
  by (induction xs) auto

lemma find_filter: "List.find P xs = (case filter P xs of [] \<Rightarrow> None | x # _ \<Rightarrow> Some x)"
  by (induction xs) auto

lemma look_put:
  "look (put t x) l =
     (if me_matches (fst x) l
      then (if me_wildcard (fst x) then (case look t l of Some v \<Rightarrow> Some v | None \<Rightarrow> Some (snd x)) else Some (snd x))
      else look t l)"
  by (cases x; cases t) (auto simp: look_def put_def me_matches_def find_snoc split: option.split)

lemma look_puts_none: "\<forall>x \<in> set xs. \<not> me_matches (fst x) l \<Longrightarrow> look (foldl put t xs) l = look t l"
  by (induction xs arbitrary: t) (simp_all add: look_put)

lemma look_puts:
  assumes "length (filter (\<lambda>x. me_matches (fst x) l) xs) \<le> 1" and "look t l = None"
  shows "look (foldl put t xs) l = map_option snd (List.find (\<lambda>x. me_matches (fst x) l) xs)"
  using assms
proof (induction xs arbitrary: t)
  case (Cons x xs)
  show ?case
  proof (cases "me_matches (fst x) l")
    case True
    with Cons.prems(1) have "\<forall>x \<in> set xs. \<not> me_matches (fst x) l" by (auto simp: filter_empty_conv)
    with True Cons.prems(2) show ?thesis by (simp add: look_puts_none look_put)
  qed (use Cons in \<open>simp add: look_put\<close>)
qed simp

definition priceTable :: "channelCache \<Rightarrow> int \<Rightarrow> string \<Rightarrow> ChannelModelPricing table" where
  "priceTable c gid pl = (\<lambda>l. cc_pricingByGroupModel c (gid, pl, l), cc_wildcardByGroupPlatform c (gid, pl))"

definition mapTable :: "channelCache \<Rightarrow> int \<Rightarrow> string \<Rightarrow> string table" where
  "mapTable c gid pl = (\<lambda>l. cc_mappingByGroupModel c (gid, pl, l), cc_wildcardMappingByGP c (gid, pl))"

lemma lookupPricing_look: "lookupPricingAcrossPlatforms c gid pl l = look (priceTable c gid pl) l"
  by (simp add: lookupPricingAcrossPlatforms_def look_def priceTable_def matchingPlatforms_def matchWildcard_def split: option.split)

lemma lookupMapping_look: "lookupMappingAcrossPlatforms c gid pl l = (case look (mapTable c gid pl) l of None \<Rightarrow> '''' | Some t \<Rightarrow> t)"
  by (auto simp: lookupMappingAcrossPlatforms_def look_def mapTable_def matchingPlatforms_def matchWildcardMapping_def Let_def
      split: option.split)

text \<open>What filling writes.\<close>

definition mapPairs :: "string \<Rightarrow> (string \<times> (string \<times> string) list) list \<Rightarrow> (modelEntry \<times> string) list" where
  "mapPairs pl mapping = (case map_of mapping pl of None \<Rightarrow> [] | Some inner \<Rightarrow> map (\<lambda>(src, dst). (toModelEntry src, dst)) inner)"

named_theorems cache_view \<open>what an operation of the cache leaves of its tables\<close>

lemma split_lower:
  obtains (wild) p where "splitWildcardSuffix m = (p, True)" "toModelEntry m = \<lparr>me_pattern = m, me_prefix = to_lower p, me_wildcard = True\<rparr>"
    | (exact) "splitWildcardSuffix m = (m, False)" "toModelEntry m = \<lparr>me_pattern = m, me_prefix = to_lower m, me_wildcard = False\<rparr>"
proof -
  obtain p w where w: "splitWildcardSuffix m = (p, w)" by (cases "splitWildcardSuffix m")
  then have "\<not> w \<Longrightarrow> p = m" by (auto simp: splitWildcardSuffix_def split: if_splits)
  with w show ?thesis by (cases w) (auto intro: that simp: toModelEntry_def splitWildcardSuffix_lower)
qed

lemma expandModel_view [cache_view]:
  "priceTable (expandModel g p c m) gid pl =
     (if g = gid \<and> cm_Platform p = pl then put (priceTable c gid pl) (toModelEntry m, p) else priceTable c gid pl)"
  "mapTable (expandModel g p c m) gid pl = mapTable c gid pl"
  "cc_channelByGroupID (expandModel g p c m) = cc_channelByGroupID c" "cc_groupPlatform (expandModel g p c m) = cc_groupPlatform c"
  by (rule split_lower [of m], auto simp: expandModel_def priceTable_def put_def Let_def fun_eq_iff)
     (rule split_lower [of m], auto simp: expandModel_def mapTable_def)+

lemma expandPair_view [cache_view]:
  "mapTable (expandPair g pl' c (src, dst)) gid pl =
     (if g = gid \<and> pl' = pl then put (mapTable c gid pl) (toModelEntry src, dst) else mapTable c gid pl)"
  "priceTable (expandPair g pl' c (src, dst)) gid pl = priceTable c gid pl"
  "cc_channelByGroupID (expandPair g pl' c (src, dst)) = cc_channelByGroupID c"
  "cc_groupPlatform (expandPair g pl' c (src, dst)) = cc_groupPlatform c"
  by (rule split_lower [of src], auto simp: expandPair_def mapTable_def put_def Let_def fun_eq_iff)
     (rule split_lower [of src], auto simp: expandPair_def priceTable_def)+

lemma expandModels_view [cache_view]:
  "priceTable (foldl (expandModel g p) c ms) gid pl =
     (if g = gid \<and> cm_Platform p = pl then foldl put (priceTable c gid pl) (map (\<lambda>m. (toModelEntry m, p)) ms) else priceTable c gid pl)"
  "mapTable (foldl (expandModel g p) c ms) gid pl = mapTable c gid pl"
  "cc_channelByGroupID (foldl (expandModel g p) c ms) = cc_channelByGroupID c"
  "cc_groupPlatform (foldl (expandModel g p) c ms) = cc_groupPlatform c"
  by (induction ms arbitrary: c) (simp_all add: cache_view)

lemma expandPairs_view [cache_view]:
  "mapTable (foldl (expandPair g pl') c inner) gid pl =
     (if g = gid \<and> pl' = pl then foldl put (mapTable c gid pl) (map (\<lambda>(src, dst). (toModelEntry src, dst)) inner) else mapTable c gid pl)"
  "priceTable (foldl (expandPair g pl') c inner) gid pl = priceTable c gid pl"
  "cc_channelByGroupID (foldl (expandPair g pl') c inner) = cc_channelByGroupID c"
  "cc_groupPlatform (foldl (expandPair g pl') c inner) = cc_groupPlatform c"
  by (induction inner arbitrary: c) (auto simp: cache_view)

lemma expandPricing_view [cache_view]:
  "priceTable (foldl (expandPricing g platform) c ps) gid pl =
     (if g = gid \<and> platform = pl then foldl put (priceTable c gid pl) (pairs pl ps) else priceTable c gid pl)"
  "mapTable (foldl (expandPricing g platform) c ps) gid pl = mapTable c gid pl"
  "cc_channelByGroupID (foldl (expandPricing g platform) c ps) = cc_channelByGroupID c"
  "cc_groupPlatform (foldl (expandPricing g platform) c ps) = cc_groupPlatform c"
  by (induction ps arbitrary: c) (auto simp: cache_view expandPricing_def isPlatformPricingMatch_def)

lemma expandMappingToCache_view [cache_view]:
  "mapTable (expandMappingToCache c ch g platform) gid pl =
     (if g = gid \<and> platform = pl then foldl put (mapTable c gid pl) (mapPairs pl (ch_ModelMapping ch)) else mapTable c gid pl)"
  "priceTable (expandMappingToCache c ch g platform) gid pl = priceTable c gid pl"
  "cc_channelByGroupID (expandMappingToCache c ch g platform) = cc_channelByGroupID c"
  "cc_groupPlatform (expandMappingToCache c ch g platform) = cc_groupPlatform c"
  by (auto simp: expandMappingToCache_def matchingPlatforms_def mapPairs_def cache_view split: option.split)

definition platformOf :: "(int \<rightharpoonup> string) \<Rightarrow> int \<Rightarrow> string" where
  "platformOf gp gid = (case gp gid of None \<Rightarrow> '''' | Some p \<Rightarrow> p)"

lemma populateGroup_view [cache_view]:
  "priceTable (populateGroup ch c g) gid pl =
     (if g = gid \<and> platformOf (cc_groupPlatform c) g = pl then foldl put (priceTable c gid pl) (pairs pl (ch_ModelPricing ch)) else priceTable c gid pl)"
  "mapTable (populateGroup ch c g) gid pl =
     (if g = gid \<and> platformOf (cc_groupPlatform c) g = pl then foldl put (mapTable c gid pl) (mapPairs pl (ch_ModelMapping ch)) else mapTable c gid pl)"
  "cc_channelByGroupID (populateGroup ch c g) = (cc_channelByGroupID c)(g \<mapsto> ch)"
  "cc_groupPlatform (populateGroup ch c g) = cc_groupPlatform c"
  by (simp_all add: populateGroup_def expandPricingToCache_def cache_view Let_def platformOf_def)
     (auto simp: priceTable_def mapTable_def)

subsection \<open>One group of a filled cache\<close>

definition cleanAt :: "channelCache \<Rightarrow> int \<Rightarrow> bool" where
  "cleanAt c gid \<longleftrightarrow> cc_channelByGroupID c gid = None \<and>
     (\<forall>pl. priceTable c gid pl = (Map.empty, []) \<and> mapTable c gid pl = (Map.empty, []))"

definition filledAt :: "channelCache \<Rightarrow> int \<Rightarrow> Channel \<Rightarrow> string \<Rightarrow> bool" where
  "filledAt c gid ch pl \<longleftrightarrow> cc_channelByGroupID c gid = Some ch \<and>
     priceTable c gid pl = foldl put (Map.empty, []) (pairs pl (ch_ModelPricing ch)) \<and>
     mapTable c gid pl = foldl put (Map.empty, []) (mapPairs pl (ch_ModelMapping ch))"

lemma populateGroups_view [cache_view]:
  "cc_groupPlatform (foldl (populateGroup ch) c gs) = cc_groupPlatform c"
  by (induction gs arbitrary: c) (simp_all add: cache_view)

lemma populateGroups_other:
  "gid \<notin> set gs \<Longrightarrow> cleanAt (foldl (populateGroup ch) c gs) gid = cleanAt c gid"
  "gid \<notin> set gs \<Longrightarrow> filledAt (foldl (populateGroup ch) c gs) gid ch' pl = filledAt c gid ch' pl"
  by (induction gs arbitrary: c) (simp_all add: cleanAt_def filledAt_def cache_view)

lemma populateGroups_fill:
  "distinct gs \<Longrightarrow> gid \<in> set gs \<Longrightarrow> cleanAt c gid \<Longrightarrow>
   filledAt (foldl (populateGroup ch) c gs) gid ch (platformOf (cc_groupPlatform c) gid)"
proof (induction gs arbitrary: c)
  case (Cons g gs)
  show ?case
  proof (cases "g = gid")
    case True
    with Cons.prems have "filledAt (populateGroup ch c g) gid ch (platformOf (cc_groupPlatform c) gid)" "gid \<notin> set gs"
      by (simp_all add: cleanAt_def filledAt_def cache_view)
    then show ?thesis by (simp add: populateGroups_other)
  next
    case False
    with Cons.prems have "cleanAt (populateGroup ch c g) gid" by (simp add: cleanAt_def cache_view)
    with Cons.IH [OF _ _ this] Cons.prems False show ?thesis by (simp add: populateGroup_view(4))
  qed
qed simp

lemma populateChannel_view [cache_view]:
  "cc_groupPlatform (populateChannel c ch) = cc_groupPlatform c"
  by (simp add: populateChannel_def cache_view Let_def)

lemma normalize_groups [simp]: "ch_GroupIDs (normalizeBillingModelSource ch) = ch_GroupIDs ch"
  "ch_ModelPricing (normalizeBillingModelSource ch) = ch_ModelPricing ch"
  "ch_ModelMapping (normalizeBillingModelSource (ch :: Channel)) = ch_ModelMapping ch"
  "ch_RestrictModels (normalizeBillingModelSource (ch :: Channel)) = ch_RestrictModels ch"
  "ch_ID (normalizeBillingModelSource (ch :: Channel)) = ch_ID ch"
  "IsActiveChannel (normalizeBillingModelSource (ch :: Channel)) = IsActiveChannel ch"
  by (simp_all add: normalizeBillingModelSource_def IsActiveChannel_def)

lemma byID_clean [simp]: "cleanAt (c\<lparr>cc_byID := b\<rparr>) gid = cleanAt c gid" "filledAt (c\<lparr>cc_byID := b\<rparr>) gid ch pl = filledAt c gid ch pl"
  by (simp_all add: cleanAt_def filledAt_def priceTable_def mapTable_def)

lemma populateChannel_other:
  "gid \<notin> set (ch_GroupIDs ch) \<Longrightarrow> cleanAt (populateChannel c ch) gid = cleanAt c gid"
  "gid \<notin> set (ch_GroupIDs ch) \<Longrightarrow> filledAt (populateChannel c ch) gid ch' pl = filledAt c gid ch' pl"
  by (simp_all add: populateChannel_def Let_def populateGroups_other)

lemma populateChannels_other:
  "gid \<notin> set (concat (map ch_GroupIDs chs)) \<Longrightarrow> filledAt (foldl populateChannel c chs) gid ch pl = filledAt c gid ch pl"
  by (induction chs arbitrary: c) (simp_all add: populateChannel_other)

lemma populateChannels_fill:
  assumes "distinct (concat (map ch_GroupIDs chs))" and "ch \<in> set chs" and "gid \<in> set (ch_GroupIDs ch)" and "cleanAt c gid"
  shows "filledAt (foldl populateChannel c chs) gid (normalizeBillingModelSource ch) (platformOf (cc_groupPlatform c) gid)"
  using assms
proof (induction chs arbitrary: c)
  case (Cons x chs)
  show ?case
  proof (cases "gid \<in> set (ch_GroupIDs x)")
    case True
    with Cons.prems have x: "x = ch" "gid \<notin> set (concat (map ch_GroupIDs chs))" by auto
    have "filledAt (populateChannel c x) gid (normalizeBillingModelSource x) (platformOf (cc_groupPlatform c) gid)"
      using populateGroups_fill [of "ch_GroupIDs x" gid "c\<lparr>cc_byID := (cc_byID c)(ch_ID x \<mapsto> normalizeBillingModelSource x)\<rparr>"
          "normalizeBillingModelSource x"] Cons.prems True
      by (simp add: populateChannel_def Let_def)
    with x show ?thesis by (simp add: populateChannels_other)
  next
    case False
    with Cons.prems have "ch \<in> set chs" "cleanAt (populateChannel c x) gid" by (auto simp: populateChannel_other)
    with Cons.IH [OF _ _ Cons.prems(3) this(2)] Cons.prems(1) show ?thesis by (simp add: populateChannel_view)
  qed
qed simp

lemma populate_filled:
  assumes "distinct (concat (map ch_GroupIDs chs))" and "ch \<in> set chs" and "gid \<in> set (ch_GroupIDs ch)"
  shows "filledAt (populateChannelCache chs gp now) gid (normalizeBillingModelSource ch) (platformOf gp gid)"
    and "cc_groupPlatform (populateChannelCache chs gp now) = gp"
proof -
  have "cleanAt (newEmptyChannelCache\<lparr>cc_groupPlatform := gp, cc_loadedAt := now\<rparr>) gid"
    by (simp add: cleanAt_def newEmptyChannelCache_def priceTable_def mapTable_def)
  from populateChannels_fill [OF assms this]
  show "filledAt (populateChannelCache chs gp now) gid (normalizeBillingModelSource ch) (platformOf gp gid)"
    by (simp add: populateChannelCache_def)
  have "cc_groupPlatform (foldl populateChannel c chs) = cc_groupPlatform c" for c
    by (induction chs arbitrary: c) (simp_all add: populateChannel_view)
  then show "cc_groupPlatform (populateChannelCache chs gp now) = gp" by (simp add: populateChannelCache_def)
qed

lemma lookupGroup_filled:
  assumes "filledAt c gid ch (platformOf (cc_groupPlatform c) gid)" and "IsActiveChannel ch"
  shows "lookupGroupChannel c gid =
    Some \<lparr>cl_cache = c, cl_channel = ch, cl_platform = platformOf (cc_groupPlatform c) gid\<rparr>"
  using assms by (simp add: lookupGroupChannel_def filledAt_def platformOf_def)

subsection \<open>The readings\<close>

lemma find_priced:
  "map_option snd (List.find (\<lambda>x. me_matches (fst x) (to_lower model)) (pairs pl ps)) = List.find (priced pl model) ps"
proof (induction ps)
  case (Cons p ps)
  have find_app: "List.find P (xs @ ys) = (case List.find P xs of Some y \<Rightarrow> Some y | None \<Rightarrow> List.find P ys)" for P :: "'a \<Rightarrow> bool" and xs ys
    by (induction xs) auto
  have one: "map_option snd (List.find (\<lambda>x. me_matches (fst x) l) (map (\<lambda>m. (toModelEntry m, p)) ms)) =
      (if \<exists>m \<in> set ms. me_matches (toModelEntry m) l then Some p else None)" for l ms
  proof (induction ms)
    case (Cons m ms)
    then show ?case by (cases "me_matches (toModelEntry m) l") simp_all
  qed simp
  show ?case
    using Cons one [of "to_lower model" "cm_Models p"]
    by (auto simp: find_app priced_def split: option.splits if_splits)
qed simp

lemma count_priced: "length (filter (priced pl model) ps) \<le> length (filter (\<lambda>x. me_matches (fst x) (to_lower model)) (pairs pl ps))"
proof (induction ps)
  case (Cons p ps)
  let ?xs = "map (\<lambda>m. (toModelEntry m, p)) (cm_Models p)"
  have "priced pl model p \<Longrightarrow> filter (\<lambda>x. me_matches (fst x) (to_lower model)) ?xs \<noteq> []"
    by (auto simp: priced_def filter_empty_conv)
  then have "priced pl model p \<Longrightarrow> 1 \<le> length (filter (\<lambda>x. me_matches (fst x) (to_lower model)) ?xs)"
    by (metis One_nat_def Suc_leI length_greater_0_conv)
  moreover have "priced pl model p \<Longrightarrow> cm_Platform p = pl" by (simp add: priced_def)
  ultimately show ?case using Cons by (cases "priced pl model p") (auto simp del: filter_map)
qed simp

text \<open>
  C17: A group has at most one price for a model.  If every group belongs to one channel and the channel's
  configuration was accepted, at most one entry of its price list for the group's platform has a name or
  pattern for the model; the cache returns exactly that entry, in whatever order names and wildcards were
  entered; and a restricted channel refuses exactly the models without one.
\<close>

theorem channel_price_unique:
  assumes "distinct (concat (map ch_GroupIDs chs))" and "ch \<in> set chs" and "gid \<in> set (ch_GroupIDs ch)"
    and "validateChannelConfig (ch_ModelPricing ch) (ch_ModelMapping ch) = None" and "IsActiveChannel ch"
  shows "length (filter (priced (platformOf gp gid) model) (ch_ModelPricing ch)) \<le> 1 \<and>
    GetChannelModelPricing (populateChannelCache chs gp now) gid model =
      List.find (priced (platformOf gp gid) model) (ch_ModelPricing ch) \<and>
    IsModelRestricted (populateChannelCache chs gp now) gid model =
      (ch_RestrictModels ch \<and> filter (priced (platformOf gp gid) model) (ch_ModelPricing ch) = [])"
proof -
  let ?pl = "platformOf gp gid"
  let ?c = "populateChannelCache chs gp now"
  have "validatePricingEntries (ch_ModelPricing ch) = None" using assms(4) by (simp add: validateChannelConfig_def)
  note one = accepted_pairs [OF this, of "to_lower model" ?pl]
  note filled = populate_filled [OF assms(1-3), of gp now]
  have lk: "lookupGroupChannel ?c gid = Some \<lparr>cl_cache = ?c, cl_channel = normalizeBillingModelSource ch, cl_platform = ?pl\<rparr>"
    using lookupGroup_filled [of ?c gid] filled assms(5) by simp
  have "lookupPricingAcrossPlatforms ?c gid ?pl (to_lower model) = List.find (priced ?pl model) (ch_ModelPricing ch)"
    using filled(1) look_puts [OF one, of "(Map.empty, [])"]
    by (simp add: lookupPricing_look filledAt_def find_priced) (simp add: look_def)
  with lk one count_priced [of ?pl model "ch_ModelPricing ch"] show ?thesis
    by (auto simp: GetChannelModelPricing_def IsModelRestricted_def checkRestricted_def find_None_iff filter_empty_conv)
qed

lemma channel_price_unique_witness:
  "map_option cm_Models (GetChannelModelPricing (populateChannelCache [exChannel] [7 \<mapsto> ''openai'', 8 \<mapsto> ''anthropic''] 0) 8 ''Claude-OPUS-4'') =
     Some [''claude-opus-*'', ''Claude-Haiku''] \<and>
   IsModelRestricted (populateChannelCache [exChannel] [7 \<mapsto> ''openai'', 8 \<mapsto> ''anthropic''] 0) 8 ''gpt''"
proof -
  let ?gp = "[7 \<mapsto> ''openai'', 8 \<mapsto> ''anthropic''] :: int \<rightharpoonup> string"
  have "map_option cm_Models (List.find (priced (platformOf ?gp 8) ''Claude-OPUS-4'') (ch_ModelPricing exChannel)) =
      Some [''claude-opus-*'', ''Claude-Haiku'']"
    by code_simp
  moreover have "filter (priced (platformOf ?gp 8) ''gpt'') (ch_ModelPricing exChannel) = []" "ch_RestrictModels exChannel"
    by code_simp+
  ultimately show ?thesis
    using channel_price_unique [OF exChannel_groups(1-3) exChannel_accepted(1) exChannel_groups(4), of ?gp] by simp
qed

text \<open>
  C36: A mapped model has one target.  However the maps of a channel are iterated, the mapping of an
  accepted channel gives a model the target of the one source name or pattern that matches it, and leaves a
  model unchanged if there is none or its target is empty.
\<close>

theorem channel_mapping_unique:
  assumes "distinct (concat (map ch_GroupIDs chs))" and "ch \<in> set chs" and "gid \<in> set (ch_GroupIDs ch)"
    and "validateChannelConfig (ch_ModelPricing ch) (ch_ModelMapping ch) = None" and "IsActiveChannel ch"
    and "map_of (ch_ModelMapping ch) (platformOf gp gid) = Some inner"
  shows "let r = ResolveChannelMapping (populateChannelCache chs gp now) gid model;
      hits = {dst. \<exists>src. (src, dst) \<in> set inner \<and> me_matches (toModelEntry src) (to_lower model)}
    in card hits \<le> 1 \<and> mr_ChannelID r = ch_ID ch \<and>
       (mr_Mapped r \<longleftrightarrow> hits \<noteq> {} \<and> hits \<noteq> {''''}) \<and> mr_MappedModel r = (if mr_Mapped r then the_elem hits else model)"
proof -
  let ?pl = "platformOf gp gid"
  let ?c = "populateChannelCache chs gp now"
  let ?P = "\<lambda>x. me_matches (fst x) (to_lower model)"
  let ?xs = "map (\<lambda>(src, dst). (toModelEntry src, dst)) inner"
  let ?hits = "{dst. \<exists>src. (src, dst) \<in> set inner \<and> me_matches (toModelEntry src) (to_lower model)}"
  have "(?pl, inner) \<in> set (ch_ModelMapping ch)" using assms(6) by (rule map_of_SomeD)
  with assms(4) have "sorted_wrt (\<lambda>a b. \<not> conflictsBetween a b) (map (\<lambda>(src, dst). toModelEntry src) inner)"
    by (force simp: validateChannelConfig_def validateNoConflictingMappings_def firstError_None detectConflicts_None)
  moreover have "map fst ?xs = map (\<lambda>(src, dst). toModelEntry src) inner" by (simp add: comp_def case_prod_unfold)
  ultimately have "sorted_wrt (\<lambda>a b. \<not> conflictsBetween a b) (map fst ?xs)" by (simp only:)
  note one = one_match_fst [OF this, of "to_lower model"]
  have hits: "?hits = snd ` set (filter ?P ?xs)" by (auto simp: image_iff) force+
  note filled = populate_filled [OF assms(1-3), of gp now]
  have lk: "lookupGroupChannel ?c gid = Some \<lparr>cl_cache = ?c, cl_channel = normalizeBillingModelSource ch, cl_platform = ?pl\<rparr>"
    using lookupGroup_filled [of ?c gid] filled assms(5) by simp
  have look: "look (mapTable ?c gid ?pl) (to_lower model) = map_option snd (List.find ?P ?xs)"
    using filled(1) look_puts [OF one, of "(Map.empty, [])"] assms(6)
    by (simp add: filledAt_def mapPairs_def) (simp add: look_def)
  consider (none) "filter ?P ?xs = []" | (some) x where "filter ?P ?xs = [x]"
    using one by (cases "filter ?P ?xs") auto
  then show ?thesis
  proof cases
    case none
    then have none: "List.find ?P ?xs = None" "?hits = {}" using hits by (auto simp: find_None_iff filter_empty_conv)
    show ?thesis unfolding Let_def none(2) using look none(1)
      by (simp add: ResolveChannelMapping_def lk resolveMapping_def lookupMapping_look Let_def)
  next
    case some
    then have "List.find ?P ?xs = Some x" by (simp only: find_filter) simp
    moreover have "?hits = {snd x}" using hits some by simp
    ultimately show ?thesis using look
      by (simp add: ResolveChannelMapping_def lk resolveMapping_def lookupMapping_look Let_def)
  qed
qed

lemma channel_mapping_unique_witness:
  "mr_MappedModel (ResolveChannelMapping (populateChannelCache [exChannel] [7 \<mapsto> ''openai'', 8 \<mapsto> ''anthropic''] 0) 8 ''BIG-one'') =
     ''claude-opus-4''"
proof -
  let ?gp = "[7 \<mapsto> ''openai'', 8 \<mapsto> ''anthropic''] :: int \<rightharpoonup> string"
  let ?inner = "[(''fast'', ''claude-haiku''), (''big-*'', ''claude-opus-4'')]"
  have inner: "map_of (ch_ModelMapping exChannel) (platformOf ?gp 8) = Some ?inner"
    by (simp add: exChannel_def platformOf_def)
  have two: "{y. \<exists>x. (x, y) \<in> set [(a, c), (b, d)] \<and> P x} = {d}" if "\<not> P a" "P b" for P and a b c d :: string
    using that by auto
  have "\<not> me_matches (toModelEntry ''fast'') (to_lower ''BIG-one'')" "me_matches (toModelEntry ''big-*'') (to_lower ''BIG-one'')"
    by code_simp+
  note two [of "\<lambda>m. me_matches (toModelEntry m) (to_lower ''BIG-one'')", OF this]
  then show ?thesis
    using channel_mapping_unique [OF exChannel_groups(1-3) exChannel_accepted(1) exChannel_groups(4) inner, of 0 "''BIG-one''"]
    unfolding Let_def by (simp only: if_split) simp
qed

end
