(* ===== verification/ChannelListing.thy ===== *)
theory ChannelListing
  imports ChannelProperties
begin

section \<open>Channels: price intervals and supported models\<close>

subsection \<open>Intervals\<close>

lemma validateEach_None: "validateEach i ivs = None \<longleftrightarrow> (\<forall>iv \<in> set ivs. validateSingleInterval iv 0 = None)"
proof (induction ivs arbitrary: i)
  case (Cons iv ivs)
  have "validateSingleInterval iv i = None \<longleftrightarrow> validateSingleInterval iv 0 = None"
    by (simp add: validateSingleInterval_def validateIntervalPrices_def Let_def split: option.splits)
  with Cons show ?case by (auto split: option.splits)
qed simp

definition before :: "PricingInterval \<Rightarrow> PricingInterval \<Rightarrow> bool" where
  "before a b \<longleftrightarrow> (case pv_MaxTokens a of None \<Rightarrow> False | Some m \<Rightarrow> m \<le> pv_MinTokens b)"

lemma valid_interval:
  "validateSingleInterval iv 0 = None \<Longrightarrow> 0 \<le> pv_MinTokens iv \<and> covers (pv_MinTokens iv + 1) iv"
  by (auto simp: validateSingleInterval_def covers_def Let_def split: option.splits if_splits)

lemma before_trans: "before a b \<Longrightarrow> validateSingleInterval b 0 = None \<Longrightarrow> before b c \<Longrightarrow> before a c"
  using valid_interval [of b] by (fastforce simp: before_def covers_def split: option.splits)

lemma before_disjoint: "before a b \<Longrightarrow> covers n a \<Longrightarrow> covers n b \<Longrightarrow> False"
  by (auto simp: before_def covers_def split: option.splits)

lemma overlap_None:
  assumes "\<forall>iv \<in> set ivs. validateSingleInterval iv 0 = None"
  shows "validateIntervalOverlap i prev ivs = None \<longleftrightarrow>
    sorted_wrt before ivs \<and> (\<forall>p. prev = Some p \<longrightarrow> (\<forall>iv \<in> set ivs. before p iv))"
  using assms
proof (induction ivs arbitrary: i prev)
  case (Cons iv ivs)
  have ih: "validateIntervalOverlap (i + 1) (Some iv) ivs = None \<longleftrightarrow> sorted_wrt before ivs \<and> (\<forall>x \<in> set ivs. before iv x)"
    using Cons.IH [of "i + 1" "Some iv"] Cons.prems by simp
  have unbounded: "pv_MaxTokens iv = None \<Longrightarrow> ivs \<noteq> [] \<Longrightarrow> \<not> (\<forall>x \<in> set ivs. before iv x)"
    by (auto simp: before_def neq_Nil_conv)
  show ?case
  proof (cases prev)
    case None
    with ih unbounded show ?thesis by auto
  next
    case (Some p)
    have "before p iv \<Longrightarrow> \<forall>x \<in> set ivs. before iv x \<Longrightarrow> \<forall>x \<in> set ivs. before p x"
      using before_trans [of p iv] Cons.prems by auto
    moreover have "(case pv_MaxTokens p of None \<Rightarrow> True | Some m \<Rightarrow> pv_MinTokens iv < m) \<longleftrightarrow> \<not> before p iv"
      by (auto simp: before_def split: option.split)
    ultimately show ?thesis using Some ih unbounded by auto
  qed
qed simp

lemma one_cover:
  assumes "sorted_wrt before ivs"
  shows "length (filter (covers n) ivs) \<le> 1"
  using assms
proof (induction ivs)
  case (Cons iv ivs)
  then show ?case using before_disjoint [of iv _ n] by (cases "covers n iv") (auto simp: filter_empty_conv)
qed simp

lemma cover_order:
  assumes "sorted (map pv_MinTokens ivs)" and "\<forall>iv \<in> set ivs. validateSingleInterval iv 0 = None"
    and "\<And>n. length (filter (covers n) ivs) \<le> 1"
  shows "sorted_wrt before ivs"
  using assms
proof (induction ivs)
  case (Cons a ivs)
  have "before a b" if b: "b \<in> set ivs" for b
  proof (rule ccontr)
    assume "\<not> before a b"
    moreover have "pv_MinTokens a \<le> pv_MinTokens b" "covers (pv_MinTokens b + 1) b"
      using Cons.prems(1,2) b valid_interval [of b] by auto
    ultimately have "covers (pv_MinTokens b + 1) a" "filter (covers (pv_MinTokens b + 1)) ivs \<noteq> []"
      using b by (auto simp: before_def covers_def filter_empty_conv split: option.splits)
    with Cons.prems(3) [of "pv_MinTokens b + 1"] show False by auto
  qed
  moreover have "length (filter (covers n) ivs) \<le> 1" for n
    using Cons.prems(3) [of n] by (auto split: if_splits)
  then have "sorted_wrt before ivs" using Cons.IH Cons.prems(1,2) by simp
  ultimately show ?case by simp
qed simp

lemma mset_filter_length: "mset xs = mset ys \<Longrightarrow> length (filter P xs) = length (filter P ys)"
  by (metis mset_filter size_mset)

text \<open>
  C35: The intervals of an entry with token prices are accepted exactly if each is well formed and no
  number of tokens lies in two of them, whichever order sorting leaves intervals with equal lower bounds
  in.  Then the matching interval does not depend on the order of the list.
\<close>

theorem intervals_accepted_iff_disjoint:
  assumes "\<not> labelled mode" and "mset ivs' = mset ivs" and "sorted (map pv_MinTokens ivs')"
  shows "(validateSorted ivs' mode = None \<longleftrightarrow> ValidateIntervals ivs mode = None) \<and>
    (ValidateIntervals ivs mode = None \<longleftrightarrow>
      (\<forall>iv \<in> set ivs. validateSingleInterval iv 0 = None) \<and> (\<forall>n. length (filter (covers n) ivs) \<le> 1)) \<and>
    (ValidateIntervals ivs mode = None \<longrightarrow> (\<forall>n. FindMatchingInterval ivs' n = FindMatchingInterval ivs n))"
proof -
  let ?ok = "(\<forall>iv \<in> set ivs. validateSingleInterval iv 0 = None) \<and> (\<forall>n. length (filter (covers n) ivs) \<le> 1)"
  have sorted_ok: "validateSorted xs mode = None \<longleftrightarrow> ?ok" if xs: "mset xs = mset ivs" "sorted (map pv_MinTokens xs)" for xs
  proof -
    have "set xs = set ivs" using xs(1) by (rule mset_eq_setD)
    then have "validateSorted xs mode = None \<longleftrightarrow> (\<forall>iv \<in> set ivs. validateSingleInterval iv 0 = None) \<and> sorted_wrt before xs"
      using assms(1) overlap_None [of xs 0 None] validateEach_None [of 0 xs]
      by (auto simp: validateSorted_def split: option.splits)
    moreover have "(\<forall>iv \<in> set ivs. validateSingleInterval iv 0 = None) \<Longrightarrow>
        sorted_wrt before xs \<longleftrightarrow> (\<forall>n. length (filter (covers n) xs) \<le> 1)"
      using one_cover [of xs] cover_order [OF xs(2)] \<open>set xs = set ivs\<close> by auto
    ultimately show ?thesis using mset_filter_length [OF xs(1)] by auto
  qed
  have acc: "ValidateIntervals ivs mode = None \<longleftrightarrow> ?ok"
    using sorted_ok [of "sort_key pv_MinTokens ivs"] by (auto simp: ValidateIntervals_def)
  have "FindMatchingInterval ivs' n = FindMatchingInterval ivs n" if ?ok for n
  proof -
    have single: "mset xs = mset ys \<Longrightarrow> length ys \<le> 1 \<Longrightarrow> xs = ys" for xs ys :: "PricingInterval list"
      by (cases xs; cases ys) (auto simp: Suc_le_eq dest: mset_eq_length)
    have "mset (filter (covers n) ivs') = mset (filter (covers n) ivs)" using assms(2) by simp
    then have "filter (covers n) ivs' = filter (covers n) ivs" using that by (intro single) auto
    then show ?thesis by (simp add: FindMatchingInterval_def find_filter)
  qed
  with acc sorted_ok [OF assms(2,3)] show ?thesis by blast
qed

lemma intervals_accepted_iff_disjoint_witness:
  "ValidateIntervals exIntervals BillingModeToken = None \<and>
   FindMatchingInterval [exInterval 0 (Some 200) 3, exInterval 200 None 6] 200 = FindMatchingInterval exIntervals 200"
proof -
  have acc: "ValidateIntervals exIntervals BillingModeToken = None" "\<not> labelled BillingModeToken" by code_simp+
  moreover have "mset [exInterval 0 (Some 200) 3, exInterval 200 None 6] = mset exIntervals"
    "sorted (map pv_MinTokens [exInterval 0 (Some 200) 3, exInterval 200 None 6])"
    by (simp_all add: exIntervals_def exInterval_def)
  ultimately show ?thesis using intervals_accepted_iff_disjoint [OF acc(2)] by blast
qed

subsection \<open>Supported models\<close>

definition wild :: "string \<Rightarrow> bool" where
  "wild m \<longleftrightarrow> snd (splitWildcardSuffix m)"

definition index_ok :: "platformPricingIndex \<Rightarrow> bool" where
  "index_ok px \<longleftrightarrow> distinct (map to_lower (px_names px)) \<and> dom (px_originalCase px) = dom (px_byLower px) \<and>
     (\<forall>n \<in> set (px_names px). px_originalCase px (to_lower n) = Some n \<and> \<not> wild n) \<and>
     (\<forall>l m. px_originalCase px l = Some m \<longrightarrow> to_lower m = l \<and> m \<in> set (px_names px))"

lemma indexModel_cases:
  obtains (same) "indexModel p px m = px" "wild m \<or> to_lower m \<in> dom (px_byLower px)"
    | (new) "\<not> wild m" "px_byLower px (to_lower m) = None"
        "indexModel p px m = \<lparr>px_byLower = (px_byLower px)(to_lower m \<mapsto> p), px_originalCase = (px_originalCase px)(to_lower m \<mapsto> m),
           px_names = px_names px @ [m]\<rparr>"
proof (cases "wild m \<or> to_lower m \<in> dom (px_byLower px)")
  case True
  then show ?thesis by (intro same) (auto simp: indexModel_def wild_def Let_def)
next
  case False
  then show ?thesis by (intro new) (auto simp: indexModel_def wild_def Let_def)
qed

lemma indexModel_ok:
  assumes "index_ok px"
  shows "index_ok (indexModel p px m)" "dom (px_byLower px) \<subseteq> dom (px_byLower (indexModel p px m))"
    "wild m \<or> to_lower m \<in> dom (px_byLower (indexModel p px m))"
proof -
  have "index_ok (indexModel p px m) \<and> dom (px_byLower px) \<subseteq> dom (px_byLower (indexModel p px m)) \<and>
    (wild m \<or> to_lower m \<in> dom (px_byLower (indexModel p px m)))"
  proof (cases rule: indexModel_cases [of p px m])
    case same
    with assms show ?thesis by auto
  next
    case new
    then have none: "px_originalCase px (to_lower m) = None" using assms by (metis domIff index_ok_def)
    then have "to_lower m \<notin> to_lower ` set (px_names px)" using assms by (metis imageE index_ok_def not_Some_eq)
    have A: "px_originalCase px (to_lower n) = Some n" "\<not> wild n" if "n \<in> set (px_names px)" for n
      using assms that by (simp_all add: index_ok_def)
    have B: "to_lower m' = l" "m' \<in> set (px_names px)" if "px_originalCase px l = Some m'" for l m'
      using assms that by (simp_all add: index_ok_def)
    have C: "distinct (map to_lower (px_names px))" "dom (px_originalCase px) = dom (px_byLower px)"
      using assms by (simp_all add: index_ok_def)
    have "((px_originalCase px)(to_lower m \<mapsto> m)) (to_lower n) = Some n \<and> \<not> wild n" if "n \<in> set (px_names px @ [m])" for n
    proof (cases "n \<in> set (px_names px)")
      case True
      with \<open>to_lower m \<notin> _\<close> have "to_lower n \<noteq> to_lower m" by (metis imageI)
      with A [OF True] show ?thesis by simp
    qed (use that new(1) in simp)
    moreover have "to_lower m' = l \<and> m' \<in> set (px_names px @ [m])" if "((px_originalCase px)(to_lower m \<mapsto> m)) l = Some m'" for l m'
      using that B [of l m'] by (cases "l = to_lower m") simp_all
    moreover have "distinct (map to_lower (px_names px @ [m]))" using C(1) \<open>to_lower m \<notin> _\<close> by simp
    moreover have "dom ((px_originalCase px)(to_lower m \<mapsto> m)) = dom ((px_byLower px)(to_lower m \<mapsto> p))" using C(2) by simp
    ultimately have "index_ok (indexModel p px m)"
      unfolding new(3) index_ok_def platformPricingIndex.select_convs by blast
    moreover have "dom (px_byLower px) \<subseteq> dom (px_byLower (indexModel p px m))" "to_lower m \<in> dom (px_byLower (indexModel p px m))"
      unfolding new(3) by auto
    ultimately show ?thesis by blast
  qed
  then show "index_ok (indexModel p px m)" "dom (px_byLower px) \<subseteq> dom (px_byLower (indexModel p px m))"
    "wild m \<or> to_lower m \<in> dom (px_byLower (indexModel p px m))" by blast+
qed

lemma indexModels_ok:
  "index_ok px \<Longrightarrow> index_ok (foldl (indexModel p) px ms) \<and> dom (px_byLower px) \<subseteq> dom (px_byLower (foldl (indexModel p) px ms)) \<and>
    (\<forall>m \<in> set ms. wild m \<or> to_lower m \<in> dom (px_byLower (foldl (indexModel p) px ms)))"
proof (induction ms arbitrary: px)
  case (Cons m ms)
  note one = indexModel_ok [OF Cons.prems, where p = p and m = m]
  from Cons.IH [OF one(1)] one(2,3) show ?case by auto
qed simp

lemma emptyIndex_ok: "index_ok emptyIndex"
  by (simp add: index_ok_def emptyIndex_def)

definition priceIndexed :: "(string \<rightharpoonup> platformPricingIndex) \<Rightarrow> ChannelModelPricing \<Rightarrow> bool" where
  "priceIndexed idx p \<longleftrightarrow> (\<forall>m \<in> set (cm_Models p). wild m \<or> (\<exists>px. idx (cm_Platform p) = Some px \<and> to_lower m \<in> dom (px_byLower px)))"

lemma buildPricingIndex_ok:
  shows "\<forall>px \<in> ran (buildPricingIndex ps). index_ok px" and "dom (buildPricingIndex ps) = set (map cm_Platform ps)"
    and "\<forall>p \<in> set ps. priceIndexed (buildPricingIndex ps) p"
proof -
  have "(\<forall>px \<in> ran (buildPricingIndex ps). index_ok px) \<and> dom (buildPricingIndex ps) = set (map cm_Platform ps) \<and>
    (\<forall>p \<in> set ps. priceIndexed (buildPricingIndex ps) p)"
  proof (induction ps rule: rev_induct)
    case (snoc p ps)
    let ?idx = "buildPricingIndex ps"
    let ?px = "case ?idx (cm_Platform p) of None \<Rightarrow> emptyIndex | Some x \<Rightarrow> x"
    have "index_ok ?px"
      using snoc emptyIndex_ok by (auto simp: ran_def split: option.split)
    note new = indexModels_ok [OF this, of p "cm_Models p"]
    have idx: "buildPricingIndex (ps @ [p]) = ?idx(cm_Platform p \<mapsto> foldl (indexModel p) ?px (cm_Models p))"
      by (simp add: buildPricingIndex_def indexPricing_def Let_def)
    have "priceIndexed (buildPricingIndex (ps @ [p])) q" if "q \<in> set ps" for q
    proof -
      have q: "priceIndexed ?idx q" using snoc that by blast
      show ?thesis
      proof (cases "cm_Platform q = cm_Platform p")
        case True
        with q new show ?thesis unfolding idx priceIndexed_def by (cases "?idx (cm_Platform p)") auto
      next
        case False
        with q show ?thesis unfolding idx priceIndexed_def by simp
      qed
    qed
    moreover have "priceIndexed (buildPricingIndex (ps @ [p])) p" using new unfolding idx priceIndexed_def by auto
    moreover have "\<forall>px \<in> ran (buildPricingIndex (ps @ [p])). index_ok px"
      using snoc new unfolding idx by (auto simp: ran_def split: if_splits)
    moreover have "dom (buildPricingIndex (ps @ [p])) = set (map cm_Platform (ps @ [p]))"
      using snoc unfolding idx by auto
    ultimately show ?case by simp
  qed (simp add: buildPricingIndex_def)
  then show "\<forall>px \<in> ran (buildPricingIndex ps). index_ok px" "dom (buildPricingIndex ps) = set (map cm_Platform ps)"
    "\<forall>p \<in> set ps. priceIndexed (buildPricingIndex ps) p" by blast+
qed

definition index_opt :: "platformPricingIndex option \<Rightarrow> bool" where
  "index_opt pidx \<longleftrightarrow> (\<forall>px. pidx = Some px \<longrightarrow> index_ok px)"

lemma lookupIndex_name:
  assumes "index_opt pidx"
  shows "to_lower (fst (lookupIndex pidx name)) = to_lower name" "\<not> wild name \<Longrightarrow> \<not> wild (fst (lookupIndex pidx name))"
proof -
  have "to_lower (fst (lookupIndex pidx name)) = to_lower name \<and> (\<not> wild name \<longrightarrow> \<not> wild (fst (lookupIndex pidx name)))"
  proof (cases pidx)
    case (Some px)
    with assms have ok: "index_ok px" by (simp add: index_opt_def)
    show ?thesis
    proof (cases "px_byLower px (to_lower name)")
      case (Some p)
      with ok obtain m where m: "px_originalCase px (to_lower name) = Some m" by (metis domD domI index_ok_def)
      with ok have "to_lower m = to_lower name \<and> \<not> wild m" by (auto simp: index_ok_def)
      with Some m \<open>pidx = Some px\<close> show ?thesis by (simp add: lookupIndex_def)
    qed (simp add: lookupIndex_def Some)
  qed (simp add: lookupIndex_def)
  then show "to_lower (fst (lookupIndex pidx name)) = to_lower name" "\<not> wild name \<Longrightarrow> \<not> wild (fst (lookupIndex pidx name))"
    by auto
qed

lemma modelKey_supported [simp]: "modelKey (supported pl x) = (pl, to_lower (fst x))" "sm_Name (supported pl x) = fst x"
  by (simp_all add: modelKey_def supported_def case_prod_unfold)

lemma mappedModels_keys:
  assumes "index_opt pidx"
  shows "distinct (map modelKey (mappedModels pl pidx (src, dst)))"
    "\<forall>m \<in> set (mappedModels pl pidx (src, dst)). fst (modelKey m) = pl \<and> me_matches (toModelEntry src) (snd (modelKey m)) \<and> \<not> wild (sm_Name m)"
proof -
  note name = lookupIndex_name [OF assms]
  have names: "distinct (map to_lower (px_names px)) \<and> (\<forall>n \<in> set (px_names px). \<not> wild n)" if "pidx = Some px" for px
    using assms that by (auto simp: index_opt_def index_ok_def)
  show "distinct (map modelKey (mappedModels pl pidx (src, dst)))"
  proof (cases rule: split_lower [of src])
    case (wild p)
    have "map modelKey (mappedModels pl pidx (src, dst)) =
      map (Pair pl) (case pidx of None \<Rightarrow> [] | Some px \<Rightarrow> map to_lower (filter (\<lambda>x. has_prefix (to_lower x) (to_lower p)) (px_names px)))"
      using wild name(1) by (cases pidx) (simp_all add: mappedModels_def)
    then show ?thesis using names by (simp add: distinct_map_filter distinct_map [where f = "Pair pl"] inj_on_def split: option.split)
  qed (simp add: mappedModels_def Let_def)
  show "\<forall>m \<in> set (mappedModels pl pidx (src, dst)). fst (modelKey m) = pl \<and> me_matches (toModelEntry src) (snd (modelKey m)) \<and> \<not> wild (sm_Name m)"
  proof (cases rule: split_lower [of src])
    case (wild p)
    show ?thesis
    proof (cases pidx)
      case (Some px)
      with names wild show ?thesis by (auto simp: mappedModels_def me_matches_def name [unfolded Some])
    qed (use wild in \<open>simp add: mappedModels_def\<close>)
  next
    case exact
    then have "\<not> wild src" by (simp add: wild_def)
    with exact name show ?thesis by (simp add: mappedModels_def me_matches_def Let_def)
  qed
qed

text \<open>The pairs of a mapping; two maps are equal if their pairs are.\<close>

definition flat :: "(string \<times> (string \<times> string) list) list \<Rightarrow> (string \<times> string \<times> string) list" where
  "flat mapping = concat (map (\<lambda>(pl, inner). map (Pair pl) inner) mapping)"

lemma addModels_distinct:
  "distinct (map modelKey ms) \<Longrightarrow> foldl addModel r ms = r @ filter (\<lambda>m. modelKey m \<notin> modelKey ` set r) ms"
proof (induction ms arbitrary: r)
  case (Cons m ms)
  have "filter (\<lambda>x. modelKey x \<notin> modelKey ` set (r @ [m])) ms = filter (\<lambda>x. modelKey x \<notin> modelKey ` set r) ms"
  proof -
    have "modelKey m \<notin> modelKey ` set ms" using Cons.prems by simp
    then have "x \<in> set ms \<Longrightarrow> modelKey x \<noteq> modelKey m" for x by (metis imageI)
    then show ?thesis by (intro filter_cong) auto
  qed
  with Cons show ?case by (auto simp: addModel_def)
qed simp

lemma distinct_concat_disjoint:
  "(\<And>x. x \<in> set xs \<Longrightarrow> distinct (f x)) \<Longrightarrow> sorted_wrt (\<lambda>x y. set (f x) \<inter> set (f y) = {}) xs \<Longrightarrow> distinct (concat (map f xs))"
  by (induction xs) auto

lemma fst_disjoint: "\<forall>k \<in> A. fst k = a \<Longrightarrow> \<forall>k \<in> B. fst k = b \<Longrightarrow> a \<noteq> b \<Longrightarrow> A \<inter> B = {}"
  by (metis disjoint_iff)

lemma distinct_sorted_wrt: "distinct (map f xs) \<Longrightarrow> sorted_wrt (\<lambda>x y. f x \<noteq> f y) xs"
  by (induction xs) auto

lemma index_opt: "index_opt (buildPricingIndex ps pl)"
  using buildPricingIndex_ok(1) by (auto simp: index_opt_def ran_def)

lemma passA_distinct:
  assumes accepted: "validateNoConflictingMappings (ch_ModelMapping c) = None" and map: "distinct (map fst (ch_ModelMapping c))"
  shows "distinct (map modelKey (passA c))"
proof -
  let ?idx = "buildPricingIndex (ch_ModelPricing c)"
  let ?keys = "\<lambda>pl inner. concat (map (\<lambda>p. map modelKey (mappedModels pl (?idx pl) p)) inner)"
  note keys = mappedModels_keys [OF index_opt]
  have key_of: "fst (modelKey m) = pl" "me_matches (toModelEntry (fst p)) (snd (modelKey m))"
    if "m \<in> set (mappedModels pl (?idx pl) p)" for m pl p
    using that bspec [OF mappedModels_keys(2) [OF index_opt [of "ch_ModelPricing c" pl], of pl "fst p" "snd p"], of m] by simp_all
  have inner: "distinct (?keys pl inner)" if "(pl, inner) \<in> set (ch_ModelMapping c)" for pl :: string and inner :: "(string \<times> string) list"
  proof (rule distinct_concat_disjoint)
    fix p assume "p \<in> set inner"
    show "distinct (map modelKey (mappedModels pl (?idx pl) p))" using keys(1) by (cases p) simp
  next
    have "sorted_wrt (\<lambda>a b. \<not> conflictsBetween a b) (map (\<lambda>(src, dst). toModelEntry src) inner)"
      using accepted that by (force simp: validateNoConflictingMappings_def firstError_None detectConflicts_None)
    then have "sorted_wrt (\<lambda>p q. \<not> conflictsBetween (toModelEntry (fst p)) (toModelEntry (fst q))) inner"
      by (simp add: sorted_wrt_map case_prod_unfold)
    then show "sorted_wrt (\<lambda>p q. set (map modelKey (mappedModels pl (?idx pl) p)) \<inter> set (map modelKey (mappedModels pl (?idx pl) q)) = {}) inner"
    proof (rule sorted_wrt_mono_rel [rotated])
      fix p q :: "string \<times> string"
      assume "\<not> conflictsBetween (toModelEntry (fst p)) (toModelEntry (fst q))"
      then have "me_matches (toModelEntry (fst p)) l \<Longrightarrow> \<not> me_matches (toModelEntry (fst q)) l" for l
        using matches_conflict by blast
      moreover have "\<forall>k \<in> set (map modelKey (mappedModels pl (?idx pl) p)). me_matches (toModelEntry (fst p)) (snd k)" for p :: "string \<times> string"
        using key_of(2) by simp
      ultimately show "set (map modelKey (mappedModels pl (?idx pl) p)) \<inter> set (map modelKey (mappedModels pl (?idx pl) q)) = {}"
        by (meson disjoint_iff)
    qed
  qed
  have outer: "sorted_wrt (\<lambda>x y. set (?keys (fst x) (snd x)) \<inter> set (?keys (fst y) (snd y)) = {}) (ch_ModelMapping c)"
  proof -
    have keys_fst: "\<forall>k \<in> set (?keys pl inner). fst k = pl" for pl :: string and inner :: "(string \<times> string) list"
    proof
      fix k assume "k \<in> set (?keys pl inner)"
      then obtain m p where "m \<in> set (mappedModels pl (?idx pl) p)" "k = modelKey m" by auto
      with key_of(1) show "fst k = pl" by blast
    qed
    have disj: "pl \<noteq> pl' \<Longrightarrow> set (?keys pl inner) \<inter> set (?keys pl' inner') = {}" for pl pl' inner inner'
      by (rule fst_disjoint [OF keys_fst keys_fst])
    have "sorted_wrt (\<lambda>x y. fst x \<noteq> fst y) (ch_ModelMapping c)"
      using map by (rule distinct_sorted_wrt)
    then show ?thesis by (rule sorted_wrt_mono_rel [rotated]) (rule disj)
  qed
  have "distinct (concat (map (\<lambda>x. ?keys (fst x) (snd x)) (ch_ModelMapping c)))"
    by (rule distinct_concat_disjoint [OF _ outer], rule inner) simp
  moreover have "map modelKey (passA c) = concat (map (\<lambda>x. ?keys (fst x) (snd x)) (ch_ModelMapping c))"
    by (simp add: passA_def Let_def map_concat comp_def case_prod_unfold)
  ultimately show ?thesis by simp
qed

lemma passB_distinct: "distinct order \<Longrightarrow> distinct (map modelKey (passB order c))"
proof -
  let ?idx = "buildPricingIndex (ch_ModelPricing c)"
  let ?keys = "\<lambda>pl. case ?idx pl of None \<Rightarrow> [] | Some px \<Rightarrow> map (Pair pl) (map to_lower (px_names px))"
  have "map modelKey (passB order c) = concat (map ?keys order)"
  proof -
    have "map modelKey (case ?idx pl of None \<Rightarrow> [] | Some px \<Rightarrow> map (\<lambda>name. supported pl (lookupIndex (Some px) name)) (px_names px)) = ?keys pl" for pl
    proof (cases "?idx pl")
      case (Some px)
      have "to_lower (fst (lookupIndex (Some px) name)) = to_lower name" for name
        using lookupIndex_name(1) [OF index_opt [of "ch_ModelPricing c" pl], of name] Some by simp
      with Some show ?thesis by simp
    qed simp
    then show ?thesis by (simp add: passB_def Let_def map_concat comp_def)
  qed
  moreover have "distinct (map (Pair pl) ls)" if "distinct ls" for pl :: string and ls :: "string list"
    using that by (simp add: distinct_map inj_on_def)
  then have "distinct (?keys pl)" for pl
    using index_opt [of "ch_ModelPricing c" pl] by (auto simp: index_opt_def index_ok_def simp del: map_map split: option.split)
  moreover assume "distinct order"
  then have "sorted_wrt (\<lambda>x y. set (?keys x) \<inter> set (?keys y) = {}) order"
    using distinct_sorted_wrt [of "\<lambda>x. x" order] by (auto elim!: sorted_wrt_mono_rel [rotated] split: option.split)
  ultimately show ?thesis by (simp add: distinct_concat_disjoint)
qed

lemma supported_unsorted:
  assumes accepted: "validateNoConflictingMappings (ch_ModelMapping c) = None" and map: "distinct (map fst (ch_ModelMapping c))"
    and order: "distinct order"
  shows "foldl addModel [] (passA c @ passB order c) = passA c @ filter (\<lambda>m. modelKey m \<notin> modelKey ` set (passA c)) (passB order c)"
  using addModels_distinct [OF passA_distinct [OF accepted map], of "[]"] addModels_distinct [OF passB_distinct [OF order], of "passA c"] by simp

lemma supported_distinct:
  assumes accepted: "validateNoConflictingMappings (ch_ModelMapping c) = None" and map: "distinct (map fst (ch_ModelMapping c))"
    and order: "distinct order"
  shows "distinct (map modelKey (foldl addModel [] (passA c @ passB order c)))"
  unfolding supported_unsorted [OF assms] using passA_distinct [OF accepted map] passB_distinct [OF order]
  by (auto simp: distinct_map inj_on_def)

lemma set_passA:
  "set (passA c) = (\<Union>(pl, p) \<in> set (flat (ch_ModelMapping c)). set (mappedModels pl (buildPricingIndex (ch_ModelPricing c) pl) p))"
  by (force simp: passA_def flat_def Let_def)

lemma set_passB:
  "set (passB order c) = (\<Union>pl \<in> set order. case buildPricingIndex (ch_ModelPricing c) pl of None \<Rightarrow> {}
     | Some px \<Rightarrow> (\<lambda>name. supported pl (lookupIndex (Some px) name)) ` set (px_names px))"
  unfolding passB_def Let_def set_concat set_map image_image by (intro SUP_cong) (auto split: option.split)

lemma keys_append: "f ` set (xs @ filter (\<lambda>m. f m \<notin> f ` set xs) ys) = f ` set xs \<union> f ` set ys"
proof -
  have "f ` {y \<in> Y. f y \<notin> A} = f ` Y - A" for Y A by auto
  then have "f ` set (filter (\<lambda>m. f m \<notin> f ` set xs) ys) = f ` set ys - f ` set xs" by simp
  then show ?thesis by (simp add: image_Un Un_Diff_cancel)
qed

lemma sort_unique: "distinct (map f xs) \<Longrightarrow> mset xs = mset ys \<Longrightarrow> sort_key f xs = sort_key f ys"
  by (rule sort_key_inj_key_eq) (simp_all add: distinct_map)

lemma passA_not_wild: "m \<in> set (passA c) \<Longrightarrow> \<not> wild (sm_Name m)"
  using mappedModels_keys(2) [OF index_opt] by (force simp: set_passA)

lemma passB_not_wild: "m \<in> set (passB order c) \<Longrightarrow> \<not> wild (sm_Name m)"
proof -
  assume "m \<in> set (passB order c)"
  then obtain pl px n where m: "buildPricingIndex (ch_ModelPricing c) pl = Some px" "n \<in> set (px_names px)"
    "m = supported pl (lookupIndex (Some px) n)"
    by (auto simp: set_passB split: option.splits)
  then have "index_ok px" using buildPricingIndex_ok(1) [of "ch_ModelPricing c"] by (auto simp: ran_def)
  then have "\<not> wild n" using m(2) by (simp add: index_ok_def)
  with m show ?thesis using lookupIndex_name(2) [OF index_opt [of "ch_ModelPricing c" pl], of n] by simp
qed

lemma priced_listed:
  assumes "set order = cm_Platform ` set (ch_ModelPricing c)"
    and p: "p \<in> set (ch_ModelPricing c)" "m \<in> set (cm_Models p)" "\<not> wild m"
  shows "(cm_Platform p, to_lower m) \<in> modelKey ` set (passB order c)"
proof -
  obtain px where px: "buildPricingIndex (ch_ModelPricing c) (cm_Platform p) = Some px" "to_lower m \<in> dom (px_byLower px)"
    using buildPricingIndex_ok(3) p unfolding priceIndexed_def by blast
  have ok: "index_ok px" using buildPricingIndex_ok(1) [of "ch_ModelPricing c"] px(1) by (auto simp: ran_def)
  then obtain n where n: "n \<in> set (px_names px)" "to_lower n = to_lower m"
    using px(2) unfolding index_ok_def by (metis domD)
  have "modelKey (supported (cm_Platform p) (lookupIndex (Some px) n)) = (cm_Platform p, to_lower m)"
    using lookupIndex_name(1) [of "Some px" n] ok n(2) by (simp add: index_opt_def)
  moreover have "supported (cm_Platform p) (lookupIndex (Some px) n) \<in> set (passB order c)"
    unfolding set_passB by (rule UN_I [of "cm_Platform p"]) (use px(1) n(1) p(1) assms(1) in simp_all)
  ultimately show ?thesis by (metis imageI)
qed

text \<open>
  C37: The list of supported models does not depend on the order in which maps are iterated: two
  accepted channels with the same prices and the same pairs in their mappings have the same list.  It names
  no wildcard, no model twice (up to case), is sorted, and has every model with a price.
\<close>

theorem supported_models_unordered:
  assumes "validateNoConflictingMappings (ch_ModelMapping c) = None" and "validateNoConflictingMappings (ch_ModelMapping c') = None"
    and "distinct (map fst (ch_ModelMapping c))" and "distinct (map fst (ch_ModelMapping c'))"
    and "ch_ModelPricing c' = ch_ModelPricing c" and "set (flat (ch_ModelMapping c')) = set (flat (ch_ModelMapping c))"
    and "distinct order" and "distinct order'" and "set order = cm_Platform ` set (ch_ModelPricing c)" and "set order' = set order"
  shows "SupportedModels order' c' = SupportedModels order c \<and>
    (let ms = SupportedModels order c
     in sorted (map (\<lambda>m. (sm_Platform m, sm_Name m)) ms) \<and> distinct (map modelKey ms) \<and> (\<forall>m \<in> set ms. \<not> wild (sm_Name m)) \<and>
        (\<forall>p \<in> set (ch_ModelPricing c). \<forall>m \<in> set (cm_Models p). wild m \<or> (cm_Platform p, to_lower m) \<in> modelKey ` set ms))"
proof -
  let ?idx = "buildPricingIndex (ch_ModelPricing c)"
  let ?k = "\<lambda>m. (sm_Platform m, sm_Name m)"
  let ?ms = "passA c @ filter (\<lambda>m. modelKey m \<notin> modelKey ` set (passA c)) (passB order c)"
  let ?ms' = "passA c' @ filter (\<lambda>m. modelKey m \<notin> modelKey ` set (passA c')) (passB order' c')"
  note list = supported_unsorted [OF assms(1,3,7)] supported_unsorted [OF assms(2,4,8)]
  note dist = supported_distinct [OF assms(1,3,7), unfolded list] supported_distinct [OF assms(2,4,8), unfolded list]
  have "set ?ms = set ?ms'" by (simp add: set_passA set_passB assms(5,6,10))
  with dist have same: "mset ?ms = mset ?ms'" by (simp only: distinct_map set_eq_iff_mset_eq_distinct)
  have "inj_on ?k (set ?ms)" using dist(1) unfolding distinct_map inj_on_def modelKey_def by force
  with dist(1) have "distinct (map ?k ?ms)" unfolding distinct_map by blast
  from sort_unique [OF this same] have eq: "sort_key ?k ?ms' = sort_key ?k ?ms" by (rule sym)
  have empty: "SupportedModels order c = sort_key ?k ?ms" "SupportedModels order' c' = sort_key ?k ?ms'"
  proof -
    have none: "passA x = []" "passB ord x = []" if "ch_ModelMapping x = []" "ch_ModelPricing x = []" for x ord
      using that by (simp_all add: passA_def passB_def buildPricingIndex_def Let_def)
    show "SupportedModels order c = sort_key ?k ?ms" "SupportedModels order' c' = sort_key ?k ?ms'"
      unfolding SupportedModels_def list using none by simp_all
  qed
  have "\<not> wild (sm_Name m)" if "m \<in> set ?ms" for m
    using that passA_not_wild passB_not_wild by auto
  moreover have "(cm_Platform p, to_lower m) \<in> modelKey ` set ?ms"
    if "p \<in> set (ch_ModelPricing c)" "m \<in> set (cm_Models p)" "\<not> wild m" for p m
    using priced_listed [OF assms(9) that] unfolding keys_append by blast
  moreover have "distinct (map modelKey (sort_key ?k ?ms))"
    using dist(1) unfolding distinct_map by (simp only: distinct_sort set_sort)
  moreover have "sorted (map ?k (sort_key ?k ?ms))" by (rule sorted_sort_key)
  ultimately show ?thesis unfolding empty eq Let_def set_sort by blast
qed

lemma supported_models_unordered_witness:
  "SupportedModels [''anthropic''] (exChannel\<lparr>ch_ModelMapping := [(''anthropic'', [(''big-*'', ''claude-opus-4''), (''fast'', ''claude-haiku'')])]\<rparr>) =
     SupportedModels [''anthropic''] exChannel \<and> distinct (map modelKey (SupportedModels [''anthropic''] exChannel))"
proof -
  let ?m = "[(''anthropic'', [(''big-*'', ''claude-opus-4''), (''fast'', ''claude-haiku'')])]"
  have acc: "validateNoConflictingMappings ?m = None" by code_simp
  have "set (flat ?m) = set (flat (ch_ModelMapping exChannel))" "distinct (map fst ?m)" "distinct (map fst (ch_ModelMapping exChannel))"
    "set [''anthropic''] = cm_Platform ` set (ch_ModelPricing exChannel)"
    by (auto simp: flat_def exChannel_def exPricing_def)
  with supported_models_unordered [OF exChannel_accepted(2), of "exChannel\<lparr>ch_ModelMapping := ?m\<rparr>" "[''anthropic'']" "[''anthropic'']"] acc
  show ?thesis by (simp add: Let_def)
qed

end
