(* ===== verification/ModelNames.thy ===== *)
theory ModelNames
  imports ChannelPricing
begin

section \<open>Names of models\<close>

text \<open>
  \<open>service/openai_model_alias.go\<close> and the table of \<open>service/openai_codex_transform.go\<close>: the spellings
  under which clients and channels name a model, and the known model that is billed for them.
\<close>

subsection \<open>More of package strings\<close>

fun contains :: "string \<Rightarrow> string \<Rightarrow> bool" where
  "contains [] sub = (sub = [])"
| "contains (c # s) sub = (has_prefix (c # s) sub \<or> contains s sub)"

definition has_suffix :: "string \<Rightarrow> string \<Rightarrow> bool" where
  "has_suffix s suf = has_prefix (rev s) (rev suf)"

definition trim_prefix :: "string \<Rightarrow> string \<Rightarrow> string" where
  "trim_prefix s p = (case cut_prefix s p of None \<Rightarrow> s | Some r \<Rightarrow> r)"

definition trim_suffix :: "string \<Rightarrow> string \<Rightarrow> string" where
  "trim_suffix s suf = (if has_suffix s suf then take (length s - length suf) s else s)"

text \<open>\<open>strings.ReplaceAll\<close> for a nonempty first argument.\<close>

function replace_all :: "string \<Rightarrow> string \<Rightarrow> string \<Rightarrow> string" where
  "replace_all old new [] = []"
| "replace_all old new (c # s) =
     (if old \<noteq> [] \<and> has_prefix (c # s) old then new @ replace_all old new (drop (length old) (c # s))
      else c # replace_all old new s)"
  by pat_completeness auto
termination
  by (relation "measure (\<lambda>(old, new, s). length s)") (auto simp: neq_Nil_conv)

text \<open>\<open>strings.Split\<close> at a separator of one byte, \<open>strings.Join\<close> and \<open>strings.Fields\<close>.\<close>

fun split_at :: "char \<Rightarrow> string \<Rightarrow> string list" where
  "split_at sep [] = [[]]"
| "split_at sep (c # s) =
     (if c = sep then [] # split_at sep s
      else case split_at sep s of [] \<Rightarrow> [[c]] | w # ws \<Rightarrow> (c # w) # ws)"

fun join_with :: "string \<Rightarrow> string list \<Rightarrow> string" where
  "join_with sep [] = []"
| "join_with sep [s] = s"
| "join_with sep (s # ss) = s @ sep @ join_with sep ss"

fun word_len :: "string \<Rightarrow> nat" where
  "word_len [] = 0"
| "word_len (c # s) = (if space_len (c # s) = 0 then Suc (word_len s) else 0)"

lemma drop_while_len_le: "length (drop_while_len f s) \<le> length s"
  using drop_while_len_suffix [of s f] by (metis le_add2 length_append)

lemma word_len_pos: "s \<noteq> [] \<Longrightarrow> space_len s = 0 \<Longrightarrow> 0 < word_len s"
  by (cases s) auto

function fields :: "string \<Rightarrow> string list" where
  "fields s = (let w = drop_while_len space_len s
     in if w = [] then [] else take (word_len w) w # fields (drop (word_len w) w))"
  by pat_completeness auto
termination
proof (relation "measure length", goal_cases)
  case (2 s w)
  then have "space_len w = 0" by (simp add: drop_while_len_stop)
  with 2 have "0 < word_len w" by (simp add: word_len_pos)
  moreover have "length w \<le> length s" "0 < length w" using 2 by (simp_all add: drop_while_len_le)
  ultimately have "length w - word_len w < length s" by linarith
  then show ?case by simp
qed simp

declare fields.simps [simp del]

text \<open>A loop that replaces double dashes as long as there are any.\<close>

lemma replace_all_le: "length new \<le> length old \<Longrightarrow> length (replace_all old new s) \<le> length s"
proof (induction old new s rule: replace_all.induct)
  case (2 old new c s)
  have "length old \<le> Suc (length s)" if "has_prefix (c # s) old"
    using that by (metis has_prefix_iff le_add1 length_Cons length_append)
  with 2 show ?case by force
qed simp

lemma replace_all_less:
  "length new < length old \<Longrightarrow> contains s old \<Longrightarrow> length (replace_all old new s) < length s"
proof (induction old new s rule: replace_all.induct)
  case (2 old new c s)
  have "length old \<le> Suc (length s)" if "has_prefix (c # s) old"
    using that by (metis has_prefix_iff le_add1 length_Cons length_append)
  moreover have "length (replace_all old new (drop (length old) (c # s))) \<le> length (drop (length old) (c # s))"
    using 2(3) by (intro replace_all_le) simp
  ultimately show ?case using 2 by force
qed simp

function collapseDashes :: "string \<Rightarrow> string" where
  "collapseDashes s = (if contains s ''--'' then collapseDashes (replace_all ''--'' ''-'' s) else s)"
  by pat_completeness auto
termination
  by (relation "measure length") (simp_all add: replace_all_less)

declare collapseDashes.simps [simp del]

subsection \<open>Spellings of OpenAI models\<close>

text \<open>The map of \<open>openai_codex_transform.go\<close>, and its key for a name.\<close>

definition codexModelMap :: "(string \<times> string) list" where
  "codexModelMap =
     [(''gpt-5.5'', ''gpt-5.5''), (''gpt-5.5-pro'', ''gpt-5.5-pro''), (''codex-auto-review'', ''codex-auto-review''),
      (''gpt-5.4'', ''gpt-5.4''), (''gpt-5.4-mini'', ''gpt-5.4-mini''), (''gpt-5.4-none'', ''gpt-5.4''),
      (''gpt-5.4-low'', ''gpt-5.4''), (''gpt-5.4-medium'', ''gpt-5.4''), (''gpt-5.4-high'', ''gpt-5.4''),
      (''gpt-5.4-xhigh'', ''gpt-5.4''), (''gpt-5.4-chat-latest'', ''gpt-5.4''), (''gpt-5.3'', ''gpt-5.3-codex''),
      (''gpt-5.3-none'', ''gpt-5.3-codex''), (''gpt-5.3-low'', ''gpt-5.3-codex''), (''gpt-5.3-medium'', ''gpt-5.3-codex''),
      (''gpt-5.3-high'', ''gpt-5.3-codex''), (''gpt-5.3-xhigh'', ''gpt-5.3-codex''), (''gpt-5.3-codex'', ''gpt-5.3-codex''),
      (''gpt-5.3-codex-spark'', ''gpt-5.3-codex-spark''), (''gpt-5.3-codex-low'', ''gpt-5.3-codex''), (''gpt-5.3-codex-medium'', ''gpt-5.3-codex''),
      (''gpt-5.3-codex-high'', ''gpt-5.3-codex''), (''gpt-5.3-codex-xhigh'', ''gpt-5.3-codex''), (''gpt-5.2'', ''gpt-5.2''),
      (''gpt-5.2-none'', ''gpt-5.2''), (''gpt-5.2-low'', ''gpt-5.2''), (''gpt-5.2-medium'', ''gpt-5.2''),
      (''gpt-5.2-high'', ''gpt-5.2''), (''gpt-5.2-xhigh'', ''gpt-5.2''), (''gpt-5'', ''gpt-5.4''),
      (''gpt-5-mini'', ''gpt-5.4''), (''gpt-5-nano'', ''gpt-5.4''), (''gpt-5.1'', ''gpt-5.4''),
      (''gpt-5.1-codex'', ''gpt-5.3-codex''), (''gpt-5.1-codex-max'', ''gpt-5.3-codex''), (''gpt-5.1-codex-mini'', ''gpt-5.3-codex''),
      (''gpt-5.2-codex'', ''gpt-5.2''), (''codex-mini-latest'', ''gpt-5.3-codex''), (''gpt-5-codex'', ''gpt-5.3-codex'')]"

definition lastSlash :: "string \<Rightarrow> string" where
  "lastSlash s = last (split_at (CHR ''/'') s)"

definition codexModelLookupKey :: "string \<Rightarrow> string" where
  "codexModelLookupKey modelID0 =
     (let modelID = trim_space modelID0
      in if modelID = '''' then ''''
         else to_lower (join_with ''-'' (fields (if contains modelID ''/'' then lastSlash modelID else modelID))))"

definition getNormalizedCodexModel :: "string \<Rightarrow> string" where
  "getNormalizedCodexModel modelID =
     (let key = codexModelLookupKey modelID
      in if key = '''' then '''' else case map_of codexModelMap key of Some m \<Rightarrow> m | None \<Rightarrow> '''')"

definition lastOpenAIModelSegment :: "string \<Rightarrow> string" where
  "lastOpenAIModelSegment model0 =
     (let model = trim_space model0
      in if model = '''' then '''' else trim_space (if contains model ''/'' then lastSlash model else model))"

definition aliasReplacements :: "(string \<times> string) list" where
  "aliasReplacements =
     [(''gpt-5.4mini'', ''gpt-5.4-mini''), (''gpt-5.4nano'', ''gpt-5.4-nano''),
      (''gpt-5.3-codexspark'', ''gpt-5.3-codex-spark''), (''gpt-5.3codexspark'', ''gpt-5.3-codex-spark''),
      (''gpt-5.3codex'', ''gpt-5.3-codex'')]"

definition canonicalizeOpenAIModelAliasSpelling :: "string \<Rightarrow> string" where
  "canonicalizeOpenAIModelAliasSpelling model0 =
     (let model = to_lower (lastOpenAIModelSegment model0)
      in if model = '''' then ''''
         else let n1 = collapseDashes (join_with ''-'' (fields (replace_all ''_'' ''-'' model)));
                  n2 = (if has_prefix n1 ''gpt5'' then ''gpt-5'' @ trim_prefix n1 ''gpt5'' else n1)
              in if \<not> has_prefix n2 ''gpt-'' \<and> \<not> contains n2 ''codex'' then ''''
                 else foldl (\<lambda>n (old, new). replace_all old new n) n2 aliasReplacements)"

text \<open>The families in the order of the \<open>switch\<close>.\<close>

definition codexFamilies :: "(string \<times> string) list" where
  "codexFamilies =
     [(''gpt-5.5-pro'', ''gpt-5.5-pro''), (''gpt-5.5'', ''gpt-5.5''), (''gpt-5.4-mini'', ''gpt-5.4-mini''),
      (''gpt-5.4-nano'', ''gpt-5.4-nano''), (''gpt-5.4'', ''gpt-5.4''), (''gpt-5.2'', ''gpt-5.2''),
      (''gpt-5.3-codex-spark'', ''gpt-5.3-codex-spark''), (''gpt-5.3-codex'', ''gpt-5.3-codex''),
      (''gpt-5.3'', ''gpt-5.3-codex''), (''codex'', ''gpt-5.3-codex''), (''gpt-5'', ''gpt-5.4'')]"

definition codexFamily :: "string \<Rightarrow> string" where
  "codexFamily normalized =
     (case List.find (\<lambda>(pattern, _). contains normalized pattern) codexFamilies of None \<Rightarrow> '''' | Some (_, m) \<Rightarrow> m)"

definition normalizeKnownOpenAICodexModel :: "string \<Rightarrow> string" where
  "normalizeKnownOpenAICodexModel model =
     (let normalized = canonicalizeOpenAIModelAliasSpelling model;
          mapped = getNormalizedCodexModel normalized;
          compact = (if has_suffix normalized ''-openai-compact''
                     then getNormalizedCodexModel (trim_suffix normalized ''-openai-compact'') else '''')
      in if normalized = '''' then ''''
         else if mapped \<noteq> '''' then mapped
         else if compact \<noteq> '''' then compact
         else codexFamily normalized)"

subsection \<open>Candidates for billing\<close>

definition addCandidate :: "string list \<Rightarrow> string \<Rightarrow> string list" where
  "addCandidate candidates candidate0 =
     (let candidate = trim_space candidate0
      in if candidate = '''' \<or> to_lower candidate \<in> to_lower ` set candidates then candidates
         else candidates @ [candidate])"

definition appendUsageBillingModelCandidate :: "string list \<Rightarrow> string \<Rightarrow> string list" where
  "appendUsageBillingModelCandidate candidates model =
     (let trimmed = trim_space model;
          canonical = canonicalizeOpenAIModelAliasSpelling trimmed;
          normalized = normalizeKnownOpenAICodexModel trimmed;
          c1 = addCandidate candidates trimmed;
          c2 = (if canonical \<noteq> '''' then addCandidate c1 canonical else c1)
      in if trimmed = '''' then candidates else if normalized \<noteq> '''' then addCandidate c2 normalized else c2)"

definition usageBillingModelCandidates :: "string \<Rightarrow> string list \<Rightarrow> string list" where
  "usageBillingModelCandidates primary alternates =
     foldl appendUsageBillingModelCandidate (appendUsageBillingModelCandidate [] primary) alternates"

definition firstUsageBillingModel :: "string list \<Rightarrow> string" where
  "firstUsageBillingModel candidates =
     (case List.find (\<lambda>c. trim_space c \<noteq> '''') candidates of None \<Rightarrow> '''' | Some c \<Rightarrow> trim_space c)"

definition forwardResultBillingModel :: "string \<Rightarrow> string \<Rightarrow> string" where
  "forwardResultBillingModel requestedModel upstreamModel =
     (if trim_space requestedModel \<noteq> '''' then trim_space requestedModel else trim_space upstreamModel)"

end
