(* ===== verification/ModelPrices.thy ===== *)
theory ModelPrices
  imports ModelNames ChannelCache
begin

section \<open>The price list\<close>

text \<open>
  \<open>service/pricing_service.go\<close>: the list of model prices that is downloaded from time to time, reading it,
  and finding the price for the name of a model.  JSON decoding of an entry is left to the caller of
  \<open>parsePricingData\<close>.  The list is a Go map, here the pairs in the order of its iteration, which is arbitrary.
  Downloading, files and hashes are not modelled.
\<close>

record LiteLLMModelPricing =
  ll_InputCostPerToken :: rat
  ll_InputCostPerTokenPriority :: rat
  ll_OutputCostPerToken :: rat
  ll_OutputCostPerTokenPriority :: rat
  ll_CacheCreationInputTokenCost :: rat
  ll_CacheCreationInputTokenCostAbove1hr :: rat
  ll_CacheReadInputTokenCost :: rat
  ll_CacheReadInputTokenCostPriority :: rat
  ll_LongContextInputTokenThreshold :: int
  ll_LongContextInputCostMultiplier :: rat
  ll_LongContextOutputCostMultiplier :: rat
  ll_SupportsServiceTier :: bool
  ll_LiteLLMProvider :: string
  ll_Mode :: string
  ll_SupportsPromptCaching :: bool
  ll_OutputCostPerImage :: rat
  ll_OutputCostPerImageToken :: rat

definition zeroLiteLLM :: LiteLLMModelPricing where
  "zeroLiteLLM = \<lparr>ll_InputCostPerToken = 0, ll_InputCostPerTokenPriority = 0, ll_OutputCostPerToken = 0,
     ll_OutputCostPerTokenPriority = 0, ll_CacheCreationInputTokenCost = 0, ll_CacheCreationInputTokenCostAbove1hr = 0,
     ll_CacheReadInputTokenCost = 0, ll_CacheReadInputTokenCostPriority = 0, ll_LongContextInputTokenThreshold = 0,
     ll_LongContextInputCostMultiplier = 0, ll_LongContextOutputCostMultiplier = 0, ll_SupportsServiceTier = False,
     ll_LiteLLMProvider = '''', ll_Mode = '''', ll_SupportsPromptCaching = False, ll_OutputCostPerImage = 0,
     ll_OutputCostPerImageToken = 0\<rparr>"

record LiteLLMRawEntry =
  re_InputCostPerToken :: "rat option"
  re_InputCostPerTokenPriority :: "rat option"
  re_OutputCostPerToken :: "rat option"
  re_OutputCostPerTokenPriority :: "rat option"
  re_CacheCreationInputTokenCost :: "rat option"
  re_CacheCreationInputTokenCostAbove1hr :: "rat option"
  re_CacheReadInputTokenCost :: "rat option"
  re_CacheReadInputTokenCostPriority :: "rat option"
  re_SupportsServiceTier :: bool
  re_LiteLLMProvider :: string
  re_Mode :: string
  re_SupportsPromptCaching :: bool
  re_OutputCostPerImage :: "rat option"
  re_OutputCostPerImageToken :: "rat option"

type_synonym price_list = "(string \<times> LiteLLMModelPricing) list"

subsection \<open>Reading the list\<close>

definition orZero :: "rat option \<Rightarrow> rat" where
  "orZero v = (case v of None \<Rightarrow> 0 | Some x \<Rightarrow> x)"

definition parseEntry :: "LiteLLMRawEntry \<Rightarrow> LiteLLMModelPricing" where
  "parseEntry e = zeroLiteLLM\<lparr>ll_LiteLLMProvider := re_LiteLLMProvider e, ll_Mode := re_Mode e,
     ll_SupportsPromptCaching := re_SupportsPromptCaching e, ll_SupportsServiceTier := re_SupportsServiceTier e,
     ll_InputCostPerToken := orZero (re_InputCostPerToken e),
     ll_InputCostPerTokenPriority := orZero (re_InputCostPerTokenPriority e),
     ll_OutputCostPerToken := orZero (re_OutputCostPerToken e),
     ll_OutputCostPerTokenPriority := orZero (re_OutputCostPerTokenPriority e),
     ll_CacheCreationInputTokenCost := orZero (re_CacheCreationInputTokenCost e),
     ll_CacheCreationInputTokenCostAbove1hr := orZero (re_CacheCreationInputTokenCostAbove1hr e),
     ll_CacheReadInputTokenCost := orZero (re_CacheReadInputTokenCost e),
     ll_CacheReadInputTokenCostPriority := orZero (re_CacheReadInputTokenCostPriority e),
     ll_OutputCostPerImage := orZero (re_OutputCostPerImage e),
     ll_OutputCostPerImageToken := orZero (re_OutputCostPerImageToken e)\<rparr>"

text \<open>An entry is \<open>None\<close> if it cannot be decoded.\<close>

definition parsePricingData :: "(string \<times> LiteLLMRawEntry option) list \<Rightarrow> go_error + price_list" where
  "parsePricingData rawData =
     (let result = concat (map (\<lambda>(modelName, raw).
            if modelName = ''sample_spec'' then []
            else case raw of None \<Rightarrow> []
              | Some e \<Rightarrow> if re_InputCostPerToken e = None \<and> re_OutputCostPerToken e = None then []
                          else [(modelName, parseEntry e)]) rawData)
      in if result = [] then Inl (OtherError ''no valid pricing entries found'' None) else Inr result)"

subsection \<open>Names\<close>

text \<open>\<open>strings.TrimLeft(s, "/")\<close>, and the rest after the last occurrence of a nonempty string.\<close>

definition trim_left_slash :: "string \<Rightarrow> string" where
  "trim_left_slash s = dropWhile (\<lambda>c. c = CHR ''/'') s"

fun after_last :: "string \<Rightarrow> string \<Rightarrow> string option" where
  "after_last sub [] = None"
| "after_last sub (c # s) =
     (case after_last sub s of Some r \<Rightarrow> Some r | None \<Rightarrow> cut_prefix (c # s) sub)"

definition afterLast :: "string \<Rightarrow> string \<Rightarrow> string" where
  "afterLast sub s = (case after_last sub s of Some r \<Rightarrow> r | None \<Rightarrow> s)"

definition lastSegment :: "string \<Rightarrow> string" where
  "lastSegment model = afterLast ''/'' model"

definition normalizeModelNameForPricing :: "string \<Rightarrow> string" where
  "normalizeModelNameForPricing model0 =
     (let m1 = trim_left_slash (trim_space model0);
          m2 = trim_prefix (trim_prefix m1 ''models/'') ''publishers/google/models/'';
          m3 = afterLast ''/models/'' (afterLast ''/publishers/google/models/'' m2);
          m4 = trim_left_slash m3;
          canonical = canonicalizeOpenAIModelAliasSpelling m4
      in if canonical \<noteq> '''' then canonical else m4)"

definition buildModelLookupCandidates :: "string \<Rightarrow> string list" where
  "buildModelLookupCandidates modelLower =
     (let candidates = [normalizeModelNameForPricing modelLower, modelLower, trim_prefix modelLower ''models/'',
            lastSegment modelLower, lastSegment (trim_prefix modelLower ''models/'')];
          out = foldl (\<lambda>out c. let c = trim_space c in if c = '''' \<or> c \<in> set out then out else out @ [c]) [] candidates
      in if out = [] then [modelLower] else out)"

definition isNumeric :: "string \<Rightarrow> bool" where
  "isNumeric s \<longleftrightarrow> list_all digit s"

definition extractBaseName :: "string \<Rightarrow> string" where
  "extractBaseName model =
     join_with ''-'' (filter (\<lambda>part. \<not> (length part = 8 \<and> isNumeric part) \<and> \<not> contains part '':'')
       (split_at (CHR ''-'') model))"

subsection \<open>Families of Claude models\<close>

record modelFamily =
  mf_name :: string
  mf_match :: "string list"
  mf_pricing :: "string list"

definition claudeFamilies :: "modelFamily list" where
  "claudeFamilies = map (\<lambda>(n, m, p). \<lparr>mf_name = n, mf_match = m, mf_pricing = p\<rparr>)
     [(''opus-4.7'', [''claude-opus-4-7'', ''claude-opus-4.7''], [''claude-opus-4-7'', ''claude-opus-4.7'', ''claude-opus-4-6'']),
      (''opus-4.6'', [''claude-opus-4-6'', ''claude-opus-4.6''], []),
      (''opus-4.5'', [''claude-opus-4-5'', ''claude-opus-4.5''], []),
      (''opus-4'', [''claude-opus-4'', ''claude-3-opus''], []),
      (''sonnet-4.5'', [''claude-sonnet-4-5'', ''claude-sonnet-4.5''], []),
      (''sonnet-4'', [''claude-sonnet-4'', ''claude-3-5-sonnet''], []),
      (''sonnet-3.5'', [''claude-3-5-sonnet'', ''claude-3.5-sonnet''], []),
      (''sonnet-3'', [''claude-3-sonnet''], []),
      (''haiku-3.5'', [''claude-3-5-haiku'', ''claude-3.5-haiku''], []),
      (''haiku-3'', [''claude-3-haiku''], [])]"

definition familyFallbackName :: "string \<Rightarrow> string" where
  "familyFallbackName model =
     (if contains model ''opus''
      then if contains model ''4.7'' \<or> contains model ''4-7'' then ''opus-4.7''
           else if contains model ''4.6'' \<or> contains model ''4-6'' then ''opus-4.6''
           else if contains model ''4.5'' \<or> contains model ''4-5'' then ''opus-4.5''
           else ''opus-4''
      else if contains model ''sonnet''
      then if contains model ''4.5'' \<or> contains model ''4-5'' then ''sonnet-4.5''
           else if contains model ''3-5'' \<or> contains model ''3.5'' then ''sonnet-3.5''
           else ''sonnet-4''
      else if contains model ''haiku''
      then if contains model ''3-5'' \<or> contains model ''3.5'' then ''haiku-3.5'' else ''haiku-3''
      else '''')"

definition matchedFamily :: "string \<Rightarrow> modelFamily option" where
  "matchedFamily model =
     (case List.find (\<lambda>f. list_ex (\<lambda>p. contains model p \<or> contains model (replace_all ''-'' '''' p)) (mf_match f)) claudeFamilies of
        Some f \<Rightarrow> Some f
      | None \<Rightarrow>
         (if familyFallbackName model = '''' then None
          else List.find (\<lambda>f. mf_name f = familyFallbackName model) claudeFamilies))"

definition matchByModelFamily :: "price_list \<Rightarrow> string \<Rightarrow> LiteLLMModelPricing option" where
  "matchByModelFamily data model =
     (case matchedFamily model of
        None \<Rightarrow> None
      | Some f \<Rightarrow>
         (let lookups = (if mf_pricing f = [] then mf_match f else mf_pricing f);
              hits = concat (map (\<lambda>pattern. filter (\<lambda>(key, _). contains (to_lower key) pattern) data) lookups)
          in case hits of [] \<Rightarrow> None | (_, pricing) # _ \<Rightarrow> Some pricing))"

subsection \<open>OpenAI models\<close>

definition openAIGPT54FallbackPricing :: LiteLLMModelPricing where
  "openAIGPT54FallbackPricing = zeroLiteLLM\<lparr>ll_InputCostPerToken := 2.5 / 10 ^ 6, ll_OutputCostPerToken := 15 / 10 ^ 6,
     ll_CacheReadInputTokenCost := 2.5 / 10 ^ 7, ll_LongContextInputTokenThreshold := 272000,
     ll_LongContextInputCostMultiplier := 2, ll_LongContextOutputCostMultiplier := 3 / 2, ll_LiteLLMProvider := ''openai'',
     ll_Mode := ''chat'', ll_SupportsPromptCaching := True\<rparr>"

definition openAIGPT54MiniFallbackPricing :: LiteLLMModelPricing where
  "openAIGPT54MiniFallbackPricing = zeroLiteLLM\<lparr>ll_InputCostPerToken := 7.5 / 10 ^ 7, ll_OutputCostPerToken := 4.5 / 10 ^ 6,
     ll_CacheReadInputTokenCost := 7.5 / 10 ^ 8, ll_LiteLLMProvider := ''openai'', ll_Mode := ''chat'',
     ll_SupportsPromptCaching := True\<rparr>"

definition openAIGPT54NanoFallbackPricing :: LiteLLMModelPricing where
  "openAIGPT54NanoFallbackPricing = zeroLiteLLM\<lparr>ll_InputCostPerToken := 2 / 10 ^ 7, ll_OutputCostPerToken := 1.25 / 10 ^ 6,
     ll_CacheReadInputTokenCost := 2 / 10 ^ 8, ll_LiteLLMProvider := ''openai'', ll_Mode := ''chat'',
     ll_SupportsPromptCaching := True\<rparr>"

text \<open>The regular expressions \<open>-\d{8}$\<close> and \<open>^(gpt-\d+(?:\.\d+)?)(?:-|$)\<close>.\<close>

definition withoutDate :: "string \<Rightarrow> string" where
  "withoutDate model =
     (let n = length model - 9
      in if 9 \<le> length model \<and> model ! n = CHR ''-'' \<and> list_all digit (drop (Suc n) model) then take n model else model)"

definition baseVersion :: "string \<Rightarrow> string option" where
  "baseVersion model =
     (case cut_prefix model ''gpt-'' of
        None \<Rightarrow> None
      | Some rest \<Rightarrow>
         (let major = takeWhile digit rest; r1 = dropWhile digit rest;
              minor = (case r1 of c # r2 \<Rightarrow> if c = CHR ''.'' then takeWhile digit r2 else [] | [] \<Rightarrow> []);
              version = (if minor = [] then major else major @ ''.'' @ minor);
              r = drop (length version) rest
          in if major \<noteq> [] \<and> (r = [] \<or> hd r = CHR ''-'') then Some (''gpt-'' @ version) else None))"

definition addVariant :: "string \<Rightarrow> string list \<Rightarrow> string option \<Rightarrow> string list" where
  "addVariant model variants v =
     (case v of None \<Rightarrow> variants
      | Some v \<Rightarrow> if v \<noteq> model \<and> v \<notin> set variants then variants @ [v] else variants)"

definition generateOpenAIModelVariants :: "string \<Rightarrow> string list" where
  "generateOpenAIModelVariants model =
     (let bare = withoutDate model;
          dated = (bare \<noteq> model)
      in foldl (addVariant model) []
           [if dated then Some bare else None, baseVersion model, if dated then baseVersion bare else None])"

definition isOpenAIImageGenerationModel :: "string \<Rightarrow> bool" where
  "isOpenAIImageGenerationModel model = has_prefix (to_lower (trim_space model)) ''gpt-image-''"

definition DefaultTestModel :: string where "DefaultTestModel = ''gpt-5.4''"

definition listedIf :: "price_list \<Rightarrow> bool \<Rightarrow> string \<Rightarrow> LiteLLMModelPricing option" where
  "listedIf data c key = (if c then map_of data key else None)"

definition matchOpenAIModel :: "price_list \<Rightarrow> string \<Rightarrow> LiteLLMModelPricing option" where
  "matchOpenAIModel data model =
     (case listedIf data (has_prefix model ''gpt-5.3-codex-spark'') ''gpt-5.1-codex'' of
        Some p \<Rightarrow> Some p
      | None \<Rightarrow>
     (case firstSome (map_of data) (generateOpenAIModelVariants model) of
        Some p \<Rightarrow> Some p
      | None \<Rightarrow>
     (case listedIf data (has_prefix model ''gpt-5.3-codex'') ''gpt-5.2-codex'' of
        Some p \<Rightarrow> Some p
      | None \<Rightarrow>
         if has_prefix model ''gpt-5.5'' then Some openAIGPT54FallbackPricing
         else if has_prefix model ''gpt-5.4-mini'' then Some openAIGPT54MiniFallbackPricing
         else if has_prefix model ''gpt-5.4-nano'' then Some openAIGPT54NanoFallbackPricing
         else if has_prefix model ''gpt-5.4'' then Some openAIGPT54FallbackPricing
         else if isOpenAIImageGenerationModel model
         then firstSome (map_of data) [''gpt-image-2'', ''gpt-image-1.5'', ''gpt-image-1'']
         else map_of data (to_lower DefaultTestModel))))"

subsection \<open>Finding the price of a model\<close>

definition fuzzyMatch :: "price_list \<Rightarrow> string \<Rightarrow> LiteLLMModelPricing option" where
  "fuzzyMatch data baseName =
     map_option snd (List.find (\<lambda>(key, _). extractBaseName (to_lower key) = baseName) data)"

definition LiteLLM_GetModelPricing :: "price_list \<Rightarrow> string \<Rightarrow> LiteLLMModelPricing option" where
  "LiteLLM_GetModelPricing data modelName =
     (if modelName = '''' then None
      else let modelLower = to_lower (trim_space modelName);
               cands = buildModelLookupCandidates modelLower;
               head = hd cands
           in case firstSome (map_of data) (filter (\<lambda>c. c \<noteq> '''') cands) of
                Some p \<Rightarrow> Some p
              | None \<Rightarrow>
             (case firstSome (\<lambda>c. map_of data (replace_all ''-4-5-'' ''-4.5-'' c)) cands of
                Some p \<Rightarrow> Some p
              | None \<Rightarrow>
             (case fuzzyMatch data (extractBaseName head) of
                Some p \<Rightarrow> Some p
              | None \<Rightarrow>
             (case matchByModelFamily data head of
                Some p \<Rightarrow> Some p
              | None \<Rightarrow> if has_prefix head ''gpt-'' then matchOpenAIModel data head else None))))"

definition ListModelNamesByProvider :: "price_list \<Rightarrow> string \<Rightarrow> string list" where
  "ListModelNamesByProvider data provider0 =
     (let provider = to_lower (trim_space provider0)
      in sort (map fst (filter (\<lambda>(_, p). to_lower (ll_LiteLLMProvider p) = provider) data)))"

end
