(* ===== verification/BillingPrices.thy ===== *)
theory BillingPrices
  imports ModelPrices "HOL-Library.State_Monad"
begin

section \<open>The price of a model\<close>

text \<open>
  \<open>service/billing_service.go\<close> and \<open>service/model_pricing_resolver.go\<close>: which price a model has.  The list of
  \<open>ModelPrices\<close> comes first, then a table of the program; a channel overrides either.

  The code passes pointers to prices, and the channel's prices are written through them, into the table of the
  program if the price is from there.  So prices live on a heap: the state is the list of all price objects ever
  allocated, a pointer is an index into it, and \<open>&ModelPricing{...}\<close> appends one.  Prices are exact rationals.
\<close>

record ModelPricing =
  mp_InputPricePerToken :: rat
  mp_InputPricePerTokenPriority :: rat
  mp_ImageInputPricePerToken :: rat
  mp_OutputPricePerToken :: rat
  mp_OutputPricePerTokenPriority :: rat
  mp_CacheCreationPricePerToken :: rat
  mp_CacheReadPricePerToken :: rat
  mp_CacheReadPricePerTokenPriority :: rat
  mp_CacheCreation5mPrice :: rat
  mp_CacheCreation1hPrice :: rat
  mp_SupportsCacheBreakdown :: bool
  mp_LongContextInputThreshold :: int
  mp_LongContextInputMultiplier :: rat
  mp_LongContextOutputMultiplier :: rat
  mp_ImageOutputPricePerToken :: rat
  mp_ImageOutputPriceExplicit :: bool

definition zeroPricing :: ModelPricing where
  "zeroPricing = \<lparr>mp_InputPricePerToken = 0, mp_InputPricePerTokenPriority = 0, mp_ImageInputPricePerToken = 0,
     mp_OutputPricePerToken = 0, mp_OutputPricePerTokenPriority = 0, mp_CacheCreationPricePerToken = 0,
     mp_CacheReadPricePerToken = 0, mp_CacheReadPricePerTokenPriority = 0, mp_CacheCreation5mPrice = 0,
     mp_CacheCreation1hPrice = 0, mp_SupportsCacheBreakdown = False, mp_LongContextInputThreshold = 0,
     mp_LongContextInputMultiplier = 0, mp_LongContextOutputMultiplier = 0, mp_ImageOutputPricePerToken = 0,
     mp_ImageOutputPriceExplicit = False\<rparr>"

definition openAIGPT54LongContextInputThreshold :: int where "openAIGPT54LongContextInputThreshold = 272000"
definition openAIGPT54LongContextInputMultiplier :: rat where "openAIGPT54LongContextInputMultiplier = 2"
definition openAIGPT54LongContextOutputMultiplier :: rat where "openAIGPT54LongContextOutputMultiplier = 3 / 2"

definition ErrModelPricingUnavailable :: go_error where
  "ErrModelPricingUnavailable = OtherError ''pricing not found'' None"

subsection \<open>The heap\<close>

type_synonym 'a priced = "(ModelPricing list, 'a) state"

definition new_price :: "ModelPricing \<Rightarrow> nat priced" where
  "new_price p = State (\<lambda>heap. (length heap, heap @ [p]))"

definition read_price :: "nat \<Rightarrow> ModelPricing priced" where
  "read_price a = State (\<lambda>heap. (heap ! a, heap))"

definition write_price :: "nat \<Rightarrow> (ModelPricing \<Rightarrow> ModelPricing) \<Rightarrow> unit priced" where
  "write_price a f = State (\<lambda>heap. ((), heap[a := f (heap ! a)]))"

subsection \<open>The table of the program\<close>

text \<open>In US dollars per million tokens: input, output, cache creation and cache reads.\<close>

definition perMTok :: "rat \<Rightarrow> rat \<Rightarrow> rat \<Rightarrow> rat \<Rightarrow> ModelPricing" where
  "perMTok i out cw cr = zeroPricing\<lparr>mp_InputPricePerToken := i / 10 ^ 6, mp_OutputPricePerToken := out / 10 ^ 6,
     mp_CacheCreationPricePerToken := cw / 10 ^ 6, mp_CacheReadPricePerToken := cr / 10 ^ 6\<rparr>"

definition priorityMTok :: "rat \<Rightarrow> rat \<Rightarrow> rat \<Rightarrow> ModelPricing \<Rightarrow> ModelPricing" where
  "priorityMTok i out cr p = p\<lparr>mp_InputPricePerTokenPriority := i / 10 ^ 6, mp_OutputPricePerTokenPriority := out / 10 ^ 6,
     mp_CacheReadPricePerTokenPriority := cr / 10 ^ 6\<rparr>"

text \<open>An assignment of \<open>initFallbackPricing\<close>: a new object, or the pointer of another entry.\<close>

datatype fallback_entry = PriceOf string ModelPricing | SameAs string string

definition claudeGptPrices :: "fallback_entry list" where
  "claudeGptPrices =
     [PriceOf ''claude-opus-4.5'' (perMTok 5 25 6.25 0.5),
      PriceOf ''claude-sonnet-4'' (perMTok 3 15 3.75 0.3),
      PriceOf ''claude-3-5-sonnet'' (perMTok 3 15 3.75 0.3),
      PriceOf ''claude-3-5-haiku'' (perMTok 1 5 1.25 0.1),
      PriceOf ''claude-3-opus'' (perMTok 15 75 18.75 1.5),
      PriceOf ''claude-3-haiku'' (perMTok 0.25 1.25 0.3 0.03),
      SameAs ''claude-opus-4.6'' ''claude-opus-4.5'',
      SameAs ''claude-opus-4.7'' ''claude-opus-4.6'',
      PriceOf ''gemini-3.1-pro'' (perMTok 2 12 2 0.2),
      PriceOf ''gpt-5.4'' ((priorityMTok 5 30 0.5 (perMTok 2.5 15 2.5 0.25))\<lparr>mp_LongContextInputThreshold := openAIGPT54LongContextInputThreshold, mp_LongContextInputMultiplier := openAIGPT54LongContextInputMultiplier, mp_LongContextOutputMultiplier := openAIGPT54LongContextOutputMultiplier\<rparr>),
      SameAs ''gpt-5.5'' ''gpt-5.4'',
      SameAs ''gpt-5.5-pro'' ''gpt-5.4'',
      PriceOf ''gpt-5.4-mini'' (perMTok 0.75 4.5 0 0.075),
      PriceOf ''gpt-5.4-nano'' (perMTok 0.2 1.25 0 0.02),
      PriceOf ''gpt-5.2'' (priorityMTok 3.5 28 0.35 (perMTok 1.75 14 1.75 0.175)),
      PriceOf ''gpt-5.3-codex'' (priorityMTok 3 24 0.3 (perMTok 1.5 12 1.5 0.15))]"

definition deepseekGlmPrices :: "fallback_entry list" where
  "deepseekGlmPrices =
     [PriceOf ''deepseek-v4-pro'' (perMTok 0.435 0.87 0 0.003625),
      PriceOf ''deepseek-v4-flash'' (perMTok 0.14 0.28 0 0.0028),
      PriceOf ''glm-5.1'' (perMTok 1.4 4.4 0 0.26),
      PriceOf ''glm-5'' (perMTok 1 3.2 0 0.2),
      PriceOf ''glm-5-turbo'' (perMTok 1.2 4 0 0.24),
      PriceOf ''glm-4.7'' (perMTok 0.6 2.2 0 0.11),
      PriceOf ''glm-4.7-flashx'' (perMTok 0.07 0.4 0 0.01),
      PriceOf ''glm-4.6'' (perMTok 0.6 2.2 0 0.11),
      PriceOf ''glm-4.5'' (perMTok 0.6 2.2 0 0.11),
      PriceOf ''glm-4.5-x'' (perMTok 2.2 8.9 0 0.45),
      PriceOf ''glm-4.5-air'' (perMTok 0.2 1.1 0 0.03),
      PriceOf ''glm-4.5-airx'' (perMTok 1.1 4.5 0 0.22),
      PriceOf ''glm-4-32b-0414-128k'' (perMTok 0.1 0.1 0 0),
      PriceOf ''glm-4.5-flash'' (perMTok 0 0 0 0),
      PriceOf ''glm-4.7-flash'' (perMTok 0 0 0 0)]"

definition kimiMinimaxPrices :: "fallback_entry list" where
  "kimiMinimaxPrices =
     [PriceOf ''kimi-k2.6'' (perMTok 0.95 4 0 0.15),
      PriceOf ''kimi-for-coding'' (perMTok 0.95 4 0 0.15),
      PriceOf ''kimi-k2.5'' (perMTok 0.6 3 0 0.098),
      PriceOf ''kimi-k2-thinking'' (perMTok 0.56 2.24 0 0.14),
      PriceOf ''kimi-k2'' (perMTok 0.56 2.24 0 0.14),
      PriceOf ''minimax-m3'' (perMTok 0.6 2.4 0 0.12),
      PriceOf ''minimax-m2.7'' (perMTok 0.3 1.2 0 0.06),
      PriceOf ''minimax-m2.7-highspeed'' (perMTok 0.6 2.4 0 0.06),
      PriceOf ''minimax-m2.5'' (perMTok 0.3 1.2 0 0.03),
      PriceOf ''minimax-m2.1'' (perMTok 0.3 1.2 0 0.03),
      PriceOf ''minimax-m2'' (perMTok 0.3 1.2 0 0.03)]"

definition otherPrices :: "fallback_entry list" where
  "otherPrices =
     [PriceOf ''doubao-embedding-vision'' ((perMTok 0.098 0 0 0)\<lparr>mp_ImageInputPricePerToken := 0.252 / 10 ^ 6\<rparr>),
      PriceOf ''grok-4.3'' ((perMTok 1.25 2.5 0 0)\<lparr>mp_LongContextInputThreshold := 1000000, mp_LongContextInputMultiplier := 1\<rparr>),
      PriceOf ''grok-build-0.1'' (perMTok 1 2 0 0)]"

definition fallbackEntries :: "fallback_entry list" where
  "fallbackEntries = claudeGptPrices @ deepseekGlmPrices @ kimiMinimaxPrices @ otherPrices"

fun assignEntry :: "fallback_entry \<Rightarrow> (string \<times> nat) list \<times> ModelPricing list \<Rightarrow> (string \<times> nat) list \<times> ModelPricing list" where
  "assignEntry (PriceOf key p) (table, heap) = (table @ [(key, length heap)], heap @ [p])"
| "assignEntry (SameAs key other) (table, heap) =
     (case map_of table other of Some a \<Rightarrow> (table @ [(key, a)], heap) | None \<Rightarrow> (table, heap))"

definition initFallbackPricing :: "(string \<times> nat) list \<times> ModelPricing list" where
  "initFallbackPricing = fold assignEntry fallbackEntries ([], [])"

definition fallbackPrices :: "(string \<times> nat) list" where "fallbackPrices = fst initFallbackPricing"
definition initialPrices :: "ModelPricing list" where "initialPrices = snd initFallbackPricing"

definition claudeFallback :: "string \<Rightarrow> string option" where
  "claudeFallback m =
     (if contains m ''opus''
      then if contains m ''4.7'' \<or> contains m ''4-7'' then Some ''claude-opus-4.7''
           else if contains m ''4.6'' \<or> contains m ''4-6'' then Some ''claude-opus-4.6''
           else if contains m ''4.5'' \<or> contains m ''4-5'' then Some ''claude-opus-4.5''
           else Some ''claude-3-opus''
      else if contains m ''sonnet''
      then if contains m ''4'' \<and> \<not> contains m ''3'' then Some ''claude-sonnet-4'' else Some ''claude-3-5-sonnet''
      else if contains m ''haiku''
      then if contains m ''3-5'' \<or> contains m ''3.5'' then Some ''claude-3-5-haiku'' else Some ''claude-3-haiku''
      else if contains m ''claude'' then Some ''claude-sonnet-4''
      else None)"

text \<open>One entry for each test of the code, in their order.\<close>

definition fallbackPatterns :: "(string list \<times> string) list" where
  "fallbackPatterns =
     [([''gemini-3.1-pro'', ''gemini-3-1-pro''], ''gemini-3.1-pro''),
      ([''deepseek-v4-flash''], ''deepseek-v4-flash''),
      ([''deepseek-v4-pro''], ''deepseek-v4-pro''),
      ([''deepseek-chat'', ''deepseek-reasoner''], ''deepseek-v4-flash''),
      ([''glm-5.1''], ''glm-5.1''),
      ([''glm-5-turbo'', ''glm-5turbo''], ''glm-5-turbo''),
      ([''glm-5''], ''glm-5''),
      ([''glm-4.7-flashx''], ''glm-4.7-flashx''),
      ([''glm-4.7-flash''], ''glm-4.7-flash''),
      ([''glm-4.7''], ''glm-4.7''),
      ([''glm-4.6''], ''glm-4.6''),
      ([''glm-4.5-flash''], ''glm-4.5-flash''),
      ([''glm-4.5-x'', ''glm-4.5x''], ''glm-4.5-x''),
      ([''glm-4.5-airx'', ''glm-4.5airx''], ''glm-4.5-airx''),
      ([''glm-4.5-air'', ''glm-4.5air''], ''glm-4.5-air''),
      ([''glm-4.5''], ''glm-4.5''),
      ([''glm-4-32b''], ''glm-4-32b-0414-128k''),
      ([''kimi-for-coding''], ''kimi-for-coding''),
      ([''kimi-k2.6'', ''kimi-k2-6''], ''kimi-k2.6''),
      ([''kimi-k2.5'', ''kimi-k2-5''], ''kimi-k2.5''),
      ([''kimi-k2-thinking'', ''kimi-k2-thinking-''], ''kimi-k2-thinking''),
      ([''kimi-k2'', ''kimi/k2''], ''kimi-k2''),
      ([''minimax-m3''], ''minimax-m3''),
      ([''minimax-m2.7-highspeed'', ''minimax-m2-7-highspeed''], ''minimax-m2.7-highspeed''),
      ([''minimax-m2.7'', ''minimax-m2-7''], ''minimax-m2.7''),
      ([''minimax-m2.5'', ''minimax-m2-5''], ''minimax-m2.5''),
      ([''minimax-m2.1'', ''minimax-m2-1''], ''minimax-m2.1''),
      ([''minimax-m2'', ''minimax-m-2''], ''minimax-m2''),
      ([''doubao-embedding-vision''], ''doubao-embedding-vision'')]"

definition patternFallback :: "string \<Rightarrow> string option" where
  "patternFallback m = map_option snd (List.find (\<lambda>(ps, _). list_ex (contains m) ps) fallbackPatterns)"

definition openAIFallback :: "string \<Rightarrow> string option" where
  "openAIFallback m =
     (let normalized = normalizeKnownOpenAICodexModel m
      in if normalized \<in> {''gpt-5.5-pro'', ''gpt-5.5'', ''gpt-5.4-mini'', ''gpt-5.4-nano'', ''gpt-5.4'', ''gpt-5.2''}
         then Some normalized
         else if normalized \<in> {''gpt-5.3-codex'', ''gpt-5.3-codex-spark''} then Some ''gpt-5.3-codex''
         else None)"

definition grokFallback :: "string \<Rightarrow> string option" where
  "grokFallback m =
     (if m \<in> {''grok'', ''grok-latest'', ''grok-4.3''} then Some ''grok-4.3''
      else if m \<in> {''grok-build'', ''grok-build-0.1''} then Some ''grok-build-0.1''
      else None)"

definition getFallbackPricing :: "string \<Rightarrow> nat option" where
  "getFallbackPricing model =
     (let m = to_lower model
      in firstSome (\<lambda>f. f m) [claudeFallback, patternFallback, openAIFallback, grokFallback] \<bind> map_of fallbackPrices)"

subsection \<open>Base prices\<close>

definition isOpenAIGPT54Model :: "string \<Rightarrow> bool" where
  "isOpenAIGPT54Model model \<longleftrightarrow> normalizeKnownOpenAICodexModel model \<in> {''gpt-5.4'', ''gpt-5.5'', ''gpt-5.5-pro''}"

definition withLongContext :: "ModelPricing \<Rightarrow> ModelPricing" where
  "withLongContext p = p\<lparr>
     mp_LongContextInputThreshold := (if mp_LongContextInputThreshold p \<le> 0 then openAIGPT54LongContextInputThreshold
        else mp_LongContextInputThreshold p),
     mp_LongContextInputMultiplier := (if mp_LongContextInputMultiplier p \<le> 0 then openAIGPT54LongContextInputMultiplier
        else mp_LongContextInputMultiplier p),
     mp_LongContextOutputMultiplier := (if mp_LongContextOutputMultiplier p \<le> 0 then openAIGPT54LongContextOutputMultiplier
        else mp_LongContextOutputMultiplier p)\<rparr>"

definition applyModelSpecificPricingPolicy :: "string \<Rightarrow> nat \<Rightarrow> nat priced" where
  "applyModelSpecificPricingPolicy model a =
     do {
       p \<leftarrow> read_price a;
       if \<not> isOpenAIGPT54Model model then State_Monad.return a
       else if mp_LongContextInputThreshold p > 0 \<and> mp_LongContextInputMultiplier p > 0 \<and> mp_LongContextOutputMultiplier p > 0
       then State_Monad.return a
       else new_price (withLongContext p)
     }"

definition fromLiteLLM :: "LiteLLMModelPricing \<Rightarrow> ModelPricing" where
  "fromLiteLLM l =
     (let price5m = ll_CacheCreationInputTokenCost l;
          price1h = ll_CacheCreationInputTokenCostAbove1hr l
      in zeroPricing\<lparr>mp_InputPricePerToken := ll_InputCostPerToken l,
           mp_InputPricePerTokenPriority := ll_InputCostPerTokenPriority l,
           mp_OutputPricePerToken := ll_OutputCostPerToken l,
           mp_OutputPricePerTokenPriority := ll_OutputCostPerTokenPriority l,
           mp_CacheCreationPricePerToken := ll_CacheCreationInputTokenCost l,
           mp_CacheReadPricePerToken := ll_CacheReadInputTokenCost l,
           mp_CacheReadPricePerTokenPriority := ll_CacheReadInputTokenCostPriority l,
           mp_CacheCreation5mPrice := price5m, mp_CacheCreation1hPrice := price1h,
           mp_SupportsCacheBreakdown := price1h > 0 \<and> price1h > price5m,
           mp_LongContextInputThreshold := ll_LongContextInputTokenThreshold l,
           mp_LongContextInputMultiplier := ll_LongContextInputCostMultiplier l,
           mp_LongContextOutputMultiplier := ll_LongContextOutputCostMultiplier l,
           mp_ImageOutputPricePerToken := ll_OutputCostPerImageToken l\<rparr>)"

definition Billing_GetModelPricing :: "price_list \<Rightarrow> string \<Rightarrow> (go_error + nat) priced" where
  "Billing_GetModelPricing data model0 =
     (let model = to_lower model0
      in case LiteLLM_GetModelPricing data model of
           Some l \<Rightarrow> do {
             a \<leftarrow> new_price (fromLiteLLM l);
             b \<leftarrow> applyModelSpecificPricingPolicy model a;
             State_Monad.return (Inr b)
           }
         | None \<Rightarrow>
            (case getFallbackPricing model of
               Some a \<Rightarrow> do { b \<leftarrow> applyModelSpecificPricingPolicy model a; State_Monad.return (Inr b) }
             | None \<Rightarrow> State_Monad.return
                 (Inl (OtherError (''pricing not found for model: '' @ model) (Some ErrModelPricingUnavailable)))))"

subsection \<open>Prices of a channel\<close>

text \<open>What a channel writes into a price object; a price it does not set stays.\<close>

definition setPrice :: "rat option \<Rightarrow> (rat \<Rightarrow> ModelPricing \<Rightarrow> ModelPricing) \<Rightarrow> ModelPricing \<Rightarrow> ModelPricing" where
  "setPrice v f p = (case v of None \<Rightarrow> p | Some x \<Rightarrow> f x p)"

definition setInput :: "rat \<Rightarrow> ModelPricing \<Rightarrow> ModelPricing" where
  "setInput x p = p\<lparr>mp_InputPricePerToken := x, mp_InputPricePerTokenPriority := x\<rparr>"
definition setOutput :: "rat \<Rightarrow> ModelPricing \<Rightarrow> ModelPricing" where
  "setOutput x p = p\<lparr>mp_OutputPricePerToken := x, mp_OutputPricePerTokenPriority := x\<rparr>"
definition setCacheWrite :: "rat \<Rightarrow> ModelPricing \<Rightarrow> ModelPricing" where
  "setCacheWrite x p = p\<lparr>mp_CacheCreationPricePerToken := x, mp_CacheCreation5mPrice := x, mp_CacheCreation1hPrice := x\<rparr>"
definition setCacheRead :: "rat \<Rightarrow> ModelPricing \<Rightarrow> ModelPricing" where
  "setCacheRead x p = p\<lparr>mp_CacheReadPricePerToken := x, mp_CacheReadPricePerTokenPriority := x\<rparr>"
definition setImageOutput :: "rat option \<Rightarrow> ModelPricing \<Rightarrow> ModelPricing" where
  "setImageOutput v p = p\<lparr>mp_ImageOutputPricePerToken := orZero v, mp_ImageOutputPriceExplicit := True\<rparr>"

definition flatOverrides :: "ChannelModelPricing \<Rightarrow> ModelPricing \<Rightarrow> ModelPricing" where
  "flatOverrides ch p =
     setImageOutput (cm_ImageOutputPrice ch)
       (setPrice (cm_CacheReadPrice ch) setCacheRead
         (setPrice (cm_CacheWritePrice ch) setCacheWrite
           (setPrice (cm_OutputPrice ch) setOutput
             (setPrice (cm_InputPrice ch) setInput p))))"

definition GetModelPricingWithChannel :: "price_list \<Rightarrow> string \<Rightarrow> ChannelModelPricing option \<Rightarrow> (go_error + nat) priced" where
  "GetModelPricingWithChannel data model channelPricing =
     do {
       r \<leftarrow> Billing_GetModelPricing data model;
       case (r, channelPricing) of
         (Inr a, Some ch) \<Rightarrow> do { write_price a (flatOverrides ch); State_Monad.return (Inr a) }
       | _ \<Rightarrow> State_Monad.return r
     }"

subsection \<open>The resolver\<close>

definition PricingSourceChannel :: string where "PricingSourceChannel = ''channel''"
definition PricingSourceLiteLLM :: string where "PricingSourceLiteLLM = ''litellm''"
definition PricingSourceFallback :: string where "PricingSourceFallback = ''fallback''"

record ResolvedPricing =
  rp_Mode :: string
  rp_BasePricing :: "nat option"
  rp_Intervals :: "PricingInterval list"
  rp_RequestTiers :: "PricingInterval list"
  rp_DefaultPerRequestPrice :: rat
  rp_Source :: string
  rp_SupportsCacheBreakdown :: bool
  rp_channelPricing :: "ChannelModelPricing option"

definition filterValidIntervals :: "PricingInterval list \<Rightarrow> PricingInterval list" where
  "filterValidIntervals ivs = filter (\<lambda>iv. pv_InputPrice iv \<noteq> None \<or> pv_OutputPrice iv \<noteq> None \<or>
     pv_CacheWritePrice iv \<noteq> None \<or> pv_CacheReadPrice iv \<noteq> None \<or> pv_PerRequestPrice iv \<noteq> None) ivs"

definition applyRequestTierOverrides :: "ChannelModelPricing \<Rightarrow> ResolvedPricing \<Rightarrow> ResolvedPricing" where
  "applyRequestTierOverrides ch r = r\<lparr>rp_RequestTiers := filterValidIntervals (cm_Intervals ch),
     rp_DefaultPerRequestPrice := (case cm_PerRequestPrice ch of None \<Rightarrow> rp_DefaultPerRequestPrice r | Some x \<Rightarrow> x)\<rparr>"

text \<open>The base price, or a new one if there is none; then the channel's prices are written into it.\<close>

definition basePricing :: "ResolvedPricing \<Rightarrow> nat priced" where
  "basePricing r = (case rp_BasePricing r of None \<Rightarrow> new_price zeroPricing | Some a \<Rightarrow> State_Monad.return a)"

definition applyTokenOverrides :: "ChannelModelPricing \<Rightarrow> ResolvedPricing \<Rightarrow> ResolvedPricing priced" where
  "applyTokenOverrides ch r =
     (let validIntervals = filterValidIntervals (cm_Intervals ch)
      in do {
        a \<leftarrow> basePricing r;
        if validIntervals \<noteq> []
        then do {
          write_price a (setImageOutput (cm_ImageOutputPrice ch));
          State_Monad.return (r\<lparr>rp_Intervals := validIntervals, rp_BasePricing := Some a\<rparr>)
        }
        else do {
          write_price a (flatOverrides ch);
          State_Monad.return (r\<lparr>rp_BasePricing := Some a\<rparr>)
        }
      })"

definition resolveBasePricing :: "price_list \<Rightarrow> string \<Rightarrow> (nat option \<times> string) priced" where
  "resolveBasePricing data model =
     do {
       r \<leftarrow> Billing_GetModelPricing data model;
       State_Monad.return (case r of Inl _ \<Rightarrow> (None, PricingSourceFallback) | Inr a \<Rightarrow> (Some a, PricingSourceLiteLLM))
     }"

definition supportsBreakdown :: "nat option \<Rightarrow> bool priced" where
  "supportsBreakdown base =
     (case base of None \<Rightarrow> State_Monad.return False
      | Some a \<Rightarrow> do { p \<leftarrow> read_price a; State_Monad.return (mp_SupportsCacheBreakdown p) })"

text \<open>
  \<open>Resolve\<close> with the prices of the group's channel.  Between the two lookups of the channel's price the cache may
  be replaced, so the second lookup has a result of its own.
\<close>

definition applyChannelOverrides :: "ChannelModelPricing option \<Rightarrow> ResolvedPricing \<Rightarrow> ResolvedPricing priced" where
  "applyChannelOverrides chPricing r =
     (case chPricing of
        None \<Rightarrow> State_Monad.return r
      | Some ch \<Rightarrow>
         (let mode = (if cm_BillingMode ch = '''' then BillingModeToken else cm_BillingMode ch);
              r1 = r\<lparr>rp_Source := PricingSourceChannel, rp_channelPricing := Some ch, rp_Mode := mode\<rparr>
          in if mode = BillingModeToken then applyTokenOverrides ch r1
             else if labelled mode then State_Monad.return (applyRequestTierOverrides ch r1)
             else State_Monad.return r1))"

definition resolvePrices :: "price_list \<Rightarrow> ChannelModelPricing option \<Rightarrow> ChannelModelPricing option \<Rightarrow> string \<Rightarrow>
    ResolvedPricing priced" where
  "resolvePrices data ch1 ch2 model =
     (let byToken = (\<lambda>apply. do {
            (base, source) \<leftarrow> resolveBasePricing data model;
            breakdown \<leftarrow> supportsBreakdown base;
            apply \<lparr>rp_Mode = BillingModeToken, rp_BasePricing = base, rp_Intervals = [], rp_RequestTiers = [],
              rp_DefaultPerRequestPrice = 0, rp_Source = source, rp_SupportsCacheBreakdown = breakdown,
              rp_channelPricing = None\<rparr> })
      in case ch1 of
           Some ch \<Rightarrow>
             if labelled (cm_BillingMode ch)
             then State_Monad.return (applyRequestTierOverrides ch
               \<lparr>rp_Mode = cm_BillingMode ch, rp_BasePricing = None, rp_Intervals = [], rp_RequestTiers = [],
                rp_DefaultPerRequestPrice = 0, rp_Source = PricingSourceChannel, rp_SupportsCacheBreakdown = False,
                rp_channelPricing = Some ch\<rparr>)
             else byToken (\<lambda>r. applyTokenOverrides ch
               (r\<lparr>rp_Source := PricingSourceChannel, rp_channelPricing := Some ch\<rparr>))
         | None \<Rightarrow> byToken (applyChannelOverrides ch2))"

text \<open>With one state of the channel cache; no group means no lookup.\<close>

definition ResolvePricing :: "price_list \<Rightarrow> channelCache \<Rightarrow> string \<Rightarrow> int option \<Rightarrow> ResolvedPricing priced" where
  "ResolvePricing data cache model groupID =
     (let ch = (case groupID of None \<Rightarrow> None | Some gid \<Rightarrow> GetChannelModelPricing cache gid model)
      in resolvePrices data ch ch model)"

definition intervalToModelPricing :: "PricingInterval \<Rightarrow> bool \<Rightarrow> ChannelModelPricing option \<Rightarrow> ModelPricing" where
  "intervalToModelPricing iv breakdown chPricing =
     (let p = setPrice (pv_CacheReadPrice iv) setCacheRead
            (setPrice (pv_CacheWritePrice iv) setCacheWrite
              (setPrice (pv_OutputPrice iv) setOutput
                (setPrice (pv_InputPrice iv) setInput (zeroPricing\<lparr>mp_SupportsCacheBreakdown := breakdown\<rparr>))))
      in case chPricing of None \<Rightarrow> p | Some ch \<Rightarrow> setImageOutput (cm_ImageOutputPrice ch) p)"

definition GetIntervalPricing :: "ResolvedPricing \<Rightarrow> int \<Rightarrow> nat option priced" where
  "GetIntervalPricing r totalContextTokens =
     (case FindMatchingInterval (rp_Intervals r) totalContextTokens of
        None \<Rightarrow> State_Monad.return (rp_BasePricing r)
      | Some iv \<Rightarrow> do {
          a \<leftarrow> new_price (intervalToModelPricing iv (rp_SupportsCacheBreakdown r) (rp_channelPricing r));
          State_Monad.return (Some a) })"

definition GetRequestTierPrice :: "ResolvedPricing \<Rightarrow> string \<Rightarrow> rat" where
  "GetRequestTierPrice r tierLabel =
     (case List.find (\<lambda>t. pv_TierLabel t = tierLabel \<and> pv_PerRequestPrice t \<noteq> None) (rp_RequestTiers r) of
        None \<Rightarrow> 0 | Some t \<Rightarrow> orZero (pv_PerRequestPrice t))"

definition GetRequestTierPriceByContext :: "ResolvedPricing \<Rightarrow> int \<Rightarrow> rat" where
  "GetRequestTierPriceByContext r totalContextTokens =
     (case FindMatchingInterval (rp_RequestTiers r) totalContextTokens of None \<Rightarrow> 0 | Some t \<Rightarrow> orZero (pv_PerRequestPrice t))"

end
