(* ===== verification/BillingCost.thy ===== *)
theory BillingCost
  imports BillingPrices
begin

section \<open>The cost of a request\<close>

text \<open>
  The rest of \<open>service/billing_service.go\<close> and \<open>service/image_billing_size.go\<close>: what the tokens, requests or images
  of a request cost at a price.  Counts of tokens are 64-bit integers; money is rational.
\<close>

record UsageTokens =
  ut_InputTokens :: int
  ut_ImageInputTokens :: int
  ut_OutputTokens :: int
  ut_CacheCreationTokens :: int
  ut_CacheReadTokens :: int
  ut_CacheCreation5mTokens :: int
  ut_CacheCreation1hTokens :: int
  ut_ImageOutputTokens :: int

definition zeroTokens :: UsageTokens where
  "zeroTokens = \<lparr>ut_InputTokens = 0, ut_ImageInputTokens = 0, ut_OutputTokens = 0, ut_CacheCreationTokens = 0,
     ut_CacheReadTokens = 0, ut_CacheCreation5mTokens = 0, ut_CacheCreation1hTokens = 0, ut_ImageOutputTokens = 0\<rparr>"

record CostBreakdown =
  cb_InputCost :: rat
  cb_OutputCost :: rat
  cb_ImageOutputCost :: rat
  cb_CacheCreationCost :: rat
  cb_CacheReadCost :: rat
  cb_TotalCost :: rat
  cb_ActualCost :: rat
  cb_BillingMode :: string

definition zeroCost :: CostBreakdown where
  "zeroCost = \<lparr>cb_InputCost = 0, cb_OutputCost = 0, cb_ImageOutputCost = 0, cb_CacheCreationCost = 0, cb_CacheReadCost = 0,
     cb_TotalCost = 0, cb_ActualCost = 0, cb_BillingMode = ''''\<rparr>"

subsection \<open>Tokens\<close>

definition normalizeBillingServiceTier :: "string \<Rightarrow> string" where
  "normalizeBillingServiceTier tier = to_lower (trim_space tier)"

definition usePriorityServiceTierPricing :: "string \<Rightarrow> ModelPricing \<Rightarrow> bool" where
  "usePriorityServiceTierPricing tier p \<longleftrightarrow> normalizeBillingServiceTier tier = ''priority'' \<and>
     (mp_InputPricePerTokenPriority p > 0 \<or> mp_OutputPricePerTokenPriority p > 0 \<or> mp_CacheReadPricePerTokenPriority p > 0)"

definition serviceTierCostMultiplier :: "string \<Rightarrow> rat" where
  "serviceTierCostMultiplier tier =
     (let t = normalizeBillingServiceTier tier in if t = ''priority'' then 2 else if t = ''flex'' then 1 / 2 else 1)"

definition shouldApplySessionLongContextPricing :: "UsageTokens \<Rightarrow> ModelPricing \<Rightarrow> bool" where
  "shouldApplySessionLongContextPricing t p \<longleftrightarrow>
     mp_LongContextInputThreshold p > 0 \<and>
     (mp_LongContextInputMultiplier p > 1 \<or> mp_LongContextOutputMultiplier p > 1) \<and>
     wrap64 (ut_InputTokens t + ut_CacheReadTokens t) > mp_LongContextInputThreshold p"

definition computeCacheCreationCost :: "ModelPricing \<Rightarrow> UsageTokens \<Rightarrow> rat \<Rightarrow> rat" where
  "computeCacheCreationCost p t multiplier =
     (if mp_SupportsCacheBreakdown p \<and> (mp_CacheCreation5mPrice p > 0 \<or> mp_CacheCreation1hPrice p > 0)
      then if ut_CacheCreation5mTokens t = 0 \<and> ut_CacheCreation1hTokens t = 0 \<and> ut_CacheCreationTokens t > 0
           then of_int (ut_CacheCreationTokens t) * mp_CacheCreation5mPrice p * multiplier
           else of_int (ut_CacheCreation5mTokens t) * mp_CacheCreation5mPrice p * multiplier +
                of_int (ut_CacheCreation1hTokens t) * mp_CacheCreation1hPrice p * multiplier
      else of_int (ut_CacheCreationTokens t) * mp_CacheCreationPricePerToken p * multiplier)"

text \<open>The prices of a token at a service tier, and in a long context.\<close>

record token_prices =
  tp_input :: rat
  tp_output :: rat
  tp_cacheRead :: rat
  tp_cacheCreationMultiplier :: rat

definition tierPrices :: "string \<Rightarrow> ModelPricing \<Rightarrow> token_prices \<times> rat" where
  "tierPrices tier p =
     (if usePriorityServiceTierPricing tier p
      then (\<lparr>tp_input = (if mp_InputPricePerTokenPriority p > 0 then mp_InputPricePerTokenPriority p else mp_InputPricePerToken p),
             tp_output = (if mp_OutputPricePerTokenPriority p > 0 then mp_OutputPricePerTokenPriority p else mp_OutputPricePerToken p),
             tp_cacheRead = (if mp_CacheReadPricePerTokenPriority p > 0 then mp_CacheReadPricePerTokenPriority p
               else mp_CacheReadPricePerToken p),
             tp_cacheCreationMultiplier = 1\<rparr>, 1)
      else (\<lparr>tp_input = mp_InputPricePerToken p, tp_output = mp_OutputPricePerToken p, tp_cacheRead = mp_CacheReadPricePerToken p,
             tp_cacheCreationMultiplier = 1\<rparr>, serviceTierCostMultiplier tier))"

definition longContextPrices :: "ModelPricing \<Rightarrow> token_prices \<Rightarrow> token_prices" where
  "longContextPrices p tp = \<lparr>tp_input = tp_input tp * mp_LongContextInputMultiplier p,
     tp_output = tp_output tp * mp_LongContextOutputMultiplier p,
     tp_cacheRead = tp_cacheRead tp * mp_LongContextInputMultiplier p,
     tp_cacheCreationMultiplier = mp_LongContextInputMultiplier p\<rparr>"

definition inputCost :: "ModelPricing \<Rightarrow> UsageTokens \<Rightarrow> rat \<Rightarrow> rat" where
  "inputCost p t inputPrice =
     (if ut_ImageInputTokens t > 0
      then let text = wrap64 (ut_InputTokens t - ut_ImageInputTokens t);
               textInput = (if text < 0 then 0 else text);
               imageInput = (if text < 0 then ut_InputTokens t else ut_ImageInputTokens t);
               imagePrice = (if mp_ImageInputPricePerToken p = 0 then inputPrice else mp_ImageInputPricePerToken p)
           in of_int textInput * inputPrice + of_int imageInput * imagePrice
      else of_int (ut_InputTokens t) * inputPrice)"

definition imageOutputCost :: "ModelPricing \<Rightarrow> UsageTokens \<Rightarrow> rat \<Rightarrow> rat" where
  "imageOutputCost p t outputPrice =
     (if ut_ImageOutputTokens t > 0
      then of_int (ut_ImageOutputTokens t) *
           (if mp_ImageOutputPricePerToken p = 0 \<and> \<not> mp_ImageOutputPriceExplicit p then outputPrice else mp_ImageOutputPricePerToken p)
      else 0)"

definition computeTokenBreakdown :: "ModelPricing \<Rightarrow> UsageTokens \<Rightarrow> rat \<Rightarrow> string \<Rightarrow> bool \<Rightarrow> CostBreakdown" where
  "computeTokenBreakdown p t rateMultiplier0 serviceTier applyLongCtx =
     (let rateMultiplier = (if rateMultiplier0 < 0 then 0 else rateMultiplier0);
          tierMultiplier = snd (tierPrices serviceTier p);
          tp0 = fst (tierPrices serviceTier p);
          tp = (if applyLongCtx \<and> shouldApplySessionLongContextPricing t p then longContextPrices p tp0 else tp0);
          text = wrap64 (ut_OutputTokens t - ut_ImageOutputTokens t);
          input = inputCost p t (tp_input tp) * tierMultiplier;
          out = of_int (if text < 0 then 0 else text) * tp_output tp * tierMultiplier;
          imageOut = imageOutputCost p t (tp_output tp) * tierMultiplier;
          creation = computeCacheCreationCost p t (tp_cacheCreationMultiplier tp) * tierMultiplier;
          reads = of_int (ut_CacheReadTokens t) * tp_cacheRead tp * tierMultiplier;
          total = input + out + imageOut + creation + reads
      in \<lparr>cb_InputCost = input, cb_OutputCost = out, cb_ImageOutputCost = imageOut, cb_CacheCreationCost = creation,
          cb_CacheReadCost = reads, cb_TotalCost = total, cb_ActualCost = total * rateMultiplier, cb_BillingMode = ''''\<rparr>)"

definition CalculateCostWithServiceTier :: "price_list \<Rightarrow> string \<Rightarrow> UsageTokens \<Rightarrow> rat \<Rightarrow> string \<Rightarrow> (go_error + CostBreakdown) priced" where
  "CalculateCostWithServiceTier data model t rateMultiplier serviceTier =
     do {
       r \<leftarrow> Billing_GetModelPricing data model;
       case r of
         Inl err \<Rightarrow> State_Monad.return (Inl err)
       | Inr a \<Rightarrow> do {
           p \<leftarrow> read_price a;
           State_Monad.return (Inr (computeTokenBreakdown p t rateMultiplier serviceTier True)) }
     }"

definition CalculateCost :: "price_list \<Rightarrow> string \<Rightarrow> UsageTokens \<Rightarrow> rat \<Rightarrow> (go_error + CostBreakdown) priced" where
  "CalculateCost data model t rateMultiplier = CalculateCostWithServiceTier data model t rateMultiplier ''''"

definition CalculateCostWithConfig :: "price_list \<Rightarrow> rat \<Rightarrow> string \<Rightarrow> UsageTokens \<Rightarrow> (go_error + CostBreakdown) priced" where
  "CalculateCostWithConfig data defaultMultiplier model t =
     CalculateCost data model t (if defaultMultiplier \<le> 0 then 1 else defaultMultiplier)"

definition GetEstimatedCost :: "price_list \<Rightarrow> rat \<Rightarrow> string \<Rightarrow> int \<Rightarrow> int \<Rightarrow> (go_error + rat) priced" where
  "GetEstimatedCost data defaultMultiplier model input out =
     do {
       r \<leftarrow> CalculateCostWithConfig data defaultMultiplier model (zeroTokens\<lparr>ut_InputTokens := input, ut_OutputTokens := out\<rparr>);
       State_Monad.return (map_sum id cb_ActualCost r)
     }"

subsection \<open>Long contexts at a surcharge\<close>

text \<open>Input and cache reads within and beyond the threshold.\<close>

definition splitAt :: "int \<Rightarrow> UsageTokens \<Rightarrow> UsageTokens \<times> UsageTokens" where
  "splitAt threshold t =
     (let (inCache, inInput, outCache, outInput) =
        (if ut_CacheReadTokens t \<ge> threshold
         then (threshold, 0, wrap64 (ut_CacheReadTokens t - threshold), ut_InputTokens t)
         else (ut_CacheReadTokens t, wrap64 (threshold - ut_CacheReadTokens t), 0,
               wrap64 (ut_InputTokens t - wrap64 (threshold - ut_CacheReadTokens t))))
      in (t\<lparr>ut_InputTokens := inInput, ut_ImageInputTokens := 0, ut_CacheReadTokens := inCache\<rparr>,
          zeroTokens\<lparr>ut_InputTokens := outInput, ut_CacheReadTokens := outCache\<rparr>))"

definition addCosts :: "CostBreakdown \<Rightarrow> CostBreakdown \<Rightarrow> CostBreakdown" where
  "addCosts a b = \<lparr>cb_InputCost = cb_InputCost a + cb_InputCost b, cb_OutputCost = cb_OutputCost a,
     cb_ImageOutputCost = cb_ImageOutputCost a, cb_CacheCreationCost = cb_CacheCreationCost a,
     cb_CacheReadCost = cb_CacheReadCost a + cb_CacheReadCost b, cb_TotalCost = cb_TotalCost a + cb_TotalCost b,
     cb_ActualCost = cb_ActualCost a + cb_ActualCost b, cb_BillingMode = ''''\<rparr>"

text \<open>The callers discard the partial cost that comes with an error of the second part.\<close>

definition CalculateCostWithLongContext :: "price_list \<Rightarrow> string \<Rightarrow> UsageTokens \<Rightarrow> rat \<Rightarrow> int \<Rightarrow> rat \<Rightarrow>
    (go_error + CostBreakdown) priced" where
  "CalculateCostWithLongContext data model t rateMultiplier threshold extraMultiplier =
     (if threshold \<le> 0 \<or> extraMultiplier \<le> 1 \<or> wrap64 (ut_CacheReadTokens t + ut_InputTokens t) \<le> threshold
      then CalculateCost data model t rateMultiplier
      else do {
        r1 \<leftarrow> CalculateCost data model (fst (splitAt threshold t)) rateMultiplier;
        case r1 of
          Inl err \<Rightarrow> State_Monad.return (Inl err)
        | Inr inRange \<Rightarrow> do {
            r2 \<leftarrow> CalculateCost data model (snd (splitAt threshold t)) (rateMultiplier * extraMultiplier);
            State_Monad.return (case r2 of
                Inl err \<Rightarrow> Inl (OtherError (''out-range cost: '' @ errText err) (Some err))
              | Inr outRange \<Rightarrow> Inr (addCosts inRange outRange)) }
      })"

subsection \<open>All modes\<close>

record CostInput =
  ci_Model :: string
  ci_Tokens :: UsageTokens
  ci_RequestCount :: int
  ci_SizeTier :: string
  ci_RateMultiplier :: rat
  ci_ServiceTier :: string

definition calculateResolvedTokenCost :: "ResolvedPricing \<Rightarrow> CostInput \<Rightarrow> (go_error + CostBreakdown) priced" where
  "calculateResolvedTokenCost resolved i =
     do {
       a \<leftarrow> GetIntervalPricing resolved (wrap64 (ut_InputTokens (ci_Tokens i) + ut_CacheReadTokens (ci_Tokens i)));
       case a of
         None \<Rightarrow> State_Monad.return (Inl (OtherError (''no pricing available for model: '' @ ci_Model i @ '': pricing not found'')
           (Some ErrModelPricingUnavailable)))
       | Some a \<Rightarrow> do {
           b \<leftarrow> applyModelSpecificPricingPolicy (ci_Model i) a;
           p \<leftarrow> read_price b;
           State_Monad.return (Inr (computeTokenBreakdown p (ci_Tokens i) (ci_RateMultiplier i) (ci_ServiceTier i)
             (rp_Intervals resolved = []))) }
     }"

definition calculatePerRequestCost :: "ResolvedPricing \<Rightarrow> CostInput \<Rightarrow> CostBreakdown" where
  "calculatePerRequestCost resolved i =
     (let count = (if ci_RequestCount i \<le> 0 then 1 else ci_RequestCount i);
          u1 = (if ci_SizeTier i \<noteq> '''' then GetRequestTierPrice resolved (ci_SizeTier i) else 0);
          u2 = (if u1 = 0 then GetRequestTierPriceByContext resolved
                  (wrap64 (ut_InputTokens (ci_Tokens i) + ut_CacheReadTokens (ci_Tokens i))) else u1);
          unitPrice = (if u2 = 0 then rp_DefaultPerRequestPrice resolved else u2);
          total = unitPrice * of_int count
      in zeroCost\<lparr>cb_TotalCost := total, cb_ActualCost := total * ci_RateMultiplier i\<rparr>)"

definition withMode :: "string \<Rightarrow> CostBreakdown \<Rightarrow> CostBreakdown" where
  "withMode mode c = c\<lparr>cb_BillingMode := (if mode = '''' then BillingModeToken else mode)\<rparr>"

text \<open>\<open>CalculateCostUnified\<close> with a resolver and a resolved price.\<close>

definition CalculateCostResolved :: "ResolvedPricing \<Rightarrow> CostInput \<Rightarrow> (go_error + CostBreakdown) priced" where
  "CalculateCostResolved resolved i0 =
     (let i = (if ci_RateMultiplier i0 < 0 then i0\<lparr>ci_RateMultiplier := 0\<rparr> else i0)
      in if labelled (rp_Mode resolved)
         then State_Monad.return (Inr (withMode (rp_Mode resolved) (calculatePerRequestCost resolved i)))
         else do {
           r \<leftarrow> calculateResolvedTokenCost resolved i;
           State_Monad.return (map_sum id (withMode (rp_Mode resolved)) r)
         })"

definition CalculateCostUnified :: "price_list \<Rightarrow> channelCache \<Rightarrow> int option \<Rightarrow> CostInput \<Rightarrow> (go_error + CostBreakdown) priced" where
  "CalculateCostUnified data cache groupID i =
     do { resolved \<leftarrow> ResolvePricing data cache (ci_Model i) groupID; CalculateCostResolved resolved i }"

end
