(* ===== verification/ImageBilling.thy ===== *)
theory ImageBilling
  imports BillingCost
begin

section \<open>The cost of images\<close>

text \<open>
  \<open>service/image_billing_size.go\<close>, \<open>service/image_billing_multiplier.go\<close> and the image prices of
  \<open>service/billing_service.go\<close>: the size under which generated images are billed, taken from the answer, else
  from the request, else a default, and the cost of images by size and number.
\<close>

subsection \<open>Sizes\<close>

definition ImageBillingSize1K :: string where "ImageBillingSize1K = ''1K''"
definition ImageBillingSize2K :: string where "ImageBillingSize2K = ''2K''"
definition ImageBillingSize4K :: string where "ImageBillingSize4K = ''4K''"
definition ImageSizeSourceOutput :: string where "ImageSizeSourceOutput = ''output''"
definition ImageSizeSourceInput :: string where "ImageSizeSourceInput = ''input''"
definition ImageSizeSourceDefault :: string where "ImageSizeSourceDefault = ''default''"

definition parseImageBillingDimensions :: "string \<Rightarrow> (int \<times> int) option" where
  "parseImageBillingDimensions size0 =
     (case split_at (CHR ''x'') (to_lower (trim_space size0)) of
        [w, h] \<Rightarrow>
          (case (atoi (trim_space w), atoi (trim_space h)) of
             (Some width, Some height) \<Rightarrow> if width \<le> 0 \<or> height \<le> 0 then None else Some (width, height)
           | _ \<Rightarrow> None)
      | _ \<Rightarrow> None)"

definition ClassifyImageBillingTier :: "string \<Rightarrow> string option" where
  "ClassifyImageBillingTier size0 =
     (let trimmed = trim_space size0;
          normalized = to_lower trimmed
      in if normalized \<in> {'''', ''auto''} then None
         else if normalized = ''1k'' then Some ImageBillingSize1K
         else if normalized = ''2k'' then Some ImageBillingSize2K
         else if normalized = ''4k'' then Some ImageBillingSize4K
         else if normalized \<in> {''2048x2048'', ''2048x1152''} then Some ImageBillingSize2K
         else if normalized \<in> {''3840x2160'', ''2160x3840''} then Some ImageBillingSize4K
         else case parseImageBillingDimensions trimmed of
                None \<Rightarrow> None
              | Some (width, height) \<Rightarrow>
                  (let maxEdge = (if height > width then height else width)
                   in Some (if maxEdge \<le> 1024 then ImageBillingSize1K
                            else if maxEdge \<le> 2048 then ImageBillingSize2K else ImageBillingSize4K)))"

definition NormalizeImageBillingTierOrDefault :: "string \<Rightarrow> string" where
  "NormalizeImageBillingTierOrDefault size0 =
     (case ClassifyImageBillingTier size0 of Some tier \<Rightarrow> tier | None \<Rightarrow> ImageBillingSize2K)"

definition upper_char :: "char \<Rightarrow> char" where
  "upper_char c = (if of_char c \<in> {97..122 :: nat} then char_of (of_char c - 32 :: nat) else c)"

definition imageTierRank :: "string \<Rightarrow> int" where
  "imageTierRank tier =
     (let t = map upper_char (trim_space tier)
      in if t = ImageBillingSize1K then 1 else if t = ImageBillingSize2K then 2 else if t = ImageBillingSize4K then 3 else 0)"

definition compactTrimmedStrings :: "string list \<Rightarrow> string list" where
  "compactTrimmedStrings values = filter (\<lambda>s. s \<noteq> '''') (map trim_space values)"

definition firstDisplayImageOutputSize :: "string list \<Rightarrow> string" where
  "firstDisplayImageOutputSize outputSizes = (case compactTrimmedStrings outputSizes of [] \<Rightarrow> '''' | s # _ \<Rightarrow> s)"

record ImageBillingSizeResolution =
  is_BillingSize :: string
  is_InputSize :: string
  is_OutputSize :: string
  is_Source :: string
  is_Breakdown :: "string \<rightharpoonup> int"

text \<open>The count of each tier, and the highest tier so far.\<close>

definition countTier :: "(string \<rightharpoonup> int) \<times> string \<Rightarrow> string \<Rightarrow> (string \<rightharpoonup> int) \<times> string" where
  "countTier = (\<lambda>(breakdown, outputTier) output.
     case ClassifyImageBillingTier output of
       None \<Rightarrow> (breakdown, outputTier)
     | Some tier \<Rightarrow> (breakdown(tier \<mapsto> (case breakdown tier of None \<Rightarrow> 0 | Some n \<Rightarrow> n) + 1),
                     if imageTierRank tier > imageTierRank outputTier then tier else outputTier))"

definition normalizeImageSizeBreakdown :: "(string \<rightharpoonup> int) \<Rightarrow> string \<rightharpoonup> int" where
  "normalizeImageSizeBreakdown m tier =
     (if tier \<in> {ImageBillingSize1K, ImageBillingSize2K, ImageBillingSize4K}
      then case m tier of Some n \<Rightarrow> if n > 0 then Some n else None | None \<Rightarrow> None
      else None)"

definition ResolveImageBillingSize :: "string \<Rightarrow> string list \<Rightarrow> ImageBillingSizeResolution" where
  "ResolveImageBillingSize inputSize0 outputSizes0 =
     (let inputSize = trim_space inputSize0;
          outputSizes = compactTrimmedStrings outputSizes0;
          (breakdown, outputTier) = foldl countTier (Map.empty, '''') outputSizes;
          r = \<lparr>is_BillingSize = ImageBillingSize2K, is_InputSize = inputSize,
             is_OutputSize = firstDisplayImageOutputSize outputSizes, is_Source = ImageSizeSourceDefault, is_Breakdown = Map.empty\<rparr>
      in if outputTier \<noteq> ''''
         then r\<lparr>is_BillingSize := outputTier, is_Source := ImageSizeSourceOutput, is_Breakdown := normalizeImageSizeBreakdown breakdown\<rparr>
         else case ClassifyImageBillingTier inputSize of
                Some tier \<Rightarrow> r\<lparr>is_BillingSize := tier, is_Source := ImageSizeSourceInput\<rparr>
              | None \<Rightarrow> r)"

text \<open>The image fields of a forwarding result, and the resolution written back into them.\<close>

record image_fields =
  im_ImageCount :: int
  im_ImageSize :: string
  im_ImageInputSize :: string
  im_ImageOutputSize :: string
  im_ImageOutputSizes :: "string list"
  im_ImageSizeSource :: string
  im_ImageSizeBreakdown :: "string \<rightharpoonup> int"

definition applyImageBillingResolution :: "ImageBillingSizeResolution \<Rightarrow> image_fields \<Rightarrow> image_fields" where
  "applyImageBillingResolution r i = i\<lparr>im_ImageSize := is_BillingSize r, im_ImageInputSize := is_InputSize r,
     im_ImageOutputSize := is_OutputSize r, im_ImageSizeSource := is_Source r, im_ImageSizeBreakdown := is_Breakdown r\<rparr>"

definition ApplyImageBillingResolution :: "image_fields \<Rightarrow> image_fields" where
  "ApplyImageBillingResolution i =
     (if im_ImageCount i \<le> 0 then i
      else let input0 = trim_space (im_ImageInputSize i);
               input = (if input0 = '''' \<and> trim_space (im_ImageSize i) \<noteq> ImageBillingSize2K then trim_space (im_ImageSize i) else input0);
               outs = (if im_ImageOutputSizes i = [] \<and> trim_space (im_ImageOutputSize i) \<noteq> ''''
                       then [im_ImageOutputSize i] else im_ImageOutputSizes i)
           in applyImageBillingResolution (ResolveImageBillingSize input outs) i)"

subsection \<open>Prices\<close>

record ImagePriceConfig =
  ip_Price1K :: "rat option"
  ip_Price2K :: "rat option"
  ip_Price4K :: "rat option"

definition getDefaultImagePrice :: "price_list \<Rightarrow> string \<Rightarrow> string \<Rightarrow> rat" where
  "getDefaultImagePrice data model imageSize =
     (let found = (case LiteLLM_GetModelPricing data model of
            Some p \<Rightarrow> if ll_OutputCostPerImage p > 0 then ll_OutputCostPerImage p else 0 | None \<Rightarrow> 0);
          basePrice = (if found \<le> 0 then 0.134 else found)
      in if imageSize = ''2K'' then basePrice * 1.5 else if imageSize = ''4K'' then basePrice * 2 else basePrice)"

definition getImageUnitPrice :: "price_list \<Rightarrow> string \<Rightarrow> string \<Rightarrow> ImagePriceConfig option \<Rightarrow> rat" where
  "getImageUnitPrice data model imageSize groupConfig =
     (let own = (case groupConfig of None \<Rightarrow> None | Some g \<Rightarrow>
            if imageSize = ''1K'' then ip_Price1K g
            else if imageSize = ''2K'' then ip_Price2K g
            else if imageSize = ''4K'' then ip_Price4K g else None)
      in case own of Some x \<Rightarrow> x | None \<Rightarrow> getDefaultImagePrice data model imageSize)"

definition CalculateImageCost :: "price_list \<Rightarrow> string \<Rightarrow> string \<Rightarrow> int \<Rightarrow> ImagePriceConfig option \<Rightarrow> rat \<Rightarrow> CostBreakdown" where
  "CalculateImageCost data model imageSize0 imageCount groupConfig rateMultiplier =
     (if imageCount \<le> 0 then zeroCost
      else let imageSize = NormalizeImageBillingTierOrDefault imageSize0;
               total = getImageUnitPrice data model imageSize groupConfig * of_int imageCount
           in zeroCost\<lparr>cb_TotalCost := total, cb_ActualCost := total * (if rateMultiplier < 0 then 0 else rateMultiplier),
                cb_BillingMode := BillingModeImage\<rparr>)"

end
