(* ===== verification/AccountStatsCost.thy ===== *)
theory AccountStatsCost
  imports BillingCost
begin

section \<open>What a request costs the provider\<close>

text \<open>
  \<open>service/account_stats_pricing.go\<close>: the cost that the statistics of an upstream account show for a request, by
  the rules of the channel, else by what the user was charged before multipliers, else by the price list.
\<close>

record AccountStatsPricingRule =
  sr_AccountIDs :: "int list"
  sr_GroupIDs :: "int list"
  sr_Pricing :: "ChannelModelPricing list"

text \<open>The settings of a channel for these statistics.\<close>

record stats_settings =
  ss_ApplyPricingToAccountStats :: bool
  ss_AccountStatsPricingRules :: "AccountStatsPricingRule list"

definition matchAccountStatsRule :: "AccountStatsPricingRule \<Rightarrow> int \<Rightarrow> int \<Rightarrow> bool" where
  "matchAccountStatsRule rule accountID groupID \<longleftrightarrow>
     accountID \<in> set (sr_AccountIDs rule) \<or> groupID \<in> set (sr_GroupIDs rule)"

definition isPlatformMatch :: "string \<Rightarrow> string \<Rightarrow> bool" where
  "isPlatformMatch queryPlatform pricingPlatform \<longleftrightarrow>
     queryPlatform = '''' \<or> pricingPlatform = '''' \<or> queryPlatform = pricingPlatform"

definition findPricingForModel :: "ChannelModelPricing list \<Rightarrow> string \<Rightarrow> string \<Rightarrow> ChannelModelPricing option" where
  "findPricingForModel pricingList platform modelLower =
     (let own = filter (\<lambda>p. isPlatformMatch platform (cm_Platform p)) pricingList;
          exact = (\<lambda>p. list_ex (\<lambda>m. to_lower m = modelLower) (cm_Models p));
          wild = (\<lambda>p. list_ex (\<lambda>m. has_suffix (to_lower m) ''*'' \<and> has_prefix modelLower (trim_suffix (to_lower m) ''*'')) (cm_Models p))
      in case List.find exact own of Some p \<Rightarrow> Some p | None \<Rightarrow> List.find wild own)"

definition positive :: "rat \<Rightarrow> rat option" where
  "positive cost = (if cost \<le> 0 then None else Some cost)"

definition calculatePerRequestStatsCost :: "ChannelModelPricing \<Rightarrow> int \<Rightarrow> rat option" where
  "calculatePerRequestStatsCost p requestCount =
     (case cm_PerRequestPrice p of None \<Rightarrow> None | Some x \<Rightarrow> if x \<le> 0 then None else Some (x * of_int requestCount))"

text \<open>An interval replaces the price by one without image prices.\<close>

definition calculateTokenStatsCost :: "ChannelModelPricing \<Rightarrow> UsageTokens \<Rightarrow> rat option" where
  "calculateTokenStatsCost pricing t =
     (let total = wrap64 (ut_InputTokens t + ut_OutputTokens t + ut_CacheCreationTokens t + ut_CacheReadTokens t);
          (input, out, write, reads, image) =
            (case FindMatchingInterval (cm_Intervals pricing) total of
               Some iv \<Rightarrow> (pv_InputPrice iv, pv_OutputPrice iv, pv_CacheWritePrice iv, pv_CacheReadPrice iv, None)
             | None \<Rightarrow> (cm_InputPrice pricing, cm_OutputPrice pricing, cm_CacheWritePrice pricing, cm_CacheReadPrice pricing,
                        cm_ImageOutputPrice pricing))
      in positive (of_int (ut_InputTokens t) * orZero input + of_int (ut_OutputTokens t) * orZero out +
           of_int (ut_CacheCreationTokens t) * orZero write + of_int (ut_CacheReadTokens t) * orZero reads +
           of_int (ut_ImageOutputTokens t) * orZero image))"

definition calculateStatsCost :: "ChannelModelPricing \<Rightarrow> UsageTokens \<Rightarrow> int \<Rightarrow> rat option" where
  "calculateStatsCost p t requestCount =
     (if labelled (cm_BillingMode p) then calculatePerRequestStatsCost p requestCount else calculateTokenStatsCost p t)"

text \<open>The first rule that matches and prices the model decides; if it gives no cost, the next source is tried.\<close>

fun tryCustomRules :: "AccountStatsPricingRule list \<Rightarrow> int \<Rightarrow> int \<Rightarrow> string \<Rightarrow> string \<Rightarrow> UsageTokens \<Rightarrow> int \<Rightarrow> rat option" where
  "tryCustomRules [] accountID groupID platform model t requestCount = None"
| "tryCustomRules (rule # rules) accountID groupID platform model t requestCount =
     (if \<not> matchAccountStatsRule rule accountID groupID then tryCustomRules rules accountID groupID platform model t requestCount
      else case findPricingForModel (sr_Pricing rule) platform (to_lower model) of
             None \<Rightarrow> tryCustomRules rules accountID groupID platform model t requestCount
           | Some p \<Rightarrow> calculateStatsCost p t requestCount)"

definition tryModelFilePricing :: "price_list \<Rightarrow> string \<Rightarrow> UsageTokens \<Rightarrow> rat option priced" where
  "tryModelFilePricing data model t =
     do {
       r \<leftarrow> Billing_GetModelPricing data model;
       case r of
         Inl _ \<Rightarrow> State_Monad.return None
       | Inr a \<Rightarrow> do {
           p \<leftarrow> read_price a;
           State_Monad.return (positive (of_int (ut_InputTokens t) * mp_InputPricePerToken p +
             of_int (ut_OutputTokens t) * mp_OutputPricePerToken p +
             of_int (ut_CacheCreationTokens t) * mp_CacheCreationPricePerToken p +
             of_int (ut_CacheReadTokens t) * mp_CacheReadPricePerToken p +
             of_int (ut_ImageOutputTokens t) * mp_ImageOutputPricePerToken p)) }
     }"

definition resolveAccountStatsCost :: "price_list \<Rightarrow> channelCache \<Rightarrow> (int \<Rightarrow> stats_settings) \<Rightarrow> int \<Rightarrow> int \<Rightarrow> string \<Rightarrow>
    UsageTokens \<Rightarrow> int \<Rightarrow> rat \<Rightarrow> rat option priced" where
  "resolveAccountStatsCost data cache settings accountID groupID upstreamModel t requestCount totalCost =
     (case (if upstreamModel = '''' then None else GetChannelForGroup cache groupID) of
        None \<Rightarrow> State_Monad.return None
      | Some ch \<Rightarrow>
         (let s = settings (ch_ID ch)
          in case tryCustomRules (ss_AccountStatsPricingRules s) accountID groupID (GetGroupPlatform cache groupID)
                    upstreamModel t requestCount of
               Some cost \<Rightarrow> State_Monad.return (Some cost)
             | None \<Rightarrow>
                 if ss_ApplyPricingToAccountStats s then State_Monad.return (positive totalCost)
                 else tryModelFilePricing data upstreamModel t))"

definition applyAccountStatsCost :: "price_list \<Rightarrow> channelCache \<Rightarrow> (int \<Rightarrow> stats_settings) \<Rightarrow> int \<Rightarrow> int \<Rightarrow> string \<Rightarrow> string \<Rightarrow>
    UsageTokens \<Rightarrow> int \<Rightarrow> rat \<Rightarrow> rat option priced" where
  "applyAccountStatsCost data cache settings accountID groupID upstreamModel requestedModel t imageCount totalCost =
     resolveAccountStatsCost data cache settings accountID groupID (if upstreamModel = '''' then requestedModel else upstreamModel) t
       (if imageCount > 0 then imageCount else 1) totalCost"

end
