(* ===== verification/UsageRecording.thy ===== *)
theory UsageRecording
  imports ImageBilling AccountStatsCost UsageBilling MessagesStream
begin

section \<open>Recording the usage of a request\<close>

text \<open>
  The end of a request in \<open>service/gateway_service.go\<close> (\<open>recordUsageCore\<close>) and \<open>service/openai_gateway_service.go\<close>
  (\<open>RecordUsage\<close>): from the tokens of the answer to its cost, the row of the usage log and the billing command,
  which \<open>UsageBilling\<close> applies.  The multipliers are those of \<open>service/group.go\<close> and
  \<open>service/user_group_rate_resolver.go\<close>.

  One request at a time uses the prices; writing the log, the caches that follow the database, and notifications
  are left out.  The branch without a billing repository, which only tests use, is not modelled.
\<close>

subsection \<open>Multipliers\<close>

record rate_group = Group +
  rg_Platform :: string
  rg_RateMultiplier :: rat
  rg_PeakRateEnabled :: bool
  rg_PeakStart :: string
  rg_PeakEnd :: string
  rg_PeakRateMultiplier :: rat
  rg_ImageRateIndependent :: bool
  rg_ImageRateMultiplier :: rat
  rg_ImagePrice1K :: "rat option"
  rg_ImagePrice2K :: "rat option"
  rg_ImagePrice4K :: "rat option"

text \<open>\<open>"HH:MM"\<close> or \<open>"H:MM"\<close>, as a number of minutes.\<close>

definition digitVal :: "char \<Rightarrow> int" where "digitVal c = of_char c - 48"

definition parseMinutes :: "string \<Rightarrow> int option" where
  "parseMinutes hhmm =
     (let colon = length (takeWhile (\<lambda>c. c \<noteq> CHR '':'') hhmm);
          hs = take colon hhmm; ms = drop (Suc colon) hhmm;
          h = foldl (\<lambda>n c. n * 10 + digitVal c) 0 hs; m = foldl (\<lambda>n c. n * 10 + digitVal c) 0 ms
      in if (colon = 1 \<or> colon = 2) \<and> length hhmm = colon + 3 \<and> list_all digit (hs @ ms) \<and> h \<le> 23 \<and> m \<le> 59
         then Some (h * 60 + m) else None)"

definition minuteOfDay :: "Location \<Rightarrow> int \<Rightarrow> int" where
  "minuteOfDay tz now = (loc_wall tz now mod day) div (hour div 60)"

definition PeakMultiplierAt :: "Location \<Rightarrow> int \<Rightarrow> rate_group \<Rightarrow> rat" where
  "PeakMultiplierAt tz now g =
     (if \<not> IsSubscriptionType (Group.truncate g) \<or> \<not> rg_PeakRateEnabled g \<or> rg_PeakStart g = '''' \<or> rg_PeakEnd g = '''' then 1
      else case (parseMinutes (rg_PeakStart g), parseMinutes (rg_PeakEnd g)) of
             (Some s, Some e) \<Rightarrow>
               (let cur = minuteOfDay tz now
                in if s \<ge> e then 1 else if s \<le> cur \<and> cur < e then rg_PeakRateMultiplier g else 1)
           | _ \<Rightarrow> 1)"

definition resolveImageRateMultiplier :: "rate_group option \<Rightarrow> rat \<Rightarrow> rat" where
  "resolveImageRateMultiplier g effective =
     (case g of
        Some g \<Rightarrow> if rg_ImageRateIndependent g
                  then (if rg_ImageRateMultiplier g < 0 then 0 else rg_ImageRateMultiplier g) else effective
      | None \<Rightarrow> effective)"

definition computePeakAwareMultipliers :: "Location \<Rightarrow> int \<Rightarrow> rate_group option \<Rightarrow> rat \<Rightarrow> rat \<times> rat" where
  "computePeakAwareMultipliers tz now g base =
     (base * (case g of None \<Rightarrow> 1 | Some g \<Rightarrow> PeakMultiplierAt tz now g), resolveImageRateMultiplier g base)"

text \<open>
  The rate of a user in a group: cached, or read from the table and then cached.  The result has what is put into
  the cache.
\<close>

definition ResolveUserGroupRate :: "int \<Rightarrow> int \<Rightarrow> rat option \<Rightarrow> go_error + rat option \<Rightarrow> rat \<Rightarrow> rat \<times> rat option" where
  "ResolveUserGroupRate userID groupID cached row groupDefault =
     (if userID \<le> 0 \<or> groupID \<le> 0 then (groupDefault, None)
      else case cached of
             Some m \<Rightarrow> (m, None)
           | None \<Rightarrow>
              (case row of
                 Inl err \<Rightarrow> (groupDefault, None)
               | Inr userRate \<Rightarrow> (let m = coalesce userRate groupDefault in (m, Some m))))"

subsection \<open>Who pays\<close>

record APIKey =
  ak_ID :: int
  ak_GroupID :: "int option"
  ak_Group :: "rate_group option"
  ak_Quota :: rat
  ak_RateLimit5h :: rat
  ak_RateLimit1d :: rat
  ak_RateLimit7d :: rat

definition HasRateLimits :: "APIKey \<Rightarrow> bool" where
  "HasRateLimits k \<longleftrightarrow> ak_RateLimit5h k > 0 \<or> ak_RateLimit1d k > 0 \<or> ak_RateLimit7d k > 0"

definition AccountTypeOAuth :: string where "AccountTypeOAuth = ''oauth''"
definition AccountTypeSetupToken :: string where "AccountTypeSetupToken = ''setup-token''"
definition PlatformAnthropic :: string where "PlatformAnthropic = ''anthropic''"

text \<open>\<open>ac_CacheTTLOverride\<close>: the key \<open>cache_ttl_override_enabled\<close> of the extra settings, if it is a boolean.\<close>

record UsageAccount =
  ac_ID :: int
  ac_Platform :: string
  ac_Type :: string
  ac_RateMultiplier :: "rat option"
  ac_Extra :: quota_extra
  ac_CacheTTLOverride :: "bool option"
  ac_CacheTTLOverrideTarget :: "string option"

definition BillingRateMultiplier :: "UsageAccount \<Rightarrow> rat" where
  "BillingRateMultiplier a = (case ac_RateMultiplier a of None \<Rightarrow> 1 | Some m \<Rightarrow> if m < 0 then 1 else m)"

definition IsAPIKeyOrBedrock :: "UsageAccount \<Rightarrow> bool" where
  "IsAPIKeyOrBedrock a \<longleftrightarrow> ac_Type a = AccountTypeAPIKey \<or> ac_Type a = AccountTypeBedrock"

definition IsAnthropicOAuthOrSetupToken :: "UsageAccount \<Rightarrow> bool" where
  "IsAnthropicOAuthOrSetupToken a \<longleftrightarrow>
     ac_Platform a = PlatformAnthropic \<and> (ac_Type a = AccountTypeOAuth \<or> ac_Type a = AccountTypeSetupToken)"

definition IsCacheTTLOverrideEnabled :: "UsageAccount \<Rightarrow> bool" where
  "IsCacheTTLOverrideEnabled a \<longleftrightarrow> IsAnthropicOAuthOrSetupToken a \<and> ac_CacheTTLOverride a = Some True"

definition GetCacheTTLOverrideTarget :: "UsageAccount \<Rightarrow> string" where
  "GetCacheTTLOverrideTarget a =
     (case ac_CacheTTLOverrideTarget a of Some t \<Rightarrow> if t = ''5m'' \<or> t = ''1h'' then t else ''5m'' | None \<Rightarrow> ''5m'')"

definition resolveCacheTTLUsageOverrideTarget :: "bool \<Rightarrow> UsageAccount \<Rightarrow> string option" where
  "resolveCacheTTLUsageOverrideTarget injection1h a =
     (if IsCacheTTLOverrideEnabled a then Some (GetCacheTTLOverrideTarget a)
      else if IsAnthropicOAuthOrSetupToken a \<and> injection1h then Some ''5m'' else None)"

record ClaudeUsage =
  cu_InputTokens :: int
  cu_OutputTokens :: int
  cu_CacheCreationInputTokens :: int
  cu_CacheReadInputTokens :: int
  cu_CacheCreation5mTokens :: int
  cu_CacheCreation1hTokens :: int
  cu_ImageOutputTokens :: int

definition applyCacheTTLOverride :: "string \<Rightarrow> ClaudeUsage \<Rightarrow> ClaudeUsage \<times> bool" where
  "applyCacheTTLOverride target u0 =
     (let u = (if cu_CacheCreation5mTokens u0 = 0 \<and> cu_CacheCreation1hTokens u0 = 0 \<and> cu_CacheCreationInputTokens u0 > 0
               then u0\<lparr>cu_CacheCreation5mTokens := cu_CacheCreationInputTokens u0\<rparr> else u0);
          total = wrap64 (cu_CacheCreation5mTokens u + cu_CacheCreation1hTokens u)
      in if total = 0 then (u, False)
         else if target = ''1h''
         then if cu_CacheCreation1hTokens u = total then (u, False)
              else (u\<lparr>cu_CacheCreation1hTokens := total, cu_CacheCreation5mTokens := 0\<rparr>, True)
         else if cu_CacheCreation5mTokens u = total then (u, False)
              else (u\<lparr>cu_CacheCreation5mTokens := total, cu_CacheCreation1hTokens := 0\<rparr>, True))"

subsection \<open>What is recorded\<close>

record forwarded_result =
  fr_RequestID :: string
  fr_Model :: string
  fr_UpstreamModel :: string
  fr_ReasoningEffort :: "string option"
  fr_Stream :: bool
  fr_image :: image_fields

record ForwardResult = forwarded_result +
  fr_Usage :: ClaudeUsage

record OpenAIForwardResult = forwarded_result +
  of_Usage :: OpenAIUsage
  of_BillingModel :: string
  of_ServiceTier :: "string option"
  of_OpenAIWSMode :: bool

text \<open>The request context, the clock and the services; \<open>ux_RequestID\<close> and \<open>ux_ClientRequestID\<close> are empty if not set.\<close>

record usage_ctx =
  ux_ClientRequestID :: string
  ux_RequestID :: string
  ux_generated :: string
  ux_now :: int
  ux_zone :: Location
  ux_DefaultRateMultiplier :: rat
  ux_RunModeSimple :: bool
  ux_prices :: price_list
  ux_channels :: channelCache
  ux_stats :: "int \<Rightarrow> stats_settings"
  ux_rateCached :: "rat option"
  ux_rateRow :: "go_error + rat option"
  ux_CacheTTL1hInjection :: bool

record RecordUsageInput =
  ru_APIKey :: APIKey
  ru_UserID :: int
  ru_Account :: UsageAccount
  ru_Subscription :: "UserSubscription option"
  ru_RequestPayloadHash :: string
  ru_ForceCacheBilling :: bool
  ru_HasAPIKeyService :: bool
  ru_Channel :: ChannelUsageFields

record UsageLog =
  ul_UserID :: int
  ul_APIKeyID :: int
  ul_AccountID :: int
  ul_RequestID :: string
  ul_Model :: string
  ul_RequestedModel :: string
  ul_UpstreamModel :: "string option"
  ul_ServiceTier :: "string option"
  ul_ReasoningEffort :: "string option"
  ul_GroupID :: "int option"
  ul_SubscriptionID :: "int option"
  ul_InputTokens :: int
  ul_OutputTokens :: int
  ul_CacheCreationTokens :: int
  ul_CacheReadTokens :: int
  ul_CacheCreation5mTokens :: int
  ul_CacheCreation1hTokens :: int
  ul_ImageOutputTokens :: int
  ul_ImageCount :: int
  ul_ImageSize :: "string option"
  ul_cost :: CostBreakdown
  ul_BillingMode :: string
  ul_RateMultiplier :: rat
  ul_AccountRateMultiplier :: rat
  ul_AccountStatsCost :: "rat option"
  ul_BillingType :: int
  ul_Stream :: bool
  ul_CacheTTLOverridden :: bool
  ul_ChannelID :: "int option"
  ul_ModelMappingChain :: "string option"

definition BillingTypeBalance :: int where "BillingTypeBalance = 0"
definition BillingTypeSubscription :: int where "BillingTypeSubscription = 1"

definition optionalTrimmedStringPtr :: "string \<Rightarrow> string option" where
  "optionalTrimmedStringPtr raw = (if trim_space raw = '''' then None else Some (trim_space raw))"

definition optionalNonEqualStringPtr :: "string \<Rightarrow> string \<Rightarrow> string option" where
  "optionalNonEqualStringPtr v other = (if v = '''' \<or> v = other then None else Some v)"

definition optionalInt64Ptr :: "int \<Rightarrow> int option" where
  "optionalInt64Ptr v = (if v = 0 then None else Some v)"

definition resolveUsageBillingRequestID :: "usage_ctx \<Rightarrow> string \<Rightarrow> string" where
  "resolveUsageBillingRequestID ux upstreamRequestID =
     (if trim_space (ux_ClientRequestID ux) \<noteq> '''' then ''client:'' @ trim_space (ux_ClientRequestID ux)
      else if trim_space (ux_RequestID ux) \<noteq> '''' then ''local:'' @ trim_space (ux_RequestID ux)
      else if trim_space upstreamRequestID \<noteq> '''' then trim_space upstreamRequestID
      else ''generated:'' @ ux_generated ux)"

definition resolveUsageBillingPayloadFingerprint :: "usage_ctx \<Rightarrow> string \<Rightarrow> string" where
  "resolveUsageBillingPayloadFingerprint ux requestPayloadHash =
     (if trim_space requestPayloadHash \<noteq> '''' then trim_space requestPayloadHash
      else if trim_space (ux_ClientRequestID ux) \<noteq> '''' then ''client:'' @ trim_space (ux_ClientRequestID ux)
      else if trim_space (ux_RequestID ux) \<noteq> '''' then ''local:'' @ trim_space (ux_RequestID ux)
      else '''')"

definition resolveBillingMode :: "int \<Rightarrow> CostBreakdown \<Rightarrow> string" where
  "resolveBillingMode imageCount cost =
     (if cb_BillingMode cost \<noteq> '''' then cb_BillingMode cost
      else if imageCount > 0 then BillingModeImage else BillingModeToken)"

definition isSubscriptionBilling :: "RecordUsageInput \<Rightarrow> bool" where
  "isSubscriptionBilling i \<longleftrightarrow> ru_Subscription i \<noteq> None \<and>
     (case ak_Group (ru_APIKey i) of None \<Rightarrow> False | Some g \<Rightarrow> IsSubscriptionType (Group.truncate g))"

text \<open>The fields that the logs of both gateways have in common.\<close>

definition baseUsageLog :: "usage_ctx \<Rightarrow> RecordUsageInput \<Rightarrow> 'a forwarded_result_scheme \<Rightarrow> string \<Rightarrow> rat \<Rightarrow> rat \<Rightarrow> CostBreakdown \<Rightarrow> UsageLog" where
  "baseUsageLog ux i r requestID multiplier imageMultiplier cost =
     (let count = im_ImageCount (fr_image r); ch = ru_Channel i
      in \<lparr>ul_UserID = ru_UserID i, ul_APIKeyID = ak_ID (ru_APIKey i), ul_AccountID = ac_ID (ru_Account i),
          ul_RequestID = requestID, ul_Model = fr_Model r,
          ul_RequestedModel = (if uf_OriginalModel ch \<noteq> '''' then uf_OriginalModel ch else fr_Model r),
          ul_UpstreamModel = optionalNonEqualStringPtr (fr_UpstreamModel r) (fr_Model r),
          ul_ServiceTier = None, ul_ReasoningEffort = fr_ReasoningEffort r,
          ul_GroupID = ak_GroupID (ru_APIKey i), ul_SubscriptionID = map_option us_ID (ru_Subscription i),
          ul_InputTokens = 0, ul_OutputTokens = 0, ul_CacheCreationTokens = 0, ul_CacheReadTokens = 0,
          ul_CacheCreation5mTokens = 0, ul_CacheCreation1hTokens = 0, ul_ImageOutputTokens = 0,
          ul_ImageCount = count, ul_ImageSize = optionalTrimmedStringPtr (im_ImageSize (fr_image r)),
          ul_cost = cost, ul_BillingMode = resolveBillingMode count cost,
          ul_RateMultiplier = (if count > 0 \<and> cb_BillingMode cost \<noteq> BillingModeToken then imageMultiplier else multiplier),
          ul_AccountRateMultiplier = BillingRateMultiplier (ru_Account i), ul_AccountStatsCost = None,
          ul_BillingType = (if isSubscriptionBilling i then BillingTypeSubscription else BillingTypeBalance),
          ul_Stream = fr_Stream r, ul_CacheTTLOverridden = False, ul_ChannelID = optionalInt64Ptr (uf_ChannelID ch),
          ul_ModelMappingChain = optionalTrimmedStringPtr (uf_ModelMappingChain ch)\<rparr>)"

subsection \<open>The billing command\<close>

record postUsageBillingParams =
  pb_Cost :: CostBreakdown
  pb_UserID :: int
  pb_APIKey :: APIKey
  pb_Account :: UsageAccount
  pb_Subscription :: "UserSubscription option"
  pb_RequestPayloadHash :: string
  pb_IsSubscriptionBill :: bool
  pb_AccountRateMultiplier :: rat
  pb_HasAPIKeyService :: bool

definition shouldDeductAPIKeyQuota :: "postUsageBillingParams \<Rightarrow> bool" where
  "shouldDeductAPIKeyQuota p \<longleftrightarrow> cb_ActualCost (pb_Cost p) > 0 \<and> ak_Quota (pb_APIKey p) > 0 \<and> pb_HasAPIKeyService p"

definition shouldUpdateRateLimits :: "postUsageBillingParams \<Rightarrow> bool" where
  "shouldUpdateRateLimits p \<longleftrightarrow> cb_ActualCost (pb_Cost p) > 0 \<and> HasRateLimits (pb_APIKey p) \<and> pb_HasAPIKeyService p"

definition shouldUpdateAccountQuota :: "postUsageBillingParams \<Rightarrow> bool" where
  "shouldUpdateAccountQuota p \<longleftrightarrow> cb_TotalCost (pb_Cost p) > 0 \<and> IsAPIKeyOrBedrock (pb_Account p) \<and>
     HasAnyQuotaLimit (ac_Extra (pb_Account p))"

definition buildUsageBillingCommand :: "billing_lib \<Rightarrow> string \<Rightarrow> UsageLog \<Rightarrow> postUsageBillingParams \<Rightarrow> UsageBillingCommand" where
  "buildUsageBillingCommand L requestID ul p =
     (let cost = pb_Cost p;
          onSubscription = (pb_IsSubscriptionBill p \<and> pb_Subscription p \<noteq> None \<and> cb_TotalCost cost > 0)
      in Normalize L \<lparr>uc_RequestID = requestID, uc_APIKeyID = ak_ID (pb_APIKey p), uc_RequestFingerprint = '''',
          uc_RequestPayloadHash = trim_space (pb_RequestPayloadHash p), uc_UserID = pb_UserID p, uc_AccountID = ac_ID (pb_Account p),
          uc_SubscriptionID = (if onSubscription then map_option us_ID (pb_Subscription p) else ul_SubscriptionID ul),
          uc_AccountType = ac_Type (pb_Account p), uc_Model = ul_Model ul, uc_ServiceTier = coalesce (ul_ServiceTier ul) '''',
          uc_ReasoningEffort = coalesce (ul_ReasoningEffort ul) '''', uc_BillingType = ul_BillingType ul,
          uc_InputTokens = ul_InputTokens ul, uc_OutputTokens = ul_OutputTokens ul,
          uc_CacheCreationTokens = ul_CacheCreationTokens ul, uc_CacheReadTokens = ul_CacheReadTokens ul,
          uc_ImageCount = ul_ImageCount ul, uc_MediaType = '''',
          uc_BalanceCost = (if \<not> onSubscription \<and> cb_ActualCost cost > 0 then cb_ActualCost cost else 0),
          uc_SubscriptionCost = (if onSubscription then cb_ActualCost cost else 0),
          uc_APIKeyQuotaCost = (if shouldDeductAPIKeyQuota p then cb_ActualCost cost else 0),
          uc_APIKeyRateLimitCost = (if shouldUpdateRateLimits p then cb_ActualCost cost else 0),
          uc_AccountQuotaCost = (if shouldUpdateAccountQuota p then cb_TotalCost cost * pb_AccountRateMultiplier p else 0)\<rparr>)"

text \<open>What is left of \<open>RecordUsage\<close> once the cost is known; in simple mode nothing is billed.\<close>

datatype 'c record_result = UsageFailed go_error | UsageRecorded 'c

definition applyUsageBilling :: "billing_lib \<Rightarrow> string \<Rightarrow> UsageLog \<Rightarrow> postUsageBillingParams \<Rightarrow> (UsageLog record_result \<Rightarrow> 'r bill_flow) \<Rightarrow> 'r bill_flow" where
  "applyUsageBilling L requestID ul p k =
     Apply L (Some (buildUsageBillingCommand L requestID ul p))
       (\<lambda>res. k (case res of Inl err \<Rightarrow> UsageFailed err | Inr _ \<Rightarrow> UsageRecorded ul))"

definition billUsage :: "billing_lib \<Rightarrow> usage_ctx \<Rightarrow> RecordUsageInput \<Rightarrow> string \<Rightarrow> UsageLog \<Rightarrow>
    (UsageLog record_result \<Rightarrow> 'r bill_flow) \<Rightarrow> 'r bill_flow" where
  "billUsage L ux i requestID ul k =
     (if ux_RunModeSimple ux then k (UsageRecorded ul)
      else applyUsageBilling L requestID ul
        \<lparr>pb_Cost = ul_cost ul, pb_UserID = ru_UserID i, pb_APIKey = ru_APIKey i, pb_Account = ru_Account i,
         pb_Subscription = ru_Subscription i,
         pb_RequestPayloadHash = resolveUsageBillingPayloadFingerprint ux (ru_RequestPayloadHash i),
         pb_IsSubscriptionBill = isSubscriptionBilling i, pb_AccountRateMultiplier = BillingRateMultiplier (ru_Account i),
         pb_HasAPIKeyService = ru_HasAPIKeyService i\<rparr> k)"

end
