(* ===== verification/UsageGateways.thy ===== *)
theory UsageGateways
  imports UsageRecording
begin

section \<open>Recording the usage of a request, by gateway\<close>

text \<open>
  \<open>recordUsageCore\<close> of \<open>service/gateway_service.go\<close> and \<open>RecordUsage\<close> of \<open>service/openai_gateway_service.go\<close>: the
  cost of what was used, the row of the log, and the bill.  Both services have a resolver and a configuration.
\<close>

subsection \<open>Common steps\<close>

definition baseRate :: "usage_ctx \<Rightarrow> RecordUsageInput \<Rightarrow> rat" where
  "baseRate ux i =
     (case (ak_GroupID (ru_APIKey i), ak_Group (ru_APIKey i)) of
        (Some gid, Some g) \<Rightarrow> fst (ResolveUserGroupRate (ru_UserID i) gid (ux_rateCached ux) (ux_rateRow ux) (rg_RateMultiplier g))
      | _ \<Rightarrow> ux_DefaultRateMultiplier ux)"

definition multipliers :: "usage_ctx \<Rightarrow> RecordUsageInput \<Rightarrow> rat \<times> rat" where
  "multipliers ux i = computePeakAwareMultipliers (ux_zone ux) (ux_now ux) (ak_Group (ru_APIKey i)) (baseRate ux i)"

definition groupImagePrices :: "APIKey \<Rightarrow> ImagePriceConfig option" where
  "groupImagePrices k = map_option (\<lambda>g. \<lparr>ip_Price1K = rg_ImagePrice1K g, ip_Price2K = rg_ImagePrice2K g, ip_Price4K = rg_ImagePrice4K g\<rparr>)
     (ak_Group k)"

definition resolveChannelPricing :: "usage_ctx \<Rightarrow> string \<Rightarrow> APIKey \<Rightarrow> ResolvedPricing option priced" where
  "resolveChannelPricing ux billingModel k =
     (case ak_Group k of
        None \<Rightarrow> State_Monad.return None
      | Some g \<Rightarrow> do {
          r \<leftarrow> ResolvePricing (ux_prices ux) (ux_channels ux) billingModel (Some (g_ID g));
          State_Monad.return (if rp_Source r = PricingSourceChannel then Some r else None) })"

text \<open>The cost for the statistics of the account, added to the row.\<close>

definition withStatsCost :: "usage_ctx \<Rightarrow> RecordUsageInput \<Rightarrow> 'a forwarded_result_scheme \<Rightarrow> UsageTokens \<Rightarrow> UsageLog \<Rightarrow> UsageLog priced" where
  "withStatsCost ux i r t ul =
     (case ak_GroupID (ru_APIKey i) of
        None \<Rightarrow> State_Monad.return ul
      | Some gid \<Rightarrow> do {
          c \<leftarrow> applyAccountStatsCost (ux_prices ux) (ux_channels ux) (ux_stats ux) (ac_ID (ru_Account i)) gid
                 (fr_UpstreamModel r) (fr_Model r) t (ul_ImageCount ul) (cb_TotalCost (ul_cost ul));
          State_Monad.return (ul\<lparr>ul_AccountStatsCost := c\<rparr>) })"

subsection \<open>Anthropic and Gemini requests\<close>

definition usageTokens :: "ClaudeUsage \<Rightarrow> UsageTokens" where
  "usageTokens u = zeroTokens\<lparr>ut_InputTokens := cu_InputTokens u, ut_OutputTokens := cu_OutputTokens u,
     ut_CacheCreationTokens := cu_CacheCreationInputTokens u, ut_CacheReadTokens := cu_CacheReadInputTokens u,
     ut_CacheCreation5mTokens := cu_CacheCreation5mTokens u, ut_CacheCreation1hTokens := cu_CacheCreation1hTokens u,
     ut_ImageOutputTokens := cu_ImageOutputTokens u\<rparr>"

definition costInput :: "string \<Rightarrow> UsageTokens \<Rightarrow> int \<Rightarrow> string \<Rightarrow> rat \<Rightarrow> string \<Rightarrow> CostInput" where
  "costInput model t count sizeTier rate tier = \<lparr>ci_Model = model, ci_Tokens = t, ci_RequestCount = count,
     ci_SizeTier = sizeTier, ci_RateMultiplier = rate, ci_ServiceTier = tier\<rparr>"

definition orZeroCost :: "go_error + CostBreakdown \<Rightarrow> CostBreakdown" where
  "orZeroCost r = (case r of Inl _ \<Rightarrow> zeroCost | Inr c \<Rightarrow> c)"

definition calculateImageCost :: "usage_ctx \<Rightarrow> ForwardResult \<Rightarrow> APIKey \<Rightarrow> string \<Rightarrow> rat \<Rightarrow> CostBreakdown priced" where
  "calculateImageCost ux r k billingModel rate =
     (let sizeTier = NormalizeImageBillingTierOrDefault (im_ImageSize (fr_image r)); u = fr_Usage r
      in do {
        resolved \<leftarrow> resolveChannelPricing ux billingModel k;
        case resolved of
          Some p \<Rightarrow> do {
            c \<leftarrow> CalculateCostResolved p (costInput billingModel
                   (zeroTokens\<lparr>ut_InputTokens := cu_InputTokens u, ut_OutputTokens := cu_OutputTokens u,
                      ut_ImageOutputTokens := cu_ImageOutputTokens u\<rparr>)
                   (im_ImageCount (fr_image r)) sizeTier rate '''');
            State_Monad.return (orZeroCost c) }
        | None \<Rightarrow> State_Monad.return
            (CalculateImageCost (ux_prices ux) billingModel sizeTier (im_ImageCount (fr_image r)) (groupImagePrices k) rate)
      })"

record recordUsageOpts =
  ro_LongContextThreshold :: int
  ro_LongContextMultiplier :: rat

definition calculateTokenCost :: "usage_ctx \<Rightarrow> ForwardResult \<Rightarrow> APIKey \<Rightarrow> string \<Rightarrow> rat \<Rightarrow> recordUsageOpts \<Rightarrow> CostBreakdown priced" where
  "calculateTokenCost ux r k billingModel rate opts =
     (let t = usageTokens (fr_Usage r)
      in do {
        resolved \<leftarrow> resolveChannelPricing ux billingModel k;
        c \<leftarrow> (case resolved of
            Some p \<Rightarrow> CalculateCostResolved p (costInput billingModel t 1 '''' rate '''')
          | None \<Rightarrow>
              if ro_LongContextThreshold opts > 0
              then CalculateCostWithLongContext (ux_prices ux) billingModel t rate (ro_LongContextThreshold opts)
                     (ro_LongContextMultiplier opts)
              else CalculateCost (ux_prices ux) billingModel t rate);
        State_Monad.return (orZeroCost c)
      })"

definition calculateRecordUsageCost :: "usage_ctx \<Rightarrow> ForwardResult \<Rightarrow> APIKey \<Rightarrow> string \<Rightarrow> rat \<Rightarrow> rat \<Rightarrow> recordUsageOpts \<Rightarrow>
    CostBreakdown priced" where
  "calculateRecordUsageCost ux r k billingModel rate imageRate opts =
     (if im_ImageCount (fr_image r) > 0
      then do {
        resolved \<leftarrow> resolveChannelPricing ux billingModel k;
        if map_option rp_Mode resolved = Some BillingModeToken then calculateTokenCost ux r k billingModel rate opts
        else calculateImageCost ux r k billingModel imageRate
      }
      else calculateTokenCost ux r k billingModel rate opts)"

text \<open>Cache billing that a switch of sessions forces, and the lifetime of cached tokens that the account is set to.\<close>

definition forceCacheBilling :: "bool \<Rightarrow> ClaudeUsage \<Rightarrow> ClaudeUsage" where
  "forceCacheBilling force u =
     (if force \<and> cu_InputTokens u > 0
      then u\<lparr>cu_CacheReadInputTokens := wrap64 (cu_CacheReadInputTokens u + cu_InputTokens u), cu_InputTokens := 0\<rparr> else u)"

definition overrideCacheTTL :: "string option \<Rightarrow> ClaudeUsage \<Rightarrow> ClaudeUsage \<times> bool" where
  "overrideCacheTTL target u =
     (case target of
        None \<Rightarrow> (u, False)
      | Some t \<Rightarrow> (let v = fst (applyCacheTTLOverride t u)
                  in (v, wrap64 (cu_CacheCreation5mTokens v + cu_CacheCreation1hTokens v) > 0)))"

definition normalizedResult :: "usage_ctx \<Rightarrow> RecordUsageInput \<Rightarrow> ForwardResult \<Rightarrow> ForwardResult \<times> bool" where
  "normalizedResult ux i r =
     (let (u, overridden) = overrideCacheTTL (resolveCacheTTLUsageOverrideTarget (ux_CacheTTL1hInjection ux) (ru_Account i))
            (forceCacheBilling (ru_ForceCacheBilling i) (fr_Usage r))
      in (r\<lparr>fr_image := ApplyImageBillingResolution (fr_image r), fr_Usage := u\<rparr>, overridden))"

definition gatewayBillingModel :: "ChannelUsageFields \<Rightarrow> string \<Rightarrow> string \<Rightarrow> string" where
  "gatewayBillingModel ch model upstreamModel =
     (if uf_BillingModelSource ch = BillingModelSourceRequested \<and> uf_OriginalModel ch \<noteq> '''' then uf_OriginalModel ch
      else if uf_BillingModelSource ch = BillingModelSourceChannelMapped \<and> uf_ChannelMappedModel ch \<noteq> '''' then uf_ChannelMappedModel ch
      else forwardResultBillingModel model upstreamModel)"

definition gatewayUsageLog :: "usage_ctx \<Rightarrow> RecordUsageInput \<Rightarrow> ForwardResult \<Rightarrow> recordUsageOpts \<Rightarrow> UsageLog priced" where
  "gatewayUsageLog ux i r0 opts =
     (let r = fst (normalizedResult ux i r0); u = fr_Usage r; rates = multipliers ux i
      in do {
        cost \<leftarrow> calculateRecordUsageCost ux r (ru_APIKey i)
          (gatewayBillingModel (ru_Channel i) (fr_Model r) (fr_UpstreamModel r)) (fst rates) (snd rates) opts;
        withStatsCost ux i r
          (zeroTokens\<lparr>ut_InputTokens := cu_InputTokens u, ut_OutputTokens := cu_OutputTokens u,
             ut_CacheCreationTokens := cu_CacheCreationInputTokens u, ut_CacheReadTokens := cu_CacheReadInputTokens u,
             ut_ImageOutputTokens := cu_ImageOutputTokens u\<rparr>)
          ((baseUsageLog ux i r (resolveUsageBillingRequestID ux (fr_RequestID r)) (fst rates) (snd rates) cost)
             \<lparr>ul_InputTokens := cu_InputTokens u, ul_OutputTokens := cu_OutputTokens u,
              ul_CacheCreationTokens := cu_CacheCreationInputTokens u, ul_CacheReadTokens := cu_CacheReadInputTokens u,
              ul_CacheCreation5mTokens := cu_CacheCreation5mTokens u, ul_CacheCreation1hTokens := cu_CacheCreation1hTokens u,
              ul_ImageOutputTokens := cu_ImageOutputTokens u, ul_CacheTTLOverridden := snd (normalizedResult ux i r0)\<rparr>)
      })"

definition recordUsageCore :: "billing_lib \<Rightarrow> usage_ctx \<Rightarrow> RecordUsageInput \<Rightarrow> ForwardResult \<Rightarrow> recordUsageOpts \<Rightarrow>
    ModelPricing list \<Rightarrow> (UsageLog record_result \<times> ModelPricing list \<Rightarrow> 'r bill_flow) \<Rightarrow> 'r bill_flow" where
  "recordUsageCore L ux i r opts prices k =
     (let (ul, prices') = run_state (gatewayUsageLog ux i r opts) prices
      in billUsage L ux i (ul_RequestID ul) ul (\<lambda>res. k (res, prices')))"

definition Gateway_RecordUsage :: "billing_lib \<Rightarrow> usage_ctx \<Rightarrow> RecordUsageInput \<Rightarrow> ForwardResult \<Rightarrow>
    ModelPricing list \<Rightarrow> (UsageLog record_result \<times> ModelPricing list \<Rightarrow> 'r bill_flow) \<Rightarrow> 'r bill_flow" where
  "Gateway_RecordUsage L ux i r = recordUsageCore L ux i r \<lparr>ro_LongContextThreshold = 0, ro_LongContextMultiplier = 0\<rparr>"

definition RecordUsageWithLongContext :: "billing_lib \<Rightarrow> usage_ctx \<Rightarrow> RecordUsageInput \<Rightarrow> int \<Rightarrow> rat \<Rightarrow> ForwardResult \<Rightarrow>
    ModelPricing list \<Rightarrow> (UsageLog record_result \<times> ModelPricing list \<Rightarrow> 'r bill_flow) \<Rightarrow> 'r bill_flow" where
  "RecordUsageWithLongContext L ux i threshold multiplier r =
     recordUsageCore L ux i r \<lparr>ro_LongContextThreshold = threshold, ro_LongContextMultiplier = multiplier\<rparr>"

subsection \<open>OpenAI requests\<close>

definition actualInputTokens :: "OpenAIUsage \<Rightarrow> int" where
  "actualInputTokens u = (let n = wrap64 (u_InputTokens u - u_CacheReadInputTokens u) in if n < 0 then 0 else n)"

definition openaiUsageTokens :: "OpenAIUsage \<Rightarrow> UsageTokens" where
  "openaiUsageTokens u = zeroTokens\<lparr>ut_InputTokens := actualInputTokens u, ut_ImageInputTokens := u_ImageInputTokens u,
     ut_OutputTokens := u_OutputTokens u, ut_CacheCreationTokens := u_CacheCreationInputTokens u,
     ut_CacheReadTokens := u_CacheReadInputTokens u, ut_ImageOutputTokens := u_ImageOutputTokens u\<rparr>"

definition openaiBillingModel :: "ChannelUsageFields \<Rightarrow> OpenAIForwardResult \<Rightarrow> string" where
  "openaiBillingModel ch r =
     (if uf_BillingModelSource ch = BillingModelSourceRequested \<and> uf_OriginalModel ch \<noteq> '''' then uf_OriginalModel ch
      else if uf_BillingModelSource ch = BillingModelSourceChannelMapped \<and> uf_ChannelMappedModel ch \<noteq> '''' \<and>
              uf_ChannelMappedModel ch \<noteq> uf_OriginalModel ch then uf_ChannelMappedModel ch
      else if of_BillingModel r \<noteq> '''' then trim_space (of_BillingModel r)
      else forwardResultBillingModel (fr_Model r) (fr_UpstreamModel r))"

definition openaiBillingModels :: "ChannelUsageFields \<Rightarrow> OpenAIForwardResult \<Rightarrow> string list" where
  "openaiBillingModels ch r = usageBillingModelCandidates (openaiBillingModel ch r)
     [of_BillingModel r, uf_ChannelMappedModel ch, uf_OriginalModel ch, fr_UpstreamModel r, fr_Model r]"

definition calculateOpenAIImageCost :: "usage_ctx \<Rightarrow> string \<Rightarrow> APIKey \<Rightarrow> OpenAIForwardResult \<Rightarrow> rat \<Rightarrow> CostBreakdown priced" where
  "calculateOpenAIImageCost ux billingModel k r rate =
     (let sizeTier = NormalizeImageBillingTierOrDefault (im_ImageSize (fr_image r));
          byImage = CalculateImageCost (ux_prices ux) billingModel sizeTier (im_ImageCount (fr_image r)) (groupImagePrices k) rate
      in do {
        resolved \<leftarrow> resolveChannelPricing ux billingModel k;
        case resolved of
          None \<Rightarrow> State_Monad.return byImage
        | Some p \<Rightarrow>
            if labelled (rp_Mode p)
            then do {
              c \<leftarrow> CalculateCostResolved p (costInput billingModel zeroTokens (im_ImageCount (fr_image r)) sizeTier rate '''');
              State_Monad.return (case c of Inl _ \<Rightarrow> byImage | Inr c \<Rightarrow> c) }
            else State_Monad.return byImage
      })"

definition calculateOpenAIRecordUsageTokenCost :: "usage_ctx \<Rightarrow> APIKey \<Rightarrow> string \<Rightarrow> rat \<Rightarrow> UsageTokens \<Rightarrow> string \<Rightarrow>
    (go_error + CostBreakdown) priced" where
  "calculateOpenAIRecordUsageTokenCost ux k billingModel rate t tier =
     (case ak_Group k of
        Some g \<Rightarrow> CalculateCostUnified (ux_prices ux) (ux_channels ux) (Some (g_ID g)) (costInput billingModel t 1 '''' rate tier)
      | None \<Rightarrow> CalculateCostWithServiceTier (ux_prices ux) billingModel t rate tier)"

text \<open>The first candidate with a price decides; otherwise the last error is returned.\<close>

fun firstPricedCandidate :: "(string \<Rightarrow> (go_error + CostBreakdown) priced) \<Rightarrow> go_error option \<Rightarrow> string list \<Rightarrow>
    (go_error option + CostBreakdown) priced" where
  "firstPricedCandidate cost lastErr [] = State_Monad.return (Inl lastErr)"
| "firstPricedCandidate cost lastErr (c # cs) =
     (if trim_space c = '''' then firstPricedCandidate cost lastErr cs
      else do {
        r \<leftarrow> cost (trim_space c);
        case r of Inr b \<Rightarrow> State_Monad.return (Inr b) | Inl err \<Rightarrow> firstPricedCandidate cost (Some err) cs
      })"

definition calculateOpenAIRecordUsageCost :: "usage_ctx \<Rightarrow> OpenAIForwardResult \<Rightarrow> APIKey \<Rightarrow> string list \<Rightarrow> rat \<Rightarrow> rat \<Rightarrow>
    UsageTokens \<Rightarrow> string \<Rightarrow> (go_error + CostBreakdown) priced" where
  "calculateOpenAIRecordUsageCost ux r k billingModels rate imageRate t tier =
     (let billingModel = firstUsageBillingModel billingModels;
          byToken =
            (if billingModel = '''' then State_Monad.return (Inl (OtherError ''openai usage billing model is empty'' None))
             else do {
               c \<leftarrow> firstPricedCandidate (\<lambda>m. calculateOpenAIRecordUsageTokenCost ux k m rate t tier) None billingModels;
               State_Monad.return (case c of
                   Inr b \<Rightarrow> Inr b
                 | Inl e \<Rightarrow> (let lastErr = (case e of None \<Rightarrow> OtherError ''no non-empty billing model candidates'' None | Some err \<Rightarrow> err)
                            in Inl (OtherError (''calculate OpenAI usage cost failed for billing models '' @
                                 join_with '','' billingModels @ '': '' @ errText lastErr) (Some lastErr)))) })
      in if im_ImageCount (fr_image r) > 0
         then do {
           resolved \<leftarrow> resolveChannelPricing ux billingModel k;
           if map_option rp_Mode resolved = Some BillingModeToken then byToken
           else do { c \<leftarrow> calculateOpenAIImageCost ux billingModel k r imageRate; State_Monad.return (Inr c) }
         }
         else byToken)"

fun wraps :: "go_error \<Rightarrow> go_error \<Rightarrow> bool" where
  "wraps target (OtherError m cause) = (OtherError m cause = target \<or> (case cause of None \<Rightarrow> False | Some e \<Rightarrow> wraps target e))"
| "wraps target (ApplicationError s cause) =
     (ApplicationError s cause = target \<or> (case cause of None \<Rightarrow> False | Some e \<Rightarrow> wraps target e))"

definition isUsagePricingUnavailableError :: "go_error \<Rightarrow> bool" where
  "isUsagePricingUnavailableError err \<longleftrightarrow> wraps ErrModelPricingUnavailable err \<or>
     contains (to_lower (errText err)) ''no pricing available'' \<or> contains (to_lower (errText err)) ''pricing not found''"

definition openaiRequestID :: "usage_ctx \<Rightarrow> OpenAIForwardResult \<Rightarrow> string" where
  "openaiRequestID ux r =
     (if of_OpenAIWSMode r \<and> trim_space (fr_RequestID r) \<noteq> '''' then trim_space (fr_RequestID r)
      else resolveUsageBillingRequestID ux (fr_RequestID r))"

definition openaiUsageLog :: "usage_ctx \<Rightarrow> RecordUsageInput \<Rightarrow> OpenAIForwardResult \<Rightarrow> (go_error + UsageLog) priced" where
  "openaiUsageLog ux i r0 =
     (let r = r0\<lparr>fr_image := ApplyImageBillingResolution (fr_image r0)\<rparr>;
          u = of_Usage r; t = openaiUsageTokens u; rates = multipliers ux i
      in do {
        c \<leftarrow> calculateOpenAIRecordUsageCost ux r (ru_APIKey i) (openaiBillingModels (ru_Channel i) r) (fst rates) (snd rates) t
               (trim_space (coalesce (of_ServiceTier r) ''''));
        case (case c of
                Inr cost \<Rightarrow> Inr cost
              | Inl err \<Rightarrow> if isUsagePricingUnavailableError err then Inr (zeroCost\<lparr>cb_BillingMode := BillingModeToken\<rparr>) else Inl err) of
          Inl err \<Rightarrow> State_Monad.return (Inl err)
        | Inr cost \<Rightarrow> do {
            ul \<leftarrow> withStatsCost ux i r t
              ((baseUsageLog ux i r (openaiRequestID ux r) (fst rates) (snd rates) cost)
                 \<lparr>ul_ServiceTier := of_ServiceTier r, ul_InputTokens := actualInputTokens u, ul_OutputTokens := u_OutputTokens u,
                  ul_CacheCreationTokens := u_CacheCreationInputTokens u, ul_CacheReadTokens := u_CacheReadInputTokens u,
                  ul_ImageOutputTokens := u_ImageOutputTokens u\<rparr>);
            State_Monad.return (Inr ul) }
      })"

definition OpenAIRecordUsage :: "billing_lib \<Rightarrow> usage_ctx \<Rightarrow> RecordUsageInput \<Rightarrow> OpenAIForwardResult \<Rightarrow>
    ModelPricing list \<Rightarrow> (UsageLog record_result \<times> ModelPricing list \<Rightarrow> 'r bill_flow) \<Rightarrow> 'r bill_flow" where
  "OpenAIRecordUsage L ux i r prices k =
     (case run_state (openaiUsageLog ux i r) prices of
        (Inl err, prices') \<Rightarrow> k (UsageFailed err, prices')
      | (Inr ul, prices') \<Rightarrow> billUsage L ux i (ul_RequestID ul) ul (\<lambda>res. k (res, prices')))"

text \<open>A request that the provider's policy refused is recorded with the tokens the refusal reports.\<close>

definition RecordCyberPolicyUsageLog :: "billing_lib \<Rightarrow> usage_ctx \<Rightarrow> RecordUsageInput \<Rightarrow> string \<Rightarrow> string \<Rightarrow> bool \<Rightarrow> int \<Rightarrow> int \<Rightarrow>
    ModelPricing list \<Rightarrow> (UsageLog record_result option \<times> ModelPricing list \<Rightarrow> 'r bill_flow) \<Rightarrow> 'r bill_flow" where
  "RecordCyberPolicyUsageLog L ux i requestID model stream inTok outTok prices k =
     (if trim_space model = '''' then k (None, prices)
      else OpenAIRecordUsage L ux i
        \<lparr>fr_RequestID = requestID, fr_Model = model, fr_UpstreamModel = '''', fr_ReasoningEffort = None, fr_Stream = stream,
         fr_image = \<lparr>im_ImageCount = 0, im_ImageSize = '''', im_ImageInputSize = '''', im_ImageOutputSize = '''',
           im_ImageOutputSizes = [], im_ImageSizeSource = '''', im_ImageSizeBreakdown = Map.empty\<rparr>,
         of_Usage = zeroOpenAIUsage\<lparr>u_InputTokens := inTok, u_OutputTokens := outTok\<rparr>, of_BillingModel = '''',
         of_ServiceTier = None, of_OpenAIWSMode = False\<rparr>
        prices (\<lambda>(res, prices'). k (Some res, prices')))"

end
