(* ===== verification/PriceHeap.thy ===== *)
theory PriceHeap
  imports UsageGateways
begin

section \<open>Programs on the heap of prices\<close>

text \<open>
  Running the programs of \<open>BillingPrices\<close>: what they return and which objects they change.  \<open>typed_prog\<close> is a
  judgement for programs that keep every object well-formed, and whose result may be an address.
\<close>

named_theorems price_run

lemma run_return [price_run]: "run_state (State_Monad.return x) H = (x, H)"
  by (simp add: State_Monad.return_def)

lemma run_bind [price_run]: "run_state (State_Monad.bind m f) H = (let (x, H1) = run_state m H in run_state (f x) H1)"
  by (simp add: State_Monad.bind_def split: prod.splits)

lemma run_new [price_run]: "run_state (new_price p) H = (length H, H @ [p])"
  by (simp add: new_price_def)

lemma run_read [price_run]: "run_state (read_price a) H = (H ! a, H)"
  by (simp add: read_price_def)

lemma run_write [price_run]: "run_state (write_price a f) H = ((), H[a := f (H ! a)])"
  by (simp add: write_price_def)

lemma run_if [price_run]: "run_state (if c then m else m') H = (if c then run_state m H else run_state m' H)"
  by simp

subsection \<open>Well-formed prices\<close>

definition wf_price :: "ModelPricing \<Rightarrow> bool" where
  "wf_price p \<longleftrightarrow> list_all (\<lambda>f. 0 \<le> f p)
     [mp_InputPricePerToken, mp_InputPricePerTokenPriority, mp_ImageInputPricePerToken, mp_OutputPricePerToken,
      mp_OutputPricePerTokenPriority, mp_CacheCreationPricePerToken, mp_CacheReadPricePerToken,
      mp_CacheReadPricePerTokenPriority, mp_CacheCreation5mPrice, mp_CacheCreation1hPrice, mp_LongContextInputMultiplier,
      mp_LongContextOutputMultiplier, mp_ImageOutputPricePerToken]"

text \<open>A heap of well-formed prices that has the table of the program.\<close>

definition typed_heap :: "ModelPricing list \<Rightarrow> bool" where
  "typed_heap H \<longleftrightarrow> list_all wf_price H \<and> length initialPrices \<le> length H"

definition typed_prog :: "nat \<Rightarrow> 'a priced \<Rightarrow> ('a \<Rightarrow> nat \<Rightarrow> bool) \<Rightarrow> bool" where
  "typed_prog n m R \<longleftrightarrow>
     (\<forall>H. typed_heap H \<and> n \<le> length H \<longrightarrow>
        (case run_state m H of (x, H1) \<Rightarrow> typed_heap H1 \<and> length H \<le> length H1 \<and> R x (length H1)))"

named_theorems price_typing

lemma typed_return [price_typing]: "(\<And>k. n \<le> k \<Longrightarrow> R x k) \<Longrightarrow> typed_prog n (State_Monad.return x) R"
  by (simp add: typed_prog_def price_run)

lemma typed_bind:
  assumes "typed_prog n m R" "\<And>x k. n \<le> k \<Longrightarrow> R x k \<Longrightarrow> typed_prog k (f x) S"
  shows "typed_prog n (State_Monad.bind m f) S"
  unfolding typed_prog_def
proof (intro allI impI)
  fix H assume H: "typed_heap H \<and> n \<le> length H"
  obtain x H1 where m: "run_state m H = (x, H1)" by (cases "run_state m H")
  have 1: "typed_heap H1" "length H \<le> length H1" "R x (length H1)" using assms(1) H m by (auto simp: typed_prog_def)
  have "typed_prog (length H1) (f x) S" using assms(2)[of "length H1" x] 1 H by simp
  then show "case run_state (State_Monad.bind m f) H of (y, H2) \<Rightarrow> typed_heap H2 \<and> length H \<le> length H2 \<and> S y (length H2)"
    using 1 m by (fastforce simp: typed_prog_def price_run)
qed

lemma typed_new [price_typing]: "wf_price p \<Longrightarrow> typed_prog n (new_price p) (\<lambda>a k. a < k)"
  by (auto simp: typed_prog_def price_run typed_heap_def)

lemma typed_read [price_typing]: "a < n \<Longrightarrow> typed_prog n (read_price a) (\<lambda>p k. wf_price p)"
  by (auto simp: typed_prog_def price_run typed_heap_def list_all_length)

lemma typed_write [price_typing]:
  assumes "\<And>p. wf_price p \<Longrightarrow> wf_price (f p)" "a < n"
  shows "typed_prog n (write_price a f) (\<lambda>_ k. True)"
  using assms by (auto simp: typed_prog_def price_run typed_heap_def list_all_length nth_list_update)

lemma typed_weaken: "typed_prog n m R \<Longrightarrow> n \<le> k \<Longrightarrow> (\<And>x j. k \<le> j \<Longrightarrow> R x j \<Longrightarrow> S x j) \<Longrightarrow> typed_prog k m S"
  by (fastforce simp: typed_prog_def)

lemma typed_run:
  assumes "typed_prog 0 m R" "typed_heap H"
  shows "typed_heap (snd (run_state m H)) \<and> R (fst (run_state m H)) (length (snd (run_state m H)))"
  using assms by (cases "run_state m H") (auto simp: typed_prog_def)

subsection \<open>Prices of the program and of the list\<close>

lemma perMTok_wf: "0 \<le> i \<Longrightarrow> 0 \<le> out \<Longrightarrow> 0 \<le> cw \<Longrightarrow> 0 \<le> cr \<Longrightarrow> wf_price (perMTok i out cw cr)"
  by (simp add: wf_price_def perMTok_def zeroPricing_def)

fun entry_ok :: "fallback_entry \<Rightarrow> bool" where
  "entry_ok (PriceOf key p) = wf_price p"
| "entry_ok (SameAs key other) = True"

lemma fallbackEntries_ok: "list_all entry_ok fallbackEntries"
  by (simp add: fallbackEntries_def claudeGptPrices_def deepseekGlmPrices_def kimiMinimaxPrices_def otherPrices_def
      wf_price_def perMTok_def priorityMTok_def zeroPricing_def openAIGPT54LongContextInputMultiplier_def
      openAIGPT54LongContextOutputMultiplier_def openAIGPT54LongContextInputThreshold_def)

text \<open>Building the table: every entry points into the heap.\<close>

lemma assignEntry_keeps:
  assumes "entry_ok e" "list_all wf_price (snd s)" "\<And>k a. (k, a) \<in> set (fst s) \<Longrightarrow> a < length (snd s)"
  shows "list_all wf_price (snd (assignEntry e s)) \<and> (\<forall>k a. (k, a) \<in> set (fst (assignEntry e s)) \<longrightarrow> a < length (snd (assignEntry e s)))"
  using assms by (cases e; cases s) (auto split: option.split dest!: map_of_SomeD, fastforce)

lemma initFallbackPricing_ok:
  "list_all wf_price initialPrices \<and> (\<forall>k a. (k, a) \<in> set fallbackPrices \<longrightarrow> a < length initialPrices)"
proof -
  have "list_all entry_ok es \<Longrightarrow> list_all wf_price (snd s) \<Longrightarrow> (\<forall>k a. (k, a) \<in> set (fst s) \<longrightarrow> a < length (snd s)) \<Longrightarrow>
      list_all wf_price (snd (fold assignEntry es s)) \<and>
      (\<forall>k a. (k, a) \<in> set (fst (fold assignEntry es s)) \<longrightarrow> a < length (snd (fold assignEntry es s)))" for es s
  proof (induction es arbitrary: s)
    case (Cons e es)
    then show ?case using assignEntry_keeps[of e s] by simp
  qed simp
  then show ?thesis using fallbackEntries_ok by (simp add: initialPrices_def fallbackPrices_def initFallbackPricing_def)
qed

lemma fallback_address: "getFallbackPricing m = Some a \<Longrightarrow> a < length initialPrices"
  using initFallbackPricing_ok by (auto simp: getFallbackPricing_def Let_def bind_eq_Some_conv dest!: map_of_SomeD)

lemma typed_initial: "typed_heap initialPrices"
  using initFallbackPricing_ok by (simp add: typed_heap_def)

end
