(* ===== verification/PriceTyping.thy ===== *)
theory PriceTyping
  imports PriceHeap ChannelProperties
begin

section \<open>No price is negative\<close>

text \<open>
  Prices of the list, of the table of the program and of accepted channels are not negative, and so no cost is.
\<close>

subsection \<open>Prices of channels\<close>

definition nonneg :: "rat option \<Rightarrow> bool" where
  "nonneg v \<longleftrightarrow> (case v of None \<Rightarrow> True | Some x \<Rightarrow> 0 \<le> x)"

lemma nonneg_simps [simp]: "nonneg None" "nonneg (Some x) \<longleftrightarrow> 0 \<le> x"
  by (simp_all add: nonneg_def)

lemma nonneg_orZero [simp]: "nonneg v \<Longrightarrow> 0 \<le> orZero v"
  by (simp add: orZero_def nonneg_def split: option.splits)

definition interval_ok :: "PricingInterval \<Rightarrow> bool" where
  "interval_ok iv \<longleftrightarrow> nonneg (pv_InputPrice iv) \<and> nonneg (pv_OutputPrice iv) \<and> nonneg (pv_CacheWritePrice iv) \<and>
     nonneg (pv_CacheReadPrice iv) \<and> nonneg (pv_PerRequestPrice iv)"

definition channel_price_ok :: "ChannelModelPricing \<Rightarrow> bool" where
  "channel_price_ok p \<longleftrightarrow> nonneg (cm_InputPrice p) \<and> nonneg (cm_OutputPrice p) \<and> nonneg (cm_CacheWritePrice p) \<and>
     nonneg (cm_CacheReadPrice p) \<and> nonneg (cm_ImageOutputPrice p) \<and> nonneg (cm_PerRequestPrice p) \<and>
     list_all interval_ok (cm_Intervals p)"

lemma negative_None: "negative prices = None \<longleftrightarrow> list_all (\<lambda>(n, v). nonneg v) prices"
  by (auto simp: negative_def nonneg_def find_None_iff list_all_iff not_less split: option.splits)

lemma validateSingleInterval_ok: "validateSingleInterval iv i = None \<Longrightarrow> interval_ok iv"
  by (auto simp: validateSingleInterval_def validateIntervalPrices_def negative_None interval_ok_def Let_def
      split: option.splits if_splits)

lemma validateEach_ok: "validateEach i ivs = None \<Longrightarrow> list_all interval_ok ivs"
  by (induction ivs arbitrary: i) (auto split: option.splits dest: validateSingleInterval_ok)

lemma ValidateIntervals_ok: "ValidateIntervals ivs mode = None \<Longrightarrow> list_all interval_ok ivs"
  using validateEach_ok[of 0 "sort_key pv_MinTokens ivs"]
  by (auto simp: ValidateIntervals_def validateSorted_def list_all_iff split: if_splits option.splits)

lemma accepted_price_ok:
  assumes "validatePricingEntries ps = None" "p \<in> set ps"
  shows "channel_price_ok p"
proof -
  have "ValidateIntervals (cm_Intervals p) (cm_BillingMode p) = None" "checkPricesNotNegative p = None"
    using assms by (auto simp: validatePricingEntries_def validatePricingIntervals_def validatePricingBillingMode_def
        firstError_None)
  then show ?thesis
    by (auto simp: channel_price_ok_def checkPricesNotNegative_def negative_None dest: ValidateIntervals_ok)
qed

subsection \<open>The cache has only prices of channels\<close>

definition cached_from :: "ChannelModelPricing set \<Rightarrow> channelCache \<Rightarrow> bool" where
  "cached_from S c \<longleftrightarrow> ran (cc_pricingByGroupModel c) \<subseteq> S \<and> (\<forall>k. snd ` set (cc_wildcardByGroupPlatform c k) \<subseteq> S)"

lemma foldl_keeps: "(\<And>s x. x \<in> set xs \<Longrightarrow> P s \<Longrightarrow> P (f s x)) \<Longrightarrow> P s \<Longrightarrow> P (foldl f s xs)"
  by (induction xs arbitrary: s) auto

lemma cached_from_expandModel: "p \<in> S \<Longrightarrow> cached_from S c \<Longrightarrow> cached_from S (expandModel gid p c m)"
  unfolding cached_from_def expandModel_def Let_def
  by (cases "splitWildcardSuffix m"; cases "snd (splitWildcardSuffix m)") (auto simp: ran_def split: if_splits)

lemma cached_from_mapping: "cached_from S (expandMappingToCache c ch gid pl) \<longleftrightarrow> cached_from S c"
proof -
  have pair: "cached_from S (expandPair gid p c sd) = cached_from S c" for p c sd
    by (cases sd) (auto simp: cached_from_def expandPair_def Let_def split: prod.splits bool.splits)
  have "cached_from S (foldl (expandPair gid p) c xs) = cached_from S c" for p c xs
    by (induction xs arbitrary: c) (simp_all add: pair)
  then show ?thesis by (auto simp: expandMappingToCache_def matchingPlatforms_def split: option.split)
qed

lemma cached_from_populateChannel:
  "set (ch_ModelPricing ch) \<subseteq> S \<Longrightarrow> cached_from S c \<Longrightarrow> cached_from S (populateChannel c ch)"
  unfolding populateChannel_def Let_def
  by (rule foldl_keeps)
     (auto simp: populateGroup_def Let_def cached_from_mapping expandPricingToCache_def expandPricing_def
       intro!: foldl_keeps[where P = "cached_from S"] cached_from_expandModel, auto simp: cached_from_def)

lemma cached_from_populate:
  "(\<And>ch. ch \<in> set chs \<Longrightarrow> set (ch_ModelPricing ch) \<subseteq> S) \<Longrightarrow> cached_from S (populateChannelCache chs gp now)"
  unfolding populateChannelCache_def
  by (rule foldl_keeps[where P = "cached_from S"], blast intro: cached_from_populateChannel)
     (simp add: newEmptyChannelCache_def cached_from_def)

lemma find_mem: "List.find P xs = Some x \<Longrightarrow> x \<in> set xs"
  by (auto simp: find_Some_iff)

lemma lookup_from: "cached_from S c \<Longrightarrow> lookupPricingAcrossPlatforms c gid pl m = Some p \<Longrightarrow> p \<in> S"
proof -
  assume c: "cached_from S c" and l: "lookupPricingAcrossPlatforms c gid pl m = Some p"
  show "p \<in> S"
  proof (cases "cc_pricingByGroupModel c (gid, pl, m)")
    case None
    with l obtain x where "List.find (\<lambda>(prefix, _). has_prefix m prefix) (cc_wildcardByGroupPlatform c (gid, pl)) = Some (x, p)"
      by (auto simp: lookupPricingAcrossPlatforms_def matchingPlatforms_def matchWildcard_def split: option.splits)
    with c find_mem[OF this] show ?thesis by (force simp: cached_from_def)
  next
    case (Some q)
    with l have "q = p" by (simp add: lookupPricingAcrossPlatforms_def matchingPlatforms_def)
    with c Some show ?thesis by (auto simp: cached_from_def ran_def)
  qed
qed

lemma GetChannelModelPricing_from: "cached_from S c \<Longrightarrow> GetChannelModelPricing c gid m = Some p \<Longrightarrow> p \<in> S"
  by (auto simp: GetChannelModelPricing_def lookupGroupChannel_def split: option.splits if_splits dest: lookup_from)

text \<open>Channels that were accepted give only prices that are not negative.\<close>

definition accepted_channels :: "Channel list \<Rightarrow> bool" where
  "accepted_channels chs \<longleftrightarrow> list_all (\<lambda>ch. validatePricingEntries (ch_ModelPricing ch) = None) chs"

definition cache_ok :: "channelCache \<Rightarrow> bool" where
  "cache_ok c \<longleftrightarrow> cached_from (Collect channel_price_ok) c"

lemma accepted_cache_ok: "accepted_channels chs \<Longrightarrow> cache_ok (populateChannelCache chs gp now)"
  unfolding cache_ok_def
  by (rule cached_from_populate) (auto simp: accepted_channels_def list_all_iff intro: accepted_price_ok)

lemma cache_ok_price: "cache_ok c \<Longrightarrow> GetChannelModelPricing c gid m = Some p \<Longrightarrow> channel_price_ok p"
  using GetChannelModelPricing_from by (fastforce simp: cache_ok_def)

subsection \<open>Prices of the list\<close>

definition listed_ok :: "LiteLLMModelPricing \<Rightarrow> bool" where
  "listed_ok l \<longleftrightarrow> list_all (\<lambda>f. 0 \<le> f l)
     [ll_InputCostPerToken, ll_InputCostPerTokenPriority, ll_OutputCostPerToken, ll_OutputCostPerTokenPriority,
      ll_CacheCreationInputTokenCost, ll_CacheCreationInputTokenCostAbove1hr, ll_CacheReadInputTokenCost,
      ll_CacheReadInputTokenCostPriority, ll_LongContextInputCostMultiplier, ll_LongContextOutputCostMultiplier,
      ll_OutputCostPerImage, ll_OutputCostPerImageToken]"

definition price_list_ok :: "price_list \<Rightarrow> bool" where
  "price_list_ok data \<longleftrightarrow> list_all (listed_ok \<circ> snd) data"

lemma firstSome_from: "firstSome f xs = Some y \<Longrightarrow> \<exists>x \<in> set xs. f x = Some y"
  by (induction xs) (auto split: option.splits)

lemma map_of_ok: "price_list_ok data \<Longrightarrow> map_of data k = Some l \<Longrightarrow> listed_ok l"
  by (auto simp: price_list_ok_def list_all_iff dest!: map_of_SomeD)

lemma openai_constants_ok [simp]:
  "listed_ok openAIGPT54FallbackPricing" "listed_ok openAIGPT54MiniFallbackPricing" "listed_ok openAIGPT54NanoFallbackPricing"
  by (simp_all add: listed_ok_def openAIGPT54FallbackPricing_def openAIGPT54MiniFallbackPricing_def
      openAIGPT54NanoFallbackPricing_def zeroLiteLLM_def)

lemma matchOpenAIModel_ok: "price_list_ok data \<Longrightarrow> matchOpenAIModel data m = Some l \<Longrightarrow> listed_ok l"
  by (auto simp: matchOpenAIModel_def listedIf_def openai_constants_ok split: option.splits if_splits dest!: firstSome_from
      dest: map_of_ok)

lemma matchByModelFamily_from: "matchByModelFamily data m = Some l \<Longrightarrow> l \<in> snd ` set data"
proof -
  assume m: "matchByModelFamily data m = Some l"
  then obtain f where "matchedFamily m = Some f" by (auto simp: matchByModelFamily_def split: option.splits)
  with m obtain key rest where "concat (map (\<lambda>pattern. filter (\<lambda>(key, _). contains (to_lower key) pattern) data)
      (if mf_pricing f = [] then mf_match f else mf_pricing f)) = (key, l) # rest"
    by (auto simp: matchByModelFamily_def Let_def split: list.splits)
  from arg_cong[OF this, of set] have "(key, l) \<in> set data" by auto
  then show ?thesis by force
qed

lemma fuzzyMatch_from: "fuzzyMatch data b = Some l \<Longrightarrow> l \<in> snd ` set data"
  by (auto simp: fuzzyMatch_def find_Some_iff intro!: image_eqI dest: nth_mem)

lemma from_ok: "price_list_ok data \<Longrightarrow> l \<in> snd ` set data \<Longrightarrow> listed_ok l"
  by (auto simp: price_list_ok_def list_all_iff)

lemma LiteLLM_GetModelPricing_ok: "price_list_ok data \<Longrightarrow> LiteLLM_GetModelPricing data m = Some l \<Longrightarrow> listed_ok l"
  by (auto simp: LiteLLM_GetModelPricing_def Let_def split: option.splits if_splits dest!: firstSome_from
      dest: map_of_ok matchOpenAIModel_ok from_ok[OF _ matchByModelFamily_from] from_ok[OF _ fuzzyMatch_from])

end
