(* ===== verification/CostTyping.thy ===== *)
theory CostTyping
  imports PriceTyping
begin

section \<open>No cost is negative\<close>

text \<open>
  The judgement of \<open>PriceHeap\<close> for the programs of \<open>BillingPrices\<close>, \<open>BillingCost\<close> and \<open>UsageGateways\<close>.
\<close>

subsection \<open>Prices\<close>

lemma typed_table: "(length initialPrices \<le> max n (length initialPrices) \<Longrightarrow> typed_prog (max n (length initialPrices)) m R) \<Longrightarrow> typed_prog n m R"
  by (auto simp: typed_prog_def typed_heap_def)

lemma wf_withLongContext [simp]: "wf_price p \<Longrightarrow> wf_price (withLongContext p)"
  by (simp add: wf_price_def withLongContext_def openAIGPT54LongContextInputMultiplier_def openAIGPT54LongContextOutputMultiplier_def)

lemma wf_fromLiteLLM [simp]: "listed_ok l \<Longrightarrow> wf_price (fromLiteLLM l)"
  by (simp add: wf_price_def fromLiteLLM_def listed_ok_def zeroPricing_def Let_def)

lemma wf_zeroPricing [simp]: "wf_price zeroPricing" "wf_price (zeroPricing\<lparr>mp_SupportsCacheBreakdown := b\<rparr>)"
  by (simp_all add: wf_price_def zeroPricing_def)

lemma wf_set [simp]:
  "0 \<le> x \<Longrightarrow> wf_price p \<Longrightarrow> wf_price (setInput x p)" "0 \<le> x \<Longrightarrow> wf_price p \<Longrightarrow> wf_price (setOutput x p)"
  "0 \<le> x \<Longrightarrow> wf_price p \<Longrightarrow> wf_price (setCacheWrite x p)" "0 \<le> x \<Longrightarrow> wf_price p \<Longrightarrow> wf_price (setCacheRead x p)"
  "nonneg v \<Longrightarrow> wf_price p \<Longrightarrow> wf_price (setImageOutput v p)"
  by (simp_all add: wf_price_def setInput_def setOutput_def setCacheWrite_def setCacheRead_def setImageOutput_def)

lemma wf_setPrice [simp]: "nonneg v \<Longrightarrow> (\<And>x. 0 \<le> x \<Longrightarrow> wf_price (f x p)) \<Longrightarrow> wf_price p \<Longrightarrow> wf_price (setPrice v f p)"
  by (simp add: setPrice_def nonneg_def split: option.splits)

lemma wf_flatOverrides [simp]: "channel_price_ok ch \<Longrightarrow> wf_price p \<Longrightarrow> wf_price (flatOverrides ch p)"
  by (simp add: flatOverrides_def channel_price_ok_def)

lemma wf_interval [simp]: "interval_ok iv \<Longrightarrow> pred_option channel_price_ok c \<Longrightarrow> wf_price (intervalToModelPricing iv b c)"
  by (auto simp: intervalToModelPricing_def interval_ok_def channel_price_ok_def Let_def split: option.split intro!: wf_set(5))

lemma typed_policy [price_typing]: "a < n \<Longrightarrow> typed_prog n (applyModelSpecificPricingPolicy model a) (\<lambda>b k. b < k)"
  unfolding applyModelSpecificPricingPolicy_def
  by (rule typed_bind, rule typed_read, assumption) (auto intro!: typed_return typed_new)

definition found_ok :: "go_error + nat \<Rightarrow> nat \<Rightarrow> bool" where
  "found_ok r k \<longleftrightarrow> (case r of Inl _ \<Rightarrow> True | Inr a \<Rightarrow> a < k)"

lemma found_ok_simps [simp]: "found_ok (Inl e) k" "found_ok (Inr a) k \<longleftrightarrow> a < k"
  by (simp_all add: found_ok_def)

lemma typed_Billing [price_typing]:
  assumes "price_list_ok data"
  shows "typed_prog n (Billing_GetModelPricing data model) found_ok"
proof (rule typed_table)
  let ?n = "max n (length initialPrices)"
  assume "length initialPrices \<le> ?n"
  have last: "a < j \<Longrightarrow> typed_prog j (do { b \<leftarrow> applyModelSpecificPricingPolicy (to_lower model) a; State_Monad.return (Inr b) }) found_ok" for a j
    by (rule typed_bind[OF typed_policy]) (auto intro!: typed_return)
  show "typed_prog ?n (Billing_GetModelPricing data model) found_ok"
    using assms fallback_address
    by (auto simp: Billing_GetModelPricing_def Let_def LiteLLM_GetModelPricing_ok less_max_iff_disj split: option.split
        intro!: typed_return typed_bind[OF typed_new] last)
qed

subsection \<open>The resolver\<close>

definition resolved_ok :: "ResolvedPricing \<Rightarrow> nat \<Rightarrow> bool" where
  "resolved_ok r k \<longleftrightarrow> pred_option (\<lambda>a. a < k) (rp_BasePricing r) \<and> list_all interval_ok (rp_Intervals r) \<and>
     list_all interval_ok (rp_RequestTiers r) \<and> 0 \<le> rp_DefaultPerRequestPrice r \<and> pred_option channel_price_ok (rp_channelPricing r)"

lemma resolved_ok_mono: "resolved_ok r k \<Longrightarrow> k \<le> j \<Longrightarrow> resolved_ok r j"
  by (auto simp: resolved_ok_def elim: option.pred_mono_strong)

lemma filterValidIntervals_ok: "channel_price_ok ch \<Longrightarrow> list_all interval_ok (filterValidIntervals (cm_Intervals ch))"
  by (simp add: filterValidIntervals_def channel_price_ok_def list_all_iff)

lemma applyRequestTierOverrides_ok: "channel_price_ok ch \<Longrightarrow> resolved_ok r k \<Longrightarrow> resolved_ok (applyRequestTierOverrides ch r) k"
  by (auto simp: applyRequestTierOverrides_def resolved_ok_def filterValidIntervals_ok channel_price_ok_def split: option.splits)

lemma typed_base: "resolved_ok r n \<Longrightarrow> typed_prog n (basePricing r) (\<lambda>a k. a < k)"
  by (auto simp: basePricing_def resolved_ok_def split: option.splits intro!: typed_new typed_return)

lemma typed_tokenOverrides:
  assumes "channel_price_ok ch" "resolved_ok r n"
  shows "typed_prog n (applyTokenOverrides ch r) resolved_ok"
  unfolding applyTokenOverrides_def Let_def
proof (rule typed_bind[OF typed_base[OF assms(2)]])
  fix a k assume "n \<le> k" "a < k"
  with assms resolved_ok_mono[of r n] have "resolved_ok (r\<lparr>rp_BasePricing := Some a\<rparr>) j \<and>
      resolved_ok (r\<lparr>rp_Intervals := filterValidIntervals (cm_Intervals ch), rp_BasePricing := Some a\<rparr>) j" if "k \<le> j" for j
    using that filterValidIntervals_ok[OF assms(1)] by (simp add: resolved_ok_def)
  with \<open>a < k\<close> assms(1) show "typed_prog k (if filterValidIntervals (cm_Intervals ch) \<noteq> []
        then do { write_price a (setImageOutput (cm_ImageOutputPrice ch));
                  State_Monad.return (r\<lparr>rp_Intervals := filterValidIntervals (cm_Intervals ch), rp_BasePricing := Some a\<rparr>) }
        else do { write_price a (flatOverrides ch); State_Monad.return (r\<lparr>rp_BasePricing := Some a\<rparr>) }) resolved_ok"
    by (auto simp: channel_price_ok_def intro!: typed_bind[OF typed_write] typed_return wf_flatOverrides)
qed

lemma typed_breakdown: "pred_option (\<lambda>a. a < n) base \<Longrightarrow> typed_prog n (supportsBreakdown base) (\<lambda>_ _. True)"
  by (auto simp: supportsBreakdown_def split: option.splits intro!: typed_return typed_bind[OF typed_read])

lemma typed_channelOverrides:
  "pred_option channel_price_ok c \<Longrightarrow> resolved_ok r n \<Longrightarrow> typed_prog n (applyChannelOverrides c r) resolved_ok"
  by (auto simp: applyChannelOverrides_def Let_def split: option.splits if_splits
      intro!: typed_tokenOverrides typed_return applyRequestTierOverrides_ok)
     (auto simp: resolved_ok_def elim: option.pred_mono_strong)

lemma typed_resolveBase: "price_list_ok data \<Longrightarrow>
    typed_prog n (resolveBasePricing data model) (\<lambda>(base, source) k. pred_option (\<lambda>a. a < k) base)"
  unfolding resolveBasePricing_def
  by (rule typed_bind[OF typed_Billing]) (auto intro!: typed_return split: sum.splits)

lemma typed_resolvePrices:
  assumes "price_list_ok data" "pred_option channel_price_ok c1" "pred_option channel_price_ok c2"
  shows "typed_prog n (resolvePrices data c1 c2 model) resolved_ok"
proof -
  have byToken: "typed_prog n (do { (base, source) \<leftarrow> resolveBasePricing data model; breakdown \<leftarrow> supportsBreakdown base;
        apply \<lparr>rp_Mode = BillingModeToken, rp_BasePricing = base, rp_Intervals = [], rp_RequestTiers = [],
              rp_DefaultPerRequestPrice = 0, rp_Source = source, rp_SupportsCacheBreakdown = breakdown,
              rp_channelPricing = None\<rparr> }) resolved_ok"
    if ap: "\<And>r j. resolved_ok r j \<Longrightarrow> typed_prog j (apply r) resolved_ok" for "apply"
  proof (rule typed_bind[OF typed_resolveBase[OF assms(1)]], clarify, rule typed_bind[OF typed_breakdown], assumption, rule ap)
    fix base k j assume "pred_option (\<lambda>a. a < k) base" "k \<le> (j :: nat)"
    then show "resolved_ok \<lparr>rp_Mode = BillingModeToken, rp_BasePricing = base, rp_Intervals = [], rp_RequestTiers = [],
        rp_DefaultPerRequestPrice = 0, rp_Source = source, rp_SupportsCacheBreakdown = breakdown, rp_channelPricing = None\<rparr> j"
      for source breakdown by (auto simp: resolved_ok_def elim: option.pred_mono_strong)
  qed
  show ?thesis
  proof (cases c1)
    case None
    then show ?thesis using byToken[OF typed_channelOverrides[OF assms(3)]] by (simp add: resolvePrices_def)
  next
    case (Some ch)
    then have ch: "channel_price_ok ch" using assms(2) by simp
    have upd: "resolved_ok r j \<Longrightarrow> resolved_ok (r\<lparr>rp_Source := PricingSourceChannel, rp_channelPricing := Some ch\<rparr>) j" for r j
      using ch by (simp add: resolved_ok_def)
    note token = byToken[of "\<lambda>r. applyTokenOverrides ch (r\<lparr>rp_Source := PricingSourceChannel, rp_channelPricing := Some ch\<rparr>)",
        OF typed_tokenOverrides[OF ch upd], simplified]
    show ?thesis
    proof (cases "labelled (cm_BillingMode ch)")
      case True
      with Some ch show ?thesis
        by (simp add: resolvePrices_def) (rule typed_return, rule applyRequestTierOverrides_ok, auto simp: resolved_ok_def)
    next
      case False
      with Some token show ?thesis by (simp add: resolvePrices_def)
    qed
  qed
qed

lemma typed_ResolvePricing [price_typing]:
  "price_list_ok data \<Longrightarrow> cache_ok cache \<Longrightarrow> typed_prog n (ResolvePricing data cache model gid) resolved_ok"
  unfolding ResolvePricing_def Let_def
  by (rule typed_resolvePrices) (auto split: option.splits dest: cache_ok_price simp: option.pred_set)

end
