(* ===== verification/CostProperties.thy ===== *)
theory CostProperties
  imports CostTyping
begin

section \<open>What recording a request charges is not negative\<close>

subsection \<open>Costs\<close>

definition count_ok :: "int \<Rightarrow> bool" where
  "count_ok n \<longleftrightarrow> 0 \<le> n \<and> n \<le> 2 ^ 61"

definition tokens_ok :: "UsageTokens \<Rightarrow> bool" where
  "tokens_ok t \<longleftrightarrow> list_all (\<lambda>f. count_ok (f t))
     [ut_InputTokens, ut_ImageInputTokens, ut_OutputTokens, ut_CacheCreationTokens, ut_CacheReadTokens,
      ut_CacheCreation5mTokens, ut_CacheCreation1hTokens, ut_ImageOutputTokens]"

definition cost_ok :: "CostBreakdown \<Rightarrow> bool" where
  "cost_ok c \<longleftrightarrow> list_all (\<lambda>f. 0 \<le> f c)
     [cb_InputCost, cb_OutputCost, cb_ImageOutputCost, cb_CacheCreationCost, cb_CacheReadCost, cb_TotalCost, cb_ActualCost]"

lemma cost_ok_zero [simp]: "cost_ok zeroCost" "cost_ok (c\<lparr>cb_BillingMode := m\<rparr>) = cost_ok c" "cost_ok (withMode m c) = cost_ok c"
  by (simp_all add: cost_ok_def zeroCost_def withMode_def)

definition tier_ok :: "token_prices \<Rightarrow> bool" where
  "tier_ok tp \<longleftrightarrow> 0 \<le> tp_input tp \<and> 0 \<le> tp_output tp \<and> 0 \<le> tp_cacheRead tp \<and> 0 \<le> tp_cacheCreationMultiplier tp"

lemma tierPrices_ok: "wf_price p \<Longrightarrow> tier_ok (fst (tierPrices tier p)) \<and> 0 \<le> snd (tierPrices tier p)"
  by (auto simp: tierPrices_def tier_ok_def wf_price_def serviceTierCostMultiplier_def Let_def)

lemma longContextPrices_ok: "wf_price p \<Longrightarrow> tier_ok tp \<Longrightarrow> tier_ok (longContextPrices p tp)"
  by (simp add: longContextPrices_def tier_ok_def wf_price_def)

lemma inputCost_ok: "wf_price p \<Longrightarrow> tokens_ok t \<Longrightarrow> 0 \<le> x \<Longrightarrow> 0 \<le> inputCost p t x"
  by (auto simp: inputCost_def wf_price_def tokens_ok_def count_ok_def Let_def intro!: add_nonneg_nonneg mult_nonneg_nonneg)

lemma imageOutputCost_ok: "wf_price p \<Longrightarrow> tokens_ok t \<Longrightarrow> 0 \<le> x \<Longrightarrow> 0 \<le> imageOutputCost p t x"
  by (auto simp: imageOutputCost_def wf_price_def tokens_ok_def count_ok_def)

lemma computeCacheCreationCost_ok: "wf_price p \<Longrightarrow> tokens_ok t \<Longrightarrow> 0 \<le> x \<Longrightarrow> 0 \<le> computeCacheCreationCost p t x"
  by (auto simp: computeCacheCreationCost_def wf_price_def tokens_ok_def count_ok_def intro!: add_nonneg_nonneg mult_nonneg_nonneg)

lemma computeTokenBreakdown_ok:
  assumes "wf_price p" "tokens_ok t"
  shows "cost_ok (computeTokenBreakdown p t rate tier long)"
proof -
  define tp where "tp = (if long \<and> shouldApplySessionLongContextPricing t p
    then longContextPrices p (fst (tierPrices tier p)) else fst (tierPrices tier p))"
  have tp: "tier_ok tp" "0 \<le> snd (tierPrices tier p)"
    using assms tierPrices_ok longContextPrices_ok by (auto simp: tp_def)
  have "0 \<le> ut_CacheReadTokens t" using assms(2) by (simp add: tokens_ok_def count_ok_def)
  with tp assms show ?thesis
    by (simp add: computeTokenBreakdown_def Let_def tp_def[symmetric] cost_ok_def tier_ok_def inputCost_ok imageOutputCost_ok
        computeCacheCreationCost_ok)
qed

definition cost_result_ok :: "'e + CostBreakdown \<Rightarrow> nat \<Rightarrow> bool" where
  "cost_result_ok r k \<longleftrightarrow> (case r of Inl _ \<Rightarrow> True | Inr c \<Rightarrow> cost_ok c)"

lemma cost_result_ok_simps [simp]: "cost_result_ok (Inl e) k" "cost_result_ok (Inr c) k \<longleftrightarrow> cost_ok c"
  by (simp_all add: cost_result_ok_def)

lemma typed_CalculateCost [price_typing]:
  "price_list_ok data \<Longrightarrow> tokens_ok t \<Longrightarrow> typed_prog n (CalculateCostWithServiceTier data m t rate tier) cost_result_ok"
  "price_list_ok data \<Longrightarrow> tokens_ok t \<Longrightarrow> typed_prog n (CalculateCost data m t rate) cost_result_ok"
  unfolding CalculateCost_def CalculateCostWithServiceTier_def
  by (rule typed_bind[OF typed_Billing]; auto split: sum.split intro!: typed_return typed_bind[OF typed_read]
      computeTokenBreakdown_ok)+

lemma wrap_add: "count_ok a \<Longrightarrow> count_ok b \<Longrightarrow> wrap64 (a + b) = a + b"
  by (simp add: count_ok_def wrap64_id in_int64_def)

lemma wrap_diff: "0 \<le> a \<Longrightarrow> a \<le> 2 ^ 62 \<Longrightarrow> 0 \<le> b \<Longrightarrow> b \<le> 2 ^ 62 \<Longrightarrow> wrap64 (a - b) = a - b"
  by (simp add: wrap64_id in_int64_def)

text \<open>The parts of a request within and beyond the threshold: cached tokens are counted first.\<close>

lemma splitAt_values:
  assumes "count_ok (ut_InputTokens t)" "count_ok (ut_CacheReadTokens t)"
    and "0 < threshold" "threshold < ut_CacheReadTokens t + ut_InputTokens t"
  shows "splitAt threshold t =
    (t\<lparr>ut_InputTokens := max 0 (threshold - ut_CacheReadTokens t), ut_ImageInputTokens := 0,
        ut_CacheReadTokens := min threshold (ut_CacheReadTokens t)\<rparr>,
     zeroTokens\<lparr>ut_InputTokens := ut_InputTokens t - max 0 (threshold - ut_CacheReadTokens t),
        ut_CacheReadTokens := ut_CacheReadTokens t - min threshold (ut_CacheReadTokens t)\<rparr>)"
proof -
  have b: "0 \<le> ut_InputTokens t" "ut_InputTokens t \<le> 2 ^ 62" "0 \<le> ut_CacheReadTokens t" "ut_CacheReadTokens t \<le> 2 ^ 62" "threshold \<le> 2 ^ 62"
    using assms by (auto simp: count_ok_def)
  show ?thesis
  proof (cases "threshold \<le> ut_CacheReadTokens t")
    case True
    then show ?thesis using wrap_diff[of "ut_CacheReadTokens t" threshold] b assms(3)
      by (simp add: splitAt_def min_def max_def)
  next
    case False
    then have "wrap64 (threshold - ut_CacheReadTokens t) = threshold - ut_CacheReadTokens t"
      "wrap64 (ut_InputTokens t - (threshold - ut_CacheReadTokens t)) = ut_InputTokens t - (threshold - ut_CacheReadTokens t)"
      using b assms(3) by (auto intro!: wrap_diff)
    then show ?thesis using False by (simp add: splitAt_def min_def max_def)
  qed
qed

lemma splitAt_ok:
  assumes "tokens_ok t" "0 < threshold" "\<not> wrap64 (ut_CacheReadTokens t + ut_InputTokens t) \<le> threshold"
  shows "tokens_ok (fst (splitAt threshold t)) \<and> tokens_ok (snd (splitAt threshold t))"
proof -
  have c: "count_ok (ut_CacheReadTokens t)" "count_ok (ut_InputTokens t)" using assms(1) by (simp_all add: tokens_ok_def)
  with assms(3) have "threshold < ut_CacheReadTokens t + ut_InputTokens t" by (simp add: wrap_add)
  with c assms(1,2) show ?thesis by (auto simp: splitAt_values tokens_ok_def count_ok_def zeroTokens_def)
qed

lemma addCosts_ok: "cost_ok a \<Longrightarrow> cost_ok b \<Longrightarrow> cost_ok (addCosts a b)"
  by (simp add: cost_ok_def addCosts_def)

lemma typed_LongContext [price_typing]:
  assumes "price_list_ok data" "tokens_ok t"
  shows "typed_prog n (CalculateCostWithLongContext data m t rate threshold extra) cost_result_ok"
proof (cases "threshold \<le> 0 \<or> extra \<le> 1 \<or> wrap64 (ut_CacheReadTokens t + ut_InputTokens t) \<le> threshold")
  case True
  then show ?thesis using typed_CalculateCost(2)[OF assms] by (simp add: CalculateCostWithLongContext_def)
next
  case False
  then have "tokens_ok (fst (splitAt threshold t))" "tokens_ok (snd (splitAt threshold t))"
    using splitAt_ok[OF assms(2), of threshold] by auto
  with False assms(1) show ?thesis
    by (auto simp: CalculateCostWithLongContext_def split: sum.split
        intro!: typed_bind[OF typed_CalculateCost(2)] typed_return addCosts_ok)
qed

subsection \<open>Costs at resolved prices\<close>

lemma typed_GetIntervalPricing:
  "resolved_ok r n \<Longrightarrow> typed_prog n (GetIntervalPricing r x) (\<lambda>b k. pred_option (\<lambda>a. a < k) b)"
  unfolding GetIntervalPricing_def FindMatchingInterval_def
  by (auto split: option.split intro!: typed_return typed_bind[OF typed_new] wf_interval
      dest: find_mem simp: resolved_ok_def list_all_iff elim: option.pred_mono_strong)

lemma typed_ResolvedTokenCost:
  assumes "resolved_ok r n" "tokens_ok (ci_Tokens i)"
  shows "typed_prog n (calculateResolvedTokenCost r i) cost_result_ok"
  unfolding calculateResolvedTokenCost_def
  by (rule typed_bind[OF typed_GetIntervalPricing[OF assms(1)]])
     (auto split: option.split intro!: typed_return typed_bind[OF typed_policy] typed_bind[OF typed_read] computeTokenBreakdown_ok assms(2))

lemma tier_prices_ok: "list_all interval_ok ts \<Longrightarrow> t \<in> set ts \<Longrightarrow> 0 \<le> orZero (pv_PerRequestPrice t)"
  by (auto simp: list_all_iff interval_ok_def)

lemma PerRequestCost_ok:
  assumes "resolved_ok r n" "0 \<le> ci_RateMultiplier i"
  shows "cost_ok (calculatePerRequestCost r i)"
proof -
  have "0 \<le> GetRequestTierPrice r l" "0 \<le> GetRequestTierPriceByContext r x" "0 \<le> rp_DefaultPerRequestPrice r" for l x
    using assms(1) by (auto simp: GetRequestTierPrice_def GetRequestTierPriceByContext_def FindMatchingInterval_def resolved_ok_def
        split: option.split intro: tier_prices_ok dest: find_mem)
  with assms(2) show ?thesis by (auto simp: calculatePerRequestCost_def Let_def cost_ok_def zeroCost_def)
qed

lemma typed_Resolved [price_typing]:
  assumes "resolved_ok r n" "tokens_ok (ci_Tokens i)"
  shows "typed_prog n (CalculateCostResolved r i) cost_result_ok"
proof -
  let ?i = "if ci_RateMultiplier i < 0 then i\<lparr>ci_RateMultiplier := 0\<rparr> else i"
  have i: "tokens_ok (ci_Tokens ?i)" "0 \<le> ci_RateMultiplier ?i" using assms(2) by auto
  have run: "CalculateCostResolved r i = (if labelled (rp_Mode r) then State_Monad.return (Inr (withMode (rp_Mode r) (calculatePerRequestCost r ?i)))
      else State_Monad.bind (calculateResolvedTokenCost r ?i) (\<lambda>c. State_Monad.return (map_sum id (withMode (rp_Mode r)) c)))"
    by (simp add: CalculateCostResolved_def)
  have conv: "cost_result_ok c k \<Longrightarrow> cost_result_ok (map_sum id (withMode m) c) j" for c :: "go_error + CostBreakdown" and k m j
    by (cases c) simp_all
  show ?thesis
  proof (cases "labelled (rp_Mode r)")
    case True
    then show ?thesis using PerRequestCost_ok[OF assms(1) i(2)] unfolding run by (auto intro: typed_return)
  next
    case False
    have "typed_prog n (State_Monad.bind (calculateResolvedTokenCost r ?i) (\<lambda>c. State_Monad.return (map_sum id (withMode (rp_Mode r)) c))) cost_result_ok"
      by (rule typed_bind[OF typed_ResolvedTokenCost[OF assms(1) i(1)]]) (rule typed_return, erule conv)
    with False show ?thesis unfolding run by simp
  qed
qed

lemma typed_Unified [price_typing]:
  "price_list_ok data \<Longrightarrow> cache_ok cache \<Longrightarrow> tokens_ok (ci_Tokens i) \<Longrightarrow>
   typed_prog n (CalculateCostUnified data cache gid i) cost_result_ok"
  unfolding CalculateCostUnified_def by (rule typed_bind[OF typed_ResolvePricing]) (auto intro!: typed_Resolved)

lemma CalculateImageCost_ok:
  assumes "price_list_ok data"
    and "\<And>g. k = Some g \<Longrightarrow> nonneg (ip_Price1K g) \<and> nonneg (ip_Price2K g) \<and> nonneg (ip_Price4K g)"
  shows "cost_ok (CalculateImageCost data model sz n k rate)"
proof -
  have "0 \<le> getImageUnitPrice data model s k" for s
    using assms by (auto simp: getImageUnitPrice_def getDefaultImagePrice_def Let_def nonneg_def split: option.splits)
  then show ?thesis by (auto simp: CalculateImageCost_def Let_def cost_ok_def zeroCost_def)
qed

subsection \<open>Costs of the gateways\<close>

definition image_prices_ok :: "APIKey \<Rightarrow> bool" where
  "image_prices_ok k \<longleftrightarrow> pred_option (\<lambda>g. nonneg (ip_Price1K g) \<and> nonneg (ip_Price2K g) \<and> nonneg (ip_Price4K g)) (groupImagePrices k)"

text \<open>What the requests of a gateway are priced by.\<close>

definition prices_ok :: "usage_ctx \<Rightarrow> APIKey \<Rightarrow> bool" where
  "prices_ok ux k \<longleftrightarrow> price_list_ok (ux_prices ux) \<and> cache_ok (ux_channels ux) \<and> image_prices_ok k"

lemma image_cost_ok: "prices_ok ux k \<Longrightarrow> cost_ok (CalculateImageCost (ux_prices ux) m s c (groupImagePrices k) rate)"
  by (rule CalculateImageCost_ok) (auto simp: prices_ok_def image_prices_ok_def)

lemma typed_resolveChannelPricing:
  "prices_ok ux k \<Longrightarrow> typed_prog n (resolveChannelPricing ux m k) (\<lambda>r j. pred_option (\<lambda>x. resolved_ok x j) r)"
  by (auto simp: resolveChannelPricing_def prices_ok_def split: option.split
      intro!: typed_return typed_bind[OF typed_ResolvePricing] elim: resolved_ok_mono)

lemma orZeroCost_ok: "cost_result_ok c k \<Longrightarrow> cost_ok (orZeroCost c)"
  by (simp add: orZeroCost_def cost_result_ok_def split: sum.splits)

definition usage_ok :: "ClaudeUsage \<Rightarrow> bool" where
  "usage_ok u \<longleftrightarrow> tokens_ok (usageTokens u)"

lemma typed_calculateTokenCost:
  assumes "prices_ok ux k" "usage_ok (fr_Usage r)"
  shows "typed_prog n (calculateTokenCost ux r k m rate opts) (\<lambda>c _. cost_ok c)"
proof -
  have t: "tokens_ok (usageTokens (fr_Usage r))" "price_list_ok (ux_prices ux)" using assms by (auto simp: usage_ok_def prices_ok_def)
  have inner: "typed_prog j (case resolved of
            Some p \<Rightarrow> CalculateCostResolved p (costInput m (usageTokens (fr_Usage r)) 1 [] rate [])
          | None \<Rightarrow> if ro_LongContextThreshold opts > 0
              then CalculateCostWithLongContext (ux_prices ux) m (usageTokens (fr_Usage r)) rate (ro_LongContextThreshold opts)
                     (ro_LongContextMultiplier opts)
              else CalculateCost (ux_prices ux) m (usageTokens (fr_Usage r)) rate) cost_result_ok"
    if "pred_option (\<lambda>x. resolved_ok x j) resolved" for resolved j
    using that t by (auto split: option.split intro!: typed_Resolved typed_LongContext typed_CalculateCost simp: costInput_def)
  show ?thesis
    unfolding calculateTokenCost_def Let_def
    by (rule typed_bind[OF typed_resolveChannelPricing[OF assms(1)]], rule typed_bind, erule inner, rule typed_return)
       (erule orZeroCost_ok)
qed

lemma typed_calculateImageCost:
  assumes "prices_ok ux k" "usage_ok (fr_Usage r)"
  shows "typed_prog n (calculateImageCost ux r k m rate) (\<lambda>c _. cost_ok c)"
  unfolding calculateImageCost_def Let_def
proof (rule typed_bind[OF typed_resolveChannelPricing[OF assms(1)]])
  fix p j assume p: "pred_option (\<lambda>x. resolved_ok x j) p"
  let ?u = "fr_Usage r"
  have "tokens_ok (zeroTokens\<lparr>ut_InputTokens := cu_InputTokens ?u, ut_OutputTokens := cu_OutputTokens ?u,
      ut_ImageOutputTokens := cu_ImageOutputTokens ?u\<rparr>)"
    using assms(2) by (simp add: usage_ok_def tokens_ok_def usageTokens_def zeroTokens_def)
  then show "typed_prog j (case p of
        Some p \<Rightarrow> do {
          c \<leftarrow> CalculateCostResolved p (costInput m
                 (zeroTokens\<lparr>ut_InputTokens := cu_InputTokens ?u, ut_OutputTokens := cu_OutputTokens ?u,
                    ut_ImageOutputTokens := cu_ImageOutputTokens ?u\<rparr>)
                 (im_ImageCount (fr_image r)) (NormalizeImageBillingTierOrDefault (im_ImageSize (fr_image r))) rate '''');
          State_Monad.return (orZeroCost c) }
      | None \<Rightarrow> State_Monad.return
          (CalculateImageCost (ux_prices ux) m (NormalizeImageBillingTierOrDefault (im_ImageSize (fr_image r)))
            (im_ImageCount (fr_image r)) (groupImagePrices k) rate)) (\<lambda>c _. cost_ok c)"
    using p image_cost_ok[OF assms(1)]
    by (cases p) (auto simp: costInput_def intro!: typed_return typed_bind[OF typed_Resolved] orZeroCost_ok)
qed

lemma typed_calculateRecordUsageCost:
  assumes "prices_ok ux k" "usage_ok (fr_Usage r)"
  shows "typed_prog n (calculateRecordUsageCost ux r k m rate imageRate opts) (\<lambda>c _. cost_ok c)"
  by (auto simp: calculateRecordUsageCost_def intro!: typed_calculateTokenCost typed_calculateImageCost assms
      typed_bind[OF typed_resolveChannelPricing[OF assms(1)]])

text \<open>Counts as the provider reports them, small enough to be added.\<close>

definition reported_ok :: "ClaudeUsage \<Rightarrow> bool" where
  "reported_ok u \<longleftrightarrow> list_all (\<lambda>f. 0 \<le> f u \<and> f u \<le> 2 ^ 60)
     [cu_InputTokens, cu_OutputTokens, cu_CacheCreationInputTokens, cu_CacheReadInputTokens, cu_CacheCreation5mTokens,
      cu_CacheCreation1hTokens, cu_ImageOutputTokens]"

lemma wrap_small: "0 \<le> a \<Longrightarrow> a \<le> 2 ^ 60 \<Longrightarrow> 0 \<le> b \<Longrightarrow> b \<le> 2 ^ 60 \<Longrightarrow> wrap64 (a + b) = a + b"
  by (simp add: wrap64_id in_int64_def)

lemma wrap_one: "0 \<le> a \<Longrightarrow> a \<le> 2 ^ 60 \<Longrightarrow> wrap64 a = a"
  by (simp add: wrap64_id in_int64_def)

lemma forceCacheBilling_ok: "reported_ok u \<Longrightarrow> usage_ok (forceCacheBilling force u)"
  by (auto simp: reported_ok_def usage_ok_def tokens_ok_def count_ok_def usageTokens_def zeroTokens_def forceCacheBilling_def wrap_small)

lemma forceCacheBilling_creation:
  "cu_CacheCreation5mTokens (forceCacheBilling force u) = cu_CacheCreation5mTokens u"
  "cu_CacheCreation1hTokens (forceCacheBilling force u) = cu_CacheCreation1hTokens u"
  "cu_CacheCreationInputTokens (forceCacheBilling force u) = cu_CacheCreationInputTokens u"
  by (simp_all add: forceCacheBilling_def)

lemma normalized_ok:
  assumes "reported_ok (fr_Usage r)"
  shows "usage_ok (fr_Usage (fst (normalizedResult ux i r)))"
proof -
  let ?u = "forceCacheBilling (ru_ForceCacheBilling i) (fr_Usage r)"
  have b: "0 \<le> cu_CacheCreation5mTokens ?u" "cu_CacheCreation5mTokens ?u \<le> 2 ^ 60" "0 \<le> cu_CacheCreation1hTokens ?u"
    "cu_CacheCreation1hTokens ?u \<le> 2 ^ 60" "0 \<le> cu_CacheCreationInputTokens ?u" "cu_CacheCreationInputTokens ?u \<le> 2 ^ 60"
    using assms by (simp_all add: reported_ok_def forceCacheBilling_creation)
  have "usage_ok (fst (applyCacheTTLOverride target ?u))" for target
    using forceCacheBilling_ok[OF assms, of "ru_ForceCacheBilling i"] b
    by (auto simp: applyCacheTTLOverride_def Let_def usage_ok_def usageTokens_def tokens_ok_def count_ok_def zeroTokens_def
        wrap_small wrap_one)
  moreover have "usage_ok ?u" by (rule forceCacheBilling_ok[OF assms])
  ultimately show ?thesis by (simp add: normalizedResult_def overrideCacheTTL_def Let_def split: option.split)
qed

lemma typed_stats:
  "price_list_ok data \<Longrightarrow> typed_prog n (applyAccountStatsCost data cache settings acc gid um rm t cnt tot) (\<lambda>_ _. True)"
  unfolding applyAccountStatsCost_def resolveAccountStatsCost_def tryModelFilePricing_def Let_def
  by (auto split: option.split sum.split intro!: typed_return typed_bind[OF typed_Billing] typed_bind[OF typed_read])

lemma typed_withStats:
  "prices_ok ux k \<Longrightarrow> cost_ok (ul_cost ul) \<Longrightarrow> typed_prog n (withStatsCost ux i r t ul) (\<lambda>x _. cost_ok (ul_cost x))"
  unfolding withStatsCost_def prices_ok_def
  by (auto split: option.split intro!: typed_return typed_bind[OF typed_stats])

lemma typed_gatewayUsageLog:
  assumes "prices_ok ux (ru_APIKey i)" "reported_ok (fr_Usage r)"
  shows "typed_prog n (gatewayUsageLog ux i r opts) (\<lambda>ul _. cost_ok (ul_cost ul))"
  unfolding gatewayUsageLog_def Let_def
  by (rule typed_bind[OF typed_calculateRecordUsageCost[OF assms(1) normalized_ok[OF assms(2)]]])
     (auto simp: baseUsageLog_def Let_def intro!: typed_withStats assms(1))

subsection \<open>OpenAI requests\<close>

lemma typed_firstPricedCandidate:
  "(\<And>m j. typed_prog j (cost m) cost_result_ok) \<Longrightarrow> typed_prog n (firstPricedCandidate cost e cs) cost_result_ok"
  by (induction cs arbitrary: e n) (auto intro!: typed_return typed_bind[where m = "cost _"] split: sum.split)

lemma typed_openaiTokenCost:
  "prices_ok ux k \<Longrightarrow> tokens_ok t \<Longrightarrow> typed_prog n (calculateOpenAIRecordUsageTokenCost ux k m rate t tier) cost_result_ok"
  unfolding calculateOpenAIRecordUsageTokenCost_def prices_ok_def
  by (auto split: option.split intro!: typed_Unified typed_CalculateCost simp: costInput_def)

lemma typed_openaiImageCost:
  assumes "prices_ok ux k"
  shows "typed_prog n (calculateOpenAIImageCost ux m k r rate) (\<lambda>c _. cost_ok c)"
proof -
  have "tokens_ok zeroTokens" by (simp add: tokens_ok_def zeroTokens_def count_ok_def)
  then show ?thesis
    unfolding calculateOpenAIImageCost_def Let_def using image_cost_ok[OF assms]
    by (auto split: option.split sum.split intro!: typed_return typed_bind[OF typed_Resolved]
        typed_bind[OF typed_resolveChannelPricing[OF assms]] simp: costInput_def)
qed

lemma typed_openaiCost:
  assumes "prices_ok ux k" "tokens_ok t"
  shows "typed_prog n (calculateOpenAIRecordUsageCost ux r k ms rate imageRate t tier) cost_result_ok"
  unfolding calculateOpenAIRecordUsageCost_def Let_def
  by (auto split: sum.split intro!: typed_return typed_bind[OF typed_resolveChannelPricing[OF assms(1)]]
      typed_bind[OF typed_openaiImageCost[OF assms(1)]]
      typed_bind[OF typed_firstPricedCandidate[OF typed_openaiTokenCost[OF assms]]])

definition openai_usage_ok :: "OpenAIUsage \<Rightarrow> bool" where
  "openai_usage_ok u \<longleftrightarrow> list_all (\<lambda>f. count_ok (f u))
     [u_InputTokens, u_ImageInputTokens, u_OutputTokens, u_CacheCreationInputTokens, u_CacheReadInputTokens, u_ImageOutputTokens]"

lemma openaiUsageTokens_ok: "openai_usage_ok u \<Longrightarrow> tokens_ok (openaiUsageTokens u)"
  by (auto simp: openai_usage_ok_def tokens_ok_def openaiUsageTokens_def zeroTokens_def count_ok_def actualInputTokens_def wrap_diff Let_def)

lemma typed_openaiUsageLog:
  assumes "prices_ok ux (ru_APIKey i)" "openai_usage_ok (of_Usage r)"
  shows "typed_prog n (openaiUsageLog ux i r) (\<lambda>x _. case x of Inl _ \<Rightarrow> True | Inr ul \<Rightarrow> cost_ok (ul_cost ul))"
  unfolding openaiUsageLog_def Let_def
  by (rule typed_bind[OF typed_openaiCost[OF assms(1)]])
     (auto simp: openaiUsageTokens_ok assms(2) baseUsageLog_def Let_def split: sum.split
      intro!: typed_return typed_bind[OF typed_withStats] assms(1))

end
