(* ===== verification/PriceFrames.thy ===== *)
theory PriceFrames
  imports PriceHeap
begin

section \<open>Which prices a request changes\<close>

text \<open>
  A request may allocate prices; \<open>allocates\<close> says that a program does nothing else to the heap.  The prices of a
  channel are the only ones written, into the object of the base price: a new one if the list prices the model,
  the shared one of the program's table otherwise.
\<close>

definition allocates :: "'a priced \<Rightarrow> bool" where
  "allocates m \<longleftrightarrow> (\<forall>H. \<exists>xs. snd (run_state m H) = H @ xs)"

named_theorems allocation

lemma allocates_return [allocation]: "allocates (State_Monad.return x)"
  by (simp add: allocates_def price_run)

lemma allocates_bind [allocation]: "allocates m \<Longrightarrow> (\<And>x. allocates (f x)) \<Longrightarrow> allocates (State_Monad.bind m f)"
  by (simp add: allocates_def price_run split: prod.split) (metis append.assoc snd_conv)

lemma allocates_basic [allocation]: "allocates (new_price p)" "allocates (read_price a)"
  by (simp_all add: allocates_def price_run)

lemma allocates_if [allocation]: "allocates m \<Longrightarrow> allocates m' \<Longrightarrow> allocates (if c then m else m')"
  by simp

lemma allocates_case [allocation]:
  "allocates m \<Longrightarrow> (\<And>x. allocates (f x)) \<Longrightarrow> allocates (case v of None \<Rightarrow> m | Some x \<Rightarrow> f x)"
  "(\<And>x. allocates (g x)) \<Longrightarrow> (\<And>x. allocates (f x)) \<Longrightarrow> allocates (case r of Inl x \<Rightarrow> g x | Inr x \<Rightarrow> f x)"
  by (simp_all split: option.split sum.split)

lemma allocates_policy [allocation]: "allocates (applyModelSpecificPricingPolicy m a)"
  unfolding applyModelSpecificPricingPolicy_def by (intro allocation)

lemma allocates_Billing [allocation]: "allocates (Billing_GetModelPricing data m)"
  unfolding Billing_GetModelPricing_def Let_def by (intro allocation)

lemma allocates_CalculateCost [allocation]:
  "allocates (CalculateCostWithServiceTier data m t rate tier)" "allocates (CalculateCost data m t rate)"
  "allocates (CalculateCostWithLongContext data m t rate threshold extra)"
  unfolding CalculateCostWithLongContext_def CalculateCost_def CalculateCostWithServiceTier_def by (intro allocation)+

lemma allocates_Resolved [allocation]: "allocates (CalculateCostResolved r i)"
  unfolding CalculateCostResolved_def calculateResolvedTokenCost_def GetIntervalPricing_def Let_def by (intro allocation)

lemma allocates_stats [allocation]: "allocates (applyAccountStatsCost data cache settings acc gid um rm t cnt tot)"
  unfolding applyAccountStatsCost_def resolveAccountStatsCost_def tryModelFilePricing_def Let_def by (intro allocation)

lemma allocates_withStats [allocation]: "allocates (withStatsCost ux i r t ul)"
  unfolding withStatsCost_def by (intro allocation)

lemma allocates_resolveBase [allocation]: "allocates (resolveBasePricing data m)"
  unfolding resolveBasePricing_def by (intro allocation)

lemma allocates_breakdown [allocation]: "allocates (supportsBreakdown b)"
  unfolding supportsBreakdown_def by (intro allocation)

subsection \<open>Base prices\<close>

lemma run_policy: "\<not> isOpenAIGPT54Model m \<Longrightarrow> run_state (applyModelSpecificPricingPolicy m a) H = (a, H)"
  by (simp add: applyModelSpecificPricingPolicy_def price_run)

text \<open>A model of the list gets a new object.\<close>

lemma run_listed:
  assumes "LiteLLM_GetModelPricing data (to_lower m) = Some l"
  obtains a xs where "run_state (Billing_GetModelPricing data m) H = (Inr a, H @ xs)" "length H \<le> a"
proof -
  let ?p = "fromLiteLLM l"
  obtain b ys where b: "run_state (applyModelSpecificPricingPolicy (to_lower m) (length H)) (H @ [?p]) = (b, H @ ys)" "length H \<le> b"
    by (cases "isOpenAIGPT54Model (to_lower m)"; cases "0 < mp_LongContextInputThreshold ?p \<and> 0 < mp_LongContextInputMultiplier ?p \<and>
        0 < mp_LongContextOutputMultiplier ?p") (auto simp: applyModelSpecificPricingPolicy_def price_run)
  with assms that show thesis by (auto simp: Billing_GetModelPricing_def price_run Let_def)
qed

lemma write_new: "length H \<le> a \<Longrightarrow> \<exists>ys. (H @ xs)[a := p] = H @ ys"
  by (simp add: list_update_append)

lemma tokenOverrides_new:
  assumes "rp_BasePricing r = None \<or> (\<exists>a. rp_BasePricing r = Some a \<and> length H \<le> a)"
  shows "\<exists>ys. snd (run_state (applyTokenOverrides ch r) (H @ xs)) = H @ ys"
  using assms
  by (auto simp: applyTokenOverrides_def basePricing_def price_run Let_def list_update_append split: prod.split)

lemma run_resolveBase_new:
  assumes "LiteLLM_GetModelPricing data (to_lower m) \<noteq> None \<or> getFallbackPricing (to_lower m) = None"
  obtains base source xs where "run_state (resolveBasePricing data m) H = ((base, source), H @ xs)"
    "base = None \<or> (\<exists>a. base = Some a \<and> length H \<le> a)"
proof (cases "LiteLLM_GetModelPricing data (to_lower m)")
  case None
  with assms have "run_state (resolveBasePricing data m) H = ((None, PricingSourceFallback), H @ [])"
    by (simp add: resolveBasePricing_def Billing_GetModelPricing_def price_run Let_def)
  then show thesis using that by blast
next
  case (Some l)
  from run_listed[OF this, of H] obtain a xs where "run_state (Billing_GetModelPricing data m) H = (Inr a, H @ xs)" "length H \<le> a" .
  then show thesis using that by (simp add: resolveBasePricing_def price_run)
qed

definition breakdownOf :: "nat option \<Rightarrow> ModelPricing list \<Rightarrow> bool" where
  "breakdownOf base H = (case base of None \<Rightarrow> False | Some a \<Rightarrow> mp_SupportsCacheBreakdown (H ! a))"

lemma run_breakdown: "run_state (supportsBreakdown base) H = (breakdownOf base H, H)"
  by (simp add: supportsBreakdown_def breakdownOf_def price_run split: option.split)

subsection \<open>The resolver\<close>

text \<open>
  A model has a price object of its own in a group if the list prices it, if nothing else does, or if the channel of
  the group does not price its tokens.
\<close>

definition own_price :: "price_list \<Rightarrow> channelCache \<Rightarrow> int option \<Rightarrow> string \<Rightarrow> bool" where
  "own_price data cache gid m \<longleftrightarrow>
     LiteLLM_GetModelPricing data (to_lower m) \<noteq> None \<or> getFallbackPricing (to_lower m) = None \<or>
     (case (case gid of None \<Rightarrow> None | Some g \<Rightarrow> GetChannelModelPricing cache g m) of
        None \<Rightarrow> True | Some ch \<Rightarrow> labelled (cm_BillingMode ch))"

lemma resolve_new:
  assumes "LiteLLM_GetModelPricing data (to_lower m) \<noteq> None \<or> getFallbackPricing (to_lower m) = None"
  shows "\<exists>ys. snd (run_state (resolvePrices data (Some ch) (Some ch) m) H) = H @ ys"
proof (cases "labelled (cm_BillingMode ch)")
  case False
  from run_resolveBase_new[OF assms, of H] obtain base source xs where
    b: "run_state (resolveBasePricing data m) H = ((base, source), H @ xs)" "base = None \<or> (\<exists>a. base = Some a \<and> length H \<le> a)" .
  let ?r = "\<lparr>rp_Mode = BillingModeToken, rp_BasePricing = base, rp_Intervals = [], rp_RequestTiers = [],
      rp_DefaultPerRequestPrice = 0, rp_Source = PricingSourceChannel, rp_SupportsCacheBreakdown = breakdownOf base (H @ xs),
      rp_channelPricing = Some ch\<rparr>"
  show ?thesis using False b tokenOverrides_new[of ?r H ch xs]
    by (simp add: resolvePrices_def price_run run_breakdown)
qed (simp add: resolvePrices_def price_run)

lemma resolve_unpriced:
  assumes "case c of None \<Rightarrow> True | Some ch \<Rightarrow> labelled (cm_BillingMode ch)"
  shows "allocates (resolvePrices data c c m)"
proof (cases c)
  case None
  have "allocates (applyChannelOverrides None r)" for r by (simp add: applyChannelOverrides_def allocates_return)
  with None show ?thesis
    unfolding resolvePrices_def Let_def by (auto simp: split_def intro!: allocation)
qed (use assms in \<open>simp add: resolvePrices_def allocates_return\<close>)

lemma allocates_ResolvePricing: "own_price data cache gid m \<Longrightarrow> allocates (ResolvePricing data cache m gid)"
proof -
  let ?c = "case gid of None \<Rightarrow> None | Some g \<Rightarrow> GetChannelModelPricing cache g m"
  assume own: "own_price data cache gid m"
  show ?thesis
  proof (cases ?c)
    case None
    then show ?thesis using resolve_unpriced[of ?c data m] by (simp add: ResolvePricing_def)
  next
    case (Some ch)
    with own have "labelled (cm_BillingMode ch) \<or> LiteLLM_GetModelPricing data (to_lower m) \<noteq> None \<or> getFallbackPricing (to_lower m) = None"
      by (auto simp: own_price_def)
    with Some resolve_unpriced[of ?c data m] resolve_new[of data m ch] show ?thesis
      by (auto simp: ResolvePricing_def allocates_def Let_def)
  qed
qed

lemma allocates_gateway:
  assumes "\<And>g. ak_Group k = Some g \<Longrightarrow> own_price (ux_prices ux) (ux_channels ux) (Some (g_ID g)) m"
  shows "allocates (calculateRecordUsageCost ux r k m rate imageRate opts)"
proof -
  have c: "allocates (resolveChannelPricing ux m k)"
    using assms unfolding resolveChannelPricing_def by (auto split: option.split intro!: allocation allocates_ResolvePricing)
  have t: "allocates (calculateTokenCost ux r k m rate opts)" "allocates (calculateImageCost ux r k m imageRate)"
    unfolding calculateTokenCost_def calculateImageCost_def Let_def by (intro allocation c)+
  show ?thesis unfolding calculateRecordUsageCost_def by (intro allocation c t)
qed

end
