(* ===== verification/PriceProperties.thy ===== *)
theory PriceProperties
  imports CostProperties PriceFrames
begin

section \<open>Properties of prices and costs\<close>

subsection \<open>The table of the program is shared\<close>

lemma run_fallback:
  assumes "LiteLLM_GetModelPricing data (to_lower m) = None" "getFallbackPricing (to_lower m) = Some a"
    and "\<not> isOpenAIGPT54Model (to_lower m)"
  shows "run_state (Billing_GetModelPricing data m) H = (Inr a, H)"
  using assms by (simp add: Billing_GetModelPricing_def price_run run_policy Let_def)

definition fallbackResolved :: "nat \<Rightarrow> ModelPricing list \<Rightarrow> ResolvedPricing" where
  "fallbackResolved a H = \<lparr>rp_Mode = BillingModeToken, rp_BasePricing = Some a, rp_Intervals = [], rp_RequestTiers = [],
     rp_DefaultPerRequestPrice = 0, rp_Source = PricingSourceLiteLLM, rp_SupportsCacheBreakdown = mp_SupportsCacheBreakdown (H ! a),
     rp_channelPricing = None\<rparr>"

lemma run_resolve_fallback:
  assumes "LiteLLM_GetModelPricing data (to_lower m) = None" "getFallbackPricing (to_lower m) = Some a"
    and "\<not> isOpenAIGPT54Model (to_lower m)"
  shows "GetChannelModelPricing cache g m = None \<Longrightarrow>
      run_state (ResolvePricing data cache m (Some g)) H = (fallbackResolved a H, H)"
    and "GetChannelModelPricing cache g m = Some ch \<Longrightarrow> \<not> labelled (cm_BillingMode ch) \<Longrightarrow> filterValidIntervals (cm_Intervals ch) = [] \<Longrightarrow>
      snd (run_state (ResolvePricing data cache m (Some g)) H) = H[a := flatOverrides ch (H ! a)]"
  using run_fallback[OF assms]
  by (simp_all add: ResolvePricing_def resolvePrices_def resolveBasePricing_def run_breakdown breakdownOf_def price_run
      applyChannelOverrides_def fallbackResolved_def applyTokenOverrides_def basePricing_def)

lemma flatOverrides_input: "cm_InputPrice ch = Some x \<Longrightarrow> mp_InputPricePerToken (flatOverrides ch p) = x"
  by (simp add: flatOverrides_def setPrice_def setInput_def setOutput_def setCacheWrite_def setCacheRead_def setImageOutput_def
      split: option.split)

lemma flatOverrides_long: "mp_LongContextInputThreshold (flatOverrides ch p) = mp_LongContextInputThreshold p"
  by (simp add: flatOverrides_def setPrice_def setInput_def setOutput_def setCacheWrite_def setCacheRead_def setImageOutput_def
      split: option.split)

lemma untiered: "trim_space tier = '''' \<Longrightarrow> tierPrices tier p =
    (\<lparr>tp_input = mp_InputPricePerToken p, tp_output = mp_OutputPricePerToken p, tp_cacheRead = mp_CacheReadPricePerToken p,
      tp_cacheCreationMultiplier = 1\<rparr>, 1)"
  by (simp add: tierPrices_def usePriorityServiceTierPricing_def serviceTierCostMultiplier_def normalizeBillingServiceTier_def)

lemma trim_space_Nil [simp]: "trim_space [] = []"
  by code_simp

text \<open>
  C23: The prices of a channel leak.  If the price of a model comes from the table of the program (the price list does not
  have it), pricing a request of a group whose channel sets an input price for it, by token and without intervals, changes
  what a later request pays in another group without a channel price, for any model with the same entry of the
  table: its input costs the other channel's price.  The models are not GPT-5.4, the entry has no long-context
  threshold, and the later request has no service tier and no image input tokens, so that its input cost is tokens
  times price.
\<close>

theorem fallback_override_leaks:
  assumes "LiteLLM_GetModelPricing data (to_lower m) = None" and "LiteLLM_GetModelPricing data (to_lower m') = None"
    and "getFallbackPricing (to_lower m) = Some a" and "getFallbackPricing (to_lower m') = Some a"
    and "\<not> isOpenAIGPT54Model (to_lower m)" and "\<not> isOpenAIGPT54Model (to_lower m')" and "\<not> isOpenAIGPT54Model m'"
    and "GetChannelModelPricing cache g m = Some ch" and "\<not> labelled (cm_BillingMode ch)"
    and "cm_Intervals ch = []" and "cm_InputPrice ch = Some x" and "GetChannelModelPricing cache g' m' = None"
    and "a < length H" and "mp_LongContextInputThreshold (H ! a) = 0"
    and "ci_Model i = m'" and "ut_ImageInputTokens (ci_Tokens i) = 0" and "ci_ServiceTier i = ''''"
  shows "map_sum id cb_InputCost (fst (run_state (CalculateCostUnified data cache (Some g') i)
      (snd (run_state (ResolvePricing data cache m (Some g)) H)))) = Inr (of_int (ut_InputTokens (ci_Tokens i)) * x)"
proof -
  let ?H = "H[a := flatOverrides ch (H ! a)]"
  have iv: "filterValidIntervals (cm_Intervals ch) = []" using assms(10) by (simp add: filterValidIntervals_def)
  have first: "snd (run_state (ResolvePricing data cache m (Some g)) H) = ?H"
    by (rule run_resolve_fallback(2)[OF assms(1,3,5,8,9) iv])
  have second: "run_state (ResolvePricing data cache (ci_Model i) (Some g')) ?H = (fallbackResolved a ?H, ?H)"
    unfolding assms(15) by (rule run_resolve_fallback(1)[OF assms(2,4,6,12)])
  have price: "mp_InputPricePerToken (?H ! a) = x" "mp_LongContextInputThreshold (?H ! a) = 0"
    using assms(11,13,14) by (simp_all add: flatOverrides_input flatOverrides_long)
  then have "cb_InputCost (computeTokenBreakdown (?H ! a) (ci_Tokens i) rate '''' l) = of_int (ut_InputTokens (ci_Tokens i)) * x" for rate l
    using assms(16) by (simp add: computeTokenBreakdown_def Let_def untiered shouldApplySessionLongContextPricing_def inputCost_def)
  then show ?thesis
    unfolding first CalculateCostUnified_def run_bind second
    using assms(7,15,17)
    by (simp add: CalculateCostResolved_def fallbackResolved_def labelled_def BillingModeToken_def BillingModePerRequest_def
        BillingModeImage_def calculateResolvedTokenCost_def GetIntervalPricing_def FindMatchingInterval_def price_run run_policy
        withMode_def Let_def)
qed

definition exLeakChannel :: Channel where
  "exLeakChannel = exChannel\<lparr>ch_GroupIDs := [7], ch_ModelPricing := [exPricing [''glm-5''] []]\<rparr>"

definition exLeakCache :: channelCache where
  "exLeakCache = populateChannelCache [exLeakChannel] [7 \<mapsto> ''anthropic'', 9 \<mapsto> ''anthropic''] 0"

definition exLeakInput :: CostInput where
  "exLeakInput = costInput ''glm-5-plus'' (zeroTokens\<lparr>ut_InputTokens := 100\<rparr>) 1 [] 1 []"

lemma exLeak_prices:
  "LiteLLM_GetModelPricing [] (to_lower ''glm-5'') = None" "LiteLLM_GetModelPricing [] (to_lower ''glm-5-plus'') = None"
  "getFallbackPricing (to_lower ''glm-5'') = Some 15" "getFallbackPricing (to_lower ''glm-5-plus'') = Some 15"
  "\<not> isOpenAIGPT54Model (to_lower ''glm-5'')" "\<not> isOpenAIGPT54Model (to_lower ''glm-5-plus'')" "\<not> isOpenAIGPT54Model ''glm-5-plus''"
  by code_simp+

lemma exLeak_channel:
  "GetChannelModelPricing exLeakCache 7 ''glm-5'' = Some (exPricing [''glm-5''] [])"
  "GetChannelModelPricing exLeakCache 9 ''glm-5-plus'' = None"
  by code_simp+

lemma exLeak_heap: "15 < length initialPrices" "mp_LongContextInputThreshold (initialPrices ! 15) = 0"
  by code_simp+

lemma fallback_override_leaks_witness:
  "map_sum id cb_InputCost (fst (run_state (CalculateCostUnified [] exLeakCache (Some 9) exLeakInput)
      (snd (run_state (ResolvePricing [] exLeakCache ''glm-5'' (Some 7)) initialPrices)))) = Inr 300"
proof -
  have "cm_InputPrice (exPricing [''glm-5''] []) = Some 3" "cm_Intervals (exPricing [''glm-5''] []) = []"
    "\<not> labelled (cm_BillingMode (exPricing [''glm-5''] []))"
    by (simp_all add: exPricing_def labelled_def BillingModeToken_def BillingModePerRequest_def BillingModeImage_def)
  from fallback_override_leaks[OF exLeak_prices(1,2,3,4,5,6,7) exLeak_channel(1) this(3,2,1) exLeak_channel(2) exLeak_heap,
      of exLeakInput]
  show ?thesis by (simp add: exLeakInput_def costInput_def zeroTokens_def)
qed

subsection \<open>Requests that leave the prices as they are\<close>

text \<open>
  C22: Recording a request of the Anthropic and Gemini gateway only allocates new prices, so that every price in
  memory, the table of the program included, stays as it is, whenever the billed model is in the price list, or is not in
  that table, or has no token price from the channel of the request's group.
\<close>

theorem private_prices_stay:
  assumes "\<And>g. ak_Group (ru_APIKey i) = Some g \<Longrightarrow> own_price (ux_prices ux) (ux_channels ux) (Some (g_ID g))
    (gatewayBillingModel (ru_Channel i) (fr_Model r) (fr_UpstreamModel r))"
  shows "\<exists>xs. snd (run_state (gatewayUsageLog ux i r opts) H) = H @ xs"
proof -
  have "fr_Model (fst (normalizedResult ux i r)) = fr_Model r" "fr_UpstreamModel (fst (normalizedResult ux i r)) = fr_UpstreamModel r"
    by (simp_all add: normalizedResult_def split: prod.split)
  then have "allocates (gatewayUsageLog ux i r opts)"
    unfolding gatewayUsageLog_def Let_def by (intro allocates_bind allocates_gateway allocates_withStats) (simp add: assms)
  then show ?thesis by (simp add: allocates_def)
qed

text \<open>A request of a group whose channel prices the model, which the list does too.\<close>

definition exRateGroup :: rate_group where
  "exRateGroup = \<lparr>g_ID = 7, g_Name = [], g_SubscriptionType = [], g_DailyLimitUSD = None, g_WeeklyLimitUSD = None,
     g_MonthlyLimitUSD = None, rg_Platform = ''anthropic'', rg_RateMultiplier = 2, rg_PeakRateEnabled = False, rg_PeakStart = [],
     rg_PeakEnd = [], rg_PeakRateMultiplier = 1, rg_ImageRateIndependent = False, rg_ImageRateMultiplier = 1,
     rg_ImagePrice1K = None, rg_ImagePrice2K = Some 1, rg_ImagePrice4K = None\<rparr>"

definition exUsageKey :: APIKey where
  "exUsageKey = \<lparr>ak_ID = 5, ak_GroupID = Some 7, ak_Group = Some exRateGroup, ak_Quota = 0, ak_RateLimit5h = 0, ak_RateLimit1d = 0,
     ak_RateLimit7d = 0\<rparr>"

definition exNoWindow :: quota_window where
  "exNoWindow = \<lparr>qw_limit = None, qw_used = None, qw_start = None, qw_reset_mode = None, qw_reset_hour = None, qw_reset_at = None\<rparr>"

definition exUsageInput :: RecordUsageInput where
  "exUsageInput = \<lparr>ru_APIKey = exUsageKey, ru_UserID = 1,
     ru_Account = \<lparr>ac_ID = 9, ac_Platform = ''anthropic'', ac_Type = ''oauth'', ac_RateMultiplier = None,
       ac_Extra = \<lparr>qx_limit = None, qx_used = None, qx_daily = exNoWindow, qx_weekly = exNoWindow, qx_weekly_reset_day = None,
         qx_timezone = None\<rparr>, ac_CacheTTLOverride = None, ac_CacheTTLOverrideTarget = None\<rparr>,
     ru_Subscription = None, ru_RequestPayloadHash = ''h'', ru_ForceCacheBilling = False, ru_HasAPIKeyService = True,
     ru_Channel = \<lparr>uf_ChannelID = 4, uf_OriginalModel = ''claude-haiku'', uf_ChannelMappedModel = ''claude-haiku'',
       uf_BillingModelSource = BillingModelSourceRequested, uf_ModelMappingChain = []\<rparr>\<rparr>"

definition exPriceList :: price_list where
  "exPriceList = [(''claude-haiku'', zeroLiteLLM\<lparr>ll_InputCostPerToken := 1, ll_OutputCostPerToken := 5\<rparr>)]"

definition exUsageCtx :: usage_ctx where
  "exUsageCtx = \<lparr>ux_ClientRequestID = ''r1'', ux_RequestID = [], ux_generated = ''g'', ux_now = 0,
     ux_zone = \<lparr>loc_wall = id, loc_instant = id\<rparr>, ux_DefaultRateMultiplier = 1, ux_RunModeSimple = False, ux_prices = exPriceList,
     ux_channels = populateChannelCache [exChannel] [7 \<mapsto> ''anthropic''] 0,
     ux_stats = (\<lambda>_. \<lparr>ss_ApplyPricingToAccountStats = False, ss_AccountStatsPricingRules = []\<rparr>), ux_rateCached = None,
     ux_rateRow = Inr None, ux_CacheTTL1hInjection = False\<rparr>"

definition exNoImages :: image_fields where
  "exNoImages = \<lparr>im_ImageCount = 0, im_ImageSize = [], im_ImageInputSize = [], im_ImageOutputSize = [], im_ImageOutputSizes = [],
     im_ImageSizeSource = [], im_ImageSizeBreakdown = Map.empty\<rparr>"

definition exForward :: ForwardResult where
  "exForward = \<lparr>fr_RequestID = ''u'', fr_Model = ''claude-haiku'', fr_UpstreamModel = [], fr_ReasoningEffort = None, fr_Stream = True,
     fr_image = exNoImages, fr_Usage = \<lparr>cu_InputTokens = 100, cu_OutputTokens = 10, cu_CacheCreationInputTokens = 0,
       cu_CacheReadInputTokens = 50, cu_CacheCreation5mTokens = 0, cu_CacheCreation1hTokens = 0, cu_ImageOutputTokens = 0\<rparr>\<rparr>"

definition exOpenAIForward :: OpenAIForwardResult where
  "exOpenAIForward = \<lparr>fr_RequestID = ''u'', fr_Model = ''claude-haiku'', fr_UpstreamModel = [], fr_ReasoningEffort = None, fr_Stream = True,
     fr_image = exNoImages, of_Usage = zeroOpenAIUsage\<lparr>u_InputTokens := 100, u_OutputTokens := 10, u_CacheReadInputTokens := 50\<rparr>,
     of_BillingModel = [], of_ServiceTier = None, of_OpenAIWSMode = False\<rparr>"

definition exRecordOpts :: recordUsageOpts where
  "exRecordOpts = \<lparr>ro_LongContextThreshold = 0, ro_LongContextMultiplier = 0\<rparr>"

lemma exPriceList_has: "LiteLLM_GetModelPricing exPriceList (to_lower ''claude-haiku'') \<noteq> None"
  by code_simp

lemma private_prices_stay_witness:
  "\<exists>xs. snd (run_state (gatewayUsageLog exUsageCtx exUsageInput exForward exRecordOpts) initialPrices) = initialPrices @ xs"
proof (rule private_prices_stay)
  have "gatewayBillingModel (ru_Channel exUsageInput) (fr_Model exForward) (fr_UpstreamModel exForward) = ''claude-haiku''"
    by (simp add: gatewayBillingModel_def exUsageInput_def)
  with exPriceList_has show "own_price (ux_prices exUsageCtx) (ux_channels exUsageCtx) (Some (g_ID g))
      (gatewayBillingModel (ru_Channel exUsageInput) (fr_Model exForward) (fr_UpstreamModel exForward))" for g :: rate_group
    by (simp add: own_price_def exUsageCtx_def)
qed

subsection \<open>No cost is negative\<close>

text \<open>
  C11: Whatever a request used, no cost in its row of the log is negative and every price in memory stays well-formed
  (no negative price or multiplier), at both gateways, for any heap of such prices, any price list and image prices of the
  group without negative numbers, any configuration of channels that was accepted, and any token counts between 0 and
  \<open>2 ^ 60\<close>, so that sums of them do not wrap around.
\<close>

theorem usage_costs_typed:
  assumes "price_list_ok (ux_prices ux)" and "accepted_channels chs" and "ux_channels ux = populateChannelCache chs platforms t"
    and "image_prices_ok (ru_APIKey i)" and "typed_heap H" and "reported_ok (fr_Usage r)" and "openai_usage_ok (of_Usage r')"
  shows "typed_heap (snd (run_state (gatewayUsageLog ux i r opts) H)) \<and>
      cost_ok (ul_cost (fst (run_state (gatewayUsageLog ux i r opts) H))) \<and>
      typed_heap (snd (run_state (openaiUsageLog ux i r') H)) \<and>
      (case fst (run_state (openaiUsageLog ux i r') H) of Inl err \<Rightarrow> True | Inr ul \<Rightarrow> cost_ok (ul_cost ul))"
proof -
  have "prices_ok ux (ru_APIKey i)" using assms(1,4) accepted_cache_ok[OF assms(2)] by (simp add: prices_ok_def assms(3))
  from typed_run[OF typed_gatewayUsageLog[OF this assms(6)] assms(5)] typed_run[OF typed_openaiUsageLog[OF this assms(7)] assms(5)]
  show ?thesis by simp
qed

lemma exUsage_ok:
  "price_list_ok (ux_prices exUsageCtx)" "accepted_channels [exChannel]"
  "ux_channels exUsageCtx = populateChannelCache [exChannel] [7 \<mapsto> ''anthropic''] 0" "image_prices_ok (ru_APIKey exUsageInput)"
  "reported_ok (fr_Usage exForward)" "openai_usage_ok (of_Usage exOpenAIForward)"
proof -
  show "price_list_ok (ux_prices exUsageCtx)"
    by (simp add: price_list_ok_def exUsageCtx_def exPriceList_def listed_ok_def zeroLiteLLM_def)
  show "accepted_channels [exChannel]" by code_simp
  show "ux_channels exUsageCtx = populateChannelCache [exChannel] [7 \<mapsto> ''anthropic''] 0" by (simp add: exUsageCtx_def)
  show "image_prices_ok (ru_APIKey exUsageInput)"
    by (simp add: image_prices_ok_def exUsageInput_def exUsageKey_def exRateGroup_def groupImagePrices_def)
  show "reported_ok (fr_Usage exForward)" by (simp add: reported_ok_def exForward_def)
  show "openai_usage_ok (of_Usage exOpenAIForward)" by (simp add: openai_usage_ok_def exOpenAIForward_def zeroOpenAIUsage_def count_ok_def)
qed

lemma usage_costs_typed_witness:
  "typed_heap (snd (run_state (gatewayUsageLog exUsageCtx exUsageInput exForward exRecordOpts) initialPrices)) \<and>
   cost_ok (ul_cost (fst (run_state (gatewayUsageLog exUsageCtx exUsageInput exForward exRecordOpts) initialPrices)))"
  using usage_costs_typed[OF exUsage_ok(1,2,3,4) typed_initial exUsage_ok(5,6), of exRecordOpts] by blast

end
