(* ===== verification/PriceChoice.thy ===== *)
theory PriceChoice
  imports PriceProperties ChannelListing
begin

section \<open>Which price a request pays\<close>

subsection \<open>Prices of a channel by the size of the context\<close>



















end
