(* ===== verification/LongContext.thy ===== *)
theory LongContext
  imports PriceProperties
begin

section \<open>The surcharge of long contexts\<close>

text \<open>
  \<open>CalculateCostWithLongContext\<close> prices a request in two parts and adds the costs; this is the usual cost and a
  surcharge on the tokens beyond the threshold.
\<close>

text \<open>The price of a model now: the object that the lookup returns.\<close>

definition price_of :: "price_list \<Rightarrow> string \<Rightarrow> ModelPricing list \<Rightarrow> go_error + ModelPricing" where
  "price_of data m H = (case run_state (Billing_GetModelPricing data m) H of (Inl err, _) \<Rightarrow> Inl err | (Inr a, H1) \<Rightarrow> Inr (H1 ! a))"

definition policy_price :: "string \<Rightarrow> ModelPricing \<Rightarrow> ModelPricing" where
  "policy_price m p =
     (if \<not> isOpenAIGPT54Model m \<or> (mp_LongContextInputThreshold p > 0 \<and> mp_LongContextInputMultiplier p > 0 \<and>
           mp_LongContextOutputMultiplier p > 0) then p else withLongContext p)"

lemma run_policy_price:
  assumes "a < length H"
  obtains b xs where "run_state (applyModelSpecificPricingPolicy m a) H = (b, H @ xs)" "(H @ xs) ! b = policy_price m (H ! a)"
proof (cases "policy_price m (H ! a) = H ! a \<and> run_state (applyModelSpecificPricingPolicy m a) H = (a, H)")
  case True
  with assms show ?thesis by (intro that[of a "[]"]) auto
next
  case False
  with assms show ?thesis
    by (intro that[of "length H" "[withLongContext (H ! a)]"])
       (auto simp: applyModelSpecificPricingPolicy_def policy_price_def price_run split: if_splits)
qed

lemma price_of_eq:
  assumes "length initialPrices \<le> length H"
  shows "price_of data m H = (case LiteLLM_GetModelPricing data (to_lower m) of
      Some l \<Rightarrow> Inr (policy_price (to_lower m) (fromLiteLLM l))
    | None \<Rightarrow> (case getFallbackPricing (to_lower m) of
        Some a \<Rightarrow> Inr (policy_price (to_lower m) (H ! a))
      | None \<Rightarrow> Inl (OtherError (''pricing not found for model: '' @ to_lower m) (Some ErrModelPricingUnavailable))))"
proof (cases "LiteLLM_GetModelPricing data (to_lower m)")
  case (Some l)
  obtain b xs where "run_state (applyModelSpecificPricingPolicy (to_lower m) (length H)) (H @ [fromLiteLLM l]) = (b, (H @ [fromLiteLLM l]) @ xs)"
    "((H @ [fromLiteLLM l]) @ xs) ! b = policy_price (to_lower m) ((H @ [fromLiteLLM l]) ! length H)"
    using run_policy_price[of "length H" "H @ [fromLiteLLM l]" "to_lower m"] by auto
  with Some show ?thesis by (simp add: price_of_def Billing_GetModelPricing_def price_run Let_def)
next
  case None
  show ?thesis
  proof (cases "getFallbackPricing (to_lower m)")
    case (Some a)
    with assms have "a < length H" using fallback_address by fastforce
    from run_policy_price[OF this, of "to_lower m"] obtain b xs where
      "run_state (applyModelSpecificPricingPolicy (to_lower m) a) H = (b, H @ xs)" "(H @ xs) ! b = policy_price (to_lower m) (H ! a)" .
    with None Some show ?thesis by (simp add: price_of_def Billing_GetModelPricing_def price_run Let_def)
  qed (simp add: None price_of_def Billing_GetModelPricing_def price_run Let_def)
qed

text \<open>Allocating prices does not change what a model costs.\<close>

lemma price_of_stable: "length initialPrices \<le> length H \<Longrightarrow> price_of data m (H @ xs) = price_of data m H"
  using fallback_address by (fastforce simp: price_of_eq nth_append split: option.split)

lemma run_CalculateCost:
  obtains xs where "run_state (CalculateCost data m t rate) H =
    (map_sum id (\<lambda>p. computeTokenBreakdown p t rate '''' True) (price_of data m H), H @ xs)"
proof -
  obtain r H1 where b: "run_state (Billing_GetModelPricing data m) H = (r, H1)" by (metis surj_pair)
  with allocates_Billing[of data m] obtain xs where "H1 = H @ xs" by (auto simp: allocates_def dest: spec[of _ H])
  with b show thesis
    by (intro that[of xs]) (auto simp: CalculateCost_def CalculateCostWithServiceTier_def price_run price_of_def split: sum.split)
qed

definition beyondInput :: "int \<Rightarrow> UsageTokens \<Rightarrow> int" where
  "beyondInput threshold t = max 0 (min (ut_InputTokens t) (ut_CacheReadTokens t + ut_InputTokens t - threshold))"

definition beyondCache :: "int \<Rightarrow> UsageTokens \<Rightarrow> int" where
  "beyondCache threshold t = max 0 (ut_CacheReadTokens t - threshold)"

lemma plain_breakdown:
  assumes "mp_LongContextInputThreshold p = 0" "ut_ImageInputTokens t = 0"
  shows "computeTokenBreakdown p t rate '''' True =
    (let input = of_int (ut_InputTokens t) * mp_InputPricePerToken p;
         text = wrap64 (ut_OutputTokens t - ut_ImageOutputTokens t);
         out = of_int (if text < 0 then 0 else text) * mp_OutputPricePerToken p;
         image = imageOutputCost p t (mp_OutputPricePerToken p);
         creation = computeCacheCreationCost p t 1;
         reads = of_int (ut_CacheReadTokens t) * mp_CacheReadPricePerToken p;
         total = input + out + image + creation + reads
     in \<lparr>cb_InputCost = input, cb_OutputCost = out, cb_ImageOutputCost = image, cb_CacheCreationCost = creation,
         cb_CacheReadCost = reads, cb_TotalCost = total, cb_ActualCost = total * max 0 rate, cb_BillingMode = ''''\<rparr>)"
  using assms
  by (simp add: computeTokenBreakdown_def Let_def untiered shouldApplySessionLongContextPricing_def inputCost_def max_def)

lemma split_costs:
  assumes "mp_LongContextInputThreshold p = 0" "ut_ImageInputTokens t = 0" "count_ok (ut_InputTokens t)" "count_ok (ut_CacheReadTokens t)"
    and "0 < threshold" "threshold < ut_CacheReadTokens t + ut_InputTokens t" "0 < extra"
  shows "addCosts (computeTokenBreakdown p (fst (splitAt threshold t)) rate '''' True)
      (computeTokenBreakdown p (snd (splitAt threshold t)) (rate * extra) '''' True) =
    (let c = computeTokenBreakdown p t rate '''' True
     in c\<lparr>cb_ActualCost := cb_ActualCost c + max 0 rate * (extra - 1) *
       (of_int (beyondInput threshold t) * mp_InputPricePerToken p + of_int (beyondCache threshold t) * mp_CacheReadPricePerToken p)\<rparr>)"
proof -
  let ?a = "fst (splitAt threshold t)" and ?b = "snd (splitAt threshold t)"
  let ?x = "beyondInput threshold t" and ?y = "beyondCache threshold t"
  note split = splitAt_values[OF assms(3,4,5,6)]
  have a: "ut_ImageInputTokens ?a = 0" "ut_OutputTokens ?a = ut_OutputTokens t" "ut_ImageOutputTokens ?a = ut_ImageOutputTokens t"
    and cr: "ut_CacheCreationTokens ?a = ut_CacheCreationTokens t" "ut_CacheCreation5mTokens ?a = ut_CacheCreation5mTokens t"
      "ut_CacheCreation1hTokens ?a = ut_CacheCreation1hTokens t"
    by (simp_all add: split)
  have a': "imageOutputCost p ?a = imageOutputCost p t" "computeCacheCreationCost p ?a = computeCacheCreationCost p t"
    by (simp_all only: a cr fun_eq_iff imageOutputCost_def computeCacheCreationCost_def simp_thms)
  have b: "ut_ImageInputTokens ?b = 0" "ut_OutputTokens ?b = 0" "ut_ImageOutputTokens ?b = 0"
    "imageOutputCost p ?b z = 0" "computeCacheCreationCost p ?b 1 = 0" "ut_InputTokens ?b = ?x" "ut_CacheReadTokens ?b = ?y" for z
    using assms(3-6) by (auto simp: split zeroTokens_def imageOutputCost_def computeCacheCreationCost_def beyondInput_def beyondCache_def
        count_ok_def max_def min_def)
  have sum: "of_int (ut_InputTokens ?a) = (of_int (ut_InputTokens t) - of_int ?x :: rat)"
    "of_int (ut_CacheReadTokens ?a) = (of_int (ut_CacheReadTokens t) - of_int ?y :: rat)"
    using assms(3-6) by (auto simp: split beyondInput_def beyondCache_def count_ok_def max_def min_def simp flip: of_int_diff)
  have rate: "max 0 (rate * extra) = max 0 rate * extra"
    using assms(7) by (auto simp: max_def zero_le_mult_iff mult_le_0_iff)
  have w: "wrap64 0 = 0" by (simp add: wrap64_def)
  show ?thesis
    unfolding plain_breakdown[OF assms(1) a(1)] plain_breakdown[OF assms(1) b(1)] plain_breakdown[OF assms(1,2)] a a' b rate sum
    by (simp add: addCosts_def Let_def w) (simp add: algebra_simps)
qed

text \<open>
  C26: Pricing the tokens within and beyond a threshold as two requests and adding up gives what the request would
  cost without a threshold, plus the extra share of the price of the input and cached tokens beyond it; cached
  tokens are counted first.  Only the charge grows: the cost before multipliers, which account quotas and statistics
  count, does not.  The model has a price without a long-context threshold of its own (it is not GPT-5.4), the extra
  multiplier is above 1, and the request has no image input tokens, which the split would drop.
\<close>

theorem long_context_surcharge:
  assumes "price_of data m H = Inr p" and "mp_LongContextInputThreshold p = 0" and "length initialPrices \<le> length H"
    and "ut_ImageInputTokens t = 0" and "count_ok (ut_InputTokens t)" and "count_ok (ut_CacheReadTokens t)"
    and "0 < threshold" and "1 < extra"
  shows "fst (run_state (CalculateCostWithLongContext data m t rate threshold extra) H) =
    (let c = computeTokenBreakdown p t rate '''' True
     in Inr (c\<lparr>cb_ActualCost := cb_ActualCost c + max 0 rate * (extra - 1) *
       (of_int (beyondInput threshold t) * mp_InputPricePerToken p + of_int (beyondCache threshold t) * mp_CacheReadPricePerToken p)\<rparr>))"
proof -
  let ?n = "ut_CacheReadTokens t + ut_InputTokens t"
  have n: "wrap64 ?n = ?n" using wrap_add[OF assms(6,5)] .
  show ?thesis
  proof (cases "?n \<le> threshold")
    case True
    then have "beyondInput threshold t = 0" "beyondCache threshold t = 0"
      using assms(5) by (auto simp: beyondInput_def beyondCache_def count_ok_def)
    moreover obtain xs where "run_state (CalculateCost data m t rate) H =
        (map_sum id (\<lambda>p. computeTokenBreakdown p t rate '''' True) (price_of data m H), H @ xs)" by (rule run_CalculateCost)
    ultimately show ?thesis using True assms(1) by (simp add: CalculateCostWithLongContext_def n)
  next
    case False
    then have "threshold < ?n" by simp
    note parts = split_costs[OF assms(2,4,5,6,7) this, of extra rate]
    obtain xs where a: "run_state (CalculateCost data m (fst (splitAt threshold t)) rate) H =
        (Inr (computeTokenBreakdown p (fst (splitAt threshold t)) rate '''' True), H @ xs)"
      using run_CalculateCost[of data m "fst (splitAt threshold t)" rate H] assms(1) by auto
    obtain ys where b: "run_state (CalculateCost data m (snd (splitAt threshold t)) (rate * extra)) (H @ xs) =
        (Inr (computeTokenBreakdown p (snd (splitAt threshold t)) (rate * extra) '''' True), (H @ xs) @ ys)"
      using run_CalculateCost[of data m "snd (splitAt threshold t)" "rate * extra" "H @ xs"] assms(1) price_of_stable[OF assms(3)] by auto
    show ?thesis
      using False parts assms(7,8) by (simp add: CalculateCostWithLongContext_def n price_run a b Let_def)
  qed
qed

lemma long_context_surcharge_witness:
  "map_sum id cb_ActualCost (fst (run_state (CalculateCostWithLongContext exPriceList ''claude-haiku''
     (zeroTokens\<lparr>ut_InputTokens := 150, ut_OutputTokens := 10, ut_CacheReadTokens := 100\<rparr>) 2 200 2) initialPrices)) = Inr 500"
proof -
  let ?t = "zeroTokens\<lparr>ut_InputTokens := 150, ut_OutputTokens := 10, ut_CacheReadTokens := 100\<rparr>"
  let ?p = "fromLiteLLM (zeroLiteLLM\<lparr>ll_InputCostPerToken := 1, ll_OutputCostPerToken := 5\<rparr>)"
  have l: "LiteLLM_GetModelPricing exPriceList (to_lower ''claude-haiku'') = Some (zeroLiteLLM\<lparr>ll_InputCostPerToken := 1, ll_OutputCostPerToken := 5\<rparr>)"
    "\<not> isOpenAIGPT54Model (to_lower ''claude-haiku'')" by code_simp+
  have price: "price_of exPriceList ''claude-haiku'' initialPrices = Inr ?p"
    by (simp only: price_of_eq[OF order.refl] l(1) option.case policy_price_def l(2) if_True simp_thms)
  have p: "mp_LongContextInputThreshold ?p = 0" by (simp add: fromLiteLLM_def zeroLiteLLM_def Let_def)
  have t: "ut_ImageInputTokens ?t = 0" "count_ok (ut_InputTokens ?t)" "count_ok (ut_CacheReadTokens ?t)"
    by (simp_all add: zeroTokens_def count_ok_def)
  have "cb_ActualCost (computeTokenBreakdown ?p ?t 2 '''' True) = 400"
    unfolding plain_breakdown[OF p t(1)]
    by (simp add: Let_def fromLiteLLM_def zeroLiteLLM_def zeroPricing_def zeroTokens_def imageOutputCost_def computeCacheCreationCost_def wrap64_def)
  moreover have "beyondInput 200 ?t = 50" "beyondCache 200 ?t = 0" "mp_InputPricePerToken ?p = 1"
    by (simp_all add: beyondInput_def beyondCache_def zeroTokens_def fromLiteLLM_def Let_def)
  ultimately show ?thesis
    unfolding long_context_surcharge[OF price p order.refl t, of 200 2, simplified] by (simp add: Let_def)
qed

end
