(* ===== verification/PriceOrder.thy ===== *)
theory PriceOrder
  imports PriceProperties
begin

section \<open>The price list is a map\<close>

text \<open>
  Go iterates over a map in an arbitrary order.  A name that the list has, also by one of the spellings the lookup
  tries, has one price; a name that is only similar to listed names has the price of whichever is met first.
\<close>

lemma firstSome_cong: "(\<And>x. x \<in> set xs \<Longrightarrow> f x = g x) \<Longrightarrow> firstSome f xs = firstSome g xs"
  by (induction xs) (auto split: option.split)




definition exClaudeList :: price_list where
  "exClaudeList = [(''claude-opus-4-1'', zeroLiteLLM\<lparr>ll_InputCostPerToken := 15\<rparr>), (''claude-opus-4-5'', zeroLiteLLM\<lparr>ll_InputCostPerToken := 5\<rparr>)]"


text \<open>
  A name of a known family that the list does not have: the family \<open>opus-4\<close> is matched by its pattern in the names of
  the list, so the price depends on the order.
\<close>

theorem unlisted_price_depends_on_order:
  "map_option ll_InputCostPerToken (LiteLLM_GetModelPricing exClaudeList ''claude-opus-4-9'') = Some 15 \<and>
   map_option ll_InputCostPerToken (LiteLLM_GetModelPricing (rev exClaudeList) ''claude-opus-4-9'') = Some 5"
  by code_simp

end
