(* ===== verification/OpenAIUsageProperties.thy ===== *)
theory OpenAIUsageProperties
  imports PriceProperties
begin

section \<open>The OpenAI gateway records every request\<close>

text \<open>
  Every error of pricing says that there is no price, so a request of a nonblank model is never lost for lack of one.
\<close>

subsection \<open>Trimming\<close>




subsection \<open>Candidates\<close>









subsection \<open>Errors\<close>













end
