(* ===== verification/UsageCharging.thy ===== *)
theory UsageCharging
  imports PriceProperties UsageBillingProperties
begin

section \<open>A recorded request is charged\<close>

text \<open>The bill of a request, from its row in the log through the transaction of \<open>UsageBilling\<close>.\<close>

definition usageBill :: "usage_ctx \<Rightarrow> RecordUsageInput \<Rightarrow> UsageLog \<Rightarrow> postUsageBillingParams" where
  "usageBill ux i ul = \<lparr>pb_Cost = ul_cost ul, pb_UserID = ru_UserID i, pb_APIKey = ru_APIKey i, pb_Account = ru_Account i,
     pb_Subscription = ru_Subscription i, pb_RequestPayloadHash = resolveUsageBillingPayloadFingerprint ux (ru_RequestPayloadHash i),
     pb_IsSubscriptionBill = isSubscriptionBilling i, pb_AccountRateMultiplier = BillingRateMultiplier (ru_Account i),
     pb_HasAPIKeyService = ru_HasAPIKeyService i\<rparr>"

definition onSubscription :: "RecordUsageInput \<Rightarrow> UsageLog \<Rightarrow> bool" where
  "onSubscription i ul \<longleftrightarrow> isSubscriptionBilling i \<and> cb_TotalCost (ul_cost ul) > 0"

lemma Normalize_costs [simp]:
  "uc_BalanceCost (Normalize L c) = uc_BalanceCost c" "uc_SubscriptionCost (Normalize L c) = uc_SubscriptionCost c"
  "uc_UserID (Normalize L c) = uc_UserID c" "uc_APIKeyID (Normalize L c) = uc_APIKeyID c"
  "uc_SubscriptionID (Normalize L c) = uc_SubscriptionID c"
  by (simp_all add: Normalize_def Let_def)

lemma command_costs:
  fixes L ux i ul
  defines "c \<equiv> Normalize L (buildUsageBillingCommand L (ul_RequestID ul) ul (usageBill ux i ul))"
  shows "uc_UserID c = ru_UserID i" "uc_APIKeyID c = ak_ID (ru_APIKey i)"
    "uc_BalanceCost c = (if \<not> onSubscription i ul then max 0 (cb_ActualCost (ul_cost ul)) else 0)"
    "uc_SubscriptionCost c = (if onSubscription i ul then cb_ActualCost (ul_cost ul) else 0)"
    "onSubscription i ul \<Longrightarrow> uc_SubscriptionID c = map_option us_ID (ru_Subscription i)"
  by (auto simp: c_def buildUsageBillingCommand_def usageBill_def onSubscription_def isSubscriptionBilling_def Let_def max_def)

lemma billUsage_run:
  assumes "be_fault e = NoFault" "\<not> ux_RunModeSimple ux"
    and "c = Normalize L (buildUsageBillingCommand L (ul_RequestID ul) ul (usageBill ux i ul))"
  shows "run_flow [e] (billUsage L ux i (ul_RequestID ul) ul (\<lambda>res. Done (f res))) db =
    (if uc_RequestID c = '''' then (Done (f (UsageFailed ErrUsageBillingRequestIDRequired)), db)
     else (Done (f (case fst (billingTx L (be_now e) c db) of Inl err \<Rightarrow> UsageFailed err | Inr _ \<Rightarrow> UsageRecorded ul)),
           snd (billingTx L (be_now e) c db)))"
  using assms
  by (auto simp: billUsage_def applyUsageBilling_def Apply_def usageBill_def Let_def faulty_def split: sum.split prod.split)

lemma balance_charged:
  assumes "applyUsageBillingEffects L now c r db = Inr (x, db2)" "distinct (map bu_ID (bd_users db))"
  shows "balance_of i (rekey a b l db2) = map_option (\<lambda>b. foldl spend b (cost_of i (now, c))) (balance_of i db)"
  using charge_users_find[of i c "bd_users db" now] effects_users[OF assms] by (simp add: balance_of_def)

lemma effects_log: "applyUsageBillingEffects L now c r db = Inr (x, db2) \<Longrightarrow> bd_log db2 = bd_log db"
  using conjunct2[OF framed_effects[of L now c r, unfolded framed_def], rule_format, of db x db2] by simp

lemma billingTx_repeat:
  assumes "fst (billingTx L now c db) = Inr x" "snd (billingTx L now c db) = db"
  shows "cmd_key c \<in> row_key ` set (all_rows db)"
proof -
  obtain b db1 where claim: "claimUsageBillingKey now c db = Inr (b, db1)"
    using assms(1) by (cases "claimUsageBillingKey now c db") (auto simp: billingTx_def)
  show ?thesis
  proof (cases b)
    case False
    with claim obtain r where "dedupFind (uc_RequestID c) (uc_APIKeyID c) (bd_dedup db) = Some r \<or>
        dedupFind (uc_RequestID c) (uc_APIKeyID c) (bd_archive db) = Some r"
      by (auto simp: claimUsageBillingKey_def Let_def split: option.splits if_splits)
    then show ?thesis using dedupFind_Some by (force simp: all_rows_def cmd_key_def)
  next
    case True
    with claim assms(1) obtain db2 where e: "applyUsageBillingEffects L now c (notApplied\<lparr>ar_Applied := True\<rparr>) db1 = Inr (x, db2)"
      and s: "snd (billingTx L now c db) = db2\<lparr>bd_log := bd_log db2 @ [(now, c)]\<rparr>"
      by (auto simp: billingTx_def split: sum.splits prod.splits)
    from claim True have "claimUsageBillingKey now c db = Inr (True, db1)" by simp
    from arg_cong[OF claim_True(2)[OF this], of bd_log] have "bd_log db1 = bd_log db" by simp
    with effects_log[OF e] have "bd_log (snd (billingTx L now c db)) = bd_log db @ [(now, c)]" by (simp add: s)
    then show ?thesis using assms(2) by simp
  qed
qed

lemma billed:
  assumes "be_fault e = NoFault" "\<not> ux_RunModeSimple ux" "distinct (map bu_ID (bd_users db))" "balance_of (ru_UserID i) db = Some b"
    and "c = Normalize L (buildUsageBillingCommand L (ul_RequestID ul) ul (usageBill ux i ul))"
  shows "\<exists>res db'. run_flow [e] (billUsage L ux i (ul_RequestID ul) ul (\<lambda>res. Done (f res))) db = (Done (f res), db') \<and>
    (case res of
       UsageFailed err \<Rightarrow> db' = db
     | UsageRecorded l \<Rightarrow> l = ul \<and>
         (if cmd_key c \<in> row_key ` set (all_rows db) then db' = db
          else bd_log db' = bd_log db @ [(be_now e, c)] \<and>
            balance_of (ru_UserID i) db' = Some (if uc_BalanceCost c > 0 then spend b (uc_BalanceCost c) else b)))"
    (is "\<exists>res db'. ?run = (Done (f res), db') \<and> ?P res db'")
proof (cases "uc_RequestID c = ''''")
  case True
  then show ?thesis using billUsage_run[OF assms(1,2,5), of f db]
    by (intro exI[of _ "UsageFailed ErrUsageBillingRequestIDRequired"] exI[of _ db]) simp
next
  case False
  have user: "uc_UserID c = ru_UserID i" using command_costs(1) assms(5) by simp
  show ?thesis
  proof (cases rule: billingTx_cases[of L "be_now e" c db])
    case unchanged
    let ?res = "case fst (billingTx L (be_now e) c db) of Inl err \<Rightarrow> UsageFailed err | Inr _ \<Rightarrow> UsageRecorded ul"
    have "?P ?res db" using billingTx_repeat[OF _ unchanged(1)] by (simp split: sum.split)
    with unchanged(1) show ?thesis using billUsage_run[OF assms(1,2,5), of f db] False
      by (intro exI[of _ ?res] exI[of _ db]) simp
  next
    case (applied x db2)
    let ?db' = "snd (billingTx L (be_now e) c db)"
    have "balance_of (ru_UserID i) ?db' = Some (if uc_BalanceCost c > 0 then spend b (uc_BalanceCost c) else b)"
      unfolding applied(4) balance_charged[OF applied(2) assms(3)] assms(4) by (simp add: user)
    moreover have "cmd_key c \<notin> row_key ` set (all_rows db)" using applied(3) by auto
    ultimately have "?P (UsageRecorded ul) ?db'" using applied(4) by simp
    then show ?thesis using billUsage_run[OF assms(1,2,5), of f db] False applied(1)
      by (intro exI[of _ "UsageRecorded ul"] exI[of _ ?db']) simp
  qed
qed

text \<open>
  C9: A request of the Anthropic and Gemini gateway is charged what its row in the log says, once, to the balance or
  to the subscription but not to both.  When the database works and the server is not in simple mode, recording a request
  of a user with a balance returns, and one of three things has happened: it was refused and nothing has
  changed; its key was charged before and nothing has changed; or one command is committed that takes the cost with all
  multipliers off the user's balance if it is positive, or, for a subscription, leaves the balance and carries that cost
  for the request's subscription.
\<close>

theorem recorded_request_is_charged:
  assumes "be_fault e = NoFault" and "\<not> ux_RunModeSimple ux" and "distinct (map bu_ID (bd_users db))"
    and "balance_of (ru_UserID i) db = Some b" and "ul = fst (run_state (gatewayUsageLog ux i r opts) H)"
    and "c = Normalize L (buildUsageBillingCommand L (ul_RequestID ul) ul (usageBill ux i ul))"
  shows "\<exists>res H' db'. run_flow [e] (recordUsageCore L ux i r opts H Done) db = (Done (res, H'), db') \<and>
    (case res of
       UsageFailed err \<Rightarrow> db' = db
     | UsageRecorded l \<Rightarrow> l = ul \<and>
         (if cmd_key c \<in> row_key ` set (all_rows db) then db' = db
          else bd_log db' = bd_log db @ [(be_now e, c)] \<and>
            balance_of (ru_UserID i) db' =
              Some (if onSubscription i ul \<or> cb_ActualCost (ul_cost ul) \<le> 0 then b else spend b (cb_ActualCost (ul_cost ul))) \<and>
            uc_SubscriptionCost c = (if onSubscription i ul then cb_ActualCost (ul_cost ul) else 0) \<and>
            (onSubscription i ul \<longrightarrow> uc_SubscriptionID c = map_option us_ID (ru_Subscription i))))"
proof -
  obtain H' where run: "run_state (gatewayUsageLog ux i r opts) H = (ul, H')" using assms(5) by (metis prod.collapse)
  have bc: "(if uc_BalanceCost c > 0 then spend b (uc_BalanceCost c) else b) =
      (if onSubscription i ul \<or> cb_ActualCost (ul_cost ul) \<le> 0 then b else spend b (cb_ActualCost (ul_cost ul)))"
    unfolding assms(6) command_costs by (auto simp: max_def)
  note sub = command_costs(4,5)[where ul = ul and ux = ux and i = i and L = L, folded assms(6)]
  from billed[OF assms(1-4,6), of "\<lambda>res. (res, H')"] sub show ?thesis
    unfolding recordUsageCore_def run prod.case bc by (fastforce split: record_result.splits)
qed

lemma exCharged_cost:
  "cb_ActualCost (ul_cost (fst (run_state (gatewayUsageLog exUsageCtx exUsageInput exForward exRecordOpts) []))) = 600"
  by code_simp

lemma exCharged_balance: "\<not> onSubscription exUsageInput ul" "spend 10 600 = -590"
  by (simp add: onSubscription_def isSubscriptionBilling_def exUsageInput_def) code_simp

lemma recorded_weaken:
  assumes "\<exists>res H' db'. R res H' db' \<and> (case res of UsageFailed err \<Rightarrow> F err db' | UsageRecorded l \<Rightarrow> Q l db')"
    and "\<And>l db'. Q l db' \<Longrightarrow> Q' l db'"
  shows "\<exists>res H' db'. R res H' db' \<and> (case res of UsageFailed err \<Rightarrow> F err db' | UsageRecorded l \<Rightarrow> Q' l db')"
proof -
  from assms(1) obtain res H' db' where "R res H' db'" "case res of UsageFailed err \<Rightarrow> F err db' | UsageRecorded l \<Rightarrow> Q l db'" by blast
  with assms(2) have "R res H' db' \<and> (case res of UsageFailed err \<Rightarrow> F err db' | UsageRecorded l \<Rightarrow> Q' l db')" by (cases res) auto
  then show ?thesis by blast
qed

lemma recorded_request_is_charged_witness:
  "\<exists>res H' db'. run_flow [exBillEnv 70 NoFault] (recordUsageCore exLib exUsageCtx exUsageInput exForward exRecordOpts [] Done) exBillDB =
    (Done (res, H'), db') \<and> (case res of UsageFailed err \<Rightarrow> db' = exBillDB | UsageRecorded l \<Rightarrow> balance_of 1 db' = Some (-590))"
proof -
  have ex: "be_fault (exBillEnv 70 NoFault) = NoFault" "\<not> ux_RunModeSimple exUsageCtx" "distinct (map bu_ID (bd_users exBillDB))"
    "balance_of (ru_UserID exUsageInput) exBillDB = Some 10" "all_rows exBillDB = []" "ru_UserID exUsageInput = 1"
    by (simp_all add: exBillEnv_def exUsageCtx_def exBillDB_def exUsageInput_def balance_of_def present_def all_rows_def)
  note charged = recorded_request_is_charged[where L = exLib and r = exForward and opts = exRecordOpts and H = "[]", OF ex(1-4) refl refl]
  show ?thesis
    by (rule recorded_weaken[OF charged]) (simp add: ex(5,6) exCharged_cost exCharged_balance)
qed

end
