(* ===== verification/Spec2Isabelle.thy ===== *)
theory Spec2Isabelle
  imports StreamProperties SubscriptionProperties Failover IdempotencyProperties PaymentBounds PaymentRaces UsageBillingKeys ChannelListing
    PriceChoice LongContext PriceOrder OpenAIUsageProperties UsageCharging
begin

text \<open>
  A verification development for sub2api, a gateway that resells AI model APIs.  The program is the
  Go backend under \<open>src/sub2api/backend\<close>; paths below are relative to its \<open>internal/\<close>.

  A client sends a request in the Anthropic Messages format.  The gateway checks the client's
  subscription and its usage limits, selects an upstream account, forwards the request, and on
  errors fails over to another account.  The answer, often a stream in the OpenAI Responses format,
  is converted event by event to the client's format while the token usage is recorded for billing.
  Write requests of clients and administrators are made safe to retry by idempotency keys.  Users
  pay for balance and subscriptions through payment providers, whose notifications, queries and
  refunds the gateway handles.

  \<^bold>\<open>Shared.\<close>  \<open>Prelude\<close>: 64-bit wrap-around, byte strings (prefixes, white-space trimming, UTF-8,
  decimal numerals), runs of converters and checkers, and two interfaces: \<open>conversion\<close> (one
  simulation obligation per input event gives acceptance of whole runs) and \<open>loop_budget\<close> (a
  potential that every round of a loop pays from bounds the number of rounds).  \<open>AppErrors\<close>: the
  application errors of \<open>pkg/errors\<close>.

  \<^bold>\<open>Streaming conversion.\<close>  \<open>AnthropicStream\<close> is \<open>pkg/apicompat/responses_to_anthropic.go\<close>: the
  non-streaming conversion and the state machine with one definition per handler.
  \<open>StreamProtocol\<close> and \<open>StreamGrammar\<close> hold checkers for the Anthropic event grammar and the Responses
  protocol and the simulation between them; \<open>StreamEquivalence\<close> a client that assembles a message
  from the events; \<open>MessagesStream\<close> the handler \<open>handleAnthropicStreamingResponse\<close> of
  \<open>service/openai_gateway_messages.go\<close> with its server-sent-event parser.  \<open>StreamProperties\<close> shows
  that the handler refines the converter run on the parsed events, that the stream is well formed,
  that assembling it gives the non-streaming message (for the responses both conversions treat alike), and what is billed.

  \<^bold>\<open>Failover.\<close>  \<open>Failover\<close> is \<open>handler/failover_loop.go\<close> and the account loop of
  \<open>handler/gateway_handler.go\<close>.  Which account is selected and how an attempt ends are inputs;
  the loop ends and its attempts are bounded for all of them.

  \<^bold>\<open>Subscriptions.\<close>  \<open>Subscription\<close> is \<open>service/subscription_service.go\<close> with the entity of
  \<open>service/user_subscription.go\<close> and the statements of \<open>repository/user_subscription_repo.go\<close>;
  \<open>SubscriptionProperties\<close> has the table's invariant over all interleavings of the service's
  operations and the functional behaviour of renewals, limits, windows and revocations.  Calendar
  days depend on the time zone, which is a parameter with its laws in the locale \<open>calendar_laws\<close>,
  interpreted for UTC.  Money is rational where the code uses floats.

  \<^bold>\<open>Idempotency.\<close>  \<open>IdempotencyStore\<close> is \<open>repository/idempotency_repo.go\<close>: one function per SQL
  statement, and the interface the coordinator relies on, interpreted for these statements.
  \<open>Idempotency\<close> is \<open>service/idempotency.go\<close>: \<open>Execute\<close> cut at its store calls, so that requests can
  interleave there; \<open>IdempotencyConcurrency\<close> lets any number of requests, the clock, store failures,
  crashes and the cleanup service interleave; \<open>IdempotencyInvariant\<close> proves inside the store's interface
  that two requests never hold one record.  \<open>IdempotencyHandlers\<close> runs one request to its end, with
  the handlers of \<open>handler/idempotency_helper.go\<close> and \<open>handler/admin/idempotency_helper.go\<close>.
  \<open>IdempotencyProperties\<close> has the properties: they assume that requests are on time (\<open>timely\<close>), that
  all instances read one clock, and, for successes within the time to live, that no request takes
  over a record that was renewed since it read it (\<open>steady\<close>), which the code does not ensure.

  \<^bold>\<open>Payments.\<close>  \<open>Interleaving\<close> is a small theory of concurrent handlers: a handler is a tree of atomic
  actions on a shared store, any number of them interleave, and a rely-guarantee rule (\<open>keeps\<close>, the
  locale \<open>guarded_handlers\<close>) carries an invariant through all interleavings.  \<open>PaymentStore\<close> has the tables and
  the statements on them; every statement may fail, or succeed and lose its reply.  \<open>RedeemCodes\<close> is
  \<open>service/redeem_service.go\<close> and its repository, \<open>PaymentProviders\<close> the provider of an order and
  the comparison of merchant accounts, \<open>PaymentOrders\<close> is \<open>service/payment_fulfillment.go\<close>,
  \<open>PaymentLifecycle\<close> \<open>service/payment_order_lifecycle.go\<close> and \<open>PaymentRefund\<close> \<open>service/payment_refund.go\<close>, written
  as flows in the order of the code, with the rest of the handler as a continuation.  \<open>PaymentInvariant\<close> and
  \<open>PaymentHandlers\<close> show that every handler keeps the invariant, one rule per function;
  \<open>PaymentRuns\<close> computes what one undisturbed handler achieves; \<open>PaymentProperties\<close> has the properties, and
  \<open>PaymentRaces\<close> the interleavings that go wrong.  \<open>PaymentAmounts\<close> is the arithmetic of
  \<open>payment/currency.go\<close>, \<open>payment/fee.go\<close> and \<open>service/payment_amounts.go\<close>, bounded in \<open>PaymentBounds\<close>.
  Deleting and batch-updating codes are modelled, but are not among the handlers of the invariant, which they
  break.  Amounts are exact rationals: the code compares amounts and tolerances as float64, so that exactly on the
  boundary of a tolerance it may decide otherwise; the conversions back from minor units to float64
  (\<open>MinorUnitToAmount\<close>, \<open>FenToYuan\<close>) are left out.  Extending and shortening a subscription is one step
  here, where the code issues several statements.

  \<^bold>\<open>Charging.\<close>  \<open>AccountQuota\<close> is the quota part of \<open>service/account.go\<close> and the SQL expressions of
  \<open>repository/account_repo.go\<close>: fixed and rolling periods, their reset times computed once in Go and once in
  SQL, saving an account, charging it.  Time zones are a parameter; \<open>AccountQuotaProperties\<close> states what a
  schedule of resets is in the locale \<open>reset_schedule\<close>, interpreted for UTC and proved for fixed offsets, and shows
  that for fixed periods in such zones the counters hold the charges of the current period; with daylight saving time Go and SQL
  do not compute the same reset times.  \<open>UsageBilling\<close> is \<open>service/usage_billing.go\<close>
  and \<open>repository/usage_billing_repo.go\<close>: a billing command, the transaction that claims its key and
  charges subscription, balance, API key and account, and the job that archives old keys.  Columns round to their
  decimals.  \<open>UsageBillingInvariant\<close> interprets \<open>guarded_handlers\<close> for the interleavings of these
  transactions, \<open>UsageBillingProperties\<close> shows that every request is charged once and that the tables are the
  sequential charges of the committed commands, \<open>UsageBillingKeys\<close> what callers are told, when the scheduler is told,
  and what quotas and windows of an API key count.  A user's request id longer than its column is not refused.

  \<^bold>\<open>Channels.\<close>  A channel gives groups of users their own prices, model names and restrictions.
  \<open>ChannelPricing\<close> is \<open>service/channel.go\<close> and the validation in \<open>service/channel_service.go\<close>, \<open>ChannelCache\<close> the
  cache built from all channels, the lookups in it and the list of supported models.  Go maps are association
  lists in the order of their iteration, so a result that does not depend on that order is a theorem:
  \<open>ChannelProperties\<close> shows that an accepted configuration gives a model one price and one target, \<open>ChannelListing\<close>
  that accepted intervals are disjoint and that the supported models do not depend on any order.

  \<^bold>\<open>Prices.\<close>  \<open>ModelNames\<close> has the spellings of model names (\<open>service/openai_model_alias.go\<close>, the table of
  \<open>service/openai_codex_transform.go\<close>), \<open>ModelPrices\<close> the downloaded price list and the search in it
  (\<open>service/pricing_service.go\<close>; a Go map is an association list in the order of its iteration).  \<open>BillingPrices\<close> is the first
  half of \<open>service/billing_service.go\<close> and \<open>service/model_pricing_resolver.go\<close>: the table of built-in prices, the choice
  between it, the list and the channel, intervals and request tiers.  The code passes pointers to prices and
  writes through them, so prices live in a heap (a list of objects, addresses are positions) and the operations are
  programs of the state monad; one request uses the prices at a time.  \<open>BillingCost\<close> computes costs from prices (tiers,
  long contexts, requests, images by token), \<open>ImageBilling\<close> is \<open>service/image_billing_size.go\<close> and the prices of images,
  \<open>AccountStatsCost\<close> \<open>service/account_stats_pricing.go\<close>.  \<open>PriceHeap\<close> has the rules to run these programs, \<open>PriceTyping\<close>,
  \<open>CostTyping\<close> and \<open>CostProperties\<close> that no price and no cost is negative, \<open>PriceFrames\<close> which prices they leave alone.
  \<open>PriceProperties\<close>, \<open>PriceChoice\<close>, \<open>LongContext\<close> and \<open>PriceOrder\<close> have the properties: which price applies, what it costs, that the
  order of the list does not matter for listed names, and that the built-in prices are overwritten by channels.

  \<^bold>\<open>Recording usage.\<close>  \<open>UsageRecording\<close> has the API key, group and account of a request, its rates, its row in the
  usage log, the billing command made from it and the call of the billing repository; \<open>UsageGateways\<close> the functions \<open>RecordUsage\<close>
  of \<open>service/gateway_service.go\<close> and \<open>service/openai_gateway_service.go\<close> with the choice of the billed model.  The services are
  assumed to have a billing repository, a price resolver and a configuration; the older path without the
  repository (\<open>postUsageBilling\<close>), writing the row, updating caches and notifications are left out, and what the
  environment answers (rates of users, clock, run mode) is the record \<open>usage_ctx\<close>.  \<open>OpenAIUsageProperties\<close> shows that a request is
  recorded even if it has no price, \<open>UsageCharging\<close> that what is charged is what the row says.  Costs are exact
  rationals where the code uses float64.

  \<^bold>\<open>Bounds.\<close>  Loops are recursions over their inputs (the lines received, the rounds driven), and the
  termination theorems say after how many inputs a loop has ended.  Only the archiving job runs on fuel, the
  number of statements it may issue; one more than there are full batches of old keys is enough.

  \<^bold>\<open>Not modelled.\<close>  Upstream HTTP, account selection and scheduling, the WebSocket forwarder, caches,
  authentication, settings and administration, reporting, the other format converters, order creation,
  the payment providers' protocols, platform quotas and the balance checks before a request
  (\<open>service/billing_cache_service.go\<close>, which also refuses a request at its subscription limits), the download of the price list.  JSON encoding and decoding, SHA-256, log redaction and decimal numerals are parameters
  of the definitions that use them.  The planned next component is order creation.
\<close>

end
